(* ===== verification/GM_Prelude.thy ===== *)
theory GM_Prelude
  imports Main "HOL-Library.Multiset" "HOL-Library.Word" "HOL-Library.AList"
    "HOL-Library.Char_ord" "HOL-Library.List_Lexorder"
begin

text \<open>
  The vocabulary the components share: Go's 64-bit integers, Go maps as association lists,
  comparators in the style of \<^verbatim>\<open>slices.SortFunc\<close> with the locale of comparators that order
  their arguments totally, and the generic lemmas on lists the component proofs use.
\<close>

named_theorems go_defs \<open>definitions of small source helpers, unfolded by most proofs\<close>

section \<open>Machine integers\<close>

text \<open>Go's \<open>int\<close> and \<open>int64\<close> wrap at 64 bits; the model keeps them as \<open>int\<close> and wraps
  explicitly where the code subtracts or multiplies without a bound.\<close>

definition wrap64 :: "int \<Rightarrow> int" where
  "wrap64 x = (x + 2 ^ 63) mod 2 ^ 64 - 2 ^ 63"

definition int64_range :: "int \<Rightarrow> bool" where
  "int64_range x \<longleftrightarrow> - (2 ^ 63) \<le> x \<and> x < 2 ^ 63"

lemma wrap64_id [simp]: "int64_range x \<Longrightarrow> wrap64 x = x"
  by (simp add: wrap64_def int64_range_def)

lemma wrap64_range: "int64_range (wrap64 x)"
  using pos_mod_bound [of "2 ^ 64" "x + 2 ^ 63"] pos_mod_sign [of "2 ^ 64" "x + 2 ^ 63"]
  by (simp add: wrap64_def int64_range_def)

text \<open>The three-way comparison \<^verbatim>\<open>cmp.Compare\<close>, also \<^verbatim>\<open>bytes.Compare\<close> on arrays of one length.\<close>

definition cmp3 :: "'a::linorder \<Rightarrow> 'a \<Rightarrow> int" where
  "cmp3 a b = (if a < b then -1 else if b < a then 1 else 0)"

lemma cmp3_simps [simp]:
  "cmp3 a b < 0 \<longleftrightarrow> a < b" "0 < cmp3 a b \<longleftrightarrow> b < a" "cmp3 a b = 0 \<longleftrightarrow> a = b"
  "cmp3 a b \<le> 0 \<longleftrightarrow> a \<le> b"
  by (auto simp: cmp3_def)

section \<open>Go maps\<close>

text \<open>
  A Go map is an association list with distinct keys. The order of the list stands for the
  iteration order of one \<open>range\<close> loop, which Go leaves open.
\<close>

abbreviation m_put :: "'k \<Rightarrow> 'v \<Rightarrow> ('k \<times> 'v) list \<Rightarrow> ('k \<times> 'v) list" where
  "m_put \<equiv> AList.update"

abbreviation m_del :: "'k \<Rightarrow> ('k \<times> 'v) list \<Rightarrow> ('k \<times> 'v) list" where
  "m_del \<equiv> AList.delete"

definition m_ok :: "('k \<times> 'v) list \<Rightarrow> bool" where
  "m_ok m \<longleftrightarrow> distinct (map fst m)"

lemma m_ok_Nil [simp]: "m_ok []"
  by (simp add: m_ok_def)

lemma m_ok_put [simp]: "m_ok m \<Longrightarrow> m_ok (m_put k v m)"
  by (simp add: m_ok_def distinct_update)

lemma m_ok_del [simp]: "m_ok m \<Longrightarrow> m_ok (m_del k m)"
  by (simp add: m_ok_def distinct_delete)

lemma map_of_put: "map_of (m_put k v m) k' = (if k' = k then Some v else map_of m k')"
  by (simp add: update_conv')

lemma map_of_del: "map_of (m_del k m) k' = (if k' = k then None else map_of m k')"
  by (simp add: delete_conv')

lemmas m_simps [simp] = map_of_put map_of_del

text \<open>Reading a missing key of a map of slices gives the nil slice.\<close>

definition m_list :: "('k \<times> 'v list) list \<Rightarrow> 'k \<Rightarrow> 'v list" where
  "m_list m k = (case map_of m k of None \<Rightarrow> [] | Some xs \<Rightarrow> xs)"

lemma m_list_Nil [simp]: "m_list [] k = []"
  by (simp add: m_list_def)

lemma m_list_put [simp]: "m_list (m_put k xs m) k' = (if k' = k then xs else m_list m k')"
  by (simp add: m_list_def)

lemma m_list_del [simp]: "m_list (m_del k m) k' = (if k' = k then [] else m_list m k')"
  by (simp add: m_list_def)

lemma m_ok_set_iff: "m_ok m \<Longrightarrow> (k, v) \<in> set m \<longleftrightarrow> map_of m k = Some v"
  by (auto simp: m_ok_def)

section \<open>Comparators\<close>

definition sorted_func :: "('a \<Rightarrow> 'a \<Rightarrow> int) \<Rightarrow> 'a list \<Rightarrow> bool" where
  "sorted_func cmp xs \<longleftrightarrow> sorted_wrt (\<lambda>a b. cmp a b \<le> 0) xs"

fun insert_func :: "('a \<Rightarrow> 'a \<Rightarrow> int) \<Rightarrow> 'a \<Rightarrow> 'a list \<Rightarrow> 'a list" where
  "insert_func cmp x [] = [x]"
| "insert_func cmp x (y # ys) = (if cmp x y \<le> 0 then x # y # ys else y # insert_func cmp x ys)"

text \<open>
  \<^verbatim>\<open>slices.SortFunc\<close> gives some sorted permutation. The model picks the one insertion sort
  computes; \<open>sorted_unique\<close> below shows that under a total order with distinct keys there is no
  other, so the choice does not matter there.
\<close>

fun sort_func :: "('a \<Rightarrow> 'a \<Rightarrow> int) \<Rightarrow> 'a list \<Rightarrow> 'a list" where
  "sort_func cmp [] = []"
| "sort_func cmp (x # xs) = insert_func cmp x (sort_func cmp xs)"

lemma mset_insert_func [simp]: "mset (insert_func cmp x xs) = add_mset x (mset xs)"
  by (induction xs) auto

lemma mset_sort_func [simp]: "mset (sort_func cmp xs) = mset xs"
  by (induction xs) auto

lemma set_insert_func [simp]: "set (insert_func cmp x xs) = insert x (set xs)"
  by (metis mset_insert_func set_mset_add_mset_insert set_mset_mset)

lemma set_sort_func [simp]: "set (sort_func cmp xs) = set xs"
  by (metis mset_sort_func set_mset_mset)

lemma length_sort_func [simp]: "length (sort_func cmp xs) = length xs"
  by (metis mset_sort_func size_mset)

lemma distinct_sort_func [simp]: "distinct (sort_func cmp xs) = distinct xs"
  by (rule mset_eq_imp_distinct_iff) simp

lemma distinct_map_sort_func [simp]: "distinct (map f (sort_func cmp xs)) = distinct (map f xs)"
  by (rule mset_eq_imp_distinct_iff) simp

lemma sort_func_eq_Nil [simp]: "sort_func cmp xs = [] \<longleftrightarrow> xs = []"
  by (metis length_0_conv length_sort_func)

locale comparator =
  fixes cmp :: "'a \<Rightarrow> 'a \<Rightarrow> int"
    and ok :: "'a \<Rightarrow> bool"
  assumes cmp_sym: "ok a \<Longrightarrow> ok b \<Longrightarrow> cmp a b < 0 \<longleftrightarrow> 0 < cmp b a"
    and cmp_trans: "ok a \<Longrightarrow> ok b \<Longrightarrow> ok c \<Longrightarrow> cmp a b \<le> 0 \<Longrightarrow> cmp b c \<le> 0 \<Longrightarrow> cmp a c \<le> 0"
begin

lemma cmp_refl: "ok a \<Longrightarrow> cmp a a = 0"
  using cmp_sym [of a a] by linarith

lemma cmp_antisym: "ok a \<Longrightarrow> ok b \<Longrightarrow> cmp a b \<le> 0 \<Longrightarrow> cmp b a \<le> 0 \<Longrightarrow> cmp a b = 0"
  using cmp_sym [of a b] by (cases "cmp a b < 0") auto

lemma cmp_total: "ok a \<Longrightarrow> ok b \<Longrightarrow> cmp a b \<le> 0 \<or> cmp b a \<le> 0"
  using cmp_sym [of a b] cmp_sym [of b a] by linarith

lemma sorted_insert:
  "\<lbrakk> ok x; \<forall>y\<in>set xs. ok y; sorted_func cmp xs \<rbrakk> \<Longrightarrow> sorted_func cmp (insert_func cmp x xs)"
proof (induction xs)
  case Nil
  then show ?case by (simp add: sorted_func_def)
next
  case (Cons y ys)
  show ?case
  proof (cases "cmp x y \<le> 0")
    case True
    have "cmp x z \<le> 0" if "z \<in> set ys" for z
      using Cons.prems that True by (auto simp: sorted_func_def intro: cmp_trans [of x y z])
    with Cons.prems True show ?thesis by (simp add: sorted_func_def)
  next
    case False
    with Cons.prems cmp_total [of x y] have "cmp y x \<le> 0" by auto
    with Cons show ?thesis using False by (auto simp: sorted_func_def)
  qed
qed

lemma sorted_sort: "\<forall>x\<in>set xs. ok x \<Longrightarrow> sorted_func cmp (sort_func cmp xs)"
  by (induction xs) (auto simp: sorted_insert, simp add: sorted_func_def)

end

locale key_comparator = comparator cmp ok
  for cmp :: "'a \<Rightarrow> 'a \<Rightarrow> int" and ok :: "'a \<Rightarrow> bool" +
  fixes key :: "'a \<Rightarrow> 'k"
  assumes cmp_key: "ok a \<Longrightarrow> ok b \<Longrightarrow> cmp a b = 0 \<Longrightarrow> key a = key b"
begin

text \<open>Two sorted lists with the same elements and distinct keys are the same list.\<close>

lemma sorted_unique:
  "\<lbrakk> \<forall>x\<in>set xs. ok x; distinct (map key xs); sorted_func cmp xs; sorted_func cmp ys;
     mset xs = mset ys \<rbrakk> \<Longrightarrow> xs = ys"
proof (induction xs arbitrary: ys)
  case Nil
  then show ?case by simp
next
  case (Cons x xs)
  then obtain y ys' where ys: "ys = y # ys'"
    by (cases ys) auto
  have sets: "set ys = set (x # xs)"
    using Cons.prems(5) by (metis set_mset_mset)
  have "x = y"
  proof (rule ccontr)
    assume "x \<noteq> y"
    with sets ys have "y \<in> set xs" "x \<in> set ys'" by auto
    with Cons.prems ys have "cmp x y \<le> 0" "cmp y x \<le> 0" "ok x" "ok y"
      by (auto simp: sorted_func_def)
    then have "cmp x y = 0" using cmp_antisym by blast
    with cmp_key \<open>ok x\<close> \<open>ok y\<close> have "key x = key y" by blast
    with \<open>y \<in> set xs\<close> Cons.prems(2) show False by auto
  qed
  moreover have "xs = ys'"
    by (rule Cons.IH) (use Cons.prems ys \<open>x = y\<close> in \<open>auto simp: sorted_func_def\<close>)
  ultimately show ?case using ys by simp
qed

lemma sort_unique:
  "\<lbrakk> \<forall>x\<in>set xs. ok x; distinct (map key xs); mset xs = mset ys \<rbrakk>
   \<Longrightarrow> sort_func cmp xs = sort_func cmp ys"
  by (rule sorted_unique) (auto simp: sorted_sort dest: mset_eq_setD)

lemma sort_sorted_id:
  "\<lbrakk> \<forall>x\<in>set xs. ok x; distinct (map key xs); sorted_func cmp xs \<rbrakk> \<Longrightarrow> sort_func cmp xs = xs"
  by (rule sorted_unique) (auto simp: sorted_sort)

lemma sort_head_least:
  assumes "\<forall>x\<in>set xs. ok x" and "sort_func cmp xs = y # ys" and "x \<in> set xs"
  shows "cmp y x \<le> 0"
proof -
  have "sorted_func cmp (y # ys)"
    using sorted_sort [OF assms(1)] assms(2) by simp
  moreover have "x = y \<or> x \<in> set ys"
    using assms(2,3) set_sort_func [of cmp xs] by auto
  moreover have "ok y"
    using assms(1,2) set_sort_func [of cmp xs] by auto
  ultimately show ?thesis
    using cmp_refl [of y] by (auto simp: sorted_func_def)
qed

end

end
