(* ===== verification/Path_Match.thy ===== *)
theory Path_Match
  imports Go_Strings
begin

text \<open>
  UTF-8 decoding as \<^verbatim>\<open>unicode/utf8\<close> does it (an invalid byte is the replacement rune, of width
  one) and the glob matcher \<^verbatim>\<open>path.Match\<close> of Go's standard library, which the stub matcher
  calls. Its callers treat a malformed pattern and a failed match alike, so both are
  \<open>False\<close>/\<open>None\<close> here.
\<close>

section \<open>UTF-8\<close>

abbreviation byte :: "char \<Rightarrow> nat" where
  "byte c \<equiv> of_char c"

definition is_cont :: "nat \<Rightarrow> nat \<Rightarrow> char \<Rightarrow> bool" where
  "is_cont lo hi c \<longleftrightarrow> lo \<le> byte c \<and> byte c \<le> hi"

definition rune_error :: nat where
  "rune_error = 0xFFFD"

text \<open>\<^verbatim>\<open>utf8.DecodeRuneInString\<close>: the first rune and its width.\<close>

definition decode_rune2 :: "nat \<Rightarrow> string \<Rightarrow> nat \<times> nat" where
  "decode_rune2 b0 s =
     (case s of
        b1 # _ \<Rightarrow> if is_cont 0x80 0xBF b1 then ((b0 - 0xC0) * 64 + (byte b1 - 0x80), 2)
                  else (rune_error, 1)
      | [] \<Rightarrow> (rune_error, 1))"

definition decode_rune3 :: "nat \<Rightarrow> string \<Rightarrow> nat \<times> nat" where
  "decode_rune3 b0 s =
     (case s of
        b1 # b2 # _ \<Rightarrow>
          if is_cont (if b0 = 0xE0 then 0xA0 else 0x80) (if b0 = 0xED then 0x9F else 0xBF) b1
             \<and> is_cont 0x80 0xBF b2
          then ((b0 - 0xE0) * 4096 + (byte b1 - 0x80) * 64 + (byte b2 - 0x80), 3)
          else (rune_error, 1)
      | _ \<Rightarrow> (rune_error, 1))"

definition decode_rune4 :: "nat \<Rightarrow> string \<Rightarrow> nat \<times> nat" where
  "decode_rune4 b0 s =
     (case s of
        b1 # b2 # b3 # _ \<Rightarrow>
          if is_cont (if b0 = 0xF0 then 0x90 else 0x80) (if b0 = 0xF4 then 0x8F else 0xBF) b1
             \<and> is_cont 0x80 0xBF b2 \<and> is_cont 0x80 0xBF b3
          then ((b0 - 0xF0) * 262144 + (byte b1 - 0x80) * 4096 + (byte b2 - 0x80) * 64
                + (byte b3 - 0x80), 4)
          else (rune_error, 1)
      | _ \<Rightarrow> (rune_error, 1))"

definition decode_rune :: "string \<Rightarrow> nat \<times> nat" where
  "decode_rune s =
     (case s of
        [] \<Rightarrow> (rune_error, 0)
      | c # r \<Rightarrow>
          (let b0 = byte c in
           if b0 < 0x80 then (b0, 1)
           else if 0xC2 \<le> b0 \<and> b0 \<le> 0xDF then decode_rune2 b0 r
           else if 0xE0 \<le> b0 \<and> b0 \<le> 0xEF then decode_rune3 b0 r
           else if 0xF0 \<le> b0 \<and> b0 \<le> 0xF4 then decode_rune4 b0 r
           else (rune_error, 1)))"

lemma decode_rune_ascii: "byte c < 128 \<Longrightarrow> decode_rune (c # s) = (byte c, 1)"
  by (simp add: decode_rune_def)

lemma decode_rune_width: "s \<noteq> [] \<Longrightarrow> 1 \<le> snd (decode_rune s)"
  by (auto simp: decode_rune_def decode_rune2_def decode_rune3_def decode_rune4_def Let_def
           split: list.splits)

text \<open>\<^verbatim>\<open>[]rune(s)\<close>.\<close>

function runes :: "string \<Rightarrow> nat list" where
  "runes s = (if s = [] then [] else fst (decode_rune s) # runes (drop (snd (decode_rune s)) s))"
  by pat_completeness auto
termination
  by (relation "measure length") (use decode_rune_width in fastforce)+

declare runes.simps [simp del]

lemma runes_ascii: "\<forall>c\<in>set s. byte c < 128 \<Longrightarrow> runes s = map byte s"
proof (induction s)
  case Nil
  then show ?case by (simp add: runes.simps)
next
  case (Cons c s)
  then show ?case by (subst runes.simps) (simp add: decode_rune_ascii)
qed

text \<open>The width \<^verbatim>\<open>utf8.DecodeLastRuneInString\<close> reports: the last byte if it is ASCII, else the
  longest suffix of at most four bytes that starts a rune and is exactly that rune, else 1.\<close>

definition rune_start :: "char \<Rightarrow> bool" where
  "rune_start c \<longleftrightarrow> \<not> is_cont 0x80 0xBF c"

fun last_rune_start :: "nat \<Rightarrow> nat \<Rightarrow> string \<Rightarrow> nat option" where
  \<comment> \<open>reversed string: position from the end of the nearest byte that can start a rune\<close>
  "last_rune_start 0 n r = None"
| "last_rune_start (Suc k) n [] = None"
| "last_rune_start (Suc k) n (c # r) =
     (if rune_start c then Some n else last_rune_start k (Suc n) r)"

definition decode_last_width :: "string \<Rightarrow> nat" where
  "decode_last_width s =
     (if s = [] then 0
      else if byte (last s) < 0x80 then 1
      else case last_rune_start 4 1 (rev s) of
             None \<Rightarrow> 1
           | Some n \<Rightarrow> if snd (decode_rune (drop (length s - n) s)) = n then n else 1)"

section \<open>path.Match\<close>

definition get_esc :: "string \<Rightarrow> (nat \<times> string) option" where
  "get_esc chunk =
     (case chunk of
        [] \<Rightarrow> None
      | c # r \<Rightarrow>
          if c = CHR ''-'' \<or> c = CHR '']'' then None
          else (let ch = (if c = CHR 0x5C then r else chunk) in
                if ch = [] then None
                else (let (x, n) = decode_rune ch in
                      if (x = rune_error \<and> n = 1) \<or> drop n ch = [] then None
                      else Some (x, drop n ch))))"

lemma get_esc_shorter: "get_esc ch = Some (x, ch') \<Longrightarrow> length ch' < length ch"
proof -
  assume a: "get_esc ch = Some (x, ch')"
  then obtain c r where ch: "ch = c # r"
    by (cases ch) (auto simp: get_esc_def)
  define d where "d = (if c = CHR 0x5C then r else ch)"
  from a ch have d: "d \<noteq> []" "ch' = drop (snd (decode_rune d)) d"
    by (auto simp: get_esc_def d_def Let_def split: if_splits prod.splits)
  then have "length ch' < length d"
    using decode_rune_width [of d] by (cases d) auto
  moreover have "length d \<le> length ch"
    by (simp add: d_def ch)
  ultimately show ?thesis by simp
qed

text \<open>The ranges of a character class: whether the rune is in one of them, and the rest.\<close>

function class_ranges :: "nat \<Rightarrow> nat \<Rightarrow> bool \<Rightarrow> string \<Rightarrow> (bool \<times> string) option" where
  "class_ranges r nrange m chunk =
     (if nrange > 0 \<and> chunk \<noteq> [] \<and> hd chunk = CHR '']'' then Some (m, tl chunk)
      else case get_esc chunk of
             None \<Rightarrow> None
           | Some (lo, c1) \<Rightarrow>
               if hd c1 = CHR ''-'' then
                 (case get_esc (tl c1) of
                    None \<Rightarrow> None
                  | Some (hi, c2) \<Rightarrow> class_ranges r (Suc nrange) (m \<or> (lo \<le> r \<and> r \<le> hi)) c2)
               else class_ranges r (Suc nrange) (m \<or> lo = r) c1)"
  by pat_completeness auto
termination
  by (relation "measure (\<lambda>(r, n, m, c). length c)") (force dest: get_esc_shorter)+

declare class_ranges.simps [simp del]

lemma class_ranges_shorter: "class_ranges r n m ch = Some (b, ch') \<Longrightarrow> length ch' < length ch"
proof (induction r n m ch rule: class_ranges.induct)
  case (1 r n m ch)
  note step = class_ranges.simps [of r n m ch]
  show ?case
  proof (cases "n > 0 \<and> ch \<noteq> [] \<and> hd ch = CHR '']''")
    case True
    with "1.prems" step show ?thesis by (cases ch) auto
  next
    case False
    with "1.prems" step obtain lo c1 where e: "get_esc ch = Some (lo, c1)"
      by (auto split: option.splits simp del: class_ranges.simps)
    note l1 = get_esc_shorter [OF e]
    show ?thesis
    proof (cases "hd c1 = CHR ''-''")
      case True
      with "1.prems" step False e obtain hi c2 where e2: "get_esc (tl c1) = Some (hi, c2)"
        by (auto split: option.splits)
      with "1.prems" step False e True
      have "class_ranges r (Suc n) (m \<or> (lo \<le> r \<and> r \<le> hi)) c2 = Some (b, ch')"
        by simp
      with "1.IH"(1) False e e2 True have "length ch' < length c2" by blast
      with get_esc_shorter [OF e2] l1 show ?thesis by (cases c1) auto
    next
      case hd: False
      with "1.prems" step False e
      have "class_ranges r (Suc n) (m \<or> lo = r) c1 = Some (b, ch')" by simp
      with "1.IH"(2) False e hd have "length ch' < length c1" by blast
      with l1 show ?thesis by simp
    qed
  qed
qed

text \<open>\<^verbatim>\<open>matchChunk\<close>: the rest of the name after the chunk, \<open>None\<close> if the chunk does not match.\<close>

function match_chunk :: "string \<Rightarrow> string \<Rightarrow> string option" where
  "match_chunk [] s = Some s"
| "match_chunk (c # chunk) s =
     (if s = [] then None
      else if c = CHR ''['' then
        (let neg = (chunk \<noteq> [] \<and> hd chunk = CHR ''^'') in
         case class_ranges (fst (decode_rune s)) 0 False (if neg then tl chunk else chunk) of
           None \<Rightarrow> None
         | Some (m, rest) \<Rightarrow>
             if m = neg then None else match_chunk rest (drop (snd (decode_rune s)) s))
      else if c = CHR ''?'' then
        (if hd s = CHR ''/'' then None else match_chunk chunk (drop (snd (decode_rune s)) s))
      else if c = CHR 0x5C then
        (case chunk of
           [] \<Rightarrow> None
         | d # chunk' \<Rightarrow> if d = hd s then match_chunk chunk' (tl s) else None)
      else if c = hd s then match_chunk chunk (tl s) else None)"
  by pat_completeness auto
termination
proof (relation "measure (\<lambda>(c, s). length c)", goal_cases)
  case (2 c chunk s neg x m rest)
  then have "class_ranges (fst (decode_rune s)) 0 False (if neg then tl chunk else chunk)
      = Some (m, rest)" by simp
  from class_ranges_shorter [OF this] show ?case
    by (cases chunk) (auto split: if_splits)
qed auto

fun scan_body :: "bool \<Rightarrow> string \<Rightarrow> string \<times> string" where
  "scan_body inrange [] = ([], [])"
| "scan_body inrange (c # p) =
     (if c = CHR 0x5C then
        (case p of
           [] \<Rightarrow> ([c], [])
         | d # q \<Rightarrow> (let (a, b) = scan_body inrange q in (c # d # a, b)))
      else if c = CHR ''*'' \<and> \<not> inrange then ([], c # p)
      else (let (a, b) = scan_body (if c = CHR ''['' then True
                                    else if c = CHR '']'' then False else inrange) p
            in (c # a, b)))"

definition scan_chunk :: "string \<Rightarrow> bool \<times> string \<times> string" where
  "scan_chunk p =
     (let q = dropWhile (\<lambda>c. c = CHR ''*'') p in (length q < length p, scan_body False q))"

lemma scan_body_append: "fst (scan_body b p) @ snd (scan_body b p) = p"
proof (induction b p rule: scan_body.induct)
  case (1 b)
  then show ?case by simp
next
  case (2 b c p)
  show ?case
  proof (cases "c = CHR 0x5C")
    case True
    with 2(1) show ?thesis by (simp add: split_def Let_def split: list.splits)
  next
    case False
    with 2(2) show ?thesis by (simp add: split_def Let_def)
  qed
qed

lemma scan_body_shorter: "length (snd (scan_body b p)) \<le> length p"
  by (metis scan_body_append le_add2 length_append)

lemma scan_body_progress:
  assumes "c \<noteq> CHR ''*''"
  shows "length (snd (scan_body b (c # p))) < length (c # p)"
proof (cases "c = CHR 0x5C")
  case True
  then show ?thesis
    using scan_body_shorter [of b "tl p"]
    by (auto simp: split_def Let_def le_imp_less_Suc le_SucI split: list.splits)
next
  case False
  with assms show ?thesis
    using scan_body_shorter by (simp add: split_def Let_def le_imp_less_Suc)
qed

lemma scan_chunk_shorter:
  assumes "p \<noteq> []"
  shows "length (snd (snd (scan_chunk p))) < length p"
proof (cases "hd p = CHR ''*''")
  case True
  let ?q = "dropWhile (\<lambda>c. c = CHR ''*'') p"
  from True assms have "length ?q < length p"
    by (cases p) (simp_all add: le_imp_less_Suc length_dropWhile_le)
  with scan_body_shorter [of False ?q] show ?thesis
    by (simp add: scan_chunk_def Let_def)
next
  case False
  with assms obtain c q where p: "p = c # q" "c \<noteq> CHR ''*''"
    by (cases p) simp_all
  with scan_body_progress [of c False q] show ?thesis
    by (simp add: scan_chunk_def Let_def)
qed

text \<open>Where a star may let the chunk start: at once, or after some bytes none of which is a slash.\<close>

fun star_match :: "bool \<Rightarrow> string \<Rightarrow> string \<Rightarrow> string option" where
  "star_match lst chunk [] = None"
| "star_match lst chunk (c # s) =
     (if c = CHR ''/'' then None
      else case match_chunk chunk s of
             Some t \<Rightarrow> if lst \<and> t \<noteq> [] then star_match lst chunk s else Some t
           | None \<Rightarrow> star_match lst chunk s)"

function path_match :: "string \<Rightarrow> string \<Rightarrow> bool" where
  "path_match p name =
     (if p = [] then name = []
      else (let star = fst (scan_chunk p); chunk = fst (snd (scan_chunk p));
                rest = snd (snd (scan_chunk p)) in
            if star \<and> chunk = [] then CHR ''/'' \<notin> set name
            else case match_chunk chunk name of
                   Some t \<Rightarrow>
                     if t = [] \<or> rest \<noteq> [] then path_match rest t
                     else (case (if star then star_match True chunk name else None) of
                             Some t' \<Rightarrow> path_match rest t' | None \<Rightarrow> False)
                 | None \<Rightarrow>
                     (case (if star then star_match (rest = []) chunk name else None) of
                        Some t' \<Rightarrow> path_match rest t' | None \<Rightarrow> False)))"
  by pat_completeness auto
termination
  by (relation "measure (\<lambda>(p, n). length p)") (use scan_chunk_shorter in auto)

declare path_match.simps [simp del]

section \<open>Patterns without metacharacters match themselves only\<close>

definition glob_plain :: "char \<Rightarrow> bool" where
  "glob_plain c \<longleftrightarrow> c \<notin> {CHR ''*'', CHR ''?'', CHR ''['', CHR '']'', CHR 0x5C}"

lemma scan_body_plain: "\<forall>c\<in>set p. glob_plain c \<Longrightarrow> scan_body False p = (p, [])"
  by (induction p) (auto simp: glob_plain_def)

lemma match_chunk_plain:
  "\<forall>c\<in>set p. glob_plain c \<Longrightarrow>
   match_chunk p s = (if has_prefix s p then Some (drop (length p) s) else None)"
proof (induction p arbitrary: s)
  case Nil
  then show ?case by (cases s) simp_all
next
  case (Cons c p)
  then show ?case by (cases s) (auto simp: glob_plain_def)
qed

lemma path_match_plain:
  assumes "\<forall>c\<in>set p. glob_plain c"
  shows "path_match p s \<longleftrightarrow> p = s"
proof (cases "p = []")
  case True
  then show ?thesis by (auto simp: path_match.simps)
next
  case False
  with assms have "hd p \<noteq> CHR ''*''"
    by (cases p) (auto simp: glob_plain_def)
  with False have "dropWhile (\<lambda>c. c = CHR ''*'') p = p"
    by (cases p) auto
  with assms have "scan_chunk p = (False, p, [])"
    by (simp add: scan_chunk_def scan_body_plain)
  with False assms show ?thesis
    by (subst path_match.simps)
      (auto simp: match_chunk_plain path_match.simps [of "[]"] has_prefix_iff)
qed

end
