(* ===== verification/Go_Value.thy ===== *)
theory Go_Value
  imports Complex_Main Path_Match
begin

text \<open>
  The dynamic values of the program: what a Go \<open>any\<close> holds after JSON or YAML decoding, after
  the conversion of a protobuf message (\<^verbatim>\<open>internal/app/convert.go\<close>) or in a stub built in Go.
  Inside such a value a map or slice is never nil (decoders and the converter allocate them);
  the fields of a stub may be nil maps and are options. \<open>float64\<close> values and scores are exact
  rationals: rounding is modelled where an integer becomes a float, not in the sums of scores.
\<close>

section \<open>Values\<close>

datatype gvalue =
    VNil
  | VBool bool
  | VInt int
  | VInt64 int
  | VUint32 int
  | VUint64 int
  | VFloat rat
  | VNumber string
  | VString string
  | VList "gvalue list"
  | VMap "(string \<times> gvalue) list"

type_synonym gmap = "(string \<times> gvalue) list"

text \<open>A map that may be nil; \<open>len\<close>, lookup and \<open>range\<close> read a nil map as an empty one.\<close>

type_synonym gomap = "gmap option"

definition entries :: "gomap \<Rightarrow> gmap" where
  "entries m = (case m of None \<Rightarrow> [] | Some xs \<Rightarrow> xs)"

definition mlen :: "gomap \<Rightarrow> nat" where
  "mlen m = length (entries m)"

lemma entries_simps [simp]: "entries None = []" "entries (Some xs) = xs"
  by (simp_all add: entries_def)

lemma mlen_simps [simp]: "mlen None = 0" "mlen (Some xs) = length xs"
  by (simp_all add: mlen_def)

lemma mlen_0_iff [simp]: "mlen m = 0 \<longleftrightarrow> entries m = []"
  by (simp add: mlen_def)

text \<open>The dynamic type of a value, \<^verbatim>\<open>reflect.TypeOf\<close>.\<close>

datatype gotype = TNil | TBool | TInt | TInt64 | TUint32 | TUint64 | TFloat | TNumber | TString
  | TList | TMap

fun type_of :: "gvalue \<Rightarrow> gotype" where
  "type_of VNil = TNil"
| "type_of (VBool _) = TBool"
| "type_of (VInt _) = TInt"
| "type_of (VInt64 _) = TInt64"
| "type_of (VUint32 _) = TUint32"
| "type_of (VUint64 _) = TUint64"
| "type_of (VFloat _) = TFloat"
| "type_of (VNumber _) = TNumber"
| "type_of (VString _) = TString"
| "type_of (VList _) = TList"
| "type_of (VMap _) = TMap"

lemma type_of_TNil [simp]: "type_of v = TNil \<longleftrightarrow> v = VNil" "TNil = type_of v \<longleftrightarrow> v = VNil"
  by (cases v; simp)+

text \<open>Maps of a well-formed value have distinct keys at every depth.\<close>

fun gvalue_ok :: "gvalue \<Rightarrow> bool" where
  "gvalue_ok (VList xs) = list_all gvalue_ok xs"
| "gvalue_ok (VMap m) = (m_ok m \<and> list_all (\<lambda>kv. gvalue_ok (snd kv)) m)"
| "gvalue_ok _ = True"

lemma size_map_value [termination_simp]:
  "(k, v) \<in> set m \<Longrightarrow> size v < Suc (size_list (size_prod (\<lambda>_. 0) size) m)"
  by (induction m) auto

lemma size_list_value [termination_simp]: "v \<in> set xs \<Longrightarrow> size v < Suc (size_list size xs)"
  by (induction xs) auto

section \<open>reflect.DeepEqual\<close>

text \<open>
  \<^verbatim>\<open>deepEqual\<close> of \<^verbatim>\<open>deeply/common.go\<close> is this function: it recurses into maps and slices
  itself and calls \<^verbatim>\<open>reflect.DeepEqual\<close> on everything else.
\<close>

definition map_any_equal :: "(gvalue \<Rightarrow> gvalue \<Rightarrow> bool) \<Rightarrow> gmap \<Rightarrow> gvalue \<Rightarrow> bool" where
  "map_any_equal eq expect actual =
     (case actual of
        VMap right \<Rightarrow>
          length expect = length right \<and>
          list_all (\<lambda>kv. case map_of right (fst kv) of None \<Rightarrow> False | Some w \<Rightarrow> eq (snd kv) w) expect
      | _ \<Rightarrow> False)"

definition slice_any_equal :: "(gvalue \<Rightarrow> gvalue \<Rightarrow> bool) \<Rightarrow> gvalue list \<Rightarrow> gvalue \<Rightarrow> bool" where
  "slice_any_equal eq expect actual =
     (case actual of VList right \<Rightarrow> list_all2 eq expect right | _ \<Rightarrow> False)"

lemma map_any_equal_cong [fundef_cong]:
  assumes "expect = expect'" and "actual = actual'"
    and "\<And>k v w. (k, v) \<in> set expect' \<Longrightarrow> eq v w = eq' v w"
  shows "map_any_equal eq expect actual = map_any_equal eq' expect' actual'"
  using assms
  by (auto simp: map_any_equal_def list_all_iff split: gvalue.splits option.splits)

lemma slice_any_equal_cong [fundef_cong]:
  assumes "expect = expect'" and "actual = actual'"
    and "\<And>v w. v \<in> set expect' \<Longrightarrow> eq v w = eq' v w"
  shows "slice_any_equal eq expect actual = slice_any_equal eq' expect' actual'"
  using assms
  by (auto simp: slice_any_equal_def list_all2_conv_all_nth split: gvalue.splits)

fun deep_equal :: "gvalue \<Rightarrow> gvalue \<Rightarrow> bool" where
  "deep_equal (VMap left) actual = map_any_equal deep_equal left actual"
| "deep_equal (VList left) actual = slice_any_equal deep_equal left actual"
| "deep_equal expect actual = (expect = actual)"

lemma deep_equal_refl: "gvalue_ok v \<Longrightarrow> deep_equal v v"
proof (induction v)
  case (VList xs)
  then show ?case
    by (auto simp: slice_any_equal_def list_all_iff intro: list.rel_refl_strong)
next
  case (VMap m)
  have "deep_equal v v" if "(k, v) \<in> set m" for k v
    using VMap that by (force simp: list_all_iff)
  with VMap.prems show ?case
    by (auto simp: map_any_equal_def list_all_iff m_ok_set_iff split: option.splits)
qed auto

section \<open>Numbers as floats\<close>

fun bit_length :: "nat \<Rightarrow> nat" where
  "bit_length n = (if n = 0 then 0 else Suc (bit_length (n div 2)))"

declare bit_length.simps [simp del]

text \<open>\<^verbatim>\<open>float64(n)\<close> of an integer: 53 significant bits, rounding to nearest, ties to even.\<close>

definition round53 :: "nat \<Rightarrow> nat" where
  "round53 n =
     (if n < 2 ^ 53 then n
      else (let e = bit_length n - 53; q = n div 2 ^ e; r = n mod 2 ^ e; h = 2 ^ (e - 1)
            in (if h < r \<or> (r = h \<and> odd q) then q + 1 else q) * 2 ^ e))"

definition float_of_int :: "int \<Rightarrow> rat" where
  "float_of_int i = of_int (sgn i * int (round53 (nat \<bar>i\<bar>)))"

lemma float_of_int_exact: "\<bar>i\<bar> < 2 ^ 53 \<Longrightarrow> float_of_int i = of_int i"
  by (simp add: float_of_int_def round53_def sgn_mult_abs nat_less_iff)

section \<open>Parameters\<close>

text \<open>
  What the model takes as a parameter: the regular-expression engine (\<^verbatim>\<open>regexp.Compile\<close>,
  \<^verbatim>\<open>MatchString\<close> and \<^verbatim>\<open>FindStringIndex\<close>, and the parser \<^verbatim>\<open>regexp/syntax\<close>), the conversion
  between decimal text and \<open>float64\<close>, \<^verbatim>\<open>time.ParseDuration\<close> (in nanoseconds), and the
  third-party hash \<^verbatim>\<open>xxh3\<close>, cut to 32 bits. \<open>re_compile p\<close> is
  \<open>None\<close> when the pattern does not compile, else the leftmost match of a subject as its start
  and end; \<open>MatchString\<close> is "there is one". The syntax tree keeps what the source inspects.
\<close>

datatype re_op = OpBeginText | OpEndText | OpLiteral | OpConcat | OpOther

datatype re_syntax = ReSyntax (re_op: re_op) (re_fold: bool) (re_runes: string) (re_subs: "re_syntax list")

record golib =
  re_compile :: "string \<Rightarrow> (string \<Rightarrow> (nat \<times> nat) option) option"
  re_parse :: "string \<Rightarrow> re_syntax option"
  parse_float :: "string \<Rightarrow> rat option"
  format_float :: "rat \<Rightarrow> string"
  parse_duration :: "string \<Rightarrow> int option"
  xxh3_32 :: "string \<Rightarrow> 32 word"

section \<open>Default values\<close>

text \<open>\<^verbatim>\<open>protoconv.IsDefaultValue\<close>. A \<open>json.Number\<close> has kind string but is not a \<open>string\<close>, so it
  is never a default.\<close>

fun is_default_value :: "gvalue \<Rightarrow> bool" where
  "is_default_value VNil = True"
| "is_default_value (VString s) = (s = [] \<or> has_suffix s ''_UNSPECIFIED'')"
| "is_default_value (VBool b) = (\<not> b)"
| "is_default_value (VInt i) = (i = 0)"
| "is_default_value (VInt64 i) = (i = 0)"
| "is_default_value (VUint32 i) = (i = 0)"
| "is_default_value (VUint64 i) = (i = 0)"
| "is_default_value (VFloat f) = (f = 0)"
| "is_default_value (VList xs) = (xs = [])"
| "is_default_value (VMap m) = (m = [])"
| "is_default_value (VNumber n) = False"

end
