(* ===== verification/Stub_Model.thy ===== *)
theory Stub_Model
  imports Go_Value
begin

text \<open>
  The data model of \<^verbatim>\<open>internal/infra/stuber/stub.go\<close> and \<^verbatim>\<open>query.go\<close>: stubs with their matchers
  and outputs, queries, and the per-element stream metadata under the reserved key. The Go
  structs that share the four matcher maps are record extensions of one another, so the field
  names and the functions over them are shared as well.
\<close>

section \<open>Stubs\<close>

type_synonym uuid = "128 word"

abbreviation uuid_nil :: uuid where
  "uuid_nil \<equiv> 0"

definition is_known_source :: "string \<Rightarrow> bool" where
  "is_known_source s \<longleftrightarrow> s \<in> {''file'', ''rest'', ''mcp'', ''proxy''}"

record matcher =
  Equals :: gomap
  Contains :: gomap
  Matches :: gomap
  Glob :: gomap

record any_of_element = matcher +
  IgnoreArrayOrder :: bool

record input_data = any_of_element +
  AnyOf :: "any_of_element list"

record input_header = matcher +
  HeaderAnyOf :: "matcher list"

record effect =
  Action :: string
  EffectID :: string
  EffectStub :: gomap

record stub_output =
  OutHeaders :: "(string \<times> string) list"
  Trailers :: "(string \<times> string) list"
  Data :: gvalue
  Stream :: "gvalue list option"
  Error :: string
  Code :: "32 word option"
  Details :: "gmap list"
  Delay :: string

text \<open>Of the native handler functions of a stub the record keeps the presence; what they answer is a
  parameter where they are called. \<open>Source\<close> is a string as in the code.\<close>

record stub =
  ID :: uuid
  Service :: string
  Method :: string
  Session :: string
  Priority :: int
  Times :: int
  Headers :: input_header
  Input :: input_data
  Inputs :: "input_data list option"
  Output :: stub_output
  Effects :: "effect list"
  Source :: string
  HasHandler :: bool
  HasUnaryHandler :: bool
  HasServerStreamHandler :: bool
  HasClientStreamHandler :: bool

definition inputs_list :: "stub \<Rightarrow> input_data list" where
  "inputs_list s = (case Inputs s of None \<Rightarrow> [] | Some xs \<Rightarrow> xs)"

definition stream_list :: "stub_output \<Rightarrow> gvalue list" where
  "stream_list out = (case Stream out of None \<Rightarrow> [] | Some xs \<Rightarrow> xs)"

definition effective_times :: "stub \<Rightarrow> int" where
  "effective_times s = Times s"

definition is_unary :: "stub \<Rightarrow> bool" where
  "is_unary s \<longleftrightarrow> length (inputs_list s) = 0"

definition is_client_stream :: "stub \<Rightarrow> bool" where
  "is_client_stream s \<longleftrightarrow> 0 < length (inputs_list s)"

definition is_server_stream :: "stub \<Rightarrow> bool" where
  "is_server_stream s \<longleftrightarrow> 0 < length (stream_list (Output s))"

definition is_bidirectional :: "stub \<Rightarrow> bool" where
  "is_bidirectional s \<longleftrightarrow> is_client_stream s \<and> is_server_stream s"

text \<open>The number of matcher keys of one alternative, and of all headers of a stub.\<close>

definition matcher_keys :: "'a matcher_scheme \<Rightarrow> nat" where
  "matcher_keys m = mlen (Equals m) + mlen (Contains m) + mlen (Matches m) + mlen (Glob m)"

definition header_len :: "input_header \<Rightarrow> nat" where
  "header_len h = matcher_keys h + sum_list (map matcher_keys (HeaderAnyOf h))"

definition empty_output :: stub_output where
  "empty_output = \<lparr>OutHeaders = [], Trailers = [], Data = VNil, Stream = None, Error = '''',
     Code = None, Details = [], Delay = ''''\<rparr>"

definition empty_input :: input_data where
  "empty_input = \<lparr>Equals = None, Contains = None, Matches = None, Glob = None,
     IgnoreArrayOrder = False, AnyOf = []\<rparr>"

definition empty_header :: input_header where
  "empty_header = \<lparr>Equals = None, Contains = None, Matches = None, Glob = None,
     HeaderAnyOf = []\<rparr>"

definition empty_stub :: stub where
  "empty_stub = \<lparr>ID = uuid_nil, Service = '''', Method = '''', Session = '''', Priority = 0, Times = 0,
     Headers = empty_header, Input = empty_input, Inputs = None, Output = empty_output,
     Effects = [], Source = '''', HasHandler = False,
     HasUnaryHandler = False, HasServerStreamHandler = False, HasClientStreamHandler = False\<rparr>"

section \<open>Queries\<close>

record query =
  q_ID :: "uuid option"
  q_Service :: string
  q_Method :: string
  q_Session :: string
  q_Headers :: gmap
  q_Input :: "gmap list"
  q_Strict :: bool
  q_Internal :: bool
  q_MatchInternal :: bool

definition request_internal :: "query \<Rightarrow> bool" where
  "request_internal q = q_Internal q"

definition allows_internal_stubs :: "query \<Rightarrow> bool" where
  "allows_internal_stubs q = q_MatchInternal q"

definition with_internal_stubs :: "query \<Rightarrow> query" where
  "with_internal_stubs q = q\<lparr>q_MatchInternal := True\<rparr>"

text \<open>The JSON body of a search: \<open>input\<close> wins when it is not empty, else the legacy \<open>data\<close>.\<close>

definition query_input :: "gmap list \<Rightarrow> gomap \<Rightarrow> gmap list" where
  "query_input input legacy =
     (if input \<noteq> [] then input else case legacy of Some d \<Rightarrow> [d] | None \<Rightarrow> [])"

definition query_data :: "query \<Rightarrow> gomap" where
  "query_data q = (case q_Input q of [] \<Rightarrow> None | m # _ \<Rightarrow> Some m)"

section \<open>Stream-element metadata\<close>

definition gripmock_key :: string where
  "gripmock_key = ''_gripmock''"

record gripmock_element =
  el_Delay :: string
  el_HasDelay :: bool
  el_Error :: string
  el_Code :: "32 word option"
  el_Details :: "gmap list"
  el_HasError :: bool

definition empty_element :: gripmock_element where
  "empty_element = \<lparr>el_Delay = '''', el_HasDelay = False, el_Error = '''', el_Code = None,
     el_Details = [], el_HasError = False\<rparr>"

text \<open>\<^verbatim>\<open>types.Delay\<close>: a template or the empty text parses to zero.\<close>

definition is_template_delay :: "string \<Rightarrow> bool" where
  "is_template_delay d = str_contains d ''{{''"

definition delay_parse :: "golib \<Rightarrow> string \<Rightarrow> int option" where
  "delay_parse g d = (if d = '''' \<or> is_template_delay d then Some 0 else parse_duration g d)"

definition gripmock_delay :: "golib \<Rightarrow> gmap \<Rightarrow> string \<times> bool" where
  "gripmock_delay g gk =
     (case map_of gk ''delay'' of
        Some (VString s) \<Rightarrow>
          (case delay_parse g s of None \<Rightarrow> ('''', False) | Some _ \<Rightarrow> (s, True))
      | _ \<Rightarrow> ('''', False))"

text \<open>A status code from any JSON number shape; the conversion to \<open>uint32\<close> keeps the low bits.\<close>

fun to_code_number :: "gvalue \<Rightarrow> 32 word option" where
  "to_code_number (VNumber s) =
     (case parse_int64 s of
        None \<Rightarrow> None
      | Some n \<Rightarrow> if n < 0 then None else Some (word_of_int n))"
| "to_code_number (VFloat f) = (if f < 0 then None else Some (word_of_int \<lfloor>f\<rfloor>))"
| "to_code_number (VInt n) = (if n < 0 then None else Some (word_of_int n))"
| "to_code_number (VInt64 n) = (if n < 0 then None else Some (word_of_int n))"
| "to_code_number (VUint32 n) = Some (word_of_int n)"
| "to_code_number _ = None"

definition to_detail_list :: "gvalue option \<Rightarrow> gmap list" where
  "to_detail_list raw =
     (case raw of
        Some (VList items) \<Rightarrow>
          List.map_filter (\<lambda>i. case i of VMap d \<Rightarrow> Some d | _ \<Rightarrow> None) items
      | _ \<Rightarrow> [])"

definition gripmock_error :: "gmap \<Rightarrow> string \<times> 32 word option \<times> gmap list \<times> bool" where
  "gripmock_error gk =
     (let msg = (case map_of gk ''error'' of Some (VString s) \<Rightarrow> Some s | _ \<Rightarrow> None);
          code = (case map_of gk ''code'' of None \<Rightarrow> None | Some raw \<Rightarrow> to_code_number raw);
          details = to_detail_list (map_of gk ''details'')
      in if msg = None \<and> code = None \<and> details = [] then ('''', None, [], False)
         else (case msg of None \<Rightarrow> '''' | Some s \<Rightarrow> s, code, details, True))"

text \<open>The element's metadata and the message without the reserved key, which the code deletes
  from the map in place.\<close>

definition extract_gripmock :: "golib \<Rightarrow> gomap \<Rightarrow> gripmock_element \<times> gomap" where
  "extract_gripmock g m =
     (case m of
        None \<Rightarrow> (empty_element, None)
      | Some mp \<Rightarrow>
          (case map_of mp gripmock_key of
             None \<Rightarrow> (empty_element, Some mp)
           | Some raw \<Rightarrow>
               (case raw of
                  VMap gk \<Rightarrow>
                    (let (d, hd) = gripmock_delay g gk; (msg, c, ds, he) = gripmock_error gk
                     in (\<lparr>el_Delay = d, el_HasDelay = hd, el_Error = msg, el_Code = c,
                          el_Details = ds, el_HasError = he\<rparr>, Some (m_del gripmock_key mp)))
                | _ \<Rightarrow> (empty_element, Some (m_del gripmock_key mp)))))"

definition extract_gripmock_delay :: "golib \<Rightarrow> gomap \<Rightarrow> string \<times> bool" where
  "extract_gripmock_delay g m =
     (let el = fst (extract_gripmock g m) in (el_Delay el, el_HasDelay el))"

text \<open>
  The message that is sent never carries the reserved key, and every other field is as the stub
  has it, whatever the metadata looks like.
\<close>

lemma extract_gripmock_strips:
  "map_of (entries (snd (extract_gripmock g m))) k
     = (if k = gripmock_key then None else map_of (entries m) k)"
  by (auto simp: extract_gripmock_def split: option.splits gvalue.splits prod.splits)

lemma extract_gripmock_idem:
  "extract_gripmock g (snd (extract_gripmock g m)) = (empty_element, snd (extract_gripmock g m))"
  using extract_gripmock_strips [of g m gripmock_key]
  by (auto simp: extract_gripmock_def split: option.splits)

text \<open>An element reports an error exactly when it names a message, a usable code or a detail; and
  a delay it reports always parses.\<close>

lemma gripmock_error_flag:
  "(case gripmock_error gk of (msg, c, ds, he) \<Rightarrow> he \<or> (msg = '''' \<and> c = None \<and> ds = []))"
  by (auto simp: gripmock_error_def Let_def)

lemma gripmock_delay_parses:
  "gripmock_delay g gk = (d, True) \<Longrightarrow> \<exists>n. delay_parse g d = Some n"
  by (auto simp: gripmock_delay_def split: option.splits gvalue.splits)

end
