(* ===== verification/Key_Names.thy ===== *)
theory Key_Names
  imports Stub_Model
begin

text \<open>
  Field names: \<^verbatim>\<open>search_value_helpers.go\<close>, the key resolution of \<^verbatim>\<open>search_bidi_strategy.go\<close>
  (\<^verbatim>\<open>findValueWithVariations\<close>, \<^verbatim>\<open>keyStyleFlags\<close>) and the spellings the equals index probes
  (\<^verbatim>\<open>keyVariations\<close> of \<^verbatim>\<open>storage_equals_index.go\<close>). The lemmas relate the two directions: which
  stub keys resolve to a query key, and which of them a probe of the query key reaches.
\<close>

section \<open>Letter case of ASCII letters\<close>

lemma is_lower_byte: "is_lower c \<longleftrightarrow> 97 \<le> byte c \<and> byte c \<le> (122::nat)"
  by (simp add: is_lower_def less_eq_char_def)

lemma is_upper_byte: "is_upper c \<longleftrightarrow> 65 \<le> byte c \<and> byte c \<le> (90::nat)"
  by (simp add: is_upper_def less_eq_char_def)

lemma is_digit_byte: "is_digit c \<longleftrightarrow> 48 \<le> byte c \<and> byte c \<le> (57::nat)"
  by (simp add: is_digit_def less_eq_char_def)

lemma byte_to_upper: "byte (to_upper c) = (if is_lower c then byte c - 32 else byte c :: nat)"
  by (auto simp: to_upper_def is_lower_byte)

lemma is_upper_to_upper: "is_lower c \<Longrightarrow> is_upper (to_upper c)"
  by (auto simp: is_upper_byte byte_to_upper is_lower_byte)

lemma to_lower_to_upper: "is_lower c \<Longrightarrow> to_lower (to_upper c) = c"
proof -
  assume l: "is_lower c"
  then have "to_lower (to_upper c) = char_of (byte (to_upper c) + 32 :: nat)"
    by (simp add: to_lower_def is_upper_to_upper)
  also have "\<dots> = char_of (byte c :: nat)"
    using l by (simp add: byte_to_upper is_lower_byte)
  finally show ?thesis by simp
qed

lemma not_upper_lower: "is_lower c \<or> is_digit c \<Longrightarrow> \<not> is_upper c"
  by (auto simp: is_lower_byte is_digit_byte is_upper_byte)

lemma to_lower_id: "\<not> is_upper c \<Longrightarrow> to_lower c = c"
  by (simp add: to_lower_def)

section \<open>Camel case and snake case\<close>

definition capitalize :: "string \<Rightarrow> string" where
  "capitalize p = (case p of [] \<Rightarrow> [] | c # r \<Rightarrow> to_upper c # r)"

definition to_camel_case :: "string \<Rightarrow> string" where
  "to_camel_case s =
     (case str_split (CHR ''_'') s of
        [_] \<Rightarrow> s
      | p # ps \<Rightarrow> p @ concat (map capitalize ps)
      | [] \<Rightarrow> s)"

definition snake_tail :: "string \<Rightarrow> string" where
  "snake_tail s =
     concat (map (\<lambda>c. if is_upper c then [CHR ''_'', to_lower c] else [to_lower c]) s)"

definition to_snake_case :: "string \<Rightarrow> string" where
  "to_snake_case s = (case s of [] \<Rightarrow> [] | c # r \<Rightarrow> to_lower c # snake_tail r)"

definition key_style_flags :: "string \<Rightarrow> bool \<times> bool" where
  "key_style_flags s = (CHR ''_'' \<in> set s, \<exists>c\<in>set s. is_upper c)"

section \<open>Key resolution\<close>

definition find_value_with_variations :: "gmap \<Rightarrow> string \<Rightarrow> gvalue option" where
  "find_value_with_variations m key =
     (case map_of m key of
        Some v \<Rightarrow> Some v
      | None \<Rightarrow>
          (let (has_underscore, has_upper) = key_style_flags key;
               camel = (if has_underscore then map_of m (to_camel_case key) else None)
           in case camel of
                Some v \<Rightarrow> Some v
              | None \<Rightarrow> if has_upper then map_of m (to_snake_case key) else None))"

definition key_variations :: "string \<Rightarrow> string list" where
  "key_variations query_key =
     fold (\<lambda>candidate dst.
             if candidate = '''' \<or> candidate \<in> set dst then dst else dst @ [candidate])
       [to_snake_case query_key, to_camel_case query_key] [query_key]"

lemma key_variations_set:
  "set (key_variations q) = insert q ({to_snake_case q, to_camel_case q} - {''''})"
  by (auto simp: key_variations_def)

lemma key_variations_distinct: "distinct (key_variations q)"
  by (auto simp: key_variations_def)

text \<open>The query keys a stub key can resolve to.\<close>

lemma find_value_key:
  assumes "find_value_with_variations m k = Some v"
  obtains q where "map_of m q = Some v" and "q = k \<or> q = to_camel_case k \<or> q = to_snake_case k"
  using assms
  by (auto simp: find_value_with_variations_def key_style_flags_def Let_def
      split: option.splits if_splits)

lemma find_value_exact: "map_of m k = Some v \<Longrightarrow> find_value_with_variations m k = Some v"
  by (simp add: find_value_with_variations_def)

lemma find_value_empty [simp]: "find_value_with_variations [] k = None"
  by (simp add: find_value_with_variations_def split_def Let_def)

section \<open>Protobuf field names\<close>

text \<open>
  The names the protobuf style guide asks for: words of lower-case letters and digits, each
  beginning with a letter (the first with a letter or a digit), joined by single underscores.
\<close>

definition lower_word :: "string \<Rightarrow> bool" where
  "lower_word p \<longleftrightarrow> p \<noteq> [] \<and> list_all (\<lambda>c. is_lower c \<or> is_digit c) p"

definition proto_key :: "string \<Rightarrow> bool" where
  "proto_key s =
     (case str_split (CHR ''_'') s of
        [] \<Rightarrow> False
      | p # ps \<Rightarrow> lower_word p \<and> list_all (\<lambda>w. lower_word w \<and> is_lower (hd w)) ps)"

definition camel_key :: "string \<Rightarrow> bool" where
  "camel_key s \<longleftrightarrow> proto_key (to_snake_case s) \<and> to_camel_case (to_snake_case s) = s"

lemma str_split_join:
  assumes "str_split sep s = p # ps"
  shows "s = p @ concat (map (\<lambda>w. sep # w) ps)"
  using assms
proof (induction s arbitrary: p ps)
  case Nil
  then show ?case by simp
next
  case (Cons c s)
  obtain q qs where q: "str_split sep s = q # qs"
    by (cases "str_split sep s") auto
  show ?case
  proof (cases "c = sep")
    case True
    with Cons.prems q Cons.IH [OF q] show ?thesis by auto
  next
    case False
    with Cons.prems q Cons.IH [OF q] show ?thesis by auto
  qed
qed

lemma snake_tail_append: "snake_tail (a @ b) = snake_tail a @ snake_tail b"
  by (simp add: snake_tail_def)

lemma snake_tail_lower: "list_all (\<lambda>c. is_lower c \<or> is_digit c) p \<Longrightarrow> snake_tail p = p"
  by (induction p) (auto simp: snake_tail_def not_upper_lower to_lower_id)

lemma snake_tail_capitalize:
  assumes "lower_word w" and "is_lower (hd w)"
  shows "snake_tail (capitalize w) = CHR ''_'' # w"
proof -
  obtain c r where w: "w = c # r"
    using assms(1) by (cases w) (auto simp: lower_word_def)
  with assms have "snake_tail r = r"
    by (intro snake_tail_lower) (auto simp: lower_word_def)
  with w assms show ?thesis
    by (simp add: capitalize_def snake_tail_def is_upper_to_upper to_lower_to_upper)
qed

lemma snake_tail_words:
  "list_all (\<lambda>w. lower_word w \<and> is_lower (hd w)) ps \<Longrightarrow>
   snake_tail (concat (map capitalize ps)) = concat (map (\<lambda>w. CHR ''_'' # w) ps)"
proof (induction ps)
  case Nil
  then show ?case by (simp add: snake_tail_def)
next
  case (Cons w ps)
  then show ?case by (simp add: snake_tail_append snake_tail_capitalize)
qed

lemma to_camel_case_words:
  "str_split (CHR ''_'') s = p # ps \<Longrightarrow> to_camel_case s = p @ concat (map capitalize ps)"
  by (cases ps) (auto simp: to_camel_case_def dest: str_split_join)

text \<open>The spelling in camel case of a protobuf field name determines the name.\<close>

lemma snake_camel_roundtrip:
  assumes "proto_key s"
  shows "to_snake_case (to_camel_case s) = s"
proof -
  obtain p ps where sp: "str_split (CHR ''_'') s = p # ps"
    by (cases "str_split (CHR ''_'') s") auto
  with assms have p: "lower_word p" and ps: "list_all (\<lambda>w. lower_word w \<and> is_lower (hd w)) ps"
    by (auto simp: proto_key_def)
  obtain c r where pc: "p = c # r"
    using p by (cases p) (auto simp: lower_word_def)
  have "to_lower c = c" "snake_tail r = r"
    using p pc by (auto simp: lower_word_def to_lower_id not_upper_lower snake_tail_lower)
  then have "to_snake_case (to_camel_case s) = p @ snake_tail (concat (map capitalize ps))"
    by (simp add: to_camel_case_words [OF sp] pc to_snake_case_def snake_tail_append)
  also have "\<dots> = s"
    using snake_tail_words [OF ps] str_split_join [OF sp] by simp
  finally show ?thesis .
qed

lemma proto_key_not_Nil: "proto_key s \<Longrightarrow> s \<noteq> []"
  by (auto simp: proto_key_def lower_word_def)

lemma to_snake_case_Nil [simp]: "to_snake_case s = [] \<longleftrightarrow> s = []"
  by (cases s) (auto simp: to_snake_case_def)

lemma camel_key_not_Nil: "camel_key s \<Longrightarrow> s \<noteq> []"
  using proto_key_not_Nil by (fastforce simp: camel_key_def)

lemma proto_key_no_upper: "proto_key s \<Longrightarrow> c \<in> set s \<Longrightarrow> \<not> is_upper c"
proof -
  assume k: "proto_key s" and c: "c \<in> set s"
  obtain p ps where sp: "str_split (CHR ''_'') s = p # ps"
    by (cases "str_split (CHR ''_'') s") auto
  have s: "s = p @ concat (map (\<lambda>w. CHR ''_'' # w) ps)"
    by (rule str_split_join [OF sp])
  from k sp have "\<forall>w\<in>set (p # ps). lower_word w"
    by (auto simp: proto_key_def list_all_iff)
  moreover have "c = CHR ''_'' \<or> (\<exists>w\<in>set (p # ps). c \<in> set w)"
    using c by (subst (asm) s) (auto split: if_splits)
  moreover have "\<not> is_upper (CHR ''_'')"
    by (simp add: is_upper_def less_eq_char_def)
  ultimately show ?thesis
    by (auto simp: lower_word_def list_all_iff not_upper_lower)
qed

lemma camel_key_no_underscore: "camel_key s \<Longrightarrow> to_camel_case s = s"
proof -
  assume k: "camel_key s"
  let ?t = "to_snake_case s"
  obtain p ps where sp: "str_split (CHR ''_'') ?t = p # ps"
    by (cases "str_split (CHR ''_'') ?t") auto
  from k have pk: "proto_key ?t" and s: "to_camel_case ?t = s"
    by (auto simp: camel_key_def)
  from pk sp have words: "\<forall>w\<in>set (p # ps). lower_word w"
    by (auto simp: proto_key_def list_all_iff)
  have u: "c \<noteq> CHR ''_''" if "is_lower c \<or> is_digit c \<or> is_upper c" for c
    using that by (auto simp: is_lower_def is_digit_def is_upper_def less_eq_char_def)
  have up: "to_upper a \<noteq> CHR ''_''" if "is_lower a \<or> is_digit a" for a
  proof (cases "is_lower a")
    case True
    then show ?thesis using u [of "to_upper a"] is_upper_to_upper [of a] by blast
  next
    case False
    then show ?thesis using u [of a] that by (auto simp: to_upper_def)
  qed
  have cap: "CHR ''_'' \<notin> set (capitalize w)" if "lower_word w" for w
  proof (cases w)
    case (Cons a r)
    with that up [of a] have "CHR ''_'' \<noteq> to_upper a" by (auto simp: lower_word_def)
    moreover have "CHR ''_'' \<notin> set r"
      using that u Cons by (auto simp: lower_word_def list_all_iff)
    ultimately show ?thesis using Cons by (simp add: capitalize_def)
  qed (simp add: capitalize_def)
  have "CHR ''_'' \<notin> set p"
    using words u by (auto simp: lower_word_def list_all_iff)
  with words cap have "CHR ''_'' \<notin> set (p @ concat (map capitalize ps))"
    by auto
  then have "CHR ''_'' \<notin> set (to_camel_case ?t)"
    by (subst to_camel_case_words [OF sp])
  then have "CHR ''_'' \<notin> set s"
    by (subst (asm) s)
  then show ?thesis
    by (simp add: to_camel_case_def str_split_single)
qed

text \<open>
  Probing the spellings of a query key reaches every stub key in one of the two regular
  spellings that resolves to it. Names outside these spellings can be missed
  (\<open>key_variations_incomplete\<close>).
\<close>

lemma key_variations_complete:
  assumes "proto_key k \<or> camel_key k"
    and "find_value_with_variations m k = Some v"
  obtains q where "map_of m q = Some v" and "k \<in> set (key_variations q)"
proof -
  obtain q where q: "map_of m q = Some v" and r: "q = k \<or> q = to_camel_case k \<or> q = to_snake_case k"
    using assms(2) by (rule find_value_key)
  have "k \<in> set (key_variations q)"
    using assms(1)
  proof
    assume k: "proto_key k"
    then have "to_snake_case k = k"
    proof -
      have "snake_tail r = r" if "\<forall>c\<in>set r. \<not> is_upper c" for r
        using that by (induction r) (auto simp: snake_tail_def to_lower_id)
      with proto_key_no_upper [OF k] show ?thesis
        by (cases k) (auto simp: to_snake_case_def to_lower_id)
    qed
    with r k snake_camel_roundtrip [OF k] proto_key_not_Nil [OF k] show ?thesis
      by (auto simp: key_variations_set)
  next
    assume k: "camel_key k"
    with r camel_key_no_underscore [OF k] camel_key_not_Nil [OF k] show ?thesis
      by (auto simp: key_variations_set camel_key_def)
  qed
  with q show ?thesis by (rule that)
qed

text \<open>A field name with a digit after an underscore: the stub key resolves, the probe misses it.\<close>

lemma key_variations_incomplete:
  "find_value_with_variations [(''address1'', v)] ''address_1'' = Some v"
  "''address_1'' \<notin> set (key_variations ''address1'')"
  by code_simp+

end
