(* ===== verification/Deeply.thy ===== *)
theory Deeply
  imports Key_Names
begin

text \<open>
  The package \<^verbatim>\<open>internal/infra/deeply\<close>: comparison of values that ignores the order of arrays
  (\<^verbatim>\<open>equals.go\<close>, \<^verbatim>\<open>contains.go\<close>), matching by regular expressions (\<^verbatim>\<open>matches.go\<close>) and the
  prefix test that spares a regex run (\<^verbatim>\<open>regex_cache.go\<close>; the cache itself only stores compiled
  patterns and has no effect on results). The reflective code paths for maps and slices of other
  Go types are not reachable for the values of the model.
\<close>

section \<open>Shared comparators\<close>

fun structural :: "gvalue \<Rightarrow> bool" where
  "structural (VMap _) = True"
| "structural (VList _) = True"
| "structural _ = False"

fun first_free :: "('a \<Rightarrow> bool) \<Rightarrow> 'a list \<Rightarrow> bool list \<Rightarrow> nat option" where
  "first_free p (y # ys) (m # ms) =
     (if \<not> m \<and> p y then Some 0 else map_option Suc (first_free p ys ms))"
| "first_free p _ _ = None"

fun mark_loop :: "('a \<Rightarrow> 'b \<Rightarrow> bool) \<Rightarrow> 'a list \<Rightarrow> 'b list \<Rightarrow> bool list \<Rightarrow> nat \<Rightarrow> nat" where
  "mark_loop cmp [] ys marks res = res"
| "mark_loop cmp (x # xs) ys marks res =
     (case first_free (cmp x) ys marks of
        None \<Rightarrow> mark_loop cmp xs ys marks res
      | Some j \<Rightarrow> mark_loop cmp xs ys (marks[j := True]) (Suc res))"

definition slices_deep_equal_contains :: "('a \<Rightarrow> 'b \<Rightarrow> bool) \<Rightarrow> 'a list \<Rightarrow> 'b list \<Rightarrow> bool" where
  "slices_deep_equal_contains cmp expect actual =
     (mark_loop cmp expect actual (replicate (length actual) False) 0 = length expect)"

definition map_any_compare ::
  "(gvalue \<Rightarrow> gvalue \<Rightarrow> bool) \<Rightarrow> (nat \<Rightarrow> nat \<Rightarrow> bool) \<Rightarrow> gmap \<Rightarrow> gvalue \<Rightarrow> bool" where
  "map_any_compare cmp length_ok expect actual =
     (case actual of
        VMap right \<Rightarrow>
          length_ok (length expect) (length right) \<and>
          list_all (\<lambda>kv. case map_of right (fst kv) of None \<Rightarrow> False | Some w \<Rightarrow> cmp (snd kv) w) expect
      | _ \<Rightarrow> False)"

definition map_deep_compare ::
  "(gvalue \<Rightarrow> gvalue \<Rightarrow> bool) \<Rightarrow> (nat \<Rightarrow> nat \<Rightarrow> bool) \<Rightarrow> gvalue \<Rightarrow> gvalue \<Rightarrow> bool" where
  "map_deep_compare cmp length_ok expect actual =
     (case expect of
        VMap left \<Rightarrow> map_any_compare cmp length_ok left actual
      | _ \<Rightarrow> type_of expect = type_of actual \<and> type_of expect = TNil)"

definition slices_deep_compare ::
  "(gvalue \<Rightarrow> gvalue \<Rightarrow> bool) \<Rightarrow> (nat \<Rightarrow> nat \<Rightarrow> bool) \<Rightarrow> gvalue \<Rightarrow> gvalue \<Rightarrow> bool" where
  "slices_deep_compare cmp length_ok expect actual =
     (type_of expect = type_of actual \<and>
      (type_of expect = TNil \<or>
       (case (expect, actual) of
          (VList a, VList b) \<Rightarrow>
            length_ok (length a) (length b) \<and> slices_deep_equal_contains cmp a b
        | _ \<Rightarrow> False)))"

subsection \<open>Congruence, for the recursion through the comparators\<close>

lemma mark_loop_cong:
  assumes "\<And>x y. x \<in> set xs \<Longrightarrow> cmp x y = cmp' x y"
  shows "mark_loop cmp xs ys marks res = mark_loop cmp' xs ys marks res"
  using assms
proof (induction xs arbitrary: marks res)
  case Nil
  then show ?case by simp
next
  case (Cons x xs)
  then have "cmp x = cmp' x" by auto
  with Cons show ?case by (auto split: option.splits)
qed

lemma map_any_compare_cong:
  assumes "\<And>k v w. (k, v) \<in> set expect \<Longrightarrow> cmp v w = cmp' v w"
  shows "map_any_compare cmp length_ok expect actual = map_any_compare cmp' length_ok expect actual"
  using assms
  by (auto simp: map_any_compare_def list_all_iff split: gvalue.splits option.splits)

lemma map_deep_compare_cong [fundef_cong]:
  assumes "length_ok = length_ok'" and "expect = expect'" and "actual = actual'"
    and "\<And>left k v w. expect' = VMap left \<Longrightarrow> (k, v) \<in> set left \<Longrightarrow> cmp v w = cmp' v w"
  shows "map_deep_compare cmp length_ok expect actual
           = map_deep_compare cmp' length_ok' expect' actual'"
  using assms
  by (auto simp: map_deep_compare_def split: gvalue.splits intro!: map_any_compare_cong)

lemma slices_deep_compare_cong [fundef_cong]:
  assumes "length_ok = length_ok'" and "expect = expect'" and "actual = actual'"
    and "\<And>left v w. expect' = VList left \<Longrightarrow> v \<in> set left \<Longrightarrow> cmp v w = cmp' v w"
  shows "slices_deep_compare cmp length_ok expect actual
           = slices_deep_compare cmp' length_ok' expect' actual'"
proof -
  have "slices_deep_equal_contains cmp a b = slices_deep_equal_contains cmp' a b"
    if "expect' = VList a" for a b
    using assms(4) [OF that] mark_loop_cong [of a cmp cmp']
    by (simp add: slices_deep_equal_contains_def)
  with assms show ?thesis
    by (auto simp: slices_deep_compare_def split: gvalue.splits)
qed

section \<open>Equality and containment\<close>

fun equals_ignore_array_order :: "gvalue \<Rightarrow> gvalue \<Rightarrow> bool" where
  "equals_ignore_array_order expect actual =
     (map_deep_compare equals_ignore_array_order (\<lambda>l r. l = r) expect actual \<or>
      slices_deep_compare equals_ignore_array_order (\<lambda>l r. l = r) expect actual \<or>
      (\<not> structural expect \<and> deep_equal expect actual))"

fun contains_ignore_array_order :: "gvalue \<Rightarrow> gvalue \<Rightarrow> bool" where
  "contains_ignore_array_order expect actual =
     (map_deep_compare contains_ignore_array_order (\<lambda>l r. l \<le> r) expect actual \<or>
      slices_deep_compare contains_ignore_array_order (\<lambda>l r. l \<le> r) expect actual \<or>
      (\<not> structural expect \<and> deep_equal expect actual))"

section \<open>Regular expressions\<close>

definition regex_meta :: string where
  "regex_meta = [CHR 0x5C] @ ''^$.+*?()|[]{}''"

definition has_regex_meta :: "string \<Rightarrow> bool" where
  "has_regex_meta p = list_ex (\<lambda>c. c \<in> set regex_meta) p"

definition anchored_prefix :: "string \<Rightarrow> string" where
  "anchored_prefix pattern =
     (case pattern of
        [] \<Rightarrow> []
      | c # r \<Rightarrow>
          if c \<noteq> CHR ''^'' then []
          else (let lit = takeWhile (\<lambda>d. d \<notin> set regex_meta) r;
                    rest = drop (length lit) r
                in if rest \<noteq> [] \<and> hd rest \<in> set ''*?{''
                   then take (length lit - decode_last_width lit) lit
                   else lit))"

definition can_match :: "string \<Rightarrow> string \<Rightarrow> bool" where
  "can_match pattern subject \<longleftrightarrow>
     anchored_prefix pattern = [] \<or> has_prefix subject (anchored_prefix pattern)"

fun stringify_number :: "golib \<Rightarrow> gvalue \<Rightarrow> string option" where
  "stringify_number g (VInt i) = Some (fmt_int i)"
| "stringify_number g (VInt64 i) = Some (fmt_int i)"
| "stringify_number g (VUint32 i) = Some (fmt_int i)"
| "stringify_number g (VUint64 i) = Some (fmt_int i)"
| "stringify_number g (VFloat f) = Some (format_float g f)"
| "stringify_number g _ = None"

fun stringify :: "golib \<Rightarrow> gvalue \<Rightarrow> string option" where
  "stringify g (VString s) = Some s"
| "stringify g VNil = Some []"
| "stringify g (VBool b) = Some (if b then ''true'' else ''false'')"
| "stringify g (VNumber s) = Some s"
| "stringify g v = stringify_number g v"

definition regex_match :: "golib \<Rightarrow> gvalue \<Rightarrow> gvalue \<Rightarrow> bool" where
  "regex_match g expect actual =
     (case actual of
        VBool _ \<Rightarrow> False
      | _ \<Rightarrow>
          (case expect of
             VString p \<Rightarrow>
               (case stringify g actual of
                  None \<Rightarrow> False
                | Some s \<Rightarrow>
                    if \<not> can_match p s then False
                    else (case re_compile g p of
                            None \<Rightarrow> False
                          | Some rx \<Rightarrow> rx s \<noteq> None))
           | _ \<Rightarrow> False))"

fun matches_ignore_array_order :: "golib \<Rightarrow> gvalue \<Rightarrow> gvalue \<Rightarrow> bool" where
  "matches_ignore_array_order g expect actual =
     (map_deep_compare (matches_ignore_array_order g) (\<lambda>l r. l \<le> r) expect actual \<or>
      slices_deep_compare (matches_ignore_array_order g) (\<lambda>l r. l = r) expect actual \<or>
      regex_match g expect actual \<or>
      (\<not> structural expect \<and> deep_equal expect actual))"

declare equals_ignore_array_order.simps [simp del] contains_ignore_array_order.simps [simp del]
  matches_ignore_array_order.simps [simp del]

end
