(* ===== verification/Deeply_Props.thy ===== *)
theory Deeply_Props
  imports Deeply
begin

text \<open>
  What the comparisons of \<^verbatim>\<open>deeply\<close> mean. Equality up to array order is equality of canonical
  forms, where an array is the multiset of its canonical elements: the greedy pairing of the code
  decides it exactly. Containment is reflexive, but its greedy pairing depends on the order of the
  arrays. The prefix test of regular expressions is not sound for patterns with alternatives.
\<close>

section \<open>Unfolding by the shape of the expected value\<close>

lemma equals_simps [simp]:
  "equals_ignore_array_order (VMap l) a = map_any_compare equals_ignore_array_order (\<lambda>l r. l = r) l a"
  "equals_ignore_array_order (VList xs) (VList ys) =
     (length xs = length ys \<and> slices_deep_equal_contains equals_ignore_array_order xs ys)"
  "\<not> structural e \<Longrightarrow> equals_ignore_array_order e a = (e = a)"
  "type_of a \<noteq> TList \<Longrightarrow> \<not> equals_ignore_array_order (VList xs) a"
  by (subst equals_ignore_array_order.simps;
      auto simp: map_deep_compare_def slices_deep_compare_def split: gvalue.splits;
      cases e; simp)+

section \<open>Canonical forms\<close>

datatype cvalue =
    CScalar gvalue
  | CList "cvalue multiset"
  | CMap "(string \<times> cvalue) multiset"

fun canon :: "gvalue \<Rightarrow> cvalue" where
  "canon (VList xs) = CList (mset (map canon xs))"
| "canon (VMap m) = CMap (mset (map (\<lambda>kv. (fst kv, canon (snd kv))) m))"
| "canon v = CScalar v"

section \<open>The greedy pairing\<close>

fun unmarked :: "'a list \<Rightarrow> bool list \<Rightarrow> 'a list" where
  "unmarked (y # ys) (m # ms) = (if m then unmarked ys ms else y # unmarked ys ms)"
| "unmarked _ _ = []"

lemma unmarked_replicate [simp]: "unmarked ys (replicate (length ys) False) = ys"
  by (induction ys) auto

lemma first_free_None:
  "length ms = length ys \<Longrightarrow> first_free p ys ms = None \<longleftrightarrow> (\<forall>y\<in>set (unmarked ys ms). \<not> p y)"
  by (induction p ys ms rule: first_free.induct) auto

lemma first_free_Some:
  "\<lbrakk> length ms = length ys; first_free p ys ms = Some j \<rbrakk>
   \<Longrightarrow> \<exists>y. p y \<and> mset (unmarked ys ms) = add_mset y (mset (unmarked ys (ms[j := True])))"
  by (induction p ys ms arbitrary: j rule: first_free.induct) (auto split: if_splits)

lemma mark_loop_bound: "mark_loop cmp xs ys ms res \<le> res + length xs"
proof (induction xs arbitrary: ms res)
  case (Cons x xs)
  show ?case
  proof (cases "first_free (cmp x) ys ms")
    case None
    then show ?thesis using Cons [of ms res] by simp
  next
    case (Some j)
    then show ?thesis using Cons [of "ms[j := True]" "Suc res"] by simp
  qed
qed simp

lemma mark_loop_all:
  assumes "\<And>x y. x \<in> set xs \<Longrightarrow> y \<in> set ys \<Longrightarrow> cmp x y \<longleftrightarrow> f x = h y"
    and "length ms = length ys"
  shows "mark_loop cmp xs ys ms res = res + length xs
           \<longleftrightarrow> mset (map f xs) \<subseteq># mset (map h (unmarked ys ms))"
  using assms
proof (induction xs arbitrary: ms res)
  case Nil
  then show ?case by simp
next
  case (Cons x xs)
  have sub: "set (unmarked ys ms) \<subseteq> set ys"
    by (induction ys ms rule: unmarked.induct) auto
  show ?case
  proof (cases "first_free (cmp x) ys ms")
    case None
    with Cons.prems sub first_free_None [of ms ys "cmp x"]
    have "f x \<notin> set (map h (unmarked ys ms))" by auto
    then have "\<not> mset (map f (x # xs)) \<subseteq># mset (map h (unmarked ys ms))"
      by (metis insert_subset_eq_iff list.simps(9) mset.simps(2) set_mset_mset)
    moreover have "mark_loop cmp xs ys ms res \<noteq> res + length (x # xs)"
      using mark_loop_bound [of cmp xs ys ms res] by simp
    ultimately show ?thesis using None by simp
  next
    case (Some j)
    from first_free_Some [OF Cons.prems(2) Some] obtain y where
      y: "cmp x y" "mset (unmarked ys ms) = add_mset y (mset (unmarked ys (ms[j := True])))" by blast
    then have "y \<in> set (unmarked ys ms)" by (metis set_mset_mset union_single_eq_member)
    with sub Cons.prems y have "f x = h y" by auto
    with y Some Cons.IH [of "ms[j := True]" "Suc res"] Cons.prems show ?thesis by simp
  qed
qed

lemma slices_canon:
  assumes "\<And>x y. x \<in> set xs \<Longrightarrow> y \<in> set ys \<Longrightarrow> cmp x y \<longleftrightarrow> f x = h y"
  shows "slices_deep_equal_contains cmp xs ys \<longleftrightarrow> mset (map f xs) \<subseteq># mset (map h ys)"
  using mark_loop_all [of xs ys cmp f h "replicate (length ys) False" 0] assms
  by (simp add: slices_deep_equal_contains_def)

lemma subset_eq_size: "A \<subseteq># B \<Longrightarrow> size A = size B \<Longrightarrow> A = B"
  using mset_subset_size [of A B] by (auto simp: subset_mset.le_less)

lemma map_canon:
  fixes l r :: "('k \<times> 'a) list"
  assumes "m_ok l" "m_ok r" "length l = length r"
  shows "(\<forall>(k, v)\<in>set l. \<exists>w. map_of r k = Some w \<and> f v = f w)
     \<longleftrightarrow> mset (map (\<lambda>kv. (fst kv, f (snd kv))) l) = mset (map (\<lambda>kv. (fst kv, f (snd kv))) r)"
    (is "?L \<longleftrightarrow> mset (map ?g l) = mset (map ?g r)")
proof -
  have d: "distinct (map ?g m)" if "m_ok m" for m
    using that by (auto simp: m_ok_def distinct_map inj_on_def)
  have "?L \<longleftrightarrow> (\<forall>kv\<in>set l. \<exists>w. (fst kv, w) \<in> set r \<and> f (snd kv) = f w)"
    using assms(2) by (auto simp: m_ok_set_iff split_def)
  also have "\<dots> \<longleftrightarrow> set (map ?g l) \<subseteq> set (map ?g r)"
    by (force simp: subset_iff image_iff)
  also have "\<dots> \<longleftrightarrow> set (map ?g l) = set (map ?g r)"
  proof
    assume s: "set (map ?g l) \<subseteq> set (map ?g r)"
    have "card (set (map ?g l)) = card (set (map ?g r))"
      using distinct_card [OF d [OF assms(1)]] distinct_card [OF d [OF assms(2)]] assms(3)
      by simp
    with s show "set (map ?g l) = set (map ?g r)" by (intro card_subset_eq) auto
  qed simp
  also have "\<dots> \<longleftrightarrow> mset (map ?g l) = mset (map ?g r)"
    by (rule set_eq_iff_mset_eq_distinct [OF d [OF assms(1)] d [OF assms(2)]])
  finally show ?thesis .
qed

lemma canon_scalar: "CScalar e = canon b \<longleftrightarrow> \<not> structural b \<and> e = b"
  by (cases b) auto

theorem equals_canon:
  "gvalue_ok a \<Longrightarrow> gvalue_ok b \<Longrightarrow> equals_ignore_array_order a b \<longleftrightarrow> canon a = canon b"
proof (induction a arbitrary: b)
  case (VList xs)
  show ?case
  proof (cases b)
    case (VList ys)
    have "slices_deep_equal_contains equals_ignore_array_order xs ys
        \<longleftrightarrow> mset (map canon xs) \<subseteq># mset (map canon ys)"
      by (rule slices_canon) (use VList VList.IH VList.prems in \<open>auto simp: list_all_iff\<close>)
    moreover have "mset (map canon xs) = mset (map canon ys)
        \<longleftrightarrow> length xs = length ys \<and> mset (map canon xs) \<subseteq># mset (map canon ys)"
      using subset_eq_size [of "mset (map canon xs)" "mset (map canon ys)"]
      by (auto dest: arg_cong [where f = size])
    ultimately show ?thesis using VList by simp
  qed auto
next
  case (VMap l)
  show ?case
  proof (cases b)
    case (VMap r)
    have elem: "equals_ignore_array_order v w \<longleftrightarrow> canon v = canon w"
      if "(k, v) \<in> set l" "map_of r k = Some w" for k v w
    proof -
      have "gvalue_ok v" "gvalue_ok w"
        using that VMap.prems VMap by (force simp: list_all_iff dest: map_of_SomeD)+
      with VMap.IH that show ?thesis by force
    qed
    have "equals_ignore_array_order (VMap l) b
       \<longleftrightarrow> length l = length r \<and> (\<forall>(k, v)\<in>set l. \<exists>w. map_of r k = Some w \<and> canon v = canon w)"
      using VMap elem
      by (auto simp: map_any_compare_def list_all_iff split: option.splits)
    moreover have "length l = length r" if "canon (VMap l) = canon b"
    proof -
      have "image_mset (\<lambda>kv. (fst kv, canon (snd kv))) (mset l)
          = image_mset (\<lambda>kv. (fst kv, canon (snd kv))) (mset r)"
        using that VMap by simp
      then show ?thesis by (auto dest: arg_cong [where f = size])
    qed
    ultimately show ?thesis
      using map_canon [of l r canon] VMap VMap.prems by auto
  qed (auto simp: map_any_compare_def)
qed (auto simp: canon_scalar)

section \<open>Consequences\<close>

lemma equals_refl: "gvalue_ok a \<Longrightarrow> equals_ignore_array_order a a"
  by (simp add: equals_canon)

lemma equals_permuted:
  assumes "gvalue_ok (VList xs)" and "mset xs = mset ys"
  shows "equals_ignore_array_order (VList xs) (VList ys)"
proof -
  from assms have "gvalue_ok (VList ys)"
    by (auto simp: list_all_iff dest: mset_eq_setD)
  with assms show ?thesis by (subst equals_canon) auto
qed

subsection \<open>Containment\<close>

lemma first_free_self:
  "\<lbrakk> cmp x x; length pre = n \<rbrakk> \<Longrightarrow>
   first_free (cmp x) (pre @ x # post) (replicate n True @ replicate (Suc (length post)) False) = Some n"
  by (induction pre arbitrary: n) auto

lemma mark_loop_self:
  assumes "\<forall>x\<in>set xs. cmp x x"
  shows "mark_loop cmp xs (pre @ xs) (replicate (length pre) True @ replicate (length xs) False) res
           = res + length xs"
  using assms
proof (induction xs arbitrary: pre res)
  case Nil
  then show ?case by simp
next
  case (Cons x xs)
  have upd: "(replicate (length pre) True @ replicate (Suc (length xs)) False)[length pre := True]
      = replicate (length (pre @ [x])) True @ replicate (length xs) False"
    by (simp add: list_update_append replicate_app_Cons_same)
  have "first_free (cmp x) (pre @ x # xs)
      (replicate (length pre) True @ replicate (Suc (length xs)) False) = Some (length pre)"
    by (rule first_free_self) (use Cons.prems in auto)
  then show ?case
    using Cons.IH [of "pre @ [x]" "Suc res"] Cons.prems upd by simp
qed

lemma slices_refl: "\<forall>x\<in>set xs. cmp x x \<Longrightarrow> slices_deep_equal_contains cmp xs xs"
  using mark_loop_self [of xs cmp "[]" 0] by (simp add: slices_deep_equal_contains_def)

lemma contains_refl: "gvalue_ok v \<Longrightarrow> contains_ignore_array_order v v"
proof (induction v)
  case (VList xs)
  then have "slices_deep_equal_contains contains_ignore_array_order xs xs"
    by (intro slices_refl) (auto simp: list_all_iff)
  then show ?case
    by (subst contains_ignore_array_order.simps) (simp add: slices_deep_compare_def)
next
  case (VMap m)
  have "contains_ignore_array_order v v" if "(k, v) \<in> set m" for k v
    using VMap that by (force simp: list_all_iff)
  with VMap.prems have "map_any_compare contains_ignore_array_order (\<lambda>l r. l \<le> r) m (VMap m)"
    by (auto simp: map_any_compare_def list_all_iff m_ok_set_iff split: option.splits)
  then show ?case
    by (subst contains_ignore_array_order.simps) (simp add: map_deep_compare_def)
qed (subst contains_ignore_array_order.simps, simp)+

text \<open>The order of the expected elements decides: the first, weaker element takes the only actual
  element that would satisfy the second.\<close>

definition weak_element :: gvalue where
  "weak_element = VMap [(''a'', VInt 1)]"

definition strong_element :: gvalue where
  "strong_element = VMap [(''a'', VInt 1), (''b'', VInt 2)]"

lemma contains_order_sensitive:
  "contains_ignore_array_order (VList [strong_element, weak_element])
     (VList [strong_element, weak_element])"
  "\<not> contains_ignore_array_order (VList [weak_element, strong_element])
     (VList [strong_element, weak_element])"
  "equals_ignore_array_order (VList [weak_element, strong_element])
     (VList [strong_element, weak_element])"
  by (code_simp)+

section \<open>The prefix test before a regular expression\<close>

text \<open>A string expectation without metacharacters and without an anchor goes to the engine.\<close>

lemma anchored_prefix_unanchored: "p = [] \<or> hd p \<noteq> CHR ''^'' \<Longrightarrow> can_match p s"
  by (cases p) (auto simp: can_match_def anchored_prefix_def)

lemma regex_match_engine:
  assumes "re_compile g p = Some rx" and "can_match p s"
  shows "regex_match g (VString p) (VString s) \<longleftrightarrow> rx s \<noteq> None"
  using assms by (simp add: regex_match_def)

lemma can_match_alternation: "\<not> can_match ''^foo|bar'' ''bar''"
  by code_simp

end
