(* ===== verification/Deeply_Rank.thy ===== *)
theory Deeply_Rank
  imports Deeply_Props
begin

text \<open>
  Ranking, \<^verbatim>\<open>internal/infra/deeply/ranker.go\<close>: how well a value that need not match fits an
  expectation. Scores are exact rationals. The Levenshtein distance is computed in one column as
  in the code (the ASCII and the rune version run the same loop on bytes and on runes) and is shown
  to be the recursively defined edit distance.
\<close>

section \<open>Levenshtein distance in one column\<close>

fun lev_row :: "'a list \<Rightarrow> 'a \<Rightarrow> nat \<Rightarrow> nat list \<Rightarrow> nat \<Rightarrow> nat list" where
  "lev_row (c # cs) d left (old # olds) last_diag =
     (let v = min (old + 1) (min (left + 1) (last_diag + (if c \<noteq> d then 1 else 0)))
      in v # lev_row cs d v olds old)"
| "lev_row _ _ _ _ _ = []"

fun lev_loop :: "'a list \<Rightarrow> 'a list \<Rightarrow> nat \<Rightarrow> nat list \<Rightarrow> nat list" where
  "lev_loop s [] x column = column"
| "lev_loop s (d # t) x column = lev_loop s t (Suc x) (x # lev_row s d x (tl column) (x - 1))"

definition lev_distance :: "'a list \<Rightarrow> 'a list \<Rightarrow> nat" where
  "lev_distance s t = lev_loop s t 1 [0..<length s + 1] ! length s"

definition lev_similarity :: "'a list \<Rightarrow> 'a list \<Rightarrow> rat" where
  "lev_similarity s t =
     (let max_length = of_nat (max (length s) (length t))
      in (max_length - of_nat (lev_distance s t)) / max_length)"

definition is_ascii :: "string \<Rightarrow> bool" where
  "is_ascii s \<longleftrightarrow> list_all (\<lambda>c. byte c < (128::nat)) s"

definition distance_ascii :: "string \<Rightarrow> string \<Rightarrow> rat" where
  "distance_ascii s t = lev_similarity s t"

definition distance :: "string \<Rightarrow> string \<Rightarrow> rat" where
  "distance s t =
     (if s = t then 1
      else if s = [] \<or> t = [] then 0
      else if is_ascii s \<and> is_ascii t then distance_ascii s t
      else lev_similarity (runes s) (runes t))"

section \<open>Scores of scalars, slices and maps\<close>

definition regex_score :: "golib \<Rightarrow> string \<Rightarrow> string \<Rightarrow> rat option" where
  "regex_score g pattern subject =
     (if \<not> has_regex_meta pattern \<or> \<not> can_match pattern subject then None
      else case re_compile g pattern of
             None \<Rightarrow> None
           | Some rx \<Rightarrow>
               (case rx subject of
                  None \<Rightarrow> None
                | Some (i, j) \<Rightarrow>
                    if subject = [] then None
                    else Some ((of_nat j - of_nat i) / of_nat (length subject))))"

definition rank :: "golib \<Rightarrow> gvalue \<Rightarrow> gvalue \<Rightarrow> rat" where
  "rank g expect actual =
     (case actual of
        VBool _ \<Rightarrow> 0
      | _ \<Rightarrow>
          (case (expect, stringify g actual) of
             (VString e, Some a) \<Rightarrow>
               if e = a then 1
               else (case regex_score g e a of Some score \<Rightarrow> score | None \<Rightarrow> distance e a)
           | _ \<Rightarrow> if deep_equal expect actual then 1 else 0))"

definition normalize_rank :: "rat \<Rightarrow> nat \<Rightarrow> rat" where
  "normalize_rank score n = (if n = 0 then 1 else score / of_nat n)"

definition map_rank_match :: "(gvalue \<Rightarrow> gvalue \<Rightarrow> rat) \<Rightarrow> gvalue \<Rightarrow> gvalue \<Rightarrow> rat" where
  "map_rank_match compare expect actual =
     (case expect of
        VMap left \<Rightarrow>
          (case actual of
             VMap right \<Rightarrow>
               normalize_rank
                 (sum_list (map (\<lambda>kv. case map_of right (fst kv) of
                                        None \<Rightarrow> 0 | Some other \<Rightarrow> compare (snd kv) other) left))
                 (max (length left) (length right))
           | _ \<Rightarrow> 0)
      | _ \<Rightarrow>
          if type_of expect \<noteq> type_of actual then 0
          else if type_of expect = TNil then 1 else 0)"

fun rank_row :: "('b \<Rightarrow> rat) \<Rightarrow> 'b list \<Rightarrow> bool list \<Rightarrow> rat \<times> bool list" where
  "rank_row f (y # ys) (m # ms) =
     (if m then (let (r, ms') = rank_row f ys ms in (r, m # ms'))
      else (let v = f y; (r, ms') = rank_row f ys ms
            in if v \<noteq> 0 then (v + r, True # ms') else (r, False # ms')))"
| "rank_row f _ _ = (0, [])"

fun rank_rows :: "('a \<Rightarrow> 'b \<Rightarrow> rat) \<Rightarrow> 'a list \<Rightarrow> 'b list \<Rightarrow> bool list \<Rightarrow> rat" where
  "rank_rows compare [] ys marked = 0"
| "rank_rows compare (x # xs) ys marked =
     (let (r, marked') = rank_row (compare x) ys marked in r + rank_rows compare xs ys marked')"

definition slices_rank_match :: "(gvalue \<Rightarrow> gvalue \<Rightarrow> rat) \<Rightarrow> gvalue \<Rightarrow> gvalue \<Rightarrow> rat" where
  "slices_rank_match compare expect actual =
     (if type_of expect \<noteq> type_of actual then 0
      else if type_of expect = TNil then 1
      else case (expect, actual) of
             (VList a, VList b) \<Rightarrow>
               (let res = rank_rows compare a b (replicate (length b) False);
                    longer = max (length a) (length b)
                in if res = 0 \<and> longer = 0 then 1 else res / of_nat longer)
           | _ \<Rightarrow> 0)"

lemma rank_rows_cong:
  assumes "\<And>x y. x \<in> set xs \<Longrightarrow> f x y = h x y"
  shows "rank_rows f xs ys ms = rank_rows h xs ys ms"
  using assms
proof (induction xs arbitrary: ms)
  case (Cons x xs)
  then have "f x = h x" by auto
  with Cons show ?case by (auto simp: split_def)
qed simp

lemma slices_rank_match_cong [fundef_cong]:
  assumes "expect = expect'" and "actual = actual'"
    and "\<And>left v w. expect' = VList left \<Longrightarrow> v \<in> set left \<Longrightarrow> f v w = h v w"
  shows "slices_rank_match f expect actual = slices_rank_match h expect' actual'"
proof -
  have "rank_rows f a b ms = rank_rows h a b ms" if "expect' = VList a" for a b ms
    using assms(3) [OF that] rank_rows_cong [of a f h] by simp
  with assms show ?thesis
    by (auto simp: slices_rank_match_def Let_def split: gvalue.splits)
qed

lemma map_rank_match_cong [fundef_cong]:
  assumes "expect = expect'" and "actual = actual'"
    and "\<And>left k v w. expect' = VMap left \<Longrightarrow> (k, v) \<in> set left \<Longrightarrow> f v w = h v w"
  shows "map_rank_match f expect actual = map_rank_match h expect' actual'"
proof -
  have "sum_list (map (\<lambda>kv. case map_of r (fst kv) of None \<Rightarrow> 0 | Some w \<Rightarrow> f (snd kv) w) l)
      = sum_list (map (\<lambda>kv. case map_of r (fst kv) of None \<Rightarrow> 0 | Some w \<Rightarrow> h (snd kv) w) l)"
    if "expect' = VMap l" for l r
    using assms(3) [OF that]
    by (intro arg_cong [where f = sum_list]) (auto split: option.splits)
  with assms(1,2) show ?thesis
    unfolding map_rank_match_def by (auto split: gvalue.splits)
qed

definition max_rank_depth :: nat where
  "max_rank_depth = 64"

fun rank_match_with_depth :: "golib \<Rightarrow> nat \<Rightarrow> gvalue \<Rightarrow> gvalue \<Rightarrow> rat" where
  "rank_match_with_depth g depth expected actual =
     (if depth > max_rank_depth then 0
      else if expected = VMap [] then 1 / 10
      else rank g expected actual
           + slices_rank_match (\<lambda>e a. rank_match_with_depth g (depth + 1) e a) expected actual
           + map_rank_match (\<lambda>e a. rank_match_with_depth g (depth + 1) e a) expected actual)"

declare rank_match_with_depth.simps [simp del]

text \<open>\<^verbatim>\<open>RankMatch\<close> on the matcher maps of a stub, which may be nil.\<close>

definition rank_match :: "golib \<Rightarrow> gomap \<Rightarrow> gmap \<Rightarrow> rat" where
  "rank_match g expected actual =
     rank_match_with_depth g 0 (VMap (entries expected)) (VMap actual)"

section \<open>The column computes the edit distance\<close>

fun lev :: "'a list \<Rightarrow> 'a list \<Rightarrow> nat" where
  "lev [] ys = length ys"
| "lev xs [] = length xs"
| "lev (x # xs) (y # ys) =
     min (lev xs (y # ys) + 1) (min (lev (x # xs) ys + 1) (lev xs ys + (if x \<noteq> y then 1 else 0)))"

lemma lev_Nil2 [simp]: "lev xs [] = length xs"
  by (cases xs) auto

lemma lev_sym: "lev xs ys = lev ys xs"
  by (induction xs ys rule: lev.induct) auto

lemma lev_bound: "lev xs ys \<le> max (length xs) (length ys)"
  by (induction xs ys rule: lev.induct) (auto simp: max_def min_def split: if_splits)

lemma lev_0_iff: "lev xs ys = 0 \<longleftrightarrow> xs = ys"
  by (induction xs ys rule: lev.induct) (auto simp: min_def split: if_splits)

text \<open>One pass over a column, with the prefix already processed kept in reverse.\<close>

lemma lev_row_correct:
  assumes "left = lev pre (d # p)" and "last_diag = lev pre p"
    and "olds = map (\<lambda>n. lev (rev (take n cs) @ pre) p) [1..<length cs + 1]"
  shows "lev_row cs d left olds last_diag
           = map (\<lambda>n. lev (rev (take n cs) @ pre) (d # p)) [1..<length cs + 1]"
  using assms
proof (induction cs arbitrary: pre left last_diag olds)
  case Nil
  then show ?case by simp
next
  case (Cons c cs)
  have up: "[1..<length (c # cs) + 1] = 1 # map Suc [1..<length cs + 1]"
    by (simp add: map_Suc_upt upt_conv_Cons del: upt_Suc)
  have shift: "map (\<lambda>n. lev (rev (take n (c # cs)) @ pre) q) (map Suc [1..<length cs + 1])
      = map (\<lambda>n. lev (rev (take n cs) @ (c # pre)) q) [1..<length cs + 1]" for q
    by simp
  define old where "old = lev (c # pre) p"
  define rest where "rest = map (\<lambda>n. lev (rev (take n cs) @ (c # pre)) p) [1..<length cs + 1]"
  have olds: "olds = old # rest"
    unfolding Cons.prems(3) up list.map shift by (simp add: old_def rest_def)
  have v: "min (old + 1) (min (left + 1) (last_diag + (if c \<noteq> d then 1 else 0)))
      = lev (c # pre) (d # p)"
    unfolding old_def Cons.prems(1,2) lev.simps(3) by (rule min.left_commute)
  have "lev_row (c # cs) d left olds last_diag
      = lev (c # pre) (d # p) # lev_row cs d (lev (c # pre) (d # p)) rest old"
    by (simp only: olds lev_row.simps Let_def v)
  also have "lev_row cs d (lev (c # pre) (d # p)) rest old
      = map (\<lambda>n. lev (rev (take n cs) @ (c # pre)) (d # p)) [1..<length cs + 1]"
    by (rule Cons.IH) (simp_all add: old_def rest_def)
  finally show ?case
    unfolding up list.map shift by simp
qed

lemma lev_loop_correct:
  assumes "column = map (\<lambda>n. lev (rev (take n s)) p) [0..<length s + 1]" and "x = Suc (length p)"
  shows "lev_loop s t x column = map (\<lambda>n. lev (rev (take n s)) (rev t @ p)) [0..<length s + 1]"
  using assms
proof (induction t arbitrary: x column p)
  case Nil
  then show ?case by simp
next
  case (Cons d t)
  have up: "[0..<length s + 1] = 0 # [1..<length s + 1]"
    by (simp add: upt_conv_Cons del: upt_Suc)
  have tl: "tl column = map (\<lambda>n. lev (rev (take n s)) p) [1..<length s + 1]"
    unfolding Cons.prems(1) up by simp
  have row: "lev_row s d x (tl column) (x - 1)
      = map (\<lambda>n. lev (rev (take n s)) (d # p)) [1..<length s + 1]"
    using lev_row_correct [of x "[]" d p "x - 1" "tl column" s] Cons.prems(2) tl
    by (simp del: upt_Suc)
  have "x # lev_row s d x (tl column) (x - 1)
      = map (\<lambda>n. lev (rev (take n s)) (d # p)) [0..<length s + 1]"
    unfolding row up using Cons.prems(2) by simp
  from Cons.IH [OF this] Cons.prems(2) show ?case by simp
qed

lemma lev_distance_correct: "lev_distance s t = lev (rev s) (rev t)"
proof -
  have init: "[0..<length s + 1] = map (\<lambda>n. lev (rev (take n s)) []) [0..<length s + 1]"
    by (rule nth_equalityI) (auto simp del: upt_Suc)
  have "lev_loop s t 1 [0..<length s + 1]
      = map (\<lambda>n. lev (rev (take n s)) (rev t @ [])) [0..<length s + 1]"
    by (rule lev_loop_correct [OF init]) simp
  then show ?thesis
    by (simp add: lev_distance_def del: upt_Suc)
qed

lemma lev_similarity_bounds: "0 \<le> lev_similarity s t \<and> lev_similarity s t \<le> 1"
proof (cases "max (length s) (length t) = 0")
  case True
  then show ?thesis by (simp add: lev_similarity_def)
next
  case False
  define m where "m = (of_nat (max (length s) (length t)) :: rat)"
  define l where "l = (of_nat (lev_distance s t) :: rat)"
  have "0 < m" "0 \<le> l"
    using False unfolding m_def l_def by (simp_all add: less_max_iff_disj del: of_nat_max)
  moreover have "l \<le> m"
    unfolding m_def l_def of_nat_le_iff lev_distance_correct
    using lev_bound [of "rev s" "rev t"] by simp
  ultimately show ?thesis
    unfolding lev_similarity_def Let_def m_def [symmetric] l_def [symmetric]
    by (simp add: divide_le_eq)
qed

lemma lev_similarity_1:
  assumes "s \<noteq> [] \<or> t \<noteq> []"
  shows "lev_similarity s t = 1 \<longleftrightarrow> s = t"
proof -
  have "0 < (of_nat (max (length s) (length t)) :: rat)"
    using assms by (simp add: less_max_iff_disj del: of_nat_max)
  then have "lev_similarity s t = 1 \<longleftrightarrow> lev_distance s t = 0"
    using assms unfolding lev_similarity_def Let_def by (auto simp add: divide_eq_eq simp del: of_nat_max)
  then show ?thesis
    by (simp add: lev_distance_correct lev_0_iff)
qed

text \<open>The similarity of two texts lies between 0 and 1 and is 1 for equal ASCII texts only.\<close>

lemma distance_bounds: "0 \<le> distance s t \<and> distance s t \<le> 1"
  by (simp add: distance_def distance_ascii_def lev_similarity_bounds)

lemma distance_1_iff: "is_ascii s \<Longrightarrow> is_ascii t \<Longrightarrow> distance s t = 1 \<longleftrightarrow> s = t"
  by (auto simp: distance_def distance_ascii_def lev_similarity_1)

text \<open>
  The pairing of slices lets one expected element score with every actual element that is still
  free, not with the best one: a single expected element that occurs twice scores 2 of 2.
\<close>

lemma slices_rank_repeats:
  "slices_rank_match (\<lambda>e a. if e = a then 1 else 0) (VList [VInt 1]) (VList [VInt 1, VInt 1]) = 1"
  by (simp add: slices_rank_match_def numeral_2_eq_2)

end
