(* ===== verification/Matchers.thy ===== *)
theory Matchers
  imports Deeply_Rank
begin

text \<open>
  Whether a stub matches a query: \<^verbatim>\<open>matcher_equals.go\<close>, \<^verbatim>\<open>matcher_ops.go\<close>, \<^verbatim>\<open>matcher.go\<close>,
  the stream matcher of \<^verbatim>\<open>matcher_stream.go\<close> and the fast paths of
  \<^verbatim>\<open>search_fast_match_helpers.go\<close>. The lemmas relate the fast paths to the plain matcher.
\<close>

section \<open>Equality of fields\<close>

fun to_float64 :: "golib \<Rightarrow> gvalue \<Rightarrow> rat option" where
  "to_float64 g (VInt i) = Some (float_of_int i)"
| "to_float64 g (VInt64 i) = Some (float_of_int i)"
| "to_float64 g (VFloat f) = Some f"
| "to_float64 g (VNumber s) = parse_float g s"
| "to_float64 g _ = None"

text \<open>\<open>None\<close> where the code reports "not handled".\<close>

fun same_type_value_equals :: "gvalue \<Rightarrow> gvalue \<Rightarrow> bool option" where
  "same_type_value_equals (VString e) actual =
     Some (case actual of VString a \<Rightarrow> e = a | _ \<Rightarrow> False)"
| "same_type_value_equals (VInt e) actual = Some (case actual of VInt a \<Rightarrow> e = a | _ \<Rightarrow> False)"
| "same_type_value_equals (VFloat e) actual =
     Some (case actual of VFloat a \<Rightarrow> e = a | _ \<Rightarrow> False)"
| "same_type_value_equals (VBool e) actual = Some (case actual of VBool a \<Rightarrow> e = a | _ \<Rightarrow> False)"
| "same_type_value_equals (VInt64 e) actual =
     Some (case actual of VInt64 a \<Rightarrow> e = a | _ \<Rightarrow> False)"
| "same_type_value_equals (VNumber e) actual =
     Some (case actual of VNumber a \<Rightarrow> e = a | _ \<Rightarrow> False)"
| "same_type_value_equals _ _ = None"

definition field_value_equals :: "golib \<Rightarrow> gvalue \<Rightarrow> gvalue \<Rightarrow> bool" where
  "field_value_equals g expected actual =
     (case (if type_of expected = type_of actual then same_type_value_equals expected actual
            else None) of
        Some eq \<Rightarrow> eq
      | None \<Rightarrow>
          (case (to_float64 g expected, to_float64 g actual) of
             (Some e, Some a) \<Rightarrow> e = a
           | _ \<Rightarrow>
               (case (expected, actual) of
                  (VString e, VString a) \<Rightarrow> e = a
                | (VBool e, VBool a) \<Rightarrow> e = a
                | _ \<Rightarrow> deep_equal expected actual)))"

definition compare_field_value :: "golib \<Rightarrow> gvalue \<Rightarrow> gvalue \<Rightarrow> bool \<Rightarrow> bool" where
  "compare_field_value g expected actual order_ignore =
     (case (order_ignore, expected, actual) of
        (True, VList e, VList a) \<Rightarrow> equals_ignore_array_order (VList e) (VList a)
      | _ \<Rightarrow> field_value_equals g expected actual)"

definition equals_field :: "golib \<Rightarrow> string \<Rightarrow> gvalue \<Rightarrow> gmap \<Rightarrow> bool \<Rightarrow> bool" where
  "equals_field g key expected_value actual_map order_ignore =
     (case find_value_with_variations actual_map key of
        None \<Rightarrow> False
      | Some actual_value \<Rightarrow> compare_field_value g expected_value actual_value order_ignore)"

definition equals :: "golib \<Rightarrow> gomap \<Rightarrow> gmap \<Rightarrow> bool \<Rightarrow> bool" where
  "equals g expected actual order_ignore =
     list_all (\<lambda>kv. equals_field g (fst kv) (snd kv) actual order_ignore) (entries expected)"

section \<open>Containment, regular expressions, globs\<close>

definition contains :: "gomap \<Rightarrow> gmap \<Rightarrow> bool" where
  "contains expected actual =
     (mlen expected = 0 \<or> contains_ignore_array_order (VMap (entries expected)) (VMap actual))"

definition matches :: "golib \<Rightarrow> gomap \<Rightarrow> gmap \<Rightarrow> bool" where
  "matches g expected actual =
     (mlen expected = 0 \<or> matches_ignore_array_order g (VMap (entries expected)) (VMap actual))"

fun match_glob_value :: "gvalue \<Rightarrow> gvalue \<Rightarrow> bool" where
  "match_glob_value (VString p) (VString s) = path_match p s"
| "match_glob_value (VMap pm) (VMap am) =
     list_all (\<lambda>kv. case map_of am (fst kv) of
                      None \<Rightarrow> False | Some act \<Rightarrow> match_glob_value (snd kv) act) pm"
| "match_glob_value _ _ = False"

definition glob_match :: "gomap \<Rightarrow> gmap \<Rightarrow> bool" where
  "glob_match expected actual =
     list_all (\<lambda>kv. case find_value_with_variations actual (fst kv) of
                      None \<Rightarrow> False | Some v \<Rightarrow> match_glob_value (snd kv) v) (entries expected)"

section \<open>A whole matcher\<close>

text \<open>The four kinds of one matcher or alternative; the code writes this conjunction out at each
  of its uses.\<close>

definition matcher_matches :: "golib \<Rightarrow> bool \<Rightarrow> 'a matcher_scheme \<Rightarrow> gmap \<Rightarrow> bool" where
  "matcher_matches g order_ignore m data =
     (equals g (Equals m) data order_ignore \<and> contains (Contains m) data \<and>
      matches g (Matches m) data \<and> glob_match (Glob m) data)"

definition match_headers :: "golib \<Rightarrow> gmap \<Rightarrow> input_header \<Rightarrow> bool" where
  "match_headers g query_headers h =
     (matcher_matches g False h query_headers \<and>
      (HeaderAnyOf h = [] \<or> list_ex (\<lambda>alt. matcher_matches g False alt query_headers) (HeaderAnyOf h)))"

definition match_input :: "golib \<Rightarrow> gmap \<Rightarrow> input_data \<Rightarrow> bool" where
  "match_input g msg i =
     (matcher_matches g (IgnoreArrayOrder i) i msg \<and>
      (AnyOf i = [] \<or>
       list_ex (\<lambda>alt. matcher_matches g (IgnoreArrayOrder alt) alt msg) (AnyOf i)))"

section \<open>Streams of messages\<close>

definition stream_item_matches :: "golib \<Rightarrow> input_data \<Rightarrow> gmap \<Rightarrow> bool" where
  "stream_item_matches g stub_item query_item =
     (matcher_keys stub_item \<noteq> 0 \<and>
      (mlen (Equals stub_item) = 0 \<or>
         equals g (Equals stub_item) query_item (IgnoreArrayOrder stub_item)) \<and>
      (mlen (Contains stub_item) = 0 \<or> contains (Contains stub_item) query_item) \<and>
      (mlen (Matches stub_item) = 0 \<or> matches g (Matches stub_item) query_item) \<and>
      (mlen (Glob stub_item) = 0 \<or> glob_match (Glob stub_item) query_item))"

definition match_stream_elements :: "golib \<Rightarrow> gmap list \<Rightarrow> input_data list \<Rightarrow> bool" where
  "match_stream_elements g query_stream stub_stream =
     (let n = length query_stream in
      if n = 0 \<and> 0 < length stub_stream then False
      else if length stub_stream = 1 \<and> 1 < n
        then list_all (stream_item_matches g (hd stub_stream)) query_stream
      else if n \<noteq> length stub_stream then False
      else list_all2 (stream_item_matches g) stub_stream query_stream)"

section \<open>Fast paths\<close>

definition any_of_element_has_fields :: "any_of_element \<Rightarrow> bool" where
  "any_of_element_has_fields alt \<longleftrightarrow> matcher_keys alt \<noteq> 0"

definition input_has_conditions :: "input_data \<Rightarrow> bool" where
  "input_has_conditions e \<longleftrightarrow> matcher_keys e \<noteq> 0 \<or> list_ex any_of_element_has_fields (AnyOf e)"

definition matcher_declares :: "'a matcher_scheme \<Rightarrow> bool" where
  "matcher_declares m \<longleftrightarrow>
     Equals m \<noteq> None \<or> Contains m \<noteq> None \<or> Matches m \<noteq> None \<or> Glob m \<noteq> None"

definition declares_matcher :: "input_data \<Rightarrow> bool" where
  "declares_matcher e \<longleftrightarrow> matcher_declares e \<or> list_ex matcher_declares (AnyOf e)"

definition match_query_headers :: "golib \<Rightarrow> query \<Rightarrow> stub \<Rightarrow> bool" where
  "match_query_headers g q s =
     (if 0 < header_len (Headers s) \<and> q_Headers q = [] then False
      else if q_Headers q \<noteq> [] \<and> \<not> match_headers g (q_Headers q) (Headers s) then False
      else True)"

definition fast_match_input :: "golib \<Rightarrow> gmap \<Rightarrow> input_data \<Rightarrow> bool" where
  "fast_match_input g msg i =
     (if msg = [] then \<not> input_has_conditions i
      else
        (let no_glob_any = (AnyOf i = [] \<and> mlen (Glob i) = 0);
             e = mlen (Equals i); c = mlen (Contains i); m = mlen (Matches i)
         in if no_glob_any \<and> 0 < e \<and> c = 0 \<and> m = 0
              then equals g (Equals i) msg (IgnoreArrayOrder i)
            else if no_glob_any \<and> 0 < c \<and> e = 0 \<and> m = 0 then contains (Contains i) msg
            else if no_glob_any \<and> 0 < m \<and> e = 0 \<and> c = 0 then matches g (Matches i) msg
            else match_input g msg i))"

definition fast_match_stream :: "golib \<Rightarrow> gmap list \<Rightarrow> input_data list \<Rightarrow> bool" where
  "fast_match_stream g query_stream stub_stream =
     (if \<not> list_ex declares_matcher stub_stream then False
      else if query_stream = [] then \<not> list_ex input_has_conditions stub_stream
      else if length query_stream = 1 \<and> length stub_stream = 1
        then fast_match_input g (hd query_stream) (hd stub_stream)
      else if length stub_stream = 1 \<and> 1 < length query_stream
        then list_all (\<lambda>m. fast_match_input g m (hd stub_stream)) query_stream
      else match_stream_elements g query_stream stub_stream)"

definition fast_match_body :: "golib \<Rightarrow> query \<Rightarrow> stub \<Rightarrow> bool" where
  "fast_match_body g q s =
     (case Inputs s of
        Some inputs \<Rightarrow> if inputs = [] then False else fast_match_stream g (q_Input q) inputs
      | None \<Rightarrow>
          (case q_Input q of
             [] \<Rightarrow> \<not> input_has_conditions (Input s)
           | [m] \<Rightarrow> fast_match_input g m (Input s)
           | ms \<Rightarrow> list_ex (\<lambda>v. fast_match_input g v (Input s)) (rev ms)))"

definition fast_match_v2 :: "golib \<Rightarrow> query \<Rightarrow> stub \<Rightarrow> bool" where
  "fast_match_v2 g q s = (match_query_headers g q s \<and> fast_match_body g q s)"

section \<open>The fast paths agree with the plain matcher\<close>

lemma list_all_empty_map [simp]: "equals g m [] b \<longleftrightarrow> entries m = []"
  by (cases "entries m") (auto simp: equals_def equals_field_def)

lemma glob_match_empty [simp]: "glob_match m [] \<longleftrightarrow> entries m = []"
  by (cases "entries m") (auto simp: glob_match_def)

lemma contains_empty [simp]: "contains m [] \<longleftrightarrow> entries m = []"
  by (auto simp: contains_def contains_ignore_array_order.simps map_deep_compare_def
      map_any_compare_def slices_deep_compare_def)

lemma matches_empty [simp]: "matches g m [] \<longleftrightarrow> entries m = []"
  by (auto simp: matches_def matches_ignore_array_order.simps map_deep_compare_def
      map_any_compare_def slices_deep_compare_def regex_match_def)

lemma matcher_keys_0_iff:
  "matcher_keys m = 0 \<longleftrightarrow>
     entries (Equals m) = [] \<and> entries (Contains m) = [] \<and> entries (Matches m) = []
     \<and> entries (Glob m) = []"
  by (auto simp: matcher_keys_def)

lemma empty_kind [simp]:
  "entries m = [] \<Longrightarrow> equals g m d b" "entries m = [] \<Longrightarrow> contains m d"
  "entries m = [] \<Longrightarrow> matches g m d" "entries m = [] \<Longrightarrow> glob_match m d"
  by (simp_all add: equals_def contains_def matches_def glob_match_def)

lemma matcher_matches_empty [simp]: "matcher_matches g b m [] \<longleftrightarrow> matcher_keys m = 0"
  by (simp add: matcher_matches_def matcher_keys_0_iff)

lemma fast_match_input_nonempty:
  "q \<noteq> [] \<Longrightarrow> fast_match_input g q i = match_input g q i"
  by (auto simp: fast_match_input_def match_input_def matcher_matches_def Let_def)

lemma fast_match_input_empty:
  assumes "list_all any_of_element_has_fields (AnyOf i)
             \<or> \<not> list_ex any_of_element_has_fields (AnyOf i)"
  shows "fast_match_input g [] i = match_input g [] i"
proof (cases "AnyOf i")
  case Nil
  then show ?thesis
    by (simp add: fast_match_input_def match_input_def input_has_conditions_def)
next
  case (Cons a as)
  with assms show ?thesis
    by (auto simp: fast_match_input_def match_input_def input_has_conditions_def
        any_of_element_has_fields_def list_ex_iff list_all_iff)
qed

lemma stream_item_matches_no_alternatives:
  assumes "AnyOf i = []" and "matcher_keys i \<noteq> 0"
  shows "stream_item_matches g i d = match_input g d i"
  using assms
  by (auto simp: stream_item_matches_def match_input_def matcher_matches_def)

end
