(* ===== verification/Ranking.thy ===== *)
theory Ranking
  imports Matchers
begin

text \<open>
  How well a matching stub fits: the rank functions of \<^verbatim>\<open>matcher.go\<close>, \<^verbatim>\<open>matcher_ops.go\<close>,
  \<^verbatim>\<open>matcher_stream.go\<close> and \<^verbatim>\<open>search_fast_match_helpers.go\<close>, the specificity of
  \<^verbatim>\<open>search_specificity_helpers.go\<close>, and the order of ranked matches of
  \<^verbatim>\<open>search_ranked_helpers.go\<close>, shown to be total on stubs with distinct IDs.
\<close>

section \<open>Ranks\<close>

fun rank_glob_value :: "gvalue \<Rightarrow> gvalue \<Rightarrow> rat" where
  "rank_glob_value (VString p) (VString s) = (if path_match p s then 1 else 0)"
| "rank_glob_value (VMap pm) (VMap am) =
     sum_list (map (\<lambda>kv. case map_of am (fst kv) of
                           None \<Rightarrow> 0 | Some act \<Rightarrow> rank_glob_value (snd kv) act) pm)"
| "rank_glob_value _ _ = 0"

definition rank_glob :: "gomap \<Rightarrow> gmap \<Rightarrow> rat" where
  "rank_glob expected actual =
     (if mlen expected = 0 then 0 else rank_glob_value (VMap (entries expected)) (VMap actual))"

definition rank_matcher :: "golib \<Rightarrow> 'a matcher_scheme \<Rightarrow> gmap \<Rightarrow> rat" where
  "rank_matcher g m data =
     rank_match g (Equals m) data + rank_match g (Contains m) data + rank_match g (Matches m) data
     + rank_glob (Glob m) data"

text \<open>The loop over the alternatives: the best of them, at least 0.\<close>

definition best_alternative :: "('a \<Rightarrow> rat) \<Rightarrow> 'a list \<Rightarrow> rat" where
  "best_alternative r alts = fold (\<lambda>alt best. if r alt > best then r alt else best) alts 0"

definition rank_headers :: "golib \<Rightarrow> gmap \<Rightarrow> input_header \<Rightarrow> rat" where
  "rank_headers g query_headers h =
     (if header_len h = 0 then 0
      else (let base = rank_matcher g h query_headers in
            if HeaderAnyOf h = [] then base
            else base + best_alternative (\<lambda>alt. rank_matcher g alt query_headers) (HeaderAnyOf h)))"

definition rank_input :: "golib \<Rightarrow> gmap \<Rightarrow> input_data \<Rightarrow> rat" where
  "rank_input g msg i =
     (let base = rank_matcher g i msg in
      if AnyOf i = [] then base
      else base + best_alternative (\<lambda>alt. rank_matcher g alt msg) (AnyOf i))"

definition stream_element_rank :: "golib \<Rightarrow> input_data \<Rightarrow> gmap \<Rightarrow> rat \<times> nat" where
  "stream_element_rank g stub_item query_item =
     (let perfect = (0 < mlen (Equals stub_item) \<and>
                     equals g (Equals stub_item) query_item (IgnoreArrayOrder stub_item));
          equals_rank = (if perfect then 1 else 0)
      in (equals_rank * 100 + rank_match g (Contains stub_item) query_item * (1 / 10)
            + rank_match g (Matches stub_item) query_item * (1 / 10),
          if perfect then 1 else 0))"

definition stream_element_ranks :: "golib \<Rightarrow> (input_data \<times> gmap) list \<Rightarrow> rat \<times> nat" where
  "stream_element_ranks g ps =
     (sum_list (map (\<lambda>p. fst (stream_element_rank g (fst p) (snd p))) ps),
      sum_list (map (\<lambda>p. snd (stream_element_rank g (fst p) (snd p))) ps))"

definition count_non_nil :: "gomap \<Rightarrow> nat" where
  "count_non_nil m = length (filter (\<lambda>kv. snd kv \<noteq> VNil) (entries m))"

definition count_stream_matchers :: "input_data list \<Rightarrow> nat" where
  "count_stream_matchers ss =
     sum_list (map (\<lambda>i. count_non_nil (Equals i) + count_non_nil (Contains i)
                        + count_non_nil (Matches i)) ss)"

definition rank_stream_elements :: "golib \<Rightarrow> gmap list \<Rightarrow> input_data list \<Rightarrow> rat" where
  "rank_stream_elements g query_stream stub_stream =
     (let n = length query_stream in
      if n = 0 \<and> 0 < length stub_stream then 0
      else if length stub_stream = 1 \<and> 1 < n then
        (let (total_rank, perfect) =
               stream_element_ranks g (map (\<lambda>m. (hd stub_stream, m)) query_stream)
         in total_rank / of_nat n + of_nat perfect * 1000
            + of_nat (count_stream_matchers stub_stream) * 50)
      else if n \<noteq> length stub_stream then 0
      else
        (let (total_rank, perfect) = stream_element_ranks g (zip stub_stream query_stream)
         in total_rank + of_nat n * 10 + of_nat perfect * 1000
            + (if perfect = n \<and> 0 < n then 10000 else 0)
            + of_nat (count_stream_matchers stub_stream) * 50))"

definition fast_rank_input :: "golib \<Rightarrow> gmap \<Rightarrow> input_data \<Rightarrow> rat" where
  "fast_rank_input g msg i =
     (if msg = [] then (if \<not> input_has_conditions i then 1 else 0)
      else if 0 < mlen (Equals i) \<and> mlen (Contains i) = 0 \<and> mlen (Matches i) = 0 \<and>
              mlen (Glob i) = 0 \<and> AnyOf i = []
        then (if equals g (Equals i) msg (IgnoreArrayOrder i) then 1 else 0)
      else rank_input g msg i)"

definition fast_rank_stream :: "golib \<Rightarrow> gmap list \<Rightarrow> input_data list \<Rightarrow> rat" where
  "fast_rank_stream g query_stream stub_stream =
     (if query_stream = [] then (if list_ex input_has_conditions stub_stream then 0 else 1)
      else if length query_stream = 1 \<and> length stub_stream = 1
        then fast_rank_input g (hd query_stream) (hd stub_stream)
      else if length stub_stream = 1 \<and> 1 < length query_stream
        then sum_list (map (\<lambda>m. fast_rank_input g m (hd stub_stream)) query_stream)
             / of_nat (length query_stream)
      else rank_stream_elements g query_stream stub_stream)"

text \<open>Several messages against one input: the best message, weighted by its position.\<close>

definition weighted_best :: "golib \<Rightarrow> gmap list \<Rightarrow> input_data \<Rightarrow> rat" where
  "weighted_best g ms i =
     fold (\<lambda>k best. let r = fast_rank_input g (ms ! k) i;
                        weighted = r * (of_nat (k + 1) / of_nat (length ms))
                    in if 0 < r \<and> best < weighted then weighted else best)
       (rev [0..<length ms]) 0"

definition fast_rank_v2 :: "golib \<Rightarrow> query \<Rightarrow> stub \<Rightarrow> rat" where
  "fast_rank_v2 g q s =
     (if q_Headers q \<noteq> [] \<and> \<not> match_headers g (q_Headers q) (Headers s) then 0
      else
        (let headers_rank = rank_headers g (q_Headers q) (Headers s) in
         case Inputs s of
           Some inputs \<Rightarrow>
             if inputs = [] then headers_rank
             else headers_rank + fast_rank_stream g (q_Input q) inputs + 1000
         | None \<Rightarrow>
             (case q_Input q of
                [] \<Rightarrow> headers_rank
              | [m] \<Rightarrow> headers_rank + fast_rank_input g m (Input s)
              | ms \<Rightarrow> headers_rank + weighted_best g ms (Input s))))"

section \<open>Specificity\<close>

definition count_matcher_keys :: "gomap \<Rightarrow> (string \<Rightarrow> bool) \<Rightarrow> nat" where
  "count_matcher_keys m p = length (filter (\<lambda>kv. p (fst kv)) (entries m))"

definition matcher_specificity :: "'a matcher_scheme \<Rightarrow> (string \<Rightarrow> bool) \<Rightarrow> nat" where
  "matcher_specificity m p =
     count_matcher_keys (Equals m) p + count_matcher_keys (Contains m) p
     + count_matcher_keys (Matches m) p + count_matcher_keys (Glob m) p"

definition field_exists_with_non_default_value :: "gmap \<Rightarrow> string \<Rightarrow> bool" where
  "field_exists_with_non_default_value msg key =
     (case find_value_with_variations msg key of
        None \<Rightarrow> False | Some v \<Rightarrow> \<not> is_default_value v)"

definition calc_specificity_unary :: "input_data \<Rightarrow> gmap \<Rightarrow> nat" where
  "calc_specificity_unary i msg =
     (let p = field_exists_with_non_default_value msg in
      matcher_specificity i p + sum_list (map (\<lambda>alt. matcher_specificity alt p) (AnyOf i)))"

definition calc_specificity_stream :: "input_data list \<Rightarrow> gmap list \<Rightarrow> nat" where
  "calc_specificity_stream stub_stream query_stream =
     (if stub_stream = [] \<or> query_stream = [] then 0
      else sum_list (map (\<lambda>p. calc_specificity_unary (fst p) (snd p)) (zip stub_stream query_stream)))"

definition calc_specificity :: "stub \<Rightarrow> query \<Rightarrow> nat" where
  "calc_specificity s q =
     (if q_Input q = [] then 0
      else if 0 < length (inputs_list s) then calc_specificity_stream (inputs_list s) (q_Input q)
      else case q_Input q of [m] \<Rightarrow> calc_specificity_unary (Input s) m | _ \<Rightarrow> 0)"

section \<open>Ranked matches\<close>

definition priority_multiplier :: rat where
  "priority_multiplier = 10"

definition count_any_of_fields :: "any_of_element list \<Rightarrow> nat" where
  "count_any_of_fields alts = sum_list (map matcher_keys alts)"

definition count_stub_fields :: "stub \<Rightarrow> nat" where
  "count_stub_fields s =
     matcher_keys (Input s) + matcher_keys (Headers s)
     + sum_list (map (\<lambda>i. matcher_keys i + count_any_of_fields (AnyOf i)) (inputs_list s))
     + count_any_of_fields (AnyOf (Input s))
     + sum_list (map matcher_keys (HeaderAnyOf (Headers s)))"

record ranked_match =
  r_stub :: stub
  r_specificity :: int
  r_totalScore :: rat
  r_fieldCount :: int

definition score_with_priority :: "golib \<Rightarrow> query \<Rightarrow> stub \<Rightarrow> rat" where
  "score_with_priority g q s = fast_rank_v2 g q s + of_int (Priority s) * priority_multiplier"

definition ranked_match_for :: "golib \<Rightarrow> query \<Rightarrow> stub \<Rightarrow> ranked_match" where
  "ranked_match_for g q s =
     \<lparr>r_stub = s, r_specificity = int (calc_specificity s q),
      r_totalScore = score_with_priority g q s, r_fieldCount = int (count_stub_fields s)\<rparr>"

definition compare_ranked_matches :: "ranked_match \<Rightarrow> ranked_match \<Rightarrow> int" where
  "compare_ranked_matches a b =
     (if r_specificity a \<noteq> r_specificity b then r_specificity b - r_specificity a
      else if r_totalScore a < r_totalScore b then 1
      else if r_totalScore a > r_totalScore b then -1
      else if r_fieldCount a \<noteq> r_fieldCount b then (if r_fieldCount a > r_fieldCount b then -1 else 1)
      else cmp3 (ID (r_stub a)) (ID (r_stub b)))"

definition sort_ranked_matches :: "ranked_match list \<Rightarrow> ranked_match list" where
  "sort_ranked_matches ms = sort_func compare_ranked_matches ms"

text \<open>The candidate for the \<open>similar\<close> stub; \<open>None\<close> is the zero value of the loop, without a stub.
  Here fewer fields win.\<close>

definition better_similar :: "ranked_match option \<Rightarrow> ranked_match \<Rightarrow> bool" where
  "better_similar current candidate =
     (case current of
        None \<Rightarrow> True
      | Some c \<Rightarrow>
          if r_specificity candidate \<noteq> r_specificity c
            then r_specificity candidate > r_specificity c
          else if r_fieldCount candidate \<noteq> r_fieldCount c
            then r_fieldCount candidate < r_fieldCount c
          else if r_totalScore candidate \<noteq> r_totalScore c
            then r_totalScore candidate > r_totalScore c
          else cmp3 (ID (r_stub candidate)) (ID (r_stub c)) < 0)"

interpretation ranked: key_comparator compare_ranked_matches "\<lambda>_. True" "\<lambda>r. ID (r_stub r)"
proof
  show "compare_ranked_matches a b < 0 \<longleftrightarrow> 0 < compare_ranked_matches b a" for a b
    by (auto simp: compare_ranked_matches_def)
  show "compare_ranked_matches a b \<le> 0 \<Longrightarrow> compare_ranked_matches b c \<le> 0 \<Longrightarrow>
      compare_ranked_matches a c \<le> 0" for a b c
    by (auto simp: compare_ranked_matches_def split: if_splits)
  show "compare_ranked_matches a b = 0 \<Longrightarrow> ID (r_stub a) = ID (r_stub b)" for a b
    by (auto simp: compare_ranked_matches_def split: if_splits)
qed

text \<open>A better-ranked stub: more of its fields are set in the query; if equally many, a higher
  score; then more fields; then the smaller ID.\<close>

lemma compare_ranked_le:
  "compare_ranked_matches a b \<le> 0 \<longleftrightarrow>
     r_specificity b < r_specificity a \<or>
     r_specificity a = r_specificity b \<and>
       (r_totalScore b < r_totalScore a \<or>
        r_totalScore a = r_totalScore b \<and>
          (r_fieldCount b < r_fieldCount a \<or>
           r_fieldCount a = r_fieldCount b \<and> ID (r_stub a) \<le> ID (r_stub b)))"
  by (auto simp: compare_ranked_matches_def)

text \<open>A number field of a decoded request is never a default value, even when it is zero.\<close>

lemma zero_number_counts:
  "field_exists_with_non_default_value [(k, VNumber ''0'')] k"
  "\<not> field_exists_with_non_default_value [(k, VString '''')] k"
  "\<not> field_exists_with_non_default_value [(k, VBool False)] k"
  by (simp_all add: field_exists_with_non_default_value_def find_value_with_variations_def)

end
