(* ===== verification/Storage.thy ===== *)
theory Storage
  imports Ranking
begin

text \<open>
  The stub store: \<^verbatim>\<open>storage.go\<close>, \<^verbatim>\<open>storage_mutation.go\<close>, \<^verbatim>\<open>storage_sort.go\<close> and
  \<^verbatim>\<open>storage_equals_index.go\<close>. Operations hold the store's lock for their whole run, so each is
  one function on the state. A stub pointer is the stub itself: the store never writes to a stub.
  The theory \<open>Storage_Invariant\<close> proves what the indexes hold.
\<close>

section \<open>Errors, keys, order\<close>

datatype storage_error = ErrLeftNotFound | ErrRightNotFound

definition hash_id :: "golib \<Rightarrow> string \<Rightarrow> 32 word" where
  "hash_id g v = xxh3_32 g v"

unbundle bit_operations_syntax

definition pos :: "32 word \<Rightarrow> 32 word \<Rightarrow> 64 word" where
  "pos a b = push_bit 32 (ucast a) OR ucast b"

definition stub_pos :: "golib \<Rightarrow> stub \<Rightarrow> 64 word" where
  "stub_pos g v = pos (hash_id g (Service v)) (hash_id g (Method v))"

definition compare_stubs_by_priority_and_id :: "stub \<Rightarrow> stub \<Rightarrow> int" where
  "compare_stubs_by_priority_and_id a b =
     (if Priority a \<noteq> Priority b then wrap64 (Priority b - Priority a) else cmp3 (ID a) (ID b))"

section \<open>State\<close>

type_synonym buckets = "(string \<times> stub list) list"

record storage =
  lefts :: "32 word set"
  methodSorted :: "(32 word \<times> buckets) list"
  itemSorted :: "(64 word \<times> buckets) list"
  equalsIndex :: "(64 word \<times> (string \<times> buckets) list) list"
  unindexed :: "(64 word \<times> stub list) list"
  itemsByID :: "(uuid \<times> stub) list"
  sessions :: "(string \<times> int) list"

definition new_storage :: storage where
  "new_storage = \<lparr>lefts = {}, methodSorted = [], itemSorted = [], equalsIndex = [],
     unindexed = [], itemsByID = [], sessions = []\<rparr>"

definition clear_storage :: "storage \<Rightarrow> storage" where
  "clear_storage s = s\<lparr>lefts := {}, methodSorted := [], itemSorted := [], equalsIndex := [],
     unindexed := [], itemsByID := [], sessions := []\<rparr>"

section \<open>Buckets\<close>

definition m_get :: "('k \<times> ('a \<times> 'b) list) list \<Rightarrow> 'k \<Rightarrow> ('a \<times> 'b) list" where
  "m_get m k = (case map_of m k of None \<Rightarrow> [] | Some b \<Rightarrow> b)"

fun remove_sorted_stub_by_id :: "stub list \<Rightarrow> uuid \<Rightarrow> stub list" where
  "remove_sorted_stub_by_id [] i = []"
| "remove_sorted_stub_by_id (s # ss) i =
     (if ID s = i then ss else s # remove_sorted_stub_by_id ss i)"

definition upsert_session_index ::
  "('k \<times> buckets) list \<Rightarrow> 'k \<Rightarrow> string \<Rightarrow> stub \<Rightarrow> ('k \<times> buckets) list" where
  "upsert_session_index srt key session v =
     (let b = m_get srt key in m_put key (m_put session (m_list b session @ [v]) b) srt)"

definition remove_session_index ::
  "('k \<times> buckets) list \<Rightarrow> 'k \<Rightarrow> string \<Rightarrow> uuid \<Rightarrow> ('k \<times> buckets) list" where
  "remove_session_index srt key session i =
     (case map_of srt key of
        None \<Rightarrow> srt
      | Some b \<Rightarrow>
          (let xs = remove_sorted_stub_by_id (m_list b session) i;
               b' = (if xs = [] then m_del session b else m_put session xs b)
           in if b' = [] then m_del key srt else m_put key b' srt))"

section \<open>The equals index\<close>

definition anchored_literal :: "golib \<Rightarrow> string \<Rightarrow> string option" where
  "anchored_literal g pattern =
     (case re_parse g pattern of
        None \<Rightarrow> None
      | Some parsed \<Rightarrow>
          (let subs = re_subs parsed in
           if re_op parsed \<noteq> OpConcat \<or> length subs < 3 then None
           else if re_op (hd subs) \<noteq> OpBeginText \<or> re_op (last subs) \<noteq> OpEndText then None
           else
             (let mid = butlast (tl subs); literal = concat (map re_runes mid) in
              if list_ex (\<lambda>sub. re_op sub \<noteq> OpLiteral \<or> re_fold sub) mid then None
              else if literal = [] then None else Some literal)))"

text \<open>The fields a stub may be indexed by, and whether their values are patterns.\<close>

definition indexable_fields :: "stub \<Rightarrow> (gmap \<times> bool) option" where
  "indexable_fields v =
     (let i = Input v in
      if Inputs v \<noteq> None \<or> 0 < mlen (Glob i) \<or> AnyOf i \<noteq> [] then None
      else if 0 < mlen (Matches i) then
        (if 0 < mlen (Equals i) \<or> 0 < mlen (Contains i) then None
         else Some (entries (Matches i), True))
      else if 0 < mlen (Equals i) then Some (entries (Equals i), False)
      else if 0 < mlen (Contains i) then Some (entries (Contains i), False)
      else None)"

fun index_key_loop ::
  "golib \<Rightarrow> bool \<Rightarrow> (string \<times> string) option \<Rightarrow> gmap \<Rightarrow> (string \<times> string) option" where
  "index_key_loop g pattern best [] = Some (case best of None \<Rightarrow> ('''', '''') | Some kv \<Rightarrow> kv)"
| "index_key_loop g pattern best ((k, v) # flds) =
     (case v of
        VString s \<Rightarrow>
          (case (if pattern then anchored_literal g s else Some s) of
             None \<Rightarrow> None
           | Some s' \<Rightarrow>
               index_key_loop g pattern
                 (case best of
                    None \<Rightarrow> Some (k, s')
                  | Some (bk, bv) \<Rightarrow> if k < bk then Some (k, s') else Some (bk, bv)) flds)
      | _ \<Rightarrow> None)"

definition index_key_for :: "golib \<Rightarrow> stub \<Rightarrow> (string \<times> string) option" where
  "index_key_for g v =
     (case indexable_fields v of
        None \<Rightarrow> None
      | Some (flds, pattern) \<Rightarrow> index_key_loop g pattern None flds)"

definition index_stub :: "golib \<Rightarrow> storage \<Rightarrow> 64 word \<Rightarrow> stub \<Rightarrow> storage" where
  "index_stub g s index v =
     (case index_key_for g v of
        None \<Rightarrow> s\<lparr>unindexed := m_put index (m_list (unindexed s) index @ [v]) (unindexed s)\<rparr>
      | Some (key, val) \<Rightarrow>
          s\<lparr>equalsIndex :=
              m_put index (upsert_session_index (m_get (equalsIndex s) index) key val v)
                (equalsIndex s)\<rparr>)"

definition deindex_stub :: "golib \<Rightarrow> storage \<Rightarrow> 64 word \<Rightarrow> stub \<Rightarrow> storage" where
  "deindex_stub g s index v =
     (case index_key_for g v of
        None \<Rightarrow>
          (let xs = remove_sorted_stub_by_id (m_list (unindexed s) index) (ID v)
           in s\<lparr>unindexed := (if xs = [] then m_del index (unindexed s)
                             else m_put index xs (unindexed s))\<rparr>)
      | Some (key, val) \<Rightarrow>
          (case map_of (equalsIndex s) index of
             None \<Rightarrow> s
           | Some by_field \<Rightarrow>
               (case map_of by_field key of
                  None \<Rightarrow> s
                | Some by_value \<Rightarrow>
                    (let by_field' = remove_session_index by_field key val (ID v)
                     in s\<lparr>equalsIndex := (if by_field' = [] then m_del index (equalsIndex s)
                                         else m_put index by_field' (equalsIndex s))\<rparr>))))"

section \<open>Sessions\<close>

definition increment_session :: "string \<Rightarrow> (string \<times> int) list \<Rightarrow> (string \<times> int) list" where
  "increment_session session m =
     (if session = '''' then m
      else m_put session ((case map_of m session of None \<Rightarrow> 0 | Some n \<Rightarrow> n) + 1) m)"

definition decrement_session :: "string \<Rightarrow> (string \<times> int) list \<Rightarrow> (string \<times> int) list" where
  "decrement_session session m =
     (if session = '''' then m
      else (let next = (case map_of m session of None \<Rightarrow> 0 | Some n \<Rightarrow> n) - 1
            in if next \<le> 0 then m_del session m else m_put session next m))"

definition sessions_list :: "storage \<Rightarrow> string list" where
  "sessions_list s = sort (map fst (sessions s))"

section \<open>Mutations\<close>

definition remove_stub_indexes :: "golib \<Rightarrow> storage \<Rightarrow> stub \<Rightarrow> storage" where
  "remove_stub_indexes g s v =
     (let p = stub_pos g v;
          s1 = s\<lparr>itemSorted := remove_session_index (itemSorted s) p (Session v) (ID v)\<rparr>;
          s2 = deindex_stub g s1 p v;
          s3 = s2\<lparr>methodSorted := remove_session_index (methodSorted s2) (hash_id g (Method v))
                    (Session v) (ID v)\<rparr>
      in s3\<lparr>sessions := decrement_session (Session v) (sessions s3)\<rparr>)"

definition insert_stub :: "golib \<Rightarrow> storage \<Rightarrow> stub \<Rightarrow> storage" where
  "insert_stub g s v =
     (let left_id = hash_id g (Service v); right_id = hash_id g (Method v);
          index = pos left_id right_id;
          s1 = s\<lparr>itemSorted := upsert_session_index (itemSorted s) index (Session v) v\<rparr>;
          s2 = index_stub g s1 index v;
          s3 = s2\<lparr>methodSorted := upsert_session_index (methodSorted s2) right_id (Session v) v\<rparr>
      in s3\<lparr>sessions := increment_session (Session v) (sessions s3),
            itemsByID := m_put (ID v) v (itemsByID s3),
            lefts := insert left_id (lefts s3)\<rparr>)"

text \<open>One round of the loop of \<^verbatim>\<open>upsert\<close>.\<close>

definition upsert_one :: "golib \<Rightarrow> stub \<Rightarrow> storage \<Rightarrow> storage" where
  "upsert_one g v s =
     insert_stub g
       (case map_of (itemsByID s) (ID v) of
          None \<Rightarrow> s | Some old \<Rightarrow> remove_stub_indexes g s old) v"

definition resort_bucket :: "64 word \<times> string \<Rightarrow> (64 word \<times> buckets) list \<Rightarrow> (64 word \<times> buckets) list" where
  "resort_bucket t m =
     (case map_of m (fst t) of
        None \<Rightarrow> m
      | Some b \<Rightarrow>
          (case map_of b (snd t) of
             None \<Rightarrow> m
           | Some xs \<Rightarrow>
               m_put (fst t) (m_put (snd t) (sort_func compare_stubs_by_priority_and_id xs) b) m))"

definition resort_touched :: "(64 word \<times> string) list \<Rightarrow> storage \<Rightarrow> storage" where
  "resort_touched touched s = s\<lparr>itemSorted := fold resort_bucket touched (itemSorted s)\<rparr>"

definition upsert :: "golib \<Rightarrow> stub list \<Rightarrow> storage \<Rightarrow> uuid list \<times> storage" where
  "upsert g vs s =
     (if vs = [] then ([], s)
      else (map ID vs,
            resort_touched (remdups (map (\<lambda>v. (stub_pos g v, Session v)) vs))
              (fold (upsert_one g) vs s)))"

definition del_one :: "golib \<Rightarrow> uuid \<Rightarrow> nat \<times> storage \<Rightarrow> nat \<times> storage" where
  "del_one g key ns =
     (case map_of (itemsByID (snd ns)) key of
        None \<Rightarrow> ns
      | Some v \<Rightarrow>
          (let s' = remove_stub_indexes g (snd ns) v
           in (Suc (fst ns), s'\<lparr>itemsByID := m_del key (itemsByID s')\<rparr>)))"

definition del :: "golib \<Rightarrow> uuid list \<Rightarrow> storage \<Rightarrow> nat \<times> storage" where
  "del g keys s = fold (del_one g) keys (0, s)"

definition del_by_session :: "golib \<Rightarrow> string \<Rightarrow> storage \<Rightarrow> nat \<times> storage" where
  "del_by_session g session s =
     (if session = '''' then (0, s)
      else fold (\<lambda>kv ns. if Session (snd kv) = session then del_one g (fst kv) ns else ns)
             (itemsByID s) (0, s))"

section \<open>Lookups\<close>

definition find_by_id :: "storage \<Rightarrow> uuid \<Rightarrow> stub option" where
  "find_by_id s key = map_of (itemsByID s) key"

definition find_by_ids :: "storage \<Rightarrow> uuid list \<Rightarrow> stub list" where
  "find_by_ids s ids = List.map_filter (map_of (itemsByID s)) ids"

definition storage_values :: "storage \<Rightarrow> stub list" where
  "storage_values s = map snd (itemsByID s)"

definition storage_size :: "storage \<Rightarrow> nat" where
  "storage_size s = length (itemsByID s)"

definition pos_by_n :: "golib \<Rightarrow> storage \<Rightarrow> string \<Rightarrow> string \<Rightarrow> storage_error + 64 word" where
  "pos_by_n g s left_name right_name =
     (let left_id = hash_id g left_name; key = pos left_id (hash_id g right_name) in
      if left_id \<notin> lefts s then Inl ErrLeftNotFound
      else if map_of (itemSorted s) key = None then Inl ErrRightNotFound
      else Inr key)"

definition pos_by_pn :: "golib \<Rightarrow> storage \<Rightarrow> string \<Rightarrow> string \<Rightarrow> storage_error + 64 word list" where
  "pos_by_pn g s left right =
     (let first = pos_by_n g s left right;
          resolved = (case first of Inl _ \<Rightarrow> [] | Inr i \<Rightarrow> [i]);
          finish = (\<lambda>ids. if ids = [] then (case first of Inl e \<Rightarrow> Inl e | Inr i \<Rightarrow> Inr [i])
                          else Inr ids)
      in case after_last (CHR ''.'') left of
           None \<Rightarrow> finish resolved
         | Some truncated \<Rightarrow>
             (case pos_by_n g s truncated right of
                Inr i \<Rightarrow> finish (resolved @ [i])
              | Inl e \<Rightarrow>
                  if e = ErrRightNotFound \<and> resolved = [] then Inl e else finish resolved))"

fun merge_sorted_stubs :: "stub list \<Rightarrow> stub list \<Rightarrow> stub list" where
  "merge_sorted_stubs (a # as) (b # bs) =
     (if compare_stubs_by_priority_and_id a b \<le> 0 then a # merge_sorted_stubs as (b # bs)
      else b # merge_sorted_stubs (a # as) bs)"
| "merge_sorted_stubs [] bs = bs"
| "merge_sorted_stubs as [] = as"

definition merge_sorted_parts :: "stub list list \<Rightarrow> stub list" where
  "merge_sorted_parts parts =
     (case parts of
        [] \<Rightarrow> []
      | [p] \<Rightarrow> p
      | p # ps \<Rightarrow> fold (\<lambda>part merged. merge_sorted_stubs merged part) ps p)"

definition sorted_parts :: "storage \<Rightarrow> 64 word list \<Rightarrow> stub list list" where
  "sorted_parts s indexes =
     concat (map (\<lambda>index. filter (\<lambda>xs. xs \<noteq> []) (map snd (m_get (itemSorted s) index))) indexes)"

definition yield_sorted_values :: "storage \<Rightarrow> 64 word list \<Rightarrow> stub list" where
  "yield_sorted_values s indexes = merge_sorted_parts (sorted_parts s indexes)"

definition available_parts :: "(64 word \<times> buckets) list \<Rightarrow> string \<Rightarrow> 64 word \<Rightarrow> stub list list" where
  "available_parts index_buckets session index =
     (let b = m_get index_buckets index; global = m_list b '''';
          own = (if session \<noteq> '''' then m_list b session else [])
      in (if global \<noteq> [] then [global] else []) @ (if own \<noteq> [] then [own] else []))"

definition collect_available_sorted ::
  "(64 word \<times> buckets) list \<Rightarrow> 64 word list \<Rightarrow> string \<Rightarrow> stub list" where
  "collect_available_sorted index_buckets indexes session =
     merge_sorted_parts (concat (map (available_parts index_buckets session) indexes))"

definition find_all :: "golib \<Rightarrow> storage \<Rightarrow> string \<Rightarrow> string \<Rightarrow> storage_error + stub list" where
  "find_all g s left right =
     (case pos_by_pn g s left right of
        Inl e \<Rightarrow> Inl e | Inr indexes \<Rightarrow> Inr (yield_sorted_values s indexes))"

definition find_all_available ::
  "golib \<Rightarrow> storage \<Rightarrow> string \<Rightarrow> string \<Rightarrow> string \<Rightarrow> storage_error + stub list" where
  "find_all_available g s left right session =
     (case pos_by_pn g s left right of
        Inl e \<Rightarrow> Inl e
      | Inr indexes \<Rightarrow> Inr (collect_available_sorted (itemSorted s) indexes session))"

definition sorted_copy :: "stub list \<Rightarrow> stub list" where
  "sorted_copy ss = sort_func compare_stubs_by_priority_and_id ss"

definition find_by_method_available :: "golib \<Rightarrow> storage \<Rightarrow> string \<Rightarrow> string \<Rightarrow> stub list" where
  "find_by_method_available g s meth session =
     (let b = m_get (methodSorted s) (hash_id g meth); global = m_list b '''' in
      if session = '''' then sorted_copy global
      else sort_func compare_stubs_by_priority_and_id (global @ m_list b session))"

definition has_method_available :: "golib \<Rightarrow> storage \<Rightarrow> string \<Rightarrow> string \<Rightarrow> bool" where
  "has_method_available g s meth session =
     (let b = m_get (methodSorted s) (hash_id g meth) in
      if m_list b '''' \<noteq> [] then True
      else if session = '''' then False
      else m_list b session \<noteq> [])"

text \<open>The candidates of one service/method index, or \<open>None\<close> when it holds no indexed stub.\<close>

definition candidates_of_index :: "storage \<Rightarrow> gmap \<Rightarrow> 64 word \<Rightarrow> stub list option" where
  "candidates_of_index s msg index =
     (case map_of (equalsIndex s) index of
        None \<Rightarrow> None
      | Some by_field \<Rightarrow>
          Some (m_list (unindexed s) index @
                concat (map (\<lambda>kv. case snd kv of
                                     VString v \<Rightarrow>
                                       concat (map (\<lambda>key. m_list (m_get by_field key) v)
                                                 (key_variations (fst kv)))
                                   | _ \<Rightarrow> []) msg)))"

definition indexed_candidates :: "storage \<Rightarrow> 64 word list \<Rightarrow> gmap \<Rightarrow> stub list option" where
  "indexed_candidates s indexes msg =
     (if msg = [] then None
      else (let parts = map (candidates_of_index s msg) indexes in
            if list_all (\<lambda>p. p = None) parts then None
            else Some (concat (map (\<lambda>p. case p of None \<Rightarrow> [] | Some xs \<Rightarrow> xs) parts))))"

section \<open>External and internal store\<close>

record storage_with_internal =
  external :: storage
  internal :: storage

text \<open>\<^verbatim>\<open>clear\<close> empties both; every other operation promotes to the external store.\<close>

definition clear_with_internal :: "storage_with_internal \<Rightarrow> storage_with_internal" where
  "clear_with_internal s =
     s\<lparr>external := clear_storage (external s), internal := clear_storage (internal s)\<rparr>"

definition put_internal ::
  "golib \<Rightarrow> stub list \<Rightarrow> storage_with_internal \<Rightarrow> uuid list \<times> storage_with_internal" where
  "put_internal g vs s =
     (let (ids, i) = upsert g vs (internal s) in (ids, s\<lparr>internal := i\<rparr>))"

end
