(* ===== verification/Storage_Index.thy ===== *)
theory Storage_Index
  imports Storage
begin

text \<open>
  What every index of the store does, as a locale: an index keeps, under each key, the stored
  stubs that have that key, each once. The interpretations cover the three indexes of the code:
  \<^verbatim>\<open>itemSorted\<close> (service/method and session), \<^verbatim>\<open>methodSorted\<close> (method and session) and the pair of
  \<^verbatim>\<open>equalsIndex\<close> and \<^verbatim>\<open>unindexed\<close> (service/method and indexed field).
\<close>

section \<open>Removal from a bucket\<close>

lemma remove_sorted_filter:
  "distinct (map ID xs) \<Longrightarrow> remove_sorted_stub_by_id xs i = filter (\<lambda>x. ID x \<noteq> i) xs"
proof (induction xs)
  case (Cons a xs)
  have "filter (\<lambda>x. ID x \<noteq> i) xs = xs" if "ID a = i"
    using Cons.prems that by (intro filter_True) (metis distinct.simps(2) image_eqI list.set_map list.simps(9))
  with Cons show ?case by auto
qed simp

lemma remove_sorted_set:
  "distinct (map ID xs) \<Longrightarrow> set (remove_sorted_stub_by_id xs i) = {x \<in> set xs. ID x \<noteq> i}"
  by (simp add: remove_sorted_filter)

lemma remove_sorted_distinct:
  "distinct (map ID xs) \<Longrightarrow> distinct (map ID (remove_sorted_stub_by_id xs i))"
  by (simp add: remove_sorted_filter distinct_map_filter)

lemma remove_sorted_sorted:
  "sorted_func cmp xs \<Longrightarrow> sorted_func cmp (remove_sorted_stub_by_id xs i)"
proof (induction xs)
  case (Cons a xs)
  have "set (remove_sorted_stub_by_id xs i) \<subseteq> set xs"
    by (induction xs) auto
  with Cons show ?case by (auto simp: sorted_func_def)
qed simp

section \<open>The contract of an index\<close>

locale stub_index =
  fixes look :: "'m \<Rightarrow> 'k \<Rightarrow> stub list"
    and add :: "'k \<Rightarrow> stub \<Rightarrow> 'm \<Rightarrow> 'm"
    and rem :: "'k \<Rightarrow> uuid \<Rightarrow> 'm \<Rightarrow> 'm"
    and invar :: "'m \<Rightarrow> bool"
    and key_of :: "stub \<Rightarrow> 'k"
  assumes look_add: "invar m \<Longrightarrow> look (add k v m) k' = (if k' = k then look m k @ [v] else look m k')"
    and look_rem: "invar m \<Longrightarrow>
      look (rem k i m) k' = (if k' = k then remove_sorted_stub_by_id (look m k) i else look m k')"
    and invar_add: "invar m \<Longrightarrow> invar (add k v m)"
    and invar_rem: "invar m \<Longrightarrow> invar (rem k i m)"
begin

definition holds :: "'m \<Rightarrow> stub set \<Rightarrow> bool" where
  "holds m V \<longleftrightarrow> invar m \<and>
     (\<forall>k. distinct (map ID (look m k)) \<and> set (look m k) = {v \<in> V. key_of v = k})"

lemma holds_look: "holds m V \<Longrightarrow> v \<in> set (look m k) \<longleftrightarrow> v \<in> V \<and> key_of v = k"
  by (auto simp: holds_def)

lemma holds_distinct: "holds m V \<Longrightarrow> distinct (map ID (look m k))"
  by (simp add: holds_def)

lemma holds_empty: "invar m \<Longrightarrow> (\<And>k. look m k = []) \<Longrightarrow> holds m {}"
  by (simp add: holds_def)

lemma holds_add:
  assumes "holds m V" and "ID v \<notin> ID ` V"
  shows "holds (add (key_of v) v m) (insert v V)"
proof -
  have "ID v \<notin> ID ` set (look m (key_of v))"
    using assms by (auto simp: holds_def)
  with assms(1) show ?thesis
    by (auto simp: holds_def look_add invar_add)
qed

lemma holds_rem:
  assumes "holds m V" and "v \<in> V" and "inj_on ID V"
  shows "holds (rem (key_of v) (ID v) m) (V - {v})"
proof -
  have "w = v" if "w \<in> V" "ID w = ID v" for w
    using assms(2,3) that by (auto dest: inj_onD)
  with assms(1) show ?thesis
    by (auto simp: holds_def look_rem invar_rem remove_sorted_set remove_sorted_distinct)
qed

lemma look_Nil_iff: "holds m V \<Longrightarrow> look m k = [] \<longleftrightarrow> (\<forall>v\<in>V. key_of v \<noteq> k)"
  by (metis (mono_tags, lifting) holds_look in_set_replicate last_in_set replicate_empty)

end

section \<open>Session buckets\<close>

definition session_look :: "('k \<times> buckets) list \<Rightarrow> 'k \<times> string \<Rightarrow> stub list" where
  "session_look m k = m_list (m_get m (fst k)) (snd k)"

definition bucket_ok :: "buckets \<Rightarrow> bool" where
  "bucket_ok b \<longleftrightarrow> b \<noteq> [] \<and> m_ok b \<and> (\<forall>s. map_of b s \<noteq> Some [])"

text \<open>No empty bucket stays behind, so a key of the index is a key of some stub.\<close>

definition session_ok :: "('k \<times> buckets) list \<Rightarrow> bool" where
  "session_ok m \<longleftrightarrow> m_ok m \<and> (\<forall>k b. map_of m k = Some b \<longrightarrow> bucket_ok b)"

lemma m_get_put [simp]: "m_get (m_put k b m) k' = (if k' = k then b else m_get m k')"
  by (simp add: m_get_def)

lemma m_get_del [simp]: "m_get (m_del k m) k' = (if k' = k then [] else m_get m k')"
  by (simp add: m_get_def)

lemma m_get_Nil [simp]: "m_get [] k = []"
  by (simp add: m_get_def)

lemma m_put_not_Nil [simp]: "m_put k v m \<noteq> []"
  by (cases m) auto

lemma bucket_ok_put: "m_ok b \<Longrightarrow> \<forall>s. map_of b s \<noteq> Some [] \<Longrightarrow> xs \<noteq> [] \<Longrightarrow> bucket_ok (m_put s xs b)"
  by (auto simp: bucket_ok_def)

lemma m_get_ok: "session_ok m \<Longrightarrow> m_ok (m_get m k) \<and> (\<forall>s. map_of (m_get m k) s \<noteq> Some [])"
  by (auto simp: session_ok_def bucket_ok_def m_get_def split: option.splits)

lemma session_ok_put: "session_ok m \<Longrightarrow> bucket_ok b \<Longrightarrow> session_ok (m_put k b m)"
  by (auto simp: session_ok_def)

lemma session_ok_del: "session_ok m \<Longrightarrow> session_ok (m_del k m)"
  by (auto simp: session_ok_def split: if_splits)

lemma bucket_ok_del: "m_ok b \<Longrightarrow> \<forall>s. map_of b s \<noteq> Some [] \<Longrightarrow> m_del s b \<noteq> [] \<Longrightarrow> bucket_ok (m_del s b)"
  by (auto simp: bucket_ok_def split: if_splits)

lemma session_ok_upsert: "session_ok m \<Longrightarrow> session_ok (upsert_session_index m k s v)"
  using m_get_ok [of m k]
  by (auto simp: upsert_session_index_def Let_def intro!: session_ok_put bucket_ok_put)

lemma session_ok_remove: "session_ok m \<Longrightarrow> session_ok (remove_session_index m k s i)"
  using m_get_ok [of m k]
  by (auto simp: remove_session_index_def Let_def m_get_def
      intro!: session_ok_put session_ok_del bucket_ok_put bucket_ok_del split: option.splits)

lemma session_look_upsert:
  "session_look (upsert_session_index m k s v) k' =
     (if k' = (k, s) then session_look m (k, s) @ [v] else session_look m k')"
  by (cases k') (auto simp: session_look_def upsert_session_index_def Let_def)

lemma m_del_Nil_look: "m_del s b = [] \<Longrightarrow> s' \<noteq> s \<Longrightarrow> m_list b s' = []"
  using m_list_del [of s b s'] by simp

lemma session_look_remove:
  "session_look (remove_session_index m k s i) k' =
     (if k' = (k, s) then remove_sorted_stub_by_id (session_look m (k, s)) i else session_look m k')"
proof (cases "map_of m k")
  case None
  then show ?thesis
    by (auto simp: session_look_def remove_session_index_def m_get_def)
next
  case (Some b)
  then have "m_get m k = b" by (simp add: m_get_def)
  with Some show ?thesis
    by (cases k') (auto simp: session_look_def remove_session_index_def Let_def
        dest: m_del_Nil_look)
qed

lemma session_ok_Nil [simp]: "session_ok []"
  by (simp add: session_ok_def)

lemma session_look_Nil [simp]: "session_look [] k = []"
  by (simp add: session_look_def)

lemma session_key_iff: "session_ok m \<Longrightarrow> map_of m k \<noteq> None \<longleftrightarrow> (\<exists>s. session_look m (k, s) \<noteq> [])"
proof
  assume ok: "session_ok m" and "map_of m k \<noteq> None"
  then obtain b where b: "map_of m k = Some b" "bucket_ok b" by (auto simp: session_ok_def)
  then obtain s xs where "(s, xs) \<in> set b" by (cases b) (auto simp: bucket_ok_def)
  with b have "map_of b s = Some xs" "xs \<noteq> []" by (auto simp: bucket_ok_def m_ok_def)
  with b show "\<exists>s. session_look m (k, s) \<noteq> []"
    by (auto simp: session_look_def m_get_def m_list_def intro!: exI [of _ s])
next
  assume "\<exists>s. session_look m (k, s) \<noteq> []"
  then show "map_of m k \<noteq> None" by (auto simp: session_look_def m_get_def split: option.splits)
qed

interpretation items: stub_index session_look
  "\<lambda>k v m. upsert_session_index m (fst k) (snd k) v"
  "\<lambda>k i m. remove_session_index m (fst k) (snd k) i"
  session_ok "\<lambda>v. (stub_pos g v, Session v)" for g
  by unfold_locales
    (simp_all add: session_look_upsert session_look_remove session_ok_upsert session_ok_remove)

interpretation methods: stub_index session_look
  "\<lambda>k v m. upsert_session_index m (fst k) (snd k) v"
  "\<lambda>k i m. remove_session_index m (fst k) (snd k) i"
  session_ok "\<lambda>v. (hash_id g (Method v), Session v)" for g
  by unfold_locales
    (simp_all add: session_look_upsert session_look_remove session_ok_upsert session_ok_remove)

section \<open>The equals index with its list of unindexed stubs\<close>

type_synonym field_index = "(64 word \<times> (string \<times> buckets) list) list \<times> (64 word \<times> stub list) list"
type_synonym field_key = "64 word \<times> (string \<times> string) option"

definition field_look :: "field_index \<Rightarrow> field_key \<Rightarrow> stub list" where
  "field_look m k =
     (case snd k of
        None \<Rightarrow> m_list (snd m) (fst k)
      | Some (f, val) \<Rightarrow> m_list (m_get (m_get (fst m) (fst k)) f) val)"

definition field_add :: "field_key \<Rightarrow> stub \<Rightarrow> field_index \<Rightarrow> field_index" where
  "field_add k v m =
     (case snd k of
        None \<Rightarrow> (fst m, m_put (fst k) (m_list (snd m) (fst k) @ [v]) (snd m))
      | Some (f, val) \<Rightarrow>
          (m_put (fst k) (upsert_session_index (m_get (fst m) (fst k)) f val v) (fst m), snd m))"

definition field_rem :: "field_key \<Rightarrow> uuid \<Rightarrow> field_index \<Rightarrow> field_index" where
  "field_rem k i m =
     (case snd k of
        None \<Rightarrow>
          (let xs = remove_sorted_stub_by_id (m_list (snd m) (fst k)) i
           in (fst m, if xs = [] then m_del (fst k) (snd m) else m_put (fst k) xs (snd m)))
      | Some (f, val) \<Rightarrow>
          (case map_of (fst m) (fst k) of
             None \<Rightarrow> m
           | Some by_field \<Rightarrow>
               (case map_of by_field f of
                  None \<Rightarrow> m
                | Some by_value \<Rightarrow>
                    (let by_field' = remove_session_index by_field f val i
                     in (if by_field' = [] then m_del (fst k) (fst m)
                         else m_put (fst k) by_field' (fst m), snd m)))))"

definition field_ok :: "field_index \<Rightarrow> bool" where
  "field_ok m \<longleftrightarrow>
     m_ok (fst m) \<and> m_ok (snd m) \<and>
     (\<forall>p bf. map_of (fst m) p = Some bf \<longrightarrow> bf \<noteq> [] \<and> session_ok bf)"

lemma field_look_session:
  "field_look m (p, Some (f, val)) = session_look (m_get (fst m) p) (f, val)"
  by (simp add: field_look_def session_look_def)

lemma field_look_add:
  "field_look (field_add k v m) k' = (if k' = k then field_look m k @ [v] else field_look m k')"
proof -
  obtain p ky where k: "k = (p, ky)" by (cases k)
  obtain p' ky' where k': "k' = (p', ky')" by (cases k')
  show ?thesis
  proof (cases ky)
    case None
    then show ?thesis
      by (cases ky') (auto simp: k k' field_look_def field_add_def)
  next
    case (Some fv)
    obtain f val where "fv = (f, val)" by (cases fv)
    with Some show ?thesis
      by (cases ky'; cases "p' = p")
        (auto simp: k k' field_look_session field_add_def session_look_upsert split: if_splits,
         simp_all add: field_look_def)
  qed
qed

lemma session_look_absent: "map_of m k = None \<Longrightarrow> session_look m (k, s) = []"
  by (simp add: session_look_def m_get_def)

lemma field_look_rem:
  "field_look (field_rem k i m) k' =
     (if k' = k then remove_sorted_stub_by_id (field_look m k) i else field_look m k')"
proof -
  obtain p ky where k: "k = (p, ky)" by (cases k)
  obtain p' ky' where k': "k' = (p', ky')" by (cases k')
  show ?thesis
  proof (cases ky)
    case None
    then show ?thesis
      by (cases ky') (auto simp: k k' field_look_def field_rem_def Let_def)
  next
    case (Some fv)
    obtain f val where fv: "fv = (f, val)" by (cases fv)
    have unindexed: "field_look (field_rem k i m) (p', None) = field_look m (p', None)"
      by (simp add: k Some fv field_look_def field_rem_def Let_def split: option.splits)
    have indexed: "m_get (fst (field_rem k i m)) q =
        (if q = p then remove_session_index (m_get (fst m) p) f val i else m_get (fst m) q)" for q
      by (auto simp: k Some fv field_rem_def Let_def m_get_def remove_session_index_def
          split: option.splits)
    show ?thesis
    proof (cases ky')
      case None
      with unindexed show ?thesis by (simp add: k' k \<open>ky = Some fv\<close>)
    next
      case (Some fv')
      then show ?thesis
        by (cases fv'; cases "p' = p")
          (simp_all add: k' field_look_session indexed session_look_remove,
           auto simp: k \<open>ky = Some fv\<close> fv field_look_session)
    qed
  qed
qed

lemma field_ok_Nil [simp]: "field_ok ([], [])"
  by (simp add: field_ok_def)

lemma field_look_Nil [simp]: "field_look ([], []) k = []"
  by (simp add: field_look_def split: option.splits prod.splits)

lemma upsert_not_Nil [simp]: "upsert_session_index m k s v \<noteq> []"
  by (simp add: upsert_session_index_def Let_def)

lemma field_ok_add: "field_ok m \<Longrightarrow> field_ok (field_add k v m)"
  by (auto simp: field_ok_def field_add_def m_get_def upsert_not_Nil session_ok_upsert
      split: option.splits)

lemma field_ok_rem: "field_ok m \<Longrightarrow> field_ok (field_rem k i m)"
  by (auto simp: field_ok_def field_rem_def Let_def session_ok_remove split: option.splits if_splits)

interpretation fields: stub_index field_look field_add field_rem field_ok
  "\<lambda>v. (stub_pos g v, index_key_for g v)" for g
  by unfold_locales (simp_all add: field_look_add field_look_rem field_ok_add field_ok_rem)

text \<open>The store's own operations are the operations of this index.\<close>

lemma index_stub_field:
  "index_stub g s p v =
     s\<lparr>equalsIndex := fst (field_add (p, index_key_for g v) v (equalsIndex s, unindexed s)),
       unindexed := snd (field_add (p, index_key_for g v) v (equalsIndex s, unindexed s))\<rparr>"
  by (simp add: index_stub_def field_add_def split: option.splits prod.splits)

lemma deindex_stub_field:
  "deindex_stub g s p v =
     s\<lparr>equalsIndex := fst (field_rem (p, index_key_for g v) (ID v) (equalsIndex s, unindexed s)),
       unindexed := snd (field_rem (p, index_key_for g v) (ID v) (equalsIndex s, unindexed s))\<rparr>"
  by (simp add: deindex_stub_def field_rem_def Let_def split: option.splits prod.splits)

lemma candidates_field_look:
  "m_list (m_get (m_get (equalsIndex s) p) f) val =
     field_look (equalsIndex s, unindexed s) (p, Some (f, val))"
  "m_list (unindexed s) p = field_look (equalsIndex s, unindexed s) (p, None)"
  by (simp_all add: field_look_def)

end
