(* ===== verification/Storage_Invariant.thy ===== *)
theory Storage_Invariant
  imports Storage_Index
begin

text \<open>
  The invariant of the stub store and that every mutation keeps it: all three indexes hold exactly
  the stored stubs, every bucket of \<^verbatim>\<open>itemSorted\<close> is in priority order and the session counters
  count. On top of it, each mutation refines an update of the map from IDs to stubs.
\<close>

section \<open>The order of the store\<close>

text \<open>Go's \<^verbatim>\<open>b.Priority - a.Priority\<close> orders priorities as long as their distance fits an \<open>int\<close>.\<close>

definition priority_ok :: "stub \<Rightarrow> bool" where
  "priority_ok v \<longleftrightarrow> - (2 ^ 62) \<le> Priority v \<and> Priority v < 2 ^ 62"

lemma priority_distance:
  "priority_ok a \<Longrightarrow> priority_ok b \<Longrightarrow> wrap64 (Priority b - Priority a) = Priority b - Priority a"
  by (rule wrap64_id) (simp add: priority_ok_def int64_range_def)

lemma compare_stubs_le:
  "priority_ok a \<Longrightarrow> priority_ok b \<Longrightarrow>
     compare_stubs_by_priority_and_id a b \<le> 0 \<longleftrightarrow>
       Priority b < Priority a \<or> Priority a = Priority b \<and> ID a \<le> ID b"
  by (auto simp: compare_stubs_by_priority_and_id_def priority_distance)

interpretation stub_order: key_comparator compare_stubs_by_priority_and_id priority_ok ID
proof
  show "compare_stubs_by_priority_and_id a b < 0 \<longleftrightarrow> 0 < compare_stubs_by_priority_and_id b a"
    if "priority_ok a" "priority_ok b" for a b
    using that by (auto simp: compare_stubs_by_priority_and_id_def priority_distance)
  show "compare_stubs_by_priority_and_id a c \<le> 0"
    if "priority_ok a" "priority_ok b" "priority_ok c"
      "compare_stubs_by_priority_and_id a b \<le> 0" "compare_stubs_by_priority_and_id b c \<le> 0"
    for a b c
    using that by (auto simp: compare_stubs_le)
  show "ID a = ID b"
    if "priority_ok a" "priority_ok b" "compare_stubs_by_priority_and_id a b = 0" for a b
    using that by (auto simp: compare_stubs_by_priority_and_id_def priority_distance split: if_splits)
qed

abbreviation by_priority :: "stub list \<Rightarrow> bool" where
  "by_priority \<equiv> sorted_func compare_stubs_by_priority_and_id"

abbreviation sort_stubs :: "stub list \<Rightarrow> stub list" where
  "sort_stubs \<equiv> sort_func compare_stubs_by_priority_and_id"

section \<open>Session counters\<close>

definition sessions_ok :: "stub set \<Rightarrow> (string \<times> int) list \<Rightarrow> bool" where
  "sessions_ok V m \<longleftrightarrow> m_ok m \<and>
     (\<forall>s. map_of m s =
        (if s \<noteq> '''' \<and> (\<exists>v\<in>V. Session v = s)
         then Some (int (card {v \<in> V. Session v = s})) else None))"

lemma sessions_count:
  "sessions_ok V m \<Longrightarrow> finite V \<Longrightarrow> s \<noteq> '''' \<Longrightarrow>
     (case map_of m s of None \<Rightarrow> 0 | Some n \<Rightarrow> n) = int (card {v \<in> V. Session v = s})"
  by (auto simp: sessions_ok_def)

lemma session_stubs_insert:
  "{w \<in> insert v V. Session w = s} =
     (if Session v = s then insert v {w \<in> V. Session w = s} else {w \<in> V. Session w = s})"
  by auto

lemma session_stubs_remove:
  "{w \<in> V - {v}. Session w = s} =
     (if Session v = s then {w \<in> V. Session w = s} - {v} else {w \<in> V. Session w = s})"
  by auto

lemma sessions_ok_increment:
  assumes ok: "sessions_ok V m" and fin: "finite V" and new: "v \<notin> V"
  shows "sessions_ok (insert v V) (increment_session (Session v) m)"
proof -
  have "map_of (increment_session (Session v) m) s =
      (if s \<noteq> '''' \<and> (\<exists>w\<in>insert v V. Session w = s)
       then Some (int (card {w \<in> insert v V. Session w = s})) else None)" for s
  proof (cases "s = Session v \<and> s \<noteq> ''''")
    case True
    then have sv: "Session v = s" "s \<noteq> ''''" by auto
    then have "{w \<in> insert v V. Session w = s} = insert v {w \<in> V. Session w = s}"
      by blast
    with new fin have "card {w \<in> insert v V. Session w = s} = Suc (card {w \<in> V. Session w = s})"
      by (simp only: card_insert_disjoint finite_Collect_conjI) simp
    with sv sessions_count [OF ok fin, of s] show ?thesis
      by (auto simp: increment_session_def)
  next
    case False
    then have "map_of (increment_session (Session v) m) s = map_of m s"
      by (auto simp: increment_session_def)
    moreover have "{w \<in> insert v V. Session w = s} = {w \<in> V. Session w = s}" if "s \<noteq> ''''"
      using False that by auto
    moreover have "(\<exists>w\<in>insert v V. Session w = s) = (\<exists>w\<in>V. Session w = s)" if "s \<noteq> ''''"
      using False that by auto
    ultimately show ?thesis using ok by (auto simp: sessions_ok_def)
  qed
  with ok show ?thesis by (auto simp: sessions_ok_def increment_session_def)
qed

lemma sessions_ok_decrement:
  assumes ok: "sessions_ok V m" and fin: "finite V" and old: "v \<in> V"
  shows "sessions_ok (V - {v}) (decrement_session (Session v) m)"
proof -
  have "map_of (decrement_session (Session v) m) s =
      (if s \<noteq> '''' \<and> (\<exists>w\<in>V - {v}. Session w = s)
       then Some (int (card {w \<in> V - {v}. Session w = s})) else None)" for s
  proof (cases "s = Session v \<and> s \<noteq> ''''")
    case True
    then have sv: "Session v = s" "s \<noteq> ''''" by auto
    define A where "A = {w \<in> V. Session w = s}"
    have A: "finite A" "v \<in> A" using True fin old by (auto simp: A_def)
    then have c: "card A = Suc (card (A - {v}))" by (simp only: card.remove)
    have r: "{w \<in> V - {v}. Session w = s} = A - {v}"
      using True by (auto simp: A_def)
    then have e: "(\<exists>w\<in>V - {v}. Session w = s) \<longleftrightarrow> A - {v} \<noteq> {}" by blast
    have n: "(case map_of m s of None \<Rightarrow> 0 | Some n \<Rightarrow> n) = int (card A)"
      using sessions_count [OF ok fin sv(2)] by (simp add: A_def)
    show ?thesis
      using sv n e A(1) unfolding r by (auto simp: decrement_session_def Let_def c)
  next
    case False
    then have "map_of (decrement_session (Session v) m) s = map_of m s"
      by (auto simp: decrement_session_def Let_def)
    moreover have "{w \<in> V - {v}. Session w = s} = {w \<in> V. Session w = s}" if "s \<noteq> ''''"
      using False that by auto
    moreover have "(\<exists>w\<in>V - {v}. Session w = s) = (\<exists>w\<in>V. Session w = s)" if "s \<noteq> ''''"
      using False that by auto
    ultimately show ?thesis using ok by (auto simp: sessions_ok_def)
  qed
  with ok show ?thesis by (auto simp: sessions_ok_def decrement_session_def Let_def)
qed

section \<open>The invariant\<close>

definition stub_map :: "storage \<Rightarrow> uuid \<rightharpoonup> stub" where
  "stub_map s = map_of (itemsByID s)"

definition stored :: "storage \<Rightarrow> stub set" where
  "stored s = ran (stub_map s)"

definition by_id_ok :: "storage \<Rightarrow> bool" where
  "by_id_ok s \<longleftrightarrow> m_ok (itemsByID s) \<and> (\<forall>i v. stub_map s i = Some v \<longrightarrow> ID v = i)"

definition index_ok :: "golib \<Rightarrow> storage \<Rightarrow> stub set \<Rightarrow> bool" where
  "index_ok g s V \<longleftrightarrow>
     finite V \<and> inj_on ID V \<and>
     items.holds g (itemSorted s) V \<and> methods.holds g (methodSorted s) V \<and>
     fields.holds g (equalsIndex s, unindexed s) V \<and> sessions_ok V (sessions s) \<and>
     (\<forall>v\<in>V. hash_id g (Service v) \<in> lefts s)"

definition storage_ok :: "golib \<Rightarrow> storage \<Rightarrow> bool" where
  "storage_ok g s \<longleftrightarrow>
     by_id_ok s \<and> index_ok g s (stored s) \<and> (\<forall>v\<in>stored s. priority_ok v) \<and>
     (\<forall>k. by_priority (session_look (itemSorted s) k))"

lemma by_id_inj: "by_id_ok s \<Longrightarrow> inj_on ID (stored s)"
  by (rule inj_onI) (auto simp: by_id_ok_def stored_def ran_def)

lemma by_id_finite: "finite (stored s)"
  by (simp add: stored_def stub_map_def finite_ran)

lemma stored_id: "by_id_ok s \<Longrightarrow> v \<in> stored s \<longleftrightarrow> stub_map s (ID v) = Some v"
  by (auto simp: by_id_ok_def stored_def ran_def)

lemma index_ok_insert:
  assumes "index_ok g s V" and new: "ID v \<notin> ID ` V"
  shows "index_ok g (insert_stub g s v) (insert v V)"
proof -
  have "v \<notin> V" using new by auto
  with assms show ?thesis
    using items.holds_add [of g "itemSorted s" V v] methods.holds_add [of g "methodSorted s" V v]
      fields.holds_add [of g "(equalsIndex s, unindexed s)" V v]
    by (auto simp: index_ok_def insert_stub_def Let_def index_stub_field stub_pos_def
        sessions_ok_increment)
qed

lemma index_ok_remove:
  assumes "index_ok g s V" and "v \<in> V"
  shows "index_ok g (remove_stub_indexes g s v) (V - {v})"
  using assms items.holds_rem [of g "itemSorted s" V v] methods.holds_rem [of g "methodSorted s" V v]
    fields.holds_rem [of g "(equalsIndex s, unindexed s)" V v]
  by (auto simp: index_ok_def remove_stub_indexes_def Let_def deindex_stub_field
      sessions_ok_decrement inj_on_diff)

lemma itemsByID_insert [simp]:
  "itemsByID (insert_stub g s v) = m_put (ID v) v (itemsByID s)"
  "itemSorted (insert_stub g s v) = upsert_session_index (itemSorted s) (stub_pos g v) (Session v) v"
  by (simp_all add: insert_stub_def Let_def index_stub_field stub_pos_def)

lemma itemsByID_remove [simp]:
  "itemsByID (remove_stub_indexes g s v) = itemsByID s"
  "itemSorted (remove_stub_indexes g s v) =
     remove_session_index (itemSorted s) (stub_pos g v) (Session v) (ID v)"
  by (simp_all add: remove_stub_indexes_def Let_def deindex_stub_field)

section \<open>One stub in, one stub out\<close>

text \<open>The part of the invariant that holds inside the loop of \<^verbatim>\<open>upsert\<close>, where the buckets of \<open>T\<close>
  wait for their sort.\<close>

definition loop_ok :: "golib \<Rightarrow> (64 word \<times> string) set \<Rightarrow> storage \<Rightarrow> bool" where
  "loop_ok g T s \<longleftrightarrow>
     by_id_ok s \<and> index_ok g s (stored s) \<and> (\<forall>v\<in>stored s. priority_ok v) \<and>
     (\<forall>k. k \<notin> T \<longrightarrow> by_priority (session_look (itemSorted s) k))"

lemma storage_ok_loop: "storage_ok g s \<longleftrightarrow> loop_ok g {} s"
  by (simp add: storage_ok_def loop_ok_def)

lemma loop_ok_mono: "loop_ok g T s \<Longrightarrow> T \<subseteq> T' \<Longrightarrow> loop_ok g T' s"
  by (auto simp: loop_ok_def)

lemma stub_map_upsert_one [simp]: "stub_map (upsert_one g v s) = (stub_map s)(ID v \<mapsto> v)"
  by (auto simp: stub_map_def upsert_one_def fun_eq_iff split: option.split)

lemma stored_put:
  "by_id_ok s \<Longrightarrow> ran ((stub_map s)(ID v \<mapsto> v)) = insert v {w \<in> stored s. ID w \<noteq> ID v}"
  by (auto simp: stored_def by_id_ok_def ran_def)

lemma stored_del:
  "by_id_ok s \<Longrightarrow> ran ((stub_map s)(i := None)) = {w \<in> stored s. ID w \<noteq> i}"
  by (auto simp: stored_def by_id_ok_def ran_def)

lemma minus_stub: "by_id_ok s \<Longrightarrow> v \<in> stored s \<Longrightarrow> stored s - {v} = {w \<in> stored s. ID w \<noteq> ID v}"
  using by_id_inj [of s] by (auto dest: inj_onD)

lemma upsert_one_ok:
  assumes ok: "loop_ok g T s" and t: "(stub_pos g v, Session v) \<in> T" and p: "priority_ok v"
  shows "loop_ok g T (upsert_one g v s)"
proof -
  have byid: "by_id_ok s" and idx: "index_ok g s (stored s)"
    using ok by (auto simp: loop_ok_def)
  define s' where "s' =
    (case map_of (itemsByID s) (ID v) of None \<Rightarrow> s | Some old \<Rightarrow> remove_stub_indexes g s old)"
  have up: "upsert_one g v s = insert_stub g s' v"
    by (simp add: upsert_one_def s'_def)
  have V: "stored (upsert_one g v s) = insert v {w \<in> stored s. ID w \<noteq> ID v}"
    using stored_put [OF byid] by (simp add: stored_def)
  have s': "index_ok g s' {w \<in> stored s. ID w \<noteq> ID v}"
  proof (cases "map_of (itemsByID s) (ID v)")
    case None
    then have "{w \<in> stored s. ID w \<noteq> ID v} = stored s"
      using byid by (auto simp: stored_def by_id_ok_def stub_map_def ran_def)
    with None idx show ?thesis by (simp add: s'_def)
  next
    case (Some old)
    then have "old \<in> stored s" "ID old = ID v"
      using byid by (auto simp: stored_def by_id_ok_def stub_map_def ran_def)
    with Some index_ok_remove [OF idx, of old] minus_stub [OF byid, of old]
    show ?thesis by (simp add: s'_def)
  qed
  have "index_ok g (upsert_one g v s) (stored (upsert_one g v s))"
    unfolding V unfolding up by (rule index_ok_insert [OF s']) auto
  moreover have "by_id_ok (upsert_one g v s)"
    using byid unfolding by_id_ok_def stub_map_upsert_one
    by (auto simp: upsert_one_def split: option.splits)
  moreover have "by_priority (session_look (itemSorted (upsert_one g v s)) k)" if "k \<notin> T" for k
    using ok that t
    by (cases k) (auto simp: up session_look_upsert s'_def session_look_remove loop_ok_def
        remove_sorted_sorted split: option.splits)
  ultimately show ?thesis
    using ok p by (auto simp: loop_ok_def V)
qed

lemma fold_upsert_ok:
  "\<lbrakk> loop_ok g T s; \<forall>v\<in>set vs. (stub_pos g v, Session v) \<in> T \<and> priority_ok v \<rbrakk>
   \<Longrightarrow> loop_ok g T (fold (upsert_one g) vs s)"
  by (induction vs arbitrary: s) (auto simp: upsert_one_ok)

lemma stub_map_fold_upsert:
  "stub_map (fold (upsert_one g) vs s) = fold (\<lambda>v m. m(ID v \<mapsto> v)) vs (stub_map s)"
  by (induction vs arbitrary: s) auto

section \<open>Sorting the touched buckets\<close>

lemma session_look_resort:
  "session_look (resort_bucket t m) k =
     (if k = t then sort_stubs (session_look m t) else session_look m k)"
  by (cases k; cases t) (auto simp: session_look_def resort_bucket_def m_get_def m_list_def
      split: option.splits)

lemma session_ok_resort: "session_ok m \<Longrightarrow> session_ok (resort_bucket t m)"
  by (auto simp: resort_bucket_def session_ok_def bucket_ok_def split: option.splits)

lemma session_look_resorts:
  "distinct ts \<Longrightarrow> session_look (fold resort_bucket ts m) k =
     (if k \<in> set ts then sort_stubs (session_look m k) else session_look m k)"
  by (induction ts arbitrary: m) (auto simp: session_look_resort)

lemma session_ok_resorts: "session_ok m \<Longrightarrow> session_ok (fold resort_bucket ts m)"
  by (induction ts arbitrary: m) (auto simp: session_ok_resort)

lemma stub_map_resort [simp]: "stub_map (resort_touched ts s) = stub_map s"
  by (simp add: stub_map_def resort_touched_def)

lemma resort_ok:
  assumes "loop_ok g (set ts) s" and "distinct ts"
  shows "storage_ok g (resort_touched ts s)"
proof -
  have look: "session_look (itemSorted (resort_touched ts s)) k =
      (if k \<in> set ts then sort_stubs (session_look (itemSorted s) k)
       else session_look (itemSorted s) k)" for k
    by (simp add: resort_touched_def session_look_resorts [OF \<open>distinct ts\<close>])
  have H: "items.holds g (itemSorted s) (stored s)"
    using assms(1) by (simp add: loop_ok_def index_ok_def)
  then have H': "items.holds g (itemSorted (resort_touched ts s)) (stored s)"
    using look by (simp add: items.holds_def resort_touched_def session_ok_resorts)
  have st: "stored (resort_touched ts s) = stored s"
    by (simp add: stored_def)
  have "by_priority (session_look (itemSorted (resort_touched ts s)) k)" for k
  proof (cases "k \<in> set ts")
    case True
    have "\<forall>v\<in>set (session_look (itemSorted s) k). priority_ok v"
      using items.holds_look [OF H] assms(1) by (auto simp: loop_ok_def)
    with True show ?thesis by (simp add: look stub_order.sorted_sort)
  next
    case False
    with assms(1) show ?thesis by (cases k) (simp add: look loop_ok_def)
  qed
  with assms(1) H' show ?thesis
    by (simp add: storage_ok_def loop_ok_def st by_id_ok_def index_ok_def,
        simp add: resort_touched_def)
qed

section \<open>The mutations keep the invariant\<close>

lemma storage_ok_new: "storage_ok g new_storage"
  by (auto simp: storage_ok_def new_storage_def by_id_ok_def index_ok_def stored_def stub_map_def
      sessions_ok_def sorted_func_def items.holds_empty methods.holds_empty fields.holds_empty)

lemma storage_ok_clear: "storage_ok g (clear_storage s)"
proof -
  have "clear_storage s = new_storage" by (simp add: clear_storage_def new_storage_def)
  then show ?thesis by (simp add: storage_ok_new)
qed

lemma storage_ok_upsert:
  assumes "storage_ok g s" and "\<forall>v\<in>set vs. priority_ok v"
  shows "storage_ok g (snd (upsert g vs s))"
proof (cases "vs = []")
  case True
  with assms(1) show ?thesis by (simp add: upsert_def)
next
  case False
  let ?ts = "remdups (map (\<lambda>v. (stub_pos g v, Session v)) vs)"
  have "loop_ok g (set ?ts) (fold (upsert_one g) vs s)"
    by (rule fold_upsert_ok)
      (use assms in \<open>auto simp: storage_ok_loop intro: loop_ok_mono\<close>)
  then have "storage_ok g (resort_touched ?ts (fold (upsert_one g) vs s))"
    by (rule resort_ok) simp
  with False show ?thesis by (simp add: upsert_def)
qed

lemma stub_map_upsert:
  "stub_map (snd (upsert g vs s)) = fold (\<lambda>v m. m(ID v \<mapsto> v)) vs (stub_map s)"
  by (cases "vs = []") (auto simp: upsert_def stub_map_fold_upsert)

lemma stub_map_del_one:
  "stub_map (snd (del_one g i ns)) = (stub_map (snd ns))(i := None)"
  by (auto simp: stub_map_def del_one_def Let_def fun_eq_iff split: option.split)

lemma del_one_count:
  "fst (del_one g i ns) = fst ns + (if stub_map (snd ns) i = None then 0 else 1)"
  by (auto simp: stub_map_def del_one_def Let_def split: option.split)

lemma storage_ok_del_one:
  assumes ok: "storage_ok g (snd ns)"
  shows "storage_ok g (snd (del_one g i ns))"
proof (cases "map_of (itemsByID (snd ns)) i")
  case None
  with ok show ?thesis by (simp add: del_one_def)
next
  case (Some v)
  let ?s = "snd ns" and ?s' = "snd (del_one g i ns)"
  have byid: "by_id_ok ?s" using ok by (simp add: storage_ok_def)
  have v: "v \<in> stored ?s" "ID v = i"
    using byid Some by (auto simp: by_id_ok_def stub_map_def stored_def ran_def)
  have V: "stored ?s' = stored ?s - {v}"
    using stored_del [OF byid, of i] minus_stub [OF byid v(1)] v(2)
    by (simp add: stored_def stub_map_del_one)
  have s': "?s' = (remove_stub_indexes g ?s v)\<lparr>itemsByID := m_del i (itemsByID ?s)\<rparr>"
    using Some by (simp add: del_one_def Let_def)
  have "index_ok g ?s' (stored ?s')"
    using index_ok_remove [of g ?s "stored ?s" v] ok v
    unfolding V by (simp add: s' index_ok_def storage_ok_def)
  moreover have "by_id_ok ?s'"
    using byid by (auto simp: s' by_id_ok_def stub_map_def)
  moreover have "by_priority (session_look (itemSorted ?s') k)" for k
    using ok by (cases k) (auto simp: s' session_look_remove storage_ok_def remove_sorted_sorted)
  ultimately show ?thesis
    using ok by (auto simp: storage_ok_def V)
qed

lemma fold_del_ok: "storage_ok g (snd ns) \<Longrightarrow> storage_ok g (snd (fold (del_one g) is ns))"
  by (induction "is" arbitrary: ns) (auto simp: storage_ok_del_one)

lemma storage_ok_del: "storage_ok g s \<Longrightarrow> storage_ok g (snd (del g keys s))"
  by (simp add: del_def fold_del_ok)

lemma fold_del_map:
  "stub_map (snd (fold (del_one g) is ns)) = stub_map (snd ns) |` (- set is)"
  by (induction "is" arbitrary: ns) (auto simp: stub_map_del_one restrict_map_def fun_eq_iff)

lemma stub_map_del: "stub_map (snd (del g keys s)) = stub_map s |` (- set keys)"
  by (simp add: del_def fold_del_map)

lemma fold_del_count:
  "fst (fold (del_one g) is ns) = fst ns + card (dom (stub_map (snd ns)) \<inter> set is)"
proof (induction "is" arbitrary: ns)
  case (Cons i "is")
  let ?m = "stub_map (snd ns)"
  have "dom (?m(i := None)) \<inter> set is = dom ?m \<inter> set is - {i}" by auto
  then have e1: "card (dom (?m(i := None)) \<inter> set is) = card (dom ?m \<inter> set is - {i})" by simp
  have e2: "card (dom ?m \<inter> set (i # is)) =
      (if ?m i = None then 0 else 1) + card (dom ?m \<inter> set is - {i})"
  proof (cases "?m i")
    case None
    then have "dom ?m \<inter> set (i # is) = dom ?m \<inter> set is - {i}" by auto
    with None show ?thesis by simp
  next
    case (Some v)
    then have "dom ?m \<inter> set (i # is) = insert i (dom ?m \<inter> set is - {i})" by auto
    moreover have "card (insert i (dom ?m \<inter> set is - {i})) = Suc (card (dom ?m \<inter> set is - {i}))"
      by (rule card_insert_disjoint) auto
    ultimately have "card (dom ?m \<inter> set (i # is)) = Suc (card (dom ?m \<inter> set is - {i}))"
      by (simp only:)
    with Some show ?thesis by simp
  qed
  show ?case
    by (simp only: fold.simps comp_apply Cons.IH stub_map_del_one del_one_count e1 e2)
qed simp

lemma del_by_session_fold:
  "fold (\<lambda>kv ns. if Session (snd kv) = ses then del_one g (fst kv) ns else ns) m ns =
     fold (del_one g) (map fst (filter (\<lambda>kv. Session (snd kv) = ses) m)) ns"
  by (induction m arbitrary: ns) auto

lemma del_by_session_del:
  "ses \<noteq> '''' \<Longrightarrow> del_by_session g ses s =
     del g (map fst (filter (\<lambda>kv. Session (snd kv) = ses) (itemsByID s))) s"
  by (simp add: del_by_session_def del_def del_by_session_fold)

lemma storage_ok_del_by_session: "storage_ok g s \<Longrightarrow> storage_ok g (snd (del_by_session g ses s))"
  by (cases "ses = ''''") (simp_all add: del_by_session_def [of _ "[]"] del_by_session_del storage_ok_del)

lemma session_keys:
  "by_id_ok s \<Longrightarrow> set (map fst (filter (\<lambda>kv. Session (snd kv) = ses) (itemsByID s))) =
     {i. \<exists>v. stub_map s i = Some v \<and> Session v = ses}"
  by (force simp: by_id_ok_def stub_map_def m_ok_def image_iff)

lemma stored_del_by_session:
  assumes "storage_ok g s" and "ses \<noteq> ''''"
  shows "stored (snd (del_by_session g ses s)) = {v \<in> stored s. Session v \<noteq> ses}"
proof -
  have "by_id_ok s" using assms by (simp add: storage_ok_def)
  then show ?thesis
    unfolding stored_def del_by_session_del [OF assms(2)] stub_map_del session_keys [OF \<open>by_id_ok s\<close>]
    by (auto simp: ran_def restrict_map_def by_id_ok_def split: if_splits)
qed

end
