(* ===== verification/Storage_Lookup.thy ===== *)
theory Storage_Lookup
  imports Storage_Invariant
begin

text \<open>
  What the lookups of the store return, stated over the set of stored stubs alone: resolution of a
  service and method name, the merge of sorted buckets, \<^verbatim>\<open>findAllAvailable\<close>, \<^verbatim>\<open>findAll\<close> and
  \<^verbatim>\<open>findByMethodAvailable\<close>. The only hypothesis on the 32-bit hash is that it does not collide on
  the names at hand.
\<close>

section \<open>Merging sorted buckets\<close>

lemma mset_merge [simp]: "mset (merge_sorted_stubs xs ys) = mset xs + mset ys"
  by (induction xs ys rule: merge_sorted_stubs.induct) auto

lemma set_merge [simp]: "set (merge_sorted_stubs xs ys) = set xs \<union> set ys"
  using mset_eq_setD [of "merge_sorted_stubs xs ys" "xs @ ys"] by simp

lemma sorted_merge:
  "\<lbrakk> \<forall>x\<in>set xs \<union> set ys. priority_ok x; by_priority xs; by_priority ys \<rbrakk>
   \<Longrightarrow> by_priority (merge_sorted_stubs xs ys)"
proof (induction xs ys rule: merge_sorted_stubs.induct)
  case (1 a as b bs)
  have ok: "priority_ok a" "priority_ok b" "\<forall>x\<in>set as \<union> set bs. priority_ok x"
    using 1 by auto
  show ?case
  proof (cases "compare_stubs_by_priority_and_id a b \<le> 0")
    case True
    with 1 ok show ?thesis
      by (auto simp: sorted_func_def intro: stub_order.cmp_trans [of a b])
  next
    case False
    then have "compare_stubs_by_priority_and_id b a \<le> 0"
      using stub_order.cmp_total ok by blast
    with 1 ok False show ?thesis
      by (auto simp: sorted_func_def intro: stub_order.cmp_trans [of b a])
  qed
qed auto

lemma mset_fold_merge:
  "mset (fold (\<lambda>part merged. merge_sorted_stubs merged part) ps p) = mset p + mset (concat ps)"
  by (induction ps arbitrary: p) auto

lemma mset_merge_parts [simp]: "mset (merge_sorted_parts ps) = mset (concat ps)"
  by (auto simp: merge_sorted_parts_def mset_fold_merge split: list.split)

lemma sorted_fold_merge:
  "\<lbrakk> \<forall>x\<in>set p \<union> set (concat ps). priority_ok x; by_priority p; \<forall>q\<in>set ps. by_priority q \<rbrakk>
   \<Longrightarrow> by_priority (fold (\<lambda>part merged. merge_sorted_stubs merged part) ps p)"
proof (induction ps arbitrary: p)
  case (Cons q ps)
  then have "by_priority (merge_sorted_stubs p q)"
    by (intro sorted_merge) auto
  then show ?case
    using Cons.prems by (simp, intro Cons.IH) auto
qed simp

lemma sorted_merge_parts:
  "\<lbrakk> \<forall>x\<in>set (concat ps). priority_ok x; \<forall>q\<in>set ps. by_priority q \<rbrakk>
   \<Longrightarrow> by_priority (merge_sorted_parts ps)"
proof (cases ps)
  case Nil
  then show ?thesis by (simp add: merge_sorted_parts_def sorted_func_def)
next
  case (Cons p qs)
  assume "\<forall>x\<in>set (concat ps). priority_ok x" "\<forall>q\<in>set ps. by_priority q"
  with Cons have "by_priority (fold (\<lambda>part merged. merge_sorted_stubs merged part) qs p)"
    by (intro sorted_fold_merge) auto
  with Cons show ?thesis
    by (cases qs) (simp_all add: merge_sorted_parts_def)
qed

text \<open>The merge of presorted parts is the sort of all their stubs.\<close>

lemma merge_parts_sort:
  assumes "\<forall>x\<in>set (concat ps). priority_ok x" and "\<forall>q\<in>set ps. by_priority q"
    and "distinct (map ID (concat ps))"
  shows "merge_sorted_parts ps = sort_stubs (concat ps)"
proof (rule stub_order.sorted_unique)
  have "set (merge_sorted_parts ps) = set (concat ps)"
    by (rule mset_eq_setD) simp
  then show "\<forall>x\<in>set (merge_sorted_parts ps). priority_ok x"
    using assms(1) by simp
  have "mset (map ID (merge_sorted_parts ps)) = mset (map ID (concat ps))"
    by (metis mset_map mset_merge_parts)
  then show "distinct (map ID (merge_sorted_parts ps))"
    using assms(3) mset_eq_imp_distinct_iff by blast
  show "by_priority (merge_sorted_parts ps)" by (rule sorted_merge_parts [OF assms(1,2)])
  show "by_priority (sort_stubs (concat ps))" by (rule stub_order.sorted_sort [OF assms(1)])
  show "mset (merge_sorted_parts ps) = mset (sort_stubs (concat ps))" by simp
qed

section \<open>Positions\<close>

lemma pos_inj: "pos a b = pos a' b' \<longleftrightarrow> a = a' \<and> b = b'"
proof
  assume eq: "pos a b = pos a' b'"
  have bit_pos: "bit (pos a b) n = (if n < 32 then bit b n else n < 64 \<and> bit a (n - 32))" for a b n
    by (auto simp: pos_def bit_or_iff bit_push_bit_iff bit_ucast_iff dest: bit_imp_le_length)
  have "bit b n = bit b' n" if "n < 32" for n
    using arg_cong [OF eq, of "\<lambda>w. bit w n"] that by (simp add: bit_pos)
  moreover have "bit a n = bit a' n" if "n < 32" for n
    using arg_cong [OF eq, of "\<lambda>w. bit w (n + 32)"] that by (simp add: bit_pos)
  ultimately show "a = a' \<and> b = b'"
    by (auto intro!: bit_word_eqI)
qed simp

text \<open>The hash separates the names \<open>N\<close> of services and methods.\<close>

definition hash_separates :: "golib \<Rightarrow> string set \<Rightarrow> bool" where
  "hash_separates g N \<longleftrightarrow> inj_on (hash_id g) N"

definition names_of :: "stub set \<Rightarrow> string set" where
  "names_of V = Service ` V \<union> Method ` V"

lemma hash_eq:
  "hash_separates g N \<Longrightarrow> a \<in> N \<Longrightarrow> b \<in> N \<Longrightarrow> hash_id g a = hash_id g b \<longleftrightarrow> a = b"
  by (auto simp: hash_separates_def dest: inj_onD)

lemma stub_pos_iff:
  "hash_separates g (N \<union> names_of V) \<Longrightarrow> v \<in> V \<Longrightarrow> svc \<in> N \<Longrightarrow> m \<in> N \<Longrightarrow>
     stub_pos g v = pos (hash_id g svc) (hash_id g m) \<longleftrightarrow> Service v = svc \<and> Method v = m"
  by (simp add: stub_pos_def pos_inj names_of_def hash_eq [of g "N \<union> names_of V", unfolded names_of_def])

text \<open>The services a query may mean: the one it names, and the one without the package prefix.\<close>

definition service_forms :: "string \<Rightarrow> string list" where
  "service_forms svc = svc # (case after_last (CHR ''.'') svc of None \<Rightarrow> [] | Some t \<Rightarrow> [t])"

definition has_stub :: "stub set \<Rightarrow> string \<Rightarrow> string \<Rightarrow> bool" where
  "has_stub V svc m \<longleftrightarrow> (\<exists>v\<in>V. Service v = svc \<and> Method v = m)"

definition form_pos :: "golib \<Rightarrow> string \<Rightarrow> string \<Rightarrow> 64 word" where
  "form_pos g m svc = pos (hash_id g svc) (hash_id g m)"

lemma pos_by_n_ok:
  assumes "storage_ok g s" and "hash_separates g (N \<union> names_of (stored s))"
    and "svc \<in> N" "m \<in> N"
  shows "pos_by_n g s svc m = Inr i \<longleftrightarrow> i = form_pos g m svc \<and> has_stub (stored s) svc m"
proof -
  have I: "items.holds g (itemSorted s) (stored s)" and ok: "session_ok (itemSorted s)"
    and L: "\<forall>v\<in>stored s. hash_id g (Service v) \<in> lefts s"
    using assms(1) by (auto simp: storage_ok_def index_ok_def items.holds_def)
  have "map_of (itemSorted s) (form_pos g m svc) \<noteq> None \<longleftrightarrow>
      (\<exists>v\<in>stored s. stub_pos g v = form_pos g m svc)"
    unfolding session_key_iff [OF ok] items.look_Nil_iff [OF I] by auto
  also have "\<dots> \<longleftrightarrow> has_stub (stored s) svc m"
    using stub_pos_iff [OF assms(2)] assms(3,4) by (auto simp: has_stub_def form_pos_def)
  finally show ?thesis
    using L by (auto simp: pos_by_n_def Let_def form_pos_def has_stub_def split: if_splits)
qed

definition resolved_forms :: "stub set \<Rightarrow> string \<Rightarrow> string \<Rightarrow> string list" where
  "resolved_forms V svc m = filter (\<lambda>f. has_stub V f m) (service_forms svc)"

lemma pos_by_pn_ok:
  assumes "storage_ok g s" and "hash_separates g (set (service_forms svc) \<union> {m} \<union> names_of (stored s))"
  shows "pos_by_pn g s svc m =
     (if resolved_forms (stored s) svc m = [] then Inl (projl (pos_by_pn g s svc m))
      else Inr (map (form_pos g m) (resolved_forms (stored s) svc m)))"
    and "isl (pos_by_pn g s svc m) \<longleftrightarrow> resolved_forms (stored s) svc m = []"
proof -
  let ?N = "set (service_forms svc) \<union> {m}"
  have P: "pos_by_n g s f m = Inr i \<longleftrightarrow> i = form_pos g m f \<and> has_stub (stored s) f m"
    if "f \<in> set (service_forms svc)" for f i
    by (rule pos_by_n_ok [OF assms]) (use that in auto)
  have F: "pos_by_n g s f m = (if has_stub (stored s) f m then Inr (form_pos g m f)
      else Inl (projl (pos_by_n g s f m)))" if "f \<in> set (service_forms svc)" for f
    using P [OF that] by (cases "pos_by_n g s f m") auto
  have "isl (pos_by_pn g s svc m) = (resolved_forms (stored s) svc m = []) \<and>
    (resolved_forms (stored s) svc m \<noteq> [] \<longrightarrow>
       pos_by_pn g s svc m = Inr (map (form_pos g m) (resolved_forms (stored s) svc m)))"
  proof (cases "after_last (CHR ''.'') svc")
    case None
    then show ?thesis
      using F [of svc]
      by (cases "has_stub (stored s) svc m"; cases "pos_by_n g s svc m")
        (simp_all add: pos_by_pn_def resolved_forms_def service_forms_def Let_def)
  next
    case (Some t)
    have F1: "pos_by_n g s svc m = (if has_stub (stored s) svc m then Inr (form_pos g m svc)
        else Inl (projl (pos_by_n g s svc m)))"
      and F2: "pos_by_n g s t m = (if has_stub (stored s) t m then Inr (form_pos g m t)
        else Inl (projl (pos_by_n g s t m)))"
      using Some F by (simp_all add: service_forms_def)
    show ?thesis
      using F1 F2
      by (cases "has_stub (stored s) svc m"; cases "has_stub (stored s) t m";
          cases "pos_by_n g s svc m"; cases "pos_by_n g s t m")
        (simp_all add: pos_by_pn_def resolved_forms_def service_forms_def Let_def Some)
  qed
  then show "isl (pos_by_pn g s svc m) \<longleftrightarrow> resolved_forms (stored s) svc m = []"
    and "pos_by_pn g s svc m =
      (if resolved_forms (stored s) svc m = [] then Inl (projl (pos_by_pn g s svc m))
       else Inr (map (form_pos g m) (resolved_forms (stored s) svc m)))"
    by (auto simp: isl_def)
qed

lemma pos_by_pn_Inr:
  assumes "storage_ok g s" and "hash_separates g (set (service_forms svc) \<union> {m} \<union> names_of (stored s))"
    and r: "pos_by_pn g s svc m = Inr indexes"
  shows "indexes = map (form_pos g m) (resolved_forms (stored s) svc m)"
proof (cases "resolved_forms (stored s) svc m = []")
  case True
  with pos_by_pn_ok(2) [OF assms(1,2)] r show ?thesis by simp
next
  case False
  from pos_by_pn_ok(1) [OF assms(1,2)] have "pos_by_pn g s svc m =
      Inr (map (form_pos g m) (resolved_forms (stored s) svc m))"
    unfolding if_not_P [OF False] .
  with r show ?thesis by simp
qed

section \<open>The lookups\<close>

definition available :: "stub set \<Rightarrow> string \<Rightarrow> string \<Rightarrow> string \<Rightarrow> stub set" where
  "available V svc m ses =
     {v \<in> V. Service v \<in> set (service_forms svc) \<and> Method v = m \<and>
             (Session v = '''' \<or> Session v = ses)}"

lemma bucket_set:
  assumes "storage_ok g s" and "hash_separates g (N \<union> names_of (stored s))" and "f \<in> N" "m \<in> N"
  shows "set (session_look (itemSorted s) (form_pos g m f, ses)) =
     {v \<in> stored s. Service v = f \<and> Method v = m \<and> Session v = ses}"
proof -
  have "items.holds g (itemSorted s) (stored s)"
    using assms(1) by (simp add: storage_ok_def index_ok_def)
  from items.holds_look [OF this] show ?thesis
    using stub_pos_iff [OF assms(2)] assms(3,4) by (auto simp: form_pos_def)
qed

lemma parts_sets:
  "set (concat (available_parts m ses i)) =
     set (session_look m (i, '''')) \<union> (if ses = '''' then {} else set (session_look m (i, ses)))"
  by (auto simp: available_parts_def Let_def session_look_def)

lemma parts_members:
  "q \<in> set (available_parts m ses i) \<Longrightarrow> \<exists>k. q = session_look m k"
  by (auto simp: available_parts_def Let_def session_look_def split: if_splits)

lemma service_forms_distinct: "distinct (service_forms svc)"
proof -
  have "after_last c xs = Some ys \<Longrightarrow> length ys < length xs" for c xs ys
    by (induction xs) (auto split: option.splits if_splits)
  from this [of "CHR ''.''" svc svc] show ?thesis
    by (auto simp: service_forms_def split: option.splits)
qed

lemma distinct_ids_in:
  "inj_on ID V \<Longrightarrow> set xs \<subseteq> V \<Longrightarrow> distinct xs \<Longrightarrow> distinct (map ID xs)"
  by (simp add: distinct_map inj_on_subset)

lemma distinct_parts:
  assumes "items.holds g m V"
  shows "distinct (concat (available_parts m ses i))"
proof -
  have d: "distinct (session_look m k)" for k
    using items.holds_distinct [OF assms] distinct_map by blast
  have "set (session_look m (i, '''')) \<inter> set (session_look m (i, ses)) = {}" if "ses \<noteq> ''''"
    using items.holds_look [OF assms] that by auto
  with d [of "(i, '''')"] d [of "(i, ses)"] show ?thesis
    by (auto simp: available_parts_def Let_def session_look_def)
qed

lemma collect_available_ok:
  fixes ses :: string
  assumes ok: "storage_ok g s"
    and sep: "hash_separates g (set (service_forms svc) \<union> {m} \<union> names_of (stored s))"
  defines "xs \<equiv> collect_available_sorted (itemSorted s)
      (map (form_pos g m) (resolved_forms (stored s) svc m)) ses"
  shows "set xs = available (stored s) svc m ses" and "distinct (map ID xs)" and "by_priority xs"
proof -
  let ?V = "stored s" and ?fs = "resolved_forms (stored s) svc m"
  define ps where "ps = concat (map (available_parts (itemSorted s) ses) (map (form_pos g m) ?fs))"
  have I: "items.holds g (itemSorted s) ?V" and inj: "inj_on ID ?V"
    using ok by (simp_all add: storage_ok_def index_ok_def)
  define F where "F f = concat (available_parts (itemSorted s) ses (form_pos g m f))" for f
  have "concat ps = concat (map F fs)"
    if "ps = concat (map (available_parts (itemSorted s) ses) (map (form_pos g m) fs))" for fs ps
    using that by (induction fs arbitrary: ps) (simp_all add: F_def)
  then have psF: "concat ps = concat (map F ?fs)" by (simp only: ps_def)
  have xs: "mset xs = mset (concat (map F ?fs))"
    unfolding psF [symmetric] by (simp add: xs_def collect_available_sorted_def ps_def del: map_map)
  have fs: "f \<in> set ?fs \<longleftrightarrow> f \<in> set (service_forms svc) \<and> has_stub ?V f m" for f
    by (auto simp: resolved_forms_def)
  have B: "set (session_look (itemSorted s) (form_pos g m f, t)) =
      {v \<in> ?V. Service v = f \<and> Method v = m \<and> Session v = t}" if "f \<in> set ?fs" for f t
    by (rule bucket_set [OF ok sep]) (use that fs in auto)
  have part: "set (F f) =
      {v \<in> ?V. Service v = f \<and> Method v = m \<and> (Session v = '''' \<or> Session v = ses)}"
    if "f \<in> set ?fs" for f
    unfolding F_def parts_sets B [OF that] by auto
  have "set xs = (\<Union>f\<in>set ?fs. set (F f))"
    using mset_eq_setD [OF xs] by simp
  also have "\<dots> = available ?V svc m ses"
  proof (rule set_eqI)
    fix x
    have "x \<in> (\<Union>f\<in>set ?fs. set (F f)) \<longleftrightarrow>
        (\<exists>f\<in>set ?fs. x \<in> ?V \<and> Service x = f \<and> Method x = m \<and> (Session x = '''' \<or> Session x = ses))"
      using part by auto
    then show "x \<in> (\<Union>f\<in>set ?fs. set (F f)) \<longleftrightarrow> x \<in> available ?V svc m ses"
      using fs [of "Service x"] by (auto simp: available_def has_stub_def)
  qed
  finally show S: "set xs = available ?V svc m ses" .
  then have sxs: "set (concat ps) = available ?V svc m ses"
    unfolding psF using mset_eq_setD [OF xs] by simp
  have "distinct (concat (map F fs))" if "distinct fs" "set fs \<subseteq> set ?fs" for fs
    using that
  proof (induction fs)
    case (Cons f fs)
    have "distinct (F f)" by (simp add: F_def distinct_parts [OF I])
    moreover have "set (F f) \<inter> set (F f') = {}" if "f' \<in> set fs" for f'
      using Cons.prems that part [of f] part [of f'] by auto
    ultimately show ?case using Cons by auto
  qed simp
  then have "distinct (concat (map F ?fs))"
    by (simp add: resolved_forms_def service_forms_distinct)
  then have "distinct xs" using xs mset_eq_imp_distinct_iff by blast
  then show "distinct (map ID xs)"
    by (intro distinct_ids_in [OF inj]) (auto simp: S available_def)
  have "\<forall>v\<in>set (concat ps). priority_ok v"
    using ok unfolding sxs by (auto simp: storage_ok_def available_def)
  moreover have "\<forall>q\<in>set ps. by_priority q"
  proof
    fix q assume "q \<in> set ps"
    then obtain k where "q = session_look (itemSorted s) k"
      by (auto simp: ps_def dest!: parts_members)
    then show "by_priority q" using ok by (cases k) (simp add: storage_ok_def)
  qed
  ultimately show "by_priority xs"
    unfolding xs_def collect_available_sorted_def ps_def [symmetric] by (rule sorted_merge_parts)
qed

lemma find_all_available_ok:
  assumes ok: "storage_ok g s"
    and sep: "hash_separates g (set (service_forms svc) \<union> {m} \<union> names_of (stored s))"
  shows "isl (find_all_available g s svc m ses) \<longleftrightarrow> (\<forall>f\<in>set (service_forms svc). \<not> has_stub (stored s) f m)"
    and "find_all_available g s svc m ses = Inr xs \<Longrightarrow>
      set xs = available (stored s) svc m ses \<and> distinct (map ID xs) \<and> by_priority xs"
proof -
  have none: "resolved_forms (stored s) svc m = [] \<longleftrightarrow>
      (\<forall>f\<in>set (service_forms svc). \<not> has_stub (stored s) f m)"
    by (auto simp: resolved_forms_def filter_empty_conv)
  show "isl (find_all_available g s svc m ses) \<longleftrightarrow>
      (\<forall>f\<in>set (service_forms svc). \<not> has_stub (stored s) f m)"
    using pos_by_pn_ok(2) [OF ok sep]
    by (cases "pos_by_pn g s svc m") (simp_all add: find_all_available_def none)
  assume r: "find_all_available g s svc m ses = Inr xs"
  then have "\<not> isl (pos_by_pn g s svc m)"
    by (auto simp: find_all_available_def isl_def split: sum.splits)
  then have "pos_by_pn g s svc m = Inr (map (form_pos g m) (resolved_forms (stored s) svc m))"
    using pos_by_pn_ok [OF ok sep] by simp
  with r have "xs = collect_available_sorted (itemSorted s)
      (map (form_pos g m) (resolved_forms (stored s) svc m)) ses"
    by (simp add: find_all_available_def)
  with collect_available_ok [OF ok sep, of ses]
  show "set xs = available (stored s) svc m ses \<and> distinct (map ID xs) \<and> by_priority xs"
    by simp
qed

lemma find_by_method_available_ok:
  fixes ses :: string
  assumes ok: "storage_ok g s" and sep: "hash_separates g ({m} \<union> names_of (stored s))"
  defines "xs \<equiv> find_by_method_available g s m ses"
  shows "set xs = {v \<in> stored s. Method v = m \<and> (Session v = '''' \<or> Session v = ses)}"
    and "distinct (map ID xs)" and "by_priority xs"
    and "has_method_available g s m ses \<longleftrightarrow> xs \<noteq> []"
proof -
  have M: "methods.holds g (methodSorted s) (stored s)" and inj: "inj_on ID (stored s)"
    using ok by (simp_all add: storage_ok_def index_ok_def)
  define L where "L t = session_look (methodSorted s) (hash_id g m, t)" for t
  have L: "set (L t) = {v \<in> stored s. Method v = m \<and> Session v = t}" for t
    using methods.holds_look [OF M] hash_eq [OF sep] by (auto simp: L_def names_of_def)
  have D: "distinct (L t)" for t
    using methods.holds_distinct [OF M] distinct_map by (auto simp: L_def)
  define ys where "ys = (if ses = '''' then L '''' else L '''' @ L ses)"
  have xs: "xs = sort_stubs ys"
    by (simp add: xs_def ys_def L_def find_by_method_available_def sorted_copy_def Let_def
        session_look_def)
  show S: "set xs = {v \<in> stored s. Method v = m \<and> (Session v = '''' \<or> Session v = ses)}"
    by (auto simp: xs ys_def L)
  have "distinct ys" using D L by (auto simp: ys_def)
  then show "distinct (map ID xs)"
    by (intro distinct_ids_in [OF inj]) (auto simp: S, simp add: xs)
  show "by_priority xs"
    unfolding xs by (rule stub_order.sorted_sort)
      (use ok L in \<open>auto simp: storage_ok_def ys_def\<close>)
  show "has_method_available g s m ses \<longleftrightarrow> xs \<noteq> []"
    by (auto simp: xs ys_def L_def has_method_available_def Let_def session_look_def)
qed

end
