(* ===== verification/Searcher.thy ===== *)
theory Searcher
  imports Storage_Lookup
begin

text \<open>
  The searcher: \<^verbatim>\<open>searcher.go\<close>, \<^verbatim>\<open>search_searcher_runtime.go\<close>, \<^verbatim>\<open>search_runtime_helpers.go\<close>,
  \<^verbatim>\<open>search_core_helpers.go\<close>, \<^verbatim>\<open>search_session_helpers.go\<close> and \<^verbatim>\<open>stub_lookup.go\<close>. A search is one
  function from the state to a result and the state after it; only \<open>try_reserve\<close> changes the state.
  The lookup cache and the pool of candidate slices hold no information and have no counterpart.
\<close>

section \<open>State and results\<close>

datatype search_error = ErrServiceNotFound | ErrMethodNotFound | ErrStubNotFound

type_synonym call_count_key = "uuid \<times> string"

record searcher =
  stubCallCount :: "(call_count_key \<times> int) list"
  store :: storage_with_internal

record search_result =
  res_found :: "stub option"
  res_similar :: "stub option"
  res_matchNumber :: int

text \<open>
  What a search may depend on besides its state: the number of processors and the order in which
  the results of \<open>n\<close> goroutines arrive on their channel.
\<close>

record go_runtime =
  gomaxprocs :: int
  arrival :: "nat \<Rightarrow> nat list"

definition runtime_ok :: "go_runtime \<Rightarrow> bool" where
  "runtime_ok r \<longleftrightarrow> (\<forall>n. mset (arrival r n) = mset [0..<n])"

definition found_result :: "stub \<Rightarrow> int \<Rightarrow> search_result" where
  "found_result v n = \<lparr>res_found = Some v, res_similar = None, res_matchNumber = n\<rparr>"

definition similar_result :: "stub \<Rightarrow> search_result" where
  "similar_result v = \<lparr>res_found = None, res_similar = Some v, res_matchNumber = 0\<rparr>"

abbreviation ext :: "searcher \<Rightarrow> storage" where
  "ext s \<equiv> external (store s)"

definition call_count :: "searcher \<Rightarrow> call_count_key \<Rightarrow> int" where
  "call_count s k = (case map_of (stubCallCount s) k of None \<Rightarrow> 0 | Some n \<Rightarrow> n)"

section \<open>Sessions and limits\<close>

definition is_stub_visible_for_session :: "string \<Rightarrow> string \<Rightarrow> bool" where
  "is_stub_visible_for_session stub_session query_session =
     (if query_session = '''' then stub_session = ''''
      else stub_session = '''' \<or> stub_session = query_session)"

definition not_exhausted :: "searcher \<Rightarrow> stub \<Rightarrow> string \<Rightarrow> bool" where
  "not_exhausted s v session =
     (effective_times v \<le> 0 \<or> call_count s (ID v, session) < effective_times v)"

definition is_visible_and_not_exhausted :: "searcher \<Rightarrow> stub \<Rightarrow> string \<Rightarrow> bool" where
  "is_visible_and_not_exhausted s v session =
     (is_stub_visible_for_session (Session v) session \<and> not_exhausted s v session)"

definition filter_exhausted_stubs :: "searcher \<Rightarrow> stub list \<Rightarrow> string \<Rightarrow> stub list" where
  "filter_exhausted_stubs s stubs session = filter (\<lambda>v. not_exhausted s v session) stubs"

definition filter_by_session :: "stub list \<Rightarrow> string \<Rightarrow> stub list" where
  "filter_by_session stubs session =
     filter (\<lambda>v. is_stub_visible_for_session (Session v) session) stubs"

definition collect_used_ids :: "searcher \<Rightarrow> uuid set" where
  "collect_used_ids s = (fst \<circ> fst) ` set (filter (\<lambda>kn. 0 < snd kn) (stubCallCount s))"

section \<open>Lookups\<close>

definition wrap :: "storage_error \<Rightarrow> search_error" where
  "wrap e = (case e of ErrLeftNotFound \<Rightarrow> ErrServiceNotFound | ErrRightNotFound \<Rightarrow> ErrMethodNotFound)"

definition lookup_service_available ::
  "golib \<Rightarrow> searcher \<Rightarrow> string \<Rightarrow> string \<Rightarrow> string \<Rightarrow> storage_error + stub list" where
  "lookup_service_available g s svc m session =
     (case find_all_available g (ext s) svc m session of
        Inl e \<Rightarrow> Inl e
      | Inr stubs \<Rightarrow> Inr (filter (\<lambda>v. not_exhausted s v session) stubs))"

definition lookup_method_available :: "golib \<Rightarrow> searcher \<Rightarrow> string \<Rightarrow> string \<Rightarrow> stub list" where
  "lookup_method_available g s m session =
     (if has_method_available g (ext s) m session
      then filter (\<lambda>v. not_exhausted s v session) (find_by_method_available g (ext s) m session)
      else [])"

definition resolve_search_candidates ::
  "golib \<Rightarrow> query \<Rightarrow> searcher \<Rightarrow> search_error + stub list" where
  "resolve_search_candidates g q s =
     (case lookup_service_available g s (q_Service q) (q_Method q) (q_Session q) of
        Inr stubs \<Rightarrow> Inr stubs
      | Inl _ \<Rightarrow>
          if q_Strict q then Inl ErrStubNotFound
          else if \<not> has_method_available g (ext s) (q_Method q) (q_Session q) then Inl ErrStubNotFound
          else (let candidates = lookup_method_available g s (q_Method q) (q_Session q) in
                if candidates = [] then Inl ErrStubNotFound else Inr candidates))"

section \<open>Reservation\<close>

text \<open>The match number, or \<open>None\<close> when the stub has reached its limit in this session.\<close>

definition try_reserve :: "query \<Rightarrow> stub \<Rightarrow> searcher \<Rightarrow> int option \<times> searcher" where
  "try_reserve q v s =
     (if request_internal q then (Some 1, s)
      else
        (let key = (ID v, q_Session q); times = effective_times v; n = call_count s key in
         if 0 < times \<and> times \<le> n then (None, s)
         else (Some (n + 1), s\<lparr>stubCallCount := m_put key (n + 1) (stubCallCount s)\<rparr>)))"

fun reserve_first_ranked_match ::
  "query \<Rightarrow> ranked_match list \<Rightarrow> searcher \<Rightarrow> (stub \<times> int) option \<times> searcher" where
  "reserve_first_ranked_match q [] s = (None, s)"
| "reserve_first_ranked_match q (m # ms) s =
     (case try_reserve q (r_stub m) s of
        (Some n, s') \<Rightarrow> (Some (r_stub m, n), s')
      | (None, s') \<Rightarrow> reserve_first_ranked_match q ms s')"

section \<open>Matching a list of candidates\<close>

definition similar_scan_limit :: nat where
  "similar_scan_limit = 1000"

definition parallel_processing_threshold :: nat where
  "parallel_processing_threshold = 100"

definition collect_sequential_candidates :: "golib \<Rightarrow> query \<Rightarrow> stub list \<Rightarrow> ranked_match list" where
  "collect_sequential_candidates g q stubs =
     map (ranked_match_for g q) (filter (fast_match_v2 g q) stubs)"

definition better_of :: "golib \<Rightarrow> query \<Rightarrow> stub \<Rightarrow> ranked_match option \<Rightarrow> ranked_match option" where
  "better_of g q v best =
     (let c = ranked_match_for g q v in if better_similar best c then Some c else best)"

definition best_similar_candidate :: "golib \<Rightarrow> query \<Rightarrow> stub list \<Rightarrow> ranked_match option" where
  "best_similar_candidate g q stubs = fold (better_of g q) (take similar_scan_limit stubs) None"

definition result_from_ranked_matches ::
  "query \<Rightarrow> ranked_match list \<Rightarrow> ranked_match option \<Rightarrow> searcher
     \<Rightarrow> (search_error + search_result) \<times> searcher" where
  "result_from_ranked_matches q ms similar s =
     (case reserve_first_ranked_match q ms s of
        (Some (v, n), s') \<Rightarrow> (Inr (found_result v n), s')
      | (None, s') \<Rightarrow>
          (case similar of
             Some c \<Rightarrow> (Inr (similar_result (r_stub c)), s')
           | None \<Rightarrow> (Inl ErrStubNotFound, s')))"

definition process_stubs_sequential ::
  "golib \<Rightarrow> query \<Rightarrow> stub list \<Rightarrow> searcher \<Rightarrow> (search_error + search_result) \<times> searcher" where
  "process_stubs_sequential g q stubs s =
     result_from_ranked_matches q (sort_ranked_matches (collect_sequential_candidates g q stubs))
       (best_similar_candidate g q stubs) s"

definition process_single_stub ::
  "golib \<Rightarrow> query \<Rightarrow> stub \<Rightarrow> searcher \<Rightarrow> (search_error + search_result) \<times> searcher" where
  "process_single_stub g q v s =
     (if fast_match_v2 g q v then
        (case try_reserve q v s of
           (Some n, s') \<Rightarrow> (Inr (found_result v n), s')
         | (None, s') \<Rightarrow> (Inr (similar_result v), s'))
      else (Inr (similar_result v), s))"

definition parallel_chunk_size :: "go_runtime \<Rightarrow> nat \<Rightarrow> nat" where
  "parallel_chunk_size r n =
     (let workers = nat (max (gomaxprocs r) 1) in max ((n + workers - 1) div workers) 1)"

text \<open>The \<open>i\<close>-th chunk, and the matches of all chunks in the order their goroutines finish.\<close>

definition chunk :: "nat \<Rightarrow> 'a list \<Rightarrow> nat \<Rightarrow> 'a list" where
  "chunk n xs i = take n (drop (i * n) xs)"

definition num_chunks :: "nat \<Rightarrow> nat \<Rightarrow> nat" where
  "num_chunks n len = (len + n - 1) div n"

definition collect_chunk_results ::
  "golib \<Rightarrow> go_runtime \<Rightarrow> query \<Rightarrow> stub list \<Rightarrow> ranked_match list" where
  "collect_chunk_results g r q stubs =
     (let n = parallel_chunk_size r (length stubs) in
      concat (map (\<lambda>i. collect_sequential_candidates g q (chunk n stubs i))
                (arrival r (num_chunks n (length stubs)))))"

definition process_stubs_parallel ::
  "golib \<Rightarrow> go_runtime \<Rightarrow> query \<Rightarrow> stub list \<Rightarrow> searcher
     \<Rightarrow> (search_error + search_result) \<times> searcher" where
  "process_stubs_parallel g r q stubs s =
     result_from_ranked_matches q (sort_ranked_matches (collect_chunk_results g r q stubs))
       (best_similar_candidate g q stubs) s"

definition process_stubs ::
  "golib \<Rightarrow> go_runtime \<Rightarrow> query \<Rightarrow> stub list \<Rightarrow> searcher
     \<Rightarrow> (search_error + search_result) \<times> searcher" where
  "process_stubs g r q stubs s =
     (case stubs of
        [] \<Rightarrow> (Inl ErrStubNotFound, s)
      | [v] \<Rightarrow> process_single_stub g q v s
      | _ \<Rightarrow>
          if parallel_processing_threshold \<le> length stubs then process_stubs_parallel g r q stubs s
          else process_stubs_sequential g q stubs s)"

section \<open>Search\<close>

definition visible_indexed_candidates :: "golib \<Rightarrow> query \<Rightarrow> searcher \<Rightarrow> stub list option" where
  "visible_indexed_candidates g q s =
     (case q_Input q of
        [msg] \<Rightarrow>
          (case pos_by_pn g (ext s) (q_Service q) (q_Method q) of
             Inl _ \<Rightarrow> None
           | Inr indexes \<Rightarrow>
               (case indexed_candidates (ext s) indexes msg of
                  None \<Rightarrow> None
                | Some cs \<Rightarrow>
                    Some (filter (\<lambda>v. is_visible_and_not_exhausted s v (q_Session q)) cs)))
      | _ \<Rightarrow> None)"

definition best_similar_stub :: "golib \<Rightarrow> query \<Rightarrow> searcher \<Rightarrow> stub option" where
  "best_similar_stub g q s =
     (case find_all_available g (ext s) (q_Service q) (q_Method q) (q_Session q) of
        Inl _ \<Rightarrow> None
      | Inr stubs \<Rightarrow>
          map_option r_stub
            (fold (better_of g q)
               (take similar_scan_limit
                  (filter (\<lambda>v. is_visible_and_not_exhausted s v (q_Session q)) stubs))
               None))"

text \<open>The result of a list of candidates when it is a match.\<close>

definition found_only ::
  "(search_error + search_result) \<times> searcher \<Rightarrow> search_result option" where
  "found_only rs =
     (case fst rs of Inl _ \<Rightarrow> None | Inr r \<Rightarrow> if res_found r = None then None else Some r)"

definition search_indexed ::
  "golib \<Rightarrow> go_runtime \<Rightarrow> query \<Rightarrow> searcher \<Rightarrow> search_result option \<times> searcher" where
  "search_indexed g r q s =
     (case visible_indexed_candidates g q s of
        None \<Rightarrow> (None, s)
      | Some visible \<Rightarrow>
          (let rs = process_stubs g r q visible s in
           if visible \<noteq> [] \<and> found_only rs \<noteq> None then (found_only rs, snd rs)
           else (let s' = (if visible \<noteq> [] then snd rs else s) in
                 (map_option similar_result (best_similar_stub g q s'), s'))))"

definition match_internal_stubs ::
  "golib \<Rightarrow> go_runtime \<Rightarrow> query \<Rightarrow> searcher \<Rightarrow> search_result option \<times> searcher" where
  "match_internal_stubs g r q s =
     (case find_all_available g (internal (store s)) (q_Service q) (q_Method q) (q_Session q) of
        Inl _ \<Rightarrow> (None, s)
      | Inr candidates \<Rightarrow>
          if candidates = [] then (None, s)
          else (let rs = process_stubs g r q candidates s in (found_only rs, snd rs)))"

definition search_full ::
  "golib \<Rightarrow> go_runtime \<Rightarrow> query \<Rightarrow> searcher \<Rightarrow> (search_error + search_result) \<times> searcher" where
  "search_full g r q s =
     (case resolve_search_candidates g q s of
        Inl e \<Rightarrow> (Inl e, s)
      | Inr candidates \<Rightarrow> process_stubs g r q candidates s)"

definition search_external ::
  "golib \<Rightarrow> go_runtime \<Rightarrow> query \<Rightarrow> searcher \<Rightarrow> (search_error + search_result) \<times> searcher" where
  "search_external g r q s =
     (case search_indexed g r q s of
        (Some res, s') \<Rightarrow> (Inr res, s')
      | (None, s') \<Rightarrow> search_full g r q s')"

definition search_optimized ::
  "golib \<Rightarrow> go_runtime \<Rightarrow> query \<Rightarrow> searcher \<Rightarrow> (search_error + search_result) \<times> searcher" where
  "search_optimized g r q s =
     (if allows_internal_stubs q then
        (case match_internal_stubs g r q s of
           (Some res, s') \<Rightarrow> (Inr res, s')
         | (None, s') \<Rightarrow> search_external g r q s')
      else search_external g r q s)"

definition search_by_id ::
  "golib \<Rightarrow> query \<Rightarrow> uuid \<Rightarrow> searcher \<Rightarrow> (search_error + search_result) \<times> searcher" where
  "search_by_id g q i s =
     (case pos_by_pn g (ext s) (q_Service q) (q_Method q) of
        Inl e \<Rightarrow> (Inl (wrap e), s)
      | Inr _ \<Rightarrow>
          (case find_by_id (ext s) i of
             None \<Rightarrow> (Inl ErrServiceNotFound, s)
           | Some v \<Rightarrow>
               if is_visible_and_not_exhausted s v (q_Session q) then
                 (case try_reserve q v s of
                    (Some n, s') \<Rightarrow> (Inr (found_result v n), s')
                  | (None, s') \<Rightarrow> (Inl ErrServiceNotFound, s'))
               else (Inl ErrServiceNotFound, s)))"

definition find_query ::
  "golib \<Rightarrow> go_runtime \<Rightarrow> query \<Rightarrow> searcher \<Rightarrow> (search_error + search_result) \<times> searcher" where
  "find_query g r q s =
     (case q_ID q of Some i \<Rightarrow> search_by_id g q i s | None \<Rightarrow> search_optimized g r q s)"

section \<open>Mutations and listings\<close>

definition searcher_upsert :: "golib \<Rightarrow> stub list \<Rightarrow> searcher \<Rightarrow> uuid list \<times> searcher" where
  "searcher_upsert g vs s =
     (let (ids, e) = upsert g vs (ext s) in (ids, s\<lparr>store := (store s)\<lparr>external := e\<rparr>\<rparr>))"

definition searcher_del :: "golib \<Rightarrow> uuid list \<Rightarrow> searcher \<Rightarrow> nat \<times> searcher" where
  "searcher_del g ids s =
     (if ids = [] then (0, s)
      else (let (n, e) = del g ids (ext s) in
            (n, s\<lparr>stubCallCount := filter (\<lambda>kn. fst (fst kn) \<notin> set ids) (stubCallCount s),
                  store := (store s)\<lparr>external := e\<rparr>\<rparr>)))"

definition searcher_del_by_session :: "golib \<Rightarrow> string \<Rightarrow> searcher \<Rightarrow> nat \<times> searcher" where
  "searcher_del_by_session g session s =
     (if session = '''' then (0, s)
      else (let (n, e) = del_by_session g session (ext s) in
            (n, s\<lparr>stubCallCount := filter (\<lambda>kn. snd (fst kn) \<noteq> session) (stubCallCount s),
                  store := (store s)\<lparr>external := e\<rparr>\<rparr>)))"

definition searcher_clear :: "searcher \<Rightarrow> searcher" where
  "searcher_clear s = s\<lparr>stubCallCount := [], store := clear_with_internal (store s)\<rparr>"

definition find_by :: "golib \<Rightarrow> string \<Rightarrow> string \<Rightarrow> searcher \<Rightarrow> search_error + stub list" where
  "find_by g svc m s = (case find_all g (ext s) svc m of Inl e \<Rightarrow> Inl (wrap e) | Inr xs \<Rightarrow> Inr xs)"

definition all_stubs :: "searcher \<Rightarrow> stub list" where
  "all_stubs s = storage_values (ext s)"

definition used_ids :: "searcher \<Rightarrow> uuid list" where
  "used_ids s = remdups (map (fst \<circ> fst) (filter (\<lambda>kn. 0 < snd kn) (stubCallCount s)))"

definition used_stubs :: "searcher \<Rightarrow> stub list" where
  "used_stubs s = find_by_ids (ext s) (used_ids s)"

definition unused_stubs :: "searcher \<Rightarrow> stub list" where
  "unused_stubs s = filter (\<lambda>v. ID v \<notin> collect_used_ids s) (storage_values (ext s))"

end
