(* ===== verification/Searcher_Match.thy ===== *)
theory Searcher_Match
  imports Searcher
begin

text \<open>
  What \<^verbatim>\<open>processStubs\<close> computes on a list of candidates: the best-ranked match is reserved, on the
  single, the sequential and the parallel path alike, whatever the number of processors and the
  order in which goroutines finish.
\<close>

section \<open>Chunks\<close>

lemma concat_chunks: "concat (map (chunk n xs) [0..<k]) = take (k * n) xs"
proof (induction k)
  case (Suc k)
  have "take (k * n) xs @ take n (drop (k * n) xs) = take (k * n + n) xs"
    by (simp add: take_add)
  with Suc show ?case by (simp add: chunk_def add.commute)
qed simp

lemma chunks_cover: "0 < n \<Longrightarrow> concat (map (chunk n xs) [0..<num_chunks n (length xs)]) = xs"
proof -
  assume "0 < n"
  then have "length xs \<le> num_chunks n (length xs) * n"
    using mod_less_divisor [of n "length xs + n - 1"]
    unfolding num_chunks_def minus_mod_eq_div_mult [symmetric] by linarith
  then show ?thesis by (simp add: concat_chunks)
qed

lemma parallel_chunk_size_pos: "0 < parallel_chunk_size r n"
  by (simp add: parallel_chunk_size_def Let_def)

lemma collect_append:
  "collect_sequential_candidates g q (xs @ ys) =
     collect_sequential_candidates g q xs @ collect_sequential_candidates g q ys"
  by (simp add: collect_sequential_candidates_def)

lemma collect_concat:
  "concat (map (\<lambda>i. collect_sequential_candidates g q (f i)) is) =
     collect_sequential_candidates g q (concat (map f is))"
  by (induction "is") (simp_all add: collect_append, simp add: collect_sequential_candidates_def)

lemma mset_concat_perm:
  "mset is = mset js \<Longrightarrow> mset (concat (map f is)) = mset (concat (map f js))"
  by (simp add: mset_concat)
    (metis (mono_tags, lifting) map_map mset_map sum_mset_sum_list)

text \<open>Workers change only the order of the collected matches.\<close>

lemma collect_chunks_mset:
  assumes "runtime_ok r"
  shows "mset (collect_chunk_results g r q xs) = mset (collect_sequential_candidates g q xs)"
proof -
  let ?n = "parallel_chunk_size r (length xs)"
  let ?f = "\<lambda>i. collect_sequential_candidates g q (chunk ?n xs i)"
  have "mset (concat (map ?f (arrival r k))) = mset (concat (map ?f [0..<k]))" for k
    by (rule mset_concat_perm) (use assms in \<open>simp add: runtime_ok_def\<close>)
  then have "mset (collect_chunk_results g r q xs) =
      mset (concat (map ?f [0..<num_chunks ?n (length xs)]))"
    by (simp only: collect_chunk_results_def Let_def)
  also have "\<dots> = mset (collect_sequential_candidates g q xs)"
    by (simp only: collect_concat chunks_cover [OF parallel_chunk_size_pos])
  finally show ?thesis .
qed

section \<open>The best match\<close>

definition best_match :: "golib \<Rightarrow> query \<Rightarrow> stub set \<Rightarrow> stub \<Rightarrow> bool" where
  "best_match g q V v \<longleftrightarrow>
     v \<in> V \<and> fast_match_v2 g q v \<and>
     (\<forall>w\<in>V. fast_match_v2 g q w \<longrightarrow>
        compare_ranked_matches (ranked_match_for g q v) (ranked_match_for g q w) \<le> 0)"

lemma r_stub_ranked [simp]: "r_stub (ranked_match_for g q v) = v"
  by (simp add: ranked_match_for_def)

lemma best_match_unique:
  assumes "inj_on ID V" and "best_match g q V v" and "best_match g q V w"
  shows "v = w"
proof -
  let ?v = "ranked_match_for g q v" and ?w = "ranked_match_for g q w"
  have "compare_ranked_matches ?v ?w \<le> 0" "compare_ranked_matches ?w ?v \<le> 0"
    using assms(2,3) by (auto simp: best_match_def)
  then have "compare_ranked_matches ?v ?w = 0"
    using ranked.cmp_antisym by blast
  then have "ID v = ID w"
    using ranked.cmp_key [of ?v ?w] by simp
  with assms show ?thesis by (auto simp: best_match_def dest: inj_onD)
qed

lemma best_match_mono:
  "best_match g q V v \<Longrightarrow> W \<subseteq> V \<Longrightarrow> v \<in> W \<Longrightarrow> best_match g q W v"
  by (auto simp: best_match_def)

text \<open>The first match of a sorted permutation of the collected matches is the best one.\<close>

lemma sorted_head_best:
  assumes "mset ms = mset (collect_sequential_candidates g q xs)"
    and "sort_ranked_matches ms = m # ms'"
  shows "best_match g q (set xs) (r_stub m)"
proof -
  have ms: "set ms = ranked_match_for g q ` {v \<in> set xs. fast_match_v2 g q v}"
    using mset_eq_setD [OF assms(1)] by (auto simp: collect_sequential_candidates_def)
  have "m \<in> set ms"
    using assms(2) set_sort_func [of compare_ranked_matches ms]
    by (auto simp: sort_ranked_matches_def)
  then obtain v where v: "v \<in> set xs" "fast_match_v2 g q v" "m = ranked_match_for g q v"
    using ms by auto
  have "compare_ranked_matches m (ranked_match_for g q w) \<le> 0"
    if "w \<in> set xs" "fast_match_v2 g q w" for w
    by (rule ranked.sort_head_least [of ms _ ms'])
      (use assms(2) ms that in \<open>auto simp: sort_ranked_matches_def\<close>)
  with v show ?thesis by (auto simp: best_match_def)
qed

lemma best_match_exists:
  assumes "\<exists>v\<in>set xs. fast_match_v2 g q v"
  shows "\<exists>v. best_match g q (set xs) v"
proof (cases "sort_ranked_matches (collect_sequential_candidates g q xs)")
  case Nil
  with assms show ?thesis
    by (auto simp: sort_ranked_matches_def collect_sequential_candidates_def filter_empty_conv)
next
  case (Cons m ms)
  with sorted_head_best [OF refl this] show ?thesis by blast
qed

section \<open>Reservation\<close>

lemma try_reserve_ok:
  "not_exhausted s v (q_Session q) \<Longrightarrow> fst (try_reserve q v s) \<noteq> None"
  by (auto simp: try_reserve_def not_exhausted_def Let_def)

lemma try_reserve_fails:
  "fst (try_reserve q v s) = None \<Longrightarrow> snd (try_reserve q v s) = s"
  by (auto simp: try_reserve_def Let_def split: if_splits)

definition reserve_number :: "query \<Rightarrow> stub \<Rightarrow> searcher \<Rightarrow> int" where
  "reserve_number q v s = (if request_internal q then 1 else call_count s (ID v, q_Session q) + 1)"

definition reserve_state :: "query \<Rightarrow> stub \<Rightarrow> searcher \<Rightarrow> searcher" where
  "reserve_state q v s =
     (if request_internal q then s
      else s\<lparr>stubCallCount := m_put (ID v, q_Session q) (reserve_number q v s) (stubCallCount s)\<rparr>)"

lemma try_reserve_some:
  "not_exhausted s v (q_Session q) \<Longrightarrow>
     try_reserve q v s = (Some (reserve_number q v s), reserve_state q v s)"
  by (auto simp: try_reserve_def not_exhausted_def Let_def reserve_number_def reserve_state_def)

lemma try_reserve_cases:
  "try_reserve q v s = (None, s) \<or>
   try_reserve q v s = (Some (reserve_number q v s), reserve_state q v s) \<and>
     (request_internal q \<or> not_exhausted s v (q_Session q))"
  by (auto simp: try_reserve_def not_exhausted_def Let_def reserve_number_def reserve_state_def)

section \<open>Processing candidates\<close>

text \<open>The outcome of a search over the candidates \<open>xs\<close>, none of them exhausted.\<close>

lemma ranked_result:
  assumes perm: "mset ms = mset (collect_sequential_candidates g q xs)"
    and inj: "inj_on ID (set xs)" and fresh: "\<forall>v\<in>set xs. not_exhausted s v (q_Session q)"
  shows "best_match g q (set xs) v \<Longrightarrow>
      result_from_ranked_matches q (sort_ranked_matches ms) sim s =
        (Inr (found_result v (reserve_number q v s)), reserve_state q v s)"
    and "\<forall>v\<in>set xs. \<not> fast_match_v2 g q v \<Longrightarrow>
      result_from_ranked_matches q (sort_ranked_matches ms) sim s =
        (case sim of Some c \<Rightarrow> Inr (similar_result (r_stub c)) | None \<Rightarrow> Inl ErrStubNotFound, s)"
proof -
  assume v: "best_match g q (set xs) v"
  then have "collect_sequential_candidates g q xs \<noteq> []"
    by (auto simp: best_match_def collect_sequential_candidates_def filter_empty_conv)
  with perm have "sort_ranked_matches ms \<noteq> []"
    by (auto simp: sort_ranked_matches_def)
  then obtain m ms' where m: "sort_ranked_matches ms = m # ms'"
    by (cases "sort_ranked_matches ms") auto
  have "r_stub m = v"
    by (rule best_match_unique [OF inj sorted_head_best [OF perm m] v])
  moreover have "not_exhausted s v (q_Session q)"
    using v fresh by (simp add: best_match_def)
  ultimately show "result_from_ranked_matches q (sort_ranked_matches ms) sim s =
      (Inr (found_result v (reserve_number q v s)), reserve_state q v s)"
    by (simp add: result_from_ranked_matches_def m try_reserve_some)
next
  assume "\<forall>v\<in>set xs. \<not> fast_match_v2 g q v"
  then have "collect_sequential_candidates g q xs = []"
    by (simp add: collect_sequential_candidates_def filter_empty_conv)
  with perm have "sort_ranked_matches ms = []"
    by (simp add: sort_ranked_matches_def)
  then show "result_from_ranked_matches q (sort_ranked_matches ms) sim s =
      (case sim of Some c \<Rightarrow> Inr (similar_result (r_stub c)) | None \<Rightarrow> Inl ErrStubNotFound, s)"
    by (simp add: result_from_ranked_matches_def split: option.split)
qed

lemma best_similar_some: "xs \<noteq> [] \<Longrightarrow> best_similar_candidate g q xs \<noteq> None"
proof -
  have step: "fold (better_of g q) ys (Some b) \<noteq> None" for ys b
    by (induction ys arbitrary: b) (auto simp: better_of_def Let_def)
  assume "xs \<noteq> []"
  then obtain x ys where "take similar_scan_limit xs = x # ys"
    by (cases xs) (auto simp: similar_scan_limit_def)
  then show ?thesis
    using step by (simp add: best_similar_candidate_def better_of_def better_similar_def Let_def)
qed

lemma best_similar_single: "best_similar_candidate g q [v] = Some (ranked_match_for g q v)"
  by (simp add: best_similar_candidate_def similar_scan_limit_def better_of_def better_similar_def)

text \<open>The search over candidates as one specification, without paths, chunks or sorting.\<close>

lemma process_stubs_found:
  assumes "runtime_ok r" and "inj_on ID (set xs)" and "\<forall>v\<in>set xs. not_exhausted s v (q_Session q)"
    and v: "best_match g q (set xs) v"
  shows "process_stubs g r q xs s =
     (Inr (found_result v (reserve_number q v s)), reserve_state q v s)"
proof (cases xs rule: remdups_adj.cases)
  case 1
  with v show ?thesis by (simp add: best_match_def)
next
  case (2 w)
  with v assms(3) show ?thesis
    by (auto simp: best_match_def process_stubs_def process_single_stub_def try_reserve_some)
next
  case (3 a b ys)
  then have "process_stubs g r q xs s =
      (if parallel_processing_threshold \<le> length xs then process_stubs_parallel g r q xs s
       else process_stubs_sequential g q xs s)"
    by (simp add: process_stubs_def)
  then show ?thesis
    using ranked_result(1) [OF collect_chunks_mset [OF assms(1)] assms(2,3) v]
      ranked_result(1) [OF refl assms(2,3) v]
    by (simp add: process_stubs_parallel_def process_stubs_sequential_def)
qed

lemma process_stubs_missing:
  assumes "runtime_ok r" and "inj_on ID (set xs)" and "\<forall>v\<in>set xs. not_exhausted s v (q_Session q)"
    and none: "\<forall>v\<in>set xs. \<not> fast_match_v2 g q v"
  shows "process_stubs g r q xs s =
     (case best_similar_candidate g q xs of
        Some c \<Rightarrow> Inr (similar_result (r_stub c)) | None \<Rightarrow> Inl ErrStubNotFound, s)"
proof (cases xs rule: remdups_adj.cases)
  case 1
  then show ?thesis by (simp add: process_stubs_def best_similar_candidate_def)
next
  case (2 w)
  with none show ?thesis
    by (simp add: process_stubs_def process_single_stub_def best_similar_single)
next
  case (3 a b ys)
  then have "process_stubs g r q xs s =
      (if parallel_processing_threshold \<le> length xs then process_stubs_parallel g r q xs s
       else process_stubs_sequential g q xs s)"
    by (simp add: process_stubs_def)
  then show ?thesis
    using ranked_result(2) [OF collect_chunks_mset [OF assms(1)] assms(2,3) none]
      ranked_result(2) [OF refl assms(2,3) none]
    by (simp add: process_stubs_parallel_def process_stubs_sequential_def)
qed

text \<open>Whatever the candidates are, a search reserves at most one match, of a candidate that matches.\<close>

lemma reserve_first_cases:
  "reserve_first_ranked_match q ms s = (None, s) \<or>
   (\<exists>m\<in>set ms. reserve_first_ranked_match q ms s =
       (Some (r_stub m, reserve_number q (r_stub m) s), reserve_state q (r_stub m) s) \<and>
     (request_internal q \<or> not_exhausted s (r_stub m) (q_Session q)))"
proof (induction ms)
  case (Cons m ms)
  then show ?case using try_reserve_cases [of q "r_stub m" s] by auto
qed simp

lemma process_stubs_cases:
  "runtime_ok r \<Longrightarrow>
   (\<exists>v\<in>set xs. fast_match_v2 g q v \<and>
      (request_internal q \<or> not_exhausted s v (q_Session q)) \<and>
      process_stubs g r q xs s = (Inr (found_result v (reserve_number q v s)), reserve_state q v s))
   \<or> snd (process_stubs g r q xs s) = s \<and> found_only (process_stubs g r q xs s) = None"
proof -
  assume r: "runtime_ok r"
  have main: "(\<exists>v\<in>set xs. fast_match_v2 g q v \<and>
        (request_internal q \<or> not_exhausted s v (q_Session q)) \<and>
        result_from_ranked_matches q (sort_ranked_matches ms) sim s =
          (Inr (found_result v (reserve_number q v s)), reserve_state q v s))
      \<or> snd (result_from_ranked_matches q (sort_ranked_matches ms) sim s) = s
        \<and> found_only (result_from_ranked_matches q (sort_ranked_matches ms) sim s) = None"
    if "mset ms = mset (collect_sequential_candidates g q xs)" for ms sim
  proof -
    have "set (sort_ranked_matches ms) = ranked_match_for g q ` {v \<in> set xs. fast_match_v2 g q v}"
      using mset_eq_setD [OF that]
      by (auto simp: collect_sequential_candidates_def sort_ranked_matches_def)
    then show ?thesis
      using reserve_first_cases [of q "sort_ranked_matches ms" s]
      by (fastforce simp: result_from_ranked_matches_def found_only_def similar_result_def
          split: option.splits)
  qed
  show ?thesis
  proof (cases xs rule: remdups_adj.cases)
    case (2 w)
    then show ?thesis
      using try_reserve_cases [of q w s]
      by (auto simp: process_stubs_def process_single_stub_def found_only_def similar_result_def)
  next
    case (3 a b ys)
    with main [OF refl] main [OF collect_chunks_mset [OF r]] show ?thesis
      by (simp add: process_stubs_def process_stubs_parallel_def process_stubs_sequential_def)
  qed (simp add: process_stubs_def found_only_def)
qed

end
