(* ===== verification/Searcher_Index.thy ===== *)
theory Searcher_Index
  imports Searcher_Match
begin

text \<open>
  When the equals index is transparent: the conditions under which the fast path of
  \<^verbatim>\<open>searchOptimized\<close> answers as the full scan does, and the stores on which it does not.
\<close>

section \<open>The key a stub is indexed by\<close>

lemma index_key_loop_member:
  "index_key_loop g False best flds = Some (k, s) \<Longrightarrow> best \<noteq> None \<or> flds \<noteq> [] \<Longrightarrow>
     best = Some (k, s) \<or> (k, VString s) \<in> set flds"
proof (induction g False best flds rule: index_key_loop.induct)
  case (2 g best k' v flds)
  then show ?case
    by (cases v) (auto split: option.splits prod.splits if_splits)
qed auto

text \<open>A stub the index finds whenever it matches: not a pattern, and a field name whose spellings
  \<^verbatim>\<open>keyVariations\<close> covers.\<close>

definition index_safe :: "golib \<Rightarrow> stub \<Rightarrow> bool" where
  "index_safe g v =
     (case index_key_for g v of
        None \<Rightarrow> True
      | Some (k, _) \<Rightarrow>
          mlen (Matches (Input v)) = 0 \<and>
          (mlen (Equals (Input v)) = 0 \<or> proto_key k \<or> camel_key k))"

lemma index_key_plain:
  assumes "index_key_for g v = Some (k, s)" and "mlen (Matches (Input v)) = 0"
  shows "Inputs v = None"
    and "(k, VString s) \<in> set (entries (Equals (Input v))) \<or>
      mlen (Equals (Input v)) = 0 \<and> (k, VString s) \<in> set (entries (Contains (Input v)))"
  using assms index_key_loop_member [of g None "entries (Equals (Input v))" k s]
    index_key_loop_member [of g None "entries (Contains (Input v))" k s]
  by (auto simp: index_key_for_def indexable_fields_def Let_def mlen_def
      split: if_splits option.splits)

lemma compare_string: "compare_field_value g (VString e) a b \<longleftrightarrow> a = VString e"
  by (cases a) (auto simp: compare_field_value_def field_value_equals_def deep_equal.simps
      split: bool.splits)

lemma contains_string: "contains_ignore_array_order (VString e) a \<longleftrightarrow> a = VString e"
  by (cases a) (auto simp: contains_ignore_array_order.simps map_deep_compare_def
      slices_deep_compare_def deep_equal.simps)

lemma equals_key:
  "equals g expected msg b \<Longrightarrow> (k, VString s) \<in> set (entries expected) \<Longrightarrow>
     find_value_with_variations msg k = Some (VString s)"
  by (auto simp: equals_def list_all_iff equals_field_def compare_string split: option.splits)

lemma contains_key:
  "contains expected msg \<Longrightarrow> (k, VString s) \<in> set (entries expected) \<Longrightarrow> map_of msg k = Some (VString s)"
  by (cases "entries expected")
    (auto simp: contains_def contains_ignore_array_order.simps [of "VMap l" for l]
      map_deep_compare_def map_any_compare_def slices_deep_compare_def list_all_iff contains_string
      split: option.splits)

lemma matched_key:
  assumes safe: "index_safe g v" and key: "index_key_for g v = Some (k, s)"
    and match: "fast_match_v2 g q v" and msg: "q_Input q = [msg]" "msg \<noteq> []"
  obtains p where "map_of msg p = Some (VString s)" and "k \<in> set (key_variations p)"
proof -
  have plain: "mlen (Matches (Input v)) = 0"
    and names: "mlen (Equals (Input v)) = 0 \<or> proto_key k \<or> camel_key k"
    using safe key by (simp_all add: index_safe_def)
  note K = index_key_plain [OF key plain]
  have "match_input g msg (Input v)"
    using match msg K(1) fast_match_input_nonempty [of msg]
    by (simp add: fast_match_v2_def fast_match_body_def)
  then have E: "equals g (Equals (Input v)) msg (IgnoreArrayOrder (Input v))"
    and C: "contains (Contains (Input v)) msg"
    by (simp_all add: match_input_def matcher_matches_def)
  show thesis
  proof (cases "(k, VString s) \<in> set (entries (Equals (Input v)))")
    case True
    then have "mlen (Equals (Input v)) \<noteq> 0" by (cases "entries (Equals (Input v))") auto
    with names have "proto_key k \<or> camel_key k" by simp
    then show thesis
      using equals_key [OF E True] that by (rule key_variations_complete)
  next
    case False
    with K(2) have "map_of msg k = Some (VString s)" using contains_key [OF C] by simp
    then show thesis using that [of k] by (simp add: key_variations_set)
  qed
qed

section \<open>The candidates of the index\<close>

lemma candidate_field:
  assumes "storage_ok g s" and "candidates_of_index s msg i = Some xs"
  shows "set xs \<subseteq> {v \<in> stored s. stub_pos g v = i}"
proof -
  have F: "fields.holds g (equalsIndex s, unindexed s) (stored s)"
    using assms(1) by (simp add: storage_ok_def index_ok_def)
  have m: "m_list (unindexed s) i = field_look (equalsIndex s, unindexed s) (i, None)"
    by (simp add: field_look_def)
  obtain bf where bf: "map_of (equalsIndex s) i = Some bf"
    using assms(2) by (auto simp: candidates_of_index_def split: option.splits)
  then have c: "m_list (m_get bf f) x = field_look (equalsIndex s, unindexed s) (i, Some (f, x))" for f x
    by (simp add: field_look_def m_get_def)
  show ?thesis
    using fields.holds_look [OF F] assms(2)
    by (auto simp: candidates_of_index_def bf c m split: gvalue.splits)
qed

lemma candidate_found:
  assumes ok: "storage_ok g s" and v: "v \<in> stored s" "index_safe g v" "fast_match_v2 g q v"
    and msg: "q_Input q = [msg]" "msg \<noteq> []"
    and idx: "map_of (equalsIndex s) (stub_pos g v) = Some bf"
  obtains xs where "candidates_of_index s msg (stub_pos g v) = Some xs" and "v \<in> set xs"
proof -
  let ?i = "stub_pos g v"
  have F: "fields.holds g (equalsIndex s, unindexed s) (stored s)"
    using ok by (simp add: storage_ok_def index_ok_def)
  have m: "m_list (unindexed s) ?i = field_look (equalsIndex s, unindexed s) (?i, None)"
    by (simp add: field_look_def)
  have c: "m_list (m_get bf f) x = field_look (equalsIndex s, unindexed s) (?i, Some (f, x))" for f x
    using idx by (simp add: field_look_def m_get_def)
  have look: "v \<in> set (field_look (equalsIndex s, unindexed s) (?i, index_key_for g v))"
    using fields.holds_look [OF F] v(1) by auto
  have "\<exists>xs. candidates_of_index s msg ?i = Some xs \<and> v \<in> set xs"
  proof (cases "index_key_for g v")
    case None
    with look show ?thesis by (simp add: candidates_of_index_def idx m)
  next
    case (Some kx)
    obtain k x where kx: "kx = (k, x)" by (cases kx)
    obtain p where p: "map_of msg p = Some (VString x)" "k \<in> set (key_variations p)"
      by (rule matched_key [OF v(2) _ v(3) msg]) (use Some kx in auto)
    then have "(p, VString x) \<in> set msg" by (auto dest: map_of_SomeD)
    with p(2) look show ?thesis
      by (auto simp: candidates_of_index_def idx c Some kx intro!: bexI [of _ "(p, VString x)"])
  qed
  with that show thesis by blast
qed

section \<open>Transparency\<close>

definition search_names :: "searcher \<Rightarrow> query \<Rightarrow> string set" where
  "search_names s q =
     set (service_forms (q_Service q)) \<union> {q_Method q} \<union> names_of (stored (ext s))"

text \<open>The stubs a query may be answered with: of its service and method, visible in its session,
  and not used up.\<close>

definition eligible :: "searcher \<Rightarrow> query \<Rightarrow> stub set" where
  "eligible s q =
     {v \<in> available (stored (ext s)) (q_Service q) (q_Method q) (q_Session q).
        not_exhausted s v (q_Session q)}"

text \<open>Either every resolved service form has an index of its own, or none has.\<close>

definition index_uniform :: "golib \<Rightarrow> searcher \<Rightarrow> query \<Rightarrow> bool" where
  "index_uniform g s q =
     (let has = (\<lambda>f. map_of (equalsIndex (ext s)) (form_pos g (q_Method q) f) \<noteq> None);
          fs = resolved_forms (stored (ext s)) (q_Service q) (q_Method q)
      in list_all has fs \<or> \<not> list_ex has fs)"

lemma visible_available: "is_stub_visible_for_session a b \<longleftrightarrow> a = '''' \<or> a = b"
  by (auto simp: is_stub_visible_for_session_def)

lemma eligible_inj: "storage_ok g (ext s) \<Longrightarrow> inj_on ID (eligible s q)"
  by (rule inj_on_subset [of _ "stored (ext s)"])
    (auto simp: storage_ok_def index_ok_def eligible_def available_def)

lemma full_candidates:
  assumes ok: "storage_ok g (ext s)" and sep: "hash_separates g (search_names s q)"
    and av: "find_all_available g (ext s) (q_Service q) (q_Method q) (q_Session q) = Inr stubs"
  shows "set (filter (\<lambda>v. not_exhausted s v (q_Session q)) stubs) = eligible s q"
    and "filter (\<lambda>v. is_visible_and_not_exhausted s v (q_Session q)) stubs =
      filter (\<lambda>v. not_exhausted s v (q_Session q)) stubs"
  using find_all_available_ok(2) [OF ok sep [unfolded search_names_def] av]
  by (auto simp: eligible_def is_visible_and_not_exhausted_def visible_available available_def
      intro!: filter_cong)

lemma find_available_resolved:
  assumes "storage_ok g (ext s)" and "hash_separates g (search_names s q)"
  shows "pos_by_pn g (ext s) (q_Service q) (q_Method q) = Inr indexes \<Longrightarrow>
      indexes = map (form_pos g (q_Method q)) (resolved_forms (stored (ext s)) (q_Service q) (q_Method q))"
    and "pos_by_pn g (ext s) (q_Service q) (q_Method q) = Inr indexes \<Longrightarrow>
      \<exists>stubs. find_all_available g (ext s) (q_Service q) (q_Method q) (q_Session q) = Inr stubs"
proof -
  assume i: "pos_by_pn g (ext s) (q_Service q) (q_Method q) = Inr indexes"
  then show "indexes = map (form_pos g (q_Method q))
      (resolved_forms (stored (ext s)) (q_Service q) (q_Method q))"
    by (rule pos_by_pn_Inr [OF assms(1) assms(2) [unfolded search_names_def]])
  from i show "\<exists>stubs. find_all_available g (ext s) (q_Service q) (q_Method q) (q_Session q) = Inr stubs"
    by (simp add: find_all_available_def)
qed

lemma stub_pos_form: "stub_pos g v = form_pos g (Method v) (Service v)"
  by (simp add: stub_pos_def form_pos_def)

lemma indexed_candidates_members:
  assumes "indexed_candidates s is msg = Some cs"
  shows "set cs = (\<Union>i\<in>set is. set (case candidates_of_index s msg i of None \<Rightarrow> [] | Some xs \<Rightarrow> xs))"
    and "msg \<noteq> []" and "\<exists>i\<in>set is. map_of (equalsIndex s) i \<noteq> None"
proof -
  have "msg \<noteq> [] \<and> cs = concat (map (\<lambda>p. case p of None \<Rightarrow> [] | Some xs \<Rightarrow> xs)
      (map (candidates_of_index s msg) is)) \<and> (\<exists>i\<in>set is. candidates_of_index s msg i \<noteq> None)"
    using assms by (auto simp: indexed_candidates_def Let_def list_all_iff split: if_splits)
  then show "set cs = (\<Union>i\<in>set is. set (case candidates_of_index s msg i of None \<Rightarrow> [] | Some xs \<Rightarrow> xs))"
    and "msg \<noteq> []" and "\<exists>i\<in>set is. map_of (equalsIndex s) i \<noteq> None"
    by (auto, auto simp: candidates_of_index_def split: option.splits)
qed

text \<open>The narrowed set is part of the eligible stubs, and holds every eligible stub that matches.\<close>

lemma indexed_subset:
  assumes ok: "storage_ok g (ext s)" and sep: "hash_separates g (search_names s q)"
    and vis: "visible_indexed_candidates g q s = Some cs"
  shows "set cs \<subseteq> eligible s q"
proof -
  obtain msg indexes cs' where msg: "q_Input q = [msg]"
    and pn: "pos_by_pn g (ext s) (q_Service q) (q_Method q) = Inr indexes"
    and ic: "indexed_candidates (ext s) indexes msg = Some cs'"
    and cs: "cs = filter (\<lambda>v. is_visible_and_not_exhausted s v (q_Session q)) cs'"
    using vis by (auto simp: visible_indexed_candidates_def split: list.splits sum.splits option.splits)
  show ?thesis
  proof
    fix v assume v: "v \<in> set cs"
    then obtain i where i: "i \<in> set indexes"
      "v \<in> set (case candidates_of_index (ext s) msg i of None \<Rightarrow> [] | Some xs \<Rightarrow> xs)"
      using indexed_candidates_members(1) [OF ic] by (auto simp: cs)
    then have "v \<in> stored (ext s)" "stub_pos g v = i"
      using candidate_field [OF ok, of msg i]
      by (cases "candidates_of_index (ext s) msg i"; auto)+
    moreover obtain f where f: "f \<in> set (resolved_forms (stored (ext s)) (q_Service q) (q_Method q))"
      "i = form_pos g (q_Method q) f"
      using i(1) find_available_resolved(1) [OF ok sep pn] by auto
    moreover have "f \<in> set (service_forms (q_Service q)) \<union> {q_Method q}"
      "q_Method q \<in> set (service_forms (q_Service q)) \<union> {q_Method q}"
      using f(1) by (auto simp: resolved_forms_def)
    ultimately have "Service v = f" "Method v = q_Method q"
      using stub_pos_iff [of g "set (service_forms (q_Service q)) \<union> {q_Method q}" "stored (ext s)" v f "q_Method q"] sep
      by (auto simp: search_names_def form_pos_def)
    with v f(1) \<open>v \<in> stored (ext s)\<close> show "v \<in> eligible s q"
      by (auto simp: cs eligible_def available_def resolved_forms_def
          is_visible_and_not_exhausted_def visible_available)
  qed
qed

lemma indexed_complete:
  assumes ok: "storage_ok g (ext s)" and sep: "hash_separates g (search_names s q)"
    and vis: "visible_indexed_candidates g q s = Some cs"
    and uni: "index_uniform g s q" and safe: "\<forall>v\<in>eligible s q. index_safe g v"
    and v: "v \<in> eligible s q" "fast_match_v2 g q v"
  shows "v \<in> set cs"
proof -
  obtain msg indexes cs' where msg: "q_Input q = [msg]"
    and pn: "pos_by_pn g (ext s) (q_Service q) (q_Method q) = Inr indexes"
    and ic: "indexed_candidates (ext s) indexes msg = Some cs'"
    and cs: "cs = filter (\<lambda>v. is_visible_and_not_exhausted s v (q_Session q)) cs'"
    using vis by (auto simp: visible_indexed_candidates_def split: list.splits sum.splits option.splits)
  let ?fs = "resolved_forms (stored (ext s)) (q_Service q) (q_Method q)"
  have indexes: "indexes = map (form_pos g (q_Method q)) ?fs"
    by (rule find_available_resolved(1) [OF ok sep pn])
  have st: "v \<in> stored (ext s)" "Method v = q_Method q" "Service v \<in> set ?fs"
    using v(1) by (auto simp: eligible_def available_def resolved_forms_def has_stub_def)
  then have pos: "stub_pos g v \<in> set indexes"
    by (simp add: indexes stub_pos_form)
  have "map_of (equalsIndex (ext s)) i \<noteq> None" if "i \<in> set indexes" for i
    using uni indexed_candidates_members(3) [OF ic] that
    by (auto simp: index_uniform_def Let_def indexes list_all_iff list_ex_iff)
  with pos obtain bf where bf: "map_of (equalsIndex (ext s)) (stub_pos g v) = Some bf"
    by blast
  obtain ys where "candidates_of_index (ext s) msg (stub_pos g v) = Some ys" "v \<in> set ys"
    by (rule candidate_found [OF ok st(1) _ v(2) msg indexed_candidates_members(2) [OF ic] bf])
      (use safe v(1) in blast)+
  then have "v \<in> set cs'"
    using pos by (auto simp: indexed_candidates_members(1) [OF ic] intro!: bexI [of _ "stub_pos g v"])
  with v(1) show ?thesis
    by (auto simp: cs eligible_def available_def is_visible_and_not_exhausted_def visible_available)
qed

lemma search_external_full:
  assumes ok: "storage_ok g (ext s)" and sep: "hash_separates g (search_names s q)"
    and r: "runtime_ok r" and uni: "index_uniform g s q"
    and safe: "\<forall>v\<in>eligible s q. index_safe g v"
  shows "search_external g r q s = search_full g r q s"
proof (cases "visible_indexed_candidates g q s")
  case None
  then show ?thesis by (simp add: search_external_def search_indexed_def)
next
  case (Some cs)
  then obtain indexes where pn: "pos_by_pn g (ext s) (q_Service q) (q_Method q) = Inr indexes"
    by (auto simp: visible_indexed_candidates_def split: list.splits sum.splits)
  obtain stubs where av: "find_all_available g (ext s) (q_Service q) (q_Method q) (q_Session q) = Inr stubs"
    using find_available_resolved(2) [OF ok sep pn] by blast
  define xs where "xs = filter (\<lambda>v. not_exhausted s v (q_Session q)) stubs"
  have xs: "set xs = eligible s q"
    and vis: "filter (\<lambda>v. is_visible_and_not_exhausted s v (q_Session q)) stubs = xs"
    using full_candidates [OF ok sep av] by (simp_all add: xs_def)
  have full: "search_full g r q s = process_stubs g r q xs s"
    by (simp add: search_full_def resolve_search_candidates_def lookup_service_available_def av xs_def)
  have sub: "set cs \<subseteq> set xs" using indexed_subset [OF ok sep Some] xs by simp
  have inj: "inj_on ID (set xs)" using eligible_inj [OF ok] xs by simp
  then have inj': "inj_on ID (set cs)" using sub inj_on_subset by blast
  have fresh: "\<forall>v\<in>set xs. not_exhausted s v (q_Session q)"
    by (simp add: xs_def)
  then have fresh': "\<forall>v\<in>set cs. not_exhausted s v (q_Session q)" using sub by blast
  show ?thesis
  proof (cases "\<exists>v\<in>set xs. fast_match_v2 g q v")
    case True
    then obtain v where v: "best_match g q (set xs) v" using best_match_exists by blast
    then have "v \<in> set cs"
      using indexed_complete [OF ok sep Some uni safe, of v] by (simp add: best_match_def xs)
    then have v': "best_match g q (set cs) v" and "cs \<noteq> []"
      using best_match_mono [OF v sub] by auto
    then show ?thesis
      using process_stubs_found [OF r inj fresh v] process_stubs_found [OF r inj' fresh' v'] Some
      by (simp add: full search_external_def search_indexed_def found_only_def found_result_def)
  next
    case False
    then have none: "\<forall>v\<in>set xs. \<not> fast_match_v2 g q v" by blast
    then have none': "\<forall>v\<in>set cs. \<not> fast_match_v2 g q v" using sub by blast
    have cs: "found_only (process_stubs g r q cs s) = None" "snd (process_stubs g r q cs s) = s"
      unfolding process_stubs_missing [OF r inj' fresh' none']
      by (simp_all add: found_only_def similar_result_def split: option.split)
    have "best_similar_stub g q s = map_option r_stub (best_similar_candidate g q xs)"
      by (simp add: best_similar_stub_def av vis best_similar_candidate_def)
    then show ?thesis
      using process_stubs_missing [OF r inj fresh none] Some cs
      by (cases "best_similar_candidate g q xs")
        (simp_all add: full search_external_def search_indexed_def Let_def)
  qed
qed

lemma index_uniform_plain: "after_last (CHR ''.'') (q_Service q) = None \<Longrightarrow> index_uniform g s q"
  by (auto simp: index_uniform_def resolved_forms_def service_forms_def Let_def)

section \<open>Soundness and completeness of a search\<close>

text \<open>The stubs an answer may come from: when no stub of the service and method exists and the
  query is not strict, every stub of the method.\<close>

definition answerable :: "searcher \<Rightarrow> query \<Rightarrow> stub set" where
  "answerable s q =
     {v \<in> stored (ext s). Method v = q_Method q \<and>
        (Service v \<in> set (service_forms (q_Service q)) \<or>
         \<not> q_Strict q \<and> resolved_forms (stored (ext s)) (q_Service q) (q_Method q) = []) \<and>
        is_stub_visible_for_session (Session v) (q_Session q) \<and> not_exhausted s v (q_Session q)}"

lemma answerable_inj: "storage_ok g (ext s) \<Longrightarrow> inj_on ID (answerable s q)"
  by (rule inj_on_subset [of _ "stored (ext s)"])
    (auto simp: storage_ok_def index_ok_def answerable_def)

lemma eligible_answerable: "eligible s q \<subseteq> answerable s q"
  by (auto simp: eligible_def answerable_def available_def visible_available)

lemma hash_separates_mono: "hash_separates g N \<Longrightarrow> M \<subseteq> N \<Longrightarrow> hash_separates g M"
  by (auto simp: hash_separates_def intro: inj_on_subset)

lemma resolved_candidates:
  assumes ok: "storage_ok g (ext s)" and sep: "hash_separates g (search_names s q)"
  shows "resolve_search_candidates g q s = Inr xs \<Longrightarrow> set xs = answerable s q"
    and "resolve_search_candidates g q s = Inl e \<Longrightarrow> e = ErrStubNotFound \<and> answerable s q = {}"
proof -
  let ?fs = "resolved_forms (stored (ext s)) (q_Service q) (q_Method q)"
  have A: "isl (find_all_available g (ext s) (q_Service q) (q_Method q) (q_Session q)) \<longleftrightarrow> ?fs = []"
    using find_all_available_ok(1) [OF ok sep [unfolded search_names_def]]
    by (simp add: resolved_forms_def filter_empty_conv)
  have none: "answerable s q = {}" if "q_Strict q" "?fs = []"
    using that by (auto simp: answerable_def resolved_forms_def filter_empty_conv has_stub_def)
  have M: "set (filter (\<lambda>v. not_exhausted s v (q_Session q))
        (find_by_method_available g (ext s) (q_Method q) (q_Session q))) = answerable s q"
    if "\<not> q_Strict q" "?fs = []"
    using that find_by_method_available_ok(1) [OF ok, of "q_Method q" "q_Session q"]
      hash_separates_mono [OF sep, of "{q_Method q} \<union> names_of (stored (ext s))"]
    by (auto simp: answerable_def search_names_def visible_available)
  have H: "has_method_available g (ext s) (q_Method q) (q_Session q) \<longleftrightarrow>
      find_by_method_available g (ext s) (q_Method q) (q_Session q) \<noteq> []"
    using find_by_method_available_ok(4) [OF ok, of "q_Method q" "q_Session q"]
      hash_separates_mono [OF sep, of "{q_Method q} \<union> names_of (stored (ext s))"]
    by (auto simp: search_names_def)
  have E: "set xs = answerable s q"
    if av: "find_all_available g (ext s) (q_Service q) (q_Method q) (q_Session q) = Inr stubs"
      and xs: "xs = filter (\<lambda>v. not_exhausted s v (q_Session q)) stubs" for stubs xs
  proof -
    have "?fs \<noteq> []" using A av by auto
    then show ?thesis
      using full_candidates(1) [OF ok sep av] xs
      by (auto simp: eligible_def answerable_def available_def visible_available)
  qed
  have "case resolve_search_candidates g q s of
      Inr xs \<Rightarrow> set xs = answerable s q
    | Inl e \<Rightarrow> e = ErrStubNotFound \<and> answerable s q = {}"
  proof (cases "find_all_available g (ext s) (q_Service q) (q_Method q) (q_Session q)")
    case (Inr stubs)
    with E [OF Inr refl] show ?thesis
      by (simp add: resolve_search_candidates_def lookup_service_available_def)
  next
    case (Inl e)
    then have fs: "?fs = []" using A by simp
    define ms where "ms = filter (\<lambda>v. not_exhausted s v (q_Session q))
        (find_by_method_available g (ext s) (q_Method q) (q_Session q))"
    have ms: "set ms = answerable s q" if "\<not> q_Strict q"
      using M [OF that fs] by (simp add: ms_def)
    have "resolve_search_candidates g q s =
        (if q_Strict q \<or> ms = [] then Inl ErrStubNotFound else Inr ms)"
      using Inl H by (auto simp: resolve_search_candidates_def lookup_service_available_def
          lookup_method_available_def ms_def Let_def)
    then show ?thesis
      using ms none [OF _ fs] by (cases "q_Strict q"; cases ms) auto
  qed
  then show "resolve_search_candidates g q s = Inr xs \<Longrightarrow> set xs = answerable s q"
    and "resolve_search_candidates g q s = Inl e \<Longrightarrow> e = ErrStubNotFound \<and> answerable s q = {}"
    by simp_all
qed

lemma search_full_spec:
  assumes ok: "storage_ok g (ext s)" and sep: "hash_separates g (search_names s q)" and r: "runtime_ok r"
  shows "best_match g q (answerable s q) v \<Longrightarrow>
      search_full g r q s = (Inr (found_result v (reserve_number q v s)), reserve_state q v s)"
    and "\<forall>v\<in>answerable s q. \<not> fast_match_v2 g q v \<Longrightarrow>
      snd (search_full g r q s) = s \<and> found_only (search_full g r q s) = None"
proof -
  have fresh: "\<forall>v\<in>answerable s q. not_exhausted s v (q_Session q)"
    by (simp add: answerable_def)
  note R = resolved_candidates [OF ok sep]
  {
    assume v: "best_match g q (answerable s q) v"
    then obtain xs where xs: "resolve_search_candidates g q s = Inr xs"
      using R(2) by (cases "resolve_search_candidates g q s") (auto simp: best_match_def)
    from R(1) [OF this] have S: "set xs = answerable s q" .
    show "search_full g r q s = (Inr (found_result v (reserve_number q v s)), reserve_state q v s)"
      using process_stubs_found [OF r, of xs s q g v] fresh v answerable_inj [OF ok, of q]
      by (simp add: search_full_def xs S)
  }
  assume none: "\<forall>v\<in>answerable s q. \<not> fast_match_v2 g q v"
  show "snd (search_full g r q s) = s \<and> found_only (search_full g r q s) = None"
  proof (cases "resolve_search_candidates g q s")
    case (Inl e)
    then show ?thesis by (simp add: search_full_def found_only_def)
  next
    case (Inr xs)
    from R(1) [OF this] have S: "set xs = answerable s q" .
    have "process_stubs g r q xs s = (case best_similar_candidate g q xs of
        Some c \<Rightarrow> Inr (similar_result (r_stub c)) | None \<Rightarrow> Inl ErrStubNotFound, s)"
      by (rule process_stubs_missing [OF r])
        (use S fresh none answerable_inj [OF ok, of q] in auto)
    then show ?thesis
      by (simp add: search_full_def Inr found_only_def similar_result_def split: option.split)
  qed
qed

lemma search_indexed_none:
  assumes "runtime_ok r" and "fst (search_indexed g r q s) = None"
  shows "snd (search_indexed g r q s) = s"
proof (cases "visible_indexed_candidates g q s")
  case None
  then show ?thesis by (simp add: search_indexed_def)
next
  case (Some cs)
  have "found_only (process_stubs g r q cs s) = None \<Longrightarrow> snd (process_stubs g r q cs s) = s"
    using process_stubs_cases [OF assms(1), of cs g q s] by (auto simp: found_only_def found_result_def)
  with Some assms(2) show ?thesis
    by (auto simp: search_indexed_def Let_def split: if_splits)
qed

text \<open>Whichever path answers, a reported stub is one the query may be answered with, and it matches.\<close>

lemma search_external_sound:
  assumes ok: "storage_ok g (ext s)" and sep: "hash_separates g (search_names s q)" and r: "runtime_ok r"
    and res: "fst (search_external g r q s) = Inr x" and v: "res_found x = Some v"
  shows "v \<in> answerable s q \<and> fast_match_v2 g q v"
proof -
  have proc: "v \<in> answerable s q \<and> fast_match_v2 g q v"
    if "fst (process_stubs g r q xs s) = Inr x" "set xs \<subseteq> answerable s q" for xs
    using process_stubs_cases [OF r, of xs g q s] that v
    by (auto simp: found_only_def found_result_def subset_iff)
  have ix: "v \<in> answerable s q \<and> fast_match_v2 g q v" if i: "fst (search_indexed g r q s) = Some x"
  proof -
    obtain cs where cs: "visible_indexed_candidates g q s = Some cs"
      using i by (auto simp: search_indexed_def split: option.splits)
    have sub: "set cs \<subseteq> answerable s q"
      using indexed_subset [OF ok sep cs] eligible_answerable by blast
    have "fst (process_stubs g r q cs s) = Inr x"
      using i v cs
      by (auto simp: search_indexed_def Let_def found_only_def similar_result_def
          split: if_splits sum.splits)
    then show ?thesis using proc sub by blast
  qed
  have full: "v \<in> answerable s q \<and> fast_match_v2 g q v" if "fst (search_full g r q s) = Inr x"
    using that proc resolved_candidates(1) [OF ok sep]
    by (auto simp: search_full_def split: sum.splits)
  show ?thesis
  proof (cases "search_indexed g r q s")
    case (Pair y s')
    have "s' = s" if "y = None"
      using search_indexed_none [OF r, of g q s] Pair that by simp
    then show ?thesis
      using res ix full Pair by (cases y) (auto simp: search_external_def)
  qed
qed

end
