(* ===== verification/Searcher_Props.thy ===== *)
theory Searcher_Props
  imports Searcher_Index
begin

text \<open>
  The searcher as a state machine: what one search does to the call counters, the invariant of the
  reachable states and the laws of the limit \<^verbatim>\<open>Times\<close> over runs of searches.
\<close>

section \<open>The effect of one search\<close>

text \<open>A search either reserves the stub it reports, or changes nothing and reports no match.\<close>

definition search_effect ::
  "query \<Rightarrow> searcher \<Rightarrow> (search_error + search_result) \<times> searcher \<Rightarrow> bool" where
  "search_effect q s rs \<longleftrightarrow>
     (\<exists>v. fst rs = Inr (found_result v (reserve_number q v s)) \<and> snd rs = reserve_state q v s \<and>
          (request_internal q \<or> not_exhausted s v (q_Session q)))
     \<or> snd rs = s \<and> found_only rs = None"

lemma process_effect: "runtime_ok r \<Longrightarrow> search_effect q s (process_stubs g r q xs s)"
  using process_stubs_cases [of r xs g q s] by (auto simp: search_effect_def)

lemma found_only_cases:
  assumes "search_effect q s rs"
  shows "found_only rs = Some x \<Longrightarrow> search_effect q s (Inr x, snd rs)"
    and "found_only rs = None \<Longrightarrow> snd rs = s"
  using assms by (auto simp: search_effect_def found_only_def found_result_def)

lemma similar_effect: "search_effect q s (Inr (similar_result v), s)"
  by (simp add: search_effect_def found_only_def similar_result_def)

lemma error_effect: "search_effect q s (Inl e, s)"
  by (simp add: search_effect_def found_only_def)

lemma reserve_effect:
  "search_effect q s (case try_reserve q v s of
     (Some n, s') \<Rightarrow> (Inr (found_result v n), s') | (None, s') \<Rightarrow> (Inl e, s'))"
  using try_reserve_cases [of q v s] by (auto simp: search_effect_def found_only_def)

lemma search_full_effect: "runtime_ok r \<Longrightarrow> search_effect q s (search_full g r q s)"
  by (simp add: search_full_def error_effect process_effect split: sum.split)

lemma search_indexed_effect:
  assumes "runtime_ok r" and "search_indexed g r q s = (res, s')"
  shows "case res of Some x \<Rightarrow> search_effect q s (Inr x, s') | None \<Rightarrow> s' = s"
proof (cases "visible_indexed_candidates g q s")
  case None
  with assms(2) show ?thesis by (auto simp: search_indexed_def)
next
  case (Some vis)
  note E = found_only_cases [OF process_effect [OF assms(1), of q s g vis]]
  show ?thesis
    using assms(2) Some E
    by (cases "vis \<noteq> [] \<and> found_only (process_stubs g r q vis s) \<noteq> None")
      (auto simp: search_indexed_def Let_def similar_effect split: option.splits if_splits)
qed

lemma search_external_effect: "runtime_ok r \<Longrightarrow> search_effect q s (search_external g r q s)"
  using search_indexed_effect [of r g q s] search_full_effect [of r q s g]
  by (auto simp: search_external_def split: prod.splits option.splits)

lemma match_internal_effect:
  assumes "runtime_ok r" and "match_internal_stubs g r q s = (res, s')"
  shows "case res of Some x \<Rightarrow> search_effect q s (Inr x, s') | None \<Rightarrow> s' = s"
  using assms(2) found_only_cases [OF process_effect [OF assms(1), of q s g]]
  by (auto simp: match_internal_stubs_def Let_def split: sum.splits if_splits option.splits)

lemma find_query_effect:
  assumes "runtime_ok r"
  shows "search_effect q s (find_query g r q s)"
proof (cases "q_ID q")
  case None
  then show ?thesis
    using search_external_effect [OF assms, of q s g] match_internal_effect [OF assms, of g q s]
    by (auto simp: find_query_def search_optimized_def split: prod.splits option.splits)
next
  case (Some i)
  then show ?thesis
    by (auto simp: find_query_def search_by_id_def error_effect reserve_effect
        split: sum.split option.split)
qed

lemma effect_store: "search_effect q s rs \<Longrightarrow> store (snd rs) = store s"
  by (auto simp: search_effect_def reserve_state_def)

lemma find_query_store [simp]: "runtime_ok r \<Longrightarrow> store (snd (find_query g r q s)) = store s"
  by (rule effect_store [OF find_query_effect])

section \<open>Counters\<close>

lemma call_count_reserve:
  "call_count (reserve_state q v s) k =
     (if \<not> request_internal q \<and> k = (ID v, q_Session q) then call_count s k + 1 else call_count s k)"
  by (auto simp: call_count_def reserve_state_def reserve_number_def)

text \<open>A search touches at most one counter, of its own session, and by one.\<close>

lemma find_query_counts:
  assumes "runtime_ok r"
  shows "call_count s k \<le> call_count (snd (find_query g r q s)) k"
    and "snd k \<noteq> q_Session q \<Longrightarrow> call_count (snd (find_query g r q s)) k = call_count s k"
  using find_query_effect [OF assms, of q s g]
  by (auto simp: search_effect_def call_count_reserve)

text \<open>A result that reports \<open>v\<close> to a counted query.\<close>

definition reports :: "stub \<Rightarrow> query \<Rightarrow> (search_error + search_result) \<Rightarrow> bool" where
  "reports v q res =
     (\<not> request_internal q \<and>
      (case res of Inl _ \<Rightarrow> False | Inr x \<Rightarrow> res_found x = Some v))"

lemma reports_counts:
  assumes "runtime_ok r" and "reports v q (fst (find_query g r q s))"
  shows "call_count (snd (find_query g r q s)) (ID v, q_Session q) = call_count s (ID v, q_Session q) + 1"
    and "not_exhausted s v (q_Session q)"
    and "fst (find_query g r q s) = Inr (found_result v (call_count s (ID v, q_Session q) + 1))"
  using find_query_effect [OF assms(1), of q s g] assms(2)
  by (auto simp: search_effect_def reports_def found_only_def found_result_def call_count_reserve
      reserve_number_def split: sum.splits if_splits)

fun run_queries ::
  "golib \<Rightarrow> go_runtime \<Rightarrow> query list \<Rightarrow> searcher \<Rightarrow> (search_error + search_result) list \<times> searcher" where
  "run_queries g r [] s = ([], s)"
| "run_queries g r (q # qs) s =
     (let rs = find_query g r q s; rest = run_queries g r qs (snd rs)
      in (fst rs # fst rest, snd rest))"

definition reported :: "stub \<Rightarrow> string \<Rightarrow> query list \<Rightarrow> (search_error + search_result) list \<Rightarrow> int list" where
  "reported v ses qs ress =
     map (\<lambda>p. res_matchNumber (projr (snd p)))
       (filter (\<lambda>p. q_Session (fst p) = ses \<and> reports v (fst p) (snd p)) (zip qs ress))"

lemma run_counts_mono:
  "runtime_ok r \<Longrightarrow> call_count s k \<le> call_count (snd (run_queries g r qs s)) k"
proof (induction qs arbitrary: s)
  case (Cons q qs)
  then show ?case
    using find_query_counts(1) [of r s k g q] by (force simp: Let_def intro: order_trans)
qed simp

lemma reported_bound:
  assumes "runtime_ok r" and "0 < effective_times v"
  shows "length (reported v ses qs (fst (run_queries g r qs s)))
     \<le> nat (effective_times v - call_count s (ID v, ses))"
proof (induction qs arbitrary: s)
  case Nil
  then show ?case by (simp add: reported_def)
next
  case (Cons q qs)
  let ?rs = "find_query g r q s"
  have IH: "length (reported v ses qs (fst (run_queries g r qs (snd ?rs))))
      \<le> nat (effective_times v - call_count (snd ?rs) (ID v, ses))"
    by (rule Cons.IH)
  show ?case
  proof (cases "q_Session q = ses \<and> reports v q (fst ?rs)")
    case True
    with reports_counts [OF assms(1), of v q g s] IH assms(2) show ?thesis
      by (auto simp: reported_def Let_def not_exhausted_def)
  next
    case False
    with find_query_counts(1) [OF assms(1), of s "(ID v, ses)" g q] IH show ?thesis
      by (auto simp: reported_def Let_def)
  qed
qed

text \<open>Two stubs with one ID do not occur: the numbers handed out for a stub are strictly
  increasing, each above the count before.\<close>

lemma reported_increasing:
  assumes "runtime_ok r"
  shows "sorted_wrt (<) (reported v ses qs (fst (run_queries g r qs s))) \<and>
     (\<forall>n\<in>set (reported v ses qs (fst (run_queries g r qs s))). call_count s (ID v, ses) < n)"
proof (induction qs arbitrary: s)
  case Nil
  then show ?case by (simp add: reported_def)
next
  case (Cons q qs)
  let ?rs = "find_query g r q s"
  define ns where "ns = reported v ses qs (fst (run_queries g r qs (snd ?rs)))"
  have IH: "sorted_wrt (<) ns" "\<forall>n\<in>set ns. call_count (snd ?rs) (ID v, ses) < n"
    using Cons.IH [of "snd ?rs"] by (simp_all add: ns_def)
  have eq: "reported v ses (q # qs) (fst (run_queries g r (q # qs) s)) =
      (if q_Session q = ses \<and> reports v q (fst ?rs)
       then res_matchNumber (projr (fst ?rs)) # ns else ns)"
    by (simp add: reported_def ns_def Let_def)
  show ?case
  proof (cases "q_Session q = ses \<and> reports v q (fst ?rs)")
    case True
    then have "call_count (snd ?rs) (ID v, ses) = call_count s (ID v, ses) + 1"
      "res_matchNumber (projr (fst ?rs)) = call_count s (ID v, ses) + 1"
      using reports_counts [OF assms, of v q g s] by (auto simp: found_result_def)
    with IH True show ?thesis unfolding eq by auto
  next
    case False
    with find_query_counts(1) [OF assms, of s "(ID v, ses)" g q] IH show ?thesis
      unfolding eq by auto
  qed
qed

section \<open>Internal stubs\<close>

text \<open>Without the flag of the health service a search does not depend on the internal store.\<close>

definition with_internal :: "storage \<Rightarrow> searcher \<Rightarrow> searcher" where
  "with_internal i s = s\<lparr>store := (store s)\<lparr>internal := i\<rparr>\<rparr>"

lemma with_internal_simps [simp]:
  "ext (with_internal i s) = ext s" "call_count (with_internal i s) k = call_count s k"
  "not_exhausted (with_internal i s) v ses = not_exhausted s v ses"
  "is_visible_and_not_exhausted (with_internal i s) v ses = is_visible_and_not_exhausted s v ses"
  "stubCallCount (with_internal i s) = stubCallCount s"
  "reserve_state q v (with_internal i s) = with_internal i (reserve_state q v s)"
  by (simp_all add: with_internal_def call_count_def not_exhausted_def
      is_visible_and_not_exhausted_def reserve_state_def reserve_number_def)

lemma try_reserve_internal:
  "try_reserve q v (with_internal i s) = map_prod id (with_internal i) (try_reserve q v s)"
  by (simp add: try_reserve_def with_internal_def call_count_def Let_def)

lemma reserve_first_internal:
  "reserve_first_ranked_match q ms (with_internal i s) =
     map_prod id (with_internal i) (reserve_first_ranked_match q ms s)"
  by (induction ms arbitrary: s)
    (auto simp: try_reserve_internal split: prod.splits option.splits)

lemma process_internal:
  "process_stubs g r q xs (with_internal i s) =
     map_prod id (with_internal i) (process_stubs g r q xs s)"
  by (cases xs rule: remdups_adj.cases)
    (auto simp: process_stubs_def process_single_stub_def process_stubs_parallel_def
      process_stubs_sequential_def result_from_ranked_matches_def try_reserve_internal
      reserve_first_internal split: prod.splits option.splits)

lemma search_full_internal:
  "search_full g r q (with_internal i s) = map_prod id (with_internal i) (search_full g r q s)"
  by (auto simp: search_full_def resolve_search_candidates_def lookup_service_available_def
      lookup_method_available_def process_internal Let_def split: sum.splits)

lemma search_indexed_internal:
  "search_indexed g r q (with_internal i s) =
     map_prod id (with_internal i) (search_indexed g r q s)"
proof -
  have "visible_indexed_candidates g q (with_internal i s) = visible_indexed_candidates g q s"
    by (simp add: visible_indexed_candidates_def cong: list.case_cong sum.case_cong option.case_cong)
  moreover have "best_similar_stub g q (with_internal i t) = best_similar_stub g q t" for t
    by (simp add: best_similar_stub_def split: sum.split)
  ultimately show ?thesis
    by (auto simp: search_indexed_def process_internal found_only_def Let_def split: option.splits)
qed

lemma find_query_internal:
  "\<not> allows_internal_stubs q \<Longrightarrow>
   find_query g r q (with_internal i s) = map_prod id (with_internal i) (find_query g r q s)"
  by (auto simp: find_query_def search_optimized_def search_external_def search_by_id_def
      search_indexed_internal search_full_internal try_reserve_internal
      split: option.splits sum.splits prod.splits)

section \<open>Reachable states\<close>

definition searcher_ok :: "golib \<Rightarrow> searcher \<Rightarrow> bool" where
  "searcher_ok g s \<longleftrightarrow>
     storage_ok g (ext s) \<and> storage_ok g (internal (store s)) \<and> m_ok (stubCallCount s) \<and>
     (\<forall>kn\<in>set (stubCallCount s). 0 < snd kn)"

text \<open>One operation on the shared searcher; the mutexes make each of them one step.\<close>

inductive searcher_step :: "golib \<Rightarrow> go_runtime \<Rightarrow> searcher \<Rightarrow> searcher \<Rightarrow> bool"
  for g r where
  step_upsert: "\<forall>v\<in>set vs. priority_ok v \<Longrightarrow> searcher_step g r s (snd (searcher_upsert g vs s))"
| step_internal: "\<forall>v\<in>set vs. priority_ok v \<Longrightarrow>
    searcher_step g r s (s\<lparr>store := snd (put_internal g vs (store s))\<rparr>)"
| step_del: "searcher_step g r s (snd (searcher_del g ids s))"
| step_del_session: "searcher_step g r s (snd (searcher_del_by_session g ses s))"
| step_clear: "searcher_step g r s (searcher_clear s)"
| step_find: "searcher_step g r s (snd (find_query g r q s))"

inductive searcher_reachable :: "golib \<Rightarrow> go_runtime \<Rightarrow> searcher \<Rightarrow> searcher \<Rightarrow> bool"
  for g r s0 where
  reach_refl: "searcher_reachable g r s0 s0"
| reach_step: "searcher_reachable g r s0 s \<Longrightarrow> searcher_step g r s s' \<Longrightarrow> searcher_reachable g r s0 s'"

lemma m_ok_filter: "m_ok m \<Longrightarrow> m_ok (filter p m)"
  by (simp add: m_ok_def distinct_map_filter)

lemma set_m_put: "set (m_put k v m) \<subseteq> insert (k, v) (set m)"
  by (induction m) auto

lemma call_count_nonneg: "searcher_ok g s \<Longrightarrow> 0 \<le> call_count s k"
  by (cases "map_of (stubCallCount s) k")
    (auto simp: searcher_ok_def call_count_def dest!: map_of_SomeD)

lemma searcher_ok_reserve: "searcher_ok g s \<Longrightarrow> searcher_ok g (reserve_state q v s)"
  using call_count_nonneg [of g s "(ID v, q_Session q)"] set_m_put
  by (fastforce simp: searcher_ok_def reserve_state_def reserve_number_def)

lemma searcher_ok_step:
  assumes r: "runtime_ok r" and ok: "searcher_ok g s" and st: "searcher_step g r s s'"
  shows "searcher_ok g s'"
  using st
proof cases
  case (step_upsert vs)
  with ok show ?thesis
    by (simp add: searcher_ok_def searcher_upsert_def split_def Let_def storage_ok_upsert)
next
  case (step_internal vs)
  with ok show ?thesis
    by (simp add: searcher_ok_def put_internal_def split_def Let_def storage_ok_upsert)
next
  case (step_del ids)
  with ok show ?thesis
    by (cases "ids = []") (simp_all add: searcher_ok_def searcher_del_def split_def Let_def storage_ok_del
        m_ok_filter)
next
  case (step_del_session ses)
  with ok show ?thesis
    by (cases "ses = ''''") (simp_all add: searcher_ok_def searcher_del_by_session_def split_def Let_def
        storage_ok_del_by_session m_ok_filter)
next
  case step_clear
  then show ?thesis
    by (simp add: searcher_ok_def searcher_clear_def clear_with_internal_def storage_ok_clear)
next
  case (step_find q)
  then show ?thesis
    using find_query_effect [OF r, of q s g] ok searcher_ok_reserve [OF ok]
    by (auto simp: search_effect_def)
qed

lemma searcher_ok_reachable:
  "runtime_ok r \<Longrightarrow> searcher_reachable g r s0 s \<Longrightarrow> searcher_ok g s0 \<Longrightarrow> searcher_ok g s"
  by (rotate_tac 1, induction rule: searcher_reachable.induct) (auto simp: searcher_ok_step)

lemma searcher_ok_new:
  "searcher_ok g \<lparr>stubCallCount = [], store = \<lparr>external = new_storage, internal = new_storage\<rparr>\<rparr>"
  by (simp add: searcher_ok_def storage_ok_new)

section \<open>Used and unused stubs\<close>

lemma used_ids_set: "set (used_ids s) = collect_used_ids s"
  by (auto simp: used_ids_def collect_used_ids_def)

lemma storage_values_stored: "by_id_ok e \<Longrightarrow> set (storage_values e) = stored e"
  by (force simp: storage_values_def stored_def stub_map_def by_id_ok_def m_ok_def ran_def
      image_iff)

lemma used_stubs_set:
  "storage_ok g (ext s) \<Longrightarrow> set (used_stubs s) = {v \<in> stored (ext s). ID v \<in> collect_used_ids s}"
  by (force simp: used_stubs_def find_by_ids_def used_ids_set List.map_filter_def stored_def
      storage_ok_def by_id_ok_def stub_map_def ran_def)

lemma unused_stubs_set:
  "storage_ok g (ext s) \<Longrightarrow> set (unused_stubs s) = {v \<in> stored (ext s). ID v \<notin> collect_used_ids s}"
  by (auto simp: unused_stubs_def storage_ok_def storage_values_stored)

end
