(* ===== verification/Sample_Lib.thy ===== *)
theory Sample_Lib
  imports Searcher_Props
begin

text \<open>
  A concrete instance of the parameters, on which the witnesses evaluate the model: a polynomial
  hash, decimal numbers, and the regular expressions that are alternatives of literals with
  optional anchors, matched as \<^verbatim>\<open>regexp\<close> documents. With it, sample stubs and queries.
\<close>

section \<open>Literals with anchors\<close>

definition sample_branch :: "string \<Rightarrow> string \<Rightarrow> bool" where
  "sample_branch p s =
     (let b = has_prefix p ''^''; e = has_suffix p ''$'';
          p1 = (if b then tl p else p); lit = (if e then butlast p1 else p1)
      in if b \<and> e then s = lit else if b then has_prefix s lit
         else if e then has_suffix s lit else str_contains s lit)"

definition sample_compile :: "string \<Rightarrow> (string \<Rightarrow> (nat \<times> nat) option) option" where
  "sample_compile p =
     Some (\<lambda>s. if list_ex (\<lambda>b. sample_branch b s) (str_split (CHR ''|'') p)
               then Some (0, length s) else None)"

definition sample_parse :: "string \<Rightarrow> re_syntax option" where
  "sample_parse p =
     Some (if has_prefix p ''^'' \<and> has_suffix p ''$'' \<and> \<not> str_contains p ''|''
           then ReSyntax OpConcat False ''''
             [ReSyntax OpBeginText False '''' [],
              ReSyntax OpLiteral False (butlast (tl p)) [],
              ReSyntax OpEndText False '''' []]
           else ReSyntax OpOther False '''' [])"

definition sample_hash :: "string \<Rightarrow> 32 word" where
  "sample_hash s = fold (\<lambda>c h. 31 * h + of_nat (of_char c)) s 7"

definition sample_lib :: golib where
  "sample_lib = \<lparr>re_compile = sample_compile, re_parse = sample_parse,
     parse_float = (\<lambda>s. map_option of_int (parse_int64 s)), format_float = (\<lambda>_. ''''),
     parse_duration = (\<lambda>s. parse_int64 s), xxh3_32 = sample_hash\<rparr>"

definition sample_runtime :: go_runtime where
  "sample_runtime = \<lparr>gomaxprocs = 4, arrival = (\<lambda>n. rev [0..<n])\<rparr>"

lemma sample_runtime_ok: "runtime_ok sample_runtime"
  by (simp add: runtime_ok_def sample_runtime_def)

section \<open>Stubs and queries\<close>

definition sample_stub :: "uuid \<Rightarrow> string \<Rightarrow> gmap \<Rightarrow> stub" where
  "sample_stub i svc eq =
     empty_stub\<lparr>ID := i, Service := svc, Method := ''Say'', Input := empty_input\<lparr>Equals := Some eq\<rparr>\<rparr>"

definition sample_query :: "string \<Rightarrow> gmap \<Rightarrow> query" where
  "sample_query svc msg = \<lparr>q_ID = None, q_Service = svc, q_Method = ''Say'', q_Session = '''',
     q_Headers = [], q_Input = [msg], q_Strict = True, q_Internal = False, q_MatchInternal = False\<rparr>"

definition sample_searcher :: "stub list \<Rightarrow> searcher" where
  "sample_searcher vs =
     \<lparr>stubCallCount = [], store = \<lparr>external = snd (upsert sample_lib vs new_storage), internal = new_storage\<rparr>\<rparr>"

end
