(* ===== verification/Search_Claims.thy ===== *)
theory Search_Claims
  imports Sample_Lib
begin

text \<open>
  The properties of the searcher and of the stub store, each with a witness on the concrete
  instance of \<open>Sample_Lib\<close>.
\<close>

section \<open>Sample states\<close>

definition bob_stub :: stub where
  "bob_stub = (sample_stub 1 ''Greeter'' [(''name'', VString ''bob'')])\<lparr>Times := 2\<rparr>"

definition al_stub :: stub where
  "al_stub = sample_stub 2 ''Greeter'' [(''name'', VString ''al'')]"

definition bob_query :: query where
  "bob_query = sample_query ''Greeter'' [(''name'', VString ''bob'')]"

definition greeter :: searcher where
  "greeter = sample_searcher [bob_stub, al_stub]"

lemmas sample_defs = bob_stub_def al_stub_def sample_stub_def empty_stub_def bob_query_def
  sample_query_def

lemma greeter_ok: "searcher_ok sample_lib greeter"
  by (simp add: greeter_def sample_searcher_def searcher_ok_def storage_ok_new storage_ok_upsert
      priority_ok_def sample_defs)

lemma greeter_storage: "storage_ok sample_lib (ext greeter)"
  using greeter_ok by (simp add: searcher_ok_def)

lemma greeter_map: "stub_map (ext greeter) = [1 \<mapsto> bob_stub, 2 \<mapsto> al_stub]"
  by (simp add: greeter_def sample_searcher_def stub_map_upsert)
    (simp add: stub_map_def new_storage_def sample_defs)

lemma greeter_stored: "stored (ext greeter) = {bob_stub, al_stub}"
  by (auto simp: stored_def greeter_map)

lemma greeter_names: "search_names greeter bob_query = {''Greeter'', ''Say''}"
  by (auto simp: search_names_def greeter_stored names_of_def service_forms_def sample_defs)

lemma greeter_separates: "hash_separates sample_lib (search_names greeter bob_query)"
  unfolding greeter_names by (simp add: hash_separates_def hash_id_def sample_lib_def) code_simp

lemma greeter_count [simp]: "call_count greeter k = 0"
  by (simp add: call_count_def greeter_def sample_searcher_def)

lemma greeter_eligible: "eligible greeter bob_query = {bob_stub, al_stub}"
  by (auto simp: eligible_def available_def greeter_stored service_forms_def not_exhausted_def
      effective_times_def sample_defs)

lemma greeter_answerable: "answerable greeter bob_query = {bob_stub, al_stub}"
  by (auto simp: answerable_def greeter_stored service_forms_def not_exhausted_def visible_available
      effective_times_def sample_defs)

lemma greeter_match: "fast_match_v2 sample_lib bob_query bob_stub"
  "\<not> fast_match_v2 sample_lib bob_query al_stub"
  by code_simp+

lemma greeter_best: "best_match sample_lib bob_query (answerable greeter bob_query) bob_stub"
  by (simp add: best_match_def greeter_answerable greeter_match ranked.cmp_refl)

lemma greeter_uniform: "index_uniform sample_lib greeter bob_query"
  by (rule index_uniform_plain) (simp add: bob_query_def sample_query_def)

lemma greeter_safe: "\<forall>v\<in>eligible greeter bob_query. index_safe sample_lib v"
  unfolding greeter_eligible by simp code_simp

section \<open>Properties of a search\<close>

lemma find_query_best:
  assumes "searcher_ok g s" and "hash_separates g (search_names s q)" and "runtime_ok r"
    and "index_uniform g s q" and "\<forall>v\<in>eligible s q. index_safe g v"
    and "q_ID q = None" and "\<not> allows_internal_stubs q"
    and "best_match g q (answerable s q) v"
  shows "find_query g r q s = (Inr (found_result v (reserve_number q v s)), reserve_state q v s)"
  using search_external_full [of g s q r] search_full_spec(1) [of g s q r v] assms
  by (simp add: find_query_def search_optimized_def searcher_ok_def)

text \<open>C1. A search answers with the best match: on a consistent store, for a query without an ID
  and without the internal flag, whose index entries the fast path covers, the reported stub is
  the best ranked of all stubs that match, are visible in the session and are not used up; it is
  reserved under the next number of its counter.\<close>

theorem search_finds_best:
  assumes "searcher_ok g s" and "hash_separates g (search_names s q)" and "runtime_ok r"
    and "index_uniform g s q" and "\<forall>v\<in>eligible s q. index_safe g v"
    and "q_ID q = None" and "\<not> allows_internal_stubs q"
    and "best_match g q (answerable s q) v"
  shows "find_query g r q s = (Inr (found_result v (reserve_number q v s)), reserve_state q v s)"
  by (rule find_query_best [OF assms])

lemma search_finds_best_witness:
  "find_query sample_lib sample_runtime bob_query greeter =
     (Inr (found_result bob_stub 1), reserve_state bob_query bob_stub greeter)"
proof -
  have "find_query sample_lib sample_runtime bob_query greeter =
      (Inr (found_result bob_stub (reserve_number bob_query bob_stub greeter)),
       reserve_state bob_query bob_stub greeter)"
    by (rule search_finds_best [OF greeter_ok greeter_separates sample_runtime_ok greeter_uniform
          greeter_safe _ _ greeter_best])
      (simp_all add: sample_defs allows_internal_stubs_def)
  moreover have "reserve_number bob_query bob_stub greeter = 1"
    by (simp add: reserve_number_def request_internal_def sample_defs)
  ultimately show ?thesis by simp
qed

text \<open>C7. Whatever the index does, a search never reports a wrong stub: a reported stub is stored,
  has the method of the query and its service (or the query is not strict and its service is
  unknown), is visible in the session, is not used up and matches headers and input.\<close>

theorem search_sound:
  assumes "storage_ok g (ext s)" and "hash_separates g (search_names s q)" and "runtime_ok r"
    and "q_ID q = None" and "\<not> allows_internal_stubs q"
    and "fst (find_query g r q s) = Inr x" and "res_found x = Some v"
  shows "v \<in> stored (ext s) \<and> Method v = q_Method q \<and>
     (Service v \<in> set (service_forms (q_Service q)) \<or> \<not> q_Strict q) \<and>
     is_stub_visible_for_session (Session v) (q_Session q) \<and> not_exhausted s v (q_Session q) \<and>
     fast_match_v2 g q v"
  using search_external_sound [of g s q r x v] assms
  by (auto simp: find_query_def search_optimized_def answerable_def)

lemma search_sound_witness:
  "fast_match_v2 sample_lib bob_query bob_stub \<and> bob_stub \<in> stored (ext greeter)"
proof -
  have "fst (find_query sample_lib sample_runtime bob_query greeter) = Inr (found_result bob_stub 1)"
    by code_simp
  from search_sound [OF greeter_storage greeter_separates sample_runtime_ok _ _ this, of bob_stub]
  show ?thesis by (simp add: sample_defs allows_internal_stubs_def found_result_def)
qed

text \<open>C29. The equals index is transparent where it is sound: when either every resolved form of the
  service has an index or none has, and every eligible stub is indexed under a name whose spellings
  the index knows, the fast path gives the result and the state of the full scan.\<close>

theorem index_transparent:
  assumes "storage_ok g (ext s)" and "hash_separates g (search_names s q)" and "runtime_ok r"
    and "index_uniform g s q" and "\<forall>v\<in>eligible s q. index_safe g v"
  shows "search_external g r q s = search_full g r q s"
  by (rule search_external_full [OF assms])

lemma index_transparent_witness:
  "search_external sample_lib sample_runtime bob_query greeter =
     search_full sample_lib sample_runtime bob_query greeter"
  by (rule index_transparent [OF greeter_storage greeter_separates sample_runtime_ok greeter_uniform
        greeter_safe])

text \<open>It is not transparent in general: a stub registered under the qualified service with a
  glob matches the query, and the full scan finds it, but the search reports it as merely similar
  when another stub of the short service name is indexed.\<close>

lemma index_misses_match:
  "let v = (sample_stub 1 ''pkg.Greeter'' [])
             \<lparr>Input := empty_input\<lparr>Glob := Some [(''name'', VString ''b*'')]\<rparr>\<rparr>;
       s = sample_searcher [v, sample_stub 2 ''Greeter'' [(''name'', VString ''al'')]];
       q = sample_query ''pkg.Greeter'' [(''name'', VString ''bob'')]
   in fst (search_full sample_lib sample_runtime q s) = Inr (found_result v 1) \<and>
      fst (find_query sample_lib sample_runtime q s) = Inr (similar_result v)"
  by code_simp

text \<open>An anchored pattern is looked up by text: the stub matches the number 42, and the full
  scan finds it, but the index compares only strings, so the search misses it.\<close>

lemma index_misses_number:
  "let v = (sample_stub 1 ''Greeter'' [])
             \<lparr>Input := empty_input\<lparr>Matches := Some [(''age'', VString ''^42$'')]\<rparr>\<rparr>;
       s = sample_searcher [v]; q = sample_query ''Greeter'' [(''age'', VNumber ''42'')]
   in fst (search_full sample_lib sample_runtime q s) = Inr (found_result v 1) \<and>
      fst (find_query sample_lib sample_runtime q s) = Inr (similar_result v)"
  by code_simp

text \<open>C28. The parallel path is the sequential path: for candidates with distinct IDs the number of
  processors, the chunk size and the order in which goroutines finish do not matter.\<close>

theorem parallel_is_sequential:
  assumes "runtime_ok r" and "distinct (map ID xs)"
  shows "process_stubs_parallel g r q xs s = process_stubs_sequential g q xs s"
proof -
  have "sort_ranked_matches (collect_chunk_results g r q xs) =
      sort_ranked_matches (collect_sequential_candidates g q xs)"
    unfolding sort_ranked_matches_def
  proof (rule ranked.sort_unique)
    show p: "mset (collect_chunk_results g r q xs) = mset (collect_sequential_candidates g q xs)"
      by (rule collect_chunks_mset [OF assms(1)])
    have "distinct (map (\<lambda>m. ID (r_stub m)) (collect_sequential_candidates g q xs))"
      using assms(2) by (simp add: collect_sequential_candidates_def comp_def distinct_map_filter)
    then show "distinct (map (\<lambda>m. ID (r_stub m)) (collect_chunk_results g r q xs))"
      using p mset_eq_imp_distinct_iff mset_map by metis
  qed simp
  then show ?thesis
    by (simp add: process_stubs_parallel_def process_stubs_sequential_def)
qed

lemma parallel_is_sequential_witness:
  "process_stubs_parallel sample_lib sample_runtime bob_query [bob_stub, al_stub] greeter =
     process_stubs_sequential sample_lib bob_query [bob_stub, al_stub] greeter"
  by (rule parallel_is_sequential [OF sample_runtime_ok]) (simp add: sample_defs)

section \<open>Counters and sessions\<close>

text \<open>C6. The limit \<^verbatim>\<open>Times\<close> holds over every run of searches: a stub with a limit is reported to
  counted queries of a session at most as often as its counter leaves room for.\<close>

theorem times_limit:
  assumes "runtime_ok r" and "0 < effective_times v"
  shows "length (reported v ses qs (fst (run_queries g r qs s)))
     \<le> nat (effective_times v - call_count s (ID v, ses))"
  by (rule reported_bound [OF assms])

lemma times_limit_witness:
  "length (reported bob_stub '''' [bob_query, bob_query, bob_query]
     (fst (run_queries sample_lib sample_runtime [bob_query, bob_query, bob_query] greeter))) \<le> 2"
  using times_limit [OF sample_runtime_ok, of bob_stub "''''"
      "[bob_query, bob_query, bob_query]" sample_lib greeter]
  by (simp add: effective_times_def sample_defs)

text \<open>Match numbers are never repeated: the numbers a session gets for a stub are strictly
  increasing, each above the counter at the start.\<close>

lemma match_numbers_increase:
  assumes "runtime_ok r"
  shows "sorted_wrt (<) (reported v ses qs (fst (run_queries g r qs s))) \<and>
     (\<forall>n\<in>set (reported v ses qs (fst (run_queries g r qs s))). call_count s (ID v, ses) < n)"
  by (rule reported_increasing [OF assms])

lemma match_numbers_increase_witness:
  "sorted_wrt (<) (reported bob_stub '''' [bob_query, bob_query]
     (fst (run_queries sample_lib sample_runtime [bob_query, bob_query] greeter)))"
  using match_numbers_increase [OF sample_runtime_ok] by blast

text \<open>Sessions do not use up each other's stubs: a search changes no counter of another session,
  lowers none, and leaves the stored stubs alone.\<close>

lemma search_isolates_sessions:
  assumes "runtime_ok r"
  shows "call_count s k \<le> call_count (snd (find_query g r q s)) k \<and>
    (snd k \<noteq> q_Session q \<longrightarrow> call_count (snd (find_query g r q s)) k = call_count s k) \<and>
    store (snd (find_query g r q s)) = store s"
  using find_query_counts [OF assms] find_query_store [OF assms] by simp

lemma search_isolates_sessions_witness:
  "call_count (snd (find_query sample_lib sample_runtime bob_query greeter)) (1, ''other'') =
     call_count greeter (1, ''other'')"
  using search_isolates_sessions [OF sample_runtime_ok, of greeter "(1, ''other'')"]
  by (simp add: sample_defs)

text \<open>Internal stubs stay hidden: without the flag only the health service sets, a search gives
  the same result and the same change of state whatever the internal store holds.\<close>

lemma internal_stubs_hidden:
  assumes "\<not> allows_internal_stubs q"
  shows "find_query g r q (with_internal i s) =
     map_prod id (with_internal i) (find_query g r q s)"
  by (rule find_query_internal [OF assms])

lemma internal_stubs_hidden_witness:
  "find_query sample_lib sample_runtime bob_query (with_internal (ext greeter) greeter) =
     map_prod id (with_internal (ext greeter)) (find_query sample_lib sample_runtime bob_query greeter)"
  by (rule internal_stubs_hidden) (simp add: sample_defs allows_internal_stubs_def)

text \<open>C20. Every reachable searcher is consistent: after any sequence of upserts, deletions, session
  deletions, clears and searches, both stores keep their index invariant and every counter is
  positive.\<close>

theorem searcher_invariant:
  assumes "runtime_ok r" and "searcher_ok g s0" and "searcher_reachable g r s0 s"
  shows "searcher_ok g s"
  by (rule searcher_ok_reachable [OF assms(1,3,2)])

lemma searcher_invariant_witness:
  "searcher_ok sample_lib (snd (find_query sample_lib sample_runtime bob_query greeter))"
  by (rule searcher_invariant [OF sample_runtime_ok greeter_ok])
    (rule reach_step [OF reach_refl step_find])

text \<open>Used and unused stubs partition the store.\<close>

lemma used_unused_partition:
  assumes "storage_ok g (ext s)"
  shows "set (used_stubs s) \<union> set (unused_stubs s) = stored (ext s) \<and>
     set (used_stubs s) \<inter> set (unused_stubs s) = {}"
  using used_stubs_set [OF assms] unused_stubs_set [OF assms] by auto

lemma used_unused_partition_witness:
  "set (used_stubs greeter) \<union> set (unused_stubs greeter) = {bob_stub, al_stub}"
  using used_unused_partition [OF greeter_storage] by (simp add: greeter_stored)

end
