(* ===== verification/Store_Claims.thy ===== *)
theory Store_Claims
  imports Sample_Lib
begin

text \<open>
  The properties of the stub store: its mutations refine updates of a map from IDs to stubs, its
  lookups are functions of the set of stored stubs.
\<close>

definition red :: stub where
  "red = (sample_stub 1 ''Colors'' [])\<lparr>Priority := 5\<rparr>"

definition green :: stub where
  "green = (sample_stub 2 ''Colors'' [])\<lparr>Session := ''s1''\<rparr>"

definition colors :: storage where
  "colors = snd (upsert sample_lib [red, green] new_storage)"

lemmas color_defs = red_def green_def sample_stub_def empty_stub_def

lemma colors_ok: "storage_ok sample_lib colors"
  by (simp add: colors_def storage_ok_upsert storage_ok_new priority_ok_def color_defs)

lemma colors_map: "stub_map colors = [1 \<mapsto> red, 2 \<mapsto> green]"
  by (simp add: colors_def stub_map_upsert) (simp add: stub_map_def new_storage_def color_defs)

lemma color_sessions: "Session red = ''''" "Session green = ''s1''"
  by (simp_all add: color_defs)

lemma colors_stored: "stored colors = {red, green}"
  by (auto simp: stored_def colors_map)

lemma colors_separates:
  "hash_separates sample_lib (set (service_forms ''Colors'') \<union> {''Say''} \<union> names_of (stored colors))"
proof -
  have "set (service_forms ''Colors'') \<union> {''Say''} \<union> names_of (stored colors) = {''Colors'', ''Say''}"
    by (auto simp: colors_stored names_of_def service_forms_def color_defs)
  moreover have "hash_separates sample_lib {''Colors'', ''Say''}"
    by (simp add: hash_separates_def hash_id_def sample_lib_def) code_simp
  ultimately show ?thesis by (simp only:)
qed

section \<open>Mutations\<close>

text \<open>C3. Upsert refines a map update: it returns the IDs it was given in order, the stored stubs
  are updated one after the other (the last stub of an ID wins), and the index invariant survives,
  for priorities whose difference fits a machine integer.\<close>

theorem upsert_refines:
  assumes "storage_ok g s" and "\<forall>v\<in>set vs. priority_ok v"
  shows "fst (upsert g vs s) = map ID vs \<and>
     stub_map (snd (upsert g vs s)) = fold (\<lambda>v m. m(ID v \<mapsto> v)) vs (stub_map s) \<and>
     storage_ok g (snd (upsert g vs s))"
  using storage_ok_upsert [OF assms] stub_map_upsert [of g vs s]
  by (auto simp: upsert_def)

lemma upsert_refines_witness:
  "stub_map (snd (upsert sample_lib [red\<lparr>Times := 3\<rparr>, green] colors)) 1 = Some (red\<lparr>Times := 3\<rparr>)"
  using upsert_refines [OF colors_ok, of "[red\<lparr>Times := 3\<rparr>, green]"]
  by (simp add: priority_ok_def color_defs)

text \<open>Deletion by ID removes exactly the stubs named, reports how many there were, and keeps
  the invariant.\<close>

lemma del_refines:
  assumes "storage_ok g s"
  shows "stub_map (snd (del g keys s)) = stub_map s |` (- set keys) \<and>
     fst (del g keys s) = card (dom (stub_map s) \<inter> set keys) \<and> storage_ok g (snd (del g keys s))"
  using stub_map_del [of g keys s] storage_ok_del [OF assms] fold_del_count [of g keys "(0, s)"]
  by (simp add: del_def)

lemma del_refines_witness:
  "fst (del sample_lib [2, 2, 7] colors) = 1 \<and>
     stub_map (snd (del sample_lib [2, 2, 7] colors)) = [1 \<mapsto> red]"
proof -
  have "dom (stub_map colors) \<inter> set [2, 2, 7] = {2}"
    by (auto simp: colors_map)
  then show ?thesis
    using del_refines [OF colors_ok, of "[2, 2, 7]"]
    by (auto simp: colors_map restrict_map_def fun_eq_iff)
qed

text \<open>Deleting a session removes exactly the stubs of that session; the global session is
  never deleted this way.\<close>

lemma del_by_session_refines:
  assumes "storage_ok g s"
  shows "stored (snd (del_by_session g ses s)) =
      (if ses = '''' then stored s else {v \<in> stored s. Session v \<noteq> ses}) \<and>
     storage_ok g (snd (del_by_session g ses s))"
proof (cases "ses = ''''")
  case True
  with assms show ?thesis by (simp add: del_by_session_def)
next
  case False
  with storage_ok_del_by_session [OF assms] stored_del_by_session [OF assms False] show ?thesis
    by simp
qed

lemma del_by_session_refines_witness:
  "stored (snd (del_by_session sample_lib ''s1'' colors)) = {red}"
proof -
  have "stored (snd (del_by_session sample_lib ''s1'' colors)) = {v \<in> stored colors. Session v \<noteq> ''s1''}"
    using conjunct1 [OF del_by_session_refines [OF colors_ok, of "''s1''"]] by (simp only: list.simps if_False)
  also have "\<dots> = {red}"
    by (auto simp: colors_stored color_sessions)
  finally show ?thesis .
qed

text \<open>The session counters count: the store lists exactly the sessions that own a stub, in
  order and without repetition.\<close>

lemma sessions_listed:
  assumes "storage_ok g s"
  shows "set (sessions_list s) = Session ` stored s - {''''} \<and> distinct (sessions_list s) \<and>
     sorted (sessions_list s)"
proof -
  have S: "sessions_ok (stored s) (sessions s)"
    using assms by (simp add: storage_ok_def index_ok_def)
  have "t \<in> set (map fst (sessions s)) \<longleftrightarrow> t \<noteq> '''' \<and> (\<exists>v\<in>stored s. Session v = t)" for t
  proof -
    have "t \<in> set (map fst (sessions s)) \<longleftrightarrow> map_of (sessions s) t \<noteq> None"
      by (simp only: map_of_eq_None_iff set_map not_not)
    also have "\<dots> \<longleftrightarrow> t \<noteq> '''' \<and> (\<exists>v\<in>stored s. Session v = t)"
    proof -
      have M: "map_of (sessions s) t =
          (if t \<noteq> '''' \<and> (\<exists>v\<in>stored s. Session v = t)
           then Some (int (card {v \<in> stored s. Session v = t})) else None)"
        using S unfolding sessions_ok_def by blast
      show ?thesis unfolding M by (cases "t \<noteq> '''' \<and> (\<exists>v\<in>stored s. Session v = t)") simp_all
    qed
    finally show ?thesis .
  qed
  then have "set (map fst (sessions s)) = Session ` stored s - {''''}"
    by (intro set_eqI) (simp only: Diff_iff image_iff singleton_iff, metis)
  moreover have "distinct (map fst (sessions s))" using S by (simp add: sessions_ok_def m_ok_def)
  ultimately show ?thesis by (simp add: sessions_list_def)
qed

lemma sessions_listed_witness: "set (sessions_list colors) = {''s1''}"
  using sessions_listed [OF colors_ok] by (simp add: colors_stored color_sessions)

section \<open>Lookups\<close>

text \<open>C9. The lookup of a service and method returns, in priority order and without repetition,
  exactly the stored stubs of the service (as named, or without its package) and the method that
  are visible in the session; it fails exactly when no session has a stub of them. The hypothesis
  is that the 32-bit hash separates the names at hand.\<close>

theorem find_all_available_spec:
  assumes "storage_ok g s"
    and "hash_separates g (set (service_forms svc) \<union> {m} \<union> names_of (stored s))"
  shows "case find_all_available g s svc m ses of
       Inl _ \<Rightarrow> \<forall>f\<in>set (service_forms svc). \<not> has_stub (stored s) f m
     | Inr xs \<Rightarrow> set xs = available (stored s) svc m ses \<and> distinct (map ID xs) \<and> by_priority xs"
  using find_all_available_ok [OF assms, of ses]
  by (cases "find_all_available g s svc m ses") simp_all

lemma find_all_available_spec_witness:
  "find_all_available sample_lib colors ''Colors'' ''Say'' ''s1'' = Inr [red, green] \<and>
   set [red, green] = available (stored colors) ''Colors'' ''Say'' ''s1''"
proof -
  have "find_all_available sample_lib colors ''Colors'' ''Say'' ''s1'' = Inr [red, green]"
    by code_simp
  then show ?thesis
    using find_all_available_spec [OF colors_ok colors_separates, of "''s1''"] by simp
qed

text \<open>Merging presorted buckets is sorting: for parts in priority order with distinct IDs the
  linear merge gives the sort of all their stubs.\<close>

lemma merge_is_sort:
  assumes "\<forall>v\<in>set (concat parts). priority_ok v" and "\<forall>p\<in>set parts. by_priority p"
    and "distinct (map ID (concat parts))"
  shows "merge_sorted_parts parts = sort_stubs (concat parts)"
  by (rule merge_parts_sort [OF assms])

lemma merge_is_sort_witness: "merge_sorted_parts [[green], [red]] = sort_stubs [green, red]"
  using merge_is_sort [of "[[green], [red]]"]
  by (simp add: priority_ok_def sorted_func_def color_defs)

text \<open>The order of priorities breaks on extreme values: the subtraction wraps around, and the
  lowest priority sorts before a positive one.\<close>

lemma priority_order_overflows:
  "compare_stubs_by_priority_and_id (red\<lparr>Priority := - (2 ^ 63)\<rparr>) (red\<lparr>Priority := 1\<rparr>) < 0 \<and>
   compare_stubs_by_priority_and_id (red\<lparr>Priority := - 3\<rparr>) (red\<lparr>Priority := 1\<rparr>) > 0"
  by code_simp

end
