(* ===== verification/Match_Claims.thy ===== *)
theory Match_Claims
  imports Sample_Lib Deeply_Props
begin

text \<open>
  The properties of the matchers: comparison up to array order, the fast paths, the resolution of
  field names, regular expressions, globs, the edit distance and the metadata of stream elements.
\<close>

section \<open>Comparisons\<close>

text \<open>Equality up to array order is equality of canonical forms: the greedy pairing decides
  exactly whether two JSON values are the same when every array is read as a multiset.\<close>

lemma equals_up_to_order:
  assumes "gvalue_ok a" and "gvalue_ok b"
  shows "equals_ignore_array_order a b \<longleftrightarrow> canon a = canon b"
  by (rule equals_canon [OF assms])

lemma equals_up_to_order_witness:
  "equals_ignore_array_order (VList [VInt 1, VList [VInt 2, VInt 3]])
     (VList [VList [VInt 3, VInt 2], VInt 1])"
  by (subst equals_up_to_order) (simp_all add: add_mset_commute)

text \<open>Containment of arrays, documented as independent of the order, depends on it: the greedy
  pairing lets a weak expected element take the only value a stronger one needs.\<close>

lemma contains_depends_on_order:
  "contains_ignore_array_order (VList [strong_element, weak_element])
     (VList [strong_element, weak_element]) \<and>
   \<not> contains_ignore_array_order (VList [weak_element, strong_element])
     (VList [strong_element, weak_element])"
  using contains_order_sensitive(1,2) by blast

section \<open>Fast paths\<close>

text \<open>The fast path for one message is the plain matcher: on a message with a field, whatever
  kinds of conditions the input has.\<close>

lemma fast_match_is_match:
  assumes "msg \<noteq> []"
  shows "fast_match_input g msg i = match_input g msg i"
  by (rule fast_match_input_nonempty [OF assms])

lemma fast_match_is_match_witness:
  "fast_match_input sample_lib [(''a'', VBool True)] (empty_input\<lparr>Equals := Some [(''a'', VBool True)]\<rparr>)
   = match_input sample_lib [(''a'', VBool True)] (empty_input\<lparr>Equals := Some [(''a'', VBool True)]\<rparr>)"
  by (rule fast_match_is_match) simp

text \<open>A stream of several messages ignores alternatives: an input with only \<^verbatim>\<open>anyOf\<close> matches a
  message, but no element of a stream of two inputs.\<close>

lemma stream_ignores_alternatives:
  "let alt = \<lparr>Equals = Some [(''a'', VBool True)], Contains = None, Matches = None, Glob = None,
              IgnoreArrayOrder = False\<rparr>;
       i = empty_input\<lparr>AnyOf := [alt]\<rparr>; m = [(''a'', VBool True)]
   in match_input sample_lib m i \<and> \<not> match_stream_elements sample_lib [m, m] [i, i]"
  by code_simp

section \<open>Field names\<close>

text \<open>The spellings the equals index probes are complete for protobuf names: when a stub key in
  snake case or camel case resolves in a message, some key of the message with that value has the
  stub key among its spellings.\<close>

lemma key_variations_cover:
  assumes "proto_key k \<or> camel_key k" and "find_value_with_variations m k = Some v"
  shows "\<exists>q. map_of m q = Some v \<and> k \<in> set (key_variations q)"
  using key_variations_complete [OF assms] by blast

lemma key_variations_cover_witness:
  "\<exists>q. map_of [(''userName'', VString ''x'')] q = Some (VString ''x'') \<and>
       ''user_name'' \<in> set (key_variations q)"
  by (rule key_variations_cover) code_simp+

text \<open>They are not complete for every name: a stub key with a digit after the underscore
  resolves to the camel-case field, whose spellings do not lead back to it.\<close>

lemma key_variations_gap:
  "find_value_with_variations [(''address1'', v)] ''address_1'' = Some v \<and>
     ''address_1'' \<notin> set (key_variations ''address1'')"
  using key_variations_incomplete by blast

text \<open>Conversion to camel case and back is the identity on protobuf field names.\<close>

lemma snake_camel_inverse:
  assumes "proto_key s"
  shows "to_snake_case (to_camel_case s) = s"
  by (rule snake_camel_roundtrip [OF assms])

lemma snake_camel_inverse_witness:
  "to_snake_case (to_camel_case ''user_display_name'') = ''user_display_name''"
  by (rule snake_camel_inverse) code_simp

section \<open>Patterns and distances\<close>

text \<open>The prefix test before a regular expression is unsound for alternatives: the expression
  \<open>^foo|bar\<close> matches "bar", but the matcher never tries it.\<close>

lemma prefix_test_unsound:
  "(case re_compile sample_lib ''^foo|bar'' of Some rx \<Rightarrow> rx ''bar'' \<noteq> None | None \<Rightarrow> False) \<and>
   \<not> regex_match sample_lib (VString ''^foo|bar'') (VString ''bar'')"
  by code_simp

text \<open>A glob without special characters matches exactly itself.\<close>

lemma plain_glob_exact:
  assumes "\<forall>c\<in>set p. glob_plain c"
  shows "match_glob_value (VString p) (VString s) \<longleftrightarrow> p = s"
  using path_match_plain [OF assms] by simp

lemma plain_glob_exact_witness: "match_glob_value (VString ''a/b.c'') (VString ''a/b.c'')"
  by (subst plain_glob_exact) (auto simp: glob_plain_def)

text \<open>The row-by-row loop computes the edit distance, so it is symmetric, zero only for equal
  texts and at most the longer length; and the similarity of texts is between 0 and 1.\<close>

lemma edit_distance_correct:
  "lev_distance s t = lev (rev s) (rev t) \<and> lev_distance s t = lev_distance t s \<and>
   (lev_distance s t = 0 \<longleftrightarrow> s = t) \<and> lev_distance s t \<le> max (length s) (length t) \<and>
   0 \<le> lev_similarity s t \<and> lev_similarity s t \<le> 1"
  using lev_distance_correct [of s t] lev_distance_correct [of t s] lev_sym [of "rev s" "rev t"]
    lev_0_iff [of "rev s" "rev t"] lev_bound [of "rev s" "rev t"] lev_similarity_bounds [of s t]
  by auto

text \<open>One expected element scores with every actual element that equals it, not with its best
  partner only.\<close>

lemma rank_pairs_repeatedly:
  "slices_rank_match (\<lambda>e a. if e = a then 1 else 0) (VList [VInt 1]) (VList [VInt 1, VInt 1]) = 1"
  by (rule slices_rank_repeats)

section \<open>Metadata of stream elements\<close>

text \<open>The message that is sent never carries the reserved key and keeps every other field, and
  extracting twice is extracting once.\<close>

lemma metadata_stripped:
  "map_of (entries (snd (extract_gripmock g m))) k =
     (if k = gripmock_key then None else map_of (entries m) k) \<and>
   extract_gripmock g (snd (extract_gripmock g m)) = (empty_element, snd (extract_gripmock g m))"
  using extract_gripmock_strips extract_gripmock_idem by simp

end
