(* ===== verification/Bidi.thy ===== *)
theory Bidi
  imports Searcher_Props
begin

text \<open>
  Bidirectional streams, \<^verbatim>\<open>search_bidi_strategy.go\<close> and \<^verbatim>\<open>search_bidi_runtime.go\<close>: a
  \<^verbatim>\<open>BidiResult\<close> keeps the stubs that still match the stream and picks one per message, which
  is reserved each time.
\<close>

section \<open>Matching one message\<close>

definition match_bidi_stub_headers :: "golib \<Rightarrow> stub \<Rightarrow> gmap \<Rightarrow> bool" where
  "match_bidi_stub_headers g v headers =
     (if 0 < header_len (Headers v) \<and> headers = [] then False
      else if headers \<noteq> [] \<and> \<not> match_headers g headers (Headers v) then False
      else True)"

definition is_input_matcher_empty :: "input_data \<Rightarrow> bool" where
  "is_input_matcher_empty i \<longleftrightarrow>
     mlen (Equals i) = 0 \<and> mlen (Contains i) = 0 \<and> mlen (Matches i) = 0 \<and> length (AnyOf i) = 0"

definition bidi_matcher_matches :: "golib \<Rightarrow> 'a matcher_scheme \<Rightarrow> gmap \<Rightarrow> bool" where
  "bidi_matcher_matches g m msg =
     (equals g (Equals m) msg False \<and> contains (Contains m) msg \<and> matches g (Matches m) msg)"

definition match_input_data :: "golib \<Rightarrow> input_data \<Rightarrow> gmap \<Rightarrow> bool" where
  "match_input_data g i msg =
     (if is_input_matcher_empty i then True
      else if \<not> bidi_matcher_matches g i msg then False
      else if AnyOf i = [] then True
      else list_ex (\<lambda>alt. bidi_matcher_matches g alt msg) (AnyOf i))"

definition match_any_stream_input :: "golib \<Rightarrow> input_data list \<Rightarrow> gmap \<Rightarrow> bool" where
  "match_any_stream_input g inputs msg = list_ex (\<lambda>i. match_input_data g i msg) inputs"

definition match_bidi_stub_message :: "golib \<Rightarrow> stub \<Rightarrow> gmap \<Rightarrow> gmap \<Rightarrow> bool" where
  "match_bidi_stub_message g v headers msg =
     (if \<not> match_bidi_stub_headers g v headers then False
      else if is_bidirectional v then
        (if length (inputs_list v) = 0 then match_input_data g (Input v) msg
         else match_any_stream_input g (inputs_list v) msg)
      else if is_client_stream v then match_any_stream_input g (inputs_list v) msg
      else if is_unary v \<or> is_server_stream v then match_input_data g (Input v) msg
      else False)"

text \<open>A stub with a native handler that a stream may be handed to.\<close>

definition handler_candidate :: "golib \<Rightarrow> stub \<Rightarrow> string \<Rightarrow> gmap \<Rightarrow> bool" where
  "handler_candidate g v session headers =
     (if \<not> HasHandler v then False
      else if Session v \<noteq> '''' \<and> Session v \<noteq> session then False
      else match_bidi_stub_headers g v headers)"

section \<open>Ranking one message\<close>

definition rank_input_equals :: "golib \<Rightarrow> gomap \<Rightarrow> gmap \<Rightarrow> rat" where
  "rank_input_equals g expected msg =
     sum_list (map (\<lambda>kv. case find_value_with_variations msg (fst kv) of
                           None \<Rightarrow> 0
                         | Some a \<Rightarrow> if compare_field_value g (snd kv) a False then 100 else 0)
                (entries expected))"

definition rank_input_by_comparator :: "gomap \<Rightarrow> gmap \<Rightarrow> (gomap \<Rightarrow> gmap \<Rightarrow> bool) \<Rightarrow> rat" where
  "rank_input_by_comparator expected msg cmpf =
     sum_list (map (\<lambda>kv. case map_of msg (fst kv) of
                           None \<Rightarrow> 0
                         | Some a \<Rightarrow>
                             if cmpf (Some [kv]) [(fst kv, a)] then 10 else 0)
                (entries expected))"

definition rank_bidi_matcher :: "golib \<Rightarrow> 'a matcher_scheme \<Rightarrow> gmap \<Rightarrow> rat" where
  "rank_bidi_matcher g m msg =
     rank_input_equals g (Equals m) msg + rank_input_by_comparator (Contains m) msg contains
     + rank_input_by_comparator (Matches m) msg (matches g)"

definition rank_input_data :: "golib \<Rightarrow> input_data \<Rightarrow> gmap \<Rightarrow> rat" where
  "rank_input_data g i msg =
     (if is_input_matcher_empty i then 1
      else (let base = rank_bidi_matcher g i msg in
            if AnyOf i = [] then base
            else base + fold (\<lambda>alt best. let r = rank_bidi_matcher g alt msg
                                        in if best < r then r else best) (AnyOf i) 0))"

definition rank_stub :: "golib \<Rightarrow> query \<Rightarrow> stub \<Rightarrow> rat" where
  "rank_stub g q v =
     (let h = rank_headers g (q_Headers q) (Headers v) in
      if 0 < length (inputs_list v) then h + rank_stream_elements g (q_Input q) (inputs_list v)
      else case q_Input q of [m] \<Rightarrow> h + rank_input g m (Input v) | _ \<Rightarrow> h)"

definition score_bidi_stub_message :: "golib \<Rightarrow> query \<Rightarrow> stub \<Rightarrow> nat \<Rightarrow> rat" where
  "score_bidi_stub_message g q v idx =
     (if is_bidirectional v \<and> 0 < length (inputs_list v) then
        (let h = rank_headers g (q_Headers q) (Headers v) in
         if idx < length (inputs_list v)
         then h + rank_input_data g (inputs_list v ! idx) (hd (q_Input q))
         else h + 1 / 10)
      else rank_stub g q v)"

definition bidi_total :: "golib \<Rightarrow> query \<Rightarrow> nat \<Rightarrow> stub \<Rightarrow> rat" where
  "bidi_total g q idx v =
     score_bidi_stub_message g q v idx + of_int (Priority v) * priority_multiplier"

section \<open>Choosing a stub\<close>

text \<open>The best stub so far, its total and its place.\<close>

fun select_best_loop ::
  "(stub \<Rightarrow> rat) \<Rightarrow> nat \<Rightarrow> (stub \<times> rat \<times> nat) option \<Rightarrow> stub list \<Rightarrow> (stub \<times> rat \<times> nat) option" where
  "select_best_loop tot i best [] = best"
| "select_best_loop tot i best (v # vs) =
     select_best_loop tot (Suc i)
       (case best of
          None \<Rightarrow> Some (v, tot v, i)
        | Some (b, r, j) \<Rightarrow>
            if r < tot v then Some (v, tot v, i)
            else if tot v = r \<and> cmp3 (ID v) (ID b) < 0 then Some (v, r, i)
            else best) vs"

definition select_best_stub :: "golib \<Rightarrow> query \<Rightarrow> nat \<Rightarrow> stub list \<Rightarrow> (stub \<times> nat) option" where
  "select_best_stub g q idx vs =
     map_option (\<lambda>(v, _, i). (v, i)) (select_best_loop (bidi_total g q idx) 0 None vs)"

text \<open>The last stub takes the place of the removed one.\<close>

definition remove_stub_from_matching_by_index :: "nat \<Rightarrow> stub list \<Rightarrow> stub list" where
  "remove_stub_from_matching_by_index i vs =
     (if length vs \<le> i then vs else butlast (vs[i := last vs]))"

lemma select_best_loop_Some: "select_best_loop tot i (Some b) vs \<noteq> None"
  by (induction vs arbitrary: i b) auto

lemma select_best_loop_place:
  "select_best_loop tot i best vs = Some (v, r, k) \<Longrightarrow>
     best = Some (v, r, k) \<or> i \<le> k \<and> k < i + length vs \<and> v = vs ! (k - i) \<and> r = tot v"
proof (induction vs arbitrary: i best)
  case (Cons w ws)
  from Cons.IH [OF Cons.prems [simplified]] show ?case
    by (auto split: option.splits prod.splits if_splits simp: nth_Cons' Suc_diff_le)
qed simp

lemma select_best_stub_place:
  "select_best_stub g q idx vs = Some (v, i) \<Longrightarrow> i < length vs \<and> v = vs ! i"
  by (auto simp: select_best_stub_def dest: select_best_loop_place)

lemma length_remove_stub:
  "i < length vs \<Longrightarrow> length (remove_stub_from_matching_by_index i vs) = length vs - 1"
  by (simp add: remove_stub_from_matching_by_index_def)

text \<open>The loop of \<^verbatim>\<open>Next\<close>: a stub that cannot be reserved any more leaves the matching stubs.\<close>

function bidi_pick ::
  "golib \<Rightarrow> query \<Rightarrow> nat \<Rightarrow> stub list \<Rightarrow> searcher \<Rightarrow> (stub \<times> int) option \<times> stub list \<times> searcher" where
  "bidi_pick g q idx vs s =
     (case select_best_stub g q idx vs of
        None \<Rightarrow> (None, vs, s)
      | Some (v, i) \<Rightarrow>
          (case try_reserve q v s of
             (Some n, s') \<Rightarrow> (Some (v, n), vs, s')
           | (None, s') \<Rightarrow> bidi_pick g q idx (remove_stub_from_matching_by_index i vs) s'))"
  by auto
termination
  by (relation "measure (\<lambda>(g, q, idx, vs, s). length vs)")
    (auto dest!: select_best_stub_place simp: length_remove_stub)

declare bidi_pick.simps [simp del]

section \<open>The stream\<close>

record bidi_result =
  reserveQuery :: query
  matchingStubs :: "stub list"
  bidi_matchNumber :: int
  messageCount :: nat

definition new_bidi_result :: "query \<Rightarrow> stub list \<Rightarrow> bidi_result" where
  "new_bidi_result q vs =
     \<lparr>reserveQuery = q\<lparr>q_ID := None, q_Input := [[]]\<rparr>, matchingStubs = vs, bidi_matchNumber = 0,
      messageCount = 0\<rparr>"

definition search_by_id_bidi :: "golib \<Rightarrow> query \<Rightarrow> uuid \<Rightarrow> searcher \<Rightarrow> search_error + bidi_result" where
  "search_by_id_bidi g q i s =
     (case pos_by_pn g (ext s) (q_Service q) (q_Method q) of
        Inl e \<Rightarrow> Inl (wrap e)
      | Inr _ \<Rightarrow>
          (case find_by_id (ext s) i of
             None \<Rightarrow> Inl ErrServiceNotFound
           | Some v \<Rightarrow>
               if is_visible_and_not_exhausted s v (q_Session q) then Inr (new_bidi_result q [v])
               else Inl ErrServiceNotFound))"

definition find_bidi :: "golib \<Rightarrow> query \<Rightarrow> searcher \<Rightarrow> search_error + bidi_result" where
  "find_bidi g q s =
     (case q_ID q of
        Some i \<Rightarrow> search_by_id_bidi g q i s
      | None \<Rightarrow>
          (case pos_by_pn g (ext s) (q_Service q) (q_Method q) of
             Inl e \<Rightarrow> Inl (wrap e) | Inr _ \<Rightarrow> Inr (new_bidi_result q [])))"

definition filter_matching_stubs :: "golib \<Rightarrow> gmap \<Rightarrow> bidi_result \<Rightarrow> stub list" where
  "filter_matching_stubs g msg br =
     filter (\<lambda>v. match_bidi_stub_message g v (q_Headers (reserveQuery br)) msg) (matchingStubs br)"

text \<open>The stubs after a message has arrived; an empty list is filled from the store.\<close>

definition ensure_matching_stubs :: "golib \<Rightarrow> gmap \<Rightarrow> searcher \<Rightarrow> bidi_result \<Rightarrow> bidi_result" where
  "ensure_matching_stubs g msg s br =
     (let br' = br\<lparr>messageCount := messageCount br + 1\<rparr>; q = reserveQuery br in
      if matchingStubs br = [] then
        (case lookup_service_available g s (q_Service q) (q_Method q) (q_Session q) of
           Inl _ \<Rightarrow> br'
         | Inr stubs \<Rightarrow>
             br'\<lparr>matchingStubs := filter (\<lambda>v. match_bidi_stub_message g v (q_Headers q) msg) stubs\<rparr>)
      else br'\<lparr>matchingStubs := filter_matching_stubs g msg br\<rparr>)"

definition bidi_next ::
  "golib \<Rightarrow> gomap \<Rightarrow> bidi_result \<times> searcher \<Rightarrow> (search_error + stub) \<times> bidi_result \<times> searcher" where
  "bidi_next g msg st =
     (case msg of
        None \<Rightarrow> (Inl ErrStubNotFound, st)
      | Some m \<Rightarrow>
          (let (br, s) = st; idx = messageCount br; br1 = ensure_matching_stubs g m s br in
           if matchingStubs br1 = [] then (Inl ErrStubNotFound, br1, s)
           else
             (let q = (reserveQuery br)\<lparr>q_Input := [m]\<rparr>; br2 = br1\<lparr>reserveQuery := q\<rparr>;
                  (res, vs, s') = bidi_pick g q idx (matchingStubs br1) s
              in case res of
                   None \<Rightarrow> (Inl ErrStubNotFound, br2\<lparr>matchingStubs := vs\<rparr>, s')
                 | Some (v, n) \<Rightarrow>
                     (Inr v,
                      br2\<lparr>matchingStubs := (if \<not> is_client_stream v \<and> idx = 0 then [] else vs),
                          bidi_matchNumber := n\<rparr>, s'))))"

definition get_message_index :: "bidi_result \<Rightarrow> nat" where
  "get_message_index br = messageCount br - 1"

section \<open>What is chosen\<close>

text \<open>The order of the choice: the higher total, then the smaller ID.\<close>

definition bidi_better :: "(stub \<Rightarrow> rat) \<Rightarrow> stub \<Rightarrow> stub \<Rightarrow> bool" where
  "bidi_better tot v w \<longleftrightarrow> tot w < tot v \<or> tot v = tot w \<and> ID v \<le> ID w"

lemma bidi_better_trans: "bidi_better tot a b \<Longrightarrow> bidi_better tot b c \<Longrightarrow> bidi_better tot a c"
  by (auto simp: bidi_better_def)

lemma bidi_better_refl [simp]: "bidi_better tot a a"
  by (simp add: bidi_better_def)

lemma select_best_loop_best:
  assumes "select_best_loop tot i best vs = Some (v, r, k)"
    and "\<And>b rb j. best = Some (b, rb, j) \<Longrightarrow> rb = tot b"
  shows "r = tot v \<and> (\<forall>w\<in>set vs. bidi_better tot v w) \<and>
     (\<forall>b rb j. best = Some (b, rb, j) \<longrightarrow> bidi_better tot v b)"
  using assms
proof (induction vs arbitrary: i best)
  case Nil
  then show ?case by simp
next
  case (Cons w ws)
  define nb where "nb = (case best of
      None \<Rightarrow> Some (w, tot w, i)
    | Some (b, r, j) \<Rightarrow>
        if r < tot w then Some (w, tot w, i)
        else if tot w = r \<and> cmp3 (ID w) (ID b) < 0 then Some (w, r, i) else best)"
  have next_best: "\<exists>b j. nb = Some (b, tot b, j) \<and> bidi_better tot b w \<and>
      (\<forall>b' rb j. best = Some (b', rb, j) \<longrightarrow> bidi_better tot b b')"
  proof (cases best)
    case None
    then show ?thesis by (simp add: nb_def)
  next
    case (Some p)
    obtain b rb j where p: "p = (b, rb, j)" by (cases p)
    have rb: "rb = tot b" using Cons.prems(2) Some p by simp
    consider "tot b < tot w" | "tot w = tot b" "ID w < ID b"
      | "tot w \<le> tot b" "\<not> (tot w = tot b \<and> ID w < ID b)" by linarith
    then show ?thesis
      by cases (auto simp: nb_def Some p rb bidi_better_def)
  qed
  then obtain b j where bj: "nb = Some (b, tot b, j) \<and> bidi_better tot b w \<and>
      (\<forall>b' rb j. best = Some (b', rb, j) \<longrightarrow> bidi_better tot b b')"
    by (elim exE) (rule that)
  note b = conjunct1 [OF bj] conjunct1 [OF conjunct2 [OF bj]] conjunct2 [OF conjunct2 [OF bj]]
  have loop: "select_best_loop tot (Suc i) nb ws = Some (v, r, k)"
    using Cons.prems(1) unfolding nb_def by (simp only: select_best_loop.simps)
  have "r = tot v \<and> (\<forall>w\<in>set ws. bidi_better tot v w) \<and>
      (\<forall>b rb j. nb = Some (b, rb, j) \<longrightarrow> bidi_better tot v b)"
    by (rule Cons.IH [OF loop]) (simp add: b(1))
  then have IH: "r = tot v" "\<forall>w\<in>set ws. bidi_better tot v w" "bidi_better tot v b"
    using b(1) by simp_all
  have "bidi_better tot v w" by (rule bidi_better_trans [OF IH(3) b(2)])
  moreover have "bidi_better tot v b'" if "best = Some (b', rb, k)" for b' rb k
    using b(3) that bidi_better_trans [OF IH(3)] by blast
  ultimately show ?case using IH by simp
qed

lemma select_best_stub_best:
  "select_best_stub g q idx vs = Some (v, i) \<Longrightarrow>
     v \<in> set vs \<and> (\<forall>w\<in>set vs. bidi_better (bidi_total g q idx) v w)"
  using select_best_stub_place [of g q idx vs v i]
  by (auto simp: select_best_stub_def dest: select_best_loop_best)

lemma select_best_stub_None: "select_best_stub g q idx vs = None \<longleftrightarrow> vs = []"
  by (cases vs) (auto simp: select_best_stub_def select_best_loop_Some)

definition reservable :: "query \<Rightarrow> searcher \<Rightarrow> stub \<Rightarrow> bool" where
  "reservable q s v \<longleftrightarrow> request_internal q \<or> not_exhausted s v (q_Session q)"

lemma try_reserve_reservable:
  "try_reserve q v s =
     (if reservable q s v then (Some (reserve_number q v s), reserve_state q v s) else (None, s))"
  by (auto simp: reservable_def try_reserve_def not_exhausted_def reserve_number_def
      reserve_state_def Let_def)

lemma set_remove_stub:
  assumes "i < length vs"
  shows "mset (remove_stub_from_matching_by_index i vs) = mset vs - {#vs ! i#}"
proof -
  have "vs \<noteq> []" using assms by auto
  have "vs[i := last vs] \<noteq> []" using \<open>vs \<noteq> []\<close> by simp
  moreover have "last (vs[i := last vs]) = last vs"
    using \<open>vs \<noteq> []\<close> assms by (simp add: last_list_update)
  ultimately have "mset (butlast (vs[i := last vs])) = mset (vs[i := last vs]) - {#last vs#}"
    by (metis add_mset_remove_trivial append_butlast_last_id mset.simps(1,2) mset_append
        union_mset_add_mset_right add.right_neutral)
  also have "\<dots> = mset vs - {#vs ! i#}"
    using assms by (simp add: mset_update)
  finally show ?thesis using assms by (simp add: remove_stub_from_matching_by_index_def)
qed

text \<open>A message is answered with the best stub that can still be reserved.\<close>

lemma bidi_pick_spec:
  "case bidi_pick g q idx vs s of
     (None, vs', s') \<Rightarrow> s' = s \<and> (\<forall>v\<in>set vs. \<not> reservable q s v) \<and> vs' = []
   | (Some (v, n), vs', s') \<Rightarrow>
       v \<in> set vs \<and> reservable q s v \<and>
       (\<forall>w\<in>set vs. reservable q s w \<longrightarrow> bidi_better (bidi_total g q idx) v w) \<and>
       n = reserve_number q v s \<and> s' = reserve_state q v s \<and> set vs' \<subseteq> set vs"
proof (induction g q idx vs s rule: bidi_pick.induct)
  case (1 g q idx vs s)
  show ?case
  proof (cases "select_best_stub g q idx vs")
    case None
    then have "bidi_pick g q idx vs s = (None, vs, s)"
      by (simp add: bidi_pick.simps [of g q idx vs s])
    moreover have "vs = []" using None by (simp add: select_best_stub_None)
    ultimately show ?thesis by simp
  next
    case (Some vi)
    obtain v i where vi: "vi = (v, i)" by (cases vi)
    have best: "v \<in> set vs" "\<forall>w\<in>set vs. bidi_better (bidi_total g q idx) v w"
      using Some vi select_best_stub_best by auto
    show ?thesis
    proof (cases "reservable q s v")
      case True
      then show ?thesis
        using Some vi best by (subst bidi_pick.simps) (simp add: try_reserve_reservable)
    next
      case False
      let ?vs = "remove_stub_from_matching_by_index i vs"
      have i: "i < length vs" "v = vs ! i"
        using Some vi select_best_stub_place by auto
      have "mset ?vs + {#v#} = mset vs"
        using set_remove_stub [OF i(1)] i by simp
      then have S: "set vs = insert v (set ?vs)"
        by (metis add_mset_add_single set_mset_add_mset_insert set_mset_mset)
      have step: "bidi_pick g q idx vs s = bidi_pick g q idx ?vs s"
        using Some vi False by (subst bidi_pick.simps) (simp add: try_reserve_reservable)
      have res: "(None, s) = try_reserve q v s"
        using False by (simp add: try_reserve_reservable)
      note IH = "1.IH" [OF Some vi [symmetric] res refl]
      show ?thesis
        using IH False unfolding step S
        by (cases "bidi_pick g q idx ?vs s") (auto split: prod.splits option.splits)
    qed
  qed
qed

end
