(* ===== verification/Bidi_Claims.thy ===== *)
theory Bidi_Claims
  imports Bidi Sample_Lib
begin

text \<open>The properties of bidirectional streams.\<close>

lemma candidates_match:
  "v \<in> set (matchingStubs (ensure_matching_stubs g m s br)) \<Longrightarrow>
     match_bidi_stub_message g v (q_Headers (reserveQuery br)) m"
  by (auto simp: ensure_matching_stubs_def filter_matching_stubs_def Let_def
      split: if_splits sum.splits)

text \<open>C8. A message of a stream is answered with the best stub, by score and then by ID, among those
  that match it and can still be reserved for the session; that stub is reserved. An error means that
  no candidate can be reserved, and then no counter moves.\<close>

theorem bidi_next_best:
  "let q = (reserveQuery br)\<lparr>q_Input := [m]\<rparr>; cands = matchingStubs (ensure_matching_stubs g m s br)
   in case bidi_next g (Some m) (br, s) of
        (Inl e, br', s') \<Rightarrow> e = ErrStubNotFound \<and> s' = s \<and> (\<forall>v\<in>set cands. \<not> reservable q s v)
      | (Inr v, br', s') \<Rightarrow>
          v \<in> set cands \<and> match_bidi_stub_message g v (q_Headers q) m \<and> reservable q s v \<and>
          (\<forall>w\<in>set cands. reservable q s w \<longrightarrow>
             bidi_better (bidi_total g q (messageCount br)) v w) \<and>
          s' = reserve_state q v s \<and> bidi_matchNumber br' = reserve_number q v s"
proof -
  define q where "q = (reserveQuery br)\<lparr>q_Input := [m]\<rparr>"
  define br1 where "br1 = ensure_matching_stubs g m s br"
  have match: "match_bidi_stub_message g v (q_Headers q) m" if "v \<in> set (matchingStubs br1)" for v
    using candidates_match that by (simp add: br1_def q_def)
  note pick = bidi_pick_spec [where g = g and q = q and idx = "messageCount br" and
    vs = "matchingStubs br1" and s = s]
  show ?thesis
  proof (cases "matchingStubs br1 = []")
    case True
    then show ?thesis by (simp add: bidi_next_def Let_def br1_def)
  next
    case False
    obtain res vs s' where p: "bidi_pick g q (messageCount br) (matchingStubs br1) s = (res, vs, s')"
      by (cases "bidi_pick g q (messageCount br) (matchingStubs br1) s")
    show ?thesis
    proof (cases res)
      case None
      then show ?thesis using False p pick
        by (simp add: bidi_next_def Let_def br1_def [symmetric] q_def [symmetric])
    next
      case (Some vn)
      obtain v n where vn: "vn = (v, n)" by (cases vn)
      show ?thesis using False p pick Some vn match
        by (simp add: bidi_next_def Let_def br1_def [symmetric] q_def [symmetric])
    qed
  qed
qed

definition chat_any :: stub where
  "chat_any = sample_stub 1 ''Chat'' []"

definition chat_bob :: stub where
  "chat_bob = sample_stub 2 ''Chat'' [(''name'', VString ''bob'')]"

definition chat_start :: bidi_result where
  "chat_start = new_bidi_result (sample_query ''Chat'' []) [chat_any, chat_bob]"

lemma bidi_next_best_witness:
  "let s = sample_searcher [chat_any, chat_bob]; m = [(''name'', VString ''bob'')];
       q = (reserveQuery chat_start)\<lparr>q_Input := [m]\<rparr>
   in fst (bidi_next sample_lib (Some m) (chat_start, s)) = Inr chat_bob \<and>
      bidi_better (bidi_total sample_lib q 0) chat_bob chat_any"
proof -
  let ?s = "sample_searcher [chat_any, chat_bob]" and ?m = "[(''name'', VString ''bob'')]"
  have v: "fst (bidi_next sample_lib (Some ?m) (chat_start, ?s)) = Inr chat_bob" by code_simp
  then obtain br' s' where "bidi_next sample_lib (Some ?m) (chat_start, ?s) = (Inr chat_bob, br', s')"
    by (cases "bidi_next sample_lib (Some ?m) (chat_start, ?s)") auto
  moreover have "chat_any \<in> set (matchingStubs (ensure_matching_stubs sample_lib ?m ?s chat_start))"
    by code_simp
  moreover have "reservable ((reserveQuery chat_start)\<lparr>q_Input := [?m]\<rparr>) ?s chat_any"
    by code_simp
  moreover have "messageCount chat_start = 0" by (simp add: chat_start_def new_bidi_result_def)
  ultimately have "bidi_better (bidi_total sample_lib ((reserveQuery chat_start)\<lparr>q_Input := [?m]\<rparr>) 0) chat_bob chat_any"
    using bidi_next_best [where g = sample_lib and m = ?m and br = chat_start and s = ?s]
    by (simp add: Let_def)
  with v show ?thesis by (simp add: Let_def)
qed

text \<open>The matchers of a stream message look at neither globs nor the array-order flag: an input
  whose only condition is a glob matches every message of a bidirectional stream, while the matcher
  of unary calls rejects the same message.\<close>

lemma bidi_ignores_globs:
  "let i = empty_input\<lparr>Glob := Some [(''name'', VString ''a'')]\<rparr>;
       j = empty_input\<lparr>Equals := Some [(''l'', VList [VInt 1, VInt 2])], IgnoreArrayOrder := True\<rparr>
   in match_input_data sample_lib i [(''name'', VString ''b'')] \<and>
      \<not> match_input sample_lib [(''name'', VString ''b'')] i \<and>
      \<not> match_input_data sample_lib j [(''l'', VList [VInt 2, VInt 1])] \<and>
      match_input sample_lib [(''l'', VList [VInt 2, VInt 1])] j"
  by code_simp

end
