(* ===== verification/Listing.thy ===== *)
theory Listing
  imports Storage_Invariant
begin

text \<open>
  Listing of stubs, \<^verbatim>\<open>list.go\<close>: filters, sort modes and pages. The text of a UUID is made by a
  library and is a parameter, \<open>uuid_text\<close>.
\<close>

section \<open>Filters\<close>

record list_options =
  lo_Source :: string
  lo_Service :: string
  lo_Method :: string
  lo_Query :: string
  lo_Matchers :: "string list"
  lo_Session :: string
  lo_SessionSet :: bool
  lo_Limit :: int
  lo_Offset :: int
  lo_Sort :: string

definition no_options :: list_options where
  "no_options = \<lparr>lo_Source = '''', lo_Service = '''', lo_Method = '''', lo_Query = '''',
     lo_Matchers = [], lo_Session = '''', lo_SessionSet = False, lo_Limit = 0, lo_Offset = 0,
     lo_Sort = ''''\<rparr>"

definition input_has_kind :: "input_data \<Rightarrow> string \<Rightarrow> bool" where
  "input_has_kind i kind =
     (if kind = ''equals'' then 0 < mlen (Equals i)
      else if kind = ''contains'' then 0 < mlen (Contains i)
      else if kind = ''matches'' then 0 < mlen (Matches i)
      else if kind = ''glob'' then 0 < mlen (Glob i)
      else if kind = ''anyOf'' then 0 < length (AnyOf i)
      else False)"

definition stub_has_matcher_kind :: "stub \<Rightarrow> string \<Rightarrow> bool" where
  "stub_has_matcher_kind v kind =
     (if input_has_kind (Input v) kind then True
      else list_ex (\<lambda>i. input_has_kind i kind) (inputs_list v))"

text \<open>\<^verbatim>\<open>whereStubs\<close> is \<open>filter\<close>; the filters are stacked in the code's order.\<close>

definition filter_stubs :: "(uuid \<Rightarrow> string) \<Rightarrow> list_options \<Rightarrow> stub list \<Rightarrow> stub list" where
  "filter_stubs uuid_text opts vs =
     (let vs = (if lo_Source opts \<noteq> '''' then filter (\<lambda>v. Source v = lo_Source opts) vs else vs);
          vs = (if lo_Service opts \<noteq> '''' then filter (\<lambda>v. Service v = lo_Service opts) vs else vs);
          vs = (if lo_Method opts \<noteq> '''' then filter (\<lambda>v. Method v = lo_Method opts) vs else vs);
          vs = (if lo_SessionSet opts then filter (\<lambda>v. Session v = lo_Session opts) vs else vs);
          vs = (if lo_Query opts \<noteq> ''''
                then (let q = str_lower (lo_Query opts) in
                      filter (\<lambda>v. str_contains (str_lower (Service v)) q \<or>
                                  str_contains (str_lower (Method v)) q \<or>
                                  str_contains (str_lower (uuid_text (ID v))) q) vs)
                else vs);
          vs = (if 0 < length (lo_Matchers opts)
                then filter (\<lambda>v. list_ex (stub_has_matcher_kind v) (lo_Matchers opts)) vs
                else vs)
      in vs)"

section \<open>Order and pages\<close>

definition by_id :: "stub \<Rightarrow> stub \<Rightarrow> int" where
  "by_id a b = cmp3 (ID a) (ID b)"

definition list_compare :: "string \<Rightarrow> stub \<Rightarrow> stub \<Rightarrow> int" where
  "list_compare mode =
     (if mode = ''priority_asc'' then
        (\<lambda>a b. if Priority a \<noteq> Priority b then cmp3 (Priority a) (Priority b) else by_id a b)
      else if mode = ''service_asc'' then
        (\<lambda>a b. if Service a \<noteq> Service b then cmp3 (Service a) (Service b)
               else if Method a \<noteq> Method b then cmp3 (Method a) (Method b) else by_id a b)
      else if mode = ''method_asc'' then
        (\<lambda>a b. if Method a \<noteq> Method b then cmp3 (Method a) (Method b) else by_id a b)
      else (\<lambda>a b. if Priority a \<noteq> Priority b then cmp3 (Priority b) (Priority a) else by_id a b))"

definition sort_listed :: "string \<Rightarrow> stub list \<Rightarrow> stub list" where
  "sort_listed mode vs = sort_func (list_compare mode) vs"

definition paginate_stubs :: "list_options \<Rightarrow> stub list \<Rightarrow> stub list" where
  "paginate_stubs opts vs =
     (let off = min (max (lo_Offset opts) 0) (int (length vs)); vs = drop (nat off) vs in
      if 0 < lo_Limit opts then take (nat (min (lo_Limit opts) (int (length vs)))) vs else vs)"

text \<open>\<open>vs\<close> is the list the storage's map iteration yields; its order is the map's and differs from
  call to call.\<close>

definition list_of_values :: "(uuid \<Rightarrow> string) \<Rightarrow> list_options \<Rightarrow> stub list \<Rightarrow> stub list \<times> nat" where
  "list_of_values uuid_text opts vs =
     (let filtered = sort_listed (lo_Sort opts) (filter_stubs uuid_text opts vs)
      in (paginate_stubs opts filtered, length filtered))"

definition list_stubs :: "(uuid \<Rightarrow> string) \<Rightarrow> list_options \<Rightarrow> storage \<Rightarrow> stub list \<times> nat" where
  "list_stubs uuid_text opts s = list_of_values uuid_text opts (storage_values s)"

section \<open>Every sort mode is a total order\<close>

interpretation listed: key_comparator "list_compare mode" "\<lambda>_. True" ID
  by unfold_locales (auto simp: list_compare_def by_id_def split: if_splits)

section \<open>What a listing shows\<close>

text \<open>The stacked filters as one predicate.\<close>

definition listed_stub :: "(uuid \<Rightarrow> string) \<Rightarrow> list_options \<Rightarrow> stub \<Rightarrow> bool" where
  "listed_stub uuid_text opts v \<longleftrightarrow>
     (lo_Source opts = '''' \<or> Source v = lo_Source opts) \<and>
     (lo_Service opts = '''' \<or> Service v = lo_Service opts) \<and>
     (lo_Method opts = '''' \<or> Method v = lo_Method opts) \<and>
     (\<not> lo_SessionSet opts \<or> Session v = lo_Session opts) \<and>
     (lo_Query opts = '''' \<or>
        (\<exists>t\<in>{Service v, Method v, uuid_text (ID v)}.
           str_contains (str_lower t) (str_lower (lo_Query opts)))) \<and>
     (lo_Matchers opts = [] \<or> (\<exists>k\<in>set (lo_Matchers opts). stub_has_matcher_kind v k))"

lemma filter_stubs_eq: "filter_stubs uuid_text opts vs = filter (listed_stub uuid_text opts) vs"
  unfolding filter_stubs_def Let_def
  by (auto simp: listed_stub_def list_ex_iff filter_empty_conv intro!: filter_cong)

lemma paginate_window:
  "0 < l \<Longrightarrow> paginate_stubs (opts\<lparr>lo_Limit := l, lo_Offset := int k\<rparr>) vs = take (nat l) (drop k vs)"
proof -
  assume l: "0 < l"
  have "nat (min (max (int k) 0) (int (length vs))) = min k (length vs)" by auto
  then have off: "drop (nat (min (max (int k) 0) (int (length vs)))) vs = drop k vs"
    by (simp add: min_def)
  have "take (nat (min l (int (length (drop k vs))))) (drop k vs) = take (nat l) (drop k vs)"
    by (cases "l \<le> int (length (drop k vs))") (auto simp: min_def)
  moreover have "lo_Limit (opts\<lparr>lo_Limit := l, lo_Offset := int k\<rparr>) = l"
    "lo_Offset (opts\<lparr>lo_Limit := l, lo_Offset := int k\<rparr>) = int k" by simp_all
  ultimately show ?thesis using l by (simp only: paginate_stubs_def Let_def off if_True)
qed

lemma concat_windows:
  "concat (map (\<lambda>k. take l (drop (k * l) xs)) [0..<n]) = take (n * l) xs"
  by (induction n) (simp_all add: take_add [of "n * l" l for n, symmetric] add.commute)

text \<open>The page that starts at the offset \<open>k * l\<close>, of one call with its own iteration order.\<close>

definition page_at :: "(uuid \<Rightarrow> string) \<Rightarrow> list_options \<Rightarrow> nat \<Rightarrow> nat \<Rightarrow> stub list \<Rightarrow> stub list" where
  "page_at uuid_text opts l k vs =
     fst (list_of_values uuid_text (opts\<lparr>lo_Limit := int l, lo_Offset := int (k * l)\<rparr>) vs)"

lemma listed_sort_perm:
  assumes "distinct (map ID vs)" and "mset ws = mset vs"
  shows "sort_listed mode (filter P ws) = sort_listed mode (filter P vs)"
  unfolding sort_listed_def
proof (rule listed.sort_unique)
  have "mset (map ID ws) = mset (map ID vs)" using assms(2) by (simp add: mset_map)
  then have "distinct (map ID ws)" using assms(1) mset_eq_imp_distinct_iff by blast
  then show "distinct (map ID (filter P ws))" by (rule distinct_map_filter)
  show "mset (filter P ws) = mset (filter P vs)" using assms(2) by (simp add: mset_filter)
qed simp

lemma page_at_window:
  assumes "distinct (map ID vs)" and "mset ws = mset vs" and "0 < l"
  shows "page_at uuid_text opts l k ws =
     take l (drop (k * l) (sort_listed (lo_Sort opts) (filter (listed_stub uuid_text opts) vs)))"
proof -
  have P: "listed_stub uuid_text (opts\<lparr>lo_Limit := a, lo_Offset := b\<rparr>) = listed_stub uuid_text opts"
    for a b by (simp add: fun_eq_iff listed_stub_def)
  show ?thesis
    using assms(3) paginate_window [where l = "int l" and opts = opts and k = "k * l"]
    by (simp add: page_at_def list_of_values_def Let_def filter_stubs_eq P
        listed_sort_perm [OF assms(1,2)])
qed

text \<open>C37. Paging through a listing shows every stub the filters keep exactly once, in the order of the
  sort mode, although every call reads the store's map in an order of its own.\<close>

theorem list_pages_partition:
  assumes "distinct (map ID vs)" and "\<forall>k. mset (order_of k) = mset vs"
    and "0 < l" and "length (filter (listed_stub uuid_text opts) vs) \<le> n * l"
  shows "concat (map (\<lambda>k. page_at uuid_text opts l k (order_of k)) [0..<n]) =
       sort_listed (lo_Sort opts) (filter (listed_stub uuid_text opts) vs) \<and>
     mset (sort_listed (lo_Sort opts) (filter (listed_stub uuid_text opts) vs)) =
       mset (filter (listed_stub uuid_text opts) vs) \<and>
     sorted_func (list_compare (lo_Sort opts))
       (sort_listed (lo_Sort opts) (filter (listed_stub uuid_text opts) vs))"
proof -
  let ?all = "sort_listed (lo_Sort opts) (filter (listed_stub uuid_text opts) vs)"
  have "concat (map (\<lambda>k. page_at uuid_text opts l k (order_of k)) [0..<n]) =
      concat (map (\<lambda>k. take l (drop (k * l) ?all)) [0..<n])"
    using assms(2) by (simp add: page_at_window [OF assms(1) _ assms(3)])
  also have "\<dots> = ?all"
    using assms(4) by (simp add: concat_windows sort_listed_def)
  finally show ?thesis
    by (simp add: sort_listed_def listed.sorted_sort)
qed

text \<open>The comment on \<^verbatim>\<open>stubHasMatcherKind\<close> promises that alternatives count; they do not.\<close>

lemma alternatives_have_no_kind:
  "\<not> stub_has_matcher_kind (empty_stub\<lparr>Input := empty_input\<lparr>AnyOf :=
      [any_of_element.truncate (empty_input\<lparr>Equals := Some [(''name'', VString ''a'')]\<rparr>)]\<rparr>\<rparr>) ''equals''"
  by code_simp

lemma list_pages_partition_witness:
  "concat (map (\<lambda>k. page_at (\<lambda>_. '''') no_options 1 k
      (if k = 0 then [empty_stub\<lparr>ID := 2\<rparr>, empty_stub\<lparr>ID := 1\<rparr>] else [empty_stub\<lparr>ID := 1\<rparr>, empty_stub\<lparr>ID := 2\<rparr>])) [0..<2]) =
    [empty_stub\<lparr>ID := 1\<rparr>, empty_stub\<lparr>ID := 2\<rparr>]"
proof -
  let ?vs = "[empty_stub\<lparr>ID := 1\<rparr>, empty_stub\<lparr>ID := 2\<rparr>]"
  let ?ord = "\<lambda>k :: nat. if k = 0 then [empty_stub\<lparr>ID := 2\<rparr>, empty_stub\<lparr>ID := 1\<rparr>] else ?vs"
  have keep: "filter (listed_stub (\<lambda>_. '''') no_options) ?vs = ?vs"
    by (simp add: listed_stub_def no_options_def)
  have "concat (map (\<lambda>k. page_at (\<lambda>_. '''') no_options 1 k (?ord k)) [0..<2]) =
      sort_listed (lo_Sort no_options) (filter (listed_stub (\<lambda>_. '''') no_options) ?vs)"
    by (rule list_pages_partition [THEN conjunct1]) (simp_all add: keep)
  moreover have "sort_listed (lo_Sort no_options) (filter (listed_stub (\<lambda>_. '''') no_options) ?vs) = ?vs"
    unfolding keep by code_simp
  ultimately show ?thesis by (rule trans)
qed

end
