(* ===== verification/Budgerigar.thy ===== *)
theory Budgerigar
  imports Bidi Listing
begin

text \<open>
  The facade of the stub engine, \<^verbatim>\<open>stuber.go\<close>, the reserved stubs of the health service,
  \<^verbatim>\<open>health_stubs.go\<close>, and the health queries and statuses of the gRPC server,
  \<^verbatim>\<open>health_query.go\<close> and \<^verbatim>\<open>health_codec.go\<close>. Random UUIDs come from a library: they are taken
  from a list, \<open>fresh\<close>.
\<close>

section \<open>Health stubs\<close>

definition health_check_id :: uuid where "health_check_id = 0xffffffffffffffffffffffffffffffff"
definition health_watch_id :: uuid where "health_watch_id = 0xeeeeeeeeeeeeeeeeeeeeeeeeeeeeeeee"

definition health_service :: string where "health_service = ''grpc.health.v1.Health''"

definition new_health_check_stub :: "string \<Rightarrow> stub" where
  "new_health_check_stub status =
     empty_stub\<lparr>ID := health_check_id, Service := health_service, Method := ''Check'',
       Input := empty_input\<lparr>Equals := Some [(''service'', VString ''gripmock'')]\<rparr>,
       Output := empty_output\<lparr>Data := VMap [(''status'', VString status)]\<rparr>\<rparr>"

definition new_health_watch_stub :: "string \<Rightarrow> stub" where
  "new_health_watch_stub status =
     empty_stub\<lparr>ID := health_watch_id, Service := health_service, Method := ''Watch'',
       Input := empty_input\<lparr>Equals := Some [(''service'', VString ''gripmock'')]\<rparr>,
       Output := empty_output\<lparr>Stream := Some [VMap [(''status'', VString status)]]\<rparr>\<rparr>"

definition update_health_status :: "golib \<Rightarrow> string \<Rightarrow> storage_with_internal \<Rightarrow> storage_with_internal" where
  "update_health_status g status s =
     snd (put_internal g [new_health_watch_stub status]
       (snd (put_internal g [new_health_check_stub status] s)))"

definition setup_health_stubs :: "golib \<Rightarrow> storage_with_internal \<Rightarrow> storage_with_internal" where
  "setup_health_stubs g s =
     snd (put_internal g [new_health_watch_stub ''NOT_SERVING'']
       (snd (put_internal g [new_health_check_stub ''NOT_SERVING''] s)))"

definition new_storage_with_internal :: "golib \<Rightarrow> storage_with_internal" where
  "new_storage_with_internal g =
     setup_health_stubs g \<lparr>external = new_storage, internal = new_storage\<rparr>"

section \<open>The facade\<close>

definition new_budgerigar :: "golib \<Rightarrow> searcher" where
  "new_budgerigar g = \<lparr>stubCallCount = [], store = new_storage_with_internal g\<rparr>"

definition set_alive :: "golib \<Rightarrow> searcher \<Rightarrow> searcher" where
  "set_alive g s = s\<lparr>store := update_health_status g ''SERVING'' (store s)\<rparr>"

text \<open>Stubs without an ID get the next random one.\<close>

fun assign_ids :: "uuid list \<Rightarrow> stub list \<Rightarrow> stub list" where
  "assign_ids fresh [] = []"
| "assign_ids fresh (v # vs) =
     (if ID v = 0 then v\<lparr>ID := hd fresh\<rparr> # assign_ids (tl fresh) vs
      else v # assign_ids fresh vs)"

definition put_many :: "golib \<Rightarrow> uuid list \<Rightarrow> stub list \<Rightarrow> searcher \<Rightarrow> uuid list \<times> searcher" where
  "put_many g fresh vs s = searcher_upsert g (assign_ids fresh vs) s"

definition update_many :: "golib \<Rightarrow> stub list \<Rightarrow> searcher \<Rightarrow> uuid list \<times> searcher" where
  "update_many g vs s = searcher_upsert g (filter (\<lambda>v. ID v \<noteq> 0) vs) s"

definition delete_by_id :: "golib \<Rightarrow> uuid list \<Rightarrow> searcher \<Rightarrow> nat \<times> searcher" where
  "delete_by_id g ids s = searcher_del g ids s"

definition delete_session :: "golib \<Rightarrow> string \<Rightarrow> searcher \<Rightarrow> nat \<times> searcher" where
  "delete_session g session s = (if session = '''' then (0, s) else searcher_del_by_session g session s)"

definition find_by_query ::
  "golib \<Rightarrow> go_runtime \<Rightarrow> query \<Rightarrow> searcher \<Rightarrow> (search_error + search_result) \<times> searcher" where
  "find_by_query g r q s = find_query g r q s"

definition find_by_query_bidi :: "golib \<Rightarrow> query \<Rightarrow> searcher \<Rightarrow> search_error + bidi_result" where
  "find_by_query_bidi g q s = find_bidi g q s"

definition budgerigar_list :: "(uuid \<Rightarrow> string) \<Rightarrow> list_options \<Rightarrow> searcher \<Rightarrow> stub list \<times> nat" where
  "budgerigar_list uuid_text opts s = list_stubs uuid_text opts (ext s)"

definition budgerigar_sessions :: "searcher \<Rightarrow> string list" where
  "budgerigar_sessions s = sessions_list (ext s)"

definition budgerigar_clear :: "searcher \<Rightarrow> searcher" where
  "budgerigar_clear s = searcher_clear s"

section \<open>Queries and statuses of the health service\<close>

definition new_health_query :: "string \<Rightarrow> string \<Rightarrow> query" where
  "new_health_query m service =
     with_internal_stubs \<lparr>q_ID = None, q_Service = health_service, q_Method = m, q_Session = '''',
       q_Headers = [], q_Input = [[(''service'', VString service)]], q_Strict = False,
       q_Internal = False, q_MatchInternal = False\<rparr>"

text \<open>The headers and the session are those of the call's metadata.\<close>

definition find_health_stub ::
  "golib \<Rightarrow> go_runtime \<Rightarrow> gmap \<Rightarrow> string \<Rightarrow> string \<Rightarrow> string \<Rightarrow> searcher \<Rightarrow> (stub \<times> int) option \<times> searcher" where
  "find_health_stub g r headers session m service s =
     (let q = (new_health_query m service)\<lparr>q_Headers := headers, q_Session := session\<rparr>;
          (res, s') = find_by_query g r q s
      in (case res of
            Inl _ \<Rightarrow> None
          | Inr x \<Rightarrow> map_option (\<lambda>v. (v, res_matchNumber x)) (res_found x), s'))"

datatype health_error = Health_Internal

fun parse_int_health_status :: "int \<Rightarrow> health_error + int" where
  "parse_int_health_status n =
     (if n < - (2 ^ 31) \<or> 2 ^ 31 - 1 < n then Inl Health_Internal else Inr n)"

fun parse_float_health_status :: "rat \<Rightarrow> health_error + int" where
  "parse_float_health_status x =
     (if x \<noteq> of_int \<lfloor>x\<rfloor> then Inl Health_Internal else parse_int_health_status \<lfloor>x\<rfloor>)"

definition health_statuses :: "(string \<times> int) list" where
  "health_statuses = [(''UNKNOWN'', 0), (''SERVING'', 1), (''NOT_SERVING'', 2), (''SERVICE_UNKNOWN'', 3)]"

definition trim_prefix :: "string \<Rightarrow> string \<Rightarrow> string" where
  "trim_prefix p s = (if has_prefix s p then drop (length p) s else s)"

definition parse_string_health_status :: "string \<Rightarrow> health_error + int" where
  "parse_string_health_status v =
     (case map_of health_statuses (trim_prefix ''HEALTHCHECKRESPONSE_'' (str_upper (trim_space v))) of
        None \<Rightarrow> Inl Health_Internal | Some n \<Rightarrow> Inr n)"

fun parse_health_status :: "gvalue \<Rightarrow> health_error + int" where
  "parse_health_status (VInt n) = parse_int_health_status n"
| "parse_health_status (VInt64 n) = parse_int_health_status n"
| "parse_health_status (VFloat x) = parse_float_health_status x"
| "parse_health_status (VString s) = parse_string_health_status s"
| "parse_health_status _ = Inl Health_Internal"

definition health_status_from_map :: "gmap \<Rightarrow> health_error + int" where
  "health_status_from_map m =
     (case map_of m ''status'' of None \<Rightarrow> Inl Health_Internal | Some v \<Rightarrow> parse_health_status v)"

fun health_stream :: "gvalue list \<Rightarrow> health_error + int list" where
  "health_stream [] = Inr []"
| "health_stream (VMap m # xs) =
     (case health_status_from_map m of
        Inl e \<Rightarrow> Inl e
      | Inr n \<Rightarrow> (case health_stream xs of Inl e \<Rightarrow> Inl e | Inr ns \<Rightarrow> Inr (n # ns)))"
| "health_stream (_ # xs) = Inl Health_Internal"

definition health_responses_from_output :: "stub_output \<Rightarrow> health_error + int list" where
  "health_responses_from_output out =
     (if stream_list out \<noteq> [] then health_stream (stream_list out)
      else case Data out of
             VMap m \<Rightarrow> (case health_status_from_map m of Inl e \<Rightarrow> Inl e | Inr n \<Rightarrow> Inr [n])
           | _ \<Rightarrow> Inl Health_Internal)"

end
