(* ===== verification/Budgerigar_Claims.thy ===== *)
theory Budgerigar_Claims
  imports Budgerigar Sample_Lib
begin

text \<open>
  Reachable states of the stub engine: the internal store holds the health stubs and nothing else,
  so that a started server answers its own health check whatever stubs the users have stored.
\<close>

section \<open>Reachable states\<close>

inductive budgerigar_step :: "golib \<Rightarrow> go_runtime \<Rightarrow> searcher \<Rightarrow> searcher \<Rightarrow> bool" for g r where
  put: "\<forall>v\<in>set vs. priority_ok v \<Longrightarrow> budgerigar_step g r s (snd (put_many g fresh vs s))"
| update: "\<forall>v\<in>set vs. priority_ok v \<Longrightarrow> budgerigar_step g r s (snd (update_many g vs s))"
| delete: "budgerigar_step g r s (snd (delete_by_id g ids s))"
| delete_ses: "budgerigar_step g r s (snd (delete_session g ses s))"
| query: "budgerigar_step g r s (snd (find_by_query g r q s))"
| purge: "budgerigar_step g r s (budgerigar_clear s)"
| alive: "budgerigar_step g r s (set_alive g s)"

inductive budgerigar_reachable :: "golib \<Rightarrow> go_runtime \<Rightarrow> searcher \<Rightarrow> bool" for g r where
  reach_new: "budgerigar_reachable g r (new_budgerigar g)"
| reach_next: "budgerigar_reachable g r s \<Longrightarrow> budgerigar_step g r s s' \<Longrightarrow> budgerigar_reachable g r s'"

definition health_ids :: "uuid set" where
  "health_ids = {health_check_id, health_watch_id}"

definition budgerigar_ok :: "golib \<Rightarrow> searcher \<Rightarrow> bool" where
  "budgerigar_ok g s \<longleftrightarrow> searcher_ok g s \<and> dom (stub_map (internal (store s))) \<subseteq> health_ids"

lemma assign_ids_priority: "(\<forall>v\<in>set vs. priority_ok v) \<Longrightarrow> \<forall>v\<in>set (assign_ids fresh vs). priority_ok v"
  by (induction fresh vs rule: assign_ids.induct) (simp_all add: priority_ok_def)

lemmas health_stub_defs = new_health_check_stub_def new_health_watch_stub_def empty_stub_def

lemma health_priority: "priority_ok (new_health_check_stub st)" "priority_ok (new_health_watch_stub st)"
  by (simp_all add: priority_ok_def health_stub_defs)

lemma health_update:
  assumes "storage_ok g (internal i)" and "dom (stub_map (internal i)) \<subseteq> health_ids"
  shows "external (update_health_status g st i) = external i"
    and "storage_ok g (internal (update_health_status g st i))"
    and "stub_map (internal (update_health_status g st i)) =
      [health_check_id \<mapsto> new_health_check_stub st, health_watch_id \<mapsto> new_health_watch_stub st]"
proof -
  have ids: "ID (new_health_check_stub st) = health_check_id"
    "ID (new_health_watch_stub st) = health_watch_id" by (simp_all add: health_stub_defs)
  show "external (update_health_status g st i) = external i"
    by (simp add: update_health_status_def put_internal_def split_def Let_def)
  show "storage_ok g (internal (update_health_status g st i))"
    using assms(1) health_priority
    by (simp add: update_health_status_def put_internal_def split_def Let_def storage_ok_upsert)
  show "stub_map (internal (update_health_status g st i)) =
      [health_check_id \<mapsto> new_health_check_stub st, health_watch_id \<mapsto> new_health_watch_stub st]"
    using assms(2) ids
    by (auto simp: update_health_status_def put_internal_def split_def Let_def stub_map_upsert
        health_ids_def fun_eq_iff)
qed

lemma setup_is_update: "setup_health_stubs g i = update_health_status g ''NOT_SERVING'' i"
  by (simp add: setup_health_stubs_def update_health_status_def)

lemma budgerigar_ok_new: "budgerigar_ok g (new_budgerigar g)"
proof -
  let ?i = "\<lparr>external = new_storage, internal = new_storage\<rparr>"
  have "storage_ok g (internal ?i)"
    using storage_ok_new by simp
  moreover have "dom (stub_map (internal ?i)) \<subseteq> health_ids"
    by (simp add: stub_map_def new_storage_def)
  ultimately have u: "external (setup_health_stubs g ?i) = new_storage"
    "storage_ok g (internal (setup_health_stubs g ?i))"
    "dom (stub_map (internal (setup_health_stubs g ?i))) = health_ids"
    using health_update [of g ?i "''NOT_SERVING''"] unfolding setup_is_update
    by (auto simp: health_ids_def)
  show ?thesis
    using u by (simp add: budgerigar_ok_def searcher_ok_def new_budgerigar_def
        new_storage_with_internal_def storage_ok_new)
qed

lemma step_internal_same:
  "internal (store (snd (searcher_upsert g vs s))) = internal (store s)"
  "internal (store (snd (searcher_del g ids s))) = internal (store s)"
  "internal (store (snd (searcher_del_by_session g ses s))) = internal (store s)"
  by (simp_all add: searcher_upsert_def searcher_del_def searcher_del_by_session_def split_def Let_def)

lemma budgerigar_ok_step:
  assumes r: "runtime_ok r" and ok: "budgerigar_ok g s" and st: "budgerigar_step g r s s'"
  shows "budgerigar_ok g s'"
proof -
  have sok: "searcher_ok g s" using ok by (simp add: budgerigar_ok_def)
  note steps = searcher_ok_step [OF r sok]
  show ?thesis
    using st
  proof cases
    case (put vs fresh)
    then show ?thesis
      using ok steps [OF step_upsert [OF assign_ids_priority], of vs fresh]
      by (simp add: budgerigar_ok_def put_many_def step_internal_same)
  next
    case (update vs)
    then show ?thesis
      using ok steps [OF step_upsert, of "filter (\<lambda>v. ID v \<noteq> 0) vs"]
      by (simp add: budgerigar_ok_def update_many_def step_internal_same)
  next
    case (delete ids)
    then show ?thesis
      using ok steps [OF step_del, of ids]
      by (simp add: budgerigar_ok_def delete_by_id_def step_internal_same)
  next
    case (delete_ses ses)
    then show ?thesis
      using ok steps [OF step_del_session, of ses]
      by (simp add: budgerigar_ok_def delete_session_def step_internal_same)
  next
    case (query q)
    moreover have "internal (store (snd (find_query g r q s))) = internal (store s)"
      using find_query_effect [OF r, of q s g] by (auto simp: search_effect_def reserve_state_def)
    ultimately show ?thesis
      using ok steps [OF step_find, of q] by (simp add: budgerigar_ok_def find_by_query_def)
  next
    case purge
    then show ?thesis
      using steps [OF step_clear]
      by (simp add: budgerigar_ok_def budgerigar_clear_def searcher_clear_def clear_with_internal_def
          clear_storage_def stub_map_def)
  next
    case alive
    then show ?thesis
      using ok sok health_update [of g "store s" "''SERVING''"]
      by (auto simp: budgerigar_ok_def searcher_ok_def set_alive_def health_ids_def)
  qed
qed

lemma budgerigar_reachable_ok:
  "runtime_ok r \<Longrightarrow> budgerigar_reachable g r s \<Longrightarrow> budgerigar_ok g s"
  by (rotate_tac 1, induction rule: budgerigar_reachable.induct)
    (auto simp: budgerigar_ok_new budgerigar_ok_step)

section \<open>Properties\<close>

text \<open>The names of a health check, for the separation of hashes.\<close>

definition health_names :: "string set" where
  "health_names = {health_service, ''Health'', ''Check'', ''Watch''}"

lemma health_forms: "service_forms health_service = [health_service, ''Health'']"
  by code_simp

lemma health_stub_matches:
  assumes "q = (new_health_query ''Check'' ''gripmock'')\<lparr>q_Headers := headers, q_Session := ses\<rparr>"
  shows "fast_match_v2 g q (new_health_check_stub st)"
    and "try_reserve q (new_health_check_stub st) s =
      (Some (reserve_number q (new_health_check_stub st) s), reserve_state q (new_health_check_stub st) s)"
proof -
  have "compare_field_value g (VString ''gripmock'') (VString ''gripmock'') False"
    by (simp add: compare_field_value_def field_value_equals_def)
  then have "equals g (Some [(''service'', VString ''gripmock'')]) [(''service'', VString ''gripmock'')] False"
    by (simp add: equals_def equals_field_def find_value_with_variations_def)
  then show "fast_match_v2 g q (new_health_check_stub st)"
    by (simp add: assms fast_match_v2_def match_query_headers_def match_headers_def matcher_matches_def
        fast_match_body_def fast_match_input_def new_health_query_def with_internal_stubs_def
        health_stub_defs empty_input_def empty_header_def equals_def contains_def matches_def
        glob_match_def header_len_def matcher_keys_def)
  show "try_reserve q (new_health_check_stub st) s =
      (Some (reserve_number q (new_health_check_stub st) s), reserve_state q (new_health_check_stub st) s)"
    by (simp add: try_reserve_reservable reservable_def not_exhausted_def effective_times_def
        health_stub_defs empty_output_def)
qed

lemma health_candidates:
  assumes ok: "storage_ok g i" and sep: "hash_separates g health_names"
    and m: "stub_map i = [health_check_id \<mapsto> new_health_check_stub st,
                          health_watch_id \<mapsto> new_health_watch_stub st]"
  shows "find_all_available g i health_service ''Check'' ses = Inr [new_health_check_stub st]"
proof -
  let ?c = "new_health_check_stub st" and ?w = "new_health_watch_stub st"
  have V: "stored i = {?c, ?w}" unfolding stored_def m by (auto simp: health_check_id_def health_watch_id_def)
  have fields: "Service ?c = health_service" "Service ?w = health_service" "Method ?c = ''Check''"
    "Method ?w = ''Watch''" "Session ?c = ''''" "Session ?w = ''''" by (simp_all add: health_stub_defs)
  have N: "set (service_forms health_service) \<union> {''Check''} \<union> names_of (stored i) = health_names"
    by (auto simp: V names_of_def fields health_forms health_names_def)
  note look = find_all_available_ok [OF ok, of health_service "''Check''", unfolded N, OF sep]
  have "\<not> isl (find_all_available g i health_service ''Check'' ses)"
    using look(1) by (auto simp: health_forms has_stub_def V fields)
  then obtain xs where xs: "find_all_available g i health_service ''Check'' ses = Inr xs"
    by (cases "find_all_available g i health_service ''Check'' ses") auto
  have "available (stored i) health_service ''Check'' ses = {?c}"
    by (auto simp: available_def V fields health_forms)
  with look(2) [OF xs] have "set xs = {?c}" "distinct xs" by (auto simp: distinct_map)
  then have "xs = [?c]" by (cases xs; cases "tl xs") auto
  then show ?thesis using xs by simp
qed


lemma health_separates: "hash_separates sample_lib health_names"
  by (simp add: hash_separates_def hash_id_def sample_lib_def health_names_def) code_simp


text \<open>Purging the stubs over the REST interface drops the health stubs too: with no user stub the
  health check is no longer answered by them.\<close>

lemma purge_drops_health:
  "fst (find_health_stub g r headers ses ''Check'' ''gripmock'' (budgerigar_clear s)) = None"
  by (simp add: find_health_stub_def find_by_query_def find_query_def new_health_query_def
      with_internal_stubs_def search_optimized_def match_internal_stubs_def allows_internal_stubs_def
      budgerigar_clear_def searcher_clear_def clear_with_internal_def clear_storage_def
      find_all_available_def pos_by_pn_def pos_by_n_def search_external_def search_indexed_def
      visible_indexed_candidates_def search_full_def resolve_search_candidates_def
      lookup_service_available_def has_method_available_def Let_def
      split: option.splits sum.splits if_splits)

text \<open>A numeric status of a stub decoded from JSON is a \<^verbatim>\<open>json.Number\<close>, which the type switch
  does not know.\<close>

lemma json_number_status_rejected: "health_status_from_map [(''status'', VNumber n)] = Inl Health_Internal"
  by (simp add: health_status_from_map_def)

section \<open>Storing stubs\<close>

lemma assign_ids_each:
  "length (filter (\<lambda>v. ID v = 0) vs) \<le> length fresh \<Longrightarrow>
   list_all2 (\<lambda>v w. w = v\<lparr>ID := ID w\<rparr> \<and> (if ID v = 0 then ID w \<in> set fresh else ID w = ID v))
     vs (assign_ids fresh vs)"
proof (induction fresh vs rule: assign_ids.induct)
  case (2 fresh v vs)
  show ?case
  proof (cases "ID v = 0")
    case True
    with "2.prems" obtain i rest where fresh: "fresh = i # rest" by (cases fresh) auto
    have "list_all2 (\<lambda>v w. w = v\<lparr>ID := ID w\<rparr> \<and> (if ID v = 0 then ID w \<in> set rest else ID w = ID v))
       vs (assign_ids rest vs)"
      using "2.IH"(1) [OF True, unfolded fresh list.sel] "2.prems" True by (simp add: fresh)
    then have "list_all2 (\<lambda>v w. w = v\<lparr>ID := ID w\<rparr> \<and> (if ID v = 0 then ID w \<in> set fresh else ID w = ID v))
       vs (assign_ids rest vs)"
      by (rule list_all2_mono) (auto simp: fresh split: if_splits)
    then show ?thesis using True fresh by simp
  next
    case False
    then show ?thesis using "2.IH"(2) [OF False] "2.prems" by simp
  qed
qed simp

lemma fold_put_other:
  "i \<notin> ID ` set vs \<Longrightarrow> fold (\<lambda>v m. m(ID v \<mapsto> v)) vs m i = m i"
  by (induction vs arbitrary: m) auto

text \<open>Storing a batch gives every stub without an ID a fresh one and changes nothing else of it,
  returns the IDs in order, and leaves every stub alone whose ID is neither given nor fresh.\<close>

lemma put_many_spec:
  assumes "length (filter (\<lambda>v. ID v = 0) vs) \<le> length fresh"
  shows "list_all2 (\<lambda>v w. w = v\<lparr>ID := ID w\<rparr> \<and> (if ID v = 0 then ID w \<in> set fresh else ID w = ID v))
       vs (assign_ids fresh vs) \<and>
     fst (put_many g fresh vs s) = map ID (assign_ids fresh vs) \<and>
     (\<forall>i. i \<notin> set (fst (put_many g fresh vs s)) \<longrightarrow>
        stub_map (ext (snd (put_many g fresh vs s))) i = stub_map (ext s) i) \<and>
     (distinct (map ID (assign_ids fresh vs)) \<longrightarrow>
        (\<forall>w\<in>set (assign_ids fresh vs).
           stub_map (ext (snd (put_many g fresh vs s))) (ID w) = Some w))"
proof -
  have up: "fst (put_many g fresh vs s) = map ID (assign_ids fresh vs)"
    "stub_map (ext (snd (put_many g fresh vs s))) =
       fold (\<lambda>v m. m(ID v \<mapsto> v)) (assign_ids fresh vs) (stub_map (ext s))"
    using stub_map_upsert [of g "assign_ids fresh vs" "ext s"]
    by (simp_all add: put_many_def searcher_upsert_def split_def Let_def) (simp add: upsert_def)
  have "fold (\<lambda>v m. m(ID v \<mapsto> v)) ws m (ID w) = Some w"
    if "w \<in> set ws" "distinct (map ID ws)" for ws :: "stub list" and m w
    using that by (induction ws arbitrary: m) (auto simp: fold_put_other)
  then show ?thesis
    using assign_ids_each [OF assms] fold_put_other [of _ "assign_ids fresh vs" "stub_map (ext s)"]
    by (auto simp: up)
qed

lemma put_many_spec_witness:
  "fst (put_many sample_lib [5] [empty_stub, empty_stub\<lparr>ID := 7\<rparr>] (new_budgerigar sample_lib)) = [5, 7]"
proof -
  have "length (filter (\<lambda>v. ID v = 0) [empty_stub, empty_stub\<lparr>ID := 7\<rparr>]) \<le> length [5]"
    by (simp add: empty_stub_def)
  from put_many_spec [OF this, of sample_lib "new_budgerigar sample_lib"]
  have "fst (put_many sample_lib [5] [empty_stub, empty_stub\<lparr>ID := 7\<rparr>] (new_budgerigar sample_lib)) =
      map ID (assign_ids [5] [empty_stub, empty_stub\<lparr>ID := 7\<rparr>])" by (elim conjE)
  then show ?thesis by (simp add: empty_stub_def)
qed

end
