(* ===== verification/History.thy ===== *)
theory History
  imports Stub_Model
begin

text \<open>
  The history of calls, \<^verbatim>\<open>internal/domain/history/recorder.go\<close>, and its pages,
  \<^verbatim>\<open>internal/app/rest_dashboard.go\<close>: a list of records with a byte limit, redaction and truncation
  of messages, filters, and the ring that keeps one page. Values are immutable here, so a deep copy
  is the identity; the length of the JSON text of a message is a parameter, \<open>json_len\<close>.
\<close>

section \<open>Records\<close>

record call_record =
  c_StubID :: uuid
  c_Service :: string
  c_Method :: string
  c_Session :: string
  c_Requests :: "gomap list"
  c_Responses :: "gomap list"
  c_ResponseHeaders :: "(string \<times> string) list option"
  c_Code :: "32 word"
  c_Error :: string
  c_ElapsedMS :: int
  c_Timestamp :: int

definition empty_record :: call_record where
  "empty_record = \<lparr>c_StubID = 0, c_Service = '''', c_Method = '''', c_Session = '''',
     c_Requests = [], c_Responses = [], c_ResponseHeaders = None, c_Code = 0, c_Error = '''',
     c_ElapsedMS = 0, c_Timestamp = 0\<rparr>"

section \<open>Deep copies\<close>

fun clone_value :: "gvalue \<Rightarrow> gvalue" where
  "clone_value (VMap m) = VMap (map (\<lambda>(k, v). (k, clone_value v)) m)"
| "clone_value (VList xs) = VList (map clone_value xs)"
| "clone_value v = v"

definition clone_map :: "gomap \<Rightarrow> gomap" where
  "clone_map m = (case m of None \<Rightarrow> None | Some kvs \<Rightarrow> Some (map (\<lambda>(k, v). (k, clone_value v)) kvs))"

definition clone_record_messages :: "call_record \<Rightarrow> call_record" where
  "clone_record_messages c =
     c\<lparr>c_Requests := map clone_map (c_Requests c), c_Responses := map clone_map (c_Responses c)\<rparr>"

lemma clone_value_id [simp]: "clone_value v = v"
  by (induction v rule: clone_value.induct) (auto intro!: map_idI)

lemma clone_record_id [simp]: "clone_record_messages c = c"
proof -
  have "clone_map = id" by (auto simp: clone_map_def fun_eq_iff split: option.split)
  then show ?thesis by (simp add: clone_record_messages_def)
qed

section \<open>Redaction\<close>

definition redacted_value :: string where
  "redacted_value = ''[REDACTED]''"

text \<open>The keys are kept in lower case; \<open>redact_entry\<close> is the body of both loops.\<close>

definition redact_keys_of :: "string list \<Rightarrow> string list" where
  "redact_keys_of ks = map str_lower (filter (\<lambda>k. k \<noteq> '''') ks)"

fun redact_value :: "string list \<Rightarrow> gvalue \<Rightarrow> gvalue" where
  "redact_value keys (VMap m) =
     VMap (if keys = [] then m
           else map (\<lambda>(k, v). (k, if str_lower k \<in> set keys then VString redacted_value
                                  else redact_value keys v)) m)"
| "redact_value keys (VList xs) = VList (map (redact_value keys) xs)"
| "redact_value keys v = v"

definition redact_map :: "string list \<Rightarrow> gomap \<Rightarrow> gomap" where
  "redact_map keys m =
     (case m of
        None \<Rightarrow> None
      | Some kvs \<Rightarrow>
          Some (if keys = [] then kvs
                else map (\<lambda>(k, v). (k, if str_lower k \<in> set keys then VString redacted_value
                                       else redact_value keys v)) kvs))"

definition redact_string_map :: "string list \<Rightarrow> (string \<times> string) list option \<Rightarrow> (string \<times> string) list option" where
  "redact_string_map keys m =
     map_option (map (\<lambda>(k, v). (k, if str_lower k \<in> set keys then redacted_value else v))) m"

definition redact_record :: "string list \<Rightarrow> call_record \<Rightarrow> call_record" where
  "redact_record keys c =
     c\<lparr>c_Requests := map (redact_map keys) (c_Requests c),
       c_Responses := map (redact_map keys) (c_Responses c),
       c_ResponseHeaders := redact_string_map keys (c_ResponseHeaders c)\<rparr>"

section \<open>Truncation\<close>

definition truncated_marker :: gomap where
  "truncated_marker = Some [(''_truncated'', VBool True)]"

definition truncate_message :: "(gomap \<Rightarrow> int option) \<Rightarrow> int \<Rightarrow> gomap \<Rightarrow> gomap" where
  "truncate_message json_len max_bytes m =
     (case json_len m of
        Some n \<Rightarrow> if max_bytes < n then truncated_marker else m
      | None \<Rightarrow> m)"

definition truncate_record :: "(gomap \<Rightarrow> int option) \<Rightarrow> int \<Rightarrow> call_record \<Rightarrow> call_record" where
  "truncate_record json_len max_bytes c =
     c\<lparr>c_Requests := map (truncate_message json_len max_bytes) (c_Requests c),
       c_Responses := map (truncate_message json_len max_bytes) (c_Responses c)\<rparr>"

section \<open>Sizes\<close>

abbreviation kv_overhead :: int where "kv_overhead \<equiv> 8"
abbreviation max_estimate_deep :: nat where "max_estimate_deep \<equiv> 16"

fun estimate_value_size :: "gvalue \<Rightarrow> nat \<Rightarrow> int" where
  "estimate_value_size (VString s) depth =
     (if max_estimate_deep < depth then 64 else int (length s) + 2)"
| "estimate_value_size (VNumber s) depth =
     (if max_estimate_deep < depth then 64 else int (length s))"
| "estimate_value_size (VMap m) depth =
     (if max_estimate_deep < depth then 64
      else kv_overhead + sum_list (map (\<lambda>(k, v).
             int (length k) + kv_overhead + estimate_value_size v (depth + 1)) m))"
| "estimate_value_size (VList xs) depth =
     (if max_estimate_deep < depth then 64
      else kv_overhead + sum_list (map (\<lambda>v. estimate_value_size v (depth + 1)) xs))"
| "estimate_value_size VNil depth = (if max_estimate_deep < depth then 64 else 4)"
| "estimate_value_size v depth = (if max_estimate_deep < depth then 64 else 16)"

definition estimate_map_size :: "gomap \<Rightarrow> int" where
  "estimate_map_size m =
     kv_overhead + sum_list (map (\<lambda>(k, v). int (length k) + kv_overhead + estimate_value_size v 0)
                              (entries m))"

definition estimate_record_size :: "call_record \<Rightarrow> int" where
  "estimate_record_size c =
     160 + int (length (c_Service c) + length (c_Method c) + length (c_Session c) + length (c_Error c))
     + sum_list (map estimate_map_size (c_Requests c))
     + sum_list (map estimate_map_size (c_Responses c))
     + sum_list (map (\<lambda>(k, v). int (length k + length v) + kv_overhead)
                  (case c_ResponseHeaders c of None \<Rightarrow> [] | Some h \<Rightarrow> h))"

lemma estimate_value_size_ge: "0 \<le> estimate_value_size v depth"
  by (induction v depth rule: estimate_value_size.induct)
    (auto intro!: sum_list_nonneg add_nonneg_nonneg)

lemma estimate_record_size_pos: "160 \<le> estimate_record_size c"
proof -
  have "0 \<le> estimate_map_size m" for m
    by (auto simp: estimate_map_size_def intro!: sum_list_nonneg add_nonneg_nonneg estimate_value_size_ge)
  then have "0 \<le> sum_list (map estimate_map_size ms)" for ms by (auto intro!: sum_list_nonneg)
  moreover have "0 \<le> sum_list (map (\<lambda>(k, v). int (length k + length v) + kv_overhead)
      (case c_ResponseHeaders c of None \<Rightarrow> [] | Some h \<Rightarrow> h))"
    by (auto intro!: sum_list_nonneg)
  ultimately show ?thesis unfolding estimate_record_size_def by (smt (verit) of_nat_0_le_iff)
qed

section \<open>The store\<close>

record stored_record =
  sr_call :: call_record
  sr_size :: int

record memory_store =
  calls :: "stored_record list"
  limitBytes :: int
  messageMaxBytes :: int
  redactKeys :: "string list"
  currentBytes :: int

definition new_memory_store :: "int \<Rightarrow> int \<Rightarrow> string list \<Rightarrow> memory_store" where
  "new_memory_store limit max_message keys =
     \<lparr>calls = [], limitBytes = limit, messageMaxBytes = max_message,
      redactKeys = redact_keys_of keys, currentBytes = 0\<rparr>"

text \<open>The eviction loop: the oldest record leaves while the limit is exceeded and one remains.\<close>

fun evict :: "int \<Rightarrow> int \<Rightarrow> stored_record list \<Rightarrow> stored_record list \<times> int" where
  "evict limit cur (r # r' # rs) =
     (if 0 < limit \<and> limit < cur then evict limit (cur - sr_size r) (r' # rs) else (r # r' # rs, cur))"
| "evict limit cur rs = (rs, cur)"

definition stored_form :: "(gomap \<Rightarrow> int option) \<Rightarrow> memory_store \<Rightarrow> call_record \<Rightarrow> call_record" where
  "stored_form json_len m c =
     (let c = (if redactKeys m \<noteq> [] then redact_record (redactKeys m) c else c)
      in if 0 < messageMaxBytes m then truncate_record json_len (messageMaxBytes m) c else c)"

definition record_owned :: "(gomap \<Rightarrow> int option) \<Rightarrow> call_record \<Rightarrow> memory_store \<Rightarrow> memory_store" where
  "record_owned json_len c m =
     (let c = stored_form json_len m c; r = \<lparr>sr_call = c, sr_size = estimate_record_size c\<rparr>;
          (rs, cur) = evict (limitBytes m) (currentBytes m + sr_size r) (calls m @ [r])
      in m\<lparr>calls := rs, currentBytes := cur\<rparr>)"

definition record_call :: "(gomap \<Rightarrow> int option) \<Rightarrow> call_record \<Rightarrow> memory_store \<Rightarrow> memory_store" where
  "record_call json_len c m =
     record_owned json_len (if redactKeys m = [] then clone_record_messages c else c) m"

definition clear_history :: "memory_store \<Rightarrow> memory_store" where
  "clear_history m = m\<lparr>calls := [], currentBytes := 0\<rparr>"

definition count_history :: "memory_store \<Rightarrow> nat" where
  "count_history m = length (calls m)"

definition delete_history_session :: "string \<Rightarrow> memory_store \<Rightarrow> nat \<times> memory_store" where
  "delete_history_session session m =
     (if session = '''' then (0, m)
      else (let kept = filter (\<lambda>r. c_Session (sr_call r) \<noteq> session) (calls m)
            in (length (filter (\<lambda>r. c_Session (sr_call r) = session) (calls m)),
                m\<lparr>calls := kept, currentBytes := sum_list (map sr_size kept)\<rparr>)))"

section \<open>Reading\<close>

record filter_opts =
  fo_Service :: string
  fo_Method :: string
  fo_Session :: string
  fo_ErrorOnly :: bool

definition history_keeps :: "filter_opts \<Rightarrow> call_record \<Rightarrow> bool" where
  "history_keeps opts c =
     (if fo_Service opts \<noteq> '''' \<and> c_Service c \<noteq> fo_Service opts then False
      else if fo_Method opts \<noteq> '''' \<and> c_Method c \<noteq> fo_Method opts then False
      else if fo_Session opts \<noteq> '''' \<and> c_Session c \<noteq> '''' \<and> c_Session c \<noteq> fo_Session opts then False
      else if fo_ErrorOnly opts \<and> c_Code c = 0 \<and> c_Error c = '''' then False
      else True)"

definition history_filter :: "filter_opts \<Rightarrow> memory_store \<Rightarrow> call_record list" where
  "history_filter opts m = filter (history_keeps opts) (map sr_call (calls m))"

definition no_filter :: filter_opts where
  "no_filter = \<lparr>fo_Service = '''', fo_Method = '''', fo_Session = '''', fo_ErrorOnly = False\<rparr>"

definition history_all :: "memory_store \<Rightarrow> call_record list" where
  "history_all m = history_filter no_filter m"

definition count_filter :: "filter_opts \<Rightarrow> memory_store \<Rightarrow> nat" where
  "count_filter opts m = length (history_filter opts m)"

definition filter_by_method :: "string \<Rightarrow> string \<Rightarrow> memory_store \<Rightarrow> call_record list" where
  "filter_by_method service method m =
     history_filter (no_filter\<lparr>fo_Service := service, fo_Method := method\<rparr>) m"

text \<open>The ring of the page: the record number \<open>n\<close> lands in place \<open>n mod size\<close>.\<close>

fun ring_fill :: "nat \<Rightarrow> 'a list \<Rightarrow> nat \<Rightarrow> 'a list \<Rightarrow> 'a list \<times> nat" where
  "ring_fill sz ring n [] = (ring, n)"
| "ring_fill sz ring n (x # xs) = ring_fill sz (ring[n mod sz := x]) (Suc n) xs"

text \<open>A page of the newest records; \<open>None\<close> is the panic of \<^verbatim>\<open>make\<close> on a negative length.\<close>

definition filter_window ::
  "filter_opts \<Rightarrow> int \<Rightarrow> int \<Rightarrow> memory_store \<Rightarrow> (call_record list \<times> nat) option" where
  "filter_window opts limit off m =
     (let off = max off 0 in
      if limit \<le> 0 then
        (let ms = history_filter opts m
         in Some (take (nat (max (int (length ms) - off) 0)) ms, length ms))
      else
        (let ring_size = wrap64 (limit + off) in
         if ring_size < 0 then None
         else
           (let sz = nat ring_size;
                (ring, total) = ring_fill sz (replicate sz empty_record) 0 (history_filter opts m);
                kept = min total sz;
                ordered = map (\<lambda>i. ring ! ((total - kept + i) mod sz)) [0..<kept];
                end' = nat (max (int (length ordered) - off) 0)
            in Some (drop (nat (max (int end' - limit) 0)) (take end' ordered), total))))"

text \<open>The page of a reader that cannot page by itself.\<close>

definition reader_window :: "int \<Rightarrow> int \<Rightarrow> call_record list \<Rightarrow> call_record list \<times> nat" where
  "reader_window limit off cs =
     (let total = length cs; end' = nat (max (int total - max off 0) 0);
          start = (if 0 < limit then nat (max (int end' - limit) 0) else 0)
      in (drop start (take end' cs), total))"

definition history_window ::
  "bool \<Rightarrow> filter_opts \<Rightarrow> int \<Rightarrow> int \<Rightarrow> memory_store \<Rightarrow> (call_record list \<times> nat) option" where
  "history_window windower opts limit off m =
     (if windower then filter_window opts limit off m
      else Some (reader_window limit off (history_filter opts m)))"

definition purge_history_records :: "string \<Rightarrow> memory_store \<Rightarrow> nat \<times> memory_store" where
  "purge_history_records session m =
     (if session \<noteq> '''' then delete_history_session session m else (count_history m, clear_history m))"

end
