(* ===== verification/History_Claims.thy ===== *)
theory History_Claims
  imports History
begin

text \<open>
  The history keeps its byte count and its limit, stores no value of a redacted key, evicts only the
  oldest records, and its ring returns the page of the newest records.
\<close>

section \<open>Eviction\<close>

lemma evict_suffix:
  assumes "evict limit cur rs = (rs', cur')" and "rs \<noteq> []" and "cur = sum_list (map sr_size rs)"
  shows "\<exists>old. rs = old @ rs' \<and> rs' \<noteq> [] \<and> cur' = sum_list (map sr_size rs') \<and>
     (0 < limit \<longrightarrow> cur' \<le> limit \<or> length rs' = 1) \<and>
     (old \<noteq> [] \<longrightarrow> 0 < limit \<and> limit < sr_size (last old) + cur')"
  using assms
proof (induction limit cur rs rule: evict.induct)
  case (1 limit cur r r' rs)
  show ?case
  proof (cases "0 < limit \<and> limit < cur")
    case True
    then have "\<exists>old. r' # rs = old @ rs' \<and> rs' \<noteq> [] \<and> cur' = sum_list (map sr_size rs') \<and>
       (0 < limit \<longrightarrow> cur' \<le> limit \<or> length rs' = 1) \<and>
       (old \<noteq> [] \<longrightarrow> 0 < limit \<and> limit < sr_size (last old) + cur')"
      using "1.prems" by (intro "1.IH") auto
    then obtain old where old: "r' # rs = old @ rs'" "rs' \<noteq> []" "cur' = sum_list (map sr_size rs')"
      "0 < limit \<longrightarrow> cur' \<le> limit \<or> length rs' = 1"
      "old \<noteq> [] \<longrightarrow> 0 < limit \<and> limit < sr_size (last old) + cur'" by blast
    have "old = [] \<Longrightarrow> limit < sr_size r + cur'"
      using old(1,3) True "1.prems"(3) by auto
    then show ?thesis
      using old True by (intro exI [of _ "r # old"]) auto
  next
    case False
    then show ?thesis using "1.prems" by (intro exI [of _ "[]"]) auto
  qed
qed auto

section \<open>Redaction\<close>

text \<open>No value under one of the keys is left, at any depth.\<close>

fun redacted :: "string list \<Rightarrow> gvalue \<Rightarrow> bool" where
  "redacted keys (VMap m) =
     list_all (\<lambda>(k, v). if str_lower k \<in> set keys then v = VString redacted_value
                        else redacted keys v) m"
| "redacted keys (VList xs) = list_all (redacted keys) xs"
| "redacted keys v = True"

lemma redacted_no_keys: "redacted [] v"
  by (induction "[] :: string list" v rule: redacted.induct) (auto simp: list_all_iff)

lemma redact_value_redacted: "redacted keys (redact_value keys v)"
proof (cases "keys = []")
  case True
  then show ?thesis by (simp add: redacted_no_keys)
next
  case False
  then show ?thesis
    by (induction keys v rule: redact_value.induct) (auto simp: list_all_iff)
qed

definition message_redacted :: "string list \<Rightarrow> gomap \<Rightarrow> bool" where
  "message_redacted keys m \<longleftrightarrow> m = truncated_marker \<or> redacted keys (VMap (entries m))"

definition call_redacted :: "string list \<Rightarrow> call_record \<Rightarrow> bool" where
  "call_redacted keys c \<longleftrightarrow>
     list_all (message_redacted keys) (c_Requests c @ c_Responses c) \<and>
     (\<forall>h. c_ResponseHeaders c = Some h \<longrightarrow>
        list_all (\<lambda>(k, v). str_lower k \<in> set keys \<longrightarrow> v = redacted_value) h)"

lemma redact_map_redacted: "message_redacted keys (redact_map keys m)"
proof -
  have "redacted keys (VMap (entries (redact_map keys m)))"
    using redact_value_redacted [of keys "VMap (entries m)"]
    by (cases m; cases "keys = []")
      (auto simp: redact_map_def redacted_no_keys simp del: redacted.simps(1))
  then show ?thesis unfolding message_redacted_def by (rule disjI2)
qed

lemma truncate_redacted: "message_redacted keys m \<Longrightarrow> message_redacted keys (truncate_message jl n m)"
  by (simp add: truncate_message_def message_redacted_def del: redacted.simps split: option.split)

lemma stored_form_redacted: "call_redacted (redactKeys m) (stored_form jl m c)"
proof (cases "redactKeys m = []")
  case True
  have "message_redacted [] x" for x by (simp only: message_redacted_def redacted_no_keys simp_thms)
  then show ?thesis using True by (simp add: call_redacted_def list_all_iff)
next
  case False
  have "call_redacted (redactKeys m) (redact_record (redactKeys m) c)"
    by (auto simp: call_redacted_def redact_record_def redact_string_map_def list_all_iff
        redact_map_redacted)
  then show ?thesis
    using False
    by (auto simp: stored_form_def Let_def call_redacted_def truncate_record_def list_all_iff
        truncate_redacted)
qed

section \<open>The invariant\<close>

definition message_bounded :: "(gomap \<Rightarrow> int option) \<Rightarrow> int \<Rightarrow> gomap \<Rightarrow> bool" where
  "message_bounded jl n m \<longleftrightarrow> m = truncated_marker \<or> (\<forall>k. jl m = Some k \<longrightarrow> k \<le> n)"

definition history_ok :: "(gomap \<Rightarrow> int option) \<Rightarrow> memory_store \<Rightarrow> bool" where
  "history_ok jl m \<longleftrightarrow>
     currentBytes m = sum_list (map sr_size (calls m)) \<and>
     (0 < limitBytes m \<longrightarrow> currentBytes m \<le> limitBytes m \<or> length (calls m) = 1) \<and>
     (\<forall>r\<in>set (calls m). sr_size r = estimate_record_size (sr_call r) \<and>
        call_redacted (redactKeys m) (sr_call r) \<and>
        (0 < messageMaxBytes m \<longrightarrow>
           list_all (message_bounded jl (messageMaxBytes m))
             (c_Requests (sr_call r) @ c_Responses (sr_call r))))"

inductive history_reachable :: "(gomap \<Rightarrow> int option) \<Rightarrow> int \<Rightarrow> int \<Rightarrow> string list \<Rightarrow> memory_store \<Rightarrow> bool"
  for jl limit max_message keys where
  start: "history_reachable jl limit max_message keys (new_memory_store limit max_message keys)"
| call: "history_reachable jl limit max_message keys m
    \<Longrightarrow> history_reachable jl limit max_message keys (record_call jl c m)"
| owned: "history_reachable jl limit max_message keys m
    \<Longrightarrow> history_reachable jl limit max_message keys (record_owned jl c m)"
| purge: "history_reachable jl limit max_message keys m
    \<Longrightarrow> history_reachable jl limit max_message keys (snd (purge_history_records session m))"

lemma truncate_bounded: "message_bounded jl n (truncate_message jl n m)"
  by (cases "jl m") (auto simp: message_bounded_def truncate_message_def)

lemma stored_form_bounded:
  "0 < messageMaxBytes m \<Longrightarrow>
     list_all (message_bounded jl (messageMaxBytes m))
       (c_Requests (stored_form jl m c) @ c_Responses (stored_form jl m c))"
  by (auto simp: stored_form_def Let_def truncate_record_def list_all_iff truncate_bounded)

lemma record_owned_spec:
  assumes "currentBytes m = sum_list (map sr_size (calls m))"
    and "r = \<lparr>sr_call = stored_form jl m c, sr_size = estimate_record_size (stored_form jl m c)\<rparr>"
  shows "\<exists>old. calls m @ [r] = old @ calls (record_owned jl c m) \<and>
     calls (record_owned jl c m) \<noteq> [] \<and>
     record_owned jl c m = m\<lparr>calls := calls (record_owned jl c m),
       currentBytes := sum_list (map sr_size (calls (record_owned jl c m)))\<rparr> \<and>
     (0 < limitBytes m \<longrightarrow> currentBytes (record_owned jl c m) \<le> limitBytes m \<or>
        length (calls (record_owned jl c m)) = 1) \<and>
     (old \<noteq> [] \<longrightarrow> 0 < limitBytes m \<and>
        limitBytes m < sr_size (last old) + currentBytes (record_owned jl c m))"
proof -
  obtain rs cur where e: "evict (limitBytes m) (currentBytes m + sr_size r) (calls m @ [r]) = (rs, cur)"
    by (cases "evict (limitBytes m) (currentBytes m + sr_size r) (calls m @ [r])")
  have ro: "record_owned jl c m = m\<lparr>calls := rs, currentBytes := cur\<rparr>"
    using e by (simp add: record_owned_def Let_def assms(2))
  have "\<exists>old. calls m @ [r] = old @ rs \<and> rs \<noteq> [] \<and> cur = sum_list (map sr_size rs) \<and>
     (0 < limitBytes m \<longrightarrow> cur \<le> limitBytes m \<or> length rs = 1) \<and>
     (old \<noteq> [] \<longrightarrow> 0 < limitBytes m \<and> limitBytes m < sr_size (last old) + cur)"
    by (rule evict_suffix [OF e]) (simp_all add: assms(1))
  then show ?thesis unfolding ro by auto
qed

lemma record_owned_ok: "history_ok jl m \<Longrightarrow> history_ok jl (record_owned jl c m)"
proof -
  assume ok: "history_ok jl m"
  let ?c = "stored_form jl m c" and ?m = "record_owned jl c m"
  let ?r = "\<lparr>sr_call = ?c, sr_size = estimate_record_size ?c\<rparr>"
  have "currentBytes m = sum_list (map sr_size (calls m))" using ok by (simp add: history_ok_def)
  from record_owned_spec [OF this refl, of jl c] obtain old where
    cs: "calls m @ [?r] = old @ calls ?m" and
    eq: "?m = m\<lparr>calls := calls ?m, currentBytes := sum_list (map sr_size (calls ?m))\<rparr>" and
    lim: "0 < limitBytes m \<longrightarrow> currentBytes ?m \<le> limitBytes m \<or> length (calls ?m) = 1" by blast
  have sub: "set (calls ?m) \<subseteq> insert ?r (set (calls m))"
    using arg_cong [OF cs, of set] by auto
  have fields: "limitBytes ?m = limitBytes m" "messageMaxBytes ?m = messageMaxBytes m"
    "redactKeys ?m = redactKeys m" "currentBytes ?m = sum_list (map sr_size (calls ?m))"
    by (subst eq, simp)+
  have "sr_size r = estimate_record_size (sr_call r) \<and> call_redacted (redactKeys m) (sr_call r) \<and>
        (0 < messageMaxBytes m \<longrightarrow>
           list_all (message_bounded jl (messageMaxBytes m))
             (c_Requests (sr_call r) @ c_Responses (sr_call r)))" if "r \<in> set (calls ?m)" for r
    using sub that ok stored_form_redacted [of m jl c] stored_form_bounded [of m jl c]
    by (cases "r = ?r") (auto simp: history_ok_def)
  then show ?thesis using lim by (simp add: history_ok_def fields)
qed

lemma sum_sizes_filter:
  "\<forall>r\<in>set rs. 0 \<le> sr_size r \<Longrightarrow> sum_list (map sr_size (filter P rs)) \<le> sum_list (map sr_size rs)"
  by (induction rs) auto

lemma purge_ok: "history_ok jl m \<Longrightarrow> history_ok jl (snd (purge_history_records session m))"
proof -
  assume ok: "history_ok jl m"
  have pos: "\<forall>r\<in>set (calls m). 0 \<le> sr_size r"
    using ok estimate_record_size_pos by (auto simp: history_ok_def intro: order_trans [of 0 160])
  let ?P = "\<lambda>r. c_Session (sr_call r) \<noteq> session"
  have "length (filter ?P (calls m)) = 0 \<or> length (filter ?P (calls m)) = 1"
    if "length (calls m) = 1"
    using that length_filter_le [of ?P "calls m"] by linarith
  then show ?thesis
    using ok sum_sizes_filter [OF pos, of ?P]
    by (auto simp: purge_history_records_def delete_history_session_def clear_history_def
        history_ok_def Let_def)
qed

section \<open>The ring\<close>

text \<open>After \<open>n\<close> records the place \<open>j mod sz\<close> holds record \<open>j\<close>, for the last \<open>sz\<close> of them.\<close>

lemma ring_fill_keeps:
  assumes "length ring = sz"
    and "\<forall>j<length pre. length pre - j \<le> sz \<longrightarrow> ring ! (j mod sz) = pre ! j"
    and "ring_fill sz ring (length pre) xs = (ring', n)" and "0 < sz"
  shows "n = length (pre @ xs) \<and>
     (\<forall>j<n. n - j \<le> sz \<longrightarrow> ring' ! (j mod sz) = (pre @ xs) ! j)"
  using assms
proof (induction xs arbitrary: ring pre)
  case Nil
  then show ?case by simp
next
  case (Cons x xs)
  let ?ring = "ring[length pre mod sz := x]"
  have keep: "?ring ! (j mod sz) = (pre @ [x]) ! j"
    if j: "j < length (pre @ [x])" and d: "length (pre @ [x]) - j \<le> sz" for j
  proof (cases "j = length pre")
    case True
    then show ?thesis using Cons.prems(1,4) by simp
  next
    case False
    with j have less: "j < length pre" by simp
    have "j mod sz \<noteq> length pre mod sz"
    proof
      assume "j mod sz = length pre mod sz"
      then have "sz dvd length pre - j"
        using less by (metis mod_eq_dvd_iff_nat less_imp_le)
      then have "sz \<le> length pre - j" using less by (simp add: dvd_imp_le)
      then show False using d less by simp
    qed
    moreover have "ring ! (j mod sz) = pre ! j" using Cons.prems(2) less d by simp
    ultimately show ?thesis using less by (simp add: nth_append)
  qed
  have "n = length ((pre @ [x]) @ xs) \<and>
     (\<forall>j<n. n - j \<le> sz \<longrightarrow> ring' ! (j mod sz) = ((pre @ [x]) @ xs) ! j)"
    by (rule Cons.IH) (use Cons.prems keep in auto)
  then show ?case by simp
qed

lemma ring_window:
  assumes "ring_fill sz (replicate sz d) 0 xs = (ring, tot)" and "0 < sz"
  shows "tot = length xs \<and>
     map (\<lambda>i. ring ! ((tot - min tot sz + i) mod sz)) [0..<min tot sz] =
       drop (length xs - min (length xs) sz) xs"
proof -
  have *: "tot = length xs" "\<forall>j<tot. tot - j \<le> sz \<longrightarrow> ring ! (j mod sz) = xs ! j"
    using ring_fill_keeps [of "replicate sz d" sz "[]" xs ring tot] assms by auto
  show ?thesis
    using * by (auto intro!: nth_equalityI)
qed

lemma window_of_tail:
  assumes "0 < limit" and "0 \<le> off" and "limit + off = int k"
    and "e = nat (max (int (min (length xs) k) - off) 0)"
  shows "drop (nat (max (int e - limit) 0)) (take e (drop (length xs - min (length xs) k) xs)) =
     fst (reader_window limit off xs)"
proof (cases "length xs \<le> k")
  case True
  then show ?thesis using assms by (simp add: reader_window_def Let_def)
next
  case False
  then have e: "int e = int k - off" "length xs - min (length xs) k = length xs - k"
    using assms by (auto simp: min_def)
  let ?e = "nat (int (length xs) - off)"
  have "take e (drop (length xs - k) xs) = drop (length xs - k) (take (length xs - k + e) xs)"
    by (simp add: take_drop add.commute)
  moreover have "length xs - k + e = ?e" using e(1) False by linarith
  moreover have "nat (max (int e - limit) 0) + (length xs - k) = nat (max (int ?e - limit) 0)"
    using e(1) False assms by linarith
  ultimately have "drop (nat (max (int e - limit) 0)) (take e (drop (length xs - k) xs)) =
      drop (nat (max (int ?e - limit) 0)) (take ?e xs)"
    by (simp only: drop_drop)
  moreover have "max off 0 = off" "max (int (length xs) - off) 0 = int (length xs) - off"
    using e(1) False assms by linarith+
  ultimately show ?thesis
    by (simp only: reader_window_def Let_def e(2) assms(1) if_True fst_conv)
qed

lemma filter_window_eq:
  assumes "limit + max off 0 < 2 ^ 63"
  shows "filter_window opts limit off m = Some (reader_window limit off (history_filter opts m))"
proof (cases "limit \<le> 0")
  case True
  then show ?thesis by (simp add: filter_window_def reader_window_def Let_def)
next
  case False
  define xs where "xs = history_filter opts m"
  define o' where "o' = max off 0"
  define sz where "sz = nat (limit + o')"
  have size: "wrap64 (limit + o') = limit + o'" "0 < limit" "0 \<le> o'" "0 < sz" "limit + o' = int sz"
    using False assms by (auto simp: int64_range_def o'_def sz_def)
  obtain ring tot where rf: "ring_fill sz (replicate sz empty_record) 0 xs = (ring, tot)"
    by (cases "ring_fill sz (replicate sz empty_record) 0 xs")
  note w = ring_window [OF rf size(4)]
  have "filter_window opts limit off m =
    Some (drop (nat (max (int (nat (max (int (min (length xs) sz) - o') 0)) - limit) 0))
       (take (nat (max (int (min (length xs) sz) - o') 0)) (drop (length xs - min (length xs) sz) xs)),
       length xs)"
    using False rf size
    by (simp only: filter_window_def Let_def xs_def [symmetric] o'_def [symmetric] nat_int
        prod.case w [THEN conjunct1] w [THEN conjunct2, unfolded w [THEN conjunct1]])
      (simp add: w)
  also have "\<dots> = Some (fst (reader_window limit o' xs), length xs)"
    using window_of_tail [of limit o' sz _ xs] size by simp
  also have "\<dots> = Some (reader_window limit off xs)"
    by (simp add: reader_window_def Let_def o'_def)
  finally show ?thesis by (simp add: xs_def)
qed

section \<open>Properties\<close>

lemma history_config:
  "history_reachable jl limit max_message keys m \<Longrightarrow>
     limitBytes m = limit \<and> messageMaxBytes m = max_message \<and> redactKeys m = redact_keys_of keys"
proof (induction rule: history_reachable.induct)
  case start
  then show ?case by (simp add: new_memory_store_def)
next
  case (purge m session)
  then show ?case
    by (auto simp: purge_history_records_def delete_history_session_def clear_history_def Let_def)
qed (auto simp: record_call_def record_owned_def Let_def split: prod.splits)

lemma history_reachable_ok: "history_reachable jl limit max_message keys m \<Longrightarrow> history_ok jl m"
  by (induction rule: history_reachable.induct)
    (auto simp: record_call_def record_owned_ok purge_ok,
     simp add: history_ok_def new_memory_store_def)

text \<open>C21. In every history that recording and purging reach, the byte count is the sum of the estimated
  sizes of the records, it is within the limit unless a single record is left, and no stored message
  or header holds a value of a redacted key, at any depth.\<close>

theorem history_invariant:
  assumes "history_reachable jl limit max_message keys m"
  shows "currentBytes m = sum_list (map (\<lambda>r. estimate_record_size (sr_call r)) (calls m)) \<and>
    (0 < limit \<longrightarrow> currentBytes m \<le> limit \<or> length (calls m) = 1) \<and>
    (\<forall>c\<in>set (history_all m). call_redacted (redact_keys_of keys) c \<and>
       (0 < max_message \<longrightarrow>
          list_all (message_bounded jl max_message) (c_Requests c @ c_Responses c)))"
proof -
  have ok: "history_ok jl m" using history_reachable_ok [OF assms] .
  have "map sr_size (calls m) = map (\<lambda>r. estimate_record_size (sr_call r)) (calls m)"
    using ok by (simp add: history_ok_def)
  from arg_cong [OF this, of sum_list]
  have "currentBytes m = sum_list (map (\<lambda>r. estimate_record_size (sr_call r)) (calls m))"
    using ok unfolding history_ok_def by (elim conjE) (rule trans)
  then show ?thesis
    using ok history_config [OF assms]
    by (auto simp: history_ok_def history_all_def history_filter_def)
qed

definition sample_call :: "string \<Rightarrow> call_record" where
  "sample_call session =
     empty_record\<lparr>c_Service := ''S'', c_Session := session,
       c_Requests := [Some [(''Password'', VString ''x'')]]\<rparr>"

lemma history_invariant_witness:
  "let m = record_owned (\<lambda>_. Some 5) (sample_call ''b'')
             (record_owned (\<lambda>_. Some 5) (sample_call ''a'') (new_memory_store 300 10 [''password'']))
   in length (calls m) = 1 \<and> (0 < (300 :: int) \<longrightarrow> currentBytes m \<le> 300 \<or> length (calls m) = 1) \<and>
      (\<forall>c\<in>set (history_all m). call_redacted (redact_keys_of [''password'']) c)"
proof -
  let ?j = "\<lambda>_. Some 5" and ?n = "new_memory_store 300 10 [''password'']"
  let ?m = "record_owned ?j (sample_call ''b'') (record_owned ?j (sample_call ''a'') ?n)"
  have "history_reachable ?j 300 10 [''password''] ?m" by (intro history_reachable.intros)
  note inv = history_invariant [OF this]
  moreover have "length (calls ?m) = 1" by code_simp
  ultimately show ?thesis by (simp only: Let_def) blast
qed

text \<open>Recording appends the redacted, truncated form of the call and evicts a shortest prefix of the
  old records: the last record evicted would have exceeded the limit.\<close>

lemma history_evicts_oldest:
  assumes "history_reachable jl limit max_message keys m"
  shows "\<exists>old :: stored_record list. map sr_call (calls m) @ [stored_form jl m c] =
      map sr_call old @ history_all (record_owned jl c m) \<and>
    history_all (record_owned jl c m) \<noteq> [] \<and>
    (old \<noteq> [] \<longrightarrow> 0 < limit \<and> limit < sr_size (last old) + currentBytes (record_owned jl c m))"
proof -
  have "currentBytes m = sum_list (map sr_size (calls m))"
    using history_reachable_ok [OF assms] by (simp add: history_ok_def)
  from record_owned_spec [OF this refl, of jl c] obtain old where old:
    "calls m @ [\<lparr>sr_call = stored_form jl m c, sr_size = estimate_record_size (stored_form jl m c)\<rparr>] =
       old @ calls (record_owned jl c m)"
    "calls (record_owned jl c m) \<noteq> []"
    "old \<noteq> [] \<longrightarrow> 0 < limitBytes m \<and>
       limitBytes m < sr_size (last old) + currentBytes (record_owned jl c m)" by blast
  have all: "history_all x = map sr_call (calls x)" for x
    by (simp add: history_all_def history_filter_def history_keeps_def no_filter_def)
  show ?thesis
    using arg_cong [OF old(1), of "map sr_call"] old(2,3) history_config [OF assms]
    by (intro exI [of _ old]) (simp add: all)
qed

lemma history_evicts_oldest_witness:
  "\<exists>old :: stored_record list. map sr_call (calls (new_memory_store 300 0 [])) @ [sample_call ''a''] =
      map sr_call old @ history_all (record_owned (\<lambda>_. None) (sample_call ''a'') (new_memory_store 300 0 []))"
  using history_evicts_oldest [OF history_reachable.start, where jl = "\<lambda>_. None" and limit = 300
      and max_message = 0 and keys = "[]" and c = "sample_call ''a''"]
  by (auto simp: stored_form_def new_memory_store_def redact_keys_of_def)

lemma reader_window_newest:
  "reader_window limit off cs =
     (let rest = drop (nat off) (rev cs)
      in rev (if 0 < limit then take (nat limit) rest else rest), length cs)"
proof -
  have n: "nat (max (int (length cs) - max off 0) 0) = length cs - nat off" by linarith
  have "nat (max (int (length cs - nat off) - limit) 0) = length cs - nat off - nat limit"
    if "0 < limit" using that by linarith
  then show ?thesis
    by (simp add: reader_window_def Let_def n rev_take rev_drop)
qed

text \<open>The ring returns the same page as the reference that copies the whole history: the newest
  \<open>limit\<close> records after skipping \<open>off\<close> of them, in the order they were recorded.\<close>

lemma history_pages:
  assumes "limit + max off 0 < 2 ^ 63"
  shows "filter_window opts limit off m =
    Some (let rest = drop (nat off) (rev (history_filter opts m))
          in rev (if 0 < limit then take (nat limit) rest else rest), count_filter opts m)"
  using filter_window_eq [OF assms, of opts m]
  by (simp add: reader_window_newest count_filter_def)

lemma history_pages_witness:
  "filter_window no_filter 1 0 (record_owned (\<lambda>_. None) (sample_call ''b'')
      (record_owned (\<lambda>_. None) (sample_call ''a'') (new_memory_store 0 0 []))) =
    Some ([sample_call ''b''], 2)"
  by (subst history_pages) (simp, code_simp)

text \<open>A limit and an offset whose sum exceeds 63 bits make the length of the ring negative, and
  \<^verbatim>\<open>make\<close> panics; both come from the query string of the request.\<close>

lemma history_page_panics: "filter_window opts (2 ^ 63 - 1) 1 m = None"
  by (simp add: filter_window_def wrap64_def)

text \<open>Purging a session removes exactly its own records and counts them; calls without a session
  stay, for that session and for every other.\<close>

lemma purge_removes_session:
  assumes "session \<noteq> ''''"
  shows "case purge_history_records session m of (n, m') \<Rightarrow>
    history_all m' = filter (\<lambda>c. c_Session c \<noteq> session) (history_all m) \<and>
    n + length (history_all m') = length (history_all m) \<and>
    history_filter (no_filter\<lparr>fo_Session := session\<rparr>) m' =
      filter (\<lambda>c. c_Session c = '''') (history_all m)"
proof -
  have all: "history_all x = map sr_call (calls x)" for x
    by (simp add: history_all_def history_filter_def history_keeps_def no_filter_def)
  have "(\<lambda>x. (c_Session (sr_call x) = '''' \<or> c_Session (sr_call x) = session) \<and>
      c_Session (sr_call x) \<noteq> session) = (\<lambda>x. c_Session (sr_call x) = '''')"
    using assms by auto
  then show ?thesis
    using assms sum_length_filter_compl [of "\<lambda>r. c_Session (sr_call r) = session" "calls m"]
    by (simp add: purge_history_records_def delete_history_session_def Let_def all filter_map
        comp_def history_filter_def history_keeps_def no_filter_def)
      (rule arg_cong [of _ _ "map sr_call"], rule filter_cong, auto)
qed

lemma purge_removes_session_witness:
  "case purge_history_records ''a'' (record_owned (\<lambda>_. None) (sample_call ''a'') (new_memory_store 0 0 []))
   of (n, m') \<Rightarrow> n + length (history_all m') = 1"
proof -
  let ?m = "record_owned (\<lambda>_. None) (sample_call ''a'') (new_memory_store 0 0 [])"
  have "length (history_all ?m) = 1" by code_simp
  moreover obtain n m' where p: "purge_history_records ''a'' ?m = (n, m')" by fastforce
  moreover have "n + length (history_all m') = length (history_all ?m)"
    using purge_removes_session [of "''a''" ?m] unfolding p by (simp only: prod.case) blast
  ultimately show ?thesis by (simp only: prod.case)
qed

end
