(* ===== verification/Session_GC.thy ===== *)
theory Session_GC
  imports Budgerigar_Claims History_Claims
begin

text \<open>
  Sessions: the tracker of last-seen times, \<^verbatim>\<open>internal/infra/session/tracker.go\<close>, the requests that
  touch it, \<^verbatim>\<open>internal/infra/muxmiddleware/session_request.go\<close>, and the sweep that removes expired
  sessions, \<^verbatim>\<open>internal/deps/session_gc.go\<close>, first alone and then interleaved with the clients.
  Times are integers (nanoseconds); \<^verbatim>\<open>Sub\<close> saturates, which no comparison with a positive TTL sees.
\<close>

section \<open>The tracker\<close>

type_synonym tracker = "(string \<times> int) list"

definition touch :: "string \<Rightarrow> int \<Rightarrow> tracker \<Rightarrow> tracker" where
  "touch s w t = (if s = '''' then t else m_put s w t)"

definition forget_if_expired :: "string \<Rightarrow> int \<Rightarrow> int \<Rightarrow> tracker \<Rightarrow> bool \<times> tracker" where
  "forget_if_expired s now ttl t =
     (if s = '''' then (False, t)
      else case map_of t s of
             None \<Rightarrow> (False, t)
           | Some seen \<Rightarrow> if 0 < ttl \<and> now - seen < ttl then (False, t) else (True, m_del s t))"

definition tracked_ids :: "tracker \<Rightarrow> string list" where
  "tracked_ids t = sort (map fst t)"

definition expired :: "int \<Rightarrow> int \<Rightarrow> tracker \<Rightarrow> string list" where
  "expired now ttl t = sort (map fst (filter (\<lambda>(_, seen). ttl \<le> 0 \<or> ttl \<le> now - seen) t))"

text \<open>The session of a request is the trimmed header; reading it touches the session.\<close>

definition consume_session :: "string \<Rightarrow> int \<Rightarrow> tracker \<Rightarrow> string \<times> tracker" where
  "consume_session header now t =
     (let v = trim_space header in if v = '''' then ('''', t) else (v, touch v now t))"

fun session_from_metadata :: "string list \<Rightarrow> int \<Rightarrow> tracker \<Rightarrow> string \<times> tracker" where
  "session_from_metadata [] now t = ('''', t)"
| "session_from_metadata (h # hs) now t =
     (if trim_space h \<noteq> '''' then (trim_space h, touch (trim_space h) now t)
      else session_from_metadata hs now t)"

section \<open>The sweep\<close>

record gc_system =
  tracker_of :: tracker
  engine :: searcher
  history_of :: "memory_store option"

definition delete_session_data :: "golib \<Rightarrow> string \<Rightarrow> gc_system \<Rightarrow> gc_system" where
  "delete_session_data g s \<sigma> =
     \<sigma>\<lparr>engine := snd (delete_session g s (engine \<sigma>)),
       history_of := map_option (\<lambda>h. snd (delete_history_session s h)) (history_of \<sigma>)\<rparr>"

definition sweep_one :: "golib \<Rightarrow> int \<Rightarrow> int \<Rightarrow> string \<Rightarrow> gc_system \<Rightarrow> gc_system" where
  "sweep_one g now ttl s \<sigma> =
     (let (forgotten, t) = forget_if_expired s now ttl (tracker_of \<sigma>) in
      if \<not> forgotten then \<sigma>
      else delete_session_data g s (\<sigma>\<lparr>tracker_of := t\<rparr>))"

definition cleanup_expired_sessions :: "golib \<Rightarrow> int \<Rightarrow> int \<Rightarrow> gc_system \<Rightarrow> gc_system" where
  "cleanup_expired_sessions g now ttl \<sigma> = fold (sweep_one g now ttl) (expired now ttl (tracker_of \<sigma>)) \<sigma>"

text \<open>The collector runs only with a positive interval and TTL.\<close>

definition gc_enabled :: "int \<Rightarrow> int \<Rightarrow> bool" where
  "gc_enabled interval ttl \<longleftrightarrow> \<not> (interval \<le> 0 \<or> ttl \<le> 0)"

section \<open>The sweep alone\<close>

definition tracker_ok :: "tracker \<Rightarrow> bool" where
  "tracker_ok t \<longleftrightarrow> m_ok t \<and> '''' \<notin> fst ` set t"

lemma tracker_ok_touch [simp]: "tracker_ok t \<Longrightarrow> tracker_ok (touch s w t)"
  by (auto simp: tracker_ok_def touch_def dom_update)

lemma expired_set:
  assumes "tracker_ok t"
  shows "s \<in> set (expired now ttl t) \<longleftrightarrow> (\<exists>seen. map_of t s = Some seen \<and> (ttl \<le> 0 \<or> ttl \<le> now - seen))"
    and "distinct (expired now ttl t)"
proof -
  have "m_ok t" using assms by (simp add: tracker_ok_def)
  then show "s \<in> set (expired now ttl t) \<longleftrightarrow>
      (\<exists>seen. map_of t s = Some seen \<and> (ttl \<le> 0 \<or> ttl \<le> now - seen))"
    by (force simp: expired_def m_ok_set_iff [symmetric])
  show "distinct (expired now ttl t)"
    using \<open>m_ok t\<close> by (simp add: expired_def m_ok_def distinct_map_filter)
qed

definition engine_ok :: "golib \<Rightarrow> gc_system \<Rightarrow> bool" where
  "engine_ok g \<sigma> \<longleftrightarrow> storage_ok g (ext (engine \<sigma>))"

abbreviation stubs_of :: "gc_system \<Rightarrow> stub set" where
  "stubs_of \<sigma> \<equiv> stored (ext (engine \<sigma>))"

definition calls_of :: "gc_system \<Rightarrow> call_record list" where
  "calls_of \<sigma> = (case history_of \<sigma> of None \<Rightarrow> [] | Some h \<Rightarrow> map sr_call (calls h))"

lemma delete_session_stubs:
  assumes "engine_ok g \<sigma>" and "s \<noteq> ''''"
  shows "stored (ext (snd (delete_session g s (engine \<sigma>)))) = {v \<in> stubs_of \<sigma>. Session v \<noteq> s}"
    and "storage_ok g (ext (snd (delete_session g s (engine \<sigma>))))"
  using assms stored_del_by_session [of g "ext (engine \<sigma>)" s] storage_ok_del_by_session [of g "ext (engine \<sigma>)" s]
  by (simp_all add: engine_ok_def delete_session_def searcher_del_by_session_def split_def Let_def)

lemma delete_session_data_effect:
  assumes "engine_ok g \<sigma>" and "s \<noteq> ''''"
  shows "stubs_of (delete_session_data g s \<sigma>) = {v \<in> stubs_of \<sigma>. Session v \<noteq> s}"
    and "engine_ok g (delete_session_data g s \<sigma>)"
    and "calls_of (delete_session_data g s \<sigma>) = filter (\<lambda>c. c_Session c \<noteq> s) (calls_of \<sigma>)"
    and "tracker_of (delete_session_data g s \<sigma>) = tracker_of \<sigma>"
proof -
  note del = delete_session_stubs [OF assms]
  show "stubs_of (delete_session_data g s \<sigma>) = {v \<in> stubs_of \<sigma>. Session v \<noteq> s}"
    "engine_ok g (delete_session_data g s \<sigma>)"
    using del by (simp_all add: delete_session_data_def engine_ok_def)
  show "calls_of (delete_session_data g s \<sigma>) = filter (\<lambda>c. c_Session c \<noteq> s) (calls_of \<sigma>)"
    using assms(2)
    by (cases "history_of \<sigma>")
      (simp_all add: delete_session_data_def calls_of_def delete_history_session_def Let_def
        filter_map comp_def)
qed (simp add: delete_session_data_def)

lemma sweep_list:
  assumes "engine_ok g \<sigma>" and "tracker_ok (tracker_of \<sigma>)" and "distinct ss"
    and "\<forall>s\<in>set ss. \<exists>seen. map_of (tracker_of \<sigma>) s = Some seen \<and> (ttl \<le> 0 \<or> ttl \<le> now - seen)"
  shows "stubs_of (fold (sweep_one g now ttl) ss \<sigma>) = {v \<in> stubs_of \<sigma>. Session v \<notin> set ss} \<and>
     calls_of (fold (sweep_one g now ttl) ss \<sigma>) = filter (\<lambda>c. c_Session c \<notin> set ss) (calls_of \<sigma>) \<and>
     map_of (tracker_of (fold (sweep_one g now ttl) ss \<sigma>)) = map_of (tracker_of \<sigma>) |` (- set ss) \<and>
     engine_ok g (fold (sweep_one g now ttl) ss \<sigma>)"
  using assms
proof (induction ss arbitrary: \<sigma>)
  case Nil
  then show ?case by simp
next
  case (Cons s ss)
  let ?\<sigma> = "delete_session_data g s (\<sigma>\<lparr>tracker_of := m_del s (tracker_of \<sigma>)\<rparr>)"
  obtain seen where seen: "map_of (tracker_of \<sigma>) s = Some seen" "ttl \<le> 0 \<or> ttl \<le> now - seen"
    using Cons.prems(4) by auto
  then have s: "s \<noteq> ''''" using Cons.prems(2) by (force simp: tracker_ok_def dest: map_of_SomeD)
  have one: "sweep_one g now ttl s \<sigma> = ?\<sigma>"
    using seen s by (auto simp: sweep_one_def forget_if_expired_def)
  have "engine_ok g (\<sigma>\<lparr>tracker_of := m_del s (tracker_of \<sigma>)\<rparr>)"
    using Cons.prems(1) by (simp add: engine_ok_def)
  note eff = delete_session_data_effect [OF this s]
  have t: "tracker_of ?\<sigma> = m_del s (tracker_of \<sigma>)" using eff(4) by simp
  have "stubs_of (fold (sweep_one g now ttl) ss ?\<sigma>) = {v \<in> stubs_of ?\<sigma>. Session v \<notin> set ss} \<and>
     calls_of (fold (sweep_one g now ttl) ss ?\<sigma>) = filter (\<lambda>c. c_Session c \<notin> set ss) (calls_of ?\<sigma>) \<and>
     map_of (tracker_of (fold (sweep_one g now ttl) ss ?\<sigma>)) = map_of (tracker_of ?\<sigma>) |` (- set ss) \<and>
     engine_ok g (fold (sweep_one g now ttl) ss ?\<sigma>)"
  proof (rule Cons.IH)
    show "tracker_ok (tracker_of ?\<sigma>)"
      using Cons.prems(2) unfolding t by (auto simp: tracker_ok_def AList.delete_eq m_ok_def distinct_map_filter)
    show "\<forall>s\<in>set ss. \<exists>seen. map_of (tracker_of ?\<sigma>) s = Some seen \<and> (ttl \<le> 0 \<or> ttl \<le> now - seen)"
      using Cons.prems(3,4) by (auto simp: t)
  qed (use eff(2) Cons.prems(3) in auto)
  moreover have "calls_of (\<sigma>\<lparr>tracker_of := x\<rparr>) = calls_of \<sigma>" for x by (simp add: calls_of_def)
  ultimately show ?case
    using eff(1,3) t
    by (auto simp: one restrict_map_def fun_eq_iff)
qed

section \<open>The sweep among clients\<close>

text \<open>
  The tracker, the stub engine and the history each have a lock of their own, so the collector's
  sweep is a sequence of atomic steps between which the clients' steps fall. The place of the
  collector: idle, before the re-check of the next session, or between the re-check and the
  deletion of the stubs or of the calls.
\<close>

datatype gc_place =
    Gc_Idle
  | Gc_Check int "string list"
  | Gc_Stubs int string "string list"
  | Gc_History int string "string list"

inductive gc_move :: "golib \<Rightarrow> int \<Rightarrow> gc_place \<times> gc_system \<Rightarrow> gc_place \<times> gc_system \<Rightarrow> bool" for g ttl where
  tick: "gc_move g ttl (Gc_Idle, \<sigma>) (Gc_Check now (expired now ttl (tracker_of \<sigma>)), \<sigma>)"
| keep: "forget_if_expired s now ttl (tracker_of \<sigma>) = (False, t) \<Longrightarrow>
    gc_move g ttl (Gc_Check now (s # ss), \<sigma>) (Gc_Check now ss, \<sigma>)"
| forget: "forget_if_expired s now ttl (tracker_of \<sigma>) = (True, t) \<Longrightarrow>
    gc_move g ttl (Gc_Check now (s # ss), \<sigma>) (Gc_Stubs now s ss, \<sigma>\<lparr>tracker_of := t\<rparr>)"
| stubs: "gc_move g ttl (Gc_Stubs now s ss, \<sigma>)
    (Gc_History now s ss, \<sigma>\<lparr>engine := snd (delete_session g s (engine \<sigma>))\<rparr>)"
| history: "gc_move g ttl (Gc_History now s ss, \<sigma>)
    (Gc_Check now ss, \<sigma>\<lparr>history_of := map_option (\<lambda>h. snd (delete_history_session s h)) (history_of \<sigma>)\<rparr>)"
| rest: "gc_move g ttl (Gc_Check now [], \<sigma>) (Gc_Idle, \<sigma>)"

text \<open>The time of the sweep that is under way.\<close>

fun sweep_time :: "gc_place \<Rightarrow> int option" where
  "sweep_time Gc_Idle = None"
| "sweep_time (Gc_Check now _) = Some now"
| "sweep_time (Gc_Stubs now _ _) = Some now"
| "sweep_time (Gc_History now _ _) = Some now"

text \<open>The session whose data the collector is deleting.\<close>

fun condemned :: "gc_place \<Rightarrow> string option" where
  "condemned (Gc_Stubs _ s _) = Some s"
| "condemned (Gc_History _ s _) = Some s"
| "condemned _ = None"

text \<open>
  Runs in which every touch is at \<open>t0\<close> or later and every sweep at \<open>t1\<close> or earlier. Between the
  collector's moves clients touch their sessions and store stubs under IDs not yet taken.
\<close>

inductive timed_run ::
  "golib \<Rightarrow> int \<Rightarrow> int \<Rightarrow> int \<Rightarrow> gc_place \<times> gc_system \<Rightarrow> gc_place \<times> gc_system \<Rightarrow> bool" for g ttl t0 t1 where
  timed_refl: "timed_run g ttl t0 t1 c c"
| timed_gc: "\<lbrakk> timed_run g ttl t0 t1 c c'; gc_move g ttl c' c'';
     \<forall>now. sweep_time (fst c'') = Some now \<longrightarrow> now \<le> t1 \<rbrakk> \<Longrightarrow> timed_run g ttl t0 t1 c c''"
| timed_touch: "\<lbrakk> timed_run g ttl t0 t1 c (p, \<sigma>); t0 \<le> now \<rbrakk>
     \<Longrightarrow> timed_run g ttl t0 t1 c (p, \<sigma>\<lparr>tracker_of := touch s now (tracker_of \<sigma>)\<rparr>)"
| timed_put: "\<lbrakk> timed_run g ttl t0 t1 c (p, \<sigma>); priority_ok v; stub_map (ext (engine \<sigma>)) (ID v) = None \<rbrakk>
     \<Longrightarrow> timed_run g ttl t0 t1 c (p, \<sigma>\<lparr>engine := snd (update_many g [v] (engine \<sigma>))\<rparr>)"

text \<open>A session is safe: it is not condemned and its last touch is recent enough.\<close>

definition safe_session :: "string \<Rightarrow> int \<Rightarrow> gc_place \<times> gc_system \<Rightarrow> bool" where
  "safe_session s t0 c \<longleftrightarrow>
     s \<noteq> '''' \<and> condemned (fst c) \<noteq> Some s \<and>
     (\<exists>seen. map_of (tracker_of (snd c)) s = Some seen \<and> t0 \<le> seen)"

abbreviation data_kept :: "string \<Rightarrow> gc_system \<Rightarrow> gc_system \<Rightarrow> bool" where
  "data_kept s \<sigma> \<sigma>' \<equiv>
     {v \<in> stubs_of \<sigma>. Session v = s} \<subseteq> stubs_of \<sigma>' \<and>
     filter (\<lambda>c. c_Session c = s) (calls_of \<sigma>') = filter (\<lambda>c. c_Session c = s) (calls_of \<sigma>)"

lemma update_one_stored:
  assumes "engine_ok g \<sigma>" and "priority_ok v" and "stub_map (ext (engine \<sigma>)) (ID v) = None"
  shows "stubs_of \<sigma> \<subseteq> stored (ext (snd (update_many g [v] (engine \<sigma>))))"
    and "storage_ok g (ext (snd (update_many g [v] (engine \<sigma>))))"
proof -
  have E: "ext (snd (update_many g [v] (engine \<sigma>))) =
      snd (upsert g (filter (\<lambda>v. ID v \<noteq> 0) [v]) (ext (engine \<sigma>)))"
    by (simp add: update_many_def searcher_upsert_def split_def Let_def)
  show "storage_ok g (ext (snd (update_many g [v] (engine \<sigma>))))"
    unfolding E using assms by (intro storage_ok_upsert) (auto simp: engine_ok_def)
  show "stubs_of \<sigma> \<subseteq> stored (ext (snd (update_many g [v] (engine \<sigma>))))"
    unfolding E stored_def stub_map_upsert using assms(3) by (auto simp: ran_def) (metis option.simps(3))
qed

lemma gc_move_safe:
  assumes "gc_move g ttl (p, \<sigma>) (p', \<sigma>')" and "safe_session s t0 (p, \<sigma>)" and "engine_ok g \<sigma>"
    and "t1 - t0 < ttl" "0 < ttl" and "\<forall>now. sweep_time p = Some now \<longrightarrow> now \<le> t1"
  shows "safe_session s t0 (p', \<sigma>') \<and> engine_ok g \<sigma>' \<and> data_kept s \<sigma> \<sigma>'"
  using assms(1)
proof cases
  case (forget x now t ss)
  from assms(2) obtain seen where seen: "map_of (tracker_of \<sigma>) s = Some seen" "t0 \<le> seen"
    by (auto simp: safe_session_def)
  have "now \<le> t1" using assms(6) forget by simp
  with seen(2) assms(4) have "now - seen < ttl" by linarith
  with forget seen(1) assms(5) have "x \<noteq> s" by (auto simp: forget_if_expired_def split: if_splits)
  moreover from forget have "t = m_del x (tracker_of \<sigma>)"
    by (auto simp: forget_if_expired_def split: if_splits option.splits)
  ultimately show ?thesis
    using forget assms(2,3) by (auto simp: safe_session_def engine_ok_def calls_of_def)
next
  case (stubs now x ss)
  with assms(2) have "x \<noteq> s" by (auto simp: safe_session_def)
  have del: "engine_ok g \<sigma>'" "{v \<in> stubs_of \<sigma>. Session v \<noteq> x} \<subseteq> stubs_of \<sigma>'"
    using stubs assms(3) delete_session_stubs [OF assms(3), of x]
    by (cases "x = ''''"; simp add: engine_ok_def delete_session_def)+
  then show ?thesis
    using stubs assms(2) \<open>x \<noteq> s\<close> by (auto simp: safe_session_def calls_of_def)
next
  case (history now x ss)
  with assms(2) have "x \<noteq> s" by (auto simp: safe_session_def)
  then show ?thesis
    using history assms(2,3)
    by (cases "history_of \<sigma>")
      (auto simp: safe_session_def engine_ok_def calls_of_def delete_history_session_def Let_def
        filter_map comp_def intro!: arg_cong [of _ _ "map sr_call"] filter_cong)
qed (use assms(2,3) in \<open>auto simp: safe_session_def\<close>)

text \<open>C10. A session touched at \<open>t0\<close> loses no stub and no call to any sweep up to a time less than the TTL
  later, however the sweep interleaves with the requests, unless its deletion had already begun when
  it was touched.\<close>

theorem touched_session_kept:
  assumes "timed_run g ttl t0 t1 c c'" and "safe_session s t0 c" and "engine_ok g (snd c)"
    and "t1 - t0 < ttl" "0 < ttl" and "\<forall>now. sweep_time (fst c) = Some now \<longrightarrow> now \<le> t1"
  shows "data_kept s (snd c) (snd c')"
proof -
  have "safe_session s t0 c' \<and> engine_ok g (snd c') \<and> data_kept s (snd c) (snd c') \<and>
      (\<forall>now. sweep_time (fst c') = Some now \<longrightarrow> now \<le> t1)"
    using assms
  proof (induction rule: timed_run.induct)
    case (timed_refl c)
    then show ?case by simp
  next
    case (timed_gc c c' c'')
    obtain p \<sigma> p' \<sigma>' where c: "c' = (p, \<sigma>)" "c'' = (p', \<sigma>')" by (cases c'; cases c'')
    note IH = timed_gc.IH [OF timed_gc.prems, unfolded c fst_conv snd_conv]
    have "safe_session s t0 (p', \<sigma>') \<and> engine_ok g \<sigma>' \<and> data_kept s \<sigma> \<sigma>'"
      using IH timed_gc.hyps(2) timed_gc.prems(3,4) unfolding c by (intro gc_move_safe) auto
    then show ?case using IH timed_gc.hyps(3) unfolding c by auto
  next
    case (timed_touch c p \<sigma> now x)
    then show ?case
      by (auto simp: safe_session_def engine_ok_def calls_of_def touch_def)
  next
    case (timed_put c p \<sigma> v)
    note IH = timed_put.IH [OF timed_put.prems, unfolded fst_conv snd_conv]
    show ?case
      using IH update_one_stored [of g \<sigma> v] timed_put.hyps(2,3)
      by (auto simp: safe_session_def engine_ok_def calls_of_def)
  qed
  then show ?thesis by blast
qed

section \<open>Witnesses and the race\<close>

definition race_stub :: stub where
  "race_stub = (sample_stub 1 ''Colors'' [])\<lparr>Session := ''s''\<rparr>"

text \<open>The session \<open>s\<close> was last seen at time 0.\<close>

definition race_start :: gc_system where
  "race_start = \<lparr>tracker_of = [(''s'', 0)], engine = new_budgerigar sample_lib, history_of = None\<rparr>"

definition race_put :: "gc_system \<Rightarrow> gc_system" where
  "race_put \<sigma> = \<sigma>\<lparr>engine := snd (update_many sample_lib [race_stub] (engine \<sigma>))\<rparr>"

lemmas race_stub_simps = race_stub_def sample_stub_def empty_stub_def

lemma race_start_ok: "engine_ok sample_lib race_start" "stub_map (ext (engine race_start)) i = None"
proof -
  have "ext (engine race_start) = new_storage"
    using budgerigar_ok_new
    by (simp add: race_start_def new_budgerigar_def new_storage_with_internal_def setup_health_stubs_def
        put_internal_def split_def Let_def)
  then show "engine_ok sample_lib race_start" "stub_map (ext (engine race_start)) i = None"
    by (simp_all add: engine_ok_def storage_ok_new) (simp add: stub_map_def new_storage_def)
qed

lemma race_put_stores: "race_stub \<in> stubs_of (race_put race_start)" "engine_ok sample_lib (race_put race_start)"
proof -
  have p: "priority_ok race_stub" and i: "ID race_stub \<noteq> uuid_nil"
    by (simp_all add: priority_ok_def race_stub_simps)
  have E: "ext (engine (race_put race_start)) = snd (upsert sample_lib [race_stub] (ext (engine race_start)))"
    using i by (simp add: race_put_def update_many_def searcher_upsert_def split_def Let_def)
  show "race_stub \<in> stubs_of (race_put race_start)"
    unfolding E stored_def stub_map_upsert by (simp add: ran_def) blast
  show "engine_ok sample_lib (race_put race_start)"
    unfolding engine_ok_def E using race_start_ok(1) p by (intro storage_ok_upsert) (auto simp: engine_ok_def)
qed

lemma touched_session_kept_witness:
  "race_stub \<in> stubs_of ((race_put race_start)\<lparr>tracker_of := touch ''t'' 3 (tracker_of race_start)\<rparr>)"
proof -
  let ?c = "(Gc_Idle, race_put race_start)"
  have tr: "tracker_of (race_put race_start) = tracker_of race_start" by (simp add: race_put_def)
  have "timed_run sample_lib 5 0 4 ?c
      (Gc_Idle, (race_put race_start)\<lparr>tracker_of := touch ''t'' 3 (tracker_of (race_put race_start))\<rparr>)"
    by (rule timed_touch [OF timed_refl]) simp
  moreover have "safe_session ''s'' 0 ?c" by (simp add: safe_session_def tr) (simp add: race_start_def)
  ultimately have "data_kept ''s'' (snd ?c)
      (snd (Gc_Idle, (race_put race_start)\<lparr>tracker_of := touch ''t'' 3 (tracker_of (race_put race_start))\<rparr>))"
    by (rule touched_session_kept) (simp_all add: race_put_stores)
  moreover have "Session race_stub = ''s''" by (simp add: race_stub_simps)
  ultimately show ?thesis using race_put_stores(1) unfolding tr snd_conv by blast
qed

text \<open>The sessions a sweep at \<open>now\<close> should remove.\<close>

definition expired_sessions :: "int \<Rightarrow> int \<Rightarrow> tracker \<Rightarrow> string set" where
  "expired_sessions now ttl t = {s. \<exists>seen. map_of t s = Some seen \<and> (ttl \<le> 0 \<or> ttl \<le> now - seen)}"

text \<open>A sweep that nothing interrupts removes the stubs and calls of exactly the expired sessions and
  forgets exactly these sessions.\<close>

lemma sweep_removes_expired:
  assumes "engine_ok g \<sigma>" and "tracker_ok (tracker_of \<sigma>)"
  shows "let gone = expired_sessions now ttl (tracker_of \<sigma>); \<sigma>' = cleanup_expired_sessions g now ttl \<sigma> in
    stubs_of \<sigma>' = {v \<in> stubs_of \<sigma>. Session v \<notin> gone} \<and>
    calls_of \<sigma>' = filter (\<lambda>c. c_Session c \<notin> gone) (calls_of \<sigma>) \<and>
    map_of (tracker_of \<sigma>') = map_of (tracker_of \<sigma>) |` (- gone)"
proof -
  have S: "set (expired now ttl (tracker_of \<sigma>)) = expired_sessions now ttl (tracker_of \<sigma>)"
    using expired_set(1) [OF assms(2)] by (auto simp: expired_sessions_def)
  show ?thesis
    using sweep_list [OF assms(1,2) expired_set(2) [OF assms(2)], of now ttl ttl now]
    unfolding cleanup_expired_sessions_def Let_def S by (simp add: expired_sessions_def)
qed

lemma sweep_removes_expired_witness:
  "stubs_of (cleanup_expired_sessions sample_lib 10 5 (race_put race_start)) =
     {v \<in> stubs_of (race_put race_start). Session v \<noteq> ''s''}"
proof -
  have "tracker_of (race_put race_start) = [(''s'', 0)]" by (simp add: race_put_def race_start_def)
  moreover have "tracker_ok [(''s'', 0)]" by (simp add: tracker_ok_def m_ok_def)
  ultimately show ?thesis
    using sweep_removes_expired [OF race_put_stores(2), of 10 5]
    by (auto simp: Let_def expired_sessions_def split: if_splits)
qed

text \<open>The re-check does not close the window between the snapshot and the deletion: after the session is
  forgotten and before its stubs are deleted a client can touch it and store a stub, which the
  sweep then deletes although the session was touched at this very moment.\<close>

definition race_forgotten :: gc_system where
  "race_forgotten = race_start\<lparr>tracker_of := []\<rparr>"

definition race_touched :: gc_system where
  "race_touched = race_put (race_forgotten\<lparr>tracker_of := touch ''s'' 10 (tracker_of race_forgotten)\<rparr>)"

lemma sweep_deletes_touched_session:
  "timed_run sample_lib 5 0 10 (Gc_Idle, race_start) (Gc_Stubs 10 ''s'' [], race_touched) \<and>
   race_stub \<in> stubs_of race_touched \<and> Session race_stub = ''s'' \<and>
   (\<exists>\<sigma>. gc_move sample_lib 5 (Gc_Stubs 10 ''s'' [], race_touched) (Gc_History 10 ''s'' [], \<sigma>) \<and>
      map_of (tracker_of \<sigma>) ''s'' = Some 10 \<and> race_stub \<notin> stubs_of \<sigma>)"
proof (intro conjI)
  have ex: "expired 10 5 (tracker_of race_start) = [''s'']" by (simp add: race_start_def expired_def)
  have "timed_run sample_lib 5 0 10 (Gc_Idle, race_start) (Gc_Check 10 [''s''], race_start)"
    by (rule timed_gc [OF timed_refl]) (use gc_move.tick [of sample_lib 5 race_start 10] ex in simp_all)
  moreover have "forget_if_expired ''s'' 10 5 (tracker_of race_start) = (True, [])"
    by (simp add: forget_if_expired_def race_start_def)
  then have "gc_move sample_lib 5 (Gc_Check 10 [''s''], race_start) (Gc_Stubs 10 ''s'' [], race_forgotten)"
    unfolding race_forgotten_def by (rule gc_move.forget)
  ultimately have "timed_run sample_lib 5 0 10 (Gc_Idle, race_start) (Gc_Stubs 10 ''s'' [], race_forgotten)"
    by (rule timed_gc) simp
  then have "timed_run sample_lib 5 0 10 (Gc_Idle, race_start)
      (Gc_Stubs 10 ''s'' [], race_forgotten\<lparr>tracker_of := touch ''s'' 10 (tracker_of race_forgotten)\<rparr>)"
    by (rule timed_touch) simp
  then show "timed_run sample_lib 5 0 10 (Gc_Idle, race_start) (Gc_Stubs 10 ''s'' [], race_touched)"
    unfolding race_touched_def race_put_def
    by (rule timed_put) (use race_start_ok(2) in \<open>simp_all add: race_forgotten_def priority_ok_def race_stub_simps\<close>)
  have same: "engine race_touched = engine (race_put race_start)"
    by (simp add: race_touched_def race_forgotten_def race_put_def)
  then show "race_stub \<in> stubs_of race_touched" using race_put_stores(1) by simp
  show s: "Session race_stub = ''s''" by (simp add: race_stub_simps)
  let ?\<sigma> = "race_touched\<lparr>engine := snd (delete_session sample_lib ''s'' (engine race_touched))\<rparr>"
  have "engine_ok sample_lib race_touched" using race_put_stores(2) same by (simp add: engine_ok_def)
  from delete_session_stubs(1) [OF this, of "''s''"]
  have "race_stub \<notin> stubs_of ?\<sigma>" using s by simp
  moreover have "map_of (tracker_of ?\<sigma>) ''s'' = Some 10"
    by (simp add: race_touched_def race_put_def touch_def)
  ultimately show "\<exists>\<sigma>. gc_move sample_lib 5 (Gc_Stubs 10 ''s'' [], race_touched) (Gc_History 10 ''s'' [], \<sigma>) \<and>
      map_of (tracker_of \<sigma>) ''s'' = Some 10 \<and> race_stub \<notin> stubs_of \<sigma>"
    using gc_move.stubs [of sample_lib 5 10 "''s''" "[]" race_touched] by blast
qed

section \<open>The sweep ends\<close>

fun moves_left :: "gc_place \<Rightarrow> nat" where
  "moves_left Gc_Idle = 0"
| "moves_left (Gc_Check _ ss) = 3 * length ss + 1"
| "moves_left (Gc_Stubs _ _ ss) = 3 * length ss + 3"
| "moves_left (Gc_History _ _ ss) = 3 * length ss + 2"



end
