(* ===== verification/Wire_Base64.thy ===== *)
theory Wire_Base64
  imports Go_Strings "HOL-Library.Word"
begin

text \<open>
  The text variant of gRPC-Web, \<^verbatim>\<open>internal/app/grpcweb_text.go\<close>: base64 of the standard library,
  the decoder of a body that concatenates padded segments, and the writer that encodes a response
  as it is produced. Bytes are 8-bit words, text is a list of characters.
\<close>

type_synonym byte = "8 word"

section \<open>encoding/base64\<close>

definition b64_alphabet :: string where
  "b64_alphabet = ''ABCDEFGHIJKLMNOPQRSTUVWXYZabcdefghijklmnopqrstuvwxyz0123456789+/''"

definition b64_char :: "nat \<Rightarrow> char" where
  "b64_char n = b64_alphabet ! n"

definition b64_val :: "char \<Rightarrow> nat option" where
  "b64_val c =
     (let n = of_char c :: nat in
      if 65 \<le> n \<and> n \<le> 90 then Some (n - 65)
      else if 97 \<le> n \<and> n \<le> 122 then Some (n - 71)
      else if 48 \<le> n \<and> n \<le> 57 then Some (n + 4)
      else if n = 43 then Some 62
      else if n = 47 then Some 63
      else None)"

abbreviation pad :: char where "pad \<equiv> CHR ''=''"

fun b64_encode :: "byte list \<Rightarrow> string" where
  "b64_encode [] = []"
| "b64_encode [a] = [b64_char (unat a div 4), b64_char (unat a mod 4 * 16), pad, pad]"
| "b64_encode [a, b] =
     [b64_char (unat a div 4), b64_char (unat a mod 4 * 16 + unat b div 16),
      b64_char (unat b mod 16 * 4), pad]"
| "b64_encode (a # b # c # bs) =
     b64_char (unat a div 4) # b64_char (unat a mod 4 * 16 + unat b div 16) #
     b64_char (unat b mod 16 * 4 + unat c div 64) # b64_char (unat c mod 64) # b64_encode bs"

definition byte1 :: "nat \<Rightarrow> nat \<Rightarrow> byte" where "byte1 u v = of_nat (u * 4 + v div 16)"
definition byte2 :: "nat \<Rightarrow> nat \<Rightarrow> byte" where "byte2 v w = of_nat (v mod 16 * 16 + w div 4)"
definition byte3 :: "nat \<Rightarrow> nat \<Rightarrow> byte" where "byte3 w x = of_nat (w mod 4 * 64 + x)"

text \<open>\<^verbatim>\<open>DecodeString\<close> of the standard encoding (\<open>padded\<close>) and of the raw one. Line breaks are skipped;
  the unused bits of a last incomplete group are not checked.\<close>

fun b64_quanta :: "bool \<Rightarrow> string \<Rightarrow> byte list option" where
  "b64_quanta padded [] = Some []"
| "b64_quanta padded [a] = None"
| "b64_quanta padded [a, b] =
     (case (b64_val a, b64_val b) of
        (Some u, Some v) \<Rightarrow> if padded then None else Some [byte1 u v]
      | _ \<Rightarrow> None)"
| "b64_quanta padded [a, b, c] =
     (case (b64_val a, b64_val b, b64_val c) of
        (Some u, Some v, Some w) \<Rightarrow> if padded then None else Some [byte1 u v, byte2 v w]
      | _ \<Rightarrow> None)"
| "b64_quanta padded (a # b # c # d # s) =
     (case (b64_val a, b64_val b) of
        (Some u, Some v) \<Rightarrow>
          (case b64_val c of
             Some w \<Rightarrow>
               (case b64_val d of
                  Some x \<Rightarrow> map_option (\<lambda>bs. byte1 u v # byte2 v w # byte3 w x # bs) (b64_quanta padded s)
                | None \<Rightarrow> if padded \<and> d = pad \<and> s = [] then Some [byte1 u v, byte2 v w] else None)
           | None \<Rightarrow> if padded \<and> c = pad \<and> d = pad \<and> s = [] then Some [byte1 u v] else None)
      | _ \<Rightarrow> None)"

definition b64_decode :: "bool \<Rightarrow> string \<Rightarrow> byte list option" where
  "b64_decode padded s = b64_quanta padded (filter (\<lambda>c. c \<notin> {CHR 0x0A, CHR 0x0D}) s)"

section \<open>Decoding a body\<close>

text \<open>\<open>seg\<close> is the segment collected since the last padding.\<close>

function decode_segments :: "string \<Rightarrow> string \<Rightarrow> byte list option" where
  "decode_segments seg [] = (if seg = [] then Some [] else b64_decode False seg)"
| "decode_segments seg (c # s) =
     (if c \<noteq> pad then decode_segments (seg @ [c]) s
      else
        (case b64_decode True (seg @ c # takeWhile (\<lambda>c. c = pad) s) of
           None \<Rightarrow> None
         | Some d \<Rightarrow>
             (case decode_segments [] (dropWhile (\<lambda>c. c = pad) s) of
                None \<Rightarrow> None | Some e \<Rightarrow> Some (d @ e))))"
  by pat_completeness auto
termination
  by (relation "measure (\<lambda>(seg, s). length s)") (auto simp: le_imp_less_Suc length_dropWhile_le)

definition decode_concatenated_base64 :: "string \<Rightarrow> byte list option" where
  "decode_concatenated_base64 s = decode_segments [] s"

definition decode_grpcweb_text :: "string \<Rightarrow> byte list option" where
  "decode_grpcweb_text raw =
     (let t = trim_space raw in
      if t = '''' then Some []
      else case b64_decode True t of
             Some d \<Rightarrow> Some d
           | None \<Rightarrow> (case b64_decode False t of
                        Some d \<Rightarrow> Some d
                      | None \<Rightarrow> decode_concatenated_base64 t))"

section \<open>The stream writer\<close>

text \<open>\<^verbatim>\<open>base64.NewEncoder\<close> keeps the one or two bytes of an incomplete group until more arrive or the
  writer is closed; \<^verbatim>\<open>Flush\<close> only flushes the response below.\<close>

record b64_writer =
  w_pending :: "byte list"
  w_text :: string

definition new_b64_writer :: b64_writer where
  "new_b64_writer = \<lparr>w_pending = [], w_text = ''''\<rparr>"

definition b64_write :: "byte list \<Rightarrow> b64_writer \<Rightarrow> b64_writer" where
  "b64_write p w =
     (let all = w_pending w @ p; n = length all div 3 * 3
      in \<lparr>w_pending = drop n all, w_text = w_text w @ b64_encode (take n all)\<rparr>)"

definition b64_flush :: "b64_writer \<Rightarrow> b64_writer" where
  "b64_flush w = w"

definition b64_close :: "b64_writer \<Rightarrow> b64_writer" where
  "b64_close w = \<lparr>w_pending = [], w_text = w_text w @ b64_encode (w_pending w)\<rparr>"

section \<open>Round trips\<close>

lemma b64_val_alphabet: "map b64_val b64_alphabet = map Some [0..<64]"
  by (simp add: b64_val_def b64_alphabet_def) code_simp

lemma b64_length_alphabet: "length b64_alphabet = 64"
  by (simp add: b64_alphabet_def)

lemma b64_val_char: "n < 64 \<Longrightarrow> b64_val (b64_char n) = Some n"
  using arg_cong [OF b64_val_alphabet, of "\<lambda>xs. xs ! n"] b64_length_alphabet
  by (simp add: b64_char_def)

lemma b64_char_plain: "n < 64 \<Longrightarrow> b64_char n \<noteq> pad \<and> \<not> is_space (b64_char n)"
proof -
  have "list_all (\<lambda>c. c \<noteq> pad \<and> \<not> is_space c) b64_alphabet"
    by (simp add: b64_alphabet_def is_space_def)
  then show "n < 64 \<Longrightarrow> b64_char n \<noteq> pad \<and> \<not> is_space (b64_char n)"
    by (simp add: list_all_length b64_length_alphabet b64_char_def)
qed

lemma unat_byte: "unat (b :: byte) < 256"
  by (rule order_less_le_trans [OF unsigned_less]) simp

lemma byte_high: "unat (b :: byte) div 4 < 64" "unat b div 16 < 16" "unat b div 64 < 4"
  using unat_byte [of b] by (simp_all add: less_mult_imp_div_less)

lemma radix: "x < k \<Longrightarrow> (m * k + x) div k = m" "x < k \<Longrightarrow> (m * k + x) mod k = x" for k :: nat
  by simp_all

lemma sextets:
  "unat (a :: byte) div 4 < 64" "unat a mod 4 * 16 < 64" "unat a mod 4 * 16 + unat (b :: byte) div 16 < 64"
  "unat b mod 16 * 4 < 64" "unat b mod 16 * 4 + unat (c :: byte) div 64 < 64" "unat c mod 64 < 64"
proof -
  have m: "unat a mod 4 < 4" "unat b mod 16 < 16" "unat c mod 64 < 64" by simp_all
  note h = byte_high(1) [of a] byte_high(2) [of b] byte_high(3) [of c]
  show "unat a div 4 < 64" "unat c mod 64 < 64" using h m by simp_all
  show "unat a mod 4 * 16 < 64" "unat a mod 4 * 16 + unat b div 16 < 64" using h m by linarith+
  show "unat b mod 16 * 4 < 64" "unat b mod 16 * 4 + unat c div 64 < 64" using h m by linarith+
qed

lemma bytes_back:
  "byte1 (unat a div 4) (unat a mod 4 * 16) = a"
  "byte1 (unat a div 4) (unat a mod 4 * 16 + unat (b :: byte) div 16) = a"
  "byte2 (unat a mod 4 * 16 + unat b div 16) (unat b mod 16 * 4) = b"
  "byte2 (unat a mod 4 * 16 + unat b div 16) (unat b mod 16 * 4 + unat (c :: byte) div 64) = b"
  "byte3 (unat b mod 16 * 4 + unat c div 64) (unat c mod 64) = c"
proof -
  have nat: "m = unat w \<Longrightarrow> of_nat m = (w :: byte)" for m w by simp
  show "byte1 (unat a div 4) (unat a mod 4 * 16) = a"
    unfolding byte1_def by (rule nat) simp
  show "byte1 (unat a div 4) (unat a mod 4 * 16 + unat b div 16) = a"
    unfolding byte1_def by (rule nat) (simp only: radix byte_high div_mult_mod_eq)
  show "byte2 (unat a mod 4 * 16 + unat b div 16) (unat b mod 16 * 4) = b"
    unfolding byte2_def by (rule nat) (simp only: radix byte_high, simp)
  show "byte2 (unat a mod 4 * 16 + unat b div 16) (unat b mod 16 * 4 + unat c div 64) = b"
    unfolding byte2_def by (rule nat) (simp only: radix byte_high div_mult_mod_eq)
  show "byte3 (unat b mod 16 * 4 + unat c div 64) (unat c mod 64) = c"
    unfolding byte3_def by (rule nat) (simp only: radix byte_high div_mult_mod_eq)
qed

lemma b64_val_pad [simp]: "b64_val pad = None"
  by code_simp

lemmas b64_facts [simp] = b64_val_char sextets bytes_back

lemma b64_encode_no_space: "\<forall>c\<in>set (b64_encode bs). \<not> is_space c"
proof -
  have "\<not> is_space pad" by (simp add: is_space_def)
  then show ?thesis
    by (induction bs rule: b64_encode.induct) (auto simp: b64_char_plain [THEN conjunct2])
qed

text \<open>Decoding the encoding of some bytes before a rest.\<close>

lemma b64_quanta_append:
  "b64_quanta padded (b64_encode bs @ s) =
     (if length bs mod 3 = 0 then map_option (\<lambda>r. bs @ r) (b64_quanta padded s)
      else if padded \<and> s = [] then Some bs else None)"
proof (induction bs rule: b64_encode.induct)
  case 1
  then show ?case by (cases "b64_quanta padded s") simp_all
next
  case (4 a b c bs)
  have "length (a # b # c # bs) mod 3 = length bs mod 3" by simp
  then show ?case
    using 4 by (cases "b64_quanta padded s") (auto simp: option.map_comp comp_def)
qed auto

lemma no_breaks: "\<forall>c\<in>set s. \<not> is_space c \<Longrightarrow> filter (\<lambda>c. c \<notin> {CHR 0x0A, CHR 0x0D}) s = s"
  by (rule filter_True) (auto simp: is_space_def)

lemma b64_decode_plain: "\<forall>c\<in>set s. \<not> is_space c \<Longrightarrow> b64_decode padded s = b64_quanta padded s"
  by (simp only: b64_decode_def no_breaks)

lemma b64_roundtrip: "b64_decode True (b64_encode bs) = Some bs"
  using b64_quanta_append [of True bs "[]"] b64_decode_plain [OF b64_encode_no_space, of True bs]
  by simp

lemma b64_encode_append:
  "length xs mod 3 = 0 \<Longrightarrow> b64_encode (xs @ ys) = b64_encode xs @ b64_encode ys"
  by (induction xs rule: b64_encode.induct) auto

abbreviation b64_chunks :: "byte list list \<Rightarrow> string" where
  "b64_chunks cs \<equiv> concat (map b64_encode cs)"

lemma b64_encode_Nil [simp]: "b64_encode bs = [] \<longleftrightarrow> bs = []"
  by (cases bs rule: b64_encode.cases) simp_all

lemma quanta_chunks: "b64_quanta padded (b64_chunks cs) = Some d \<Longrightarrow> d = concat cs"
proof (induction cs arbitrary: d)
  case (Cons bs cs)
  then show ?case by (auto simp: b64_quanta_append split: if_splits)
qed simp

section \<open>Bodies of several segments\<close>

text \<open>An encoding is a run of full groups, or such a run and one padded group.\<close>

lemma b64_char_not_pad [simp]: "n < 64 \<Longrightarrow> b64_char n \<noteq> pad" "n < 64 \<Longrightarrow> pad \<noteq> b64_char n"
  using b64_char_plain [of n] by auto

lemma b64_encode_shape:
  "\<exists>body n. b64_encode bs = body @ replicate n pad \<and> pad \<notin> set body \<and> (n = 0 \<longleftrightarrow> length bs mod 3 = 0)"
proof (induction bs rule: b64_encode.induct)
  case 1
  then show ?case by (intro exI [of _ "[]"] exI [of _ 0]) simp
next
  case (2 a)
  then show ?case
    by (intro exI [of _ "[b64_char (unat a div 4), b64_char (unat a mod 4 * 16)]"] exI [of _ 2])
      (simp add: numeral_2_eq_2)
next
  case (3 a b)
  then show ?case
    by (intro exI [of _ "[b64_char (unat a div 4), b64_char (unat a mod 4 * 16 + unat b div 16),
        b64_char (unat b mod 16 * 4)]"] exI [of _ 1]) simp
next
  case (4 a b c bs)
  then obtain body n where IH: "b64_encode bs = body @ replicate n pad" "pad \<notin> set body"
    "n = 0 \<longleftrightarrow> length bs mod 3 = 0" by (elim exE conjE) (rule that)
  let ?g = "[b64_char (unat a div 4), b64_char (unat a mod 4 * 16 + unat b div 16),
     b64_char (unat b mod 16 * 4 + unat c div 64), b64_char (unat c mod 64)]"
  have "pad \<notin> set ?g" by simp
  then show ?case
    using IH by (intro exI [of _ "?g @ body"] exI [of _ n]) auto
qed

lemma decode_segments_body: "pad \<notin> set body \<Longrightarrow> decode_segments seg (body @ s) = decode_segments (seg @ body) s"
  by (induction body arbitrary: seg) auto

lemma b64_chunks_head: "takeWhile (\<lambda>c. c = pad) (b64_chunks cs) = [] \<and>
    dropWhile (\<lambda>c. c = pad) (b64_chunks cs) = b64_chunks cs"
proof (induction cs)
  case (Cons bs cs)
  have "b64_char (unat (a :: byte) div 4) \<noteq> pad" for a
    by (rule b64_char_plain [THEN conjunct1, OF sextets(1)])
  then show ?case
    using Cons by (cases bs rule: b64_encode.cases) auto
qed simp

lemma decode_segments_chunks:
  "length pre mod 3 = 0 \<Longrightarrow>
     decode_segments (b64_encode pre) (b64_chunks cs) = Some (pre @ concat cs)"
proof (induction cs arbitrary: pre)
  case Nil
  have "b64_decode False (b64_encode pre) = Some pre"
    using b64_quanta_append [of False pre "[]"] b64_decode_plain [OF b64_encode_no_space] Nil by simp
  then show ?case by simp
next
  case (Cons bs cs)
  obtain body n where shape: "b64_encode bs = body @ replicate n pad" "pad \<notin> set body"
    "n = 0 \<longleftrightarrow> length bs mod 3 = 0" using b64_encode_shape [of bs] by (elim exE conjE) (rule that)
  have enc: "b64_encode (pre @ bs) = b64_encode pre @ b64_encode bs"
    by (rule b64_encode_append [OF Cons.prems])
  have step: "decode_segments (b64_encode pre) (b64_chunks (bs # cs)) =
      decode_segments (b64_encode pre @ body) (replicate n pad @ b64_chunks cs)"
    using shape by (simp add: decode_segments_body)
  show ?case
  proof (cases n)
    case 0
    have "3 dvd length pre + length bs"
      by (rule dvd_add) (use 0 shape(3) Cons.prems in \<open>simp_all add: dvd_eq_mod_eq_0\<close>)
    then have "length (pre @ bs) mod 3 = 0" by simp
    from Cons.IH [OF this] show ?thesis using step enc shape(1) 0 by simp
  next
    case (Suc m)
    have tw: "takeWhile (\<lambda>c. c = pad) (replicate m pad @ b64_chunks cs) = replicate m pad \<and>
      dropWhile (\<lambda>c. c = pad) (replicate m pad @ b64_chunks cs) = b64_chunks cs"
      using b64_chunks_head [of cs] by (induction m) simp_all
    have "(b64_encode pre @ body) @ pad # replicate m pad = b64_encode (pre @ bs)"
      using enc shape(1) Suc by simp
    then have dec: "b64_decode True ((b64_encode pre @ body) @ pad # replicate m pad) = Some (pre @ bs)"
      using b64_roundtrip [of "pre @ bs"] by simp
    have "decode_segments [] (b64_chunks cs) = Some (concat cs)"
      using Cons.IH [of "[]"] by simp
    then show ?thesis
      using step Suc dec by (simp add: tw)
  qed
qed

lemma b64_chunks_no_space: "\<forall>c\<in>set (b64_chunks cs). \<not> is_space c"
  using b64_encode_no_space by auto

lemma dropWhile_none: "\<forall>c\<in>set s. \<not> P c \<Longrightarrow> dropWhile P s = s"
  by (cases s) auto

lemma trim_no_space: "\<forall>c\<in>set s. \<not> is_space c \<Longrightarrow> trim_space s = s"
  by (simp add: trim_space_def dropWhile_none)

text \<open>A gRPC-Web text body decodes to the bytes that were encoded, however the client cut them into
  segments and padded each: the whole-text attempts either fail or give the same bytes.\<close>

lemma grpcweb_text_roundtrip: "decode_grpcweb_text (b64_chunks cs) = Some (concat cs)"
proof -
  let ?t = "b64_chunks cs"
  have plain: "b64_decode padded ?t = b64_quanta padded ?t" for padded
    by (rule b64_decode_plain [OF b64_chunks_no_space])
  show ?thesis
  proof (cases "?t = []")
    case True
    then have "concat cs = []" by auto
    with True show ?thesis by (simp only: decode_grpcweb_text_def Let_def trim_no_space [of "[]"])
      (simp add: trim_space_def)
  next
    case False
    have "decode_concatenated_base64 ?t = Some (concat cs)"
      using decode_segments_chunks [of "[]" cs] by (simp add: decode_concatenated_base64_def)
    moreover have "trim_space ?t = ?t" by (rule trim_no_space [OF b64_chunks_no_space])
    ultimately show ?thesis
      using False quanta_chunks
      by (simp only: decode_grpcweb_text_def Let_def plain if_False split: option.split) blast
  qed
qed

section \<open>The writer\<close>

text \<open>The text so far encodes the written bytes up to the last full group.\<close>

definition writer_ok :: "byte list \<Rightarrow> b64_writer \<Rightarrow> bool" where
  "writer_ok written w \<longleftrightarrow>
     (\<exists>full. w_text w = b64_encode full \<and> length full mod 3 = 0 \<and> length (w_pending w) < 3 \<and>
        full @ w_pending w = written)"

lemma writer_ok_new: "writer_ok [] new_b64_writer"
  by (simp add: writer_ok_def new_b64_writer_def)

lemma writer_ok_write:
  assumes "writer_ok written w"
  shows "writer_ok (written @ p) (b64_write p w)"
proof -
  let ?all = "w_pending w @ p"
  let ?n = "length ?all div 3 * 3"
  obtain full where ok: "w_text w = b64_encode full" "length full mod 3 = 0" "full @ w_pending w = written"
    using assms by (auto simp: writer_ok_def)
  have "?n \<le> length ?all" by (rule div_times_less_eq_dividend)
  then have n: "length (take ?n ?all) = ?n" by (simp only: length_take min_absorb2)
  have "length (drop ?n ?all) = length ?all mod 3"
    by (simp only: length_drop minus_div_mult_eq_mod)
  then have "length (drop ?n ?all) < 3" by simp
  moreover have "3 dvd length full + length (take ?n ?all)"
    unfolding n using ok(2) by (simp add: dvd_eq_mod_eq_0)
  then have "length (full @ take ?n ?all) mod 3 = 0" by simp
  moreover have "(full @ take ?n ?all) @ drop ?n ?all = written @ p"
    using ok(3) by (metis append_assoc append_take_drop_id)
  moreover have "w_text w @ b64_encode (take ?n ?all) = b64_encode (full @ take ?n ?all)"
    by (simp only: ok(1) b64_encode_append [OF ok(2)])
  ultimately show ?thesis
    unfolding writer_ok_def b64_write_def Let_def b64_writer.simps
    by (intro exI [of _ "full @ take ?n ?all"] conjI)
qed

lemma writer_ok_writes: "writer_ok written w \<Longrightarrow> writer_ok (written @ concat ps) (fold b64_write ps w)"
proof (induction ps arbitrary: written w)
  case (Cons p ps)
  from Cons.IH [OF writer_ok_write [OF Cons.prems]] show ?case by simp
qed simp

text \<open>Closing the text writer after any sequence of writes leaves exactly the base64 of all the bytes
  written, which the decoder of the other direction reads back.\<close>

lemma b64_writer_encodes:
  "w_text (b64_close (fold b64_write ps new_b64_writer)) = b64_encode (concat ps) \<and>
   decode_grpcweb_text (w_text (b64_close (fold b64_write ps new_b64_writer))) = Some (concat ps)"
proof -
  let ?w = "fold b64_write ps new_b64_writer"
  obtain full where "w_text ?w = b64_encode full" "length full mod 3 = 0" "full @ w_pending ?w = concat ps"
    using writer_ok_writes [OF writer_ok_new, of ps] by (auto simp: writer_ok_def)
  then have enc: "w_text (b64_close ?w) = b64_encode (concat ps)"
    by (simp add: b64_close_def b64_encode_append [symmetric])
  then show ?thesis using grpcweb_text_roundtrip [of "[concat ps]"] by simp
qed

text \<open>Flushing does not close the group: up to two bytes of a message stay behind until the next write,
  so a streaming client does not get the message that was flushed.\<close>

lemma flush_withholds_bytes:
  "w_pending (b64_flush (b64_write [0, 0, 0, 0, 2, 7, 9] new_b64_writer)) = [9] \<and>
   decode_grpcweb_text (w_text (b64_flush (b64_write [0, 0, 0, 0, 2, 7, 9] new_b64_writer))) =
     Some [0, 0, 0, 0, 2, 7]"
proof -
  have "w_text (b64_flush (b64_write [0, 0, 0, 0, 2, 7, 9] new_b64_writer)) = b64_chunks [[0, 0, 0, 0, 2, 7]]"
    by (simp add: b64_flush_def b64_write_def new_b64_writer_def Let_def)
  moreover have "w_pending (b64_flush (b64_write [0, 0, 0, 0, 2, 7, 9] new_b64_writer)) = [9]"
    by (simp add: b64_flush_def b64_write_def new_b64_writer_def Let_def)
  ultimately show ?thesis by (simp only: grpcweb_text_roundtrip) simp
qed

end
