(* ===== verification/Wire_Frames.thy ===== *)
theory Wire_Frames
  imports Wire_Base64
begin

text \<open>
  The frames of the HTTP gateways: \<^verbatim>\<open>connect_envelope.go\<close>, \<^verbatim>\<open>gateway_frame_compression.go\<close> and the
  receiving sides of \<^verbatim>\<open>connect_gateway.go\<close> and \<^verbatim>\<open>grpcweb_gateway.go\<close>. A request body is the list
  of its bytes, read to its end; a header is the function that gives the first value of a name, or
  the empty text. \<open>gzip\<close> and \<open>gunzip\<close> are parameters.
\<close>

section \<open>Envelopes\<close>

type_synonym http_header = "string \<Rightarrow> string"
type_synonym grpc_code = "32 word"

abbreviation code_invalid_argument :: grpc_code where "code_invalid_argument \<equiv> 3"
abbreviation code_unimplemented :: grpc_code where "code_unimplemented \<equiv> 12"
abbreviation code_internal :: grpc_code where "code_internal \<equiv> 13"

abbreviation flag_compressed :: byte where "flag_compressed \<equiv> 1"
abbreviation flag_end_stream :: byte where "flag_end_stream \<equiv> 2"
abbreviation header_size :: nat where "header_size \<equiv> 5"
abbreviation max_frame_size :: nat where "max_frame_size \<equiv> 4194304"

record connect_frame =
  f_flags :: byte
  f_data :: "byte list"

datatype frame_error = Frame_EOF | Frame_UnexpectedEOF | Frame_TooLarge

definition be32 :: "nat \<Rightarrow> byte list" where
  "be32 n = [of_nat (n div 2 ^ 24), of_nat (n div 2 ^ 16), of_nat (n div 2 ^ 8), of_nat n]"

fun be32_val :: "byte list \<Rightarrow> nat" where
  "be32_val [a, b, c, d] = unat a * 2 ^ 24 + unat b * 2 ^ 16 + unat c * 2 ^ 8 + unat d"
| "be32_val _ = 0"

text \<open>\<^verbatim>\<open>io.ReadFull\<close>: nothing to read is \<^verbatim>\<open>io.EOF\<close>, too little is \<^verbatim>\<open>io.ErrUnexpectedEOF\<close>.\<close>

definition read_full :: "nat \<Rightarrow> byte list \<Rightarrow> (frame_error + byte list) \<times> byte list" where
  "read_full n body =
     (if n \<le> length body then (Inr (take n body), drop n body)
      else if body = [] then (Inl Frame_EOF, [])
      else (Inl Frame_UnexpectedEOF, []))"

definition read_connect_frame :: "byte list \<Rightarrow> (frame_error + connect_frame) \<times> byte list" where
  "read_connect_frame body =
     (case read_full header_size body of
        (Inl e, rest) \<Rightarrow> (Inl e, rest)
      | (Inr header, rest) \<Rightarrow>
          (let flags = header ! 0; len = be32_val (take 4 (drop 1 header)) in
           if len = 0 then (Inr \<lparr>f_flags = flags, f_data = []\<rparr>, rest)
           else if max_frame_size < len then (Inl Frame_TooLarge, rest)
           else (case read_full len rest of
                   (Inl e, rest') \<Rightarrow> (Inl e, rest')
                 | (Inr data, rest') \<Rightarrow> (Inr \<lparr>f_flags = flags, f_data = data\<rparr>, rest'))))"

section \<open>Compression\<close>

definition frame_encoding :: "http_header \<Rightarrow> string" where
  "frame_encoding hdr =
     (let v = trim_space (hdr ''Connect-Content-Encoding'') in
      if v \<noteq> '''' then str_lower v
      else let v = trim_space (hdr ''Grpc-Encoding'') in
           if v \<noteq> '''' then str_lower v else ''identity'')"

definition compress_frame :: "(byte list \<Rightarrow> byte list) \<Rightarrow> byte list \<Rightarrow> string \<Rightarrow> byte list \<times> byte" where
  "compress_frame gzip data encoding =
     (if encoding \<noteq> ''gzip'' \<or> length data = 0 then (data, 0) else (gzip data, flag_compressed))"

definition decompress_frame ::
  "(byte list \<Rightarrow> byte list option) \<Rightarrow> byte list \<Rightarrow> string \<Rightarrow> grpc_code + byte list" where
  "decompress_frame gunzip data encoding =
     (if encoding = '''' \<or> encoding = ''identity'' then Inl code_internal
      else if encoding = ''gzip'' then
        (case gunzip data of None \<Rightarrow> Inl code_invalid_argument | Some out \<Rightarrow> Inr out)
      else Inl code_unimplemented)"

definition decode_frame_payload ::
  "(byte list \<Rightarrow> byte list option) \<Rightarrow> byte \<Rightarrow> byte list \<Rightarrow> http_header \<Rightarrow> grpc_code + byte list" where
  "decode_frame_payload gunzip flags data hdr =
     (if and flags flag_compressed = 0 then Inr data
      else decompress_frame gunzip data (frame_encoding hdr))"

text \<open>The encoding of a response: the request's accepted encodings, unless the whole body is already
  compressed.\<close>

definition response_frame_encoding :: "string \<Rightarrow> http_header \<Rightarrow> string" where
  "response_frame_encoding content_encoding hdr =
     (if content_encoding \<noteq> '''' then ''identity''
      else (let accept = (if hdr ''Connect-Accept-Encoding'' = '''' then hdr ''Grpc-Accept-Encoding''
                          else hdr ''Connect-Accept-Encoding'')
            in if list_ex (\<lambda>c. str_lower (trim_space c) = ''gzip'') (str_split (CHR '','') accept)
               then ''gzip'' else ''identity''))"

definition write_connect_frame_encoded ::
  "(byte list \<Rightarrow> byte list) \<Rightarrow> byte list \<Rightarrow> bool \<Rightarrow> string \<Rightarrow> byte list" where
  "write_connect_frame_encoded gzip data end_stream encoding =
     (let (data, compressed) = compress_frame gzip data encoding;
          flags = (if end_stream then or compressed flag_end_stream else compressed)
      in (flags # be32 (length data)) @ data)"

definition write_connect_frame :: "(byte list \<Rightarrow> byte list) \<Rightarrow> byte list \<Rightarrow> bool \<Rightarrow> byte list" where
  "write_connect_frame gzip data end_stream = write_connect_frame_encoded gzip data end_stream ''identity''"

section \<open>Receiving\<close>

definition normalize_content_type :: "string \<Rightarrow> string" where
  "normalize_content_type ct = str_lower (trim_space (takeWhile (\<lambda>c. c \<noteq> CHR '';'') ct))"

record stream_adapter =
  body :: "byte list"
  end_of_stream :: bool

datatype recv_error = Recv_EOF | Recv_Frame frame_error | Recv_Status grpc_code

text \<open>The bytes handed to the decoder of messages, or the error that ends the stream.\<close>

definition recv_streaming_message ::
  "(byte list \<Rightarrow> byte list option) \<Rightarrow> http_header \<Rightarrow> stream_adapter
     \<Rightarrow> (recv_error + byte list) \<times> stream_adapter" where
  "recv_streaming_message gunzip hdr a =
     (let ct = normalize_content_type (hdr ''Content-Type'') in
      if ct = ''application/json'' \<or> ct = ''application/proto'' then
        (if body a = [] then (Inl Recv_EOF, a)
         else (Inr (body a), a\<lparr>body := [], end_of_stream := True\<rparr>))
      else
        (case read_connect_frame (body a) of
           (Inl e, rest) \<Rightarrow> (Inl (Recv_Frame e), a\<lparr>body := rest\<rparr>)
         | (Inr frame, rest) \<Rightarrow>
             (let a' = a\<lparr>body := rest\<rparr>; ends = and (f_flags frame) flag_end_stream \<noteq> 0 in
              if ends \<and> length (f_data frame) = 0 then (Inl Recv_EOF, a')
              else
                (let a' = (if ends then a'\<lparr>end_of_stream := True\<rparr> else a') in
                 case decode_frame_payload gunzip (f_flags frame) (f_data frame) hdr of
                   Inl code \<Rightarrow> (Inl (Recv_Status code), a')
                 | Inr payload \<Rightarrow> (Inr payload, a')))))"

definition connect_recv_msg ::
  "(byte list \<Rightarrow> byte list option) \<Rightarrow> bool \<Rightarrow> http_header \<Rightarrow> stream_adapter
     \<Rightarrow> (recv_error + byte list) \<times> stream_adapter" where
  "connect_recv_msg gunzip streaming hdr a =
     (if end_of_stream a then (Inl Recv_EOF, a)
      else if streaming then recv_streaming_message gunzip hdr a
      else (Inr (body a), a\<lparr>body := []\<rparr>))"

definition grpcweb_recv_msg :: "stream_adapter \<Rightarrow> (recv_error + byte list) \<times> stream_adapter" where
  "grpcweb_recv_msg a =
     (if end_of_stream a then (Inl Recv_EOF, a)
      else
        (case read_connect_frame (body a) of
           (Inl e, rest) \<Rightarrow> (Inl (Recv_Frame e), a\<lparr>body := rest\<rparr>)
         | (Inr frame, rest) \<Rightarrow>
             (let a' = a\<lparr>body := rest\<rparr>; ends = and (f_flags frame) flag_end_stream \<noteq> 0 in
              if ends \<and> length (f_data frame) = 0 then (Inl Recv_EOF, a')
              else (Inr (f_data frame), if ends then a'\<lparr>end_of_stream := True\<rparr> else a'))))"

text \<open>The payload of a unary gRPC-Web body, with or without its frame header.\<close>

definition extract_payload ::
  "(byte list \<Rightarrow> byte list option) \<Rightarrow> byte list \<Rightarrow> http_header \<Rightarrow> grpc_code + byte list" where
  "extract_payload gunzip raw hdr =
     (if length raw < header_size then Inr raw
      else if be32_val (take 4 (drop 1 raw)) + header_size \<noteq> length raw then Inr raw
      else if raw ! 0 = 0 then Inr (drop header_size raw)
      else if raw ! 0 = flag_compressed then
        decompress_frame gunzip (drop header_size raw) (frame_encoding hdr)
      else Inr raw)"

section \<open>Frames read back\<close>

lemma be32_roundtrip: "n < 2 ^ 32 \<Longrightarrow> be32_val (be32 n) = n"
proof -
  assume n: "n < 2 ^ 32"
  define q1 where "q1 = n div 256"
  define q2 where "q2 = q1 div 256"
  define q3 where "q3 = q2 div 256"
  have u: "unat (of_nat m :: byte) = m mod 256" for m by (simp add: unat_of_nat)
  have q: "n div 2 ^ 8 = q1" "n div 2 ^ 16 = q2" "n div 2 ^ 24 = q3"
    by (simp_all add: q1_def q2_def q3_def div_mult2_eq [symmetric])
  have "q3 < 256" unfolding q(3) [symmetric] using n by (simp add: less_mult_imp_div_less)
  then have a: "q3 mod 256 = q3" by simp
  have "n = q1 * 256 + n mod 256" "q1 = q2 * 256 + q1 mod 256" "q2 = q3 * 256 + q2 mod 256"
    by (simp_all add: q1_def q2_def q3_def)
  then have "q3 * 16777216 + q2 mod 256 * 65536 + q1 mod 256 * 256 + n mod 256 = n" by linarith
  then show ?thesis unfolding be32_def q by (simp add: u a)
qed

lemma length_be32 [simp]: "length (be32 n) = 4"
  by (simp add: be32_def)

lemma read_written_header:
  assumes "length data \<le> max_frame_size"
  shows "read_connect_frame ((flags # be32 (length data)) @ data @ rest) =
    (Inr \<lparr>f_flags = flags, f_data = data\<rparr>, rest)"
proof -
  have "be32_val (be32 (length data)) = length data"
    using assms by (intro be32_roundtrip) simp
  then show ?thesis
    using assms by (simp add: read_connect_frame_def read_full_def Let_def)
qed

section \<open>Properties\<close>

lemma flag_bits:
  "and (0 :: byte) flag_end_stream = 0" "and (0 :: byte) flag_compressed = 0"
  "and flag_compressed flag_end_stream = (0 :: byte)" "and flag_compressed flag_compressed = (1 :: byte)"
  by simp_all

text \<open>What one receive gives on a body that starts with a frame as the writer makes it.\<close>

lemma connect_recv_written:
  assumes gz: "\<forall>x. gunzip (gzip x) = Some x"
    and size: "length (fst (compress_frame gzip p (frame_encoding hdr))) \<le> max_frame_size"
    and ct: "normalize_content_type (hdr ''Content-Type'') \<notin> {''application/json'', ''application/proto''}"
    and open': "\<not> end_of_stream a"
    and body: "body a = write_connect_frame_encoded gzip p False (frame_encoding hdr) @ rest"
  shows "connect_recv_msg gunzip True hdr a = (Inr p, a\<lparr>body := rest\<rparr>)"
proof -
  obtain data flags where c: "compress_frame gzip p (frame_encoding hdr) = (data, flags)"
    by (cases "compress_frame gzip p (frame_encoding hdr)")
  have b: "body a = (flags # be32 (length data)) @ data @ rest"
    using body c by (simp add: write_connect_frame_encoded_def)
  have r: "read_connect_frame (body a) = (Inr \<lparr>f_flags = flags, f_data = data\<rparr>, rest)"
    unfolding b using size c by (intro read_written_header) simp
  have fl: "and flags flag_end_stream = 0" and
    dec: "decode_frame_payload gunzip flags data hdr = Inr p"
    using c gz by (auto simp: compress_frame_def decode_frame_payload_def decompress_frame_def
        split: if_splits)
  show ?thesis
    using open' ct by (simp add: connect_recv_msg_def recv_streaming_message_def Let_def r fl dec)
qed

fun recv_many :: "(byte list \<Rightarrow> byte list option) \<Rightarrow> http_header \<Rightarrow> nat \<Rightarrow> stream_adapter
    \<Rightarrow> (recv_error + byte list) list \<times> stream_adapter" where
  "recv_many gunzip hdr 0 a = ([], a)"
| "recv_many gunzip hdr (Suc n) a =
     (let (r, a') = connect_recv_msg gunzip True hdr a; (rs, a'') = recv_many gunzip hdr n a'
      in (r # rs, a''))"

text \<open>C27. A stream of Connect envelopes is read back exactly: the messages in order, with any negotiated
  compression, and then the end of the stream.\<close>

theorem connect_stream_roundtrip:
  assumes "\<forall>x. gunzip (gzip x) = Some x"
    and "\<forall>p\<in>set ps. length (fst (compress_frame gzip p (frame_encoding hdr))) \<le> max_frame_size"
    and "normalize_content_type (hdr ''Content-Type'') \<notin> {''application/json'', ''application/proto''}"
    and "\<not> end_of_stream a"
    and "body a = concat (map (\<lambda>p. write_connect_frame_encoded gzip p False (frame_encoding hdr)) ps)"
  shows "recv_many gunzip hdr (Suc (length ps)) a =
     (map Inr ps @ [Inl (Recv_Frame Frame_EOF)], a\<lparr>body := []\<rparr>)"
  using assms(2,4,5)
proof (induction ps arbitrary: a)
  case Nil
  then show ?case
    using assms(3) by (simp add: connect_recv_msg_def recv_streaming_message_def Let_def
        read_connect_frame_def read_full_def)
next
  case (Cons p ps)
  let ?rest = "concat (map (\<lambda>p. write_connect_frame_encoded gzip p False (frame_encoding hdr)) ps)"
  have one: "connect_recv_msg gunzip True hdr a = (Inr p, a\<lparr>body := ?rest\<rparr>)"
    by (rule connect_recv_written [where gunzip = gunzip and gzip = gzip and p = p])
      (use Cons.prems assms(1,3) in simp_all)
  have "recv_many gunzip hdr (Suc (length ps)) (a\<lparr>body := ?rest\<rparr>) =
      (map Inr ps @ [Inl (Recv_Frame Frame_EOF)], (a\<lparr>body := ?rest\<rparr>)\<lparr>body := []\<rparr>)"
    using Cons.prems by (intro Cons.IH) simp_all
  then show ?case
    by (subst recv_many.simps(2) [of gunzip hdr "length (p # ps)" a])
      (simp only: one Let_def prod.case length_Cons, simp)
qed

definition sample_header :: "string \<Rightarrow> http_header" where
  "sample_header ct = (\<lambda>k. if k = ''Content-Type'' then ct else if k = ''Grpc-Encoding'' then ''gzip'' else '''')"

lemma connect_stream_roundtrip_witness:
  "recv_many (\<lambda>x. Some (tl x)) (sample_header ''application/connect+proto'') 3
     \<lparr>body = concat (map (\<lambda>p. write_connect_frame_encoded (\<lambda>x. 0 # x) p False ''gzip'') [[1, 2], []]),
      end_of_stream = False\<rparr> =
   ([Inr [1, 2], Inr [], Inl (Recv_Frame Frame_EOF)], \<lparr>body = [], end_of_stream = False\<rparr>)"
proof -
  let ?h = "sample_header ''application/connect+proto''"
  have enc: "frame_encoding ?h = ''gzip''" by code_simp
  have ct: "normalize_content_type (?h ''Content-Type'') \<notin> {''application/json'', ''application/proto''}"
    by code_simp
  let ?a = "\<lparr>body = concat (map (\<lambda>p. write_connect_frame_encoded (\<lambda>x. 0 # x) p False ''gzip'') [[1, 2], []]),
          end_of_stream = False\<rparr>"
  have "recv_many (\<lambda>x. Some (tl x)) ?h (Suc (length [[1, 2], [] :: byte list])) ?a =
     (map Inr [[1, 2], []] @ [Inl (Recv_Frame Frame_EOF)], ?a\<lparr>body := []\<rparr>)"
    by (rule connect_stream_roundtrip [where gunzip = "\<lambda>x. Some (tl x)" and gzip = "\<lambda>x. 0 # x"])
      (use ct in \<open>simp_all only: enc\<close>, simp_all add: compress_frame_def)
  moreover have "Suc (length [[1, 2], [] :: byte list]) = 3" by simp
  ultimately show ?thesis by (simp only:) simp
qed

text \<open>A framed unary body gives its payload.\<close>

lemma extract_written:
  assumes "\<forall>x. gunzip (gzip x) = Some x"
    and "length (fst (compress_frame gzip p (frame_encoding hdr))) < 2 ^ 32"
  shows "extract_payload gunzip (write_connect_frame_encoded gzip p False (frame_encoding hdr)) hdr = Inr p"
proof -
  obtain data flags where c: "compress_frame gzip p (frame_encoding hdr) = (data, flags)"
    by (cases "compress_frame gzip p (frame_encoding hdr)")
  have "be32_val (be32 (length data)) = length data"
    using assms(2) c by (intro be32_roundtrip) simp
  then show ?thesis
    using c assms(1)
    by (auto simp: extract_payload_def write_connect_frame_encoded_def compress_frame_def
        decompress_frame_def split: if_splits)
qed

text \<open>A peer that closes the connection right after a frame header is taken for a clean end of the
  stream, although the comment promises \<^verbatim>\<open>io.ErrUnexpectedEOF\<close>.\<close>

lemma truncated_body_is_eof:
  "0 < n \<Longrightarrow> n \<le> max_frame_size \<Longrightarrow> fst (read_connect_frame (0 # be32 n)) = Inl Frame_EOF"
  using be32_roundtrip [of n] by (simp add: read_connect_frame_def read_full_def Let_def)

end
