(* ===== verification/Wire_Text.thy ===== *)
theory Wire_Text
  imports Wire_Frames GM_Prelude
begin

text \<open>
  The textual parts of the gateways: timeouts (\<^verbatim>\<open>gateway_timeout.go\<close>), the trailers frame of gRPC-Web
  (\<^verbatim>\<open>grpcweb_gateway.go\<close>), error codes (\<^verbatim>\<open>connect_gateway.go\<close>), and the byte sizes of the
  configuration (\<^verbatim>\<open>internal/infra/types/bytesize.go\<close>). Durations are nanoseconds in 64 bits:
  products wrap.
\<close>

section \<open>Timeouts\<close>

datatype timeout_error = Timeout_Malformed

definition parse_connect_timeout :: "string \<Rightarrow> timeout_error + int" where
  "parse_connect_timeout raw =
     (if 10 < length raw then Inl Timeout_Malformed
      else case parse_int64 raw of
             None \<Rightarrow> Inl Timeout_Malformed
           | Some ms \<Rightarrow> if ms < 0 then Inl Timeout_Malformed else Inr (wrap64 (ms * 1000000)))"

definition grpc_timeout_units :: "(char \<times> int) list" where
  "grpc_timeout_units = [(CHR ''H'', 3600000000000), (CHR ''M'', 60000000000), (CHR ''S'', 1000000000),
     (CHR ''m'', 1000000), (CHR ''u'', 1000), (CHR ''n'', 1)]"

definition parse_grpc_timeout :: "string \<Rightarrow> timeout_error + int" where
  "parse_grpc_timeout raw =
     (if length raw < 2 then Inl Timeout_Malformed
      else case map_of grpc_timeout_units (last raw) of
             None \<Rightarrow> Inl Timeout_Malformed
           | Some unit \<Rightarrow>
               (let digits = butlast raw in
                if 8 < length digits then Inl Timeout_Malformed
                else case parse_int64 digits of
                       None \<Rightarrow> Inl Timeout_Malformed
                     | Some n \<Rightarrow> if n < 0 then Inl Timeout_Malformed else Inr (wrap64 (n * unit))))"

text \<open>\<open>Inr None\<close>: the request has no timeout.\<close>

definition request_timeout :: "http_header \<Rightarrow> timeout_error + int option" where
  "request_timeout hdr =
     (let v = trim_space (hdr ''Connect-Timeout-Ms'') in
      if v \<noteq> '''' then (case parse_connect_timeout v of Inl e \<Rightarrow> Inl e | Inr d \<Rightarrow> Inr (Some d))
      else let v = trim_space (hdr ''Grpc-Timeout'') in
           if v \<noteq> '''' then (case parse_grpc_timeout v of Inl e \<Rightarrow> Inl e | Inr d \<Rightarrow> Inr (Some d))
           else Inr None)"

section \<open>Byte sizes\<close>

text \<open>\<open>None\<close> is the decoding error.\<close>

definition parse_byte_size :: "string \<Rightarrow> int option" where
  "parse_byte_size text =
     (let raw = trim_space (str_upper text) in
      if raw = '''' then Some 0
      else
        (let (mult, raw) =
           (if has_suffix raw ''K'' then (1024, butlast raw)
            else if has_suffix raw ''M'' then (1024 * 1024, butlast raw)
            else if has_suffix raw ''G'' then (1024 * 1024 * 1024, butlast raw)
            else (1, raw))
         in map_option (\<lambda>n. wrap64 (n * mult)) (parse_int64 (trim_space raw))))"

section \<open>Trailers\<close>

definition should_escape :: "char \<Rightarrow> bool" where
  "should_escape b \<longleftrightarrow> (let n = of_char b :: nat in n \<le> 32 \<or> 126 < n \<or> b = CHR ''%'')"

definition hex_digit :: "nat \<Rightarrow> char" where
  "hex_digit n = ''0123456789ABCDEF'' ! n"

fun percent_encode :: "string \<Rightarrow> string" where
  "percent_encode [] = []"
| "percent_encode (b # s) =
     (if should_escape b
      then CHR ''%'' # hex_digit (of_char b div 16) # hex_digit (of_char b mod 16) # percent_encode s
      else b # percent_encode s)"

abbreviation crlf :: string where "crlf \<equiv> [CHR 0x0D, CHR 0x0A]"

definition sanitize_trailer_line :: "string \<Rightarrow> string" where
  "sanitize_trailer_line s = filter (\<lambda>c. c \<noteq> CHR 0x0D \<and> c \<noteq> CHR 0x0A) s"

text \<open>The lines \<^verbatim>\<open>SetTrailer\<close> keeps, for each key and its values joined by commas.\<close>

definition join :: "string \<Rightarrow> string list \<Rightarrow> string" where
  "join sep ss = (case ss of [] \<Rightarrow> '''' | x # xs \<Rightarrow> x @ concat (map (\<lambda>y. sep @ y) xs))"

definition trailer_lines :: "(string \<times> string list) list \<Rightarrow> string list" where
  "trailer_lines md =
     map (\<lambda>(k, vs). sanitize_trailer_line k @ '': '' @ sanitize_trailer_line (join '','' vs))
       (filter (\<lambda>(_, vs). vs \<noteq> []) md)"

definition trailer_text :: "grpc_code \<Rightarrow> string \<Rightarrow> string list \<Rightarrow> string" where
  "trailer_text code msg extra =
     (if msg = '''' then ''grpc-status: '' @ fmt_nat (unat code) @ crlf
      else ''grpc-status: '' @ fmt_nat (unat code) @ crlf @ ''grpc-message: '' @ percent_encode msg @ crlf)
     @ concat (map (\<lambda>e. e @ crlf) extra)"

definition write_grpcweb_trailers :: "grpc_code \<Rightarrow> string \<Rightarrow> string list \<Rightarrow> byte list" where
  "write_grpcweb_trailers code msg extra =
     (let data = trailer_text code msg extra in
      (0x80 # be32 (length data)) @ map of_char data)"

section \<open>Error codes\<close>

definition code_names :: "(grpc_code \<times> string) list" where
  "code_names = [(0, ''ok''), (1, ''canceled''), (2, ''unknown''), (3, ''invalid_argument''),
     (4, ''deadline_exceeded''), (5, ''not_found''), (6, ''already_exists''), (7, ''permission_denied''),
     (8, ''resource_exhausted''), (9, ''failed_precondition''), (10, ''aborted''), (11, ''out_of_range''),
     (12, ''unimplemented''), (13, ''internal''), (14, ''unavailable''), (15, ''data_loss''),
     (16, ''unauthenticated'')]"

definition error_code_to_string :: "grpc_code \<Rightarrow> string" where
  "error_code_to_string code =
     (case map_of code_names code of Some s \<Rightarrow> s | None \<Rightarrow> ''internal'')"

definition code_statuses :: "(grpc_code \<times> nat) list" where
  "code_statuses = [(1, 499), (2, 500), (3, 400), (4, 504), (5, 404), (6, 409), (7, 403), (8, 429),
     (9, 400), (10, 409), (11, 400), (12, 501), (13, 500), (14, 503), (15, 500), (16, 401)]"

definition error_code_to_http_status :: "grpc_code \<Rightarrow> nat" where
  "error_code_to_http_status code =
     (case map_of code_statuses code of Some n \<Rightarrow> n | None \<Rightarrow> 500)"

section \<open>Content types\<close>

definition is_json_content_type :: "string \<Rightarrow> bool" where
  "is_json_content_type ct \<longleftrightarrow>
     normalize_content_type ct \<in> {''application/json'', ''application/connect+json''}"

definition is_connect_stream_content_type :: "string \<Rightarrow> bool" where
  "is_connect_stream_content_type ct = has_prefix (normalize_content_type ct) ''application/connect+''"

definition acceptable_content_type :: "bool \<Rightarrow> string \<Rightarrow> bool" where
  "acceptable_content_type streaming ct =
     (if streaming then is_connect_stream_content_type ct
      else if ct = '''' \<or> is_connect_stream_content_type ct then True
      else normalize_content_type ct \<in> {''application/json'', ''application/proto''})"

text \<open>The encoding that is not supported, if any.\<close>

definition unsupported_stream_encoding :: "http_header \<Rightarrow> string option" where
  "unsupported_stream_encoding hdr =
     (let encoding = str_lower (trim_space (hdr ''Connect-Content-Encoding'')) in
      if encoding = '''' \<or> encoding = ''identity'' then None else Some encoding)"

definition is_grpcweb_text_content_type :: "string \<Rightarrow> bool" where
  "is_grpcweb_text_content_type ct = has_prefix (normalize_content_type ct) ''application/grpc-web-text''"

definition grpcweb_text_response_content_type :: "string \<Rightarrow> string" where
  "grpcweb_text_response_content_type ct =
     (if normalize_content_type ct = ''application/grpc-web-text+json'' then ''application/grpc-web-text+json''
      else ''application/grpc-web-text+proto'')"

definition grpcweb_content_type_supported :: "string \<Rightarrow> bool" where
  "grpcweb_content_type_supported ct \<longleftrightarrow>
     ct = '''' \<or> normalize_content_type ct \<in>
       {''application/grpc-web'', ''application/grpc-web+proto'', ''application/grpc-web+json'',
        ''application/grpc-web-text'', ''application/grpc-web-text+proto'', ''application/grpc-web-text+json''}"

definition is_grpcweb_json_content_type :: "string \<Rightarrow> bool" where
  "is_grpcweb_json_content_type ct \<longleftrightarrow>
     normalize_content_type ct \<in>
       {''application/json'', ''application/grpc-web+json'', ''application/grpc-web-text+json''}"

definition grpcweb_response_content_type :: "string \<Rightarrow> string" where
  "grpcweb_response_content_type ct =
     (if is_grpcweb_text_content_type ct then grpcweb_text_response_content_type ct
      else if is_grpcweb_json_content_type ct then ''application/grpc-web+json''
      else ''application/grpc-web+proto'')"

end
