(* ===== verification/Wire_Claims.thy ===== *)
theory Wire_Claims
  imports Wire_Text
begin

text \<open>The properties of the textual parts of the gateways.\<close>

section \<open>Timeouts\<close>

lemma digits_val_bound: "digits_val acc s = Some n \<Longrightarrow> n < (acc + 1) * 10 ^ length s"
proof (induction s arbitrary: acc)
  case (Cons c s acc)
  then have dig: "is_digit c" and rec: "digits_val (acc * 10 + (of_char c - 48)) s = Some n"
    by (auto split: if_splits)
  define d where "d = (of_char c :: nat) - 48"
  have "(of_char c :: nat) \<le> 57" using dig by (simp add: is_digit_def less_eq_char_def)
  then have "(of_char c :: nat) - 48 \<le> 57 - 48" by (rule diff_le_mono)
  then have "d \<le> 9" by (simp add: d_def)
  then have "acc * 10 + d + 1 \<le> (acc + 1) * 10" by simp
  then have "acc * 10 + (of_char c - 48) + 1 \<le> (acc + 1) * 10" by (simp only: d_def)
  then have "(acc * 10 + (of_char c - 48) + 1) * 10 ^ length s \<le> (acc + 1) * 10 * 10 ^ length s"
    by (rule mult_le_mono1)
  moreover have "n < (acc * 10 + (of_char c - 48) + 1) * 10 ^ length s" by (rule Cons.IH [OF rec])
  ultimately have "n < (acc + 1) * 10 * 10 ^ length s" by (rule order_less_le_trans [rotated])
  then show ?case by (simp only: length_Cons power_Suc mult.assoc)
qed simp

lemma parse_int64_bound:
  assumes "parse_int64 s = Some n" and "length s \<le> k"
  shows "n < 10 ^ k"
proof -
  have "\<exists>ds m. length ds \<le> length s \<and> digits_val 0 ds = Some m \<and> n \<le> int m"
  proof (cases s)
    case Nil
    then show ?thesis using assms(1) by (simp add: parse_int64_def)
  next
    case (Cons c r)
    let ?ds = "if c = CHR ''-'' \<or> c = CHR ''+'' then r else s"
    obtain m where "digits_val 0 ?ds = Some m" "n \<le> int m"
      using assms(1) Cons by (auto simp: parse_int64_def Let_def simp del: digits_val.simps
          split: option.splits if_splits)
    moreover have "length ?ds \<le> length s" using Cons by simp
    ultimately show ?thesis by blast
  qed
  then obtain ds m where ds: "length ds \<le> length s" "digits_val 0 ds = Some m" "n \<le> int m" by blast
  have "m < 10 ^ length ds" using digits_val_bound [OF ds(2)] by simp
  also have "(10 :: nat) ^ length ds \<le> 10 ^ k" using ds(1) assms(2) by (simp add: power_increasing)
  finally have "int m < 10 ^ k" by (metis of_nat_less_iff of_nat_numeral of_nat_power)
  then show ?thesis using ds(3) by linarith
qed

text \<open>A timeout that is accepted is the number of its units exactly, in 64 bits, for the Connect header
  and for every gRPC unit but the hour.\<close>

lemma timeouts_exact:
  "(parse_connect_timeout raw = Inr d \<longrightarrow>
      (\<exists>ms. parse_int64 raw = Some ms \<and> 0 \<le> ms \<and> ms < 10 ^ 10 \<and> d = ms * 10 ^ 6)) \<and>
   (parse_grpc_timeout raw = Inr d \<and> last raw \<noteq> CHR ''H'' \<longrightarrow>
      (\<exists>n unit. parse_int64 (butlast raw) = Some n \<and> map_of grpc_timeout_units (last raw) = Some unit \<and>
         0 \<le> n \<and> n < 10 ^ 8 \<and> d = n * unit))"
proof (intro conjI impI)
  assume p: "parse_connect_timeout raw = Inr d"
  then obtain ms where ms: "length raw \<le> 10" "parse_int64 raw = Some ms" "0 \<le> ms" "d = wrap64 (ms * 1000000)"
    by (auto simp: parse_connect_timeout_def split: if_splits option.splits)
  have "ms < 10 ^ 10" by (rule parse_int64_bound [OF ms(2,1)])
  then have "int64_range (ms * 1000000)" using ms(3) by (simp add: int64_range_def)
  with ms \<open>ms < 10 ^ 10\<close> show "\<exists>ms. parse_int64 raw = Some ms \<and> 0 \<le> ms \<and> ms < 10 ^ 10 \<and> d = ms * 10 ^ 6"
    by auto
next
  assume p: "parse_grpc_timeout raw = Inr d \<and> last raw \<noteq> CHR ''H''"
  then obtain unit n where n: "map_of grpc_timeout_units (last raw) = Some unit" "length (butlast raw) \<le> 8"
    "parse_int64 (butlast raw) = Some n" "0 \<le> n" "d = wrap64 (n * unit)"
    by (auto simp: parse_grpc_timeout_def Let_def split: if_splits option.splits)
  have lim: "n < 10 ^ 8" by (rule parse_int64_bound [OF n(3,2)])
  have unit: "1 \<le> unit" "unit \<le> 60000000000"
    using n(1) p by (auto simp: grpc_timeout_units_def split: if_splits)
  have "n * unit \<le> 10 ^ 8 * 60000000000" using lim n(4) unit by (intro mult_mono) auto
  moreover have "0 \<le> n * unit" using n(4) unit by simp
  ultimately have "int64_range (n * unit)" by (simp add: int64_range_def)
  with n lim show "\<exists>n unit. parse_int64 (butlast raw) = Some n \<and> map_of grpc_timeout_units (last raw) = Some unit \<and>
       0 \<le> n \<and> n < 10 ^ 8 \<and> d = n * unit" by auto
qed

lemma timeouts_exact_witness: "\<exists>ms. parse_int64 ''1500'' = Some ms \<and> 0 \<le> ms \<and> 1500000000 = ms * 10 ^ 6"
proof -
  have "parse_connect_timeout ''1500'' = Inr 1500000000" by code_simp
  then show ?thesis using timeouts_exact [of "''1500''" 1500000000] by blast
qed

text \<open>Eight digits of hours do not fit: a timeout of 584 years becomes 25 minutes, and 99999999 hours a
  negative duration, with which the request runs without a timeout.\<close>

lemma hour_timeout_wraps:
  "parse_grpc_timeout ''5124096H'' = Inr 1526290448384" "\<exists>d<0. parse_grpc_timeout ''99999999H'' = Inr d"
proof -
  have p: "parse_int64 ''5124096'' = Some 5124096" "parse_int64 ''99999999'' = Some 99999999"
    by (simp_all add: parse_int64_def is_digit_def less_eq_char_def int64_range_def)
  show "parse_grpc_timeout ''5124096H'' = Inr 1526290448384"
    by (simp add: parse_grpc_timeout_def grpc_timeout_units_def p wrap64_def)
  have "parse_grpc_timeout ''99999999H'' = Inr (wrap64 (99999999 * 3600000000000))"
    by (simp add: parse_grpc_timeout_def grpc_timeout_units_def p)
  moreover have "wrap64 (99999999 * 3600000000000) < 0" by (simp add: wrap64_def)
  ultimately show "\<exists>d<0. parse_grpc_timeout ''99999999H'' = Inr d" by blast
qed

lemma byte_size_wraps: "parse_byte_size ''8589934592G'' = Some (- (2 ^ 63))" "parse_byte_size ''17179869184g'' = Some 0"
proof -
  have p: "parse_int64 ''8589934592'' = Some 8589934592" "parse_int64 ''17179869184'' = Some 17179869184"
    by (simp_all add: parse_int64_def is_digit_def less_eq_char_def int64_range_def)
  have t: "trim_space (str_upper ''8589934592G'') = ''8589934592G''" "trim_space ''8589934592'' = ''8589934592''"
    "trim_space (str_upper ''17179869184g'') = ''17179869184G''" "trim_space ''17179869184'' = ''17179869184''"
    by code_simp+
  show "parse_byte_size ''8589934592G'' = Some (- (2 ^ 63))" "parse_byte_size ''17179869184g'' = Some 0"
    unfolding parse_byte_size_def t Let_def by (simp_all add: has_suffix_def t p wrap64_def)
qed

section \<open>Trailers\<close>

text \<open>The reference decoder of \<^verbatim>\<open>grpc-message\<close>.\<close>

definition hex_val :: "char \<Rightarrow> nat" where
  "hex_val c = (if is_digit c then of_char c - 48 else of_char c - 55)"

fun percent_decode :: "string \<Rightarrow> string" where
  "percent_decode (p # a # b # s) =
     (if p = CHR ''%'' then char_of (hex_val a * 16 + hex_val b) # percent_decode s
      else p # percent_decode (a # b # s))"
| "percent_decode s = s"

lemma hex_digits: "n < 16 \<Longrightarrow> hex_val (hex_digit n) = n \<and> \<not> should_escape (hex_digit n)"
proof -
  have "list_all (\<lambda>n. hex_val (hex_digit n) = n \<and> \<not> should_escape (hex_digit n)) [0..<16]" by code_simp
  then show "n < 16 \<Longrightarrow> ?thesis" by (simp add: list_all_iff)
qed

lemma percent_decode_plain: "p \<noteq> CHR ''%'' \<Longrightarrow> percent_decode (p # s) = p # percent_decode s"
  by (cases s rule: percent_decode.cases) auto

lemma percent_roundtrip: "percent_decode (percent_encode s) = s"
proof (induction s)
  case (Cons b s)
  have lt: "(of_char b :: nat) < 256" by (cases b) simp
  then have h: "(of_char b :: nat) div 16 < 16" by (simp add: less_mult_imp_div_less)
  have b: "char_of (of_char b div 16 * 16 + of_char b mod 16 :: nat) = b" by (simp only: div_mult_mod_eq char_of_char)
  show ?case
  proof (cases "should_escape b")
    case True
    then show ?thesis using Cons h hex_digits b by simp
  next
    case False
    then have "b \<noteq> CHR ''%''" by (auto simp: should_escape_def)
    then show ?thesis using Cons False by (simp add: percent_decode_plain)
  qed
qed simp

lemma percent_encode_visible: "c \<in> set (percent_encode s) \<Longrightarrow> 32 < (of_char c :: nat) \<and> (of_char c :: nat) \<le> 126"
proof (induction s)
  case (Cons b s)
  have "(of_char b :: nat) < 256" by (cases b) simp
  then have h: "(of_char b :: nat) div 16 < 16" by (simp add: less_mult_imp_div_less)
  have vis: "\<not> should_escape x \<Longrightarrow> 32 < (of_char x :: nat) \<and> (of_char x :: nat) \<le> 126" for x
    by (auto simp: should_escape_def Let_def)
  show ?case
    using Cons h hex_digits vis by (auto split: if_splits)
qed simp

abbreviation lf :: char where "lf \<equiv> CHR 0x0A"

lemma no_lf:
  "lf \<notin> set (fmt_nat n)" "lf \<notin> set (percent_encode s)" "lf \<notin> set (sanitize_trailer_line s)"
proof -
  show "lf \<notin> set (fmt_nat n)"
  proof
    assume "lf \<in> set (fmt_nat n)"
    moreover have "\<forall>c\<in>set (fmt_nat n). is_digit c"
      by (induction n rule: fmt_nat.induct) (subst fmt_nat.simps, auto simp: digit_char_props)
    ultimately show False by (auto simp: is_digit_def less_eq_char_def)
  qed
  show "lf \<notin> set (percent_encode s)" using percent_encode_visible [of lf s] by auto
  show "lf \<notin> set (sanitize_trailer_line s)" by (simp add: sanitize_trailer_line_def)
qed

lemma count_lines: "\<forall>e\<in>set es. lf \<notin> set e \<Longrightarrow> count_list (concat (map (\<lambda>e. e @ crlf) es)) lf = length es"
  by (induction es) auto


section \<open>Streams in the text variant\<close>

definition text_bytes :: "string \<Rightarrow> byte list" where
  "text_bytes s = map of_char s"

lemma text_byte_high: "c \<in> set (b64_encode bs) \<Longrightarrow> 43 \<le> unat (of_char c :: byte)"
proof -
  have "list_all (\<lambda>c. 43 \<le> unat (of_char c :: byte)) b64_alphabet" by (simp add: b64_alphabet_def)
  then have ch: "n < 64 \<Longrightarrow> 43 \<le> unat (of_char (b64_char n) :: byte)" for n
    by (simp add: list_all_length b64_length_alphabet b64_char_def)
  show "c \<in> set (b64_encode bs) \<Longrightarrow> ?thesis"
    by (induction bs rule: b64_encode.induct) (auto simp: ch)
qed

lemma b64_encode_length: "length bs \<le> length (b64_encode bs)"
  by (induction bs rule: b64_encode.induct) auto

text \<open>The receiver of gRPC-Web streams reads frames from the body as it came, without decoding the text
  variant: every request in that variant is rejected as too large.\<close>

lemma text_stream_too_large:
  assumes "header_size \<le> length bs"
  shows "fst (grpcweb_recv_msg \<lparr>body = text_bytes (b64_encode bs), end_of_stream = False\<rparr>) =
    Inl (Recv_Frame Frame_TooLarge)"
proof -
  have "5 \<le> length (b64_encode bs)" using assms b64_encode_length [of bs] by linarith
  then obtain c0 c1 c2 c3 c4 s where t: "b64_encode bs = c0 # c1 # c2 # c3 # c4 # s"
    by (metis (no_types, opaque_lifting) Suc_le_length_iff numeral_eq_Suc pred_numeral_simps(2)
        pred_numeral_simps(3) eval_nat_numeral(2,3) semiring_norm(26,27,28) le_numeral_Suc)
  have "43 \<le> unat (of_char c1 :: byte)" by (rule text_byte_high [of _ bs]) (simp add: t)
  then have "max_frame_size < be32_val [of_char c1, of_char c2, of_char c3, of_char c4]"
    by simp
  then show ?thesis
    by (simp add: grpcweb_recv_msg_def read_connect_frame_def read_full_def Let_def text_bytes_def t
        del: be32_val.simps)
qed

end
