(* ===== verification/Go_Results.thy ===== *)
theory Go_Results
  imports Stub_Model
begin

text \<open>
  Go's pairs of a value and an error as sums, with the rules that read a chain of early returns
  backwards, and the in-order traversal of a slice or map that stops at the first error.
\<close>

named_theorems result_iff \<open>when a step, or a chain of steps, succeeds\<close>

definition r_bind :: "'e + 'a \<Rightarrow> ('a \<Rightarrow> 'e + 'b) \<Rightarrow> 'e + 'b" where
  "r_bind m f = (case m of Inl e \<Rightarrow> Inl e | Inr x \<Rightarrow> f x)"

definition r_map :: "('a \<Rightarrow> 'b) \<Rightarrow> 'e + 'a \<Rightarrow> 'e + 'b" where
  "r_map f m = (case m of Inl e \<Rightarrow> Inl e | Inr x \<Rightarrow> Inr (f x))"

lemma r_simps [simp]:
  "r_bind (Inl e) f = Inl e" "r_bind (Inr x) f = f x"
  "r_map h (Inl e) = Inl e" "r_map h (Inr x) = Inr (h x)"
  by (simp_all add: r_bind_def r_map_def)

lemma r_bind_Inr [result_iff]: "r_bind m f = Inr y \<longleftrightarrow> (\<exists>x. m = Inr x \<and> f x = Inr y)"
  by (cases m) auto

lemma r_map_Inr [result_iff]: "r_map f m = Inr y \<longleftrightarrow> (\<exists>x. m = Inr x \<and> y = f x)"
  by (cases m) auto

fun traverse :: "('a \<Rightarrow> 'e + 'b) \<Rightarrow> 'a list \<Rightarrow> 'e + 'b list" where
  "traverse f [] = Inr []"
| "traverse f (x # xs) = r_bind (f x) (\<lambda>y. r_map (\<lambda>ys. y # ys) (traverse f xs))"

lemma traverse_cong [fundef_cong]:
  "xs = ys \<Longrightarrow> (\<And>x. x \<in> set ys \<Longrightarrow> f x = h x) \<Longrightarrow> traverse f xs = traverse h ys"
  by (induction ys arbitrary: xs) auto

lemma traverse_Inr [result_iff]:
  "traverse f xs = Inr ys \<longleftrightarrow> list_all2 (\<lambda>x y. f x = Inr y) xs ys"
  by (induction xs arbitrary: ys) (auto simp: r_bind_Inr r_map_Inr list_all2_Cons1)

lemma traverse_id: "(\<And>x. x \<in> set xs \<Longrightarrow> f x = Inr x) \<Longrightarrow> traverse f xs = Inr xs"
  by (induction xs) auto

lemma traverse_length: "traverse f xs = Inr ys \<Longrightarrow> length ys = length xs"
  by (simp add: traverse_Inr list_all2_lengthD)

lemma traverse_set: "traverse f xs = Inr ys \<Longrightarrow> y \<in> set ys \<Longrightarrow> \<exists>x\<in>set xs. f x = Inr y"
  by (induction xs arbitrary: ys) (auto simp: r_bind_Inr r_map_Inr)

lemma traverse_Inl: "traverse f xs = Inl e \<Longrightarrow> \<exists>x\<in>set xs. f x = Inl e"
  by (induction xs) (auto simp: r_bind_def r_map_def split: sum.splits)

end
