(* ===== verification/Templates.thy ===== *)
theory Templates
  imports Go_Results
begin

text \<open>
  The template engine around Go's \<^verbatim>\<open>text/template\<close>, \<^verbatim>\<open>internal/infra/template/template.go\<close>: which
  strings are templates, and how the values of a map, an array or the headers are rendered in
  place. Parsing and executing one template is the library's: \<open>render\<close> is a parameter that gives
  the text or an error for one template string and the data of the call.
\<close>

record template_data =
  td_Request :: gomap
  td_Headers :: gmap
  td_MessageIndex :: int
  td_RequestTime :: int
  td_Timestamp :: int
  td_State :: gmap
  td_Requests :: "gvalue list"
  td_AttemptNumber :: int
  td_AttemptIndex :: int
  td_MaxAttempts :: int
  td_TotalAttempts :: int
  td_StubID :: string
  td_RequestID :: string

text \<open>The context every handler renders with, \<^verbatim>\<open>output_runtime_common.go\<close>: aliases mirror.\<close>

definition new_template_data ::
  "(uuid \<Rightarrow> string) \<Rightarrow> gomap \<Rightarrow> gmap \<Rightarrow> int \<Rightarrow> int \<Rightarrow> gvalue list \<Rightarrow> stub \<Rightarrow> int \<Rightarrow> template_data" where
  "new_template_data uuid_text request headers index time requests v attempt =
     (let stub_id = uuid_text (ID v); max_attempts = effective_times v
      in \<lparr>td_Request = request, td_Headers = headers, td_MessageIndex = index, td_RequestTime = time,
          td_Timestamp = time, td_State = [], td_Requests = requests, td_AttemptNumber = attempt,
          td_AttemptIndex = attempt, td_MaxAttempts = max_attempts, td_TotalAttempts = max_attempts,
          td_StubID = stub_id, td_RequestID = stub_id\<rparr>)"

text \<open>\<^verbatim>\<open>strings.Cut\<close>: what follows the first occurrence of the separator.\<close>

fun str_cut_after :: "string \<Rightarrow> string \<Rightarrow> string option" where
  "str_cut_after sep [] = (if sep = [] then Some [] else None)"
| "str_cut_after sep (c # s) =
     (if has_prefix (c # s) sep then Some (drop (length sep) (c # s)) else str_cut_after sep s)"

definition is_template_string :: "string \<Rightarrow> bool" where
  "is_template_string s =
     (case str_cut_after ''{{'' s of None \<Rightarrow> False | Some after \<Rightarrow> str_contains after ''}}'')"

fun has_templates_in_value :: "gvalue \<Rightarrow> bool" where
  "has_templates_in_value (VString s) = is_template_string s"
| "has_templates_in_value (VMap m) = list_ex (\<lambda>kv. has_templates_in_value (snd kv)) m"
| "has_templates_in_value (VList xs) = list_ex has_templates_in_value xs"
| "has_templates_in_value v = False"

definition has_templates_in_headers :: "(string \<times> string) list \<Rightarrow> bool" where
  "has_templates_in_headers h = list_ex (\<lambda>kv. is_template_string (snd kv)) h"

section \<open>Rendering in place\<close>

datatype template_error = Max_Depth_Exceeded | Render_Failed string

abbreviation max_recursion_depth :: nat where "max_recursion_depth \<equiv> 250"

definition render_string :: "(string \<Rightarrow> string + string) \<Rightarrow> string \<Rightarrow> template_error + string" where
  "render_string r s =
     (if is_template_string s then (case r s of Inl e \<Rightarrow> Inl (Render_Failed e) | Inr t \<Rightarrow> Inr t) else Inr s)"

definition is_list_value :: "gvalue \<Rightarrow> bool" where
  "is_list_value v \<longleftrightarrow> (case v of VList _ \<Rightarrow> True | _ \<Rightarrow> False)"

text \<open>
  One value of a map or an array at nesting depth \<open>d\<close>: strings are rendered, maps and arrays are
  entered one level deeper; inside an array only strings and maps are looked at, so an array
  directly inside an array stays as it is.
\<close>

fun process_value :: "(string \<Rightarrow> string + string) \<Rightarrow> nat \<Rightarrow> gvalue \<Rightarrow> template_error + gvalue" where
  "process_value r d (VString s) = r_map VString (render_string r s)"
| "process_value r d (VMap m) =
     (if max_recursion_depth < d then Inl Max_Depth_Exceeded
      else r_map VMap (traverse (\<lambda>kv. r_map (\<lambda>v. (fst kv, v)) (process_value r (Suc d) (snd kv))) m))"
| "process_value r d (VList xs) =
     (if max_recursion_depth < d then Inl Max_Depth_Exceeded
      else r_map VList (traverse (\<lambda>v. if is_list_value v then Inr v else process_value r (Suc d) v) xs))"
| "process_value r d v = Inr v"

definition process_map :: "(string \<Rightarrow> string + string) \<Rightarrow> gmap \<Rightarrow> template_error + gmap" where
  "process_map r m = traverse (\<lambda>kv. r_map (\<lambda>v. (fst kv, v)) (process_value r 1 (snd kv))) m"

definition process_headers ::
  "(string \<Rightarrow> string + string) \<Rightarrow> (string \<times> string) list \<Rightarrow> template_error + (string \<times> string) list" where
  "process_headers r h = traverse (\<lambda>kv. r_map (\<lambda>v. (fst kv, v)) (render_string r (snd kv))) h"

definition process_error :: "(string \<Rightarrow> string + string) \<Rightarrow> string \<Rightarrow> template_error + string" where
  "process_error r s = (if s = '''' then Inr s else render_string r s)"

section \<open>What rendering keeps\<close>

text \<open>The nesting of maps and arrays in a value, and that no array sits directly in an array.\<close>

fun nesting :: "gvalue \<Rightarrow> nat" where
  "nesting (VMap m) = Suc (fold max (map (\<lambda>kv. nesting (snd kv)) m) 0)"
| "nesting (VList xs) = Suc (fold max (map nesting xs) 0)"
| "nesting v = 0"

fun flat_arrays :: "gvalue \<Rightarrow> bool" where
  "flat_arrays (VMap m) = list_all (\<lambda>kv. flat_arrays (snd kv)) m"
| "flat_arrays (VList xs) = (list_all flat_arrays xs \<and> \<not> list_ex is_list_value xs)"
| "flat_arrays v = True"

lemma le_fold_max: "x \<in> set xs \<Longrightarrow> x \<le> fold max xs (n::nat)"
  by (metis Max.set_eq_fold Max_ge finite_set list.set_intros(2) list.simps(15) List.finite_set insert_iff)

lemma nesting_le:
  "kv \<in> set m \<Longrightarrow> nesting (snd kv) \<le> fold max (map (\<lambda>kv. nesting (snd kv)) m) 0"
  "v \<in> set xs \<Longrightarrow> nesting v \<le> fold max (map nesting xs) 0"
  by (auto intro!: le_fold_max)

lemma process_map_keys: "process_map r m = Inr m' \<Longrightarrow> map fst m' = map fst m"
  unfolding process_map_def traverse_Inr by (induction rule: list_all2_induct) (auto simp: r_map_Inr)

text \<open>Data without templates comes out as it went in, if it is not nested too deeply.\<close>

lemma process_value_plain:
  "\<not> has_templates_in_value v \<Longrightarrow> d + nesting v \<le> Suc max_recursion_depth \<Longrightarrow> process_value r d v = Inr v"
proof (induction r d v rule: process_value.induct)
  case (2 r d m)
  have "traverse (\<lambda>kv. r_map (\<lambda>v. (fst kv, v)) (process_value r (Suc d) (snd kv))) m = Inr m"
  proof (rule traverse_id)
    fix kv assume kv: "kv \<in> set m"
    have "\<not> has_templates_in_value (snd kv)" using 2(2) kv by (auto simp: list_ex_iff)
    moreover have "Suc d + nesting (snd kv) \<le> Suc max_recursion_depth"
      using nesting_le(1) [OF kv] 2(3) by simp
    ultimately have "process_value r (Suc d) (snd kv) = Inr (snd kv)"
      using 2(1) [OF _ kv] 2(3) by simp
    then show "r_map (\<lambda>v. (fst kv, v)) (process_value r (Suc d) (snd kv)) = Inr kv" by simp
  qed
  with 2(3) show ?case by simp
next
  case (3 r d xs)
  have "traverse (\<lambda>v. if is_list_value v then Inr v else process_value r (Suc d) v) xs = Inr xs"
  proof (rule traverse_id)
    fix v assume v: "v \<in> set xs"
    have "\<not> has_templates_in_value v" using 3 v by (auto simp: list_ex_iff)
    moreover have "Suc d + nesting v \<le> Suc max_recursion_depth"
      using nesting_le(2) [OF v] "3.prems"(2) by simp
    ultimately show "(if is_list_value v then Inr v else process_value r (Suc d) v) = Inr v"
      using "3.IH" [OF _ v] "3.prems" by simp
  qed
  with 3 show ?case by simp
qed (simp_all add: render_string_def)


text \<open>A template inside an array that sits in an array is found but never rendered.\<close>

lemma nested_array_not_rendered:
  "let v = VList [VList [VString ''{{.x}}'']]
   in has_templates_in_value v \<and> process_value (\<lambda>_. Inr '''') d v = (if 250 < d then Inl Max_Depth_Exceeded else Inr v)"
  by (simp add: is_list_value_def is_template_string_def)


section \<open>The type of rendered data\<close>

text \<open>The shape of a value: the value with its texts blanked, so its keys, lengths and the Go types of everything in it.\<close>

fun shape :: "gvalue \<Rightarrow> gvalue" where
  "shape (VString s) = VString ''''"
| "shape (VMap m) = VMap (map (\<lambda>kv. (fst kv, shape (snd kv))) m)"
| "shape (VList xs) = VList (map shape xs)"
| "shape v = v"

lemma type_of_shape [simp]: "type_of (shape v) = type_of v"
  by (cases v) simp_all

lemma gvalue_ok_shape: "gvalue_ok (shape v) \<longleftrightarrow> gvalue_ok v"
proof (induction v rule: shape.induct)
  case (2 m)
  have "m_ok (map (\<lambda>kv. (fst kv, shape (snd kv))) m) \<longleftrightarrow> m_ok m" by (simp add: m_ok_def comp_def)
  with 2 show ?case by (auto simp: list_all_iff)
qed (auto simp: list_all_iff)

lemma process_value_shape: "process_value r d v = Inr w \<Longrightarrow> shape w = shape v"
proof (induction r d v arbitrary: w rule: process_value.induct)
  case (2 r d m)
  from "2.prems" obtain m' where w: "w = VMap m'" and deep: "\<not> max_recursion_depth < d"
    and m': "list_all2 (\<lambda>kv kw. r_map (\<lambda>v. (fst kv, v)) (process_value r (Suc d) (snd kv)) = Inr kw) m m'"
    by (auto simp: r_map_Inr traverse_Inr split: if_splits)
  have "list_all2 (\<lambda>kv kw. (fst kw, shape (snd kw)) = (fst kv, shape (snd kv))) m m'"
    using m' by (rule list.rel_mono_strong) (auto simp: r_map_Inr dest: "2.IH" [OF deep])
  then show ?case by (simp add: w list_all2_conv_all_nth list_eq_iff_nth_eq)
next
  case (3 r d xs)
  from "3.prems" obtain ys where w: "w = VList ys" and deep: "\<not> max_recursion_depth < d"
    and ys: "list_all2 (\<lambda>v y. (if is_list_value v then Inr v else process_value r (Suc d) v) = Inr y) xs ys"
    by (auto simp: r_map_Inr traverse_Inr split: if_splits)
  have "list_all2 (\<lambda>v y. shape y = shape v) xs ys"
    using ys by (rule list.rel_mono_strong) (auto dest: "3.IH" [OF deep] split: if_splits)
  then show ?case by (simp add: w list_all2_conv_all_nth list_eq_iff_nth_eq)
qed (auto simp: r_map_Inr)

text \<open>C23. Rendering keeps the type of data: whatever the texts render to, the result has at every depth the keys,
  the lengths and the Go types of the data of the stub, and is well-formed exactly when the data are.\<close>

theorem rendering_keeps_types:
  "process_value r d v = Inr w \<Longrightarrow> shape w = shape v \<and> type_of w = type_of v \<and> (gvalue_ok w \<longleftrightarrow> gvalue_ok v)"
  by (metis process_value_shape type_of_shape gvalue_ok_shape)

lemma rendering_keeps_types_witness:
  "let v = VMap [(''name'', VString ''{{.Request.name}}''), (''tags'', VList [VString ''{{.x}}'', VBool True])];
       w = VMap [(''name'', VString ''ann''), (''tags'', VList [VString ''ann'', VBool True])]
   in process_value (\<lambda>_. Inr ''ann'') 0 v = Inr w \<and> shape w = shape v \<and> gvalue_ok w"
proof -
  let ?v = "VMap [(''name'', VString ''{{.Request.name}}''), (''tags'', VList [VString ''{{.x}}'', VBool True])]"
  let ?w = "VMap [(''name'', VString ''ann''), (''tags'', VList [VString ''ann'', VBool True])]"
  have run: "process_value (\<lambda>_. Inr ''ann'') 0 ?v = Inr ?w" by code_simp
  have "gvalue_ok ?v" by code_simp
  with run rendering_keeps_types [OF run] show ?thesis unfolding Let_def by simp
qed

end
