(* ===== verification/Mock_Types.thy ===== *)
theory Mock_Types
  imports Templates Searcher
begin

text \<open>
  What the handlers of a mocked call share: gRPC errors, the marker of a call the proxy may take
  over (\<^verbatim>\<open>grpc_proxy_fallback.go\<close>), and, as one record of parameters, everything they call that is
  not under \<^verbatim>\<open>src\<close>: the template library, JSON and protobuf encoding, UUIDs, the details of a
  status, and the native handlers a Go program registers.
\<close>

section \<open>Errors\<close>

datatype stream_type = StreamTypeUnary | StreamTypeServer | StreamTypeClient | StreamTypeBidi

text \<open>A Go error as the handlers see it: the code \<^verbatim>\<open>status.Code\<close> reads off it (\<open>Unknown\<close> for an error
  that carries no status), its text, the details, whether it carries a status at all, and the
  fallback marker with the requests read.\<close>

record call_error =
  err_Code :: "32 word"
  err_Text :: string
  err_Details :: "gmap list"
  err_Status :: bool
  err_Fallback :: "(stream_type \<times> gmap list) option"

abbreviation code_OK :: "32 word" where "code_OK \<equiv> 0"
abbreviation code_Canceled :: "32 word" where "code_Canceled \<equiv> 1"
abbreviation code_Unknown :: "32 word" where "code_Unknown \<equiv> 2"
abbreviation code_InvalidArgument :: "32 word" where "code_InvalidArgument \<equiv> 3"
abbreviation code_DeadlineExceeded :: "32 word" where "code_DeadlineExceeded \<equiv> 4"
abbreviation code_NotFound :: "32 word" where "code_NotFound \<equiv> 5"
abbreviation code_Aborted :: "32 word" where "code_Aborted \<equiv> 10"
abbreviation code_Unimplemented :: "32 word" where "code_Unimplemented \<equiv> 12"
abbreviation code_Internal :: "32 word" where "code_Internal \<equiv> 13"

definition status_error :: "32 word \<Rightarrow> string \<Rightarrow> call_error" where
  "status_error c t = \<lparr>err_Code = c, err_Text = t, err_Details = [], err_Status = True, err_Fallback = None\<rparr>"

definition plain_error :: "string \<Rightarrow> call_error" where
  "plain_error t = (status_error code_Unknown t)\<lparr>err_Status := False\<rparr>"

text \<open>\<^verbatim>\<open>errors.Wrap\<close> keeps the status and the marker of what it wraps.\<close>

definition wrap_error :: "string \<Rightarrow> call_error \<Rightarrow> call_error" where
  "wrap_error t e = e\<lparr>err_Text := t @ '': '' @ err_Text e\<rparr>"

text \<open>The constructors of \<^verbatim>\<open>fallbackError\<close>; a bidirectional one reads as \<open>NotFound\<close> whatever it wraps.\<close>

definition new_unary_fallback_error :: "call_error \<Rightarrow> call_error" where
  "new_unary_fallback_error e = e\<lparr>err_Status := True, err_Fallback := Some (StreamTypeUnary, [])\<rparr>"

definition new_server_stream_fallback_error :: "call_error \<Rightarrow> gmap \<Rightarrow> call_error" where
  "new_server_stream_fallback_error e req = e\<lparr>err_Status := True, err_Fallback := Some (StreamTypeServer, [req])\<rparr>"

definition new_client_stream_fallback_error :: "call_error \<Rightarrow> gmap list \<Rightarrow> call_error" where
  "new_client_stream_fallback_error e reqs = e\<lparr>err_Status := True, err_Fallback := Some (StreamTypeClient, reqs)\<rparr>"

definition new_bidi_stream_fallback_error :: "call_error \<Rightarrow> gmap list \<Rightarrow> call_error" where
  "new_bidi_stream_fallback_error e reqs =
     e\<lparr>err_Code := code_NotFound, err_Details := [], err_Status := True,
       err_Fallback := Some (StreamTypeBidi, reqs)\<rparr>"

section \<open>Parameters\<close>

text \<open>
  \<open>ml_render\<close> renders one template string, \<open>ml_encode\<close> turns the data of a stub into a message of the
  method's output type, \<open>ml_decode_stub\<close> reads the payload of an upsert effect, \<open>ml_details\<close> says
  why a list of status details does not convert, \<open>ml_json\<close> and \<open>ml_similar\<close> are the indented JSON of a
  map and the embedded template applied to a stub, \<open>ml_request_map\<close> and \<open>ml_message_map\<close> are the
  JSON form of the messages as the recording stream sees them, \<open>ml_send\<close> says whether the n-th
  message goes out and \<open>ml_header\<close> whether the transport takes the headers.
\<close>

type_synonym metadata = "(string \<times> string list) list"

record 'm mock_lib =
  ml_lib :: golib
  ml_runtime :: go_runtime
  ml_render :: "template_data \<Rightarrow> string \<Rightarrow> string + string"
  ml_uuid_text :: "uuid \<Rightarrow> string"
  ml_parse_uuid :: "string \<Rightarrow> uuid option"
  ml_decode_stub :: "gmap \<Rightarrow> string + stub"
  ml_encode :: "gvalue \<Rightarrow> string + 'm"
  ml_details :: "gmap list \<Rightarrow> string option"
  ml_json :: "gmap \<Rightarrow> string"
  ml_similar :: "stub \<Rightarrow> string"
  ml_request_map :: "gmap \<Rightarrow> gomap"
  ml_message_map :: "'m \<Rightarrow> gomap"
  ml_json_len :: "gomap \<Rightarrow> int option"
  ml_unary_handler :: "uuid \<Rightarrow> gmap \<Rightarrow> call_error + gvalue"
  ml_client_stream_handler :: "uuid \<Rightarrow> gmap list \<Rightarrow> call_error + gvalue"
  ml_server_stream_handler :: "uuid \<Rightarrow> gmap \<Rightarrow> call_error option \<times> 'm list"
  ml_stream_handler :: "uuid \<Rightarrow> (call_error + gmap) list \<Rightarrow> call_error option \<times> 'm list"
  ml_send :: "nat \<Rightarrow> call_error option"
  ml_header :: "metadata \<Rightarrow> call_error option"

end
