(* ===== verification/Effects.thy ===== *)
theory Effects
  imports Budgerigar_Claims Mock_Types
begin

text \<open>
  The side effects a stub has on the stub store, \<^verbatim>\<open>internal/app/grpc_effects.go\<close>, and the checks on a
  stub, \<^verbatim>\<open>internal/app/validation.go\<close>. All effects of a stub are prepared before the first is applied;
  the new UUIDs come from a list, as in \<open>put_many\<close>.
\<close>

section \<open>Validation\<close>

definition has_matcher :: "'a matcher_scheme \<Rightarrow> bool" where
  "has_matcher m \<longleftrightarrow> Contains m \<noteq> None \<or> Equals m \<noteq> None \<or> Matches m \<noteq> None \<or> Glob m \<noteq> None"

definition has_valid_input_data :: "input_data \<Rightarrow> bool" where
  "has_valid_input_data i \<longleftrightarrow> has_matcher i \<or> list_ex has_matcher (AnyOf i)"

definition validate_input_configuration :: "stub \<Rightarrow> bool" where
  "validate_input_configuration v =
     (let has_input = has_valid_input_data (Input v); has_inputs = 0 < length (inputs_list v)
      in has_input \<noteq> has_inputs)"

definition validate_output_configuration :: "stub \<Rightarrow> bool" where
  "validate_output_configuration v =
     (let out = Output v;
          has_data = (Error out \<noteq> '''' \<or> Data out \<noteq> VNil \<or> Code out \<noteq> None \<or> 0 < length (Details out));
          has_stream = 0 < length (stream_list out)
      in has_data \<noteq> has_stream)"

definition effect_configured :: "effect \<Rightarrow> bool" where
  "effect_configured e =
     (if Action e = ''upsert'' then mlen (EffectStub e) \<noteq> 0
      else if Action e = ''delete'' then EffectID e \<noteq> ''''
      else False)"

definition validate_effects_configuration :: "stub \<Rightarrow> bool" where
  "validate_effects_configuration v = list_all effect_configured (Effects v)"

text \<open>The tags of the struct: the validator library runs the function of every tag.\<close>

definition validate_stub :: "stub \<Rightarrow> bool" where
  "validate_stub v \<longleftrightarrow>
     Service v \<noteq> '''' \<and> Method v \<noteq> '''' \<and> 0 \<le> Times v \<and> validate_input_configuration v \<and>
     validate_output_configuration v \<and> validate_effects_configuration v"

section \<open>Preparing\<close>

datatype effect_error =
    Unknown_Action
  | Payload_Required
  | Payload_Template template_error
  | Payload_Decode string
  | Payload_Invalid
  | Delete_ID_Required
  | Delete_ID_Template string
  | Delete_ID_Invalid

record effect_operation =
  op_action :: string
  op_upsertStub :: "stub option"
  op_deleteID :: uuid
  op_parentSession :: string

text \<open>The generated stub takes the next UUID when the payload has none, and always the session of the
  stub whose effect it is.\<close>

definition prepare_upsert_effect ::
  "'m mock_lib \<Rightarrow> effect \<Rightarrow> template_data \<Rightarrow> string \<Rightarrow> uuid list \<Rightarrow> (effect_error + stub) \<times> uuid list" where
  "prepare_upsert_effect L e td session fresh =
     (if mlen (EffectStub e) = 0 then (Inl Payload_Required, fresh)
      else case process_map (ml_render L td) (entries (EffectStub e)) of
             Inl err \<Rightarrow> (Inl (Payload_Template err), fresh)
           | Inr payload \<Rightarrow>
               (case ml_decode_stub L payload of
                  Inl err \<Rightarrow> (Inl (Payload_Decode err), fresh)
                | Inr v \<Rightarrow>
                    (let (v, fresh) = (if ID v = 0 then (v\<lparr>ID := hd fresh\<rparr>, tl fresh) else (v, fresh));
                         v = v\<lparr>Session := session, Source := ''rest''\<rparr>
                     in if validate_stub v then (Inr v, fresh) else (Inl Payload_Invalid, fresh))))"

definition prepare_delete_effect :: "'m mock_lib \<Rightarrow> effect \<Rightarrow> template_data \<Rightarrow> effect_error + uuid" where
  "prepare_delete_effect L e td =
     (let id_string = EffectID e
      in if id_string = '''' then Inl Delete_ID_Required
         else r_bind
           (if is_template_string id_string
            then (case ml_render L td id_string of Inl err \<Rightarrow> Inl (Delete_ID_Template err) | Inr t \<Rightarrow> Inr t)
            else Inr id_string)
           (\<lambda>t. case ml_parse_uuid L t of None \<Rightarrow> Inl Delete_ID_Invalid | Some i \<Rightarrow> Inr i))"

definition prepare_effect ::
  "'m mock_lib \<Rightarrow> effect \<Rightarrow> template_data \<Rightarrow> string \<Rightarrow> uuid list
     \<Rightarrow> (effect_error + effect_operation) \<times> uuid list" where
  "prepare_effect L e td session fresh =
     (if Action e = ''upsert'' then
        (case prepare_upsert_effect L e td session fresh of
           (Inl err, fresh) \<Rightarrow> (Inl err, fresh)
         | (Inr v, fresh) \<Rightarrow>
             (Inr \<lparr>op_action = Action e, op_upsertStub = Some v, op_deleteID = 0, op_parentSession = session\<rparr>,
              fresh))
      else if Action e = ''delete'' then
        (case prepare_delete_effect L e td of
           Inl err \<Rightarrow> (Inl err, fresh)
         | Inr i \<Rightarrow>
             (Inr \<lparr>op_action = Action e, op_upsertStub = None, op_deleteID = i, op_parentSession = session\<rparr>,
              fresh))
      else (Inl Unknown_Action, fresh))"

fun prepare_effects ::
  "'m mock_lib \<Rightarrow> effect list \<Rightarrow> template_data \<Rightarrow> string \<Rightarrow> uuid list
     \<Rightarrow> (effect_error + effect_operation list) \<times> uuid list" where
  "prepare_effects L [] td session fresh = (Inr [], fresh)"
| "prepare_effects L (e # es) td session fresh =
     (case prepare_effect L e td session fresh of
        (Inl err, fresh) \<Rightarrow> (Inl err, fresh)
      | (Inr op, fresh) \<Rightarrow>
          (case prepare_effects L es td session fresh of
             (Inl err, fresh) \<Rightarrow> (Inl err, fresh)
           | (Inr ops, fresh) \<Rightarrow> (Inr (op # ops), fresh)))"

section \<open>Applying\<close>

definition effect_can_delete_stub :: "stub \<Rightarrow> string \<Rightarrow> bool" where
  "effect_can_delete_stub v target = (if target = '''' then Session v = '''' else Session v = target)"

text \<open>An operation that fails is logged and the next one runs.\<close>

definition apply_effect_operation :: "golib \<Rightarrow> effect_operation \<Rightarrow> searcher \<Rightarrow> searcher" where
  "apply_effect_operation g op s =
     (if op_action op = ''upsert'' then
        (case op_upsertStub op of None \<Rightarrow> s | Some v \<Rightarrow> snd (put_many g [] [v] s))
      else if op_action op = ''delete'' then
        (case find_by_id (ext s) (op_deleteID op) of
           None \<Rightarrow> s
         | Some v \<Rightarrow>
             if effect_can_delete_stub v (op_parentSession op)
             then snd (delete_by_id g [op_deleteID op] s) else s)
      else s)"

definition apply_effects ::
  "'m mock_lib \<Rightarrow> stub \<Rightarrow> template_data \<Rightarrow> searcher \<times> uuid list \<Rightarrow> searcher \<times> uuid list" where
  "apply_effects L v td st =
     (let (s, fresh) = st
      in if Effects v = [] then st
         else case prepare_effects L (Effects v) td (Session v) fresh of
                (Inl _, fresh) \<Rightarrow> (s, fresh)
              | (Inr ops, fresh) \<Rightarrow> (fold (apply_effect_operation (ml_lib L)) ops s, fresh))"

section \<open>What effects do to the store\<close>

definition op_update :: "effect_operation \<Rightarrow> (uuid \<rightharpoonup> stub) \<Rightarrow> (uuid \<rightharpoonup> stub)" where
  "op_update op m =
     (if op_action op = ''upsert'' then
        (case op_upsertStub op of None \<Rightarrow> m | Some v \<Rightarrow> m(ID v \<mapsto> v))
      else if op_action op = ''delete'' then
        (case m (op_deleteID op) of
           Some v \<Rightarrow> if Session v = op_parentSession op then m(op_deleteID op := None) else m
         | None \<Rightarrow> m)
      else m)"

definition upserted :: "effect_operation list \<Rightarrow> stub set" where
  "upserted ops = {v. \<exists>op\<in>set ops. op_upsertStub op = Some v}"

lemma upserted_simps [simp]:
  "upserted [] = {}" "upserted (op # ops) = set_option (op_upsertStub op) \<union> upserted ops"
  by (auto simp: upserted_def)

lemma searcher_del_map:
  "stub_map (ext (snd (searcher_del g ids s))) = stub_map (ext s) |` (- set ids)"
  by (simp add: searcher_del_def stub_map_del split_def Let_def) (simp add: restrict_map_def)

lemma find_by_id_map: "find_by_id s i = stub_map s i"
  by (simp add: find_by_id_def stub_map_def)

lemma put_one_map:
  "ID v \<noteq> 0 \<Longrightarrow> stub_map (ext (snd (put_many g [] [v] s))) = (stub_map (ext s))(ID v \<mapsto> v)"
  by (simp add: put_many_def searcher_upsert_def split_def Let_def stub_map_upsert)

lemma apply_operation_map:
  assumes "\<forall>v\<in>set_option (op_upsertStub op). ID v \<noteq> 0"
  shows "stub_map (ext (apply_effect_operation g op s)) = op_update op (stub_map (ext s))"
  using assms
  by (auto simp: apply_effect_operation_def op_update_def put_one_map find_by_id_map delete_by_id_def
      searcher_del_map effect_can_delete_stub_def restrict_map_def fun_eq_iff split: option.split)

lemma apply_operations_map:
  "\<forall>v\<in>upserted ops. ID v \<noteq> 0 \<Longrightarrow>
     stub_map (ext (fold (apply_effect_operation g) ops s)) = fold op_update ops (stub_map (ext s))"
  by (induction ops arbitrary: s) (auto simp: apply_operation_map)

text \<open>What a prepared operation carries.\<close>

definition prepared_ok :: "string \<Rightarrow> effect_operation \<Rightarrow> bool" where
  "prepared_ok session op \<longleftrightarrow> op_parentSession op = session \<and>
     (\<forall>v. op_upsertStub op = Some v \<longrightarrow>
        ID v \<noteq> 0 \<and> Session v = session \<and> Source v = ''rest'' \<and> validate_stub v)"

lemma prepare_effect_ok:
  assumes "prepare_effect L e td session fresh = (Inr op, fresh')" and "fresh \<noteq> []" "0 \<notin> set fresh"
  shows "prepared_ok session op" and "length fresh \<le> Suc (length fresh')" "set fresh' \<subseteq> set fresh"
  using assms
  by (auto simp: prepare_effect_def prepare_upsert_effect_def prepared_ok_def Let_def
      split: if_splits sum.splits prod.splits dest: in_set_dropD intro: list.set_sel)
    (auto simp: neq_Nil_conv split: if_splits)

lemma prepare_effects_ok:
  "prepare_effects L es td session fresh = (Inr ops, fresh') \<Longrightarrow> length es \<le> length fresh \<Longrightarrow>
     0 \<notin> set fresh \<Longrightarrow> list_all (prepared_ok session) ops"
proof (induction es arbitrary: fresh ops fresh')
  case Nil
  then show ?case by simp
next
  case (Cons e es fr os fr')
  from Cons.prems(1) obtain op fr1 ops fr2 where
    op: "prepare_effect L e td session fr = (Inr op, fr1)"
    and ops: "prepare_effects L es td session fr1 = (Inr ops, fr2)" "os = op # ops"
    by (auto split: prod.splits sum.splits)
  have "fr \<noteq> []" using Cons.prems(2) by auto
  note ok = prepare_effect_ok [OF op this Cons.prems(3)]
  have "length es \<le> length fr1" "0 \<notin> set fr1" using ok(2,3) Cons.prems(2,3) by auto
  with Cons.IH [OF ops(1)] ok(1) ops(2) show ?case by simp
qed

lemma op_update_other:
  "prepared_ok session op \<Longrightarrow> m i = Some w \<Longrightarrow> Session w \<noteq> session \<Longrightarrow>
     i \<notin> ID ` set_option (op_upsertStub op) \<Longrightarrow> op_update op m i = Some w"
  by (cases "i = op_deleteID op") (auto simp: op_update_def prepared_ok_def split: option.splits)

lemma fold_op_update_other:
  "list_all (prepared_ok session) ops \<Longrightarrow> m i = Some w \<Longrightarrow> Session w \<noteq> session \<Longrightarrow>
     i \<notin> ID ` upserted ops \<Longrightarrow> fold op_update ops m i = Some w"
  by (induction ops arbitrary: m) (auto simp: image_Un dest: op_update_other)

lemma fold_op_update_new:
  "fold op_update ops m i = Some u \<Longrightarrow> m i = Some u \<or> u \<in> upserted ops"
proof (induction ops arbitrary: m)
  case (Cons op ops)
  from Cons.prems have "op_update op m i = Some u \<or> u \<in> upserted ops"
    using Cons.IH [of "op_update op m"] by simp
  then show ?case by (auto simp: op_update_def split: if_splits option.splits)
qed simp

text \<open>C14. The effects of a matched stub are all applied, in order, or not one of them: a single effect
  that cannot be prepared leaves the store as it is. They never delete a stub of another session,
  replace one only where an upsert names its ID, and every stub they store belongs to the session
  of the matched stub, is marked as stored over the API and is valid.\<close>

theorem effects_spec:
  assumes "length (Effects v) \<le> length fresh" and "0 \<notin> set fresh"
  shows "let s' = fst (apply_effects L v td (s, fresh)) in
     case fst (prepare_effects L (Effects v) td (Session v) fresh) of
       Inl _ \<Rightarrow> s' = s
     | Inr ops \<Rightarrow>
         stub_map (ext s') = fold op_update ops (stub_map (ext s)) \<and>
         (\<forall>i w. stub_map (ext s) i = Some w \<and> Session w \<noteq> Session v \<and> i \<notin> ID ` upserted ops \<longrightarrow>
            stub_map (ext s') i = Some w) \<and>
         (\<forall>i u. stub_map (ext s') i = Some u \<longrightarrow> stub_map (ext s) i = Some u \<or> u \<in> upserted ops) \<and>
         (\<forall>u\<in>upserted ops. Session u = Session v \<and> Source u = ''rest'' \<and> validate_stub u)"
proof (cases "prepare_effects L (Effects v) td (Session v) fresh")
  case (Pair res fresh')
  show ?thesis
  proof (cases res)
    case (Inl e)
    then show ?thesis using Pair by (simp add: apply_effects_def)
  next
    case (Inr ops)
    note prep = Pair [unfolded Inr]
    have ok: "list_all (prepared_ok (Session v)) ops" using prepare_effects_ok [OF prep assms] .
    then have up: "\<forall>u\<in>upserted ops. ID u \<noteq> 0 \<and> Session u = Session v \<and> Source u = ''rest'' \<and> validate_stub u"
      by (auto simp: list_all_iff prepared_ok_def upserted_def)
    have "fst (apply_effects L v td (s, fresh)) = fold (apply_effect_operation (ml_lib L)) ops s"
      using prep by (cases "Effects v = []") (auto simp: apply_effects_def)
    then have "stub_map (ext (fst (apply_effects L v td (s, fresh)))) = fold op_update ops (stub_map (ext s))"
      using apply_operations_map [of ops "ml_lib L" s] up by simp
    then show ?thesis
      using prep up fold_op_update_other [OF ok] fold_op_update_new [of ops "stub_map (ext s)"]
      by (auto simp: Let_def)
  qed
qed

end
