(* ===== verification/Mocker.thy ===== *)
theory Mocker
  imports Effects Session_GC
begin

text \<open>
  What a call to a mocked method does, first part: the state, the metadata of requests and responses
  (\<^verbatim>\<open>grpc_session.go\<close>, \<^verbatim>\<open>proxycapture/builder.go\<close>), delays and statuses
  (\<^verbatim>\<open>output_runtime_common.go\<close>, \<^verbatim>\<open>grpc_status_details.go\<close>), and the records of calls. A handler gets
  the parameters, the mocker of its method, the context of the call and the state; it returns its
  error or result together with the new state. Time moves only while a handler waits.
\<close>

section \<open>State\<close>

datatype proxy_mode = ModeProxy | ModeReplay | ModeCapture

text \<open>\<open>mk_Route\<close> is the mode of the route of the method, if there is one, and \<open>mk_FirstRoute\<close> that of the
  first route of the registry, which the health service falls back to.\<close>

record mocker =
  mk_Service :: string
  mk_Method :: string
  mk_FullMethod :: string
  mk_Strict :: bool
  mk_ServerStream :: bool
  mk_ClientStream :: bool
  mk_Recorder :: bool
  mk_Route :: "proxy_mode option"
  mk_FirstRoute :: "proxy_mode option"

text \<open>The metadata of the call, and when its context ends and whether by its deadline.\<close>

record call_ctx =
  cx_MD :: "metadata option"
  cx_Done :: "(int \<times> bool) option"

text \<open>The last four fields are the call's stream: what the client has still to send (an exhausted list
  is the end of the stream), and the headers, trailers and messages that went out.\<close>

record 'm mock_state =
  ms_engine :: searcher
  ms_fresh :: "uuid list"
  ms_history :: memory_store
  ms_sessions :: tracker
  ms_now :: int
  ms_inbox :: "(call_error + gmap) list"
  ms_headers :: "metadata list"
  ms_trailers :: "metadata list"
  ms_sent :: "'m list"

text \<open>A step that may fail, and what follows it.\<close>

definition and_then :: "('e + 'a) \<times> 's \<Rightarrow> ('a \<Rightarrow> 's \<Rightarrow> ('e + 'b) \<times> 's) \<Rightarrow> ('e + 'b) \<times> 's" where
  "and_then m k = (case m of (Inl e, s) \<Rightarrow> (Inl e, s) | (Inr x, s) \<Rightarrow> k x s)"

definition map_error :: "('e \<Rightarrow> 'f) \<Rightarrow> 'e + 'a \<Rightarrow> 'f + 'a" where
  "map_error f m = (case m of Inl e \<Rightarrow> Inl (f e) | Inr x \<Rightarrow> Inr x)"

lemma and_then_simps [simp]:
  "and_then (Inl e, s) k = (Inl e, s)" "and_then (Inr x, s) k = k x s"
  "map_error f (Inl e) = Inl (f e)" "map_error f (Inr x) = Inr x"
  by (simp_all add: and_then_def map_error_def)

lemma and_then_Inr [result_iff]:
  "and_then m k = (Inr y, s') \<longleftrightarrow> (\<exists>x s. m = (Inr x, s) \<and> k x s = (Inr y, s'))"
  by (cases m; cases "fst m") auto

text \<open>The option of a step that gives only an error.\<close>

definition unless_error :: "'e option \<Rightarrow> 'e + unit" where
  "unless_error e = (case e of None \<Rightarrow> Inr () | Some x \<Rightarrow> Inl x)"

lemma unless_error_simps [simp]: "unless_error None = Inr ()" "unless_error (Some x) = Inl x"
  by (simp_all add: unless_error_def)

section \<open>Metadata\<close>

fun str_join :: "string \<Rightarrow> string list \<Rightarrow> string" where
  "str_join sep [] = ''''"
| "str_join sep [s] = s"
| "str_join sep (s # t # ts) = s @ sep @ str_join sep (t # ts)"

definition excluded_headers :: "string list" where
  "excluded_headers =
     ['':authority'', ''content-type'', ''grpc-accept-encoding'', ''user-agent'', ''accept-encoding'']"

definition headers_of_metadata :: "metadata \<Rightarrow> gmap" where
  "headers_of_metadata md =
     map (\<lambda>(k, vs). (k, VString (str_join '';'' vs))) (filter (\<lambda>(k, _). k \<notin> set excluded_headers) md)"

definition session_header_key :: string where
  "session_header_key = ''x-gripmock-session''"

definition session_of_metadata :: "metadata \<Rightarrow> string" where
  "session_of_metadata md =
     (case filter (\<lambda>v. v \<noteq> '''') (map trim_space (m_list md session_header_key)) of
        [] \<Rightarrow> '''' | v # _ \<Rightarrow> v)"

text \<open>Reading the session touches it.\<close>

definition session_from_context :: "call_ctx \<Rightarrow> 'm mock_state \<Rightarrow> string \<times> 'm mock_state" where
  "session_from_context cx s =
     (case cx_MD cx of
        None \<Rightarrow> ('''', s)
      | Some md \<Rightarrow>
          (let session = session_of_metadata md
           in (session, s\<lparr>ms_sessions := touch session (ms_now s) (ms_sessions s)\<rparr>)))"

definition context_headers :: "call_ctx \<Rightarrow> gmap" where
  "context_headers cx = (case cx_MD cx of None \<Rightarrow> [] | Some md \<Rightarrow> headers_of_metadata md)"

definition response_reserved :: "string list" where
  "response_reserved =
     [''content-type'', ''content-length'', ''content-encoding'', ''grpc-status'', ''grpc-message'',
      ''grpc-status-details-bin'']"

text \<open>The metadata a stub's headers or trailers become: pseudo and reserved headers are left out, keys
  are lower case and a value is split at the semicolons.\<close>

fun add_response_header :: "string \<times> string \<Rightarrow> metadata \<Rightarrow> metadata" where
  "add_response_header (k, v) md =
     (if has_prefix k '':'' then md
      else if str_lower k \<in> set response_reserved then md
      else m_put (str_lower k) (m_list md (str_lower k) @ str_split (CHR '';'') v) md)"

definition build_response_md :: "(string \<times> string) list \<Rightarrow> metadata option" where
  "build_response_md values =
     (if values = [] then None
      else (let md = fold add_response_header values [] in if md = [] then None else Some md))"

text \<open>The way back: the values of a key are joined, and a key that occurs twice keeps both.\<close>

fun append_metadata_entry ::
  "string list \<Rightarrow> string \<times> string list \<Rightarrow> (string \<times> string) list \<Rightarrow> (string \<times> string) list" where
  "append_metadata_entry skip (k, vs) out =
     (if vs = [] then out
      else if str_lower k \<in> set skip then out
      else (let joined = str_join '';'' vs
            in case map_of out k of
                 Some previous \<Rightarrow>
                   if previous \<noteq> '''' then m_put k (previous @ '';'' @ joined) out else m_put k joined out
               | None \<Rightarrow> m_put k joined out))"

definition append_metadata ::
  "string list \<Rightarrow> metadata \<Rightarrow> (string \<times> string) list \<Rightarrow> (string \<times> string) list" where
  "append_metadata skip source out = fold (append_metadata_entry skip) source out"

definition response_headers :: "metadata \<Rightarrow> metadata \<Rightarrow> (string \<times> string) list option" where
  "response_headers head tail =
     (if head = [] \<and> tail = [] then None
      else (let out = append_metadata [] tail (append_metadata [] head [])
            in if out = [] then None else Some out))"

definition md_entries :: "metadata option \<Rightarrow> metadata" where
  "md_entries md = (case md of None \<Rightarrow> [] | Some m \<Rightarrow> m)"

definition recorded_metadata :: "stub_output \<Rightarrow> (string \<times> string) list option" where
  "recorded_metadata out =
     (if Trailers out = [] then Some (OutHeaders out)
      else response_headers (md_entries (build_response_md (OutHeaders out)))
             (md_entries (build_response_md (Trailers out))))"

text \<open>\<open>streaming\<close> says that the handler has the stream; on the plain path errors are ignored.\<close>

definition set_response_headers ::
  "'m mock_lib \<Rightarrow> bool \<Rightarrow> (string \<times> string) list \<Rightarrow> 'm mock_state \<Rightarrow> (call_error + unit) \<times> 'm mock_state" where
  "set_response_headers L streaming headers s =
     (case build_response_md headers of
        None \<Rightarrow> (Inr (), s)
      | Some md \<Rightarrow>
          (case ml_header L md of
             Some e \<Rightarrow> (if streaming then Inl e else Inr (), s)
           | None \<Rightarrow> (Inr (), s\<lparr>ms_headers := ms_headers s @ [md]\<rparr>)))"

definition set_response_trailers :: "(string \<times> string) list \<Rightarrow> 'm mock_state \<Rightarrow> 'm mock_state" where
  "set_response_trailers trailers s =
     (case build_response_md trailers of
        None \<Rightarrow> s | Some md \<Rightarrow> s\<lparr>ms_trailers := ms_trailers s @ [md]\<rparr>)"

section \<open>Statuses\<close>

definition output_status_base :: "stub_output \<Rightarrow> call_error option" where
  "output_status_base out =
     (if Error out = '''' \<and> Code out = None then None
      else if Code out = Some code_OK then None
      else Some (status_error (case Code out of None \<Rightarrow> code_Aborted | Some c \<Rightarrow> c) (Error out)))"

definition status_from_output :: "'m mock_lib \<Rightarrow> stub_output \<Rightarrow> string + call_error option" where
  "status_from_output L out =
     (case output_status_base out of
        None \<Rightarrow> Inr None
      | Some st \<Rightarrow>
          if Details out = [] then Inr (Some st)
          else (case ml_details L (Details out) of
                  Some e \<Rightarrow> Inl e
                | None \<Rightarrow> Inr (Some (st\<lparr>err_Details := Details out\<rparr>))))"

definition handle_output_error :: "'m mock_lib \<Rightarrow> stub_output \<Rightarrow> call_error option" where
  "handle_output_error L out =
     (case status_from_output L out of
        Inl e \<Rightarrow> Some (status_error code_Internal e) | Inr st \<Rightarrow> st)"

definition handler_status_error :: "call_error \<Rightarrow> call_error" where
  "handler_status_error e = (if err_Status e then e else status_error code_Internal (err_Text e))"

section \<open>Delays\<close>

definition delay_static :: "golib \<Rightarrow> string \<Rightarrow> int" where
  "delay_static g d = (case delay_parse g d of None \<Rightarrow> 0 | Some n \<Rightarrow> n)"

definition resolve_delay :: "'m mock_lib \<Rightarrow> string \<Rightarrow> template_data \<Rightarrow> call_error + int" where
  "resolve_delay L delay td =
     (if \<not> is_template_delay delay then Inr (delay_static (ml_lib L) delay)
      else case ml_render L td delay of
             Inl e \<Rightarrow> Inl (status_error code_Internal (''failed to process delay template: '' @ e))
           | Inr t \<Rightarrow>
               (let t = trim_space t
                in if t = '''' then Inr 0
                   else case parse_duration (ml_lib L) t of
                          None \<Rightarrow> Inl (status_error code_Internal
                            (''delay template rendered an invalid duration '' @ t))
                        | Some d \<Rightarrow> Inr (max 0 d)))"

definition context_error :: "bool \<Rightarrow> call_error" where
  "context_error deadline =
     (if deadline then status_error code_DeadlineExceeded ''context deadline exceeded''
      else status_error code_Canceled ''context canceled'')"

text \<open>Waiting ends with the context if that ends first, or at the same moment.\<close>

definition delay_response :: "call_ctx \<Rightarrow> int \<Rightarrow> 'm mock_state \<Rightarrow> (call_error + unit) \<times> 'm mock_state" where
  "delay_response cx d s =
     (if d = 0 then (Inr (), s)
      else (let wake = ms_now s + max 0 d
            in case cx_Done cx of
                 Some (t, deadline) \<Rightarrow>
                   if t \<le> wake then (Inl (context_error deadline), s\<lparr>ms_now := max (ms_now s) t\<rparr>)
                   else (Inr (), s\<lparr>ms_now := wake\<rparr>)
               | None \<Rightarrow> (Inr (), s\<lparr>ms_now := wake\<rparr>)))"

definition delay_templated ::
  "'m mock_lib \<Rightarrow> call_ctx \<Rightarrow> string \<Rightarrow> template_data \<Rightarrow> 'm mock_state
     \<Rightarrow> (call_error + unit) \<times> 'm mock_state" where
  "delay_templated L cx delay td s = and_then (resolve_delay L delay td, s) (\<lambda>d s. delay_response cx d s)"

definition element_delay :: "string \<Rightarrow> gripmock_element \<Rightarrow> string" where
  "element_delay delay el = (if el_HasDelay el then el_Delay el else delay)"

section \<open>Queries and records\<close>

text \<open>The text of the error for an unmatched query, \<^verbatim>\<open>internal/infra/errors/formatter.go\<close>.\<close>

abbreviation nl :: string where "nl \<equiv> [CHR 0x0A]"

definition trim_right_nl :: "string \<Rightarrow> string" where
  "trim_right_nl s = rev (dropWhile (\<lambda>c. c = CHR 0x0A) (rev s))"

definition numbered :: "'a list \<Rightarrow> (nat \<times> 'a) list" where
  "numbered xs = zip [0..<length xs] xs"

definition build_input_block :: "'m mock_lib \<Rightarrow> gmap list \<Rightarrow> string" where
  "build_input_block L input =
     (case input of
        [] \<Rightarrow> ''Request input:'' @ nl @ ''(empty)''
      | [m] \<Rightarrow> ''Request input:'' @ nl @ ml_json L m
      | _ \<Rightarrow> ''Request input (stream):'' @
          concat (map (\<lambda>(i, m). nl @ ''['' @ fmt_nat i @ '']'' @ nl @ ml_json L m) (numbered input)))"

definition format_stub_not_found :: "'m mock_lib \<Rightarrow> query \<Rightarrow> stub option \<Rightarrow> string" where
  "format_stub_not_found L q similar =
     str_join (nl @ nl)
       ([''No matching stub found'',
         ''Service: '' @ q_Service q @ nl @ ''Method: '' @ q_Method q] @
        (if q_Headers q \<noteq> [] then [''Request headers:'' @ nl @ ml_json L (q_Headers q)] else []) @
        [build_input_block L (q_Input q),
         (case similar of None \<Rightarrow> ''No similar stubs found.''
          | Some v \<Rightarrow> trim_right_nl (ml_similar L v))])"

definition with_health_visibility :: "mocker \<Rightarrow> query \<Rightarrow> query" where
  "with_health_visibility M q = (if mk_Service M \<noteq> health_service then q else with_internal_stubs q)"

text \<open>The query of a call: the headers and, touching it, the session of the metadata.\<close>

definition messages_query ::
  "mocker \<Rightarrow> call_ctx \<Rightarrow> gmap list \<Rightarrow> 'm mock_state \<Rightarrow> query \<times> 'm mock_state" where
  "messages_query M cx input s =
     (let (session, s) = session_from_context cx s
      in (\<lparr>q_ID = None, q_Service = mk_Service M, q_Method = mk_Method M, q_Session = session,
           q_Headers = context_headers cx, q_Input = input, q_Strict = mk_Strict M, q_Internal = False,
           q_MatchInternal = False\<rparr>, s))"

definition new_query :: "mocker \<Rightarrow> call_ctx \<Rightarrow> gmap \<Rightarrow> 'm mock_state \<Rightarrow> query \<times> 'm mock_state" where
  "new_query M cx req s =
     (let (q, s) = messages_query M cx [req] s in (with_health_visibility M q, s))"

definition elapsed_ms :: "int \<Rightarrow> int \<Rightarrow> int" where
  "elapsed_ms now ts = (now - ts) div 1000000"

definition record_in_history ::
  "'m mock_lib \<Rightarrow> mocker \<Rightarrow> string \<Rightarrow> uuid \<Rightarrow> 32 word \<Rightarrow> int \<Rightarrow> gomap list \<Rightarrow> gomap list
     \<Rightarrow> (string \<times> string) list option \<Rightarrow> string \<Rightarrow> 'm mock_state \<Rightarrow> 'm mock_state" where
  "record_in_history L M session stub_id code ts requests responses hdrs msg s =
     s\<lparr>ms_history := record_owned (ml_json_len L)
        \<lparr>c_StubID = stub_id, c_Service = mk_Service M, c_Method = mk_Method M, c_Session = session,
         c_Requests = requests, c_Responses = responses, c_ResponseHeaders = hdrs, c_Code = code,
         c_Error = msg, c_ElapsedMS = elapsed_ms (ms_now s) ts, c_Timestamp = ts\<rparr> (ms_history s)\<rparr>"

definition map_values :: "gvalue list \<Rightarrow> gomap list" where
  "map_values vs = List.map_filter (\<lambda>v. case v of VMap m \<Rightarrow> Some (Some m) | _ \<Rightarrow> None) vs"

definition mocker_record_call ::
  "'m mock_lib \<Rightarrow> mocker \<Rightarrow> call_ctx \<Rightarrow> uuid \<Rightarrow> 32 word \<Rightarrow> int \<Rightarrow> gmap list \<Rightarrow> gvalue list
     \<Rightarrow> (string \<times> string) list option \<Rightarrow> string \<Rightarrow> 'm mock_state \<Rightarrow> 'm mock_state" where
  "mocker_record_call L M cx stub_id code ts requests responses hdrs msg s =
     (if \<not> mk_Recorder M \<or> requests = [] then s
      else (let (session, s) = session_from_context cx s
            in record_in_history L M session stub_id code ts (map Some requests) (map_values responses)
                 hdrs msg s))"

fun can_fallback :: "proxy_mode \<Rightarrow> call_error \<Rightarrow> bool" where
  "can_fallback ModeProxy e = False"
| "can_fallback ModeReplay e = (err_Code e = code_NotFound)"
| "can_fallback ModeCapture e = (err_Code e = code_NotFound)"

definition proxy_fallback_will_serve :: "mocker \<Rightarrow> call_error \<Rightarrow> bool" where
  "proxy_fallback_will_serve M e =
     (case mk_Route M of None \<Rightarrow> False | Some mode \<Rightarrow> can_fallback mode e)"

definition record_unmatched ::
  "'m mock_lib \<Rightarrow> mocker \<Rightarrow> call_ctx \<Rightarrow> int \<Rightarrow> gmap list \<Rightarrow> call_error \<Rightarrow> 'm mock_state \<Rightarrow> 'm mock_state" where
  "record_unmatched L M cx ts requests e s =
     (if proxy_fallback_will_serve M e then s
      else mocker_record_call L M cx 0 (err_Code e) ts requests [] None (err_Text e) s)"

text \<open>A search on the engine of the state: the stub found with its match number, or the error text.\<close>

definition find_stub ::
  "'m mock_lib \<Rightarrow> query \<Rightarrow> 'm mock_state \<Rightarrow> (call_error + stub \<times> int) \<times> 'm mock_state" where
  "find_stub L q s =
     (let (res, e) = find_by_query (ml_lib L) (ml_runtime L) q (ms_engine s); s = s\<lparr>ms_engine := e\<rparr>
      in case res of
           Inl _ \<Rightarrow> (Inl (status_error code_NotFound (format_stub_not_found L q None)), s)
         | Inr x \<Rightarrow>
             (case res_found x of
                None \<Rightarrow> (Inl (status_error code_NotFound (format_stub_not_found L q (res_similar x))), s)
              | Some v \<Rightarrow> (Inr (v, res_matchNumber x), s)))"

definition mock_effects :: "'m mock_lib \<Rightarrow> stub \<Rightarrow> template_data \<Rightarrow> 'm mock_state \<Rightarrow> 'm mock_state" where
  "mock_effects L v td s =
     (let (e, fresh) = apply_effects L v td (ms_engine s, ms_fresh s)
      in s\<lparr>ms_engine := e, ms_fresh := fresh\<rparr>)"

section \<open>Rendering an output\<close>

fun template_error_text :: "template_error \<Rightarrow> string" where
  "template_error_text Max_Depth_Exceeded = ''maximum recursion depth exceeded''"
| "template_error_text (Render_Failed e) = e"

text \<open>The unary handler reports a failed template as \<open>Internal\<close>, the streams wrap the error.\<close>

definition template_failure :: "bool \<Rightarrow> string \<Rightarrow> template_error \<Rightarrow> call_error" where
  "template_failure unary what e =
     (let t = what @ '': '' @ template_error_text e
      in if unary then status_error code_Internal t else plain_error t)"

definition render_data :: "'m mock_lib \<Rightarrow> bool \<Rightarrow> template_data \<Rightarrow> gvalue \<Rightarrow> call_error + gvalue" where
  "render_data L unary td v =
     (case v of
        VMap m \<Rightarrow>
          map_error (template_failure unary ''failed to process dynamic templates'')
            (r_map VMap (process_map (ml_render L td) m))
      | _ \<Rightarrow> Inr v)"

definition render_headers ::
  "'m mock_lib \<Rightarrow> bool \<Rightarrow> string \<Rightarrow> template_data \<Rightarrow> (string \<times> string) list \<Rightarrow> call_error + (string \<times> string) list" where
  "render_headers L unary what td h =
     (if has_templates_in_headers h
      then map_error (template_failure unary what) (process_headers (ml_render L td) h) else Inr h)"

definition render_error :: "'m mock_lib \<Rightarrow> bool \<Rightarrow> template_data \<Rightarrow> string \<Rightarrow> call_error + string" where
  "render_error L unary td e =
     (if e \<noteq> '''' \<and> is_template_string e
      then map_error (template_failure unary ''failed to process error template'') (process_error (ml_render L td) e)
      else Inr e)"

abbreviation header_templates :: string where
  "header_templates \<equiv> ''failed to process header templates''"

abbreviation trailer_templates :: string where
  "trailer_templates \<equiv> ''failed to process trailer templates''"

section \<open>Unary calls\<close>

text \<open>What happens once a stub is found and its native handler, if any, has answered.\<close>

definition answer_unary ::
  "'m mock_lib \<Rightarrow> mocker \<Rightarrow> call_ctx \<Rightarrow> bool \<Rightarrow> gmap \<Rightarrow> int \<Rightarrow> stub \<Rightarrow> int \<Rightarrow> stub_output \<Rightarrow> 'm mock_state
     \<Rightarrow> (call_error + 'm) \<times> 'm mock_state" where
  "answer_unary L M cx streaming req ts v n out s =
     (let td = new_template_data (ml_uuid_text L) (Some req) (context_headers cx) 0 ts [VMap req] v n in
      and_then (delay_templated L cx (Delay (Output v)) td s) (\<lambda>_ s.
      and_then (render_data L True td (Data out), s) (\<lambda>data s.
      and_then (render_headers L True header_templates td (OutHeaders out), s) (\<lambda>headers s.
      and_then (render_error L True td (Error out), s) (\<lambda>err s.
      and_then (set_response_headers L streaming headers s) (\<lambda>_ s.
      and_then (render_headers L True trailer_templates td (Trailers out), s) (\<lambda>trailers s.
        let out = out\<lparr>OutHeaders := headers, Error := err, Trailers := trailers\<rparr>;
            s = mock_effects L v td (set_response_trailers trailers s)
        in case handle_output_error L out of
             Some e \<Rightarrow>
               (Inl e, mocker_record_call L M cx (ID v) (err_Code e) ts [req] []
                         (recorded_metadata out) (err_Text e) s)
           | None \<Rightarrow>
               (case ml_encode L data of
                  Inl e \<Rightarrow> (Inl (plain_error e), s)
                | Inr msg \<Rightarrow>
                    (Inr msg, mocker_record_call L M cx (ID v) code_OK ts [req] [data]
                                (recorded_metadata out) '''' s)))))))))"

definition handle_unary ::
  "'m mock_lib \<Rightarrow> mocker \<Rightarrow> call_ctx \<Rightarrow> bool \<Rightarrow> gmap \<Rightarrow> 'm mock_state \<Rightarrow> (call_error + 'm) \<times> 'm mock_state" where
  "handle_unary L M cx streaming req s =
     (let ts = ms_now s; (q, s) = new_query M cx req s in
      case find_stub L q s of
        (Inl e, s) \<Rightarrow> (Inl (new_unary_fallback_error e), record_unmatched L M cx ts [req] e s)
      | (Inr (v, n), s) \<Rightarrow>
          (if HasUnaryHandler v then
             (case ml_unary_handler L (ID v) req of
                Inl e \<Rightarrow> (Inl (handler_status_error e), s)
              | Inr data \<Rightarrow> answer_unary L M cx streaming req ts v n ((Output v)\<lparr>Data := data\<rparr>) s)
           else answer_unary L M cx streaming req ts v n (Output v) s))"

end
