(* ===== verification/Mocker_Stream.thy ===== *)
theory Mocker_Stream
  imports Mocker
begin

text \<open>
  Calls with a client stream (\<^verbatim>\<open>grpc_mocker_unary.go\<close>, \<^verbatim>\<open>handleClientStream\<close>) and calls with a server
  stream (\<^verbatim>\<open>grpc_mocker_stream.go\<close>).
\<close>

section \<open>Sending and receiving\<close>

definition send_message :: "'m mock_lib \<Rightarrow> 'm \<Rightarrow> 'm mock_state \<Rightarrow> (call_error + unit) \<times> 'm mock_state" where
  "send_message L msg s =
     (case ml_send L (length (ms_sent s)) of
        Some e \<Rightarrow> (Inl e, s) | None \<Rightarrow> (Inr (), s\<lparr>ms_sent := ms_sent s @ [msg]\<rparr>))"

definition send_stream_message ::
  "'m mock_lib \<Rightarrow> 'm \<Rightarrow> 'm mock_state \<Rightarrow> (call_error + unit) \<times> 'm mock_state" where
  "send_stream_message L msg s =
     (case send_message L msg s of
        (Inl e, s) \<Rightarrow> (Inl (wrap_error ''failed to send response'' e), s) | (Inr x, s) \<Rightarrow> (Inr x, s))"

text \<open>One receive: the end of the stream, an error, or a message.\<close>

definition receive :: "'m mock_state \<Rightarrow> (call_error + gmap) option \<times> 'm mock_state" where
  "receive s =
     (case ms_inbox s of [] \<Rightarrow> (None, s) | x # xs \<Rightarrow> (Some x, s\<lparr>ms_inbox := xs\<rparr>))"

section \<open>Client streams\<close>

fun collect_messages :: "(call_error + gmap) list \<Rightarrow> (call_error + gmap list) \<times> (call_error + gmap) list" where
  "collect_messages [] = (Inr [], [])"
| "collect_messages (Inl e # xs) = (Inl (wrap_error ''failed to receive message'' e), xs)"
| "collect_messages (Inr m # xs) =
     (case collect_messages xs of (Inl e, r) \<Rightarrow> (Inl e, r) | (Inr ms, r) \<Rightarrow> (Inr (m # ms), r))"

definition collect_client_messages :: "'m mock_state \<Rightarrow> (call_error + gmap list) \<times> 'm mock_state" where
  "collect_client_messages s =
     (let (res, rest) = collect_messages (ms_inbox s) in (res, s\<lparr>ms_inbox := rest\<rparr>))"

definition answer_client_stream ::
  "'m mock_lib \<Rightarrow> mocker \<Rightarrow> call_ctx \<Rightarrow> gmap list \<Rightarrow> int \<Rightarrow> stub \<Rightarrow> int \<Rightarrow> stub_output \<Rightarrow> 'm mock_state
     \<Rightarrow> (call_error + unit) \<times> 'm mock_state" where
  "answer_client_stream L M cx messages ts v n out s =
     (let td = new_template_data (ml_uuid_text L) None (context_headers cx) 0 ts (map VMap messages) v n in
      and_then (delay_templated L cx (Delay (Output v)) td s) (\<lambda>_ s.
      and_then (render_headers L False header_templates td (OutHeaders out), s) (\<lambda>headers s.
      and_then (render_error L False td (Error out), s) (\<lambda>err s.
      and_then (let (r, s) = set_response_headers L True headers s
                in (map_error (wrap_error ''failed to set headers'') r, s)) (\<lambda>_ s.
      and_then (render_headers L False trailer_templates td (Trailers out), s) (\<lambda>trailers s.
      and_then (render_data L False td (Data out), set_response_trailers trailers s) (\<lambda>data s.
        let out = out\<lparr>OutHeaders := headers, Error := err, Trailers := trailers\<rparr>; s = mock_effects L v td s
        in case handle_output_error L out of
             Some e \<Rightarrow> (Inl e, s)
           | None \<Rightarrow>
               (case ml_encode L data of
                  Inl e \<Rightarrow> (Inl (wrap_error ''failed to convert response to dynamic message'' (plain_error e)), s)
                | Inr msg \<Rightarrow>
                    and_then (send_message L msg s) (\<lambda>_ s.
                      (Inr (), mocker_record_call L M cx (ID v) code_OK ts messages [data]
                                 (recorded_metadata out) '''' s))))))))))"

definition handle_client_stream ::
  "'m mock_lib \<Rightarrow> mocker \<Rightarrow> call_ctx \<Rightarrow> 'm mock_state \<Rightarrow> (call_error + unit) \<times> 'm mock_state" where
  "handle_client_stream L M cx s =
     (let ts = ms_now s in
      and_then (collect_client_messages s) (\<lambda>messages s.
        let (q, s) = messages_query M cx messages s in
        case find_stub L q s of
          (Inl e, s) \<Rightarrow>
            (Inl (new_client_stream_fallback_error e messages), record_unmatched L M cx ts messages e s)
        | (Inr (v, n), s) \<Rightarrow>
            (if HasClientStreamHandler v then
               (case ml_client_stream_handler L (ID v) messages of
                  Inl e \<Rightarrow> (Inl (handler_status_error e), s)
                | Inr data \<Rightarrow> answer_client_stream L M cx messages ts v n ((Output v)\<lparr>Data := data\<rparr>) s)
             else answer_client_stream L M cx messages ts v n (Output v) s)))"

section \<open>Server streams\<close>

definition stream_delays_per_message :: "stub \<Rightarrow> bool" where
  "stream_delays_per_message v =
     (if HasServerStreamHandler v then False
      else Stream (Output v) = None \<or> 0 < length (stream_list (Output v)))"

text \<open>The error an element asks for; none when its code is \<open>OK\<close>.\<close>

definition stream_element_error ::
  "'m mock_lib \<Rightarrow> gripmock_element \<Rightarrow> template_data \<Rightarrow> call_error option" where
  "stream_element_error L el td =
     (case render_error L False td (el_Error el) of
        Inl e \<Rightarrow> Some e
      | Inr msg \<Rightarrow>
          handle_output_error L (empty_output\<lparr>Error := msg, Code := el_Code el, Details := el_Details el\<rparr>))"

definition context_ended :: "call_ctx \<Rightarrow> 'm mock_state \<Rightarrow> call_error option" where
  "context_ended cx s =
     (case cx_Done cx of
        Some (t, deadline) \<Rightarrow>
          if t \<le> ms_now s
          then Some (plain_error (if deadline then ''context deadline exceeded'' else ''context canceled''))
          else None
      | None \<Rightarrow> None)"

definition handle_stream_element ::
  "'m mock_lib \<Rightarrow> call_ctx \<Rightarrow> stub \<Rightarrow> int \<Rightarrow> gmap \<Rightarrow> int \<Rightarrow> nat \<Rightarrow> gvalue \<Rightarrow> 'm mock_state
     \<Rightarrow> (call_error + unit) \<times> 'm mock_state" where
  "handle_stream_element L cx v n req ts i item s =
     (case item of
        VMap m \<Rightarrow>
          (let (el, data) = extract_gripmock (ml_lib L) (Some m);
               td = new_template_data (ml_uuid_text L) (Some req) (context_headers cx) (int i) ts [VMap req] v n
           in and_then (delay_templated L cx (element_delay (Delay (Output v)) el) td s) (\<lambda>_ s.
              if el_HasError el then (unless_error (stream_element_error L el td), s)
              else and_then (render_data L False td (VMap (entries data)), s) (\<lambda>payload s.
                   case ml_encode L payload of
                     Inl e \<Rightarrow> (Inl (wrap_error ''failed to convert response to dynamic message'' (plain_error e)), s)
                   | Inr msg \<Rightarrow> send_stream_message L msg s)))
      | _ \<Rightarrow> (Inl (status_error code_Internal (''invalid data format in stream array at index '' @ fmt_nat i)), s))"

text \<open>The elements from number \<open>i\<close> on; the result is the number of elements handled and the error.\<close>

fun handle_array_stream_data ::
  "'m mock_lib \<Rightarrow> call_ctx \<Rightarrow> stub \<Rightarrow> int \<Rightarrow> gmap \<Rightarrow> int \<Rightarrow> nat \<Rightarrow> gvalue list \<Rightarrow> 'm mock_state
     \<Rightarrow> nat \<times> call_error option \<times> 'm mock_state" where
  "handle_array_stream_data L cx v n req ts i [] s = (i, None, s)"
| "handle_array_stream_data L cx v n req ts i (item # items) s =
     (case context_ended cx s of
        Some e \<Rightarrow> (i, Some e, s)
      | None \<Rightarrow>
          (case handle_stream_element L cx v n req ts i item s of
             (Inl e, s) \<Rightarrow> (i, Some e, s)
           | (Inr _, s) \<Rightarrow> handle_array_stream_data L cx v n req ts (Suc i) items s))"

text \<open>A stub without a stream answers with its data, once for every message the client sends.\<close>

function non_array_loop ::
  "'m mock_lib \<Rightarrow> call_ctx \<Rightarrow> stub \<Rightarrow> int \<Rightarrow> gmap \<Rightarrow> int \<Rightarrow> 'm mock_state \<Rightarrow> (call_error + unit) \<times> 'm mock_state" where
  "non_array_loop L cx v n req ts s =
     (case context_ended cx s of
        Some e \<Rightarrow> (Inl e, s)
      | None \<Rightarrow>
          (let (got, s1) = receive s;
               (msg, time) = (case got of Some (Inr m) \<Rightarrow> (m, ms_now s1) | _ \<Rightarrow> (req, ts));
               td = new_template_data (ml_uuid_text L) (Some msg) (context_headers cx) 0 time [VMap msg] v n
           in case delay_templated L cx (Delay (Output v)) td s1 of
                (Inl e, s) \<Rightarrow> (Inl e, s)
              | (Inr _, s) \<Rightarrow>
                  (case render_data L False td (Data (Output v)) of
                     Inl e \<Rightarrow> (Inl e, s)
                   | Inr data \<Rightarrow>
                       (case ml_encode L data of
                          Inl e \<Rightarrow> (Inl (wrap_error ''failed to convert response to dynamic message'' (plain_error e)), s)
                        | Inr out \<Rightarrow>
                            (case send_stream_message L out s of
                               (Inl e, s) \<Rightarrow> (Inl e, s)
                             | (Inr _, s) \<Rightarrow>
                                 (case ms_inbox s of
                                    [] \<Rightarrow> (Inr (), s)
                                  | Inl e # xs \<Rightarrow> (Inl (wrap_error ''failed to receive message'' e), s\<lparr>ms_inbox := xs\<rparr>)
                                  | Inr m # xs \<Rightarrow> non_array_loop L cx v n req ts (s\<lparr>ms_inbox := xs\<rparr>)))))))"
  by pat_completeness auto

lemma delay_inbox: "delay_templated L cx d td s = (r, s') \<Longrightarrow> ms_inbox s' = ms_inbox s"
  by (auto simp: delay_templated_def and_then_def delay_response_def Let_def
      split: sum.splits if_splits option.splits prod.splits)

lemma send_inbox: "send_stream_message L m s = (r, s') \<Longrightarrow> ms_inbox s' = ms_inbox s"
  by (auto simp: send_stream_message_def send_message_def split: option.splits)

lemma receive_inbox: "receive s = (r, s') \<Longrightarrow> length (ms_inbox s') \<le> length (ms_inbox s)"
  by (auto simp: receive_def split: list.splits)

termination non_array_loop
  by (relation "measure (\<lambda>(L, cx, v, n, req, ts, s). length (ms_inbox s))")
    (auto dest!: delay_inbox [OF sym] send_inbox [OF sym] dest: receive_inbox [OF sym])

declare non_array_loop.simps [simp del]

definition handle_non_array_stream_data ::
  "'m mock_lib \<Rightarrow> call_ctx \<Rightarrow> stub \<Rightarrow> int \<Rightarrow> gmap \<Rightarrow> int \<Rightarrow> stub_output \<Rightarrow> 'm mock_state
     \<Rightarrow> (call_error + unit) \<times> 'm mock_state" where
  "handle_non_array_stream_data L cx v n req ts out s =
     (case handle_output_error L out of
        Some e \<Rightarrow> (Inl e, s) | None \<Rightarrow> non_array_loop L cx v n req ts s)"

text \<open>The recorded form of elements: without their metadata.\<close>

definition clean_stream_responses :: "golib \<Rightarrow> gvalue list \<Rightarrow> gvalue list" where
  "clean_stream_responses g items =
     map (\<lambda>item. case item of VMap m \<Rightarrow> VMap (entries (snd (extract_gripmock g (Some m)))) | v \<Rightarrow> v) items"

definition record_server_stream_unless_proxied ::
  "'m mock_lib \<Rightarrow> mocker \<Rightarrow> call_ctx \<Rightarrow> stub \<Rightarrow> int \<Rightarrow> gmap \<Rightarrow> gvalue list
     \<Rightarrow> (string \<times> string) list option \<Rightarrow> call_error option \<Rightarrow> 'm mock_state \<Rightarrow> 'm mock_state" where
  "record_server_stream_unless_proxied L M cx v ts req responses hdrs err s =
     (case err of
        None \<Rightarrow> mocker_record_call L M cx (ID v) code_OK ts [req] responses hdrs '''' s
      | Some e \<Rightarrow>
          if proxy_fallback_will_serve M e then s
          else mocker_record_call L M cx (ID v) (err_Code e) ts [req] responses hdrs (err_Text e) s)"

text \<open>\<open>prepare_server_stream\<close> is what happens between the match and the first message: delay, headers,
  error text, trailers, effects.\<close>

definition prepare_server_stream ::
  "'m mock_lib \<Rightarrow> call_ctx \<Rightarrow> gmap \<Rightarrow> int \<Rightarrow> stub \<Rightarrow> int \<Rightarrow> 'm mock_state
     \<Rightarrow> (call_error + stub_output) \<times> 'm mock_state" where
  "prepare_server_stream L cx req ts v n s =
     (let out = Output v;
          td = new_template_data (ml_uuid_text L) (Some req) (context_headers cx) 0 ts [VMap req] v n in
      and_then (if stream_delays_per_message v then (Inr (), s)
                else delay_templated L cx (Delay out) td s) (\<lambda>_ s.
      and_then (render_headers L False header_templates td (OutHeaders out), s) (\<lambda>headers s.
      and_then (render_error L False td (Error out), s) (\<lambda>err s.
      and_then (let (r, s) = set_response_headers L True headers s
                in (map_error (wrap_error ''failed to set headers'') r, s)) (\<lambda>_ s.
      and_then (render_headers L False trailer_templates td (Trailers out), s) (\<lambda>trailers s.
        (Inr (out\<lparr>OutHeaders := headers, Error := err, Trailers := trailers\<rparr>),
         mock_effects L v td (set_response_trailers trailers s))))))))"

definition answer_server_stream ::
  "'m mock_lib \<Rightarrow> mocker \<Rightarrow> call_ctx \<Rightarrow> gmap \<Rightarrow> int \<Rightarrow> stub \<Rightarrow> int \<Rightarrow> stub_output \<Rightarrow> 'm mock_state
     \<Rightarrow> (call_error + unit) \<times> 'm mock_state" where
  "answer_server_stream L M cx req ts v n out s =
     (let record = record_server_stream_unless_proxied L M cx v ts req in
      if HasServerStreamHandler v then
        (let (err, msgs) = ml_server_stream_handler L (ID v) req;
             err = map_option handler_status_error err; s = s\<lparr>ms_sent := ms_sent s @ msgs\<rparr>
         in (unless_error err, record [] (recorded_metadata out) err s))
      else case Stream (Output v) of
             None \<Rightarrow>
               (let (r, s) = handle_non_array_stream_data L cx v n req ts out s;
                    err = (case r of Inl e \<Rightarrow> Some e | Inr _ \<Rightarrow> None)
                in (r, record [Data out] (recorded_metadata out) err s))
           | Some items \<Rightarrow>
               if items = [] then
                 (let err = handle_output_error L out
                  in (unless_error err, record [Data out] (recorded_metadata out) err s))
               else
                 (let (sent, err, s) = handle_array_stream_data L cx v n req ts 0 items s;
                      err = (case err of None \<Rightarrow> handle_output_error L out | Some e \<Rightarrow> Some e)
                  in (unless_error err,
                      record (clean_stream_responses (ml_lib L) (take sent items)) (recorded_metadata out) err s)))"

definition handle_server_stream ::
  "'m mock_lib \<Rightarrow> mocker \<Rightarrow> call_ctx \<Rightarrow> 'm mock_state \<Rightarrow> (call_error + unit) \<times> 'm mock_state" where
  "handle_server_stream L M cx s =
     (case receive s of
        (None, s) \<Rightarrow> (Inr (), s)
      | (Some (Inl e), s) \<Rightarrow> (Inl (wrap_error ''failed to receive message'' e), s)
      | (Some (Inr req), s) \<Rightarrow>
          (let ts = ms_now s; (q, s) = new_query M cx req s in
           case find_stub L q s of
             (Inl e, s) \<Rightarrow>
               (Inl (new_server_stream_fallback_error e req), record_unmatched L M cx ts [req] e s)
           | (Inr (v, n), s) \<Rightarrow>
               and_then (prepare_server_stream L cx req ts v n s) (\<lambda>out s.
                 answer_server_stream L M cx req ts v n out s)))"

end
