(* ===== verification/Mocker_Bidi.thy ===== *)
theory Mocker_Bidi
  imports Mocker_Stream
begin

text \<open>
  Bidirectional calls, \<^verbatim>\<open>grpc_mocker_bidi.go\<close>, with the recording stream of \<^verbatim>\<open>grpc_session.go\<close>, and
  the choice between the stubs and the upstream, \<^verbatim>\<open>proxy_behavior.go\<close>.
\<close>

section \<open>The recording stream\<close>

abbreviation max_history_stream_msgs :: nat where "max_history_stream_msgs \<equiv> 100"

record bidi_recording =
  bs_requests :: "gomap list"
  bs_responses :: "gomap list"
  bs_header :: "metadata list"
  bs_stubID :: uuid
  bs_stubTrailers :: "(string \<times> string) list"

definition new_recording :: bidi_recording where
  "new_recording = \<lparr>bs_requests = [], bs_responses = [], bs_header = [], bs_stubID = 0, bs_stubTrailers = []\<rparr>"

definition append_capped :: "gomap \<Rightarrow> gomap list \<Rightarrow> gomap list" where
  "append_capped m ms = (if m \<noteq> None \<and> length ms < max_history_stream_msgs then ms @ [m] else ms)"

definition merge_stub_trailers :: "(string \<times> string) list \<Rightarrow> bidi_recording \<Rightarrow> bidi_recording" where
  "merge_stub_trailers trailers b =
     (if trailers = [] then b
      else b\<lparr>bs_stubTrailers := fold (\<lambda>(k, v) m. m_put k v m) trailers (bs_stubTrailers b)\<rparr>)"

text \<open>\<^verbatim>\<open>metadata.Join\<close>: the values of a key in the order of the parts.\<close>

definition md_join :: "metadata list \<Rightarrow> metadata" where
  "md_join mds = fold (\<lambda>(k, vs) m. m_put k (m_list m k @ vs) m) (concat mds) []"

type_synonym 'm bidi_state = "bidi_recording \<times> bidi_result \<times> 'm mock_state"

text \<open>A message goes out through the recording stream.\<close>

definition send_recorded :: "'m mock_lib \<Rightarrow> 'm \<Rightarrow> 'm bidi_state \<Rightarrow> (call_error + unit) \<times> 'm bidi_state" where
  "send_recorded L msg st =
     (let (b, br, s) = st in
      case send_stream_message L msg s of
        (Inl e, s) \<Rightarrow> (Inl e, b, br, s)
      | (Inr x, s) \<Rightarrow> (Inr x, b\<lparr>bs_responses := append_capped (ml_message_map L msg) (bs_responses b)\<rparr>, br, s))"

definition send_payload :: "'m mock_lib \<Rightarrow> gvalue \<Rightarrow> 'm bidi_state \<Rightarrow> (call_error + unit) \<times> 'm bidi_state" where
  "send_payload L payload st =
     (case ml_encode L payload of
        Inl e \<Rightarrow> (Inl (wrap_error ''failed to convert response to dynamic message'' (plain_error e)), st)
      | Inr msg \<Rightarrow> send_recorded L msg st)"

section \<open>Elements of the answer\<close>

text \<open>The element's metadata is taken off; an error element stops with its error, or, when its code is
  \<open>OK\<close>, gives no payload; otherwise the delay is waited for.\<close>

definition prepare_stream_element ::
  "'m mock_lib \<Rightarrow> call_ctx \<Rightarrow> gvalue \<Rightarrow> stub_output \<Rightarrow> template_data \<Rightarrow> 'm mock_state
     \<Rightarrow> (call_error + gvalue) \<times> 'm mock_state" where
  "prepare_stream_element L cx element out td s =
     (case element of
        VMap m \<Rightarrow>
          (let (el, data) = extract_gripmock (ml_lib L) (Some m)
           in if el_HasError el then
                (case stream_element_error L el td of Some e \<Rightarrow> (Inl e, s) | None \<Rightarrow> (Inr VNil, s))
              else and_then (delay_templated L cx (element_delay (Delay out) el) td s)
                     (\<lambda>_ s. (Inr (VMap (entries data)), s)))
      | v \<Rightarrow> (Inr v, s))"

definition send_element ::
  "'m mock_lib \<Rightarrow> call_ctx \<Rightarrow> stub_output \<Rightarrow> template_data \<Rightarrow> gvalue \<Rightarrow> 'm bidi_state
     \<Rightarrow> (call_error + unit) \<times> 'm bidi_state" where
  "send_element L cx out td element st =
     (let (b, br, s) = st in
      case prepare_stream_element L cx element out td s of
        (Inl e, s) \<Rightarrow> (Inl e, b, br, s)
      | (Inr payload, s) \<Rightarrow> send_payload L payload (b, br, s))"

fun send_elements ::
  "'m mock_lib \<Rightarrow> call_ctx \<Rightarrow> stub_output \<Rightarrow> template_data \<Rightarrow> gvalue list \<Rightarrow> 'm bidi_state
     \<Rightarrow> (call_error + unit) \<times> 'm bidi_state" where
  "send_elements L cx out td [] st = (Inr (), st)"
| "send_elements L cx out td (x # xs) st =
     and_then (send_element L cx out td x st) (\<lambda>_ st. send_elements L cx out td xs st)"

definition exhausted_bidi_script_error :: "'m mock_lib \<Rightarrow> stub \<Rightarrow> int \<Rightarrow> nat \<Rightarrow> call_error" where
  "exhausted_bidi_script_error L v index input_len =
     status_error code_NotFound
       (''stub '' @ ml_uuid_text L (ID v) @ '' scripts '' @ fmt_nat input_len @ '' message(s) for '' @
        Service v @ ''/'' @ Method v @ '', but the client sent message #'' @ fmt_int (index + 1) @
        ''; declare another inputs/output.stream pair or stop sending'')"

text \<open>The part of a scripted stream that answers message \<open>i\<close> of \<open>n\<close>: one element, and for the last
  message everything that is left.\<close>

definition script_part :: "nat \<Rightarrow> nat \<Rightarrow> 'a list \<Rightarrow> 'a list" where
  "script_part n i xs =
     (let end' = (if i = n - 1 then length xs else i + 1) in take (end' - i) (drop i xs))"

definition is_map_value :: "gvalue \<Rightarrow> bool" where
  "is_map_value v \<longleftrightarrow> (case v of VMap _ \<Rightarrow> True | _ \<Rightarrow> False)"

definition send_client_stream_responses ::
  "'m mock_lib \<Rightarrow> call_ctx \<Rightarrow> stub_output \<Rightarrow> stub \<Rightarrow> int \<Rightarrow> template_data \<Rightarrow> 'm bidi_state
     \<Rightarrow> (call_error + unit) \<times> 'm bidi_state" where
  "send_client_stream_responses L cx out v index td st =
     (let stream_len = length (stream_list out); input_len = length (inputs_list v) in
      if stream_len = 0 then (Inr (), st)
      else if index < 0 then (Inr (), st)
      else if input_len = 0 then (Inr (), st)
      else if int input_len \<le> index \<or> int stream_len \<le> index
           then (Inl (exhausted_bidi_script_error L v index input_len), st)
      else send_elements L cx out td
             (filter is_map_value (script_part input_len (nat index) (stream_list out))) st)"

definition send_bidi_responses ::
  "'m mock_lib \<Rightarrow> call_ctx \<Rightarrow> stub_output \<Rightarrow> stub \<Rightarrow> int \<Rightarrow> template_data \<Rightarrow> 'm bidi_state
     \<Rightarrow> (call_error + unit) \<times> 'm bidi_state" where
  "send_bidi_responses L cx out v index td st =
     (if 0 < length (stream_list out) then
        (if is_client_stream v then send_client_stream_responses L cx out v index td st
         else send_elements L cx out td (stream_list out) st)
      else send_payload L (Data out) st)"

section \<open>One message\<close>

definition render_items ::
  "'m mock_lib \<Rightarrow> template_data \<Rightarrow> gvalue list \<Rightarrow> call_error + gvalue list" where
  "render_items L td items =
     traverse (\<lambda>v. case v of
         VMap m \<Rightarrow> map_error (template_failure False ''failed to process stream template'')
                     (r_map VMap (process_map (ml_render L td) m))
       | v \<Rightarrow> Inr v) items"

definition prepare_bidi_output :: "'m mock_lib \<Rightarrow> stub \<Rightarrow> template_data \<Rightarrow> call_error + stub_output" where
  "prepare_bidi_output L v td =
     (let out = Output v in
      r_bind (render_data L False td (Data out)) (\<lambda>data.
      r_bind (render_headers L False header_templates td (OutHeaders out)) (\<lambda>headers.
      r_bind (render_headers L False trailer_templates td (Trailers out)) (\<lambda>trailers.
      r_bind (render_items L td (stream_list out)) (\<lambda>items.
      r_map (\<lambda>err. out\<lparr>OutHeaders := headers, Trailers := trailers, Data := data, Stream := Some items,
                       Error := err\<rparr>)
        (render_error L False td (Error out)))))))"

definition set_recorded_headers ::
  "'m mock_lib \<Rightarrow> mocker \<Rightarrow> (string \<times> string) list \<Rightarrow> bidi_recording \<times> 'm mock_state
     \<Rightarrow> (call_error + unit) \<times> (bidi_recording \<times> 'm mock_state)" where
  "set_recorded_headers L M headers st =
     (let (b, s) = st;
          b = (case build_response_md headers of
                 Some md \<Rightarrow> if mk_Recorder M then b\<lparr>bs_header := bs_header b @ [md]\<rparr> else b
               | None \<Rightarrow> b);
          (r, s) = set_response_headers L True headers s
      in (map_error (wrap_error ''failed to set headers'') r, b, s))"

definition send_bidi_response ::
  "'m mock_lib \<Rightarrow> mocker \<Rightarrow> call_ctx \<Rightarrow> stub \<Rightarrow> gmap \<Rightarrow> int \<Rightarrow> 'm bidi_state
     \<Rightarrow> (call_error + unit) \<times> 'm bidi_state" where
  "send_bidi_response L M cx v msg ts st =
     (let (b, br, s) = st; index = int (get_message_index br);
          td = new_template_data (ml_uuid_text L) (Some msg) (context_headers cx) index ts [VMap msg] v
                 (bidi_matchNumber br);
          (r, s) = (if length (stream_list (Output v)) = 0
                    then delay_templated L cx (Delay (Output v)) td s else (Inr (), s)) in
      case r of
        Inl e \<Rightarrow> (Inl e, b, br, s)
      | Inr _ \<Rightarrow>
          (case prepare_bidi_output L v td of
             Inl e \<Rightarrow> (Inl e, b, br, s)
           | Inr out \<Rightarrow>
               (let s = mock_effects L v td s;
                    (r, b, s) = (if index = 0 then set_recorded_headers L M (OutHeaders out) (b, s)
                                 else (Inr (), b, s)) in
                case r of
                  Inl e \<Rightarrow> (Inl e, b, br, s)
                | Inr _ \<Rightarrow>
                    (let b = merge_stub_trailers (Trailers out) b in
                     case handle_output_error L out of
                       Some e \<Rightarrow> (Inl e, b, br, s)
                     | None \<Rightarrow>
                         send_bidi_responses L cx out v index td (b\<lparr>bs_stubID := ID v\<rparr>, br, s)))))"

definition process_bidi_message ::
  "'m mock_lib \<Rightarrow> mocker \<Rightarrow> call_ctx \<Rightarrow> gmap \<Rightarrow> 'm bidi_state \<Rightarrow> (call_error + unit) \<times> 'm bidi_state" where
  "process_bidi_message L M cx msg st =
     (let (b, br, s) = st; ts = ms_now s;
          (res, br, e) = bidi_next (ml_lib L) (Some msg) (br, ms_engine s); s = s\<lparr>ms_engine := e\<rparr> in
      case res of
        Inl err \<Rightarrow>
          (let wrapped = plain_error ''failed to process bidirectional message: stub not found''
           in if err = ErrStubNotFound then
                (if 0 < length (bs_responses b) then (Inl (status_error code_NotFound (err_Text wrapped)), b, br, s)
                 else (Inl (new_bidi_stream_fallback_error wrapped [msg]), b, br, s))
              else (Inl wrapped, b, br, s))
      | Inr v \<Rightarrow> send_bidi_response L M cx v msg ts (b, br, s))"

section \<open>The conversation\<close>

definition record_bidi_stream ::
  "'m mock_lib \<Rightarrow> mocker \<Rightarrow> call_ctx \<Rightarrow> int \<Rightarrow> call_error option \<Rightarrow> 'm bidi_state \<Rightarrow> 'm bidi_state" where
  "record_bidi_stream L M cx ts err st =
     (if \<not> mk_Recorder M then st
      else (let (b, br, s) = st; (session, s) = session_from_context cx s
            in (b, br, record_in_history L M session (bs_stubID b)
                  (case err of None \<Rightarrow> code_OK | Some e \<Rightarrow> err_Code e) ts (bs_requests b) (bs_responses b)
                  (response_headers (md_join (bs_header b)) [])
                  (case err of None \<Rightarrow> '''' | Some e \<Rightarrow> err_Text e) s)))"

definition record_bidi_unless_proxied ::
  "'m mock_lib \<Rightarrow> mocker \<Rightarrow> call_ctx \<Rightarrow> int \<Rightarrow> call_error \<Rightarrow> 'm bidi_state \<Rightarrow> 'm bidi_state" where
  "record_bidi_unless_proxied L M cx ts e st =
     (if proxy_fallback_will_serve M e then st else record_bidi_stream L M cx ts (Some e) st)"

fun bidi_loop ::
  "'m mock_lib \<Rightarrow> mocker \<Rightarrow> call_ctx \<Rightarrow> int \<Rightarrow> (call_error + gmap) list \<Rightarrow> 'm bidi_state
     \<Rightarrow> call_error option \<times> (call_error + gmap) list \<times> 'm bidi_state" where
  "bidi_loop L M cx ts [] st = (None, [], record_bidi_stream L M cx ts None st)"
| "bidi_loop L M cx ts (Inl e # xs) st =
     (let e = wrap_error ''failed to receive message'' e; st = record_bidi_unless_proxied L M cx ts e st
      in (Some (if err_Code e = code_NotFound then new_bidi_stream_fallback_error e [[]] else e), xs, st))"
| "bidi_loop L M cx ts (Inr m # xs) st =
     (let (b, br, s) = st;
          st = (b\<lparr>bs_requests := append_capped (ml_request_map L m) (bs_requests b)\<rparr>, br, s) in
      case process_bidi_message L M cx m st of
        (Inl e, st) \<Rightarrow> (Some e, xs, record_bidi_unless_proxied L M cx ts e st)
      | (Inr _, st) \<Rightarrow> bidi_loop L M cx ts xs st)"

definition handle_bidi_stream ::
  "'m mock_lib \<Rightarrow> mocker \<Rightarrow> call_ctx \<Rightarrow> 'm mock_state \<Rightarrow> call_error option \<times> 'm mock_state" where
  "handle_bidi_stream L M cx s =
     (let (q, s) = messages_query M cx [] s in
      case filter (\<lambda>v. handler_candidate (ml_lib L) v (q_Session q) (q_Headers q))
             (case find_by (ml_lib L) (mk_Service M) (mk_Method M) (ms_engine s) of Inl _ \<Rightarrow> [] | Inr vs \<Rightarrow> vs) of
        v # _ \<Rightarrow>
          (let (err, msgs) = ml_stream_handler L (ID v) (ms_inbox s)
           in (err, s\<lparr>ms_inbox := [], ms_sent := ms_sent s @ msgs\<rparr>))
      | [] \<Rightarrow>
          (case find_by_query_bidi (ml_lib L) q (ms_engine s) of
             Inl _ \<Rightarrow>
               (Some (status_error code_NotFound (format_stub_not_found L (q\<lparr>q_Strict := False\<rparr>) None)), s)
           | Inr br \<Rightarrow>
               (let (err, rest, b, _, s) = bidi_loop L M cx (ms_now s) (ms_inbox s) (new_recording, br, s)
                in (err, set_response_trailers (bs_stubTrailers b) (s\<lparr>ms_inbox := rest\<rparr>)))))"

section \<open>Stub or upstream\<close>

text \<open>\<^verbatim>\<open>proxyBehavior\<close>.\<close>

definition proxy_only :: "proxy_mode \<Rightarrow> bool" where "proxy_only mode \<longleftrightarrow> mode = ModeProxy"
definition capture_miss :: "proxy_mode \<Rightarrow> bool" where "capture_miss mode \<longleftrightarrow> mode = ModeCapture"

definition route_mode :: "mocker \<Rightarrow> string \<Rightarrow> proxy_mode option" where
  "route_mode M health_method =
     (if mk_Route M = None \<and> mk_FullMethod M = health_method then mk_FirstRoute M else mk_Route M)"

text \<open>What becomes of a streaming call: it is answered here, or handed to the upstream with the
  requests read so far, or with none, and with or without recording a stub.\<close>

datatype dispatch =
    Served "call_error option"
  | Forwarded stream_type "gmap list option" bool

definition stream_kind :: "mocker \<Rightarrow> stream_type option" where
  "stream_kind M =
     (if mk_ServerStream M \<and> \<not> mk_ClientStream M then Some StreamTypeServer
      else if \<not> mk_ServerStream M \<and> mk_ClientStream M then Some StreamTypeClient
      else if mk_ServerStream M \<and> mk_ClientStream M then Some StreamTypeBidi
      else None)"

definition proxy_stream :: "mocker \<Rightarrow> bool \<Rightarrow> dispatch" where
  "proxy_stream M capture =
     (case stream_kind M of
        Some kind \<Rightarrow> Forwarded kind None capture
      | None \<Rightarrow> Served (Some (status_error code_Unimplemented ''unknown stream type'')))"

definition error_of :: "('e + 'a) \<times> 's \<Rightarrow> 'e option \<times> 's" where
  "error_of rs = (case rs of (Inl e, s) \<Rightarrow> (Some e, s) | (Inr _, s) \<Rightarrow> (None, s))"

definition handle_stream ::
  "'m mock_lib \<Rightarrow> mocker \<Rightarrow> call_ctx \<Rightarrow> 'm mock_state \<Rightarrow> call_error option \<times> 'm mock_state" where
  "handle_stream L M cx s =
     (case stream_kind M of
        Some StreamTypeServer \<Rightarrow> error_of (handle_server_stream L M cx s)
      | Some StreamTypeClient \<Rightarrow> error_of (handle_client_stream L M cx s)
      | Some StreamTypeBidi \<Rightarrow> handle_bidi_stream L M cx s
      | _ \<Rightarrow> (Some (status_error code_Unimplemented ''Unknown stream type''), s))"

definition stream_handler ::
  "'m mock_lib \<Rightarrow> mocker \<Rightarrow> call_ctx \<Rightarrow> 'm mock_state \<Rightarrow> dispatch \<times> 'm mock_state" where
  "stream_handler L M cx s =
     (let route = route_mode M ''/grpc.health.v1.Health/Watch'' in
      if route = Some ModeProxy then (proxy_stream M False, s)
      else (let (err, s) = handle_stream L M cx s in
            case route of
              None \<Rightarrow> (Served err, s)
            | Some mode \<Rightarrow>
                (case err of
                   None \<Rightarrow> (Served None, s)
                 | Some e \<Rightarrow>
                     if \<not> can_fallback mode e then (Served (Some e), s)
                     else (case err_Fallback e of
                             None \<Rightarrow> (proxy_stream M (capture_miss mode), s)
                           | Some (StreamTypeUnary, _) \<Rightarrow> (proxy_stream M (capture_miss mode), s)
                           | Some (kind, reqs) \<Rightarrow> (Forwarded kind (Some reqs) (capture_miss mode), s)))))"

end
