(* ===== verification/Mocker_Claims.thy ===== *)
theory Mocker_Claims
  imports Mocker_Bidi
begin

text \<open>
  Properties of mocked calls: the history agrees with what the client is told, a matched call is
  answered with the data of the best stub, a server stream sends its script in order, a scripted
  conversation sends its stream exactly once, and a call the stubs do not answer goes to the
  upstream once and is recorded once.
\<close>

section \<open>What the steps leave alone\<close>

lemma session_from_context_frame [simp]:
  "ms_history (snd (session_from_context cx s)) = ms_history s"
  "ms_engine (snd (session_from_context cx s)) = ms_engine s"
  "ms_sent (snd (session_from_context cx s)) = ms_sent s"
  "ms_now (snd (session_from_context cx s)) = ms_now s"
  by (simp_all add: session_from_context_def Let_def split: option.split)

lemma new_query_frame [simp]:
  "ms_history (snd (messages_query M cx ms s)) = ms_history s"
  "ms_engine (snd (messages_query M cx ms s)) = ms_engine s"
  "ms_sent (snd (messages_query M cx ms s)) = ms_sent s"
  "ms_now (snd (messages_query M cx ms s)) = ms_now s"
  "ms_history (snd (new_query M cx req s)) = ms_history s"
  "ms_engine (snd (new_query M cx req s)) = ms_engine s"
  "ms_sent (snd (new_query M cx req s)) = ms_sent s"
  "ms_now (snd (new_query M cx req s)) = ms_now s"
  by (simp_all add: new_query_def messages_query_def split_def Let_def)

lemma find_stub_frame [simp]: "ms_history (snd (find_stub L q s)) = ms_history s"
  by (simp add: find_stub_def split_def Let_def split: sum.split option.split)

lemma delay_response_frame:
  "delay_response cx d s = (r, s') \<Longrightarrow>
     ms_history s' = ms_history s \<and> ms_sent s' = ms_sent s \<and> ms_engine s' = ms_engine s"
  by (auto simp: delay_response_def Let_def split: if_splits option.splits)

lemma delay_templated_frame:
  "delay_templated L cx d td s = (r, s') \<Longrightarrow>
     ms_history s' = ms_history s \<and> ms_sent s' = ms_sent s \<and> ms_engine s' = ms_engine s"
  by (auto simp: delay_templated_def and_then_def delay_response_frame split: sum.splits)

lemma set_headers_frame:
  "set_response_headers L streaming h s = (r, s') \<Longrightarrow> ms_history s' = ms_history s \<and> ms_sent s' = ms_sent s"
  by (auto simp: set_response_headers_def split: option.splits)

lemma set_trailers_frame [simp]:
  "ms_history (set_response_trailers t s) = ms_history s" "ms_sent (set_response_trailers t s) = ms_sent s"
  "ms_engine (set_response_trailers t s) = ms_engine s"
  by (simp_all add: set_response_trailers_def split: option.split)

lemma mock_effects_frame [simp]:
  "ms_history (mock_effects L v td s) = ms_history s" "ms_sent (mock_effects L v td s) = ms_sent s"
  by (simp_all add: mock_effects_def split_def Let_def)

section \<open>The history agrees with the answer\<close>

text \<open>One record was added, for these requests, with this outcome.\<close>

definition recorded_once ::
  "'m mock_lib \<Rightarrow> gmap list \<Rightarrow> gvalue list \<Rightarrow> 32 word \<Rightarrow> string \<Rightarrow> 'm mock_state \<Rightarrow> 'm mock_state \<Rightarrow> bool" where
  "recorded_once L reqs resps code msg s s' \<longleftrightarrow>
     (\<exists>c. ms_history s' = record_owned (ml_json_len L) c (ms_history s) \<and> c_Requests c = map Some reqs \<and>
        c_Responses c = map_values resps \<and> c_Code c = code \<and> c_Error c = msg)"

lemma record_call_once:
  "reqs \<noteq> [] \<Longrightarrow> mk_Recorder M \<Longrightarrow> ms_history s = ms_history s0 \<Longrightarrow>
     recorded_once L reqs resps code msg s0 (mocker_record_call L M cx i code ts reqs resps hdrs msg s)"
  by (auto simp: recorded_once_def mocker_record_call_def record_in_history_def split_def Let_def)

lemma record_call_off [simp]:
  "\<not> mk_Recorder M \<Longrightarrow> mocker_record_call L M cx i code ts reqs resps hdrs msg s = s"
  by (simp add: mocker_record_call_def)

text \<open>The record of a unary call says what the client was told.\<close>

fun history_agrees ::
  "'m mock_lib \<Rightarrow> mocker \<Rightarrow> gmap \<Rightarrow> 'm mock_state \<Rightarrow> (call_error + 'm) \<times> 'm mock_state \<Rightarrow> bool" where
  "history_agrees L M req s (r, s') =
     (if mk_Recorder M then
        (case r of
           Inr msg \<Rightarrow> \<exists>data. ml_encode L data = Inr msg \<and> recorded_once L [req] [data] code_OK '''' s s'
         | Inl e \<Rightarrow> ms_history s' = ms_history s \<or> recorded_once L [req] [] (err_Code e) (err_Text e) s s')
      else ms_history s' = ms_history s)"

lemma history_agrees_same: "ms_history s1 = ms_history s \<Longrightarrow> history_agrees L M req s1 rs = history_agrees L M req s rs"
  by (cases rs) (simp add: recorded_once_def split: sum.split)

lemma answer_unary_agrees: "history_agrees L M req s (answer_unary L M cx streaming req ts v n out s)"
  by (auto simp: answer_unary_def Let_def and_then_def record_call_once
      split: sum.split prod.split option.split dest!: delay_templated_frame set_headers_frame)

text \<open>C11. The history agrees with the answer to a unary call: an answered call has exactly one record, with
  the request, the data sent and no error; a call that fails has at most one, with the code and text
  of the error the client gets and no response; without a recorder nothing is recorded.\<close>

theorem unary_history_agrees: "history_agrees L M req s (handle_unary L M cx streaming req s)"
proof -
  obtain q s1 where q: "new_query M cx req s = (q, s1)" by (cases "new_query M cx req s")
  then have h1: "ms_history s1 = ms_history s" by (metis new_query_frame(5) snd_conv)
  obtain res s2 where f: "find_stub L q s1 = (res, s2)" by (cases "find_stub L q s1")
  then have h2: "ms_history s2 = ms_history s" by (metis find_stub_frame h1 snd_conv)
  note same = history_agrees_same [OF h2]
  show ?thesis
  proof (cases res)
    case (Inl e)
    then show ?thesis
      using q f h2 record_call_once [of "[req]" M s2 s L "[]" "err_Code e" "err_Text e"]
      by (auto simp: handle_unary_def record_unmatched_def new_unary_fallback_error_def Let_def)
  next
    case (Inr vn)
    obtain v n where vn: "vn = (v, n)" by (cases vn)
    show ?thesis
    proof (cases "HasUnaryHandler v")
      case True
      then show ?thesis
        using q f Inr vn h2 answer_unary_agrees [of L M req s2, unfolded same]
        by (cases "ml_unary_handler L (ID v) req") (simp_all add: handle_unary_def Let_def)
    next
      case False
      then show ?thesis
        using q f Inr vn answer_unary_agrees [of L M req s2, unfolded same]
        by (simp add: handle_unary_def Let_def)
    qed
  qed
qed

section \<open>A server stream sends its script\<close>

definition option_list :: "'a option \<Rightarrow> 'a list" where
  "option_list x = (case x of None \<Rightarrow> [] | Some a \<Rightarrow> [a])"

lemma option_list_simps [simp]: "option_list None = []" "option_list (Some a) = [a]"
  by (simp_all add: option_list_def)

text \<open>The delay of an element and what becomes of it: an error, a message, or, for an element whose error
  code is \<open>OK\<close>, nothing.\<close>

definition element_data :: "'m mock_lib \<Rightarrow> call_ctx \<Rightarrow> stub \<Rightarrow> int \<Rightarrow> gmap \<Rightarrow> int \<Rightarrow> nat \<Rightarrow> template_data" where
  "element_data L cx v n req ts i =
     new_template_data (ml_uuid_text L) (Some req) (context_headers cx) (int i) ts [VMap req] v n"

definition element_wait ::
  "'m mock_lib \<Rightarrow> call_ctx \<Rightarrow> stub \<Rightarrow> int \<Rightarrow> gmap \<Rightarrow> int \<Rightarrow> nat \<Rightarrow> gvalue \<Rightarrow> call_error + int" where
  "element_wait L cx v n req ts i item =
     (case item of
        VMap m \<Rightarrow> resolve_delay L (element_delay (Delay (Output v)) (fst (extract_gripmock (ml_lib L) (Some m))))
                    (element_data L cx v n req ts i)
      | _ \<Rightarrow> Inr 0)"

definition element_result ::
  "'m mock_lib \<Rightarrow> call_ctx \<Rightarrow> stub \<Rightarrow> int \<Rightarrow> gmap \<Rightarrow> int \<Rightarrow> nat \<Rightarrow> gvalue \<Rightarrow> call_error + 'm option" where
  "element_result L cx v n req ts i item =
     (case item of
        VMap m \<Rightarrow>
          (let (el, data) = extract_gripmock (ml_lib L) (Some m); td = element_data L cx v n req ts i
           in if el_HasError el then r_map (\<lambda>_. None) (unless_error (stream_element_error L el td))
              else r_bind (render_data L False td (VMap (entries data))) (\<lambda>payload.
                   case ml_encode L payload of
                     Inl e \<Rightarrow> Inl (wrap_error ''failed to convert response to dynamic message'' (plain_error e))
                   | Inr msg \<Rightarrow> Inr (Some msg)))
      | _ \<Rightarrow> Inl (status_error code_Internal (''invalid data format in stream array at index '' @ fmt_nat i)))"

lemma send_stream_frame:
  "send_stream_message L m s = (r, s') \<Longrightarrow> ms_history s' = ms_history s \<and> ms_engine s' = ms_engine s \<and>
     (case r of Inl _ \<Rightarrow> ms_sent s' = ms_sent s | Inr _ \<Rightarrow> ms_sent s' = ms_sent s @ [m])"
  by (auto simp: send_stream_message_def send_message_def split: option.splits)

lemma stream_element_step:
  assumes "handle_stream_element L cx v n req ts i item s = (r, s')"
  shows "ms_history s' = ms_history s \<and> ms_engine s' = ms_engine s \<and>
     (case r of
        Inl _ \<Rightarrow> ms_sent s' = ms_sent s
      | Inr _ \<Rightarrow> \<exists>out. element_result L cx v n req ts i item = Inr out \<and>
                    ms_sent s' = ms_sent s @ option_list out)"
proof (cases item)
  case (VMap m)
  obtain el data where el: "extract_gripmock (ml_lib L) (Some m) = (el, data)"
    by (cases "extract_gripmock (ml_lib L) (Some m)")
  let ?td = "element_data L cx v n req ts i"
  obtain r1 s1 where d: "delay_templated L cx (element_delay (Delay (Output v)) el) ?td s = (r1, s1)"
    by (cases "delay_templated L cx (element_delay (Delay (Output v)) el) ?td s")
  note frame = delay_templated_frame [OF d]
  note defs = handle_stream_element_def element_result_def Let_def element_data_def [symmetric]
  show ?thesis
  proof (cases "r1 = Inr () \<and> \<not> el_HasError el")
    case True
    then show ?thesis
      using assms frame d el VMap send_stream_frame [of L _ s1 r s']
      by (auto simp: defs split: sum.splits)
        (auto simp: and_then_def split: sum.splits)
  next
    case False
    then show ?thesis
      using assms frame d el VMap by (cases "stream_element_error L el ?td"; cases r1) (auto simp: defs)
  qed
qed (use assms in \<open>auto simp: handle_stream_element_def\<close>)

text \<open>Under a context that does not end and a transport that takes every message an element fails only
  with its own error.\<close>

lemma stream_element_done:
  assumes "cx_Done cx = None" and "\<forall>k. ml_send L k = None"
    and "element_wait L cx v n req ts i item = Inr d" and "element_result L cx v n req ts i item = Inr out"
  shows "\<exists>s'. handle_stream_element L cx v n req ts i item s = (Inr (), s')"
proof (cases item)
  case (VMap m)
  obtain el data where el: "extract_gripmock (ml_lib L) (Some m) = (el, data)"
    by (cases "extract_gripmock (ml_lib L) (Some m)")
  have "\<exists>s'. delay_templated L cx (element_delay (Delay (Output v)) el) (element_data L cx v n req ts i) s = (Inr (), s')"
    using assms(1,3) VMap el by (auto simp: delay_templated_def element_wait_def delay_response_def Let_def)
  then show ?thesis
    using assms(2,4) VMap el
    by (auto simp: handle_stream_element_def element_result_def Let_def element_data_def [symmetric]
        send_stream_message_def send_message_def r_bind_def unless_error_def r_map_def
        split: if_splits sum.splits option.splits)
qed (use assms in \<open>auto simp: element_result_def\<close>)

lemma array_stream_run:
  "handle_array_stream_data L cx v n req ts i items s = (k, err, s') \<Longrightarrow>
     i \<le> k \<and> k \<le> i + length items \<and> (err = None \<longleftrightarrow> k = i + length items) \<and>
     ms_history s' = ms_history s \<and> ms_engine s' = ms_engine s \<and>
     (\<exists>outs. list_all2 (\<lambda>j out. element_result L cx v n req ts j (items ! (j - i)) = Inr out) [i..<k] outs \<and>
        ms_sent s' = ms_sent s @ concat (map option_list outs))"
proof (induction items arbitrary: i s)
  case Nil
  then show ?case by auto
next
  case (Cons x xs)
  show ?case
  proof (cases "context_ended cx s")
    case (Some e)
    show ?thesis using Cons.prems by (auto simp: Some)
  next
    case None
    obtain r1 s1 where step: "handle_stream_element L cx v n req ts i x s = (r1, s1)"
      by (cases "handle_stream_element L cx v n req ts i x s")
    note one = stream_element_step [OF step]
    show ?thesis
    proof (cases r1)
      case (Inl e)
      then show ?thesis using Cons.prems None step one by auto
    next
      case (Inr u)
      with one obtain out where out: "element_result L cx v n req ts i x = Inr out"
        "ms_sent s1 = ms_sent s @ option_list out" by auto
      from Cons.prems None step Inr
      have "handle_array_stream_data L cx v n req ts (Suc i) xs s1 = (k, err, s')" by simp
      note IH = Cons.IH [OF this]
      then obtain outs where
        outs: "list_all2 (\<lambda>j out. element_result L cx v n req ts j (xs ! (j - Suc i)) = Inr out) [Suc i..<k] outs"
        and sent: "ms_sent s' = ms_sent s1 @ concat (map option_list outs)" by blast
      have "list_all2 (\<lambda>j out. element_result L cx v n req ts j ((x # xs) ! (j - i)) = Inr out) [Suc i..<k] outs"
        by (rule list.rel_mono_strong [OF outs]) (auto simp: nth_Cons')
      with IH out(1) have "list_all2 (\<lambda>j out. element_result L cx v n req ts j ((x # xs) ! (j - i)) = Inr out)
          [i..<k] (out # outs)"
        by (simp add: upt_conv_Cons)
      with IH one Inr out sent show ?thesis by (intro conjI exI [of _ "out # outs"]) auto
    qed
  qed
qed

lemma array_stream_complete:
  assumes "cx_Done cx = None" and "\<forall>k. ml_send L k = None"
  shows "\<forall>j<length items. (\<exists>d. element_wait L cx v n req ts (i + j) (items ! j) = Inr d) \<and>
       (\<exists>out. element_result L cx v n req ts (i + j) (items ! j) = Inr out) \<Longrightarrow>
     fst (snd (handle_array_stream_data L cx v n req ts i items s)) = None"
proof (induction items arbitrary: i s)
  case (Cons x xs)
  from Cons.prems [rule_format, of 0] obtain d out where
    "element_wait L cx v n req ts i x = Inr d" "element_result L cx v n req ts i x = Inr out" by auto
  from stream_element_done [OF assms this] obtain s1 where
    step: "handle_stream_element L cx v n req ts i x s = (Inr (), s1)" by blast
  have "\<forall>j<length xs. (\<exists>d. element_wait L cx v n req ts (Suc i + j) (xs ! j) = Inr d) \<and>
      (\<exists>out. element_result L cx v n req ts (Suc i + j) (xs ! j) = Inr out)"
  proof (intro allI impI)
    fix j assume "j < length xs"
    then show "(\<exists>d. element_wait L cx v n req ts (Suc i + j) (xs ! j) = Inr d) \<and>
      (\<exists>out. element_result L cx v n req ts (Suc i + j) (xs ! j) = Inr out)"
      using Cons.prems [rule_format, of "Suc j"] by simp
  qed
  from Cons.IH [OF this, of s1] step assms(1) show ?case by (simp add: context_ended_def)
qed simp

text \<open>C25. A server stream sends its script: the messages that go out are the rendered elements of the
  stub's stream, in order and each once, up to the first that fails or until the context ends, and
  nothing else of the state moves but the clock; and while the context does not end and every
  message gets out, elements that render and encode are all sent.\<close>

theorem server_stream_sends:
  "case handle_array_stream_data L cx v n req ts 0 items s of (k, err, s') \<Rightarrow>
     k \<le> length items \<and> (err = None \<longleftrightarrow> k = length items) \<and>
     ms_history s' = ms_history s \<and> ms_engine s' = ms_engine s \<and>
     (\<exists>outs. list_all2 (\<lambda>j out. element_result L cx v n req ts j (items ! j) = Inr out) [0..<k] outs \<and>
        ms_sent s' = ms_sent s @ concat (map option_list outs)) \<and>
     (cx_Done cx = None \<longrightarrow> (\<forall>k. ml_send L k = None) \<longrightarrow>
      (\<forall>j<length items. (\<exists>d. element_wait L cx v n req ts j (items ! j) = Inr d) \<and>
         (\<exists>out. element_result L cx v n req ts j (items ! j) = Inr out)) \<longrightarrow> k = length items)"
proof (cases "handle_array_stream_data L cx v n req ts 0 items s")
  case (fields k err s')
  with array_stream_run [OF fields] array_stream_complete [of cx L items v n req ts 0 s] show ?thesis
    by simp
qed

section \<open>A scripted conversation\<close>

text \<open>The parts of a script are the script.\<close>

lemma script_part_simps:
  "i < n - 1 \<Longrightarrow> i < length xs \<Longrightarrow> script_part n i xs = [xs ! i]"
  "0 < n \<Longrightarrow> script_part n (n - 1) xs = drop (n - 1) xs"
  by (auto simp: script_part_def Let_def take_Suc_conv_app_nth hd_drop_conv_nth take_Suc)

lemma script_parts: "0 < n \<Longrightarrow> n \<le> length xs \<Longrightarrow> concat (map (\<lambda>i. script_part n i xs) [0..<n]) = xs"
proof -
  assume n: "0 < n" "n \<le> length xs"
  have "concat (map (\<lambda>i. script_part n i xs) [0..<k]) = take k xs" if "k \<le> n - 1" for k
    using that n by (induction k) (simp_all add: script_part_simps take_Suc_conv_app_nth)
  moreover have "[0..<n] = [0..<n - 1] @ [n - 1]" using n(1) by (cases n) simp_all
  ultimately show ?thesis using n script_part_simps(2) [OF n(1), of xs] by simp
qed

lemma script_part_map: "script_part n i (map f xs) = map f (script_part n i xs)"
  by (simp add: script_part_def Let_def take_map drop_map)

lemma script_part_nth: "script_part n i xs = map ((!) xs) (script_part n i [0..<length xs])"
  by (metis map_nth script_part_map)

lemma script_part_upt: "script_part n i [0..<m] = (if i = n - 1 then [i..<m] else if i < m then [i] else [])"
proof (cases "i < m")
  case True
  then have "take (Suc 0) [i..<m] = [i]" by (subst take_upt) auto
  then show ?thesis using True by (simp add: script_part_def)
qed (simp add: script_part_def)

lemma script_part_index: "i < n \<Longrightarrow> j \<in> set (script_part n i [0..<m]) \<Longrightarrow> min j (n - 1) = i"
  by (auto simp: script_part_upt split: if_splits)

text \<open>An element that can be sent, and the message it becomes.\<close>

definition element_message :: "'m mock_lib \<Rightarrow> gvalue \<Rightarrow> string + 'm" where
  "element_message L x =
     (case x of
        VMap m \<Rightarrow> ml_encode L (VMap (entries (snd (extract_gripmock (ml_lib L) (Some m)))))
      | _ \<Rightarrow> Inl ''not a map'')"

definition element_sendable :: "'m mock_lib \<Rightarrow> stub_output \<Rightarrow> template_data \<Rightarrow> gvalue \<Rightarrow> bool" where
  "element_sendable L out td x \<longleftrightarrow>
     (case x of
        VMap m \<Rightarrow>
          (let el = fst (extract_gripmock (ml_lib L) (Some m))
           in \<not> el_HasError el \<and> (\<exists>d. resolve_delay L (element_delay (Delay out) el) td = Inr d) \<and>
              (\<exists>msg. element_message L x = Inr msg))
      | _ \<Rightarrow> False)"

definition sent_of :: "'m bidi_state \<Rightarrow> 'm list" where
  "sent_of st = ms_sent (snd (snd st))"

lemma send_element_sendable:
  assumes "cx_Done cx = None" and "\<forall>k. ml_send L k = None" and "element_sendable L out td x"
  shows "\<exists>st'. send_element L cx out td x st = (Inr (), st') \<and>
     sent_of st' = sent_of st @ [projr (element_message L x)]"
proof -
  obtain b br s where st: "st = (b, br, s)" by (cases st)
  from assms(3) obtain m where x: "x = VMap m" by (auto simp: element_sendable_def split: gvalue.splits)
  obtain el data where el: "extract_gripmock (ml_lib L) (Some m) = (el, data)"
    by (cases "extract_gripmock (ml_lib L) (Some m)")
  from assms(3) x el obtain d msg where d: "resolve_delay L (element_delay (Delay out) el) td = Inr d"
    and msg: "ml_encode L (VMap (entries data)) = Inr msg" and "\<not> el_HasError el"
    by (auto simp: element_sendable_def element_message_def)
  moreover have "\<exists>s'. delay_response cx d s = (Inr (), s') \<and> ms_sent s' = ms_sent s"
    using assms(1) by (simp add: delay_response_def Let_def)
  then obtain s' where "delay_response cx d s = (Inr (), s')" "ms_sent s' = ms_sent s" by blast
  ultimately show ?thesis
    using st x el assms(2)
    by (simp add: send_element_def prepare_stream_element_def delay_templated_def send_payload_def
        send_recorded_def send_stream_message_def send_message_def sent_of_def element_message_def)
qed

lemma send_elements_sendable:
  assumes "cx_Done cx = None" and "\<forall>k. ml_send L k = None"
  shows "list_all (element_sendable L out td) xs \<Longrightarrow>
     \<exists>st'. send_elements L cx out td xs st = (Inr (), st') \<and>
       sent_of st' = sent_of st @ map (\<lambda>x. projr (element_message L x)) xs"
proof (induction xs arbitrary: st)
  case (Cons x xs)
  then obtain st1 where 1: "send_element L cx out td x st = (Inr (), st1)"
    "sent_of st1 = sent_of st @ [projr (element_message L x)]"
    using send_element_sendable [OF assms, of out td x st] by auto
  from Cons obtain st2 where "send_elements L cx out td xs st1 = (Inr (), st2)"
    "sent_of st2 = sent_of st1 @ map (\<lambda>x. projr (element_message L x)) xs"
    by (simp del: split_paired_Ex) blast
  with 1 show ?case by simp
qed simp

lemma send_script_part:
  assumes "cx_Done cx = None" and "\<forall>k. ml_send L k = None"
    and "i < length (inputs_list v)" and "length (inputs_list v) \<le> length (stream_list out)"
    and "list_all (element_sendable L out td) (stream_list out)"
  shows "\<exists>st'. send_client_stream_responses L cx out v (int i) td st = (Inr (), st') \<and>
     sent_of st' = sent_of st @
       map (\<lambda>x. projr (element_message L x)) (script_part (length (inputs_list v)) i (stream_list out))"
proof -
  let ?part = "script_part (length (inputs_list v)) i (stream_list out)"
  have "set ?part \<subseteq> set (stream_list out)"
    by (auto simp: script_part_def Let_def dest: in_set_takeD in_set_dropD)
  with assms(5) have part: "list_all (element_sendable L out td) ?part" by (auto simp: list_all_iff)
  then have "filter is_map_value ?part = ?part"
    by (auto simp: list_all_iff element_sendable_def is_map_value_def filter_id_conv split: gvalue.splits)
  with send_elements_sendable [OF assms(1,2) part, of st] assms(3,4) show ?thesis
    by (auto simp: send_client_stream_responses_def Let_def simp del: split_paired_Ex)
qed

text \<open>The answers to messages \<open>0\<close> to \<open>k - 1\<close> of a conversation; the output is rendered anew for every
  message.\<close>

fun script_run ::
  "'m mock_lib \<Rightarrow> call_ctx \<Rightarrow> stub \<Rightarrow> (nat \<Rightarrow> stub_output) \<Rightarrow> (nat \<Rightarrow> template_data) \<Rightarrow> nat \<Rightarrow> 'm bidi_state
     \<Rightarrow> (call_error + unit) \<times> 'm bidi_state" where
  "script_run L cx v outs tds 0 st = (Inr (), st)"
| "script_run L cx v outs tds (Suc k) st =
     and_then (script_run L cx v outs tds k st) (\<lambda>_ st.
       send_client_stream_responses L cx (outs k) v (int k) (tds k) st)"

text \<open>A scripted conversation sends its stream exactly once: when the client sends the \<open>n\<close> messages the
  stub declares and its stream has at least as many elements, all of which can be sent, every
  element goes out once and in order, element \<open>j\<close> as rendered for message \<open>min j (n - 1)\<close>; a further
  message is answered with \<open>NotFound\<close> and sends nothing.\<close>

lemma bidi_script_sent:
  assumes "cx_Done cx = None" and "\<forall>k. ml_send L k = None" and "0 < length (inputs_list v)"
    and "length (inputs_list v) \<le> m"
    and "\<forall>i<length (inputs_list v). length (stream_list (outs i)) = m \<and>
       list_all (element_sendable L (outs i) (tds i)) (stream_list (outs i))"
  shows "(\<exists>st'. script_run L cx v outs tds (length (inputs_list v)) st = (Inr (), st') \<and>
       sent_of st' = sent_of st @
         map (\<lambda>j. projr (element_message L (stream_list (outs (min j (length (inputs_list v) - 1))) ! j))) [0..<m]) \<and>
     (\<forall>out td i st. stream_list out \<noteq> [] \<and> length (inputs_list v) \<le> i \<longrightarrow>
        send_client_stream_responses L cx out v (int i) td st =
          (Inl (exhausted_bidi_script_error L v (int i) (length (inputs_list v))), st))"
proof
  let ?n = "length (inputs_list v)"
  let ?msg = "\<lambda>j. projr (element_message L (stream_list (outs (min j (?n - 1))) ! j))"
  have run: "\<exists>st'. script_run L cx v outs tds k st = (Inr (), st') \<and>
      sent_of st' = sent_of st @ map ?msg (concat (map (\<lambda>i. script_part ?n i [0..<m]) [0..<k]))"
    if "k \<le> ?n" for k
    using that
  proof (induction k)
    case (Suc k)
    then obtain st1 where st1: "script_run L cx v outs tds k st = (Inr (), st1)"
      "sent_of st1 = sent_of st @ map ?msg (concat (map (\<lambda>i. script_part ?n i [0..<m]) [0..<k]))" by auto
    have k: "k < ?n" "?n \<le> length (stream_list (outs k))" "length (stream_list (outs k)) = m"
      "list_all (element_sendable L (outs k) (tds k)) (stream_list (outs k))"
      using Suc.prems assms(4,5) by auto
    from send_script_part [OF assms(1,2) k(1,2,4), of st1] obtain st2 where
      st2: "send_client_stream_responses L cx (outs k) v (int k) (tds k) st1 = (Inr (), st2)"
      "sent_of st2 = sent_of st1 @ map (\<lambda>x. projr (element_message L x)) (script_part ?n k (stream_list (outs k)))"
      by blast
    have "map (\<lambda>x. projr (element_message L x)) (script_part ?n k (stream_list (outs k))) =
        map ?msg (script_part ?n k [0..<m])"
      using script_part_index [OF k(1)] by (subst script_part_nth) (simp add: k(3))
    with st1 st2 show ?case by simp
  qed simp
  from run [of ?n] script_parts [of ?n "[0..<m]"] assms(3,4)
  show "\<exists>st'. script_run L cx v outs tds ?n st = (Inr (), st') \<and> sent_of st' = sent_of st @ map ?msg [0..<m]"
    by simp
  show "\<forall>out td i st. stream_list out \<noteq> [] \<and> ?n \<le> i \<longrightarrow>
      send_client_stream_responses L cx out v (int i) td st = (Inl (exhausted_bidi_script_error L v (int i) ?n), st)"
    using assms(3) by (auto simp: send_client_stream_responses_def)
qed

section \<open>Stub or upstream\<close>

lemma record_unmatched_once:
  "\<not> proxy_fallback_will_serve M e \<Longrightarrow> reqs \<noteq> [] \<Longrightarrow> mk_Recorder M \<Longrightarrow> ms_history s = ms_history s0 \<Longrightarrow>
     recorded_once L reqs [] (err_Code e) (err_Text e) s0 (record_unmatched L M cx ts reqs e s)"
  by (simp add: record_unmatched_def record_call_once)

lemma record_unmatched_proxied [simp]:
  "proxy_fallback_will_serve M e \<Longrightarrow> record_unmatched L M cx ts reqs e s = s"
  by (simp add: record_unmatched_def)

text \<open>A server-streaming call no stub answers is accounted for once: with a route that replays or
  captures it is handed to the upstream with its request and the mocker records nothing; with no
  route the client gets \<open>NotFound\<close> and, where a recorder is set, the history exactly one record of it.\<close>

lemma unmatched_stream_dispatch:
  assumes "mk_ServerStream M" and "\<not> mk_ClientStream M" and "mk_FullMethod M \<noteq> ''/grpc.health.v1.Health/Watch''"
    and "ms_inbox s = Inr req # rest" and "mk_Route M \<noteq> Some ModeProxy"
    and "find_stub L (fst (new_query M cx req (s\<lparr>ms_inbox := rest\<rparr>))) (snd (new_query M cx req (s\<lparr>ms_inbox := rest\<rparr>)))
           = (Inl e, s1)"
  shows "case stream_handler L M cx s of (d, s') \<Rightarrow>
     ms_sent s' = ms_sent s1 \<and>
     (case mk_Route M of
        Some mode \<Rightarrow> d = Forwarded StreamTypeServer (Some [req]) (mode = ModeCapture) \<and> ms_history s' = ms_history s
      | None \<Rightarrow> (\<exists>e'. d = Served (Some e') \<and> err_Code e' = code_NotFound) \<and>
          (if mk_Recorder M then \<exists>msg. recorded_once L [req] [] code_NotFound msg s s'
           else ms_history s' = ms_history s))"
proof -
  let ?s = "s\<lparr>ms_inbox := rest\<rparr>"
  have e: "err_Code e = code_NotFound"
    using assms(6) by (auto simp: find_stub_def status_error_def Let_def split: prod.splits sum.splits option.splits)
  have h: "ms_history s1 = ms_history s"
    using arg_cong [OF assms(6), of "ms_history \<circ> snd"] by simp
  have serve: "proxy_fallback_will_serve M e \<longleftrightarrow> mk_Route M \<noteq> None"
    using assms(5) e by (cases "mk_Route M"; cases "the (mk_Route M)") (auto simp: proxy_fallback_will_serve_def)
  have run: "handle_stream L M cx s =
      (Some (new_server_stream_fallback_error e req), record_unmatched L M cx (ms_now s) [req] e s1)"
    using assms(1,2,4,6)
    by (cases "new_query M cx req ?s")
      (simp add: handle_stream_def stream_kind_def handle_server_stream_def receive_def error_of_def Let_def)
  have sent: "ms_sent (record_unmatched L M cx t reqs e s1) = ms_sent s1" for t reqs
    by (simp add: record_unmatched_def mocker_record_call_def record_in_history_def split_def Let_def)
  show ?thesis
  proof (cases "mk_Route M")
    case None
    then show ?thesis
      using run serve assms(3) e sent h record_unmatched_once [of M e "[req]" s1 s L cx "ms_now s"]
      by (auto simp: stream_handler_def route_mode_def new_server_stream_fallback_error_def record_unmatched_def)
  next
    case (Some mode)
    then show ?thesis
      using run serve assms(5) e sent h
      by (cases mode) (auto simp: stream_handler_def route_mode_def new_server_stream_fallback_error_def capture_miss_def)
  qed
qed

end
