(* ===== verification/Mocker_Search.thy ===== *)
theory Mocker_Search
  imports Mocker_Claims Search_Claims
begin

text \<open>
  The handlers and the search together: a unary call is answered with the data of the best stub. The
  witnesses of the properties of the handlers use a concrete instance of the parameters whose
  messages are the values themselves.
\<close>

section \<open>The parameters of the witnesses\<close>

definition taken_stub :: stub where
  "taken_stub = (sample_stub 2 ''Colors'' [(''name'', VString ''x'')])
     \<lparr>Output := empty_output\<lparr>Data := VMap []\<rparr>\<rparr>"

definition sample_mock :: "gvalue mock_lib" where
  "sample_mock =
     \<lparr>ml_lib = sample_lib, ml_runtime = sample_runtime, ml_render = (\<lambda>_ _. Inr ''rendered''),
      ml_uuid_text = (\<lambda>_. ''id''), ml_parse_uuid = (\<lambda>_. Some 2), ml_decode_stub = (\<lambda>_. Inr taken_stub),
      ml_encode = Inr, ml_details = (\<lambda>_. None), ml_json = (\<lambda>_. ''{}''), ml_similar = (\<lambda>_. ''similar''),
      ml_request_map = Some, ml_message_map = (\<lambda>v. case v of VMap m \<Rightarrow> Some m | _ \<Rightarrow> None),
      ml_json_len = (\<lambda>_. Some 2), ml_unary_handler = (\<lambda>_ _. Inr VNil),
      ml_client_stream_handler = (\<lambda>_ _. Inr VNil), ml_server_stream_handler = (\<lambda>_ _. (None, [])),
      ml_stream_handler = (\<lambda>_ _. (None, [])), ml_send = (\<lambda>_. None), ml_header = (\<lambda>_. None)\<rparr>"

definition sample_mocker :: mocker where
  "sample_mocker =
     \<lparr>mk_Service = ''Greeter'', mk_Method = ''Say'', mk_FullMethod = ''/Greeter/Say'', mk_Strict = True,
      mk_ServerStream = False, mk_ClientStream = False, mk_Recorder = True, mk_Route = None,
      mk_FirstRoute = None\<rparr>"

definition sample_ctx :: call_ctx where
  "sample_ctx = \<lparr>cx_MD = None, cx_Done = None\<rparr>"

definition sample_state :: "searcher \<Rightarrow> gvalue mock_state" where
  "sample_state s =
     \<lparr>ms_engine = s, ms_fresh = [100, 101], ms_history = new_memory_store 0 0 [], ms_sessions = [],
      ms_now = 0, ms_inbox = [], ms_headers = [], ms_trailers = [], ms_sent = []\<rparr>"

section \<open>A matched call\<close>

text \<open>An output that is sent as it stands.\<close>

definition plain_output :: "stub_output \<Rightarrow> bool" where
  "plain_output out \<longleftrightarrow>
     Delay out = '''' \<and> \<not> has_templates_in_value (Data out) \<and> nesting (Data out) \<le> max_recursion_depth \<and>
     \<not> has_templates_in_headers (OutHeaders out) \<and> \<not> has_templates_in_headers (Trailers out) \<and>
     Error out = '''' \<and> (Code out = None \<or> Code out = Some code_OK)"

lemma process_map_plain:
  assumes "\<not> has_templates_in_value (VMap m)" and "nesting (VMap m) \<le> max_recursion_depth"
  shows "process_map r m = Inr m"
proof -
  have "process_value r 0 (VMap m) = Inr (VMap m)" using assms by (intro process_value_plain) simp_all
  then have "r_map VMap (process_map r m) = Inr (VMap m)" by (simp add: process_map_def)
  then show ?thesis by (auto simp: r_map_Inr)
qed

lemma render_data_plain:
  "\<not> has_templates_in_value v \<Longrightarrow> nesting v \<le> max_recursion_depth \<Longrightarrow> render_data L unary td v = Inr v"
  by (cases v) (simp_all add: render_data_def process_map_plain del: has_templates_in_value.simps nesting.simps)

lemma answer_unary_plain:
  assumes "plain_output out" and "Delay (Output v) = ''''" and "Effects v = []"
    and "\<forall>md. ml_header L md = None" and "ml_encode L (Data out) = Inr msg"
  shows "\<exists>s'. answer_unary L M cx streaming req ts v n out s = (Inr msg, s') \<and> ms_engine s' = ms_engine s"
proof -
  have "delay_templated L cx (Delay (Output v)) td s = (Inr (), s)" for td
    using assms(2) by (simp add: delay_templated_def resolve_delay_def is_template_delay_def delay_static_def
        delay_parse_def delay_response_def)
  moreover have "set_response_headers L streaming h s = (Inr (), snd (set_response_headers L streaming h s)) \<and>
      ms_engine (snd (set_response_headers L streaming h s)) = ms_engine s" for h
    using assms(4) by (simp add: set_response_headers_def split: option.split)
  then obtain s1 where "set_response_headers L streaming (OutHeaders out) s = (Inr (), s1)" "ms_engine s1 = ms_engine s"
    by blast
  moreover have "mock_effects L v td s = s" for td s
    using assms(3) by (simp add: mock_effects_def apply_effects_def)
  ultimately show ?thesis
    using assms
    by (auto simp: answer_unary_def plain_output_def render_data_plain render_headers_def render_error_def Let_def
        handle_output_error_def status_from_output_def output_status_base_def mocker_record_call_def
        record_in_history_def session_from_context_def split: option.split prod.split)
qed

lemma handle_unary_best:
  assumes "searcher_ok (ml_lib L) (ms_engine s)" and "runtime_ok (ml_runtime L)"
    and "q = fst (new_query M cx req s)" and "mk_Service M \<noteq> health_service"
    and "hash_separates (ml_lib L) (search_names (ms_engine s) q)"
    and "index_uniform (ml_lib L) (ms_engine s) q" and "\<forall>v\<in>eligible (ms_engine s) q. index_safe (ml_lib L) v"
    and "best_match (ml_lib L) q (answerable (ms_engine s) q) v"
    and "\<not> HasUnaryHandler v" and "Effects v = []" and "plain_output (Output v)"
    and "\<forall>md. ml_header L md = None" and "ml_encode L (Data (Output v)) = Inr msg"
  shows "fst (handle_unary L M cx streaming req s) = Inr msg \<and>
     ms_engine (snd (handle_unary L M cx streaming req s)) = reserve_state q v (ms_engine s)"
proof -
  obtain s1 where q: "new_query M cx req s = (q, s1)" "ms_engine s1 = ms_engine s"
    using assms(3) new_query_frame(6) [of M cx req s] by (cases "new_query M cx req s") auto
  have qq: "q_ID q = None" "\<not> allows_internal_stubs q"
    using q(1) assms(4)
    by (auto simp: new_query_def messages_query_def with_health_visibility_def allows_internal_stubs_def split_def Let_def)
  have "find_query (ml_lib L) (ml_runtime L) q (ms_engine s1) =
      (Inr (found_result v (reserve_number q v (ms_engine s))), reserve_state q v (ms_engine s))"
    unfolding q(2) by (rule find_query_best [OF assms(1,5,2,6,7) qq assms(8)])
  then have f: "find_stub L q s1 = (Inr (v, reserve_number q v (ms_engine s)), s1\<lparr>ms_engine := reserve_state q v (ms_engine s)\<rparr>)"
    by (simp add: find_stub_def find_by_query_def found_result_def)
  have "Delay (Output v) = ''''" using assms(11) by (simp add: plain_output_def)
  from answer_unary_plain [OF assms(11) this assms(10,12,13), of M cx streaming req "ms_now s" "reserve_number q v (ms_engine s)"
      "s1\<lparr>ms_engine := reserve_state q v (ms_engine s)\<rparr>"]
  show ?thesis using q(1) f assms(9) by (auto simp: handle_unary_def Let_def)
qed

text \<open>C2. A unary call for which a best stub exists is answered with that stub's data, whatever the state
  of the rest of the server: on a consistent store, when the stub has no native handler, no effects
  and an output without templates, delay and error, the client gets exactly the message its data
  encodes to, and the engine has reserved that stub and changed nothing else.\<close>

theorem unary_answers_with_best_stub:
  assumes "searcher_ok (ml_lib L) (ms_engine s)" and "runtime_ok (ml_runtime L)"
    and "q = fst (new_query M cx req s)" and "mk_Service M \<noteq> health_service"
    and "hash_separates (ml_lib L) (search_names (ms_engine s) q)"
    and "index_uniform (ml_lib L) (ms_engine s) q" and "\<forall>v\<in>eligible (ms_engine s) q. index_safe (ml_lib L) v"
    and "best_match (ml_lib L) q (answerable (ms_engine s) q) v"
    and "\<not> HasUnaryHandler v" and "Effects v = []" and "plain_output (Output v)"
    and "\<forall>md. ml_header L md = None" and "ml_encode L (Data (Output v)) = Inr msg"
  shows "fst (handle_unary L M cx streaming req s) = Inr msg \<and>
     ms_engine (snd (handle_unary L M cx streaming req s)) = reserve_state q v (ms_engine s)"
  by (rule handle_unary_best [OF assms])

lemma greeter_query: "fst (new_query sample_mocker sample_ctx [(''name'', VString ''bob'')] (sample_state greeter)) = bob_query"
  by (simp add: new_query_def messages_query_def session_from_context_def with_health_visibility_def
      sample_mocker_def sample_ctx_def context_headers_def health_service_def bob_query_def sample_query_def)

lemma unary_answers_with_best_stub_witness:
  "fst (handle_unary sample_mock sample_mocker sample_ctx False [(''name'', VString ''bob'')] (sample_state greeter)) =
     Inr VNil"
proof -
  have eng: "ms_engine (sample_state greeter) = greeter" by (simp add: sample_state_def)
  have lib: "ml_lib sample_mock = sample_lib" "ml_runtime sample_mock = sample_runtime"
    by (simp_all add: sample_mock_def)
  show ?thesis
    by (rule unary_answers_with_best_stub [where q = bob_query and v = bob_stub, THEN conjunct1])
      (simp_all add: eng lib greeter_ok sample_runtime_ok greeter_query greeter_separates greeter_uniform
        greeter_safe greeter_best,
       simp_all add: sample_mocker_def health_service_def sample_mock_def sample_defs plain_output_def empty_output_def
         has_templates_in_headers_def)
qed

text \<open>The stub of the effects: it replaces the stub 2 of its session, then deletes it.\<close>

definition effect_stub :: "string \<Rightarrow> stub" where
  "effect_stub session = (sample_stub 1 ''Greeter'' [])
     \<lparr>Session := session, Effects := [\<lparr>Action = ''upsert'', EffectID = '''', EffectStub = Some [(''id'', VInt 2)]\<rparr>]\<rparr>"

definition effect_data :: template_data where
  "effect_data = new_template_data (\<lambda>_. ''id'') None [] 0 0 [] (effect_stub ''a'') 1"

lemma effect_prepared:
  "fst (prepare_effects sample_mock (Effects (effect_stub ses)) effect_data ses [100]) =
     Inr [\<lparr>op_action = ''upsert'', op_upsertStub = Some (taken_stub\<lparr>Session := ses, Source := ''rest''\<rparr>),
          op_deleteID = 0, op_parentSession = ses\<rparr>]"
  by (simp add: effect_stub_def prepare_effect_def prepare_upsert_effect_def process_map_def sample_mock_def
      taken_stub_def sample_stub_def empty_stub_def empty_output_def validate_stub_def validate_input_configuration_def
      validate_output_configuration_def validate_effects_configuration_def has_valid_input_data_def has_matcher_def
      empty_input_def inputs_list_def stream_list_def)

lemma effects_spec_witness:
  "stub_map (ext (fst (apply_effects sample_mock (effect_stub ''a'') effect_data (new_budgerigar sample_lib, [100])))) 2
     = Some (taken_stub\<lparr>Session := ''a'', Source := ''rest''\<rparr>)"
proof -
  have v: "Session (effect_stub ''a'') = ''a''" "length (Effects (effect_stub ''a'')) \<le> length [100 :: uuid]"
    by (simp_all add: effect_stub_def)
  have "0 \<notin> set [100 :: uuid]" by simp
  from effects_spec [OF v(2) this, of sample_mock effect_data "new_budgerigar sample_lib"]
  show ?thesis
    by (simp add: v(1) effect_prepared Let_def op_update_def) (simp add: taken_stub_def sample_stub_def)
qed

text \<open>An upsert that names the ID of a stub of another session takes the stub away from that session: the
  check a delete makes is missing.\<close>

lemma upsert_effect_crosses_sessions:
  "let s = snd (put_many sample_lib [] [taken_stub\<lparr>Session := ''b''\<rparr>] (new_budgerigar sample_lib));
       s' = fst (apply_effects sample_mock (effect_stub ''a'') effect_data (s, [100]))
   in map_option Session (stub_map (ext s) 2) = Some ''b'' \<and> map_option Session (stub_map (ext s') 2) = Some ''a''"
proof -
  let ?s = "snd (put_many sample_lib [] [taken_stub\<lparr>Session := ''b''\<rparr>] (new_budgerigar sample_lib))"
  have t: "ID taken_stub = 2" by (simp add: taken_stub_def sample_stub_def)
  have "stub_map (ext ?s) 2 = Some (taken_stub\<lparr>Session := ''b''\<rparr>)"
    using put_one_map [of "taken_stub\<lparr>Session := ''b''\<rparr>" sample_lib "new_budgerigar sample_lib"] t by simp
  moreover have "stub_map (ext (fst (apply_effects sample_mock (effect_stub ''a'') effect_data (?s, [100])))) =
      (stub_map (ext ?s))(2 \<mapsto> taken_stub\<lparr>Session := ''a'', Source := ''rest''\<rparr>)"
  proof -
    have "Effects (effect_stub ''a'') \<noteq> []" "Session (effect_stub ''a'') = ''a''" by (simp_all add: effect_stub_def)
    then show ?thesis
      using effect_prepared [of "''a''"] t
      by (cases "prepare_effects sample_mock (Effects (effect_stub ''a'')) effect_data ''a'' [100]")
        (simp add: apply_effects_def op_update_def apply_operation_map)
  qed
  ultimately show ?thesis by (simp add: Let_def)
qed

section \<open>Witnesses for the streams\<close>

definition two_items :: "gvalue list" where
  "two_items = [VMap [(''a'', VString ''1'')], VMap [(''b'', VString ''2'')]]"

definition stream_stub :: stub where
  "stream_stub = (sample_stub 1 ''Greeter'' [])\<lparr>Inputs := Some [empty_input],
     Output := empty_output\<lparr>Stream := Some two_items\<rparr>\<rparr>"

lemmas stream_sample_defs = stream_stub_def two_items_def sample_stub_def empty_stub_def empty_output_def
  sample_mock_def sample_ctx_def sample_state_def

lemma server_stream_sends_witness:
  "fst (handle_array_stream_data sample_mock sample_ctx stream_stub 1 [] 0 0 two_items (sample_state greeter)) = 2"
proof -
  have "(\<exists>d. element_wait sample_mock sample_ctx stream_stub 1 [] 0 j (two_items ! j) = Inr d) \<and>
      (\<exists>out. element_result sample_mock sample_ctx stream_stub 1 [] 0 j (two_items ! j) = Inr out)"
    if "j < length two_items" for j
  proof -
    from that have "j = 0 \<or> j = 1" by (auto simp: two_items_def)
    then show ?thesis
      by (auto simp: stream_sample_defs element_wait_def element_result_def resolve_delay_def is_template_delay_def
          extract_gripmock_def gripmock_key_def empty_element_def element_delay_def render_data_def process_map_def
          render_string_def is_template_string_def)
  qed
  moreover have "cx_Done sample_ctx = None" "\<forall>k. ml_send sample_mock k = None"
    by (simp_all add: sample_ctx_def sample_mock_def)
  ultimately show ?thesis
    using server_stream_sends [where L = sample_mock and cx = sample_ctx and v = stream_stub and n = 1 and req = "[]"
        and ts = 0 and items = two_items and s = "sample_state greeter"]
    by (auto simp: two_items_def split: prod.splits)
qed

lemma bidi_script_sent_witness:
  "\<exists>st'. script_run sample_mock sample_ctx stream_stub (\<lambda>_. Output stream_stub) (\<lambda>_. effect_data) 1
       (new_recording, new_bidi_result bob_query [], sample_state greeter) = (Inr (), st') \<and> sent_of st' = two_items"
proof -
  have len: "length (inputs_list stream_stub) = 1" by (simp add: stream_stub_def inputs_list_def)
  have items: "stream_list (Output stream_stub) = two_items" by (simp add: stream_stub_def stream_list_def)
  have ok: "list_all (element_sendable sample_mock (Output stream_stub) effect_data) two_items"
    by (simp add: stream_sample_defs element_sendable_def element_message_def resolve_delay_def
        is_template_delay_def extract_gripmock_def gripmock_key_def empty_element_def element_delay_def)
  have "cx_Done sample_ctx = None" "\<forall>k. ml_send sample_mock k = None"
    by (simp_all add: sample_ctx_def sample_mock_def)
  from bidi_script_sent [OF this, where v = stream_stub and m = 2 and outs = "\<lambda>_. Output stream_stub"
      and tds = "\<lambda>_. effect_data" and st = "(new_recording, new_bidi_result bob_query [], sample_state greeter)"]
  have "\<exists>st'. script_run sample_mock sample_ctx stream_stub (\<lambda>_. Output stream_stub) (\<lambda>_. effect_data) 1
       (new_recording, new_bidi_result bob_query [], sample_state greeter) = (Inr (), st') \<and>
     sent_of st' = sent_of (new_recording, new_bidi_result bob_query [], sample_state greeter) @
       map (\<lambda>j. projr (element_message sample_mock (two_items ! j))) [0..<2]"
    using ok by (simp add: len items two_items_def)
  moreover have "map (\<lambda>j. projr (element_message sample_mock (two_items ! j))) [0..<2] = two_items"
    by (simp add: two_items_def element_message_def extract_gripmock_def gripmock_key_def sample_mock_def
        upt_conv_Cons)
  ultimately show ?thesis by (simp add: sent_of_def sample_state_def)
qed

lemma unmatched_stream_dispatch_witness:
  "fst (stream_handler sample_mock (sample_mocker\<lparr>mk_ServerStream := True, mk_Route := Some ModeCapture\<rparr>) sample_ctx
     ((sample_state (new_budgerigar sample_lib))\<lparr>ms_inbox := [Inr []]\<rparr>)) =
   Forwarded StreamTypeServer (Some [[]]) True"
proof -
  let ?M = "sample_mocker\<lparr>mk_ServerStream := True, mk_Route := Some ModeCapture\<rparr>"
  let ?s = "(sample_state (new_budgerigar sample_lib))\<lparr>ms_inbox := [Inr []]\<rparr>"
  let ?q = "new_query ?M sample_ctx [] (?s\<lparr>ms_inbox := []\<rparr>)"
  have miss: "\<not> isl (fst (find_stub sample_mock (fst ?q) (snd ?q))) \<longrightarrow> False"
    by code_simp
  then obtain e s1 where "find_stub sample_mock (fst ?q) (snd ?q) = (Inl e, s1)"
    by (cases "find_stub sample_mock (fst ?q) (snd ?q)"; cases "fst (find_stub sample_mock (fst ?q) (snd ?q))") auto
  from unmatched_stream_dispatch [OF _ _ _ _ _ this]
  show ?thesis by (auto simp: sample_mocker_def split: prod.splits)
qed


section \<open>Behaviour worth knowing\<close>

text \<open>A client-streaming call that is answered with an error leaves no record, unlike the other kinds.\<close>

lemma send_message_history: "send_message L m s = (r, s') \<Longrightarrow> ms_history s' = ms_history s"
  by (auto simp: send_message_def split: option.splits)

lemma client_stream_error_unrecorded:
  "answer_client_stream L M cx messages ts v n out s = (Inl e, s') \<Longrightarrow> ms_history s' = ms_history s"
  by (auto simp: answer_client_stream_def Let_def and_then_def map_error_def
      split: sum.splits prod.splits option.splits dest!: delay_templated_frame set_headers_frame send_message_history)

text \<open>An element of a server stream that asks for the error \<open>OK\<close> is not sent, but it counts as sent and is
  recorded as a response.\<close>

lemma ok_element_recorded_unsent:
  "let items = [VMap [(''_gripmock'', VMap [(''code'', VInt 0)]), (''a'', VString ''1'')]];
       (k, err, s') = handle_array_stream_data sample_mock sample_ctx stream_stub 1 [] 0 0 items (sample_state greeter)
   in k = 1 \<and> err = None \<and> ms_sent s' = [] \<and>
      clean_stream_responses sample_lib (take k items) = [VMap [(''a'', VString ''1'')]]"
  by code_simp

text \<open>A bidirectional call whose script is exhausted after an answer is still handed to a capturing or
  replaying upstream, without the message that found no answer, and is not recorded here.\<close>

lemma bidi_forwarded_after_answers:
  "let s = (sample_state (sample_searcher [stream_stub]))\<lparr>ms_inbox := [Inr [], Inr []]\<rparr>;
       (d, s') = stream_handler sample_mock
         (sample_mocker\<lparr>mk_ServerStream := True, mk_ClientStream := True, mk_Route := Some ModeCapture\<rparr>) sample_ctx s
   in d = Forwarded StreamTypeBidi None True \<and> ms_sent s' = two_items \<and> ms_inbox s' = [] \<and>
      ms_history s' = ms_history s"
  by code_simp

end
