(* ===== verification/Stub_Files.thy ===== *)
theory Stub_Files
  imports Effects
begin

text \<open>
  The loader of stub files, \<^verbatim>\<open>internal/infra/storage/stubs.go\<close>: it remembers which stubs came from which
  file, and replaces them when the watcher reports the file. Reading and decoding a file is the
  library's: a load gets the decoded stubs or an error. UUIDs come from a list, as in \<open>put_many\<close>.
\<close>

section \<open>State and operations\<close>

record loader =
  fl_engine :: searcher
  fl_files :: "(string \<times> uuid list) list"
  fl_unique :: "uuid list"
  fl_loaded :: bool
  fl_fresh :: "uuid list"

definition is_stub_file :: "string \<Rightarrow> bool" where
  "is_stub_file name \<longleftrightarrow> has_suffix name ''.json'' \<or> has_suffix name ''.yaml'' \<or> has_suffix name ''.yml''"

definition without_ids :: "uuid list \<Rightarrow> uuid list \<Rightarrow> uuid list" where
  "without_ids ids exclude = filter (\<lambda>i. i \<notin> set exclude) ids"

definition extract_current_ids :: "stub list \<Rightarrow> uuid list" where
  "extract_current_ids vs = filter (\<lambda>i. i \<noteq> 0) (map ID vs)"

definition gen_id :: "stub \<Rightarrow> uuid list \<Rightarrow> uuid list \<Rightarrow> uuid \<times> uuid list \<times> uuid list" where
  "gen_id v free fresh =
     (if ID v \<noteq> 0 then (ID v, free, fresh)
      else case free of i # is \<Rightarrow> (i, is, fresh) | [] \<Rightarrow> (hd fresh, [], tl fresh))"

text \<open>The stubs with their IDs; a stub without one takes the next unused ID of its file.\<close>

fun generate_new_ids :: "stub list \<Rightarrow> uuid list \<Rightarrow> uuid list \<Rightarrow> stub list \<times> uuid list" where
  "generate_new_ids [] free fresh = ([], fresh)"
| "generate_new_ids (v # vs) free fresh =
     (let (i, free, fresh) = gen_id v free fresh; (ws, fresh) = generate_new_ids vs free fresh
      in (v\<lparr>ID := i\<rparr> # ws, fresh))"

definition from_file :: "stub \<Rightarrow> stub" where
  "from_file v = v\<lparr>Source := ''file''\<rparr>"

definition load_put :: "golib \<Rightarrow> string \<Rightarrow> stub list \<Rightarrow> loader \<Rightarrow> loader" where
  "load_put g path vs st =
     (let (ids, e) = put_many g [] vs (fl_engine st)
      in st\<lparr>fl_engine := e, fl_files := m_put path ids (fl_files st)\<rparr>)"

definition handle_first_time_load :: "golib \<Rightarrow> string \<Rightarrow> stub list \<Rightarrow> loader \<Rightarrow> loader" where
  "handle_first_time_load g path vs st =
     (let (ws, fresh) = generate_new_ids vs [] (fl_fresh st)
      in load_put g path (map from_file ws) (st\<lparr>fl_fresh := fresh\<rparr>))"

definition handle_existing_file_update :: "golib \<Rightarrow> string \<Rightarrow> stub list \<Rightarrow> uuid list \<Rightarrow> loader \<Rightarrow> loader" where
  "handle_existing_file_update g path vs existing st =
     (let vs = map from_file vs;
          unused = without_ids existing (extract_current_ids vs);
          (ws, fresh) = generate_new_ids vs unused (fl_fresh st);
          removed = without_ids existing (map ID ws);
          e = (if removed \<noteq> [] then snd (delete_by_id g removed (fl_engine st)) else fl_engine st);
          st = st\<lparr>fl_engine := e, fl_fresh := fresh\<rparr>
      in if ws \<noteq> [] then load_put g path ws st
         else st\<lparr>fl_files := m_del path (fl_files st)\<rparr>)"

definition handle_file_read_error :: "golib \<Rightarrow> string \<Rightarrow> loader \<Rightarrow> loader" where
  "handle_file_read_error g path st =
     (case map_of (fl_files st) path of
        Some existing \<Rightarrow>
          st\<lparr>fl_engine := snd (delete_by_id g existing (fl_engine st)), fl_files := m_del path (fl_files st)\<rparr>
      | None \<Rightarrow> st)"

text \<open>The check for duplicate IDs only warns; it remembers the IDs until loading is over.\<close>

definition check_uniq_ids :: "stub list \<Rightarrow> loader \<Rightarrow> loader" where
  "check_uniq_ids vs st =
     (if fl_loaded st then st
      else st\<lparr>fl_unique := fold List.insert (extract_current_ids vs) (fl_unique st)\<rparr>)"

definition read_by_file :: "golib \<Rightarrow> string \<Rightarrow> string + stub list \<Rightarrow> loader \<Rightarrow> loader" where
  "read_by_file g path content st =
     (case content of
        Inl _ \<Rightarrow> handle_file_read_error g path st
      | Inr vs \<Rightarrow>
          (let st = check_uniq_ids vs st in
           case map_of (fl_files st) path of
             None \<Rightarrow> handle_first_time_load g path vs st
           | Some existing \<Rightarrow> handle_existing_file_update g path vs existing st))"

text \<open>The walk over a directory: files in order, directories in depth.\<close>

datatype dir_entry =
    Stub_File string "string + stub list"
  | Sub_Dir string "dir_entry list"

fun read_entry :: "golib \<Rightarrow> string \<Rightarrow> dir_entry \<Rightarrow> loader \<Rightarrow> loader" where
  "read_entry g dir (Stub_File name content) st =
     (if is_stub_file name then read_by_file g (dir @ ''/'' @ name) content st else st)"
| "read_entry g dir (Sub_Dir name es) st =
     fold (\<lambda>e st. read_entry g (dir @ ''/'' @ name) e st) es st"

definition handle_directory_path :: "golib \<Rightarrow> string \<Rightarrow> dir_entry list \<Rightarrow> loader \<Rightarrow> loader" where
  "handle_directory_path g dir es st = fold (read_entry g dir) es st"

section \<open>What a load does\<close>

definition loader_map :: "loader \<Rightarrow> (uuid \<rightharpoonup> stub)" where
  "loader_map st = stub_map (ext (fl_engine st))"

definition file_ids :: "loader \<Rightarrow> string \<Rightarrow> uuid list" where
  "file_ids st path = (case map_of (fl_files st) path of None \<Rightarrow> [] | Some ids \<Rightarrow> ids)"

lemma put_many_nonzero:
  "\<forall>v\<in>set vs. ID v \<noteq> 0 \<Longrightarrow> fst (put_many g fresh vs s) = map ID vs \<and>
     stub_map (ext (snd (put_many g fresh vs s))) = fold (\<lambda>v m. m(ID v \<mapsto> v)) vs (stub_map (ext s))"
proof -
  assume "\<forall>v\<in>set vs. ID v \<noteq> 0"
  then have "assign_ids fresh vs = vs" by (induction vs) auto
  then show ?thesis
    using stub_map_upsert [of g vs "ext s"]
    by (simp add: put_many_def searcher_upsert_def split_def Let_def) (simp add: upsert_def)
qed

lemma delete_map: "stub_map (ext (snd (delete_by_id g ids s))) = stub_map (ext s) |` (- set ids)"
  by (simp add: delete_by_id_def searcher_del_map)

text \<open>The stubs a load leaves in the store: each keeps its ID or gets an unused one of its file, or a
  fresh one, and is marked as read from a file.\<close>

definition free_ids :: "stub list \<Rightarrow> string \<Rightarrow> loader \<Rightarrow> uuid list" where
  "free_ids vs path st = without_ids (file_ids st path) (extract_current_ids vs)"

definition loaded_stubs :: "stub list \<Rightarrow> string \<Rightarrow> loader \<Rightarrow> stub list" where
  "loaded_stubs vs path st = map from_file (fst (generate_new_ids vs (free_ids vs path st) (fl_fresh st)))"

text \<open>There are enough new UUIDs, and they are new.\<close>

definition fresh_enough :: "stub list \<Rightarrow> string \<Rightarrow> loader \<Rightarrow> bool" where
  "fresh_enough vs path st \<longleftrightarrow>
     length vs \<le> length (fl_fresh st) \<and> 0 \<notin> set (fl_fresh st) \<and> 0 \<notin> set (file_ids st path)"

lemma from_file_ID [simp]: "ID (from_file v) = ID v"
  by (simp add: from_file_def)

lemma extract_from_file [simp]: "extract_current_ids (map from_file vs) = extract_current_ids vs"
  by (simp add: extract_current_ids_def comp_def)

lemma gen_id_cases:
  assumes "gen_id v free fresh = (i, free', fresh')" "fresh \<noteq> []"
  obtains "ID v \<noteq> 0" "i = ID v" "free' = free" "fresh' = fresh"
    | "ID v = 0" "free = i # free'" "fresh' = fresh"
    | "ID v = 0" "free = []" "free' = []" "fresh = i # fresh'"
  using assms by (auto simp: gen_id_def neq_Nil_conv split: if_splits list.splits)

lemma generate_each:
  "length vs \<le> length fresh \<Longrightarrow>
     list_all2 (\<lambda>v w. w = v\<lparr>ID := ID w\<rparr> \<and> (if ID v = 0 then ID w \<in> set free \<union> set fresh else ID w = ID v))
       vs (fst (generate_new_ids vs free fresh))"
proof (induction vs free fresh rule: generate_new_ids.induct)
  case (2 v vs free fresh)
  obtain i fr fs where g: "gen_id v free fresh = (i, fr, fs)" by (cases "gen_id v free fresh") auto
  have ne: "fresh \<noteq> []" using 2(2) by auto
  have sub: "set fr \<subseteq> set free" "set fs \<subseteq> set fresh" "length vs \<le> length fs"
    and i: "if ID v = 0 then i \<in> set free \<union> set fresh else i = ID v"
    by (rule gen_id_cases [OF g ne], use 2(2) in auto)+
  have "list_all2 (\<lambda>v w. w = v\<lparr>ID := ID w\<rparr> \<and> (if ID v = 0 then ID w \<in> set fr \<union> set fs else ID w = ID v))
       vs (fst (generate_new_ids vs fr fs))"
    using 2(1) [OF g [symmetric] refl refl sub(3)] by simp
  then have "list_all2 (\<lambda>v w. w = v\<lparr>ID := ID w\<rparr> \<and> (if ID v = 0 then ID w \<in> set free \<union> set fresh else ID w = ID v))
       vs (fst (generate_new_ids vs fr fs))"
    by (rule list_all2_mono) (use sub in \<open>auto split: if_splits\<close>)
  with i show ?case by (auto simp: g split_def Let_def split: if_splits)
qed simp

lemma list_all2_right: "list_all2 P xs ys \<Longrightarrow> (\<And>x y. P x y \<Longrightarrow> Q y) \<Longrightarrow> \<forall>y\<in>set ys. Q y"
  by (induction xs ys rule: list_all2_induct) auto

lemma list_all2_conj_all: "list_all2 P xs ys \<Longrightarrow> \<forall>y\<in>set ys. Q y \<Longrightarrow> list_all2 (\<lambda>x y. P x y \<and> Q y) xs ys"
  by (induction xs ys rule: list_all2_induct) auto

lemma generate_nonzero:
  "length vs \<le> length fresh \<Longrightarrow> 0 \<notin> set fresh \<Longrightarrow> 0 \<notin> set free \<Longrightarrow>
     \<forall>w\<in>set (fst (generate_new_ids vs free fresh)). ID w \<noteq> 0"
  by (rule list_all2_right, erule generate_each) (auto split: if_splits)

lemma generate_source:
  "generate_new_ids (map from_file vs) free fresh =
     map_prod (map from_file) (\<lambda>x. x) (generate_new_ids vs free fresh)"
proof (induction vs free fresh rule: generate_new_ids.induct)
  case (2 v vs free fresh)
  obtain i fr fs where g: "gen_id v free fresh = (i, fr, fs)" by (cases "gen_id v free fresh") auto
  moreover have "gen_id (from_file v) free fresh = gen_id v free fresh" by (simp add: gen_id_def from_file_def)
  ultimately show ?case
    using 2 [OF g [symmetric] refl refl] by (auto simp: Let_def from_file_def map_prod_def split: prod.split)
qed simp

lemma load_put_spec:
  "\<forall>v\<in>set vs. ID v \<noteq> 0 \<Longrightarrow>
     loader_map (load_put g path vs st) = fold (\<lambda>v m. m(ID v \<mapsto> v)) vs (loader_map st) \<and>
     fl_files (load_put g path vs st) = m_put path (map ID vs) (fl_files st) \<and>
     fl_fresh (load_put g path vs st) = fl_fresh st \<and> fl_loaded (load_put g path vs st) = fl_loaded st"
  using put_many_nonzero [of vs g "[]" "fl_engine st"]
  by (simp add: load_put_def loader_map_def split_def Let_def)

lemma load_replaces:
  assumes "fresh_enough vs path st"
  defines "ws \<equiv> loaded_stubs vs path st"
  shows "loader_map (read_by_file g path (Inr vs) st) =
       fold (\<lambda>v m. m(ID v \<mapsto> v)) ws (loader_map st |` (- (set (file_ids st path) - set (map ID ws)))) \<and>
     (\<forall>p. file_ids (read_by_file g path (Inr vs) st) p = (if p = path then map ID ws else file_ids st p)) \<and>
     list_all2 (\<lambda>v w. w = v\<lparr>ID := ID w, Source := ''file''\<rparr> \<and> ID w \<noteq> 0 \<and>
        (if ID v = 0 then ID w \<in> set (file_ids st path) \<union> set (fl_fresh st) else ID w = ID v)) vs ws"
proof -
  let ?gen = "\<lambda>vs. generate_new_ids vs (free_ids vs path st) (fl_fresh st)"
  have len: "length vs \<le> length (fl_fresh st)" and nz: "0 \<notin> set (fl_fresh st)" "0 \<notin> set (free_ids vs path st)"
    using assms(1) by (auto simp: fresh_enough_def free_ids_def without_ids_def)
  have ws: "ws = fst (?gen (map from_file vs))" "free_ids (map from_file vs) path st = free_ids vs path st"
    by (simp_all add: ws_def loaded_stubs_def generate_source free_ids_def)
  have nonzero: "\<forall>w\<in>set ws. ID w \<noteq> 0"
    using generate_nonzero [OF len nz] by (auto simp: ws_def loaded_stubs_def)
  have each: "list_all2 (\<lambda>v w. w = v\<lparr>ID := ID w, Source := ''file''\<rparr> \<and> ID w \<noteq> 0 \<and>
        (if ID v = 0 then ID w \<in> set (file_ids st path) \<union> set (fl_fresh st) else ID w = ID v)) vs ws"
    unfolding ws_def loaded_stubs_def list_all2_map2
    by (rule list.rel_mono_strong [OF list_all2_conj_all [OF generate_each [OF len] generate_nonzero [OF len nz]]])
      (auto simp: from_file_def free_ids_def without_ids_def split: if_splits)
  let ?st = "check_uniq_ids vs st"
  have st: "fl_engine ?st = fl_engine st" "fl_files ?st = fl_files st" "fl_fresh ?st = fl_fresh st"
    by (simp_all add: check_uniq_ids_def)
  have "loader_map (read_by_file g path (Inr vs) st) =
       fold (\<lambda>v m. m(ID v \<mapsto> v)) ws (loader_map st |` (- (set (file_ids st path) - set (map ID ws)))) \<and>
     (\<forall>p. file_ids (read_by_file g path (Inr vs) st) p = (if p = path then map ID ws else file_ids st p))"
  proof (cases "map_of (fl_files st) path")
    case None
    obtain us fresh where gen: "generate_new_ids vs [] (fl_fresh st) = (us, fresh)" by fastforce
    then have "ws = map from_file us" by (simp add: ws_def loaded_stubs_def free_ids_def file_ids_def None without_ids_def)
    moreover have "read_by_file g path (Inr vs) st = load_put g path (map from_file us) (?st\<lparr>fl_fresh := fresh\<rparr>)"
      by (simp add: read_by_file_def Let_def st None handle_first_time_load_def gen)
    ultimately show ?thesis
      using load_put_spec [of ws g path "?st\<lparr>fl_fresh := fresh\<rparr>"] nonzero
      by (simp add: file_ids_def None loader_map_def st restrict_map_def)
  next
    case (Some existing)
    obtain us fresh where gen: "?gen (map from_file vs) = (us, fresh)" by fastforce
    then have us: "us = ws" and free: "free_ids vs path st = without_ids existing (extract_current_ids vs)"
      by (simp_all add: ws(1) free_ids_def file_ids_def Some)
    let ?st' = "?st\<lparr>fl_engine := if without_ids existing (map ID ws) \<noteq> []
        then snd (delete_by_id g (without_ids existing (map ID ws)) (fl_engine st)) else fl_engine st, fl_fresh := fresh\<rparr>"
    have m: "loader_map ?st' = loader_map st |` (- (set existing - set (map ID ws)))"
    proof (cases "without_ids existing (map ID ws) = []")
      case True
      then have "set existing - set (map ID ws) = {}" by (auto simp: without_ids_def filter_empty_conv)
      then show ?thesis by (simp add: True loader_map_def) (auto simp: restrict_map_def fun_eq_iff)
    qed (simp add: loader_map_def delete_map without_ids_def set_diff_eq)
    have "read_by_file g path (Inr vs) st =
        (if ws \<noteq> [] then load_put g path ws ?st' else ?st'\<lparr>fl_files := m_del path (fl_files st)\<rparr>)"
      by (simp add: read_by_file_def Let_def st Some handle_existing_file_update_def
          gen [unfolded ws(2) free] us cong: if_cong)
    then show ?thesis
      using load_put_spec [of ws g path ?st'] nonzero m
      by (auto simp: file_ids_def Some st loader_map_def)
  qed
  with each show ?thesis by blast
qed


text \<open>C26. After a readable stub file is loaded, for the first time or again, the file owns exactly the IDs
  of its stubs. The store has these stubs, no longer has those the file gave before under an ID it
  now no longer uses, and is otherwise what it was; every other file keeps its IDs.\<close>

theorem file_load_replaces:
  assumes "fresh_enough vs path st"
  defines "ws \<equiv> loaded_stubs vs path st"
  shows "loader_map (read_by_file g path (Inr vs) st) =
       fold (\<lambda>v m. m(ID v \<mapsto> v)) ws (loader_map st |` (- (set (file_ids st path) - set (map ID ws)))) \<and>
     (\<forall>p. file_ids (read_by_file g path (Inr vs) st) p = (if p = path then map ID ws else file_ids st p)) \<and>
     list_all2 (\<lambda>v w. w = v\<lparr>ID := ID w, Source := ''file''\<rparr> \<and> ID w \<noteq> 0 \<and>
        (if ID v = 0 then ID w \<in> set (file_ids st path) \<union> set (fl_fresh st) else ID w = ID v)) vs ws"
  unfolding ws_def by (rule load_replaces [OF assms(1)])

definition sample_loader :: loader where
  "sample_loader = \<lparr>fl_engine = new_budgerigar sample_lib, fl_files = [(''a.json'', [7, 8])], fl_unique = [],
     fl_loaded = True, fl_fresh = [9]\<rparr>"

lemma sample_loader_simps:
  "file_ids sample_loader p = (if p = ''a.json'' then [7, 8] else [])"
  "loader_map sample_loader = Map.empty" "fl_fresh sample_loader = [9]"
  by (simp_all add: sample_loader_def file_ids_def loader_map_def new_budgerigar_def fun_eq_iff stub_map_def
      new_storage_with_internal_def setup_health_stubs_def put_internal_def new_storage_def split_def Let_def)

lemma file_load_replaces_witness:
  "loader_map (read_by_file sample_lib ''a.json'' (Inr [empty_stub]) sample_loader) =
     [7 \<mapsto> empty_stub\<lparr>ID := 7, Source := ''file''\<rparr>]"
proof -
  have "fresh_enough [empty_stub] ''a.json'' sample_loader"
    by (simp add: fresh_enough_def sample_loader_simps)
  note f = conjunct1 [OF file_load_replaces [OF this, of sample_lib]]
  show ?thesis
    unfolding f
    by (simp add: sample_loader_simps loaded_stubs_def free_ids_def without_ids_def extract_current_ids_def
        empty_stub_def gen_id_def from_file_def)
qed

text \<open>An unreadable file loses its stubs; a file that was never loaded changes nothing.\<close>

lemma file_error_removes:
  "loader_map (read_by_file g path (Inl e) st) = loader_map st |` (- set (file_ids st path)) \<and>
   (\<forall>p. file_ids (read_by_file g path (Inl e) st) p = (if p = path then [] else file_ids st p))"
  by (auto simp: read_by_file_def handle_file_read_error_def loader_map_def file_ids_def delete_map
      restrict_map_def fun_eq_iff split: option.split)

text \<open>Generating again from the IDs given last time gives the same stubs and takes no new UUID.\<close>

lemma generate_again:
  assumes "length vs \<le> length fresh" and "set (extract_current_ids vs) \<subseteq> X" and "X \<inter> (set free \<union> set fresh) = {}"
    and "0 \<notin> X"
  shows "generate_new_ids vs (filter (\<lambda>i. i \<notin> X) (map ID (fst (generate_new_ids vs free fresh)))) fr =
     (fst (generate_new_ids vs free fresh), fr)"
  using assms
proof (induction vs free fresh rule: generate_new_ids.induct)
  case (2 v vs free fresh)
  obtain i fr' fs where g: "gen_id v free fresh = (i, fr', fs)" by (cases "gen_id v free fresh") auto
  have ne: "fresh \<noteq> []" using 2(2) by auto
  have sub: "set fr' \<subseteq> set free" "set fs \<subseteq> set fresh" "length vs \<le> length fs"
    and i: "if ID v = 0 then i \<in> set free \<union> set fresh else i = ID v"
    by (rule gen_id_cases [OF g ne], use 2(2) in auto)+
  have sub': "set (extract_current_ids vs) \<subseteq> X" "X \<inter> (set fr' \<union> set fs) = {}"
    using 2(3,4) sub by (auto simp: extract_current_ids_def split: if_splits)
  note IH = 2(1) [OF g [symmetric] refl refl sub(3) sub' 2(5)]
  show ?case
  proof (cases "ID v = 0")
    case True
    then have "i \<notin> X" "gen_id v (i # r) fr = (i, r, fr)" for r using i 2(4) by (auto simp: gen_id_def)
    then show ?thesis using IH True by (simp add: g Let_def split_def)
  next
    case False
    then have "i = ID v" "i \<in> X" "gen_id v r fr = (i, r, fr)" for r
      using i 2(3) by (auto simp: extract_current_ids_def gen_id_def)
    then show ?thesis using IH False by (simp add: g Let_def split_def)
  qed
qed simp

lemma fold_put_add: "fold (\<lambda>v m. m(ID v \<mapsto> v)) vs m = m ++ fold (\<lambda>v m. m(ID v \<mapsto> v)) vs Map.empty"
  by (induction vs rule: rev_induct) (simp_all del: fun_upd_apply)

lemma fold_put_twice:
  "fold (\<lambda>v m. m(ID v \<mapsto> v)) vs (fold (\<lambda>v m. m(ID v \<mapsto> v)) vs m) = fold (\<lambda>v m. m(ID v \<mapsto> v)) vs m"
proof -
  let ?e = "fold (\<lambda>v m. m(ID v \<mapsto> v)) vs Map.empty"
  have "fold (\<lambda>v m. m(ID v \<mapsto> v)) vs (fold (\<lambda>v m. m(ID v \<mapsto> v)) vs m) =
      fold (\<lambda>v m. m(ID v \<mapsto> v)) vs m ++ ?e" by (rule fold_put_add)
  also have "\<dots> = m ++ (?e ++ ?e)" by (simp only: fold_put_add [of vs m] map_add_assoc)
  also have "?e ++ ?e = ?e" by (rule map_add_subsumed1) (rule map_le_refl)
  also have "m ++ ?e = fold (\<lambda>v m. m(ID v \<mapsto> v)) vs m" by (rule fold_put_add [symmetric])
  finally show ?thesis .
qed

text \<open>Loading a file again that did not change keeps the IDs of all its stubs, those that were
  generated included, takes no new UUID and leaves the store and the files as they are.\<close>

lemma file_reload_stable:
  assumes "fresh_enough vs path st" and "set (extract_current_ids vs) \<inter> set (fl_fresh st) = {}"
    and "st' = read_by_file g path (Inr vs) st"
  shows "loader_map (read_by_file g path (Inr vs) st') = loader_map st' \<and>
     file_ids (read_by_file g path (Inr vs) st') = file_ids st' \<and>
     fl_fresh (read_by_file g path (Inr vs) st') = fl_fresh st'"
proof -
  let ?ws = "loaded_stubs vs path st"
  note spec = load_replaces [OF assms(1), of g, folded assms(3)]
  have len: "length vs \<le> length (fl_fresh st)" using assms(1) by (simp add: fresh_enough_def)
  have ids: "file_ids st' path = map ID ?ws" using spec by simp
  let ?st = "check_uniq_ids vs st'"
  have st: "fl_engine (check_uniq_ids us st') = fl_engine st'" "fl_files (check_uniq_ids us st') = fl_files st'"
    "fl_fresh (check_uniq_ids us st') = fl_fresh st'" for us
    by (simp_all add: check_uniq_ids_def)
  show ?thesis
  proof (cases "map_of (fl_files st') path")
    case None
    then have "?ws = []" using ids by (simp add: file_ids_def)
    then have "vs = []" using spec by simp
    then show ?thesis
      using load_put_spec [of "[]" g path "?st\<lparr>fl_fresh := fl_fresh st'\<rparr>"] None
      by (simp add: read_by_file_def handle_first_time_load_def file_ids_def fun_eq_iff loader_map_def st Let_def)
  next
    case (Some existing)
    then have ex: "existing = map ID ?ws" using ids by (simp add: file_ids_def)
    have ws: "?ws = fst (generate_new_ids (map from_file vs) (free_ids vs path st) (fl_fresh st))"
      by (simp add: loaded_stubs_def generate_source)
    have gen: "generate_new_ids (map from_file vs) (without_ids existing (extract_current_ids vs)) (fl_fresh st') =
        (?ws, fl_fresh st')"
      unfolding without_ids_def ex unfolding ws
      by (rule generate_again) (use len assms(2) in \<open>auto simp: free_ids_def without_ids_def extract_current_ids_def\<close>)
    have none: "without_ids existing (map ID ?ws) = []" "?ws = [] \<Longrightarrow> without_ids existing [] = []"
      by (simp_all add: without_ids_def ex)
    have "\<forall>w\<in>set ?ws. ID w \<noteq> 0"
      using spec by (elim conjE) (erule list_all2_right, simp)
    moreover have "fold (\<lambda>v m. m(ID v \<mapsto> v)) ?ws (loader_map st') = loader_map st'"
      using spec by (simp add: fold_put_twice)
    moreover have "read_by_file g path (Inr vs) st' =
        (let s = ?st\<lparr>fl_engine := fl_engine st', fl_fresh := fl_fresh st'\<rparr>
         in if ?ws \<noteq> [] then load_put g path ?ws s else s\<lparr>fl_files := m_del path (fl_files st')\<rparr>)"
      by (simp add: read_by_file_def handle_existing_file_update_def Let_def Some st gen none)
    ultimately show ?thesis
      using load_put_spec [of ?ws g path "?st\<lparr>fl_engine := fl_engine st', fl_fresh := fl_fresh st'\<rparr>"]
      by (auto simp: Let_def Some st ex file_ids_def fun_eq_iff loader_map_def)
  qed
qed

lemma file_reload_stable_witness:
  "fl_fresh (read_by_file sample_lib ''b.json'' (Inr [empty_stub])
     (read_by_file sample_lib ''b.json'' (Inr [empty_stub]) sample_loader)) =
   fl_fresh (read_by_file sample_lib ''b.json'' (Inr [empty_stub]) sample_loader)"
proof -
  have "fresh_enough [empty_stub] ''b.json'' sample_loader"
    "set (extract_current_ids [empty_stub]) \<inter> set (fl_fresh sample_loader) = {}"
    by (simp_all add: fresh_enough_def sample_loader_simps extract_current_ids_def empty_stub_def)
  from conjunct2 [OF conjunct2 [OF file_reload_stable [OF this refl, of sample_lib]]] show ?thesis .
qed

section \<open>The watcher\<close>

text \<open>
  Every event of the watcher starts a goroutine of its own, which reads the file before it takes the
  lock (\<^verbatim>\<open>ReadFromPathSync\<close>, \<^verbatim>\<open>readByFile\<close>): loads of one file that overlap are applied in any order.
\<close>

type_synonym file_content = "string + stub list"

inductive watch_step ::
  "golib \<Rightarrow> string \<Rightarrow> file_content \<times> file_content list \<times> loader \<Rightarrow> file_content \<times> file_content list \<times> loader \<Rightarrow> bool"
  for g path where
  watch_write: "watch_step g path (c, pending, st) (c', pending, st)"
| watch_read: "watch_step g path (c, pending, st) (c, pending @ [c], st)"
| watch_apply: "watch_step g path (c, before @ x # after, st) (c, before @ after, read_by_file g path x st)"

inductive_cases watch_stepE: "watch_step g path (c, pending, st) s'"

text \<open>Content that was overwritten before the last load began can be what stays.\<close>

lemma stale_content_wins:
  "(watch_step g path)\<^sup>*\<^sup>* (Inr old, [], st)
     (Inr new, [], read_by_file g path (Inr old) (read_by_file g path (Inr new) st))"
proof -
  have "watch_step g path (Inr old, [], st) (Inr old, [Inr old], st)"
    using watch_read [of g path "Inr old" "[]" st] by simp
  moreover have "watch_step g path (Inr old, [Inr old], st) (Inr new, [Inr old], st)" by (rule watch_write)
  moreover have "watch_step g path (Inr new, [Inr old], st) (Inr new, [Inr old, Inr new], st)"
    using watch_read [of g path "Inr new" "[Inr old]" st] by simp
  moreover have "watch_step g path (Inr new, [Inr old, Inr new], st)
      (Inr new, [Inr old], read_by_file g path (Inr new) st)"
    using watch_apply [of g path "Inr new" "[Inr old]" "Inr new" "[]" st] by simp
  moreover have "watch_step g path (Inr new, [Inr old], read_by_file g path (Inr new) st)
      (Inr new, [], read_by_file g path (Inr old) (read_by_file g path (Inr new) st))"
    using watch_apply [of g path "Inr new" "[]" "Inr old" "[]"] by simp
  ultimately show ?thesis by (meson converse_rtranclp_into_rtranclp rtranclp.rtrancl_refl)
qed

end
