(* ===== verification/Inspect.thy ===== *)
theory Inspect
  imports Search_Claims
begin

text \<open>
  The inspection of a query, \<^verbatim>\<open>inspect.go\<close>, \<^verbatim>\<open>inspect_candidate_builder.go\<close> and the trace files beside
  them in \<^verbatim>\<open>internal/infra/stuber\<close>: a search that reserves nothing, with a report of every candidate
  and why it was excluded. The reasons of a candidate go into a buffer of fixed size; writing past it
  panics, which is \<open>None\<close> here.
\<close>

section \<open>The report\<close>

record inspect_stage =
  sg_Name :: string
  sg_Before :: int
  sg_After :: int
  sg_Removed :: int

record inspect_event =
  ev_Stage :: string
  ev_Result :: string
  ev_Reason :: string

record inspect_candidate =
  ic_ID :: uuid
  ic_Service :: string
  ic_Method :: string
  ic_Session :: string
  ic_Priority :: int
  ic_Times :: int
  ic_Used :: int
  ic_VisibleBySession :: bool
  ic_WithinTimes :: bool
  ic_HeadersMatched :: bool
  ic_InputMatched :: bool
  ic_Matched :: bool
  ic_Specificity :: int
  ic_Score :: rat
  ic_ExcludedBy :: "string list"
  ic_Events :: "inspect_event list"

record inspect_report =
  ir_Service :: string
  ir_Method :: string
  ir_Session :: string
  ir_FallbackToMethod :: bool
  ir_Error :: "search_error option"
  ir_MatchedStubID :: "uuid option"
  ir_SimilarStubID :: "uuid option"
  ir_Stages :: "inspect_stage list"
  ir_Candidates :: "inspect_candidate list"

definition add_stage :: "string \<Rightarrow> nat \<Rightarrow> nat \<Rightarrow> inspect_stage" where
  "add_stage name before after =
     \<lparr>sg_Name = name, sg_Before = int before, sg_After = int after, sg_Removed = max (int before - int after) 0\<rparr>"

definition bool_result :: "bool \<Rightarrow> string" where
  "bool_result ok = (if ok then ''passed'' else ''failed'')"

definition reason_if :: "bool \<Rightarrow> string \<Rightarrow> string" where
  "reason_if condition reason = (if condition then reason else '''')"

section \<open>One candidate\<close>

definition excluded_reason_cap :: nat where
  "excluded_reason_cap = 4"

text \<open>The buffer holds as many reasons as its length; one more is out of range.\<close>

definition append_reason_to_buffer :: "bool \<Rightarrow> string \<Rightarrow> string list \<Rightarrow> string list option" where
  "append_reason_to_buffer condition reason reasons =
     (if \<not> condition then Some reasons
      else if length reasons < excluded_reason_cap then Some (reasons @ [reason]) else None)"

fun append_reasons :: "(bool \<times> string) list \<Rightarrow> string list \<Rightarrow> string list option" where
  "append_reasons [] reasons = Some reasons"
| "append_reasons ((condition, reason) # rest) reasons =
     Option.bind (append_reason_to_buffer condition reason reasons) (append_reasons rest)"

text \<open>The routing of a candidate: its stage, whether it passed, the reason of its event, and the
  reasons for the buffer.\<close>

definition eval_route :: "query \<Rightarrow> stub \<Rightarrow> bool \<Rightarrow> string \<times> bool \<times> string \<times> (bool \<times> string) list" where
  "eval_route q v fallback =
     (case q_ID q of
        Some i \<Rightarrow> (''id'', ID v = i, reason_if (ID v \<noteq> i) ''id'', [(ID v \<noteq> i, ''id'')])
      | None \<Rightarrow>
          if fallback then
            (''fallback_method'', Method v = q_Method q, reason_if (Method v \<noteq> q_Method q) ''method'',
             [(Method v \<noteq> q_Method q, ''method'')])
          else
            (''service_method'', Service v = q_Service q \<and> Method v = q_Method q,
             (if Service v \<noteq> q_Service q then ''service'' else reason_if (Method v \<noteq> q_Method q) ''method''),
             [(Service v \<noteq> q_Service q, ''service''), (Method v \<noteq> q_Method q, ''method'')]))"

definition build_trace_events ::
  "query \<Rightarrow> string \<Rightarrow> bool \<Rightarrow> string \<Rightarrow> bool \<Rightarrow> bool \<Rightarrow> bool \<Rightarrow> bool \<Rightarrow> inspect_event list" where
  "build_trace_events q stage passed reason visible in_times headers input =
     [\<lparr>ev_Stage = stage, ev_Result = bool_result passed, ev_Reason = reason\<rparr>,
      \<lparr>ev_Stage = ''session'', ev_Result = bool_result visible, ev_Reason = reason_if (\<not> visible) ''session''\<rparr>,
      \<lparr>ev_Stage = ''times'', ev_Result = bool_result in_times, ev_Reason = reason_if (\<not> in_times) ''times''\<rparr>] @
     (if q_ID q \<noteq> None then
        [\<lparr>ev_Stage = ''headers'', ev_Result = ''skipped'', ev_Reason = ''id_lookup''\<rparr>,
         \<lparr>ev_Stage = ''input'', ev_Result = ''skipped'', ev_Reason = ''id_lookup''\<rparr>]
      else
        [\<lparr>ev_Stage = ''headers'', ev_Result = bool_result headers, ev_Reason = reason_if (\<not> headers) ''headers''\<rparr>,
         \<lparr>ev_Stage = ''input'', ev_Result = bool_result input, ev_Reason = reason_if (\<not> input) ''input''\<rparr>]) @
     [\<lparr>ev_Stage = ''selected'', ev_Result = ''failed'', ev_Reason = ''not_selected''\<rparr>]"

definition candidate_reasons :: "golib \<Rightarrow> searcher \<Rightarrow> query \<Rightarrow> bool \<Rightarrow> stub \<Rightarrow> (bool \<times> string) list" where
  "candidate_reasons g s q fallback v =
     (case eval_route q v fallback of (_, _, _, route) \<Rightarrow>
        route @
        [(\<not> is_stub_visible_for_session (Session v) (q_Session q), ''session''),
         (\<not> not_exhausted s v (q_Session q), ''times''),
         (q_ID q = None \<and> \<not> match_query_headers g q v, ''headers''),
         (q_ID q = None \<and> \<not> fast_match_body g q v, ''input'')])"

definition build_trace_candidate ::
  "golib \<Rightarrow> searcher \<Rightarrow> query \<Rightarrow> bool \<Rightarrow> stub \<Rightarrow> inspect_candidate option" where
  "build_trace_candidate g s q fallback v =
     (let used = call_count s (ID v, q_Session q);
          in_times = not_exhausted s v (q_Session q);
          visible = is_stub_visible_for_session (Session v) (q_Session q);
          headers = match_query_headers g q v;
          input = fast_match_body g q v;
          ranked = ranked_match_for g q v;
          (stage, passed, reason, _) = eval_route q v fallback
      in map_option (\<lambda>reasons.
           \<lparr>ic_ID = ID v, ic_Service = Service v, ic_Method = Method v, ic_Session = Session v,
            ic_Priority = Priority v, ic_Times = effective_times v, ic_Used = used,
            ic_VisibleBySession = visible, ic_WithinTimes = in_times, ic_HeadersMatched = headers,
            ic_InputMatched = input, ic_Matched = False, ic_Specificity = r_specificity ranked,
            ic_Score = r_totalScore ranked, ic_ExcludedBy = reasons,
            ic_Events = build_trace_events q stage passed reason visible in_times headers input\<rparr>)
           (append_reasons (candidate_reasons g s q fallback v) []))"

definition collect_trace_candidates ::
  "golib \<Rightarrow> searcher \<Rightarrow> query \<Rightarrow> bool \<Rightarrow> stub list \<Rightarrow> inspect_candidate list option" where
  "collect_trace_candidates g s q fallback vs = those (map (build_trace_candidate g s q fallback) vs)"

section \<open>Candidates and stages\<close>

definition detect_fallback_to_method :: "golib \<Rightarrow> query \<Rightarrow> searcher \<Rightarrow> bool" where
  "detect_fallback_to_method g q s =
     (q_ID q = None \<and> isl (lookup_service_available g s (q_Service q) (q_Method q) (q_Session q)) \<and>
      has_method_available g (ext s) (q_Method q) (q_Session q))"

definition collect_inspect_candidates :: "golib \<Rightarrow> query \<Rightarrow> searcher \<Rightarrow> stub list" where
  "collect_inspect_candidates g q s =
     (case q_ID q of
        Some i \<Rightarrow> (case find_by_id (ext s) i of Some v \<Rightarrow> [v] | None \<Rightarrow> [])
      | None \<Rightarrow>
          (case find_all g (ext s) (q_Service q) (q_Method q) of
             Inr vs \<Rightarrow> vs
           | Inl _ \<Rightarrow>
               if has_method_available g (ext s) (q_Method q) (q_Session q)
               then lookup_method_available g s (q_Method q) (q_Session q) else []))"

definition filter_by_service_method :: "stub list \<Rightarrow> string \<Rightarrow> string \<Rightarrow> stub list" where
  "filter_by_service_method vs svc m = filter (\<lambda>v. Service v = svc \<and> Method v = m) vs"

definition count_headers_and_input :: "golib \<Rightarrow> query \<Rightarrow> stub list \<Rightarrow> nat \<times> nat" where
  "count_headers_and_input g q vs =
     (let hs = filter (match_query_headers g q) vs in (length hs, length (filter (fast_match_v2 g q) hs)))"

definition id_lookup_stages :: "nat \<Rightarrow> inspect_stage list" where
  "id_lookup_stages n =
     [add_stage ''id'' n 1, add_stage ''session'' 1 1, add_stage ''times'' 1 1, add_stage ''headers'' 1 1,
      add_stage ''input'' 1 1]"

text \<open>The stages of a lookup, and whether they count it as a fallback to the method.\<close>

definition regular_lookup_stages :: "golib \<Rightarrow> query \<Rightarrow> searcher \<Rightarrow> stub list \<Rightarrow> inspect_stage list \<times> bool" where
  "regular_lookup_stages g q s vs =
     (let sm = filter_by_service_method vs (q_Service q) (q_Method q);
          visible = filter_by_session sm (q_Session q);
          in_times = filter_exhausted_stubs s visible (q_Session q);
          (headers, input) = count_headers_and_input g q in_times
      in ([add_stage ''service_method'' (length vs) (length sm),
           add_stage ''session'' (length sm) (length visible),
           add_stage ''times'' (length visible) (length in_times),
           add_stage ''headers'' (length in_times) headers,
           add_stage ''input'' (length in_times) input] @
          (if sm = [] then
             [add_stage ''fallback_method'' (length in_times)
                (length (lookup_method_available g s (q_Method q) (q_Session q)))]
           else []), sm = []))"

definition add_lookup_stages :: "golib \<Rightarrow> query \<Rightarrow> searcher \<Rightarrow> stub list \<Rightarrow> inspect_stage list \<times> bool" where
  "add_lookup_stages g q s vs =
     (if q_ID q \<noteq> None then (id_lookup_stages (length vs), False) else regular_lookup_stages g q s vs)"

section \<open>The inspection\<close>

fun select_event :: "inspect_event list \<Rightarrow> inspect_event list" where
  "select_event [] = []"
| "select_event (e # es) =
     (if ev_Stage e = ''selected'' then e\<lparr>ev_Result := ''passed'', ev_Reason := ''''\<rparr> # es
      else e # select_event es)"

definition finalize_candidate :: "uuid option \<Rightarrow> inspect_candidate \<Rightarrow> inspect_candidate" where
  "finalize_candidate matched c =
     (if matched = Some (ic_ID c) then c\<lparr>ic_Matched := True, ic_Events := select_event (ic_Events c)\<rparr>
      else c\<lparr>ic_Matched := False\<rparr>)"

definition found_id :: "search_error + search_result \<Rightarrow> uuid option" where
  "found_id res = (case res of Inl _ \<Rightarrow> None | Inr x \<Rightarrow> map_option ID (res_found x))"

definition inspect ::
  "golib \<Rightarrow> go_runtime \<Rightarrow> query \<Rightarrow> searcher \<Rightarrow> inspect_report option \<times> searcher" where
  "inspect g r q s =
     (let q = q\<lparr>q_Internal := True, q_MatchInternal := False\<rparr>;
          vs = collect_inspect_candidates g q s
      in case collect_trace_candidates g s q (detect_fallback_to_method g q s) vs of
           None \<Rightarrow> (None, s)
         | Some candidates \<Rightarrow>
             (let (res, s') = find_query g r q s; (stages, fallback) = add_lookup_stages g q s' vs
              in (Some \<lparr>ir_Service = q_Service q, ir_Method = q_Method q, ir_Session = q_Session q,
                    ir_FallbackToMethod = fallback,
                    ir_Error = (case res of Inl e \<Rightarrow> Some e | Inr _ \<Rightarrow> None),
                    ir_MatchedStubID = found_id res,
                    ir_SimilarStubID = (case res of Inl _ \<Rightarrow> None | Inr x \<Rightarrow> map_option ID (res_similar x)),
                    ir_Stages = stages,
                    ir_Candidates = map (finalize_candidate (found_id res)) candidates\<rparr>, s')))"

section \<open>It reserves nothing, and tells what a search would find\<close>

abbreviation inspected :: "query \<Rightarrow> query" where
  "inspected q \<equiv> q\<lparr>q_Internal := True, q_MatchInternal := False\<rparr>"

lemma inspected_match [simp]:
  "fast_match_v2 g (inspected q) = fast_match_v2 g q" "fast_match_body g (inspected q) = fast_match_body g q"
  "match_query_headers g (inspected q) = match_query_headers g q"
  by (simp_all add: fun_eq_iff fast_match_v2_def fast_match_body_def match_query_headers_def cong: option.case_cong
      list.case_cong)

lemma inspected_rank [simp]: "ranked_match_for g (inspected q) = ranked_match_for g q"
proof -
  have "fast_rank_v2 g (inspected q) v = fast_rank_v2 g q v" for v
    by (simp add: fast_rank_v2_def Let_def split: option.split list.split)
  moreover have "calc_specificity v (inspected q) = calc_specificity v q" for v
    by (simp add: calc_specificity_def split: list.split)
  ultimately show ?thesis by (simp add: fun_eq_iff ranked_match_for_def score_with_priority_def)
qed

lemma inspected_lists [simp]:
  "collect_sequential_candidates g (inspected q) = collect_sequential_candidates g q"
  "better_of g (inspected q) = better_of g q"
  "best_similar_candidate g (inspected q) = best_similar_candidate g q"
  "collect_chunk_results g r (inspected q) = collect_chunk_results g r q"
proof -
  show b: "better_of g (inspected q) = better_of g q"
    by (simp add: fun_eq_iff better_of_def)
  show c: "collect_sequential_candidates g (inspected q) = collect_sequential_candidates g q"
    by (simp add: fun_eq_iff collect_sequential_candidates_def)
  show "best_similar_candidate g (inspected q) = best_similar_candidate g q"
    by (simp add: fun_eq_iff best_similar_candidate_def b)
  show "collect_chunk_results g r (inspected q) = collect_chunk_results g r q"
    by (simp add: fun_eq_iff collect_chunk_results_def Let_def c)
qed

text \<open>Where no candidate is used up, the counted search takes the same candidate.\<close>

lemma reserve_first_inspected:
  "\<forall>m\<in>set ms. not_exhausted s (r_stub m) (q_Session q) \<Longrightarrow>
     map_option fst (fst (reserve_first_ranked_match (inspected q) ms s)) =
     map_option fst (fst (reserve_first_ranked_match q ms s))"
  by (cases ms) (simp_all add: try_reserve_some)

text \<open>A result without its number.\<close>

definition answer_of :: "search_error + search_result \<Rightarrow> search_error + stub option \<times> stub option" where
  "answer_of res = map_sum (\<lambda>e. e) (\<lambda>x. (res_found x, res_similar x)) res"

lemma result_inspected:
  assumes "\<forall>m\<in>set ms. not_exhausted s (r_stub m) (q_Session q)"
  shows "answer_of (fst (result_from_ranked_matches (inspected q) ms sim s)) =
     answer_of (fst (result_from_ranked_matches q ms sim s))"
  using reserve_first_inspected [OF assms]
  by (auto simp: result_from_ranked_matches_def answer_of_def found_result_def split: prod.splits option.splits)

lemma collect_not_exhausted:
  assumes "runtime_ok r" and "\<forall>v\<in>set xs. not_exhausted s v ses"
  shows "\<forall>m\<in>set (sort_ranked_matches (collect_sequential_candidates g q xs)). not_exhausted s (r_stub m) ses"
    and "\<forall>m\<in>set (sort_ranked_matches (collect_chunk_results g r q xs)). not_exhausted s (r_stub m) ses"
proof -
  show a: "\<forall>m\<in>set (sort_ranked_matches (collect_sequential_candidates g q xs)). not_exhausted s (r_stub m) ses"
    using assms(2) by (auto simp: sort_ranked_matches_def collect_sequential_candidates_def)
  show "\<forall>m\<in>set (sort_ranked_matches (collect_chunk_results g r q xs)). not_exhausted s (r_stub m) ses"
    using a mset_eq_setD [OF collect_chunks_mset [OF assms(1), of g q xs]]
    by (simp add: sort_ranked_matches_def)
qed

lemma process_inspected:
  assumes "runtime_ok r" and fresh: "\<forall>v\<in>set xs. not_exhausted s v (q_Session q)"
  shows "answer_of (fst (process_stubs g r (inspected q) xs s)) = answer_of (fst (process_stubs g r q xs s))"
proof (cases xs rule: remdups_adj.cases)
  case (2 v)
  then show ?thesis
    using fresh
    by (auto simp: process_stubs_def process_single_stub_def try_reserve_some answer_of_def found_result_def)
next
  case (3 a b ys)
  then have "process_stubs g r p xs s =
      (if parallel_processing_threshold \<le> length xs then process_stubs_parallel g r p xs s
       else process_stubs_sequential g p xs s)" for p
    by (simp add: process_stubs_def)
  then show ?thesis
    using collect_not_exhausted [OF assms(1) fresh]
    by (simp add: process_stubs_parallel_def process_stubs_sequential_def result_inspected)
qed (simp add: process_stubs_def answer_of_def)

lemma found_only_answer: "found_only rs = None \<longleftrightarrow> (\<forall>x. answer_of (fst rs) = Inr x \<longrightarrow> fst x = None)"
  by (cases "fst rs") (auto simp: found_only_def answer_of_def)

lemma found_only_same:
  "answer_of (fst a) = answer_of (fst b) \<Longrightarrow> found_only a = None \<longleftrightarrow> found_only b = None"
  by (simp add: found_only_answer)

lemma inspected_available:
  "visible_indexed_candidates g (inspected q) s = visible_indexed_candidates g q s"
  "best_similar_stub g (inspected q) s = best_similar_stub g q s"
  "resolve_search_candidates g (inspected q) s = resolve_search_candidates g q s"
  by (simp_all add: visible_indexed_candidates_def best_similar_stub_def resolve_search_candidates_def Let_def
      split: list.split sum.split option.split)

lemma resolved_not_exhausted:
  "resolve_search_candidates g q s = Inr xs \<Longrightarrow> v \<in> set xs \<Longrightarrow> not_exhausted s v (q_Session q)"
  by (auto simp: resolve_search_candidates_def lookup_service_available_def lookup_method_available_def Let_def
      split: sum.splits if_splits)

lemma search_full_inspected:
  "runtime_ok r \<Longrightarrow> answer_of (fst (search_full g r (inspected q) s)) = answer_of (fst (search_full g r q s))"
  using resolved_not_exhausted [of g q s]
  by (auto simp: search_full_def inspected_available process_inspected split: sum.split)

lemma search_external_inspected:
  assumes "runtime_ok r"
  shows "answer_of (fst (search_external g r (inspected q) s)) = answer_of (fst (search_external g r q s))"
proof (cases "visible_indexed_candidates g q s")
  case None
  then show ?thesis
    using search_full_inspected [OF assms]
    by (simp add: search_external_def search_indexed_def inspected_available)
next
  case (Some cs)
  have fresh: "\<forall>v\<in>set cs. not_exhausted s v (q_Session q)"
    using Some by (auto simp: visible_indexed_candidates_def is_visible_and_not_exhausted_def
        split: list.splits sum.splits option.splits)
  let ?a = "process_stubs g r (inspected q) cs s" and ?b = "process_stubs g r q cs s"
  have same: "answer_of (fst ?a) = answer_of (fst ?b)" by (rule process_inspected [OF assms fresh])
  have state: "snd ?a = s" "found_only ?b = None \<Longrightarrow> snd ?b = s"
    using process_effect [OF assms, of "inspected q" s g cs] process_effect [OF assms, of q s g cs]
    by (auto simp: search_effect_def reserve_state_def request_internal_def found_only_def found_result_def)
  show ?thesis
  proof (cases "cs \<noteq> [] \<and> found_only ?b \<noteq> None")
    case True
    then obtain x y where xy: "found_only ?a = Some x" "found_only ?b = Some y"
      using found_only_same [OF same] by auto
    then have "fst ?a = Inr x" "fst ?b = Inr y" by (auto simp: found_only_def split: sum.splits if_splits)
    with True xy same show ?thesis
      by (simp add: search_external_def search_indexed_def inspected_available Some Let_def answer_of_def)
  next
    case False
    then have "cs \<noteq> [] \<Longrightarrow> found_only ?b = None" "cs \<noteq> [] \<Longrightarrow> found_only ?a = None"
      using found_only_same [OF same] by auto
    then show ?thesis
      using search_full_inspected [OF assms, of g q s] state
      by (cases "cs = []")
        (auto simp: search_external_def search_indexed_def inspected_available Some Let_def split: option.split)
  qed
qed

lemma search_by_id_inspected:
  "answer_of (fst (search_by_id g (inspected q) i s)) = answer_of (fst (search_by_id g q i s))"
  by (auto simp: search_by_id_def answer_of_def found_result_def try_reserve_some is_visible_and_not_exhausted_def
      split: sum.split option.split)

lemma find_query_inspected:
  assumes "runtime_ok r" and "\<not> allows_internal_stubs q"
  shows "answer_of (fst (find_query g r (inspected q) s)) = answer_of (fst (find_query g r q s))"
  using assms search_external_inspected [OF assms(1), of g q s] search_by_id_inspected [of g q _ s]
  by (auto simp: find_query_def search_optimized_def allows_internal_stubs_def split: option.split)

lemma find_query_inspected_state: "runtime_ok r \<Longrightarrow> snd (find_query g r (inspected q) s) = s"
  using find_query_effect [of r "inspected q" s g]
  by (auto simp: search_effect_def reserve_state_def request_internal_def)

lemma inspect_matched:
  assumes "runtime_ok r" and "\<not> allows_internal_stubs q"
  shows "snd (inspect g r q s) = s \<and>
     (\<forall>rep. fst (inspect g r q s) = Some rep \<longrightarrow> ir_MatchedStubID rep = found_id (fst (find_query g r q s)))"
proof -
  have "found_id res = (case answer_of res of Inl _ \<Rightarrow> None | Inr x \<Rightarrow> map_option ID (fst x))" for res
    by (cases res) (simp_all add: found_id_def answer_of_def)
  then have "found_id (fst (find_query g r (inspected q) s)) = found_id (fst (find_query g r q s))"
    using find_query_inspected [OF assms] by simp
  then show ?thesis
    using find_query_inspected_state [OF assms(1), of g q s]
    by (auto simp: inspect_def Let_def split_def split: option.splits)
qed



section \<open>Why a candidate was excluded\<close>

lemma append_reasons_spec:
  "length reasons \<le> excluded_reason_cap \<Longrightarrow>
     append_reasons cs reasons =
       (if length reasons + length (filter fst cs) \<le> excluded_reason_cap
        then Some (reasons @ map snd (filter fst cs)) else None)"
  by (induction cs reasons rule: append_reasons.induct) (auto simp: append_reason_to_buffer_def)

lemma build_trace_candidate_Some:
  "build_trace_candidate g s q fb v = Some c \<Longrightarrow>
     ic_ID c = ID v \<and> ic_Service c = Service v \<and> ic_Method c = Method v \<and>
     ic_VisibleBySession c = is_stub_visible_for_session (Session v) (q_Session q) \<and>
     ic_WithinTimes c = not_exhausted s v (q_Session q) \<and>
     ic_HeadersMatched c = match_query_headers g q v \<and> ic_InputMatched c = fast_match_body g q v \<and>
     ic_ExcludedBy c = map snd (filter fst (candidate_reasons g s q fb v))"
  by (auto simp: build_trace_candidate_def append_reasons_spec Let_def split: prod.splits if_splits)

lemma those_Some: "those (map f xs) = Some ys \<longleftrightarrow> list_all2 (\<lambda>x y. f x = Some y) xs ys"
  by (induction xs arbitrary: ys) (auto simp: list_all2_Cons1 split: option.splits)

lemma those_None: "those xs = None \<longleftrightarrow> None \<in> set xs"
  by (induction xs) (auto split: option.splits)

lemma finalize_fields [simp]:
  "ic_ID (finalize_candidate m c) = ic_ID c" "ic_Service (finalize_candidate m c) = ic_Service c"
  "ic_Method (finalize_candidate m c) = ic_Method c"
  "ic_ExcludedBy (finalize_candidate m c) = ic_ExcludedBy c"
  "ic_VisibleBySession (finalize_candidate m c) = ic_VisibleBySession c"
  "ic_WithinTimes (finalize_candidate m c) = ic_WithinTimes c"
  "ic_HeadersMatched (finalize_candidate m c) = ic_HeadersMatched c"
  "ic_InputMatched (finalize_candidate m c) = ic_InputMatched c"
  "ic_Matched (finalize_candidate m c) \<longleftrightarrow> m = Some (ic_ID c)"
  by (simp_all add: finalize_candidate_def)

lemma inspect_Some:
  assumes "fst (inspect g r q s) = Some rep"
  shows "list_all2 (\<lambda>v c. \<exists>d. build_trace_candidate g s (inspected q)
           (detect_fallback_to_method g (inspected q) s) v = Some d \<and>
         c = finalize_candidate (ir_MatchedStubID rep) d)
       (collect_inspect_candidates g (inspected q) s) (ir_Candidates rep)"
proof -
  obtain ds where ds: "collect_trace_candidates g s (inspected q)
      (detect_fallback_to_method g (inspected q) s) (collect_inspect_candidates g (inspected q) s) = Some ds"
    using assms by (auto simp: inspect_def Let_def split: option.splits)
  then have c: "ir_Candidates rep = map (finalize_candidate (ir_MatchedStubID rep)) ds"
    using assms by (auto simp: inspect_def Let_def split_def)
  have "list_all2 (\<lambda>v d. build_trace_candidate g s (inspected q)
      (detect_fallback_to_method g (inspected q) s) v = Some d) (collect_inspect_candidates g (inspected q) s) ds"
    using ds by (simp add: collect_trace_candidates_def those_Some)
  then show ?thesis
    unfolding c list_all2_map2 by (rule list_all2_mono) blast
qed

lemma candidate_excluded:
  assumes "build_trace_candidate g s q fb v = Some c"
  shows "ic_ExcludedBy c = [] \<longleftrightarrow>
     (case q_ID q of
        Some i \<Rightarrow> ID v = i \<and> is_visible_and_not_exhausted s v (q_Session q)
      | None \<Rightarrow> (fb \<or> Service v = q_Service q) \<and> Method v = q_Method q \<and>
          is_visible_and_not_exhausted s v (q_Session q) \<and> fast_match_v2 g q v)"
proof -
  have e: "ic_ExcludedBy c = [] \<longleftrightarrow> list_all (\<lambda>p. \<not> fst p) (candidate_reasons g s q fb v)"
    using build_trace_candidate_Some [OF assms] by (simp add: filter_empty_conv list_all_iff)
  show ?thesis
    unfolding e candidate_reasons_def eval_route_def is_visible_and_not_exhausted_def fast_match_v2_def
    by (cases "q_ID q"; cases fb) (simp_all add: conj_ac)
qed

text \<open>In the report of a query without an ID a candidate has no reason for exclusion exactly when a
  search could have answered with it: it has the service (unless the search fell back to the method)
  and the method of the query, is visible, not used up, and matches. The candidate that is marked is
  the one with the ID of the report.\<close>

lemma inspect_explains:
  assumes "fst (inspect g r q s) = Some rep" and "q_ID q = None"
  shows "list_all2 (\<lambda>v c. ic_ID c = ID v \<and>
       (ic_Matched c \<longleftrightarrow> ir_MatchedStubID rep = Some (ID v)) \<and>
       (ic_ExcludedBy c = [] \<longleftrightarrow>
          (detect_fallback_to_method g (inspected q) s \<or> Service v = q_Service q) \<and> Method v = q_Method q \<and>
          is_visible_and_not_exhausted s v (q_Session q) \<and> fast_match_v2 g q v))
     (collect_inspect_candidates g (inspected q) s) (ir_Candidates rep)"
  using inspect_Some [OF assms(1)]
proof (rule list_all2_mono, elim exE conjE)
  fix v c d
  assume d: "build_trace_candidate g s (inspected q) (detect_fallback_to_method g (inspected q) s) v = Some d"
    and c: "c = finalize_candidate (ir_MatchedStubID rep) d"
  show "ic_ID c = ID v \<and> (ic_Matched c \<longleftrightarrow> ir_MatchedStubID rep = Some (ID v)) \<and>
     (ic_ExcludedBy c = [] \<longleftrightarrow>
        (detect_fallback_to_method g (inspected q) s \<or> Service v = q_Service q) \<and> Method v = q_Method q \<and>
        is_visible_and_not_exhausted s v (q_Session q) \<and> fast_match_v2 g q v)"
    using build_trace_candidate_Some [OF d] candidate_excluded [OF d] assms(2) by (simp add: c)
qed

section \<open>When it fails\<close>

lemma bucket_union:
  assumes "m_ok b"
  shows "set (concat (filter (\<lambda>xs. xs \<noteq> []) (map snd b))) = (\<Union>ses. set (m_list b ses))"
proof (rule set_eqI)
  fix v
  have look: "v \<in> set (m_list b ses) \<longleftrightarrow> (\<exists>xs. map_of b ses = Some xs \<and> v \<in> set xs)" for ses
    by (cases "map_of b ses") (simp_all add: m_list_def)
  have "v \<in> set (concat (filter (\<lambda>xs. xs \<noteq> []) (map snd b))) \<longleftrightarrow> (\<exists>ses xs. (ses, xs) \<in> set b \<and> v \<in> set xs)"
    by force
  also have "\<dots> \<longleftrightarrow> (\<exists>ses xs. map_of b ses = Some xs \<and> v \<in> set xs)"
    by (simp only: m_ok_set_iff [OF assms])
  also have "\<dots> \<longleftrightarrow> v \<in> (\<Union>ses. set (m_list b ses))"
    using look by auto
  finally show "v \<in> set (concat (filter (\<lambda>xs. xs \<noteq> []) (map snd b))) \<longleftrightarrow> v \<in> (\<Union>ses. set (m_list b ses))" .
qed

lemma find_all_ok:
  assumes ok: "storage_ok g s"
    and sep: "hash_separates g (set (service_forms svc) \<union> {m} \<union> names_of (stored s))"
  shows "find_all g s svc m = Inr xs \<Longrightarrow>
      set xs = {v \<in> stored s. Service v \<in> set (service_forms svc) \<and> Method v = m}"
    and "isl (find_all g s svc m) \<longleftrightarrow> isl (find_all_available g s svc m ses)"
proof -
  show "isl (find_all g s svc m) \<longleftrightarrow> isl (find_all_available g s svc m ses)"
    by (simp add: find_all_def find_all_available_def split: sum.split)
  have I: "items.holds g (itemSorted s) (stored s)" and S: "session_ok (itemSorted s)"
    using ok by (auto simp: storage_ok_def index_ok_def items.holds_def)
  have part: "set (concat (filter (\<lambda>xs. xs \<noteq> []) (map snd (m_get (itemSorted s) (form_pos g m f))))) =
      {v \<in> stored s. Service v = f \<and> Method v = m}" if "f \<in> set (service_forms svc)" for f
  proof -
    have mo: "m_ok (m_get (itemSorted s) (form_pos g m f))" using m_get_ok [OF S] by blast
    have "set (concat (filter (\<lambda>xs. xs \<noteq> []) (map snd (m_get (itemSorted s) (form_pos g m f))))) =
        (\<Union>ses. set (session_look (itemSorted s) (form_pos g m f, ses)))"
      by (simp only: session_look_def bucket_union [OF mo] fst_conv snd_conv)
    then show ?thesis
      using bucket_set [OF ok sep, of f m] that by auto
  qed
  assume "find_all g s svc m = Inr xs"
  then obtain idx where pn: "pos_by_pn g s svc m = Inr idx" "xs = yield_sorted_values s idx"
    by (auto simp: find_all_def split: sum.splits)
  have "idx = map (form_pos g m) (resolved_forms (stored s) svc m)"
    by (rule pos_by_pn_Inr [OF ok sep pn(1)])
  then have "set xs = (\<Union>f\<in>set (resolved_forms (stored s) svc m).
      set (concat (filter (\<lambda>xs. xs \<noteq> []) (map snd (m_get (itemSorted s) (form_pos g m f))))))"
    using mset_eq_setD [OF mset_merge_parts, of "sorted_parts s idx"]
    by (auto simp: pn(2) yield_sorted_values_def sorted_parts_def)
  also have "\<dots> = {v \<in> stored s. Service v \<in> set (service_forms svc) \<and> Method v = m}"
    using part by (auto simp: resolved_forms_def has_stub_def)
  finally show "set xs = {v \<in> stored s. Service v \<in> set (service_forms svc) \<and> Method v = m}" .
qed

lemma inspect_None:
  "fst (inspect g r q s) = None \<longleftrightarrow>
     (\<exists>v\<in>set (collect_inspect_candidates g (inspected q) s).
        excluded_reason_cap < length (filter fst
          (candidate_reasons g s (inspected q) (detect_fallback_to_method g (inspected q) s) v)))"
proof -
  have "build_trace_candidate g s p fb v = None \<longleftrightarrow>
      excluded_reason_cap < length (filter fst (candidate_reasons g s p fb v))" for p fb v
    by (simp add: build_trace_candidate_def append_reasons_spec Let_def split_def not_le)
  moreover have "fst (inspect g r q s) = None \<longleftrightarrow> collect_trace_candidates g s (inspected q)
      (detect_fallback_to_method g (inspected q) s) (collect_inspect_candidates g (inspected q) s) = None"
    by (simp add: inspect_def Let_def split_def split: option.split)
  ultimately show ?thesis
    by (simp add: collect_trace_candidates_def those_None image_iff eq_commute [of None])
qed

lemma reasons_of_method_match:
  assumes "q_ID q = None" and "Method v = q_Method q"
  shows "excluded_reason_cap < length (filter fst (candidate_reasons g s q False v)) \<longleftrightarrow>
     Service v \<noteq> q_Service q \<and> \<not> is_stub_visible_for_session (Session v) (q_Session q) \<and>
     \<not> not_exhausted s v (q_Session q) \<and> \<not> match_query_headers g q v \<and> \<not> fast_match_body g q v"
  using assms by (simp add: candidate_reasons_def eval_route_def excluded_reason_cap_def)

lemma inspect_fails_iff:
  assumes ok: "storage_ok g (ext s)" and sep: "hash_separates g (search_names s q)"
  shows "fst (inspect g r q s) = None \<longleftrightarrow> q_ID q = None \<and>
     (\<exists>v\<in>stored (ext s). Service v \<in> set (service_forms (q_Service q)) - {q_Service q} \<and>
        Method v = q_Method q \<and> \<not> is_stub_visible_for_session (Session v) (q_Session q) \<and>
        \<not> not_exhausted s v (q_Session q) \<and> \<not> match_query_headers g q v \<and> \<not> fast_match_body g q v)"
proof (cases "q_ID q")
  case (Some i)
  then have "length (filter fst (candidate_reasons g s (inspected q) fb v)) \<le> excluded_reason_cap" for fb v
    by (simp add: candidate_reasons_def eval_route_def excluded_reason_cap_def)
  with Some show ?thesis by (simp add: inspect_None not_less)
next
  case None
  note fa = find_all_ok [OF ok sep [unfolded search_names_def]]
  have detect: "detect_fallback_to_method g (inspected q) s \<longleftrightarrow>
      isl (find_all g (ext s) (q_Service q) (q_Method q)) \<and>
      has_method_available g (ext s) (q_Method q) (q_Session q)"
    using None fa(2) [of "q_Session q"]
    by (simp add: detect_fallback_to_method_def lookup_service_available_def split: sum.split)
  show ?thesis
  proof (cases "find_all g (ext s) (q_Service q) (q_Method q)")
    case (Inr vs)
    then have "collect_inspect_candidates g (inspected q) s = vs" "\<not> detect_fallback_to_method g (inspected q) s"
      using None detect by (simp_all add: collect_inspect_candidates_def)
    with fa(1) [OF Inr] show ?thesis
      using None reasons_of_method_match [of "inspected q" _ g s] by (auto simp: inspect_None)
  next
    case (Inl e)
    then have none: "\<not> has_stub (stored (ext s)) f (q_Method q)" if "f \<in> set (service_forms (q_Service q))" for f
      using fa(2) [of "q_Session q"] find_all_available_ok(1) [OF ok sep [unfolded search_names_def]] that by simp
    have "length (filter fst (candidate_reasons g s (inspected q)
        (detect_fallback_to_method g (inspected q) s) v)) \<le> excluded_reason_cap"
      if v: "v \<in> set (collect_inspect_candidates g (inspected q) s)" for v
    proof -
      have has: "has_method_available g (ext s) (q_Method q) (q_Session q)"
        and "v \<in> set (lookup_method_available g s (q_Method q) (q_Session q))"
        using v None Inl by (auto simp: collect_inspect_candidates_def split: if_splits)
      then show ?thesis
        using detect Inl None
        by (auto simp: candidate_reasons_def eval_route_def excluded_reason_cap_def lookup_method_available_def)
    qed
    then have "fst (inspect g r q s) \<noteq> None" by (auto simp: inspect_None not_less)
    then show ?thesis using none by (auto simp: has_stub_def)
  qed
qed

text \<open>When an inspection panics: never for a query by ID, and otherwise exactly when some stub of the
  method, registered under the short name of the service, is of another session, used up in this
  one, and matches neither headers nor input, five reasons for a buffer of four.\<close>

lemma inspect_panics_iff:
  assumes ok: "storage_ok g (ext s)" and sep: "hash_separates g (search_names s q)"
  shows "fst (inspect g r q s) = None \<longleftrightarrow> q_ID q = None \<and>
     (\<exists>v\<in>stored (ext s). Service v \<in> set (service_forms (q_Service q)) - {q_Service q} \<and>
        Method v = q_Method q \<and> \<not> is_stub_visible_for_session (Session v) (q_Session q) \<and>
        \<not> not_exhausted s v (q_Session q) \<and> \<not> match_query_headers g q v \<and> \<not> fast_match_body g q v)"
  by (rule inspect_fails_iff [OF assms])

text \<open>Such a stub comes about: used up in session A while it was global, then moved to session B.\<close>

definition moved_stub :: stub where
  "moved_stub = (sample_stub 1 ''Greeter'' [(''name'', VString ''bob'')])
     \<lparr>Times := 1, Headers := empty_header\<lparr>Equals := Some [(''k'', VString ''v'')]\<rparr>\<rparr>"

definition moved_query :: query where
  "moved_query = (sample_query ''pkg.Greeter'' [(''name'', VString ''bob'')])
     \<lparr>q_Session := ''A'', q_Headers := [(''k'', VString ''v'')]\<rparr>"

definition moved_state :: searcher where
  "moved_state = snd (searcher_upsert sample_lib [moved_stub\<lparr>Session := ''B''\<rparr>]
     (snd (find_query sample_lib sample_runtime moved_query (sample_searcher [moved_stub]))))"

lemma inspect_panics:
  "fst (inspect sample_lib sample_runtime
     (moved_query\<lparr>q_Headers := [], q_Input := [[(''name'', VString ''al'')]]\<rparr>) moved_state) = None"
  by code_simp

lemma inspect_panics_iff_witness:
  "fst (inspect sample_lib sample_runtime bob_query greeter) \<noteq> None"
  using inspect_panics_iff [OF greeter_storage greeter_separates, of sample_runtime]
  by (auto simp: greeter_stored service_forms_def sample_defs)

lemma inspect_explains_witness:
  "list_all2 (\<lambda>v c. ic_ID c = ID v) (collect_inspect_candidates sample_lib (inspected bob_query) greeter)
     (ir_Candidates (the (fst (inspect sample_lib sample_runtime bob_query greeter))))"
proof -
  have "\<not> Option.is_none (fst (inspect sample_lib sample_runtime bob_query greeter))" by code_simp
  then obtain rep where rep: "fst (inspect sample_lib sample_runtime bob_query greeter) = Some rep"
    by (auto simp: Option.is_none_def)
  have "q_ID bob_query = None" by (simp add: sample_defs)
  from list_all2_mono [OF inspect_explains [OF rep this]] show ?thesis
    by (simp add: rep)
qed

text \<open>A stub of the short service name answers the query, and is reported as excluded by its service and
  under a fallback that did not happen.\<close>

lemma inspect_blames_service:
  "let rep = the (fst (inspect sample_lib sample_runtime (bob_query\<lparr>q_Service := ''pkg.Greeter''\<rparr>) greeter))
   in ir_MatchedStubID rep = Some 1 \<and> ir_FallbackToMethod rep \<and>
      map (\<lambda>c. (ic_ID c, ic_Matched c, ic_ExcludedBy c)) (ir_Candidates rep) =
        [(1, True, [''service'']), (2, False, [''service'', ''input''])]"
  by code_simp

text \<open>The flags of the query are replaced: an inspection of a health check does not see the internal
  stub that answers it.\<close>

lemma inspect_misses_internal:
  "let v = sample_stub 1 ''Greeter'' [(''name'', VString ''bob'')];
       s = (sample_searcher [])\<lparr>store := \<lparr>external = new_storage, internal = snd (upsert sample_lib [v] new_storage)\<rparr>\<rparr>;
       q = with_internal_stubs bob_query
   in found_id (fst (find_query sample_lib sample_runtime q s)) = Some 1 \<and>
      ir_MatchedStubID (the (fst (inspect sample_lib sample_runtime q s))) = None"
  by code_simp

end
