(* ===== verification/Proxy.thy ===== *)
theory Proxy
  imports Mocker_Bidi Wire_Text Inspect
begin

text \<open>
  Calls that an upstream answers: \<^verbatim>\<open>grpc_proxy_unary.go\<close>, \<^verbatim>\<open>grpc_proxy_stream.go\<close>,
  \<^verbatim>\<open>grpc_proxy_common.go\<close>, \<^verbatim>\<open>grpc_proxy_record.go\<close>, \<^verbatim>\<open>streaming_capture.go\<close> and the stubs a captured call
  becomes, \<^verbatim>\<open>proxycapture/builder.go\<close>. The upstream is a parameter: what it answers to a request
  and how long it takes, its time limits included. Bidirectional calls are in \<open>Proxy_Bidi\<close>.
\<close>

section \<open>The upstream\<close>

record 'm unary_reply =
  re_Result :: "call_error + 'm"
  re_Header :: metadata
  re_Trailer :: metadata
  re_Elapsed :: int

text \<open>A stream of the upstream: its header, the messages with the time each takes, how it ends
  (\<open>None\<close> is the end of the stream) and when, and its trailer.\<close>

record 'm stream_reply =
  sr_Header :: "call_error + metadata"
  sr_Messages :: "(int \<times> 'm) list"
  sr_End :: "call_error option"
  sr_EndAfter :: int
  sr_Trailer :: metadata

text \<open>\<open>up_any\<close> and \<open>up_map\<close> are the JSON forms of a message, \<open>up_delay\<close> the text of a duration.\<close>

record 'm upstream =
  up_invoke :: "metadata \<Rightarrow> gmap \<Rightarrow> 'm unary_reply"
  up_open :: "metadata \<Rightarrow> call_error option"
  up_send :: "nat \<Rightarrow> call_error option"
  up_close :: "call_error option"
  up_stream :: "metadata \<Rightarrow> gmap list \<Rightarrow> 'm stream_reply"
  up_any :: "'m \<Rightarrow> gvalue"
  up_map :: "'m \<Rightarrow> gomap"
  up_delay :: "int \<Rightarrow> string"
  up_RecordDelay :: bool

definition forward_incoming_metadata :: "call_ctx \<Rightarrow> metadata" where
  "forward_incoming_metadata cx = (case cx_MD cx of None \<Rightarrow> [] | Some md \<Rightarrow> md)"

section \<open>Captured requests and responses\<close>

definition captured_header_denylist :: "string list" where
  "captured_header_denylist =
     [''authorization'', ''proxy-authorization'', ''cookie'', ''set-cookie'', ''x-api-key'', ''api-key'',
      ''x-auth-token'', ''traceparent'', ''tracestate'', ''b3'', ''x-b3-traceid'', ''x-b3-spanid'',
      ''x-b3-parentspanid'', ''x-b3-sampled'', ''x-request-id'', ''x-correlation-id'', ''grpc-timeout'',
      session_header_key]"

definition request_headers_from_metadata :: "metadata \<Rightarrow> gmap" where
  "request_headers_from_metadata md =
     filter (\<lambda>(k, _). str_lower k \<notin> set captured_header_denylist) (headers_of_metadata md)"

definition capture_headers :: "call_ctx \<Rightarrow> gmap" where
  "capture_headers cx = (case cx_MD cx of None \<Rightarrow> [] | Some md \<Rightarrow> request_headers_from_metadata md)"

definition has_capture_request_headers :: "call_ctx \<Rightarrow> bool" where
  "has_capture_request_headers cx \<longleftrightarrow> capture_headers cx \<noteq> []"

definition reserved_header_keys :: "string list" where
  "reserved_header_keys = [''content-type'', ''content-length'', ''grpc-encoding'', ''grpc-accept-encoding'']"

definition reserved_trailer_keys :: "string list" where
  "reserved_trailer_keys = [''grpc-status'', ''grpc-message'', ''grpc-status-details-bin'']"

text \<open>The headers and trailers of a captured response.\<close>

type_synonym response_metadata = "(string \<times> string) list \<times> (string \<times> string) list"

definition flatten_metadata :: "metadata \<Rightarrow> string list \<Rightarrow> (string \<times> string) list" where
  "flatten_metadata source skip = append_metadata skip source []"

definition capture_metadata :: "metadata \<Rightarrow> metadata \<Rightarrow> response_metadata" where
  "capture_metadata head tail =
     (flatten_metadata head reserved_header_keys, flatten_metadata tail reserved_trailer_keys)"

definition apply_status_error :: "call_error option \<Rightarrow> bool \<Rightarrow> stub_output \<Rightarrow> stub_output" where
  "apply_status_error err clear_data out =
     (case err of
        None \<Rightarrow> out
      | Some e \<Rightarrow>
          (let out = out\<lparr>Code := Some (err_Code e), Error := err_Text e, Details := err_Details e\<rparr>
           in if clear_data then out\<lparr>Data := VNil\<rparr> else out))"

definition optional_map :: "gmap \<Rightarrow> gomap" where
  "optional_map m = (if m = [] then None else Some m)"

definition build_proxy_stub ::
  "mocker \<Rightarrow> string \<Rightarrow> gmap \<Rightarrow> input_data \<Rightarrow> input_data list option \<Rightarrow> stub_output \<Rightarrow> call_error option \<Rightarrow> bool \<Rightarrow> stub" where
  "build_proxy_stub M session request_headers input inputs out err clear_data =
     empty_stub\<lparr>Service := mk_Service M, Method := mk_Method M, Session := session, Source := ''proxy'',
       Headers := empty_header\<lparr>Equals := optional_map request_headers\<rparr>, Input := input, Inputs := inputs,
       Output := apply_status_error err clear_data out\<rparr>"

definition to_inputs :: "gmap list \<Rightarrow> input_data list" where
  "to_inputs requests = map (\<lambda>m. empty_input\<lparr>Equals := Some m\<rparr>) requests"

definition captured_output :: "gvalue \<Rightarrow> gvalue list option \<Rightarrow> response_metadata \<Rightarrow> stub_output" where
  "captured_output data stream meta =
     empty_output\<lparr>Data := data, Stream := stream, OutHeaders := fst meta, Trailers := snd meta\<rparr>"

definition build_unary_stub ::
  "mocker \<Rightarrow> string \<Rightarrow> gmap \<Rightarrow> gmap \<Rightarrow> gvalue \<Rightarrow> response_metadata \<Rightarrow> call_error option \<Rightarrow> stub" where
  "build_unary_stub M session request headers response meta err =
     build_proxy_stub M session headers (empty_input\<lparr>Equals := Some request\<rparr>) None
       (captured_output response None meta) err True"

definition build_server_stream_stub ::
  "mocker \<Rightarrow> string \<Rightarrow> gmap \<Rightarrow> gmap \<Rightarrow> gvalue list \<Rightarrow> response_metadata \<Rightarrow> call_error option \<Rightarrow> stub" where
  "build_server_stream_stub M session request headers responses meta err =
     build_proxy_stub M session headers (empty_input\<lparr>Equals := Some request\<rparr>) None
       (captured_output VNil (Some responses) meta) err False"

definition build_client_stream_stub ::
  "mocker \<Rightarrow> string \<Rightarrow> gmap list \<Rightarrow> gmap \<Rightarrow> gvalue \<Rightarrow> response_metadata \<Rightarrow> call_error option \<Rightarrow> stub" where
  "build_client_stream_stub M session requests headers response meta err =
     build_proxy_stub M session headers empty_input (Some (to_inputs requests))
       (captured_output response None meta) err True"

definition build_bidi_stub ::
  "mocker \<Rightarrow> string \<Rightarrow> gmap list \<Rightarrow> gmap \<Rightarrow> gvalue list \<Rightarrow> response_metadata \<Rightarrow> call_error option \<Rightarrow> stub" where
  "build_bidi_stub M session requests headers responses meta err =
     build_proxy_stub M session headers empty_input (Some (to_inputs requests))
       (captured_output VNil (Some responses) meta) err False"

text \<open>A cancelled call is captured only when it was not the caller who cancelled it.\<close>

definition capturable_result :: "call_ctx \<Rightarrow> 'm mock_state \<Rightarrow> nat \<Rightarrow> nat \<Rightarrow> call_error option \<Rightarrow> bool" where
  "capturable_result cx s requests responses err =
     (if requests = 0 \<and> responses = 0 then False
      else case err of
             Some e \<Rightarrow> \<not> (err_Code e = code_Canceled \<and> context_ended cx s \<noteq> None)
           | None \<Rightarrow> True)"

definition record_captured_stub ::
  "'m mock_lib \<Rightarrow> 'm upstream \<Rightarrow> stub \<Rightarrow> bool \<Rightarrow> int \<Rightarrow> 'm mock_state \<Rightarrow> 'm mock_state" where
  "record_captured_stub L U v record_delay elapsed s =
     (let v = (if record_delay \<and> 0 < elapsed then v\<lparr>Output := (Output v)\<lparr>Delay := up_delay U elapsed\<rparr>\<rparr> else v)
      in s\<lparr>ms_engine := snd (put_many (ml_lib L) (ms_fresh s) [v] (ms_engine s)), ms_fresh := tl (ms_fresh s)\<rparr>)"

text \<open>The record of a proxied call; health checks are not recorded.\<close>

definition health_service_prefix :: string where
  "health_service_prefix = ''/grpc.health.v1.Health/''"

definition error_code_of :: "call_error option \<Rightarrow> 32 word" where
  "error_code_of err = (case err of None \<Rightarrow> code_OK | Some e \<Rightarrow> err_Code e)"

definition error_text_of :: "call_error option \<Rightarrow> string" where
  "error_text_of err = (case err of None \<Rightarrow> '''' | Some e \<Rightarrow> err_Text e)"

definition record_proxy_call ::
  "'m mock_lib \<Rightarrow> mocker \<Rightarrow> call_ctx \<Rightarrow> int \<Rightarrow> gomap list \<Rightarrow> gomap list \<Rightarrow> (string \<times> string) list option
     \<Rightarrow> call_error option \<Rightarrow> 'm mock_state \<Rightarrow> 'm mock_state" where
  "record_proxy_call L M cx ts requests responses hdrs err s =
     (if \<not> mk_Recorder M \<or> has_prefix (mk_FullMethod M) health_service_prefix then s
      else (let (session, s) = session_from_context cx s
            in record_in_history L M session 0 (error_code_of err) ts requests responses hdrs (error_text_of err) s))"

section \<open>Metadata on the way back\<close>

text \<open>How the caller came: over gRPC, over HTTP (Connect), or over gRPC-Web.\<close>

datatype call_path = Plain_Call | Http_Call | Web_Call

definition excluded_response_metadata :: "string list" where
  "excluded_response_metadata =
     [''content-type'', ''content-encoding'', ''content-length'', ''grpc-status'', ''grpc-message'',
      ''grpc-status-details-bin'', '':authority'', ''user-agent'', ''accept-encoding'', ''grpc-accept-encoding'']"

definition ssm_filter_md :: "metadata \<Rightarrow> metadata" where
  "ssm_filter_md md = filter (\<lambda>(k, _). str_lower k \<notin> set excluded_response_metadata) md"

definition set_header_logged :: "'m mock_lib \<Rightarrow> metadata \<Rightarrow> 'm mock_state \<Rightarrow> 'm mock_state" where
  "set_header_logged L md s =
     (if md = [] \<or> ml_header L md \<noteq> None then s else s\<lparr>ms_headers := ms_headers s @ [md]\<rparr>)"

definition set_trailer :: "metadata \<Rightarrow> 'm mock_state \<Rightarrow> 'm mock_state" where
  "set_trailer md s = (if md = [] then s else s\<lparr>ms_trailers := ms_trailers s @ [md]\<rparr>)"

definition set_stream_metadata ::
  "'m mock_lib \<Rightarrow> call_path \<Rightarrow> metadata \<Rightarrow> metadata \<Rightarrow> 'm mock_state \<Rightarrow> 'm mock_state" where
  "set_stream_metadata L path header trailer s =
     (case path of
        Plain_Call \<Rightarrow> set_trailer trailer (set_header_logged L header s)
      | Http_Call \<Rightarrow> set_trailer (ssm_filter_md trailer) (set_header_logged L (ssm_filter_md header) s)
      | Web_Call \<Rightarrow> s)"

text \<open>The lines added to the trailers frame of a gRPC-Web answer.\<close>

definition forward_trailer_extras :: "metadata list \<Rightarrow> string list" where
  "forward_trailer_extras mds = concat (map (\<lambda>md. map (\<lambda>(k, vs). k @ '': '' @ str_join '','' vs) (ssm_filter_md md)) mds)"

definition forward_upstream_trailer :: "call_path \<Rightarrow> metadata \<Rightarrow> 'm mock_state \<Rightarrow> 'm mock_state" where
  "forward_upstream_trailer path trailer s =
     (if path = Web_Call then s else set_trailer (ssm_filter_md trailer) s)"

section \<open>Unary calls\<close>

definition record_unary_stub ::
  "'m mock_lib \<Rightarrow> 'm upstream \<Rightarrow> mocker \<Rightarrow> call_ctx \<Rightarrow> gmap \<Rightarrow> 'm unary_reply \<Rightarrow> 'm mock_state \<Rightarrow> 'm mock_state" where
  "record_unary_stub L U M cx req reply s =
     (let err = (case re_Result reply of Inl e \<Rightarrow> Some e | Inr _ \<Rightarrow> None) in
      if \<not> capturable_result cx s 1 1 err then s
      else (let (session, s) = session_from_context cx s;
                response = (case re_Result reply of Inl _ \<Rightarrow> VNil | Inr msg \<Rightarrow> up_any U msg);
                meta = capture_metadata (re_Header reply) (re_Trailer reply)
            in record_captured_stub L U (build_unary_stub M session req (capture_headers cx) response meta err)
                 (up_RecordDelay U) (re_Elapsed reply) s))"

definition record_unary_proxy_history ::
  "'m mock_lib \<Rightarrow> 'm upstream \<Rightarrow> mocker \<Rightarrow> call_ctx \<Rightarrow> int \<Rightarrow> gmap \<Rightarrow> 'm unary_reply \<Rightarrow> 'm mock_state \<Rightarrow> 'm mock_state" where
  "record_unary_proxy_history L U M cx ts req reply s =
     (let hdrs = response_headers (re_Header reply) (re_Trailer reply) in
      case re_Result reply of
        Inl e \<Rightarrow> record_proxy_call L M cx ts [Some req] [] hdrs (Some e) s
      | Inr msg \<Rightarrow>
          record_proxy_call L M cx ts [Some req] (if up_map U msg = None then [] else [up_map U msg]) hdrs None s)"

text \<open>The answer of the upstream, the extra trailer lines of a gRPC-Web call, and the state.\<close>

definition proxy_unary ::
  "'m mock_lib \<Rightarrow> 'm upstream \<Rightarrow> mocker \<Rightarrow> call_ctx \<Rightarrow> call_path \<Rightarrow> gmap \<Rightarrow> bool \<Rightarrow> 'm mock_state
     \<Rightarrow> ((call_error + 'm) \<times> string list) \<times> 'm mock_state" where
  "proxy_unary L U M cx path req capture s =
     (let ts = ms_now s;
          reply = up_invoke U (forward_incoming_metadata cx) req;
          s = s\<lparr>ms_now := ts + re_Elapsed reply\<rparr>;
          s = set_stream_metadata L path (re_Header reply) (re_Trailer reply) s;
          s = (if capture then record_unary_stub L U M cx req reply s else s);
          s = record_unary_proxy_history L U M cx ts req reply s;
          extra = (if path = Web_Call then forward_trailer_extras [re_Header reply, re_Trailer reply] else [])
      in ((re_Result reply, extra), s))"

text \<open>With headers worth capturing, a call goes to the upstream when no stub, or only one without header
  conditions, would answer it. The inspection may panic, which is \<open>None\<close>.\<close>

definition capture_should_proxy_unary_by_headers ::
  "'m mock_lib \<Rightarrow> mocker \<Rightarrow> call_ctx \<Rightarrow> gmap \<Rightarrow> 'm mock_state \<Rightarrow> bool option \<times> 'm mock_state" where
  "capture_should_proxy_unary_by_headers L M cx req s =
     (if \<not> has_capture_request_headers cx then (Some False, s)
      else (let (q, s) = new_query M cx req s;
                (report, e) = inspect (ml_lib L) (ml_runtime L) q (ms_engine s);
                s = s\<lparr>ms_engine := e\<rparr>
            in case report of
                 None \<Rightarrow> (None, s)
               | Some rep \<Rightarrow>
                   (case ir_MatchedStubID rep of
                      None \<Rightarrow> (Some True, s)
                    | Some i \<Rightarrow>
                        (case find_by_id (ext e) i of
                           None \<Rightarrow> (Some True, s)
                         | Some found \<Rightarrow> (Some (header_len (Headers found) = 0), s)))))"

text \<open>\<^verbatim>\<open>PanicRecoveryUnaryInterceptor\<close> turns a panic into this error.\<close>

definition handler_panic :: call_error where
  "handler_panic = status_error code_Internal ''handler panic''"

definition handle_unary_with_proxy ::
  "'m mock_lib \<Rightarrow> 'm upstream \<Rightarrow> mocker \<Rightarrow> call_ctx \<Rightarrow> call_path \<Rightarrow> gmap \<Rightarrow> 'm mock_state
     \<Rightarrow> ((call_error + 'm) \<times> string list) \<times> 'm mock_state" where
  "handle_unary_with_proxy L U M cx path req s =
     (let streaming = (path \<noteq> Plain_Call);
          stub_or_upstream = (\<lambda>mode s.
            case handle_unary L M cx streaming req s of
              (Inr msg, s) \<Rightarrow> ((Inr msg, []), s)
            | (Inl e, s) \<Rightarrow>
                (case err_Fallback e of
                   Some (StreamTypeUnary, _) \<Rightarrow> proxy_unary L U M cx path req (capture_miss mode) s
                 | _ \<Rightarrow> ((Inl e, []), s)))
      in case route_mode M ''/grpc.health.v1.Health/Check'' of
           None \<Rightarrow> (let (r, s) = handle_unary L M cx streaming req s in ((r, []), s))
         | Some ModeProxy \<Rightarrow> proxy_unary L U M cx path req False s
         | Some ModeReplay \<Rightarrow> stub_or_upstream ModeReplay s
         | Some ModeCapture \<Rightarrow>
             (case capture_should_proxy_unary_by_headers L M cx req s of
                (None, s) \<Rightarrow> ((Inl handler_panic, []), s)
              | (Some True, s) \<Rightarrow> proxy_unary L U M cx path req True s
              | (Some False, s) \<Rightarrow> stub_or_upstream ModeCapture s))"

section \<open>Server streams\<close>

text \<open>What the loop over the messages of the upstream keeps: the captured responses, those for the
  history, whether a delay was marked, and the time of the last message.\<close>

record relay =
  ry_responses :: "gvalue list"
  ry_history :: "gomap list"
  ry_recorded :: bool
  ry_last :: int

text \<open>The captured value carries its delay; the history keeps the value as it came.\<close>

definition mark_delay :: "string \<Rightarrow> gvalue \<Rightarrow> gvalue" where
  "mark_delay d v =
     (case v of VMap m \<Rightarrow> VMap (m_put gripmock_key (VMap [(''delay'', VString d)]) m) | _ \<Rightarrow> v)"

definition buffer_proxy_stream_message ::
  "'m upstream \<Rightarrow> bool \<Rightarrow> bool \<Rightarrow> gvalue \<Rightarrow> int \<Rightarrow> relay \<Rightarrow> relay" where
  "buffer_proxy_stream_message U capture history entry delay r =
     (let r = (case entry of
                 VMap m \<Rightarrow>
                   if history \<and> length (ry_history r) < max_history_stream_msgs
                   then r\<lparr>ry_history := ry_history r @ [Some m]\<rparr> else r
               | _ \<Rightarrow> r);
          mark = capture \<and> up_RecordDelay U \<and> is_map_value entry
      in if capture then
           r\<lparr>ry_responses := ry_responses r @ [if mark then mark_delay (up_delay U delay) entry else entry],
             ry_recorded := (ry_recorded r \<or> mark)\<rparr>
         else r)"

fun relay_messages ::
  "'m mock_lib \<Rightarrow> 'm upstream \<Rightarrow> bool \<Rightarrow> bool \<Rightarrow> (int \<times> 'm) list \<Rightarrow> relay \<Rightarrow> 'm mock_state
     \<Rightarrow> call_error option \<times> relay \<times> 'm mock_state" where
  "relay_messages L U capture history [] r s = (None, r, s)"
| "relay_messages L U capture history ((d, msg) # rest) r s =
     (let s = s\<lparr>ms_now := ms_now s + d\<rparr>;
          r = (if capture \<or> history
               then buffer_proxy_stream_message U capture history (up_any U msg) (ms_now s - ry_last r) r else r);
          r = r\<lparr>ry_last := ms_now s\<rparr>
      in case send_message L msg s of
           (Inl e, s) \<Rightarrow> (Some e, r, s)
         | (Inr _, s) \<Rightarrow> relay_messages L U capture history rest r s)"

text \<open>The headers of the upstream are passed on as they come; that they cannot be set ends the call.\<close>

definition relay_header :: "'m mock_lib \<Rightarrow> call_error + metadata \<Rightarrow> 'm mock_state \<Rightarrow> (call_error + unit) \<times> 'm mock_state" where
  "relay_header L header s =
     (case header of
        Inl _ \<Rightarrow> (Inr (), s)
      | Inr md \<Rightarrow>
          if md = [] then (Inr (), s)
          else (case ml_header L md of
                  Some e \<Rightarrow> (Inl e, s) | None \<Rightarrow> (Inr (), s\<lparr>ms_headers := ms_headers s @ [md]\<rparr>)))"

definition stream_metadata :: "'m stream_reply \<Rightarrow> metadata \<times> metadata" where
  "stream_metadata reply = (case sr_Header reply of Inl _ \<Rightarrow> [] | Inr md \<Rightarrow> md, sr_Trailer reply)"

definition response_headers_from_stream :: "'m stream_reply \<Rightarrow> (string \<times> string) list option" where
  "response_headers_from_stream reply = (case stream_metadata reply of (h, t) \<Rightarrow> response_headers h t)"

definition capture_metadata_from_stream :: "'m stream_reply \<Rightarrow> response_metadata" where
  "capture_metadata_from_stream reply = (case stream_metadata reply of (h, t) \<Rightarrow> capture_metadata h t)"

text \<open>Between the first message to the upstream and the first from it.\<close>

definition relay_server_stream ::
  "'m mock_lib \<Rightarrow> 'm upstream \<Rightarrow> mocker \<Rightarrow> call_ctx \<Rightarrow> call_path \<Rightarrow> gmap \<Rightarrow> bool \<Rightarrow> int \<Rightarrow> 'm stream_reply \<Rightarrow> 'm mock_state
     \<Rightarrow> call_error option \<times> relay \<times> 'm mock_state" where
  "relay_server_stream L U M cx path req capture ts reply s =
     (let (session, s) = session_from_context cx s;
          start = \<lparr>ry_responses = [], ry_history = [], ry_recorded = False, ry_last = ts\<rparr>;
          stub = (\<lambda>r err. build_server_stream_stub M session req (capture_headers cx) (ry_responses r)
                    (capture_metadata_from_stream reply) err);
          put = (\<lambda>r err s. record_captured_stub L U (stub r err) (up_RecordDelay U \<and> \<not> ry_recorded r)
                   (ms_now s - ts) s)
      in case relay_messages L U capture (mk_Recorder M) (sr_Messages reply) start s of
           (Some e, r, s) \<Rightarrow> (Some e, r, s)
         | (None, r, s) \<Rightarrow>
             (let s = s\<lparr>ms_now := ms_now s + sr_EndAfter reply\<rparr> in
              case sr_End reply of
                Some e \<Rightarrow>
                  (Some e, r, if capture \<and> capturable_result cx s 1 (length (ry_responses r)) (Some e)
                              then put r (Some e) s else s)
              | None \<Rightarrow>
                  (let s = forward_upstream_trailer path (sr_Trailer reply) s
                   in (None, r, if capture then put r None s else s))))"

definition proxy_server_stream_with_request ::
  "'m mock_lib \<Rightarrow> 'm upstream \<Rightarrow> mocker \<Rightarrow> call_ctx \<Rightarrow> call_path \<Rightarrow> gmap \<Rightarrow> bool \<Rightarrow> 'm mock_state
     \<Rightarrow> call_error option \<times> 'm mock_state" where
  "proxy_server_stream_with_request L U M cx path req capture s =
     (let ts = ms_now s; md = forward_incoming_metadata cx;
          record = (\<lambda>history hdrs err s. record_proxy_call L M cx ts [Some req] history hdrs err s)
      in case up_open U md of
           Some e \<Rightarrow> (Some e, record [] None (Some e) s)
         | None \<Rightarrow>
             (let reply = up_stream U md [req];
                  hdrs = response_headers_from_stream reply;
                  stop = (\<lambda>e s. (Some e, record [] hdrs (Some e) s))
              in case up_send U 0 of
                   Some e \<Rightarrow> stop e s
                 | None \<Rightarrow>
                     (case up_close U of
                        Some e \<Rightarrow> stop e s
                      | None \<Rightarrow>
                          (case relay_header L (sr_Header reply) s of
                             (Inl e, s) \<Rightarrow> stop e s
                           | (Inr _, s) \<Rightarrow>
                               (case relay_server_stream L U M cx path req capture ts reply s of
                                  (err, r, s) \<Rightarrow> (err, record (ry_history r) hdrs err s))))))"

end
