(* ===== verification/Proxy_Stream.thy ===== *)
theory Proxy_Stream
  imports Proxy
begin

text \<open>
  Proxied calls with a client stream, and the composition of the stub handlers with the upstream:
  \<^verbatim>\<open>streamHandler\<close> of \<^verbatim>\<open>grpc_mocker_stream.go\<close> together with \<^verbatim>\<open>proxyStream\<close>.
\<close>

section \<open>Client streams\<close>

text \<open>The requests handed to the upstream; one that cannot be sent is the last of them.\<close>

fun forward_requests ::
  "'m upstream \<Rightarrow> bool \<Rightarrow> nat \<Rightarrow> gmap list \<Rightarrow> gmap list \<Rightarrow> call_error option \<times> gmap list" where
  "forward_requests U bookkeeping i [] requests = (None, requests)"
| "forward_requests U bookkeeping i (req # rest) requests =
     (let requests = (if bookkeeping then requests @ [req] else requests) in
      case up_send U i of
        Some e \<Rightarrow> (Some e, requests)
      | None \<Rightarrow> forward_requests U bookkeeping (Suc i) rest requests)"

text \<open>The one message of the answer, or the error.\<close>

definition receive_reply :: "'m stream_reply \<Rightarrow> 'm mock_state \<Rightarrow> (call_error + 'm) \<times> 'm mock_state" where
  "receive_reply reply s =
     (case sr_Messages reply of
        (d, msg) # _ \<Rightarrow> (Inr msg, s\<lparr>ms_now := ms_now s + d\<rparr>)
      | [] \<Rightarrow>
          (Inl (case sr_End reply of Some e \<Rightarrow> e | None \<Rightarrow> plain_error ''EOF''),
           s\<lparr>ms_now := ms_now s + sr_EndAfter reply\<rparr>))"

definition relay_client_stream ::
  "'m mock_lib \<Rightarrow> 'm upstream \<Rightarrow> mocker \<Rightarrow> call_ctx \<Rightarrow> call_path \<Rightarrow> gmap list \<Rightarrow> string \<Rightarrow> bool \<Rightarrow> int \<Rightarrow> 'm stream_reply
     \<Rightarrow> 'm mock_state \<Rightarrow> call_error option \<times> gomap list \<times> 'm mock_state" where
  "relay_client_stream L U M cx path requests session capture ts reply s =
     (let stub = (\<lambda>response err. build_client_stream_stub M session requests (capture_headers cx) response
                    (capture_metadata_from_stream reply) err);
          put = (\<lambda>response err s.
            record_captured_stub L U (stub response err) (up_RecordDelay U) (ms_now s - ts) s)
      in case receive_reply reply s of
           (Inl e, s) \<Rightarrow>
             (Some e, [], if capture \<and> capturable_result cx s (length requests) 0 (Some e)
                          then put VNil (Some e) s else s)
         | (Inr msg, s) \<Rightarrow>
             (let s = forward_upstream_trailer path (sr_Trailer reply) s;
                  entry = up_any U msg;
                  history = (case entry of VMap m \<Rightarrow> if mk_Recorder M then [Some m] else [] | _ \<Rightarrow> [])
              in case send_message L msg s of
                   (Inl e, s) \<Rightarrow> (Some e, history, s)
                 | (Inr _, s) \<Rightarrow> (None, history, if capture then put entry None s else s)))"

definition proxy_client_stream_with_requests ::
  "'m mock_lib \<Rightarrow> 'm upstream \<Rightarrow> mocker \<Rightarrow> call_ctx \<Rightarrow> call_path \<Rightarrow> gmap list \<Rightarrow> bool \<Rightarrow> 'm mock_state
     \<Rightarrow> call_error option \<times> 'm mock_state" where
  "proxy_client_stream_with_requests L U M cx path reqs capture s =
     (let ts = ms_now s; md = forward_incoming_metadata cx;
          record = (\<lambda>requests history hdrs err s.
            record_proxy_call L M cx ts (map Some requests) history hdrs err s)
      in case up_open U md of
           Some e \<Rightarrow> (Some e, record [] [] None (Some e) s)
         | None \<Rightarrow>
             (let (session, s) = session_from_context cx s;
                  reply = up_stream U md reqs;
                  hdrs = response_headers_from_stream reply;
                  (err, requests) = forward_requests U (capture \<or> mk_Recorder M) 0 reqs [];
                  stop = (\<lambda>e s. (Some e, record requests [] hdrs (Some e) s))
              in case err of
                   Some e \<Rightarrow> stop e s
                 | None \<Rightarrow>
                     (case up_close U of
                        Some e \<Rightarrow> stop e s
                      | None \<Rightarrow>
                          (case relay_header L (sr_Header reply) s of
                             (Inl e, s) \<Rightarrow> stop e s
                           | (Inr _, s) \<Rightarrow>
                               (case relay_client_stream L U M cx path requests session capture ts reply s of
                                  (err, history, s) \<Rightarrow> (err, record requests history hdrs err s))))))"

text \<open>Without requests read before, they are read first; an error of the client ends the call.\<close>

fun read_requests :: "(call_error + gmap) list \<Rightarrow> (call_error + gmap list) \<times> (call_error + gmap) list" where
  "read_requests [] = (Inr [], [])"
| "read_requests (Inl e # xs) = (Inl e, xs)"
| "read_requests (Inr m # xs) =
     (case read_requests xs of (Inl e, r) \<Rightarrow> (Inl e, r) | (Inr ms, r) \<Rightarrow> (Inr (m # ms), r))"

definition proxy_client_stream ::
  "'m mock_lib \<Rightarrow> 'm upstream \<Rightarrow> mocker \<Rightarrow> call_ctx \<Rightarrow> call_path \<Rightarrow> bool \<Rightarrow> 'm mock_state
     \<Rightarrow> call_error option \<times> 'm mock_state" where
  "proxy_client_stream L U M cx path capture s =
     (case read_requests (ms_inbox s) of
        (Inl e, rest) \<Rightarrow> (Some e, s\<lparr>ms_inbox := rest\<rparr>)
      | (Inr reqs, rest) \<Rightarrow> proxy_client_stream_with_requests L U M cx path reqs capture (s\<lparr>ms_inbox := rest\<rparr>))"

definition proxy_server_stream ::
  "'m mock_lib \<Rightarrow> 'm upstream \<Rightarrow> mocker \<Rightarrow> call_ctx \<Rightarrow> call_path \<Rightarrow> bool \<Rightarrow> 'm mock_state
     \<Rightarrow> call_error option \<times> 'm mock_state" where
  "proxy_server_stream L U M cx path capture s =
     (case receive s of
        (None, s) \<Rightarrow> (Some (plain_error ''EOF''), s)
      | (Some (Inl e), s) \<Rightarrow> (Some e, s)
      | (Some (Inr req), s) \<Rightarrow> proxy_server_stream_with_request L U M cx path req capture s)"

section \<open>Stubs, then the upstream\<close>

text \<open>What a streaming call comes to; a bidirectional call the upstream takes over is left to its own
  model, with the requests it starts with.\<close>

datatype served = Answered "call_error option" | Bidi_Proxied "gmap list" bool

definition answered :: "call_error option \<times> 'm mock_state \<Rightarrow> served \<times> 'm mock_state" where
  "answered rs = (case rs of (err, s) \<Rightarrow> (Answered err, s))"

definition run_dispatch ::
  "'m mock_lib \<Rightarrow> 'm upstream \<Rightarrow> mocker \<Rightarrow> call_ctx \<Rightarrow> call_path \<Rightarrow> dispatch \<Rightarrow> 'm mock_state \<Rightarrow> served \<times> 'm mock_state" where
  "run_dispatch L U M cx path d s =
     (case d of
        Served err \<Rightarrow> (Answered err, s)
      | Forwarded StreamTypeServer reqs capture \<Rightarrow>
          answered (case reqs of
             Some [req] \<Rightarrow> proxy_server_stream_with_request L U M cx path req capture s
           | _ \<Rightarrow> proxy_server_stream L U M cx path capture s)
      | Forwarded StreamTypeClient reqs capture \<Rightarrow>
          answered (case reqs of
             Some ms \<Rightarrow> proxy_client_stream_with_requests L U M cx path ms capture s
           | None \<Rightarrow> proxy_client_stream L U M cx path capture s)
      | Forwarded StreamTypeBidi reqs capture \<Rightarrow>
          (Bidi_Proxied (case reqs of Some ms \<Rightarrow> ms | None \<Rightarrow> []) capture, s)
      | Forwarded StreamTypeUnary reqs capture \<Rightarrow>
          (Answered (Some (status_error code_Unimplemented ''unknown stream type'')), s))"

definition serve_stream ::
  "'m mock_lib \<Rightarrow> 'm upstream \<Rightarrow> mocker \<Rightarrow> call_ctx \<Rightarrow> call_path \<Rightarrow> 'm mock_state \<Rightarrow> served \<times> 'm mock_state" where
  "serve_stream L U M cx path s =
     (let (d, s) = stream_handler L M cx s in run_dispatch L U M cx path d s)"

text \<open>\<^verbatim>\<open>PanicRecoveryStreamInterceptor\<close>: the error of the handler, where a panic (\<open>None\<close>) leaves the zero
  value of the unnamed result, no error.\<close>

definition recovered_stream_result :: "call_error option option \<Rightarrow> call_error option" where
  "recovered_stream_result outcome = (case outcome of Some err \<Rightarrow> err | None \<Rightarrow> None)"

definition recovered_unary_result :: "(call_error + 'm) option \<Rightarrow> call_error + 'm" where
  "recovered_unary_result outcome = (case outcome of Some r \<Rightarrow> r | None \<Rightarrow> Inl handler_panic)"

end
