(* ===== verification/Proxy_Bidi.thy ===== *)
theory Proxy_Bidi
  imports Proxy_Stream
begin

text \<open>
  A proxied bidirectional call, \<^verbatim>\<open>proxyBidiStreamWithRequests\<close> of \<^verbatim>\<open>grpc_proxy_stream.go\<close>: one goroutine
  forwards the requests, one the responses, and both write to the shared capture state of
  \<^verbatim>\<open>streaming_capture.go\<close>. The goroutines, the caller and the upstream are a step relation: the caller
  and the upstream send what they like when they like, and each step of a goroutine is one of its calls.
\<close>

section \<open>State\<close>

text \<open>
  \<open>bx_prefetched\<close> are the requests read before that are still to be forwarded, \<open>bx_received\<close> and
  \<open>bx_pulled\<close> what came from the caller and from the upstream since, \<open>bx_up\<close> and \<open>bx_down\<close> what was sent to
  them. A goroutine holds a message between receiving and sending it, and leaves its error on its
  channel when it is done. \<open>bx_result\<close> is what \<^verbatim>\<open>awaitBidiCompletion\<close> returned, with the snapshot.
\<close>

record 'm bidi_proxy =
  bx_prefetched :: "gmap list"
  bx_received :: "gmap list"
  bx_pulled :: "'m list"
  bx_up :: "gmap list"
  bx_down :: "'m list"
  bx_req_held :: "gmap option"
  bx_resp_held :: "'m option"
  bx_req_done :: "call_error option option"
  bx_resp_done :: "call_error option option"
  bx_cancelled :: bool
  bx_requests :: "gmap list"
  bx_responses :: "gvalue list"
  bx_result :: "(call_error option \<times> call_error option \<times> gmap list \<times> gvalue list) option"

definition bidi_start :: "gmap list \<Rightarrow> 'm bidi_proxy" where
  "bidi_start prefetched =
     \<lparr>bx_prefetched = prefetched, bx_received = [], bx_pulled = [], bx_up = [], bx_down = [],
      bx_req_held = None, bx_resp_held = None, bx_req_done = None, bx_resp_done = None,
      bx_cancelled = False, bx_requests = [], bx_responses = [], bx_result = None\<rparr>"

text \<open>\<open>AppendRequest\<close> and \<open>AppendResponseWithTiming\<close>; \<open>d\<close> is the time since the response before.\<close>

definition append_request :: "gmap \<Rightarrow> 'm bidi_proxy \<Rightarrow> 'm bidi_proxy" where
  "append_request m b = b\<lparr>bx_requests := bx_requests b @ [m]\<rparr>"

definition append_response_with_timing :: "'m upstream \<Rightarrow> bool \<Rightarrow> int \<Rightarrow> 'm \<Rightarrow> 'm bidi_proxy \<Rightarrow> 'm bidi_proxy" where
  "append_response_with_timing U record_delay d msg b =
     b\<lparr>bx_responses := bx_responses b @
        [if record_delay then mark_delay (up_delay U d) (up_any U msg) else up_any U msg]\<rparr>"

definition req_running :: "'m bidi_proxy \<Rightarrow> bool" where
  "req_running b \<longleftrightarrow> bx_req_done b = None \<and> bx_req_held b = None"

definition resp_running :: "'m bidi_proxy \<Rightarrow> bool" where
  "resp_running b \<longleftrightarrow> bx_resp_done b = None \<and> bx_resp_held b = None"

text \<open>The request goroutine. A request that cannot be sent stays held.\<close>

inductive req_step :: "'m bidi_proxy \<Rightarrow> 'm bidi_proxy \<Rightarrow> bool" where
  req_prefetched: "req_running b \<Longrightarrow> \<not> bx_cancelled b \<Longrightarrow> bx_prefetched b = m # ms \<Longrightarrow>
    req_step b ((append_request m b)\<lparr>bx_prefetched := ms, bx_req_held := Some m\<rparr>)"
| req_receive: "req_running b \<Longrightarrow> bx_prefetched b = [] \<Longrightarrow>
    req_step b ((append_request m b)\<lparr>bx_received := bx_received b @ [m], bx_req_held := Some m\<rparr>)"
| req_end: "req_running b \<Longrightarrow> bx_prefetched b = [] \<Longrightarrow> req_step b (b\<lparr>bx_req_done := Some close_error\<rparr>)"
| req_receive_error: "req_running b \<Longrightarrow> bx_prefetched b = [] \<Longrightarrow> req_step b (b\<lparr>bx_req_done := Some (Some e)\<rparr>)"
| req_cancelled: "req_running b \<Longrightarrow> bx_cancelled b \<Longrightarrow> req_step b (b\<lparr>bx_req_done := Some None\<rparr>)"
| req_send: "bx_req_done b = None \<Longrightarrow> bx_req_held b = Some m \<Longrightarrow>
    req_step b (b\<lparr>bx_up := bx_up b @ [m], bx_req_held := None\<rparr>)"
| req_send_error: "bx_req_done b = None \<Longrightarrow> bx_req_held b = Some m \<Longrightarrow>
    req_step b (b\<lparr>bx_req_done := Some (Some e)\<rparr>)"

inductive resp_step :: "'m upstream \<Rightarrow> bool \<Rightarrow> 'm bidi_proxy \<Rightarrow> 'm bidi_proxy \<Rightarrow> bool" for U record_delay where
  resp_receive: "resp_running b \<Longrightarrow>
    resp_step U record_delay b ((append_response_with_timing U record_delay d msg b)
      \<lparr>bx_pulled := bx_pulled b @ [msg], bx_resp_held := Some msg\<rparr>)"
| resp_end: "resp_running b \<Longrightarrow> resp_step U record_delay b (b\<lparr>bx_resp_done := Some None\<rparr>)"
| resp_receive_error: "resp_running b \<Longrightarrow> resp_step U record_delay b (b\<lparr>bx_resp_done := Some (Some e)\<rparr>)"
| resp_cancelled: "resp_running b \<Longrightarrow> bx_cancelled b \<Longrightarrow>
    resp_step U record_delay b (b\<lparr>bx_resp_done := Some None\<rparr>)"
| resp_send: "bx_resp_done b = None \<Longrightarrow> bx_resp_held b = Some msg \<Longrightarrow>
    resp_step U record_delay b (b\<lparr>bx_down := bx_down b @ [msg], bx_resp_held := None\<rparr>)"
| resp_send_error: "bx_resp_done b = None \<Longrightarrow> bx_resp_held b = Some msg \<Longrightarrow>
    resp_step U record_delay b (b\<lparr>bx_resp_done := Some (Some e)\<rparr>)"

text \<open>\<^verbatim>\<open>awaitBidiCompletion\<close>: both sides, or one side and the guard; without an error of the requests the
  responses are waited for without a guard.\<close>

definition finish :: "call_error option \<Rightarrow> call_error option \<Rightarrow> 'm bidi_proxy \<Rightarrow> 'm bidi_proxy" where
  "finish first second b = b\<lparr>bx_result := Some (first, second, bx_requests b, bx_responses b)\<rparr>"

inductive await_step :: "'m bidi_proxy \<Rightarrow> 'm bidi_proxy \<Rightarrow> bool" where
  await_both: "bx_result b = None \<Longrightarrow> bx_req_done b = Some first \<Longrightarrow> bx_resp_done b = Some second \<Longrightarrow>
    await_step b (finish first second b)"
| await_requests_failed: "bx_result b = None \<Longrightarrow> bx_req_done b = Some (Some e) \<Longrightarrow> bx_resp_done b = None \<Longrightarrow>
    await_step b (finish (Some e) None (b\<lparr>bx_cancelled := True\<rparr>))"
| await_responses_ended: "bx_result b = None \<Longrightarrow> bx_req_done b = None \<Longrightarrow> bx_resp_done b = Some second \<Longrightarrow>
    await_step b (finish None second (b\<lparr>bx_cancelled := True\<rparr>))"

inductive bidi_step :: "'m upstream \<Rightarrow> bool \<Rightarrow> 'm bidi_proxy \<Rightarrow> 'm bidi_proxy \<Rightarrow> bool" for U record_delay where
  step_req: "req_step b b' \<Longrightarrow> bidi_step U record_delay b b'"
| step_resp: "resp_step U record_delay b b' \<Longrightarrow> bidi_step U record_delay b b'"
| step_await: "await_step b b' \<Longrightarrow> bidi_step U record_delay b b'"
| step_cancel: "bidi_step U record_delay b (b\<lparr>bx_cancelled := True\<rparr>)"

inductive bidi_reachable :: "'m upstream \<Rightarrow> bool \<Rightarrow> gmap list \<Rightarrow> 'm bidi_proxy \<Rightarrow> bool" for U record_delay prefetched where
  bidi_init: "bidi_reachable U record_delay prefetched (bidi_start prefetched)"
| bidi_next_state: "bidi_reachable U record_delay prefetched b \<Longrightarrow> bidi_step U record_delay b b' \<Longrightarrow>
    bidi_reachable U record_delay prefetched b'"

section \<open>What becomes of the result\<close>

definition select_capture_error :: "call_error option \<Rightarrow> call_error option \<Rightarrow> call_error option" where
  "select_capture_error first second = (case first of Some e \<Rightarrow> Some e | None \<Rightarrow> second)"

definition sanitize_captured_stream_error :: "call_error option \<Rightarrow> bool \<Rightarrow> call_error option" where
  "sanitize_captured_stream_error err has_responses =
     (case err of
        None \<Rightarrow> None
      | Some e \<Rightarrow> if \<not> has_responses then Some e else if err_Code e = code_Canceled then None else Some e)"

definition capture_bidi_result ::
  "'m mock_lib \<Rightarrow> 'm upstream \<Rightarrow> mocker \<Rightarrow> call_ctx \<Rightarrow> string \<Rightarrow> gmap list \<Rightarrow> gvalue list \<Rightarrow> call_error option
     \<Rightarrow> call_error option \<Rightarrow> response_metadata \<Rightarrow> bool \<Rightarrow> int \<Rightarrow> 'm mock_state \<Rightarrow> 'm mock_state" where
  "capture_bidi_result L U M cx session requests responses first second meta record_delay elapsed s =
     (let err = sanitize_captured_stream_error (select_capture_error first second) (responses \<noteq> []) in
      if \<not> capturable_result cx s (length requests) (length responses) err then s
      else record_captured_stub L U (build_bidi_stub M session requests (capture_headers cx) responses meta err)
             record_delay elapsed s)"

text \<open>The responses of the history: at most 100, without the delay marks.\<close>

definition clean_history :: "golib \<Rightarrow> gvalue list \<Rightarrow> gomap list" where
  "clean_history g responses =
     take max_history_stream_msgs (List.map_filter (\<lambda>v. case v of VMap m \<Rightarrow> Some (snd (extract_gripmock g (Some m))) | _ \<Rightarrow> None)
       responses)"

text \<open>The end of a call that began at \<open>ts\<close>: trailers, the captured stub, the record, and the error.\<close>

definition finish_bidi_proxy ::
  "'m mock_lib \<Rightarrow> 'm upstream \<Rightarrow> mocker \<Rightarrow> call_ctx \<Rightarrow> call_path \<Rightarrow> string \<Rightarrow> bool \<Rightarrow> int \<Rightarrow> 'm stream_reply
     \<Rightarrow> call_error option \<times> call_error option \<times> gmap list \<times> gvalue list \<Rightarrow> 'm mock_state
     \<Rightarrow> call_error option \<times> 'm mock_state" where
  "finish_bidi_proxy L U M cx path session capture ts reply result s =
     (case result of (first, second, requests, responses) \<Rightarrow>
       (let s = forward_upstream_trailer path (sr_Trailer reply) s;
            timed = up_RecordDelay U \<and> responses \<noteq> [];
            s = (if capture then capture_bidi_result L U M cx session requests responses first second
                    (capture_metadata_from_stream reply) (up_RecordDelay U \<and> \<not> timed) (ms_now s - ts) s else s);
            err = select_capture_error first second
        in (err, record_proxy_call L M cx ts (map Some requests) (clean_history (ml_lib L) responses)
                   (response_headers_from_stream reply) err s)))"

section \<open>Nothing is lost, reordered or made up\<close>

definition held :: "'a option \<Rightarrow> 'a list" where
  "held x = (case x of None \<Rightarrow> [] | Some y \<Rightarrow> [y])"

lemma held_simps [simp]: "held None = []" "held (Some y) = [y]"
  by (simp_all add: held_def)

text \<open>A captured value is the message, perhaps with a delay.\<close>

definition captured_as :: "'m upstream \<Rightarrow> 'm \<Rightarrow> gvalue \<Rightarrow> bool" where
  "captured_as U msg v \<longleftrightarrow> v = up_any U msg \<or> (\<exists>d. v = mark_delay d (up_any U msg))"

definition bidi_inv :: "'m upstream \<Rightarrow> gmap list \<Rightarrow> 'm bidi_proxy \<Rightarrow> bool" where
  "bidi_inv U prefetched b \<longleftrightarrow>
     prefetched @ bx_received b = bx_up b @ held (bx_req_held b) @ bx_prefetched b \<and>
     bx_requests b = bx_up b @ held (bx_req_held b) \<and>
     bx_pulled b = bx_down b @ held (bx_resp_held b) \<and>
     list_all2 (captured_as U) (bx_down b @ held (bx_resp_held b)) (bx_responses b) \<and>
     (bx_received b \<noteq> [] \<longrightarrow> bx_prefetched b = []) \<and>
     (bx_req_done b = Some None \<longrightarrow> bx_req_held b = None \<and> (bx_cancelled b \<or> bx_prefetched b = [])) \<and>
     (bx_resp_done b = Some None \<longrightarrow> bx_resp_held b = None) \<and>
     (\<forall>first second reqs resps. bx_result b = Some (first, second, reqs, resps) \<longrightarrow> bx_cancelled b \<or>
        bx_req_done b = Some first \<and> bx_resp_done b = Some second \<and> reqs = bx_requests b \<and> resps = bx_responses b)"

lemmas bidi_defs = bidi_inv_def req_running_def resp_running_def append_request_def
  append_response_with_timing_def finish_def

lemma req_step_inv:
  assumes "req_step b b'" and "bidi_inv U prefetched b"
  shows "bidi_inv U prefetched b'"
  using assms(1) by cases (use assms(2) in \<open>clarsimp simp: bidi_defs\<close>)+

lemma captured_append:
  "list_all2 (captured_as U) ms vs \<Longrightarrow>
     list_all2 (captured_as U) (ms @ [msg]) (vs @ [if rd then mark_delay d (up_any U msg) else up_any U msg])"
  by (auto simp: captured_as_def intro!: list_all2_appendI)

lemma resp_step_inv:
  assumes "resp_step U rd b b'" and "bidi_inv U prefetched b"
  shows "bidi_inv U prefetched b'"
  using assms(1)
proof cases
  case (resp_receive msg d)
  then show ?thesis
    using assms(2) captured_append [of U "bx_down b" "bx_responses b" msg rd "up_delay U d"] by (simp add: bidi_defs)
next
  case (resp_send msg)
  then show ?thesis using assms(2) by (simp add: bidi_defs)
qed (use assms(2) in \<open>simp_all add: bidi_defs\<close>)

lemma await_step_inv:
  assumes "await_step b b'" and "bidi_inv U prefetched b"
  shows "bidi_inv U prefetched b'"
  using assms(1) by cases (use assms(2) in \<open>clarsimp simp: bidi_defs\<close>)+

lemma bidi_reachable_inv: "bidi_reachable U rd prefetched b \<Longrightarrow> bidi_inv U prefetched b"
proof (induction rule: bidi_reachable.induct)
  case bidi_init
  then show ?case by (simp add: bidi_inv_def bidi_start_def)
next
  case (bidi_next_state b b')
  note inv = bidi_next_state(3)
  from bidi_next_state(2) show ?case
  proof cases
    case step_req
    then show ?thesis by (rule req_step_inv) (rule inv)
  next
    case step_resp
    then show ?thesis by (rule resp_step_inv) (rule inv)
  next
    case step_await
    then show ?thesis by (rule await_step_inv) (rule inv)
  next
    case step_cancel
    with inv show ?thesis by (simp add: bidi_inv_def)
  qed
qed

text \<open>C12. Whatever the interleaving of the two directions, with the caller and the upstream sending when
  they like, a proxied conversation is faithful: each side gets the other's messages in order, each
  once, with at most one of them still held back; and a call that ends without an error on either
  side and without being cancelled has forwarded everything in both directions, and its captured
  requests and responses are exactly those messages.\<close>

theorem bidi_proxy_faithful:
  assumes "bidi_reachable U rd prefetched b"
  shows "(\<exists>rest. prefetched @ bx_received b = bx_up b @ rest) \<and>
     (\<exists>rest. bx_pulled b = bx_down b @ rest \<and> length rest \<le> 1) \<and>
     (bx_result b = Some (None, None, reqs, resps) \<and> \<not> bx_cancelled b \<longrightarrow>
        bx_up b = prefetched @ bx_received b \<and> bx_down b = bx_pulled b \<and>
        reqs = bx_up b \<and> list_all2 (captured_as U) (bx_down b) resps)"
proof -
  have inv: "bidi_inv U prefetched b" by (rule bidi_reachable_inv [OF assms])
  have "length (held x) \<le> 1" for x :: "'a option" by (cases x) simp_all
  then show ?thesis using inv by (auto simp: bidi_inv_def)
qed

end
