(* ===== verification/Proxy_Claims.thy ===== *)
theory Proxy_Claims
  imports Proxy_Bidi Mocker_Search
begin

text \<open>
  Properties of proxied and captured calls: a captured call is answered from the captured stub
  afterwards, a proxied call leaves one record, a relayed stream is passed on in order and captured
  as it was sent.
\<close>

section \<open>A captured call matches itself\<close>

lemma field_value_equals_refl: "gvalue_ok v \<Longrightarrow> field_value_equals g v v"
  using deep_equal_refl [of v] by (cases v) (auto simp: field_value_equals_def split: option.split)

lemma compare_refl: "gvalue_ok v \<Longrightarrow> compare_field_value g v v False"
  by (simp add: compare_field_value_def field_value_equals_refl)

lemma equals_part:
  assumes "\<forall>(k, v)\<in>set m. map_of m' k = Some v \<and> gvalue_ok v"
  shows "equals g (Some m) m' False"
  using assms by (auto simp: equals_def equals_field_def list_all_iff find_value_exact compare_refl)

lemma headers_ok: "m_ok md \<Longrightarrow> m_ok (headers_of_metadata md) \<and> (\<forall>kv\<in>set (headers_of_metadata md). gvalue_ok (snd kv))"
proof -
  assume "m_ok md"
  then have "m_ok (filter (\<lambda>(k, _). k \<notin> set excluded_headers) md)"
    by (simp add: m_ok_def distinct_map_filter)
  then have "m_ok (headers_of_metadata md)"
    by (simp add: headers_of_metadata_def m_ok_def comp_def split_def)
  then show ?thesis by (auto simp: headers_of_metadata_def)
qed

definition metadata_ok :: "call_ctx \<Rightarrow> bool" where
  "metadata_ok cx \<longleftrightarrow> (case cx_MD cx of None \<Rightarrow> True | Some md \<Rightarrow> m_ok md)"

lemma capture_headers_part:
  assumes "metadata_ok cx"
  shows "\<forall>(k, v)\<in>set (capture_headers cx). map_of (context_headers cx) k = Some v \<and> gvalue_ok v"
proof (cases "cx_MD cx")
  case (Some md)
  then have ok: "m_ok (headers_of_metadata md)" "\<forall>kv\<in>set (headers_of_metadata md). gvalue_ok (snd kv)"
    using assms headers_ok [of md] by (simp_all add: metadata_ok_def)
  have "set (capture_headers cx) \<subseteq> set (context_headers cx)"
    by (auto simp: capture_headers_def context_headers_def request_headers_from_metadata_def Some)
  with ok show ?thesis
    using m_ok_set_iff [OF ok(1)] by (force simp: context_headers_def Some)
qed (simp add: capture_headers_def)

lemma captured_headers_match:
  assumes "metadata_ok cx" and "q_Headers q = context_headers cx"
    and "Headers v = empty_header\<lparr>Equals := optional_map (capture_headers cx)\<rparr>"
  shows "match_query_headers g q v"
proof -
  have e: "equals g (optional_map (capture_headers cx)) (context_headers cx) False"
    using equals_part [OF capture_headers_part [OF assms(1)], of g]
    by (simp add: optional_map_def)
  have "context_headers cx = [] \<Longrightarrow> capture_headers cx = []"
    using capture_headers_part [OF assms(1)] by (cases "capture_headers cx") auto
  then show ?thesis
    using e assms(2,3)
    by (auto simp: match_query_headers_def match_headers_def matcher_matches_def empty_header_def header_len_def
        matcher_keys_def optional_map_def)
qed

text \<open>The stub of a captured call, whatever it answers, matches the call.\<close>

lemma captured_unary_matches:
  assumes "metadata_ok cx" and "q_Headers q = context_headers cx" and "q_Input q = [req]" and "gvalue_ok (VMap req)"
    and "Headers v = empty_header\<lparr>Equals := optional_map (capture_headers cx)\<rparr>"
    and "Input v = empty_input\<lparr>Equals := Some req\<rparr>" and "Inputs v = None"
  shows "fast_match_v2 g q v"
proof -
  have "\<forall>(k, x)\<in>set req. map_of req k = Some x \<and> gvalue_ok x"
    using assms(4) by (auto simp: m_ok_set_iff list_all_iff)
  then have "equals g (Some req) req False" by (rule equals_part)
  then have "fast_match_input g req (empty_input\<lparr>Equals := Some req\<rparr>)"
    by (auto simp: fast_match_input_def match_input_def matcher_matches_def empty_input_def input_has_conditions_def
        matcher_keys_def Let_def)
  then show ?thesis
    using captured_headers_match [OF assms(1,2,5), of g] assms(3,6,7)
    by (simp add: fast_match_v2_def fast_match_body_def)
qed

section \<open>The queries of a call\<close>

definition ctx_session :: "call_ctx \<Rightarrow> string" where
  "ctx_session cx = (case cx_MD cx of None \<Rightarrow> '''' | Some md \<Rightarrow> session_of_metadata md)"

lemma session_from_context_fst [simp]: "fst (session_from_context cx s) = ctx_session cx"
  by (simp add: session_from_context_def ctx_session_def Let_def split: option.split)

definition unary_query :: "mocker \<Rightarrow> call_ctx \<Rightarrow> gmap \<Rightarrow> query" where
  "unary_query M cx req =
     \<lparr>q_ID = None, q_Service = mk_Service M, q_Method = mk_Method M, q_Session = ctx_session cx,
      q_Headers = context_headers cx, q_Input = [req], q_Strict = mk_Strict M, q_Internal = False,
      q_MatchInternal = False\<rparr>"

lemma new_query_unary: "mk_Service M \<noteq> health_service \<Longrightarrow> fst (new_query M cx req s) = unary_query M cx req"
  by (simp add: new_query_def messages_query_def split_def Let_def with_health_visibility_def unary_query_def)

section \<open>After a miss\<close>

lemma put_fresh:
  assumes "searcher_ok g e" and "ID v = 0" "priority_ok v" and "i \<noteq> 0" "stub_map (ext e) i = None"
    and e'0: "e' = snd (put_many g (i # rest) [v] e)"
  shows "stub_map (ext e') = (stub_map (ext e))(i \<mapsto> v\<lparr>ID := i\<rparr>)" and "searcher_ok g e'"
    and "stored (ext e') = insert (v\<lparr>ID := i\<rparr>) (stored (ext e))" and "call_count e' k = call_count e k"
proof -
  have e': "e' = snd (searcher_upsert g [v\<lparr>ID := i\<rparr>] e)"
    using assms(2) by (simp add: e'0 put_many_def)
  show m: "stub_map (ext e') = (stub_map (ext e))(i \<mapsto> v\<lparr>ID := i\<rparr>)"
    using assms(4) by (simp add: e' searcher_upsert_def split_def Let_def stub_map_upsert)
  show "stored (ext e') = insert (v\<lparr>ID := i\<rparr>) (stored (ext e))"
    using assms(5) by (simp add: stored_def m)
  have "priority_ok (v\<lparr>ID := i\<rparr>)" using assms(3) by (simp add: priority_ok_def)
  then show "searcher_ok g e'"
    using assms(1) by (simp add: e' searcher_ok_def searcher_upsert_def split_def Let_def storage_ok_upsert)
  show "call_count e' k = call_count e k" by (simp add: e' searcher_upsert_def split_def Let_def call_count_def)
qed

lemma captured_is_best:
  assumes sep: "hash_separates g (search_names e q)" and miss: "\<forall>v\<in>answerable e q. \<not> fast_match_v2 g q v"
    and w: "Service w = q_Service q" "Method w = q_Method q" "Session w = q_Session q" "effective_times w \<le> 0"
      "fast_match_v2 g q w"
    and e': "stored (ext e') = insert w (stored (ext e))" "\<And>k. call_count e' k = call_count e k"
  shows "best_match g q (answerable e' q) w" and "search_names e' q = search_names e q"
proof -
  have form: "q_Service q \<in> set (service_forms (q_Service q))" by (simp add: service_forms_def)
  show "search_names e' q = search_names e q"
    using w(1,2) form by (auto simp: search_names_def names_of_def e')
  have ne: "not_exhausted e' v ses \<longleftrightarrow> not_exhausted e v ses" for v ses
    by (simp add: not_exhausted_def e'(2))
  have res: "resolved_forms (stored (ext e')) (q_Service q) (q_Method q) \<noteq> []"
    using w(1,2) form by (auto simp: resolved_forms_def filter_empty_conv has_stub_def e')
  have old: "x \<in> answerable e q" if "x \<in> answerable e' q" "x \<noteq> w" for x
    using that res by (auto simp: answerable_def e' ne)
  have "w \<in> answerable e' q"
    using w form by (auto simp: answerable_def e' not_exhausted_def visible_available)
  moreover have "x = w" if "x \<in> answerable e' q" "fast_match_v2 g q x" for x
    using old [OF that(1)] miss that(2) by blast
  moreover have "compare_ranked_matches (ranked_match_for g q w) (ranked_match_for g q w) \<le> 0"
    by (simp add: ranked.cmp_refl)
  ultimately show "best_match g q (answerable e' q) w"
    using w(5) unfolding best_match_def by metis
qed

lemma miss_not_found:
  assumes "storage_ok g (ext e)" and "hash_separates g (search_names e q)" and "runtime_ok r"
    and "q_ID q = None" "\<not> allows_internal_stubs q" and "\<forall>v\<in>answerable e q. \<not> fast_match_v2 g q v"
  shows "found_id (fst (find_query g r q e)) = None" and "snd (find_query g r q e) = e"
proof -
  have none: "res_found x = None" if "fst (find_query g r q e) = Inr x" for x
    using search_external_sound [OF assms(1-3), of x] that assms(4-6)
    by (cases "res_found x") (auto simp: find_query_def search_optimized_def)
  then show "found_id (fst (find_query g r q e)) = None"
    by (simp add: found_id_def split: sum.split)
  from none have "found_only (find_query g r q e) = None"
    by (auto simp: found_only_def split: sum.split)
  then show "snd (find_query g r q e) = e"
    using find_query_effect [OF assms(3), of q e g] by (auto simp: search_effect_def found_only_def found_result_def)
qed

text \<open>In a capturing route a call that no stub answers goes to the upstream and is captured, with the
  engine as it was, unless the inspection of its headers panics.\<close>

lemma miss_is_proxied:
  assumes route: "mk_Route M = Some ModeCapture" and health: "mk_Service M \<noteq> health_service"
    and ok: "storage_ok (ml_lib L) (ext (ms_engine s))" "runtime_ok (ml_runtime L)"
    and sep: "hash_separates (ml_lib L) (search_names (ms_engine s) (unary_query M cx req))"
    and miss: "\<forall>v\<in>answerable (ms_engine s) (unary_query M cx req). \<not> fast_match_v2 (ml_lib L) (unary_query M cx req) v"
  obtains t where "handle_unary_with_proxy L U M cx path req s = proxy_unary L U M cx path req True t"
      "ms_engine t = ms_engine s" "ms_fresh t = ms_fresh s"
      "has_capture_request_headers cx \<Longrightarrow>
         fst (inspect (ml_lib L) (ml_runtime L) (unary_query M cx req) (ms_engine s)) \<noteq> None"
    | t where "handle_unary_with_proxy L U M cx path req s = ((Inl handler_panic, []), t)"
      "has_capture_request_headers cx"
      "fst (inspect (ml_lib L) (ml_runtime L) (unary_query M cx req) (ms_engine s)) = None"
proof -
  let ?q = "unary_query M cx req" and ?g = "ml_lib L" and ?r = "ml_runtime L"
  have q: "q_ID ?q = None" "\<not> allows_internal_stubs ?q"
    by (simp_all add: unary_query_def allows_internal_stubs_def)
  note none = miss_not_found [OF ok(1) sep ok(2) q miss]
  have mode: "route_mode M h = Some ModeCapture" for h by (simp add: route_mode_def route)
  obtain s1 where s1: "new_query M cx req s = (?q, s1)" "ms_engine s1 = ms_engine s" "ms_fresh s1 = ms_fresh s"
  proof -
    have "ms_fresh (snd (new_query M cx req s)) = ms_fresh s"
      by (simp add: new_query_def messages_query_def session_from_context_def split_def Let_def split: option.split)
    then show thesis
      using that [of "snd (new_query M cx req s)"] new_query_unary [OF health, of cx req s]
      by (metis new_query_frame(6) prod.collapse)
  qed
  consider (skip) "\<not> has_capture_request_headers cx"
    | (panic) "has_capture_request_headers cx" "fst (inspect ?g ?r ?q (ms_engine s)) = None"
    | (report) rep where "has_capture_request_headers cx" "fst (inspect ?g ?r ?q (ms_engine s)) = Some rep"
    by fastforce
  then show thesis
  proof cases
    case panic
    then show thesis
      using that(2) [of "s1\<lparr>ms_engine := snd (inspect ?g ?r ?q (ms_engine s))\<rparr>"] s1
      by (auto simp: handle_unary_with_proxy_def mode capture_should_proxy_unary_by_headers_def split_def Let_def)
  next
    case report
    then have "ir_MatchedStubID rep = None" "snd (inspect ?g ?r ?q (ms_engine s)) = ms_engine s"
      using inspect_matched [OF ok(2) q(2), of ?g "ms_engine s"] none(1) by auto
    then show thesis
      using that(1) [of "s1\<lparr>ms_engine := ms_engine s\<rparr>"] s1 report
      by (auto simp: handle_unary_with_proxy_def mode capture_should_proxy_unary_by_headers_def split_def Let_def)
  next
    case skip
    have f: "find_stub L ?q s1 = (Inl e, s1\<lparr>ms_engine := ms_engine s\<rparr>)"
      if "fst (find_stub L ?q s1) = Inl e" for e
      using that none(2) s1(2)
      by (auto simp: find_stub_def find_by_query_def split_def Let_def split: sum.splits option.splits)
    obtain e where e: "fst (find_stub L ?q s1) = Inl e" "err_Code e = code_NotFound"
      using none(1) s1(2)
      by (auto simp: find_stub_def find_by_query_def found_id_def status_error_def split_def Let_def
          split: sum.splits option.splits)
    have "handle_unary L M cx streaming req s = (Inl (new_unary_fallback_error e), s1\<lparr>ms_engine := ms_engine s\<rparr>)"
      for streaming
      using f [OF e(1)] s1 e(2) route
      by (simp add: handle_unary_def record_unmatched_def proxy_fallback_will_serve_def)
    then show thesis
      using that(1) [of "s1\<lparr>ms_engine := ms_engine s\<rparr>"] s1 skip
      by (simp add: handle_unary_with_proxy_def mode capture_should_proxy_unary_by_headers_def
          new_unary_fallback_error_def capture_miss_def)
  qed
qed

section \<open>Capture, then replay\<close>

text \<open>The stub a call is captured as.\<close>

definition captured_unary :: "'m upstream \<Rightarrow> mocker \<Rightarrow> call_ctx \<Rightarrow> gmap \<Rightarrow> 'm \<Rightarrow> stub" where
  "captured_unary U M cx req msg =
     (let reply = up_invoke U (forward_incoming_metadata cx) req
      in build_unary_stub M (ctx_session cx) req (capture_headers cx) (up_any U msg)
           (capture_metadata (re_Header reply) (re_Trailer reply)) None)"

lemma captured_unary_fields:
  "ID (captured_unary U M cx req msg) = 0" "Priority (captured_unary U M cx req msg) = 0"
  "Service (captured_unary U M cx req msg) = mk_Service M" "Method (captured_unary U M cx req msg) = mk_Method M"
  "Session (captured_unary U M cx req msg) = ctx_session cx" "Times (captured_unary U M cx req msg) = 0"
  "Headers (captured_unary U M cx req msg) = empty_header\<lparr>Equals := optional_map (capture_headers cx)\<rparr>"
  "Input (captured_unary U M cx req msg) = empty_input\<lparr>Equals := Some req\<rparr>"
  "Inputs (captured_unary U M cx req msg) = None" "Effects (captured_unary U M cx req msg) = []"
  "\<not> HasUnaryHandler (captured_unary U M cx req msg)" "Data (Output (captured_unary U M cx req msg)) = up_any U msg"
  by (simp_all add: captured_unary_def Let_def build_unary_stub_def build_proxy_stub_def empty_stub_def
      apply_status_error_def captured_output_def)

lemma proxied_engine:
  assumes "re_Result (up_invoke U (forward_incoming_metadata cx) req) = Inr msg" and "\<not> up_RecordDelay U"
  shows "ms_engine (snd (proxy_unary L U M cx path req True t)) =
     snd (put_many (ml_lib L) (ms_fresh t) [captured_unary U M cx req msg] (ms_engine t))"
proof -
  have meta: "ms_engine (set_stream_metadata L path h r s) = ms_engine s" "ms_fresh (set_stream_metadata L path h r s) = ms_fresh s"
    for h r s
    by (simp_all add: set_stream_metadata_def set_trailer_def set_header_logged_def split: call_path.split)
  have hist: "ms_engine (record_unary_proxy_history L U M cx ts req reply s) = ms_engine s" for ts reply s
    by (simp add: record_unary_proxy_history_def record_proxy_call_def record_in_history_def split_def Let_def
        split: sum.split)
  have ses: "ms_fresh (snd (session_from_context cx s)) = ms_fresh s" for s
    by (simp add: session_from_context_def Let_def split: option.split)
  show ?thesis
    using assms
    by (simp add: proxy_unary_def Let_def hist record_unary_stub_def capturable_result_def split_def
        record_captured_stub_def captured_unary_def meta ses)
qed

text \<open>C4. Capture, then replay: on a capturing route, a unary call that no stub answers and the upstream does
  is stored as a stub, and the same call again, at any later time with the stubs as the first call left
  them, is answered from it with the message of the upstream and without asking the upstream. This
  needs a response without template text whose JSON form encodes back to it.\<close>

theorem captured_call_replays:
  assumes "mk_Route M = Some ModeCapture" and "mk_Service M \<noteq> health_service"
    and "searcher_ok (ml_lib L) (ms_engine s)" "runtime_ok (ml_runtime L)"
    and "hash_separates (ml_lib L) (search_names (ms_engine s) (unary_query M cx req))"
    and "\<forall>v\<in>answerable (ms_engine s) (unary_query M cx req). \<not> fast_match_v2 (ml_lib L) (unary_query M cx req) v"
    and "ms_fresh s = i # rest" "i \<noteq> 0" "stub_map (ext (ms_engine s)) i = None"
    and "metadata_ok cx" "gvalue_ok (VMap req)" "\<not> up_RecordDelay U"
    and "re_Result (up_invoke U (forward_incoming_metadata cx) req) = Inr msg"
    and "plain_output (Output (captured_unary U M cx req msg))" "ml_encode L (up_any U msg) = Inr msg"
    and "\<forall>md. ml_header L md = None"
    and first: "handle_unary_with_proxy L U M cx path req s = ((Inr msg, extra), s')"
    and "index_uniform (ml_lib L) (ms_engine s') (unary_query M cx req)"
    and "\<forall>v\<in>eligible (ms_engine s') (unary_query M cx req). index_safe (ml_lib L) v"
    and "ms_engine t = ms_engine s'"
  shows "stub_map (ext (ms_engine s')) = (stub_map (ext (ms_engine s)))(i \<mapsto> (captured_unary U M cx req msg)\<lparr>ID := i\<rparr>) \<and>
     fst (handle_unary_with_proxy L U M cx path' req t) = (Inr msg, [])"
proof -
  let ?q = "unary_query M cx req" and ?g = "ml_lib L" and ?r = "ml_runtime L" and ?e = "ms_engine s"
  let ?w = "(captured_unary U M cx req msg)\<lparr>ID := i\<rparr>"
  have sok: "storage_ok ?g (ext ?e)" using assms(3) by (simp add: searcher_ok_def)
  have q: "q_ID ?q = None" "\<not> allows_internal_stubs ?q" "q_Service ?q = mk_Service M" "q_Method ?q = mk_Method M"
      "q_Session ?q = ctx_session cx" "q_Headers ?q = context_headers cx" "q_Input ?q = [req]"
    by (simp_all add: unary_query_def allows_internal_stubs_def)
  obtain t0 where t0: "handle_unary_with_proxy L U M cx path req s = proxy_unary L U M cx path req True t0"
      "ms_engine t0 = ?e" "ms_fresh t0 = ms_fresh s"
    and nopanic: "has_capture_request_headers cx \<Longrightarrow> fst (inspect ?g ?r ?q ?e) \<noteq> None"
    by (rule miss_is_proxied [OF assms(1,2) sok assms(4-6), of U path]) (use first in auto)
  have "ms_engine s' = snd (put_many ?g (i # rest) [captured_unary U M cx req msg] ?e)"
    using proxied_engine [OF assms(13,12), of L M path t0] first t0 assms(7) by simp
  note put = put_fresh [OF assms(3) captured_unary_fields(1) _ assms(8,9) this]
  have w: "stub_map (ext (ms_engine s')) = (stub_map (ext ?e))(i \<mapsto> ?w)" "searcher_ok ?g (ms_engine s')"
      "stored (ext (ms_engine s')) = insert ?w (stored (ext ?e))" "call_count (ms_engine s') k = call_count ?e k" for k
    by (rule put, simp add: priority_ok_def captured_unary_fields)+
  have match: "fast_match_v2 ?g ?q ?w"
    by (rule captured_unary_matches [OF assms(10) q(6,7) assms(11)]) (simp_all add: captured_unary_fields)
  note best = captured_is_best [OF assms(5,6) _ _ _ _ match w(3,4)]
  have best: "best_match ?g ?q (answerable (ms_engine s') ?q) ?w" "search_names (ms_engine s') ?q = search_names ?e ?q"
    by (rule best, simp_all add: captured_unary_fields q effective_times_def)+
  have sep: "hash_separates ?g (search_names (ms_engine s') ?q)" using assms(5) best(2) by simp
  have found: "found_id (fst (find_query ?g ?r ?q (ms_engine s'))) = Some i"
    using find_query_best [OF w(2) sep assms(4,18,19) q(1,2) best(1)] by (simp add: found_id_def found_result_def)
  have decide: "\<exists>t1. capture_should_proxy_unary_by_headers L M cx req t = (Some False, t1) \<and> ms_engine t1 = ms_engine s'"
  proof (cases "has_capture_request_headers cx")
    case True
    have "fst (inspect ?g ?r ?q (ms_engine s')) \<noteq> None"
      using nopanic [OF True] w(4)
      by (auto simp: inspect_fails_iff [OF sok assms(5)]
          inspect_fails_iff [OF w(2) [unfolded searcher_ok_def, THEN conjunct1] sep] w(3) q captured_unary_fields
          not_exhausted_def)
    then obtain rep where rep: "fst (inspect ?g ?r ?q (ms_engine s')) = Some rep" by blast
    have "ir_MatchedStubID rep = Some i" "snd (inspect ?g ?r ?q (ms_engine s')) = ms_engine s'"
      using inspect_matched [OF assms(4) q(2), of ?g "ms_engine s'"] rep found by auto
    moreover have "find_by_id (ext (ms_engine s')) i = Some ?w" by (simp add: find_by_id_map w(1))
    moreover have "header_len (Headers ?w) \<noteq> 0"
      using True by (auto simp: captured_unary_fields header_len_def matcher_keys_def optional_map_def
          has_capture_request_headers_def empty_header_def)
    ultimately show ?thesis
      using rep True new_query_frame(6) [of M cx req t] assms(20)
      by (simp add: capture_should_proxy_unary_by_headers_def split_def Let_def new_query_unary [OF assms(2)])
  qed (simp add: capture_should_proxy_unary_by_headers_def assms(20))
  then obtain t1 where t1: "capture_should_proxy_unary_by_headers L M cx req t = (Some False, t1)"
      "ms_engine t1 = ms_engine s'" by blast
  have "fst (handle_unary L M cx streaming req t1) = Inr msg" for streaming
    by (rule handle_unary_best [where q = ?q and v = ?w, THEN conjunct1])
      (use t1 w(2) assms sep best(1) in \<open>simp_all add: new_query_unary captured_unary_fields\<close>)
  then have "fst (handle_unary_with_proxy L U M cx path' req t) = (Inr msg, [])"
    using t1(1) assms(1)
    by (simp add: handle_unary_with_proxy_def route_mode_def split_def Let_def split: prod.split sum.split)
  with w(1) show ?thesis by blast
qed

text \<open>An upstream whose messages are values, as those of the sample parameters.\<close>

definition sample_upstream :: "gvalue upstream" where
  "sample_upstream =
     \<lparr>up_invoke = (\<lambda>_ req. \<lparr>re_Result = Inr (VMap [(''a'', VString ''1'')]), re_Header = [(''h'', [''x''])],
        re_Trailer = [], re_Elapsed = 5\<rparr>),
      up_open = (\<lambda>_. None), up_send = (\<lambda>_. None), up_close = None,
      up_stream = (\<lambda>_ _. \<lparr>sr_Header = Inr [], sr_Messages = [(1, VMap [(''a'', VString ''1'')])], sr_End = None,
        sr_EndAfter = 0, sr_Trailer = []\<rparr>),
      up_any = (\<lambda>v. v), up_map = (\<lambda>v. case v of VMap m \<Rightarrow> Some m | _ \<Rightarrow> None), up_delay = (\<lambda>_. ''1ms''),
      up_RecordDelay = False\<rparr>"

definition capture_ctx :: call_ctx where
  "capture_ctx = \<lparr>cx_MD = Some [(''k'', [''v''])], cx_Done = None\<rparr>"

definition capture_mocker :: mocker where
  "capture_mocker = sample_mocker\<lparr>mk_Route := Some ModeCapture\<rparr>"

definition capture_request :: gmap where
  "capture_request = [(''name'', VString ''bob'')]"

definition captured_state :: "gvalue mock_state" where
  "captured_state = snd (handle_unary_with_proxy sample_mock sample_upstream capture_mocker capture_ctx Plain_Call
     capture_request (sample_state (sample_searcher [])))"

lemmas capture_defs = capture_ctx_def capture_mocker_def capture_request_def sample_upstream_def sample_mocker_def
  sample_mock_def

lemma captured_call_replays_witness:
  "fst (handle_unary_with_proxy sample_mock sample_upstream capture_mocker capture_ctx Http_Call capture_request
     captured_state) = (Inr (VMap [(''a'', VString ''1'')]), [])"
proof -
  let ?s = "sample_state (sample_searcher [])" and ?q = "unary_query capture_mocker capture_ctx capture_request"
  let ?w = "captured_unary sample_upstream capture_mocker capture_ctx capture_request (VMap [(''a'', VString ''1'')])"
  have eng: "ms_engine ?s = sample_searcher []" by (simp add: sample_state_def)
  have lib: "ml_lib sample_mock = sample_lib" "ml_runtime sample_mock = sample_runtime" by (simp_all add: sample_mock_def)
  have ok: "searcher_ok sample_lib (sample_searcher [])"
    by (simp add: sample_searcher_def searcher_ok_def storage_ok_new storage_ok_upsert)
  have m: "stub_map (ext (sample_searcher [])) = Map.empty"
    by (simp add: sample_searcher_def stub_map_upsert) (simp add: stub_map_def new_storage_def)
  have names: "search_names (sample_searcher []) ?q = {''Greeter'', ''Say''}"
    by (auto simp: search_names_def names_of_def stored_def m service_forms_def unary_query_def capture_defs)
  have sep: "hash_separates sample_lib (search_names (sample_searcher []) ?q)"
    unfolding names by (simp add: hash_separates_def hash_id_def sample_lib_def) code_simp
  have miss: "answerable (sample_searcher []) ?q = {}"
    by (simp add: answerable_def stored_def m)
  have calm: "fst (inspect sample_lib sample_runtime ?q (sample_searcher [])) \<noteq> None"
    using ok by (simp add: inspect_fails_iff [OF _ sep] searcher_ok_def stored_def m)
  have result: "re_Result (up_invoke sample_upstream (forward_incoming_metadata capture_ctx) capture_request) =
      Inr (VMap [(''a'', VString ''1'')])"
    by (simp add: capture_defs)
  have route: "mk_Route capture_mocker = Some ModeCapture"
    by (simp add: capture_mocker_def)
  have health: "mk_Service capture_mocker \<noteq> health_service"
    by (simp add: capture_defs health_service_def)
  have fresh: "ms_fresh ?s = 100 # [101]" by (simp add: sample_state_def)
  have calmer: "\<not> up_RecordDelay sample_upstream" by (simp add: sample_upstream_def)
  have first: "handle_unary_with_proxy sample_mock sample_upstream capture_mocker capture_ctx Plain_Call
      capture_request ?s = ((Inr (VMap [(''a'', VString ''1'')]), []), captured_state)"
  proof -
    have "fst (handle_unary_with_proxy sample_mock sample_upstream capture_mocker capture_ctx Plain_Call
        capture_request ?s) = (Inr (VMap [(''a'', VString ''1'')]), [])"
      by (rule miss_is_proxied [of capture_mocker sample_mock ?s capture_ctx capture_request sample_upstream Plain_Call])
        (use ok sep calm miss sample_runtime_ok in
          \<open>simp_all add: eng lib searcher_ok_def proxy_unary_def Let_def route health result\<close>)
    then show ?thesis by (simp add: captured_state_def prod_eq_iff)
  qed
  obtain t0 where t0: "handle_unary_with_proxy sample_mock sample_upstream capture_mocker capture_ctx Plain_Call
      capture_request ?s = proxy_unary sample_mock sample_upstream capture_mocker capture_ctx Plain_Call
      capture_request True t0" "ms_engine t0 = sample_searcher []" "ms_fresh t0 = 100 # [101]"
    by (rule miss_is_proxied [of capture_mocker sample_mock ?s capture_ctx capture_request sample_upstream Plain_Call])
      (use ok sep calm miss sample_runtime_ok in \<open>simp_all add: eng lib searcher_ok_def fresh route health\<close>)
  have "ms_engine captured_state = snd (put_many sample_lib (100 # [101]) [?w] (sample_searcher []))"
    using proxied_engine [OF result calmer, of sample_mock capture_mocker Plain_Call t0] t0 by (simp add: lib captured_state_def)
  note put = put_fresh [OF ok captured_unary_fields(1) _ _ _ this]
  have stored: "stored (ext (ms_engine captured_state)) = {?w\<lparr>ID := 100\<rparr>}"
    by (subst put(3)) (simp_all add: priority_ok_def captured_unary_fields m stored_def)
  have safe: "index_safe sample_lib (?w\<lparr>ID := 100\<rparr>)"
    by code_simp
  have plain: "plain_output (Output ?w)" by code_simp
  have "\<forall>v\<in>eligible (ms_engine captured_state) ?q. index_safe sample_lib v"
    using safe by (auto simp: eligible_def available_def stored)
  moreover have "index_uniform sample_lib (ms_engine captured_state) ?q"
    by (rule index_uniform_plain) (code_simp)
  moreover have "metadata_ok capture_ctx" "gvalue_ok (VMap capture_request)"
    by (simp_all add: capture_defs metadata_ok_def m_ok_def)
  ultimately have "fst (handle_unary_with_proxy sample_mock sample_upstream capture_mocker capture_ctx Http_Call
      capture_request captured_state) = (Inr (VMap [(''a'', VString ''1'')]), [])"
    by (intro captured_call_replays [OF route health _ _ _ _ fresh _ _ _ _ calmer result _ _ _ first,
            of captured_state Http_Call, THEN conjunct2])
      (use ok sep miss plain sample_runtime_ok in \<open>simp_all add: eng lib m, simp_all add: sample_mock_def sample_upstream_def\<close>)
  then show ?thesis .
qed

end
