(* ===== verification/Proxy_Relay.thy ===== *)
theory Proxy_Relay
  imports Proxy_Claims
begin

text \<open>
  What a proxied call passes on, captures and records: the answer of the upstream, in order, one record
  per call, and where the captured stub or the passed-on trailers are not what the caller saw.
\<close>

section \<open>One record\<close>

lemma context_session_frame [simp]:
  "ms_history (snd (session_from_context cx s)) = ms_history s"
  "ms_engine (snd (session_from_context cx s)) = ms_engine s"
  "ms_fresh (snd (session_from_context cx s)) = ms_fresh s"
  "ms_sent (snd (session_from_context cx s)) = ms_sent s"
  "ms_now (snd (session_from_context cx s)) = ms_now s"
  by (simp_all add: session_from_context_def Let_def split: option.split)

lemma record_captured_stub_frame [simp]:
  "ms_history (record_captured_stub L U v rd e s) = ms_history s"
  "ms_sent (record_captured_stub L U v rd e s) = ms_sent s"
  by (simp_all add: record_captured_stub_def Let_def)

lemma metadata_frame [simp]:
  "ms_history (set_stream_metadata L path h r s) = ms_history s"
  "ms_engine (set_stream_metadata L path h r s) = ms_engine s"
  "ms_history (forward_upstream_trailer path r s) = ms_history s"
  "ms_engine (forward_upstream_trailer path r s) = ms_engine s"
  "ms_fresh (forward_upstream_trailer path r s) = ms_fresh s"
  "ms_sent (forward_upstream_trailer path r s) = ms_sent s"
  by (simp_all add: set_stream_metadata_def set_trailer_def set_header_logged_def forward_upstream_trailer_def
      split: call_path.split)

lemma record_proxy_call_frame [simp]:
  "ms_engine (record_proxy_call L M cx ts reqs resps hdrs err s) = ms_engine s"
  "ms_sent (record_proxy_call L M cx ts reqs resps hdrs err s) = ms_sent s"
  by (simp_all add: record_proxy_call_def record_in_history_def split_def Let_def)

text \<open>The record of a proxied call that ended with \<open>err\<close>.\<close>

definition proxy_recorded ::
  "'m mock_lib \<Rightarrow> mocker \<Rightarrow> call_ctx \<Rightarrow> gmap list \<Rightarrow> gomap list \<Rightarrow> call_error option \<Rightarrow> 'm mock_state \<Rightarrow> 'm mock_state
     \<Rightarrow> bool" where
  "proxy_recorded L M cx reqs resps err s s' \<longleftrightarrow>
     (if mk_Recorder M \<and> \<not> has_prefix (mk_FullMethod M) health_service_prefix then
        \<exists>c. ms_history s' = record_owned (ml_json_len L) c (ms_history s) \<and>
          c_Service c = mk_Service M \<and> c_Method c = mk_Method M \<and> c_Session c = ctx_session cx \<and>
          c_Requests c = map Some reqs \<and> c_Responses c = resps \<and> c_Code c = error_code_of err \<and>
          c_Error c = error_text_of err
      else ms_history s' = ms_history s)"

lemma proxy_recordedI:
  "ms_history s = ms_history s0 \<Longrightarrow> rs = map Some reqs \<Longrightarrow>
     proxy_recorded L M cx reqs resps err s0 (record_proxy_call L M cx ts rs resps hdrs err s)"
  by (auto simp: proxy_recorded_def record_proxy_call_def record_in_history_def split_def Let_def)

text \<open>A proxied unary call is answered with what the upstream answered, and, unless it is a health
  check, is recorded exactly once, with the request, the message as the only response, and the code
  and text of the error of the upstream; without capturing, the stubs stay as they are.\<close>

lemma proxied_unary_recorded:
  "let reply = up_invoke U (forward_incoming_metadata cx) req;
       ((result, extra), s') = proxy_unary L U M cx path req capture s
   in result = re_Result reply \<and>
     proxy_recorded L M cx [req]
       (case result of Inl e \<Rightarrow> [] | Inr msg \<Rightarrow> if up_map U msg = None then [] else [up_map U msg])
       (case result of Inl e \<Rightarrow> Some e | Inr msg \<Rightarrow> None) s s' \<and>
     (if capture then True else ms_engine s' = ms_engine s)"
  by (auto simp: proxy_unary_def Let_def record_unary_proxy_history_def record_unary_stub_def split_def
      intro!: proxy_recordedI split: sum.split)

section \<open>Server streams\<close>

text \<open>The messages sent are a prefix of those of the upstream, and each was buffered before it was sent.\<close>

lemma buffer_responses:
  "ry_responses (buffer_proxy_stream_message U capture history entry d r) =
     ry_responses r @ (if capture then [if up_RecordDelay U \<and> is_map_value entry then mark_delay (up_delay U d) entry
       else entry] else [])"
  "ry_last (buffer_proxy_stream_message U capture history entry d r) = ry_last r"
  by (auto simp: buffer_proxy_stream_message_def Let_def split: gvalue.split)

lemma relay_messages_frame:
  "relay_messages L U capture history ms r s = (err, r', s') \<Longrightarrow>
     ms_history s' = ms_history s \<and> ms_engine s' = ms_engine s \<and> ms_fresh s' = ms_fresh s"
proof (induction L U capture history ms r s rule: relay_messages.induct)
  case (2 L U capture history d msg rest r s)
  then show ?case
    by (auto simp: Let_def send_message_def split: option.splits if_splits)
qed simp

lemma buffer_history:
  assumes "length (ry_history r) \<le> max_history_stream_msgs"
  shows "ry_history (buffer_proxy_stream_message U capture True entry d r) =
     take max_history_stream_msgs (ry_history r @ map_values [entry])"
  using assms by (auto simp: buffer_proxy_stream_message_def Let_def map_values_def List.map_filter_def split: gvalue.split)

lemma map_values_append: "map_values (xs @ ys) = map_values xs @ map_values ys"
  by (simp add: map_values_def List.map_filter_def)

lemma take_append_take: "take k (take k xs @ ys) = take k (xs @ ys)"
  by (simp add: min_def)

text \<open>The first hundred values of a list of messages are what the history keeps of it.\<close>

definition kept_history :: "'m upstream \<Rightarrow> 'm list \<Rightarrow> gomap list" where
  "kept_history U msgs = take max_history_stream_msgs (map_values (map (up_any U) msgs))"

lemma relay_messages_sent:
  assumes "relay_messages L U capture history ms r s = (err, r', s')" and "ry_history r = kept_history U before"
  shows "\<exists>n m. ms_sent s' = ms_sent s @ map snd (take n ms) \<and> (err = None \<longrightarrow> n = length ms) \<and> n \<le> m \<and> m \<le> n + 1 \<and>
     ry_history r' = (if history then kept_history U (before @ map snd (take m ms)) else ry_history r)"
  using assms
proof (induction L U capture history ms r s arbitrary: before rule: relay_messages.induct)
  case (2 L U capture history d msg rest r s)
  define t where "t = s\<lparr>ms_now := ms_now s + d\<rparr>"
  define b where "b = (if capture \<or> history
    then buffer_proxy_stream_message U capture history (up_any U msg) (ms_now t - ry_last r) r else r)"
  define r1 where "r1 = b\<lparr>ry_last := ms_now t\<rparr>"
  have len: "length (ry_history r) \<le> max_history_stream_msgs"
    using 2(3) by (simp add: kept_history_def)
  have hist: "ry_history r1 = (if history then kept_history U (before @ [msg]) else ry_history r)"
  proof (cases history)
    case True
    then show ?thesis
      using buffer_history [OF len] 2(3)
      by (simp add: r1_def b_def kept_history_def map_values_append take_append_take del: take_append)
  next
    case False
    then show ?thesis
      by (simp add: r1_def b_def buffer_proxy_stream_message_def Let_def split: gvalue.split)
  qed
  show ?case
  proof (cases "ml_send L (length (ms_sent s))")
    case None
    define t' where "t' = t\<lparr>ms_sent := ms_sent s @ [msg]\<rparr>"
    have sent: "send_message L msg t = (Inr (), t')"
      using None by (simp add: send_message_def t_def t'_def)
    then have rest: "relay_messages L U capture history rest r1 t' = (err, r', s')"
      using 2(2) by (simp add: Let_def t_def [symmetric] b_def [symmetric] r1_def [symmetric])
    have "ry_history r1 = kept_history U (if history then before @ [msg] else before)"
      using hist 2(3) by simp
    from 2(1) [OF t_def b_def r1_def sent [symmetric] refl rest this]
    obtain n m where "ms_sent s' = ms_sent t' @ map snd (take n rest)" "err = None \<longrightarrow> n = length rest"
        "n \<le> m" "m \<le> n + 1"
        "ry_history r' = (if history then kept_history U ((if history then before @ [msg] else before) @ map snd (take m rest))
          else ry_history r1)"
      by blast
    then show ?thesis
      using hist by (intro exI [of _ "Suc n"] exI [of _ "Suc m"]) (auto simp: t'_def t_def)
  next
    case (Some e)
    then have "err = Some e" "r' = r1" "s' = t"
      using 2(2) by (simp_all add: Let_def t_def [symmetric] b_def [symmetric] r1_def [symmetric])
        (auto simp: send_message_def t_def r1_def b_def)
    then show ?thesis
      using hist by (intro exI [of _ 0] exI [of _ 1]) (simp add: t_def)
  qed
qed auto

lemma relay_messages_captured:
  "relay_messages L U True history ms r s = (None, r', s') \<Longrightarrow>
     \<exists>vs. ry_responses r' = ry_responses r @ vs \<and> list_all2 (captured_as U) (map snd ms) vs"
proof (induction L U True history ms r s rule: relay_messages.induct)
  case (2 L U history d msg rest r s)
  define t where "t = s\<lparr>ms_now := ms_now s + d\<rparr>"
  define r1 where "r1 = (buffer_proxy_stream_message U True history (up_any U msg) (ms_now t - ry_last r) r)\<lparr>ry_last := ms_now t\<rparr>"
  obtain t' where sent: "send_message L msg t = (Inr (), t')" and rest: "relay_messages L U True history rest r1 t' = (None, r', s')"
    using 2(2) by (auto simp: Let_def t_def [symmetric] r1_def [symmetric] split: prod.splits sum.splits)
  from 2(1) [OF t_def _ r1_def, of "Inr ()" t' "()"] rest sent
  obtain vs where vs: "ry_responses r' = ry_responses r1 @ vs" "list_all2 (captured_as U) (map snd rest) vs"
    by (auto simp: r1_def)
  then show ?case
    by (auto simp: r1_def buffer_responses captured_as_def)
qed simp

text \<open>The stub a captured server stream is stored as.\<close>

definition captured_stream ::
  "'m upstream \<Rightarrow> mocker \<Rightarrow> call_ctx \<Rightarrow> gmap \<Rightarrow> 'm list \<Rightarrow> stub \<Rightarrow> bool" where
  "captured_stream U M cx req msgs v \<longleftrightarrow>
     Service v = mk_Service M \<and> Method v = mk_Method M \<and> Session v = ctx_session cx \<and>
     Input v = empty_input\<lparr>Equals := Some req\<rparr> \<and> Error (Output v) = '''' \<and> Code (Output v) = None \<and>
     (\<exists>vs. Stream (Output v) = Some vs \<and> list_all2 (captured_as U) msgs vs)"

lemma record_captured_stub_engine:
  "\<exists>d. ms_engine (record_captured_stub L U v rd e s) = snd (put_many (ml_lib L) (ms_fresh s)
     [v\<lparr>Output := (Output v)\<lparr>Delay := d\<rparr>\<rparr>] (ms_engine s))"
proof -
  have "v\<lparr>Output := (Output v)\<lparr>Delay := Delay (Output v)\<rparr>\<rparr> = v" by simp
  then show ?thesis unfolding record_captured_stub_def Let_def by (auto intro: exI [of _ "Delay (Output v)"])
qed

lemma relay_server_stream_sent:
  assumes "relay_server_stream L U M cx path req capture ts reply s = (err, r, s')"
  shows "ms_history s' = ms_history s"
    and "\<exists>n m. ms_sent s' = ms_sent s @ map snd (take n (sr_Messages reply)) \<and> n \<le> m \<and> m \<le> n + 1 \<and>
      (err = None \<longrightarrow> n = length (sr_Messages reply)) \<and>
      ry_history r = (if mk_Recorder M then kept_history U (map snd (take m (sr_Messages reply))) else [])"
    and "\<not> capture \<Longrightarrow> ms_engine s' = ms_engine s"
    and "capture \<Longrightarrow> err = None \<Longrightarrow> \<exists>v. captured_stream U M cx req (map snd (sr_Messages reply)) v \<and>
      ms_engine s' = snd (put_many (ml_lib L) (ms_fresh s) [v] (ms_engine s))"
proof -
  define start where "start = \<lparr>ry_responses = [], ry_history = [], ry_recorded = False, ry_last = ts\<rparr>"
  define s1 where "s1 = snd (session_from_context cx s)"
  have ses: "session_from_context cx s = (ctx_session cx, s1)"
    by (simp add: s1_def prod_eq_iff)
  have f1: "ms_history s1 = ms_history s" "ms_sent s1 = ms_sent s" "ms_engine s1 = ms_engine s" "ms_fresh s1 = ms_fresh s"
    by (simp_all add: s1_def)
  obtain e r2 s2 where m: "relay_messages L U capture (mk_Recorder M) (sr_Messages reply) start s1 = (e, r2, s2)"
    by (cases "relay_messages L U capture (mk_Recorder M) (sr_Messages reply) start s1") blast
  note f2 = relay_messages_frame [OF m] f1
  have fin: "r = r2" "ms_history s' = ms_history s2" "ms_sent s' = ms_sent s2" "err = None \<Longrightarrow> e = None"
      "\<not> capture \<Longrightarrow> ms_engine s' = ms_engine s2"
    using assms m
    by (cases capture; auto simp: relay_server_stream_def ses start_def [symmetric] Let_def split: option.splits if_splits)+
  show "ms_history s' = ms_history s" "\<not> capture \<Longrightarrow> ms_engine s' = ms_engine s"
    using f2 fin by auto
  have "ry_history start = kept_history U []" by (simp add: start_def kept_history_def map_values_def)
  from relay_messages_sent [OF m this]
  obtain n k where nk: "ms_sent s2 = ms_sent s1 @ map snd (take n (sr_Messages reply))"
      "e = None \<longrightarrow> n = length (sr_Messages reply)" "n \<le> k" "k \<le> n + 1"
      "ry_history r2 = (if mk_Recorder M then kept_history U ([] @ map snd (take k (sr_Messages reply))) else ry_history start)"
    by blast
  show "\<exists>n m. ms_sent s' = ms_sent s @ map snd (take n (sr_Messages reply)) \<and> n \<le> m \<and> m \<le> n + 1 \<and>
      (err = None \<longrightarrow> n = length (sr_Messages reply)) \<and>
      ry_history r = (if mk_Recorder M then kept_history U (map snd (take m (sr_Messages reply))) else [])"
    by (rule exI [of _ n], rule exI [of _ k]) (use nk fin f1 in \<open>simp add: start_def\<close>)
  assume c: "capture" "err = None"
  then have "relay_messages L U True (mk_Recorder M) (sr_Messages reply) start s1 = (None, r2, s2)"
    using m fin by simp
  from relay_messages_captured [OF this]
  have vs: "list_all2 (captured_as U) (map snd (sr_Messages reply)) (ry_responses r2)"
    by (simp add: start_def)
  define w where "w = build_server_stream_stub M (ctx_session cx) req (capture_headers cx) (ry_responses r2)
    (capture_metadata_from_stream reply) None"
  obtain t rd el where t: "s' = record_captured_stub L U w rd el t" "ms_engine t = ms_engine s" "ms_fresh t = ms_fresh s"
    using assms c fin(4) f2 m
    by (auto simp: relay_server_stream_def ses start_def [symmetric] Let_def w_def split: option.splits if_splits)
  have w: "captured_stream U M cx req (map snd (sr_Messages reply)) (w\<lparr>Output := (Output w)\<lparr>Delay := d\<rparr>\<rparr>)" for d
    using vs by (simp add: w_def captured_stream_def build_server_stream_stub_def build_proxy_stub_def empty_stub_def
        apply_status_error_def captured_output_def empty_output_def)
  show "\<exists>v. captured_stream U M cx req (map snd (sr_Messages reply)) v \<and>
      ms_engine s' = snd (put_many (ml_lib L) (ms_fresh s) [v] (ms_engine s))"
    using record_captured_stub_engine [of L U w rd el t] t w by auto
qed

lemma relay_header_frame:
  "relay_header L h s = (x, t) \<Longrightarrow> ms_sent t = ms_sent s \<and> ms_history t = ms_history s \<and> ms_engine t = ms_engine s \<and>
     ms_fresh t = ms_fresh s"
  by (auto simp: relay_header_def split: sum.splits if_splits option.splits)

text \<open>C13. A proxied server stream: whatever happens, the caller gets a prefix of the messages of the upstream,
  in order, and there is one record, with what the caller is told at the end; its responses are the
  first hundred of those messages, one more at most than the caller got. When it ends without an
  error the caller got them all, and on a capturing route a stub is stored for the request that
  streams exactly them; without capturing no stub changes.\<close>

theorem server_stream_relayed:
  assumes "proxy_server_stream_with_request L U M cx path req capture s = (err, s')"
    and "up_stream U (forward_incoming_metadata cx) [req] = reply"
  shows "(\<exists>n m. ms_sent s' = ms_sent s @ map snd (take n (sr_Messages reply)) \<and> n \<le> m \<and> m \<le> n + 1 \<and>
        (err = None \<longrightarrow> n = length (sr_Messages reply)) \<and>
        proxy_recorded L M cx [req] (if mk_Recorder M then kept_history U (map snd (take m (sr_Messages reply))) else [])
          err s s') \<and>
     (if capture then err = None \<longrightarrow> (\<exists>v. captured_stream U M cx req (map snd (sr_Messages reply)) v \<and>
          ms_engine s' = snd (put_many (ml_lib L) (ms_fresh s) [v] (ms_engine s)))
      else ms_engine s' = ms_engine s)"
proof -
  have none: "(if mk_Recorder M then kept_history U (map snd (take 0 (sr_Messages reply))) else []) = []"
    by (simp add: kept_history_def map_values_def)
  have early: ?thesis if "err = Some e" "ms_sent t = ms_sent s" "ms_history t = ms_history s" "ms_engine t = ms_engine s"
      "s' = record_proxy_call L M cx (ms_now s) [Some req] [] hdrs (Some e) t" for e t hdrs
    using that by (intro conjI exI [of _ 0]) (auto simp: none intro!: proxy_recordedI)
  note unfold = assms(1) [unfolded proxy_server_stream_with_request_def Let_def assms(2)]
  show ?thesis
  proof (cases "up_open U (forward_incoming_metadata cx)")
    case (Some e)
    then show ?thesis using unfold by (intro early [where t = s]) auto
  next
    case open_ok: None
    show ?thesis
    proof (cases "up_send U 0")
      case (Some e)
      then show ?thesis using unfold open_ok by (intro early [where t = s]) auto
    next
      case send_ok: None
      show ?thesis
      proof (cases "up_close U")
        case (Some e)
        then show ?thesis using unfold open_ok send_ok by (intro early [where t = s]) auto
      next
        case close_ok: None
        obtain h t where h: "relay_header L (sr_Header reply) s = (h, t)" by (cases "relay_header L (sr_Header reply) s")
        note frame = relay_header_frame [OF h]
        show ?thesis
        proof (cases h)
          case (Inl e)
          then show ?thesis using unfold open_ok send_ok close_ok h frame by (intro early [where t = t]) auto
        next
          case (Inr u)
          obtain err' r t' where relay: "relay_server_stream L U M cx path req capture (ms_now s) reply t = (err', r, t')"
            by (cases "relay_server_stream L U M cx path req capture (ms_now s) reply t") blast
          have fin: "err' = err" "s' = record_proxy_call L M cx (ms_now s) [Some req] (ry_history r)
              (response_headers_from_stream reply) err t'"
            using unfold open_ok send_ok close_ok h Inr relay by auto
          note sent = relay_server_stream_sent [OF relay [unfolded fin(1)]]
          have "proxy_recorded L M cx [req] (ry_history r) err s s'"
            using fin frame sent(1) by (auto intro!: proxy_recordedI)
          moreover from sent(2) obtain n m where "ms_sent t' = ms_sent t @ map snd (take n (sr_Messages reply))"
              "n \<le> m" "m \<le> n + 1" "err = None \<longrightarrow> n = length (sr_Messages reply)"
              "ry_history r = (if mk_Recorder M then kept_history U (map snd (take m (sr_Messages reply))) else [])"
            by blast
          moreover have "ms_sent s' = ms_sent t'" "ms_engine s' = ms_engine t'" using fin(2) by simp_all
          ultimately show ?thesis
            using sent(3,4) frame by (intro conjI exI [of _ n] exI [of _ m]) simp_all
        qed
      qed
    qed
  qed
qed

lemma server_stream_relayed_witness:
  "\<exists>s'. snd (proxy_server_stream_with_request sample_mock sample_upstream capture_mocker capture_ctx Plain_Call
       capture_request True (sample_state (sample_searcher []))) = s' \<and>
     proxy_recorded sample_mock capture_mocker capture_ctx [capture_request] [Some [(''a'', VString ''1'')]] None
       (sample_state (sample_searcher [])) s' \<and>
     (\<exists>v. captured_stream sample_upstream capture_mocker capture_ctx capture_request [VMap [(''a'', VString ''1'')]] v \<and>
       ms_engine s' = snd (put_many sample_lib [100, 101] [v] (sample_searcher [])))"
proof -
  let ?s = "sample_state (sample_searcher [])" and ?md = "forward_incoming_metadata capture_ctx"
  let ?p = "proxy_server_stream_with_request sample_mock sample_upstream capture_mocker capture_ctx Plain_Call
    capture_request True ?s"
  obtain err s' where p: "?p = (err, s')" by (cases ?p)
  have msgs: "sr_Messages (up_stream sample_upstream ?md [capture_request]) = [(1, VMap [(''a'', VString ''1'')])]"
    by (simp add: sample_upstream_def)
  have err: "err = None"
    using p by (auto simp: proxy_server_stream_with_request_def relay_server_stream_def relay_header_def send_message_def
        sample_upstream_def sample_mock_def Let_def split: prod.splits)
  have resps: "kept_history sample_upstream [VMap [(''a'', VString ''1'')]] = [Some [(''a'', VString ''1'')]]"
    by (simp add: kept_history_def map_values_def List.map_filter_def sample_upstream_def)
  have rec: "mk_Recorder capture_mocker" by (simp add: capture_mocker_def sample_mocker_def)
  have st: "ms_fresh ?s = [100, 101]" "ms_engine ?s = sample_searcher []" "ml_lib sample_mock = sample_lib"
    by (simp_all add: sample_state_def sample_mock_def)
  from server_stream_relayed [OF p refl] have
    "proxy_recorded sample_mock capture_mocker capture_ctx [capture_request] [Some [(''a'', VString ''1'')]] None ?s s'"
    using err rec resps by (auto simp: msgs)
  moreover from server_stream_relayed [OF p refl] have
    "\<exists>v. captured_stream sample_upstream capture_mocker capture_ctx capture_request [VMap [(''a'', VString ''1'')]] v \<and>
       ms_engine s' = snd (put_many sample_lib [100, 101] [v] (sample_searcher []))"
    using err by (simp add: msgs st)
  ultimately show ?thesis using p by auto
qed

section \<open>What is captured and passed on wrongly\<close>

text \<open>A client stream without requests is captured as a stub that no call matches.\<close>

lemma captured_empty_stream_unmatched:
  "\<not> fast_match_v2 g q (build_client_stream_stub M ses [] h response meta err)"
  by (simp add: fast_match_v2_def fast_match_body_def build_client_stream_stub_def build_proxy_stub_def to_inputs_def
      empty_stub_def)

text \<open>The metadata that a gRPC-Web call gets as trailer lines is not cleaned of line breaks.\<close>

lemma forwarded_trailer_injects:
  "forward_trailer_extras [[(''x-bin'', [[CHR ''1'', CHR 0x0D, CHR 0x0A] @ ''grpc-status: 0''])]] =
     [''x-bin: 1'' @ [CHR 0x0D, CHR 0x0A] @ ''grpc-status: 0'']"
  by (simp add: forward_trailer_extras_def ssm_filter_md_def excluded_response_metadata_def) code_simp

section \<open>Conversations\<close>

text \<open>One message in each direction, then what ends the call on both sides.\<close>

definition talked :: "'m upstream \<Rightarrow> gmap \<Rightarrow> 'm \<Rightarrow> bool \<Rightarrow> 'm bidi_proxy" where
  "talked U req msg cancelled =
     (bidi_start [])\<lparr>bx_received := [req], bx_pulled := [msg], bx_up := [req], bx_down := [msg],
       bx_requests := [req], bx_responses := [up_any U msg], bx_cancelled := cancelled\<rparr>"

lemmas talk_defs = talked_def bidi_start_def append_request_def append_response_with_timing_def req_running_def
  resp_running_def

lemma talked_reachable: "bidi_reachable U False [] (talked U req msg False)"
proof -
  let ?a = "(append_request req (bidi_start []))\<lparr>bx_received := [req], bx_req_held := Some req\<rparr>"
  let ?b = "?a\<lparr>bx_up := [req], bx_req_held := None\<rparr>"
  let ?c = "(append_response_with_timing U False 0 msg ?b)\<lparr>bx_pulled := [msg], bx_resp_held := Some msg\<rparr>"
  have "bidi_reachable U False [] ?a"
    using req_receive [of "bidi_start []" req]
    by (intro bidi_next_state [OF bidi_init] step_req) (simp add: req_running_def bidi_start_def append_request_def)
  then have "bidi_reachable U False [] ?b"
    using req_send [of ?a req]
    by (elim bidi_next_state) (intro step_req, simp add: bidi_start_def append_request_def)
  then have "bidi_reachable U False [] ?c"
    using resp_receive [where b = ?b and U = U and record_delay = False and d = 0 and msg = msg]
    by (elim bidi_next_state) (intro step_resp, simp add: talk_defs)
  then have "bidi_reachable U False [] (?c\<lparr>bx_down := [msg], bx_resp_held := None\<rparr>)"
    using resp_send [of ?c msg U False]
    by (elim bidi_next_state) (intro step_resp, simp add: talk_defs)
  then show ?thesis by (simp add: talk_defs)
qed

definition ended :: "'m bidi_proxy \<Rightarrow> 'm bidi_proxy" where
  "ended b = finish None None (b\<lparr>bx_req_done := Some None, bx_resp_done := Some None\<rparr>)"

lemma talked_ended: "bidi_reachable U False [] (ended (talked U req msg False))"
proof -
  let ?a = "(talked U req msg False)\<lparr>bx_req_done := Some None\<rparr>"
  have "bidi_reachable U False [] ?a"
    using req_end [of "talked U req msg False"]
    by (intro bidi_next_state [OF talked_reachable] step_req) (simp add: talk_defs)
  then have "bidi_reachable U False [] (?a\<lparr>bx_resp_done := Some None\<rparr>)"
    using resp_end [of ?a U False] by (elim bidi_next_state) (intro step_resp, simp add: talk_defs)
  then show ?thesis
    using await_both [of "?a\<lparr>bx_resp_done := Some None\<rparr>" None None]
    by (elim bidi_next_state) (intro step_await, simp add: ended_def talk_defs finish_def)
qed

lemma bidi_proxy_faithful_witness:
  "let b = ended (talked sample_upstream capture_request (VMap []) False)
   in bx_up b = [capture_request] \<and> bx_down b = [VMap []] \<and>
     (\<exists>resps. bx_result b = Some (None, None, [capture_request], resps) \<and>
        list_all2 (captured_as sample_upstream) [VMap []] resps)"
  using bidi_proxy_faithful [OF talked_ended, of sample_upstream capture_request "VMap []" "[capture_request]" "[VMap []]"]
  by (simp add: ended_def talk_defs finish_def sample_upstream_def)

text \<open>When the caller cancels after the first response, both directions end without an error, and the
  broken conversation is captured as one that ended well, although a cancelled unary call is not.\<close>

lemma cancelled_conversation_captured:
  "bidi_reachable U False [] (ended (talked U req msg True))"
  "cx_Done cx = Some e \<Longrightarrow> capturable_result cx s (length [req]) (length [up_any U msg])
     (sanitize_captured_stream_error (select_capture_error None None) True)"
proof -
  let ?c = "talked U req msg True"
  let ?a = "?c\<lparr>bx_req_done := Some None\<rparr>"
  have "bidi_reachable U False [] ?c"
    using step_cancel [of U False "talked U req msg False"]
    by (intro bidi_next_state [OF talked_reachable]) (simp add: talk_defs)
  then have "bidi_reachable U False [] ?a"
    using req_cancelled [of ?c] by (elim bidi_next_state) (intro step_req, simp add: talk_defs)
  then have "bidi_reachable U False [] (?a\<lparr>bx_resp_done := Some None\<rparr>)"
    using resp_cancelled [of ?a U False] by (elim bidi_next_state) (intro step_resp, simp add: talk_defs)
  then show "bidi_reachable U False [] (ended ?c)"
    using await_both [of "?a\<lparr>bx_resp_done := Some None\<rparr>" None None]
    by (elim bidi_next_state) (intro step_await, simp add: ended_def talk_defs finish_def)
qed (simp add: capturable_result_def select_capture_error_def sanitize_captured_stream_error_def)

end
