(* ===== verification/Sdk_Matcher.thy ===== *)
theory Sdk_Matcher
  imports Sample_Lib
begin

text \<open>
  The matchers of the client library, \<^verbatim>\<open>pkg/sdk/matcher.go\<close>, and how several of them become the one
  matcher of a stub (\<^verbatim>\<open>mergeInputData\<close>, \<^verbatim>\<open>mergeInputHeader\<close> of \<^verbatim>\<open>expect_v2.go\<close>), with the laws that relate
  the combination to the matching of the server. Matchers are values here; what sharing of Go maps
  adds to that is the last section.
\<close>

section \<open>Matchers\<close>

datatype sdk_matcher =
  Matcher (sm_equals: gomap) (sm_contains: gomap) (sm_matches: gomap) (sm_glob: gomap)
    (sm_anyOf: "sdk_matcher list") (sm_noOrder: bool)

definition sdk_equals :: "string \<Rightarrow> gvalue \<Rightarrow> sdk_matcher" where
  "sdk_equals key v = Matcher (Some [(key, v)]) None None None [] False"

definition sdk_contains :: "string \<Rightarrow> gvalue \<Rightarrow> sdk_matcher" where
  "sdk_contains key v = Matcher None (Some [(key, v)]) None None [] False"

definition sdk_matches :: "string \<Rightarrow> string \<Rightarrow> sdk_matcher" where
  "sdk_matches key pattern = Matcher None None (Some [(key, VString pattern)]) None [] False"

definition sdk_glob :: "string \<Rightarrow> string \<Rightarrow> sdk_matcher" where
  "sdk_glob key pattern = Matcher None None None (Some [(key, VString pattern)]) [] False"

definition sdk_any_of :: "sdk_matcher list \<Rightarrow> sdk_matcher" where
  "sdk_any_of ms = Matcher None None None None ms False"

text \<open>\<^verbatim>\<open>maps.Copy\<close> into the first map.\<close>

definition m_copy :: "('k \<times> 'v) list \<Rightarrow> ('k \<times> 'v) list \<Rightarrow> ('k \<times> 'v) list" where
  "m_copy into from = fold (\<lambda>(k, v). m_put k v) from into"

definition merge_str_any :: "gomap \<Rightarrow> gomap \<Rightarrow> gomap" where
  "merge_str_any a b =
     (if mlen b = 0 then a else case a of None \<Rightarrow> b | Some m \<Rightarrow> Some (m_copy m (entries b)))"

definition and_two :: "sdk_matcher \<Rightarrow> sdk_matcher \<Rightarrow> sdk_matcher" where
  "and_two out m =
     Matcher (merge_str_any (sm_equals out) (sm_equals m)) (merge_str_any (sm_contains out) (sm_contains m))
       (merge_str_any (sm_matches out) (sm_matches m)) (merge_str_any (sm_glob out) (sm_glob m))
       (sm_anyOf out @ sm_anyOf m) (sm_noOrder out \<or> sm_noOrder m)"

definition empty_matcher :: sdk_matcher where
  "empty_matcher = Matcher None None None None [] False"

definition sdk_and :: "sdk_matcher list \<Rightarrow> sdk_matcher" where
  "sdk_and ms = foldl and_two empty_matcher ms"

definition ignore_array_order :: "sdk_matcher \<Rightarrow> sdk_matcher" where
  "ignore_array_order m =
     Matcher (sm_equals m) (sm_contains m) (sm_matches m) (sm_glob m) (sm_anyOf m) True"

section \<open>Compilation\<close>

definition compile_any_of :: "sdk_matcher list \<Rightarrow> any_of_element list" where
  "compile_any_of ms =
     map (\<lambda>m. \<lparr>Equals = sm_equals m, Contains = sm_contains m, Matches = sm_matches m, Glob = sm_glob m,
       IgnoreArrayOrder = sm_noOrder m\<rparr>) ms"

definition compile_header_any_of :: "sdk_matcher list \<Rightarrow> matcher list" where
  "compile_header_any_of ms =
     map (\<lambda>m. \<lparr>Equals = sm_equals m, Contains = sm_contains m, Matches = sm_matches m, Glob = sm_glob m\<rparr>) ms"

definition compile_payload :: "sdk_matcher \<Rightarrow> input_data" where
  "compile_payload m =
     \<lparr>Equals = sm_equals m, Contains = sm_contains m, Matches = sm_matches m, Glob = sm_glob m,
      IgnoreArrayOrder = sm_noOrder m, AnyOf = compile_any_of (sm_anyOf m)\<rparr>"

definition compile_header :: "sdk_matcher \<Rightarrow> input_header" where
  "compile_header m =
     \<lparr>Equals = sm_equals m, Contains = sm_contains m, Matches = sm_matches m, Glob = sm_glob m,
      HeaderAnyOf = compile_header_any_of (sm_anyOf m)\<rparr>"

text \<open>Payload matchers are merged into maps of their own.\<close>

definition copy_nonempty :: "gomap \<Rightarrow> gomap \<Rightarrow> gomap" where
  "copy_nonempty out m = (if mlen m = 0 then out else Some (m_copy (entries out) (entries m)))"

definition merge_two_inputs :: "input_data \<Rightarrow> input_data \<Rightarrow> input_data" where
  "merge_two_inputs out i =
     \<lparr>Equals = copy_nonempty (Equals out) (Equals i), Contains = copy_nonempty (Contains out) (Contains i),
      Matches = copy_nonempty (Matches out) (Matches i), Glob = copy_nonempty (Glob out) (Glob i),
      IgnoreArrayOrder = (IgnoreArrayOrder out \<or> IgnoreArrayOrder i), AnyOf = AnyOf out @ AnyOf i\<rparr>"

definition merge_input_data :: "input_data list \<Rightarrow> input_data" where
  "merge_input_data inputs = foldl merge_two_inputs empty_input inputs"

definition merge_input_header :: "input_header \<Rightarrow> input_header \<Rightarrow> input_header" where
  "merge_input_header a b =
     \<lparr>Equals = merge_str_any (Equals a) (Equals b), Contains = merge_str_any (Contains a) (Contains b),
      Matches = merge_str_any (Matches a) (Matches b), Glob = merge_str_any (Glob a) (Glob b),
      HeaderAnyOf = HeaderAnyOf a @ HeaderAnyOf b\<rparr>"

section \<open>What a merged map asks for\<close>

lemma map_of_copy: "map_of (m_copy into from) = map_of into ++ map_of (rev from)"
proof (induction "from" arbitrary: into)
  case (Cons kv "from")
  obtain k v where "kv = (k, v)" by (cases kv)
  then show ?case
    using Cons [of "m_put k v into"] by (auto simp: m_copy_def fun_eq_iff map_add_def split: option.split)
qed (simp add: m_copy_def)

lemma map_of_rev: "m_ok m \<Longrightarrow> map_of (rev m) = map_of m"
  using m_ok_set_iff [of m] m_ok_set_iff [of "rev m"]
  by (intro ext, metis m_ok_def distinct_rev option.exhaust rev_map set_rev)

lemma m_ok_copy: "m_ok into \<Longrightarrow> m_ok (m_copy into from)"
  unfolding m_copy_def by (induction "from" arbitrary: into) auto

definition omap :: "gomap \<Rightarrow> string \<Rightarrow> gvalue option" where
  "omap m = map_of (entries m)"

definition omap_ok :: "gomap \<Rightarrow> bool" where
  "omap_ok m \<longleftrightarrow> m_ok (entries m)"

lemma merged_maps:
  assumes "omap_ok b"
  shows "omap (merge_str_any a b) = omap a ++ omap b" "omap (copy_nonempty a b) = omap a ++ omap b"
  using assms
  by (auto simp: omap_def omap_ok_def merge_str_any_def copy_nonempty_def map_of_copy map_of_rev split: option.split)

lemma merged_ok:
  "omap_ok a \<Longrightarrow> omap_ok b \<Longrightarrow> omap_ok (merge_str_any a b)" "omap_ok a \<Longrightarrow> omap_ok (copy_nonempty a b)"
  by (auto simp: omap_ok_def merge_str_any_def copy_nonempty_def m_ok_copy split: option.split)

section \<open>The conditions of a matcher, key by key\<close>

definition keywise :: "(string \<Rightarrow> gvalue \<Rightarrow> bool) \<Rightarrow> (string \<Rightarrow> gvalue option) \<Rightarrow> bool" where
  "keywise P m \<longleftrightarrow> (\<forall>k v. m k = Some v \<longrightarrow> P k v)"

lemma keywise_all: "omap_ok m \<Longrightarrow> list_all (\<lambda>kv. P (fst kv) (snd kv)) (entries m) \<longleftrightarrow> keywise P (omap m)"
  by (auto simp: keywise_def omap_def omap_ok_def list_all_iff m_ok_set_iff [symmetric])

lemma equals_keywise: "omap_ok m \<Longrightarrow> equals g m d i \<longleftrightarrow> keywise (\<lambda>k v. equals_field g k v d i) (omap m)"
  by (simp add: equals_def keywise_all [symmetric])

lemma glob_keywise:
  "omap_ok m \<Longrightarrow> glob_match m d \<longleftrightarrow> keywise (\<lambda>k v. case find_value_with_variations d k of
     None \<Rightarrow> False | Some w \<Rightarrow> match_glob_value v w) (omap m)"
  by (simp add: glob_match_def keywise_all [symmetric])

definition kept_by :: "(gvalue \<Rightarrow> gvalue \<Rightarrow> bool) \<Rightarrow> gmap \<Rightarrow> string \<Rightarrow> gvalue \<Rightarrow> bool" where
  "kept_by cmp d k v \<longleftrightarrow> (case map_of d k of None \<Rightarrow> False | Some w \<Rightarrow> cmp v w)"

text \<open>A map that is contained has no more keys, so the length test never decides.\<close>

lemma map_compare_keywise:
  assumes "omap_ok m"
  shows "map_any_compare cmp (\<lambda>l r. l \<le> r) (entries m) (VMap d) \<longleftrightarrow> keywise (kept_by cmp d) (omap m)"
proof -
  have "length (entries m) \<le> length d" if "list_all (\<lambda>kv. kept_by cmp d (fst kv) (snd kv)) (entries m)"
  proof -
    have "fst ` set (entries m) \<subseteq> fst ` set d"
      using that by (force simp: list_all_iff kept_by_def split: option.splits dest: map_of_SomeD)
    then have "card (fst ` set (entries m)) \<le> card (fst ` set d)" by (intro card_mono) auto
    also have "\<dots> \<le> length d" by (metis card_length length_map list.set_map)
    finally show ?thesis
      using assms by (metis omap_ok_def m_ok_def distinct_card length_map list.set_map)
  qed
  then show ?thesis
    by (auto simp: map_any_compare_def keywise_all [OF assms, symmetric] kept_by_def list_all_iff)
qed

lemma contains_keywise:
  "omap_ok m \<Longrightarrow> contains m d \<longleftrightarrow> keywise (kept_by contains_ignore_array_order d) (omap m)"
  using map_compare_keywise [of m contains_ignore_array_order d]
  by (auto simp: contains_def contains_ignore_array_order.simps [of "VMap _"] map_deep_compare_def
      slices_deep_compare_def keywise_def omap_def)

lemma matches_keywise:
  "omap_ok m \<Longrightarrow> matches g m d \<longleftrightarrow> keywise (kept_by (matches_ignore_array_order g) d) (omap m)"
  using map_compare_keywise [of m "matches_ignore_array_order g" d]
  by (auto simp: matches_def matches_ignore_array_order.simps [of g "VMap _"] map_deep_compare_def
      slices_deep_compare_def keywise_def omap_def regex_match_def)

section \<open>Combined conditions\<close>

text \<open>Several maps with no key in common, copied one over the other, ask for what all of them ask for.\<close>

definition disjoint_maps :: "(string \<Rightarrow> gvalue option) list \<Rightarrow> bool" where
  "disjoint_maps ms \<longleftrightarrow> sorted_wrt (\<lambda>a b. dom a \<inter> dom b = {}) ms"

lemma keywise_add: "dom a \<inter> dom b = {} \<Longrightarrow> keywise P (a ++ b) \<longleftrightarrow> keywise P a \<and> keywise P b"
  by (auto simp: keywise_def map_add_Some_iff disjoint_iff) blast+

lemma keywise_fold:
  "disjoint_maps (a # ms) \<Longrightarrow> keywise P (foldl (++) a ms) \<longleftrightarrow> keywise P a \<and> (\<forall>m\<in>set ms. keywise P m)"
proof (induction ms arbitrary: a)
  case (Cons m ms)
  have "disjoint_maps ((a ++ m) # ms)"
    using Cons.prems by (simp add: disjoint_maps_def Int_Un_distrib2)
  moreover have "keywise P (a ++ m) \<longleftrightarrow> keywise P a \<and> keywise P m"
    using Cons.prems by (intro keywise_add) (auto simp: disjoint_maps_def)
  ultimately show ?case using Cons.IH [of "a ++ m"] by simp
qed simp

text \<open>A list of matchers that can be combined: no key twice in one of the four kinds, one setting for the
  order of arrays, and alternatives in at most one of them.\<close>

definition combinable :: "('a \<Rightarrow> gomap) \<Rightarrow> 'a list \<Rightarrow> bool" where
  "combinable f ms \<longleftrightarrow> (\<forall>m\<in>set ms. omap_ok (f m)) \<and> disjoint_maps (map (\<lambda>m. omap (f m)) ms)"

lemma disjoint_cons_empty: "disjoint_maps (Map.empty # ms) \<longleftrightarrow> disjoint_maps ms"
  by (simp add: disjoint_maps_def)

lemma fold_merge:
  assumes "\<And>out m. omap_ok (f m) \<Longrightarrow> omap (f (step out m)) = omap (f out) ++ omap (f m)"
    and "\<forall>m\<in>set ms. omap_ok (f m)"
  shows "omap (f (foldl step out ms)) = foldl (++) (omap (f out)) (map (\<lambda>m. omap (f m)) ms)"
  using assms(2) by (induction ms arbitrary: out) (simp_all add: assms(1))

lemma fold_merge_ok:
  assumes "\<And>out m. omap_ok (f out) \<Longrightarrow> omap_ok (f m) \<Longrightarrow> omap_ok (f (step out m))"
    and "\<forall>m\<in>set ms. omap_ok (f m)" and "omap_ok (f out)"
  shows "omap_ok (f (foldl step out ms))"
  using assms(2,3) by (induction ms arbitrary: out) (simp_all add: assms(1))

lemma keywise_combined:
  assumes "combinable f ms" and "omap (f out) = Map.empty"
    and "\<And>out m. omap_ok (f m) \<Longrightarrow> omap (f (step out m)) = omap (f out) ++ omap (f m)"
  shows "keywise P (omap (f (foldl step out ms))) \<longleftrightarrow> (\<forall>m\<in>set ms. keywise P (omap (f m)))"
proof -
  have "keywise P (foldl (++) Map.empty (map (\<lambda>m. omap (f m)) ms)) \<longleftrightarrow> (\<forall>m\<in>set ms. keywise P (omap (f m)))"
    using assms(1) keywise_fold [of Map.empty "map (\<lambda>m. omap (f m)) ms" P]
    by (simp add: combinable_def disjoint_cons_empty) (simp add: keywise_def)
  then show ?thesis
    using fold_merge [of f step ms out, OF assms(3)] assms(1,2) by (simp add: combinable_def)
qed

lemma omap_None [simp]: "omap None = Map.empty" "omap_ok None"
  by (simp_all add: omap_def omap_ok_def)

lemma foldl_or: "(\<And>out m. f (step out m) \<longleftrightarrow> f out \<or> f m) \<Longrightarrow> f (foldl step out ms) \<longleftrightarrow> f out \<or> (\<exists>m\<in>set ms. f m)"
  by (induction ms arbitrary: out) auto

lemma foldl_concat: "(\<And>out m. f (step out m) = f out @ f m) \<Longrightarrow> f (foldl step out ms) = f out @ concat (map f ms)"
  by (induction ms arbitrary: out) auto

text \<open>Alternatives in at most one of the matchers are the alternatives of that one.\<close>

lemma one_alternatives:
  assumes "sorted_wrt (\<lambda>a b. f a = [] \<or> f b = []) ms"
  shows "(concat (map f ms) = [] \<or> list_ex P (concat (map f ms))) \<longleftrightarrow> (\<forall>m\<in>set ms. f m = [] \<or> list_ex P (f m))"
  using assms
proof (induction ms)
  case (Cons m ms)
  then show ?case by (cases "f m = []") (auto simp: list_ex_iff)
qed simp

section \<open>Conjunction\<close>

definition independent :: "sdk_matcher list \<Rightarrow> bool" where
  "independent ms \<longleftrightarrow>
     combinable sm_equals ms \<and> combinable sm_contains ms \<and> combinable sm_matches ms \<and> combinable sm_glob ms \<and>
     sorted_wrt (\<lambda>a b. sm_anyOf a = [] \<or> sm_anyOf b = []) ms"

lemma and_two_sel [simp]:
  "sm_equals (and_two a b) = merge_str_any (sm_equals a) (sm_equals b)"
  "sm_contains (and_two a b) = merge_str_any (sm_contains a) (sm_contains b)"
  "sm_matches (and_two a b) = merge_str_any (sm_matches a) (sm_matches b)"
  "sm_glob (and_two a b) = merge_str_any (sm_glob a) (sm_glob b)"
  "sm_anyOf (and_two a b) = sm_anyOf a @ sm_anyOf b" "sm_noOrder (and_two a b) \<longleftrightarrow> sm_noOrder a \<or> sm_noOrder b"
  by (simp_all add: and_two_def)

lemma and_keywise:
  assumes "independent ms"
  shows "keywise P (omap (sm_equals (sdk_and ms))) \<longleftrightarrow> (\<forall>m\<in>set ms. keywise P (omap (sm_equals m)))"
    and "keywise P (omap (sm_contains (sdk_and ms))) \<longleftrightarrow> (\<forall>m\<in>set ms. keywise P (omap (sm_contains m)))"
    and "keywise P (omap (sm_matches (sdk_and ms))) \<longleftrightarrow> (\<forall>m\<in>set ms. keywise P (omap (sm_matches m)))"
    and "keywise P (omap (sm_glob (sdk_and ms))) \<longleftrightarrow> (\<forall>m\<in>set ms. keywise P (omap (sm_glob m)))"
  unfolding sdk_and_def
  by (rule keywise_combined; use assms in \<open>simp add: independent_def empty_matcher_def merged_maps\<close>)+

lemma and_ok:
  assumes "independent ms"
  shows "omap_ok (sm_equals (sdk_and ms))" "omap_ok (sm_contains (sdk_and ms))" "omap_ok (sm_matches (sdk_and ms))"
    "omap_ok (sm_glob (sdk_and ms))"
  unfolding sdk_and_def
  by (rule fold_merge_ok; use assms in \<open>simp add: independent_def combinable_def empty_matcher_def merged_ok\<close>)+

lemma and_any_of: "sm_anyOf (sdk_and ms) = concat (map sm_anyOf ms)"
  by (simp add: sdk_and_def foldl_concat empty_matcher_def)

lemma and_no_order: "sm_noOrder (sdk_and ms) \<longleftrightarrow> (\<exists>m\<in>set ms. sm_noOrder m)"
  by (simp add: sdk_and_def foldl_or empty_matcher_def)

lemma compiled_matches:
  assumes "omap_ok (sm_equals m)" "omap_ok (sm_contains m)" "omap_ok (sm_matches m)" "omap_ok (sm_glob m)"
  shows "matcher_matches g i (compile_payload m) d \<longleftrightarrow>
      keywise (\<lambda>k v. equals_field g k v d i) (omap (sm_equals m)) \<and>
      keywise (kept_by contains_ignore_array_order d) (omap (sm_contains m)) \<and>
      keywise (kept_by (matches_ignore_array_order g) d) (omap (sm_matches m)) \<and>
      keywise (\<lambda>k v. case find_value_with_variations d k of None \<Rightarrow> False | Some w \<Rightarrow> match_glob_value v w)
        (omap (sm_glob m))"
    and "matcher_matches g i (compile_header m) d \<longleftrightarrow> matcher_matches g i (compile_payload m) d"
  using assms
  by (simp_all add: matcher_matches_def compile_payload_def compile_header_def equals_keywise contains_keywise
      matches_keywise glob_keywise)

lemma all_conj: "(\<forall>m\<in>A. P m \<and> Q m) \<longleftrightarrow> (\<forall>m\<in>A. P m) \<and> (\<forall>m\<in>A. Q m)"
  by blast

lemma independent_ok:
  "independent ms \<Longrightarrow> m \<in> set ms \<Longrightarrow>
     omap_ok (sm_equals m) \<and> omap_ok (sm_contains m) \<and> omap_ok (sm_matches m) \<and> omap_ok (sm_glob m)"
  by (simp add: independent_def combinable_def)

lemma and_matches:
  assumes "independent ms"
  shows "matcher_matches g i (compile_payload (sdk_and ms)) d \<longleftrightarrow>
     (\<forall>m\<in>set ms. matcher_matches g i (compile_payload m) d)"
  using independent_ok [OF assms]
  by (simp add: compiled_matches(1) and_ok [OF assms] and_keywise [OF assms] all_conj)



section \<open>Where the combination is not a conjunction\<close>

text \<open>Alternatives of several matchers are pooled: one of them is enough. The same field twice: the later
  condition replaces the earlier. Alternatives inside an alternative are dropped, and an alternative
  with no condition of its own accepts everything.\<close>

lemma and_pools_alternatives:
  "\<exists>a b d. match_input g d (compile_payload (sdk_and [sdk_any_of [a], sdk_any_of [b]])) \<and>
     \<not> match_input g d (compile_payload (sdk_any_of [b]))"
  by (rule exI [of _ "sdk_equals ''a'' (VString ''x'')"], rule exI [of _ "sdk_equals ''b'' (VString ''y'')"],
      rule exI [of _ "[(''a'', VString ''x'')]"]) code_simp

lemma and_replaces_condition:
  "\<exists>a b d. match_input g d (compile_payload (sdk_and [a, b])) \<and> \<not> match_input g d (compile_payload a)"
  by (rule exI [of _ "sdk_equals ''a'' (VString ''x'')"], rule exI [of _ "sdk_equals ''a'' (VString ''y'')"],
      rule exI [of _ "[(''a'', VString ''y'')]"]) code_simp

lemma nested_alternatives_dropped:
  "match_input g d (compile_payload (sdk_any_of [sdk_any_of ms]))"
  by (simp add: match_input_def compile_payload_def compile_any_of_def sdk_any_of_def matcher_matches_def equals_def
      contains_def matches_def glob_match_def)

section \<open>Shared maps\<close>

text \<open>In Go the maps are references, and \<^verbatim>\<open>mergeStrAny\<close> copies into the map it was given first: the map of
  the first matcher itself.\<close>

definition merge_str_any_refs :: "nat option \<Rightarrow> nat option \<Rightarrow> (nat \<Rightarrow> gmap) \<Rightarrow> nat option \<times> (nat \<Rightarrow> gmap)" where
  "merge_str_any_refs a b h =
     (case b of
        None \<Rightarrow> (a, h)
      | Some rb \<Rightarrow>
          if length (h rb) = 0 then (a, h)
          else (case a of None \<Rightarrow> (b, h) | Some ra \<Rightarrow> (a, h(ra := m_copy (h ra) (h rb)))))"

text \<open>Read through the heap it is the merge of the values, but a condition \<open>a\<close> that was combined with \<open>b\<close>
  has become \<open>a\<close> and \<open>b\<close>.\<close>

lemma merge_refs_value:
  "merge_str_any_refs a b h = (c, h') \<Longrightarrow>
     map_option h' c = merge_str_any (map_option h a) (map_option h b)"
  by (auto simp: merge_str_any_refs_def merge_str_any_def split: option.splits if_splits)

lemma and_changes_operand:
  assumes "h 0 = [(''a'', VString ''x'')]" and "h 1 = [(''b'', VString ''y'')]"
  shows "let (c, h1) = merge_str_any_refs None (Some 0) h; (c', h2) = merge_str_any_refs c (Some 1) h1
    in h2 0 = [(''a'', VString ''x''), (''b'', VString ''y'')]"
  using assms by (simp add: merge_str_any_refs_def m_copy_def)

end
