(* ===== verification/Sdk.thy ===== *)
theory Sdk
  imports Sdk_Matcher Budgerigar History
begin

text \<open>
  The client library, \<^verbatim>\<open>pkg/sdk\<close>: what the chained calls of a test build (\<^verbatim>\<open>expect_v2.go\<close>,
  \<^verbatim>\<open>effects.go\<close>, \<^verbatim>\<open>delay.go\<close>, \<^verbatim>\<open>stub_kv.go\<close>), and the server they build it on (\<^verbatim>\<open>server_v2.go\<close>,
  \<^verbatim>\<open>remote.go\<close>). A call that panics is \<open>None\<close>. Go shares a stub between the expectation and the store; here the
  expectation keeps the stub and every change is followed by the upsert the code makes.
\<close>

section \<open>Arguments\<close>

text \<open>What the variadic calls take. Of a protobuf message there is the map its JSON text decodes to, if it
  has one; \<open>ArgOther\<close> is any other Go value.\<close>

datatype sdk_arg =
    ArgValue gvalue
  | ArgMatcher sdk_matcher
  | ArgDelay int gomap
  | ArgStreamError "32 word" string "gmap list"
  | ArgMessage "gmap option"
  | ArgOther nat

record sdk_lib =
  sl_lib :: golib
  sl_box :: "sdk_arg \<Rightarrow> gvalue"
  sl_json_map :: "sdk_arg \<Rightarrow> gmap option"
  sl_duration_text :: "int \<Rightarrow> string"
  sl_uuid_text :: "uuid \<Rightarrow> string"
  sl_add_stubs :: "nat \<Rightarrow> string \<Rightarrow> stub list \<Rightarrow> string option"

text \<open>An argument where any value may stand.\<close>

definition arg_value :: "sdk_lib \<Rightarrow> sdk_arg \<Rightarrow> gvalue" where
  "arg_value L a = (case a of ArgValue v \<Rightarrow> v | _ \<Rightarrow> sl_box L a)"

fun parse_kv_loop :: "sdk_lib \<Rightarrow> sdk_arg list \<Rightarrow> gmap \<Rightarrow> gmap option" where
  "parse_kv_loop L (ArgValue (VString k) # v # rest) m = parse_kv_loop L rest (m_put k (arg_value L v) m)"
| "parse_kv_loop L [] m = Some m"
| "parse_kv_loop L _ m = None"

definition parse_kv_pairs :: "sdk_lib \<Rightarrow> sdk_arg list \<Rightarrow> gmap option" where
  "parse_kv_pairs L kv = (if odd (length kv) then None else parse_kv_loop L kv [])"

definition sdk_delay :: "sdk_lib \<Rightarrow> int \<Rightarrow> sdk_arg list \<Rightarrow> sdk_arg option" where
  "sdk_delay L d kv =
     (case kv of
        [ArgMessage m] \<Rightarrow> map_option (\<lambda>m. ArgDelay d (Some m)) m
      | [ArgValue (VMap m)] \<Rightarrow> Some (ArgDelay d (Some m))
      | _ \<Rightarrow> map_option (\<lambda>m. ArgDelay d (Some m)) (parse_kv_pairs L kv))"

definition stream_error_element :: "32 word \<Rightarrow> string \<Rightarrow> gmap list \<Rightarrow> gmap" where
  "stream_error_element code msg details =
     [(gripmock_key, VMap ([(''error'', VString msg), (''code'', VUint32 (uint code))] @
        (if details = [] then [] else [(''details'', VList (map VMap details))])))]"

definition extract_delay :: "sdk_lib \<Rightarrow> sdk_arg list \<Rightarrow> (int \<times> gomap) option" where
  "extract_delay L kv =
     (case kv of
        [ArgDelay d data] \<Rightarrow> Some (d, data)
      | _ \<Rightarrow> map_option (\<lambda>m. (0, Some m)) (parse_kv_pairs L kv))"

definition inject_stream_delay :: "sdk_lib \<Rightarrow> sdk_arg \<Rightarrow> gvalue" where
  "inject_stream_delay L item =
     (case item of
        ArgStreamError c msg ds \<Rightarrow> VMap (stream_error_element c msg ds)
      | ArgDelay d data \<Rightarrow>
          VMap (m_put gripmock_key (VMap [(''delay'', VString (sl_duration_text L d))]) (entries data))
      | _ \<Rightarrow> arg_value L item)"

definition stream_element :: "sdk_lib \<Rightarrow> sdk_arg \<Rightarrow> gvalue option" where
  "stream_element L item =
     (case item of
        ArgStreamError c msg ds \<Rightarrow> Some (VMap (stream_error_element c msg ds))
      | ArgDelay d data \<Rightarrow> Some (inject_stream_delay L item)
      | ArgValue (VString s) \<Rightarrow> map_option VMap (parse_kv_pairs L [item])
      | _ \<Rightarrow> Some (arg_value L item))"

definition extract_delay_item :: "sdk_lib \<Rightarrow> sdk_arg list \<Rightarrow> gvalue option" where
  "extract_delay_item L kv =
     (case kv of [item] \<Rightarrow> stream_element L item | _ \<Rightarrow> map_option VMap (parse_kv_pairs L kv))"

definition json_to_map :: "sdk_lib \<Rightarrow> sdk_arg \<Rightarrow> gmap" where
  "json_to_map L v =
     (case v of
        ArgValue (VMap m) \<Rightarrow> m
      | _ \<Rightarrow> (case sl_json_map L v of Some m \<Rightarrow> m | None \<Rightarrow> [(''_value'', arg_value L v)]))"

text \<open>The matchers of a \<open>Match\<close> call: one matcher, or pairs of a field and its value.\<close>

fun match_pairs :: "sdk_lib \<Rightarrow> sdk_arg list \<Rightarrow> input_data list option" where
  "match_pairs L (ArgValue (VString k) # v # rest) =
     map_option ((#) (compile_payload (sdk_equals k (arg_value L v)))) (match_pairs L rest)"
| "match_pairs L [] = Some []"
| "match_pairs L _ = None"

definition compile_match_args :: "sdk_lib \<Rightarrow> sdk_arg list \<Rightarrow> input_data list option" where
  "compile_match_args L args =
     (case args of
        [] \<Rightarrow> Some []
      | [ArgMatcher m] \<Rightarrow> Some [compile_payload m]
      | _ \<Rightarrow> if odd (length args) then None else match_pairs L args)"

section \<open>The server\<close>

record expected_call =
  ec_Service :: string
  ec_Method :: string
  ec_StubID :: uuid
  ec_Times :: int

record remote_mock =
  rm_session :: string
  rm_batches :: "(string \<times> stub list) list"
  rm_stubIDs :: "uuid list"
  rm_opErr :: "string option"

record sdk_server =
  sv_engine :: "searcher option"
  sv_recorder :: "memory_store option"
  sv_remote :: "remote_mock option"
  sv_batch :: bool
  sv_session :: string
  sv_fresh :: "uuid list"
  sv_pending :: "stub list"
  sv_expectations :: "expected_call list"
  sv_verified :: bool

definition session_of :: "remote_mock \<Rightarrow> stub \<Rightarrow> string" where
  "session_of m v = (if Session v \<noteq> '''' then Session v else rm_session m)"

definition session_order :: "remote_mock \<Rightarrow> stub list \<Rightarrow> string list" where
  "session_order m vs = rev (remdups (rev (map (session_of m) vs)))"

text \<open>One request per session, in the order in which the sessions first occur, up to the first that fails.\<close>

fun send_batches ::
  "sdk_lib \<Rightarrow> stub list \<Rightarrow> string list \<Rightarrow> remote_mock \<Rightarrow> string option \<times> remote_mock" where
  "send_batches L vs [] m = (None, m)"
| "send_batches L vs (ses # rest) m =
     (let batch = filter (\<lambda>v. session_of m v = ses) vs in
      case sl_add_stubs L (length (rm_batches m)) ses batch of
        Some e \<Rightarrow> (Some e, m)
      | None \<Rightarrow> send_batches L vs rest (m\<lparr>rm_batches := rm_batches m @ [(ses, batch)]\<rparr>))"

definition compress_and_send :: "sdk_lib \<Rightarrow> stub list \<Rightarrow> remote_mock \<Rightarrow> string option \<times> remote_mock" where
  "compress_and_send L vs m = send_batches L vs (session_order m vs) m"

definition commit_stubs_batch :: "sdk_lib \<Rightarrow> stub list \<Rightarrow> remote_mock \<Rightarrow> string option \<times> remote_mock" where
  "commit_stubs_batch L vs m =
     (if vs = [] then (None, m)
      else case rm_opErr m of
             Some e \<Rightarrow> (Some e, m)
           | None \<Rightarrow>
               (case compress_and_send L vs m of
                  (Some e, m) \<Rightarrow> (Some e, m\<lparr>rm_opErr := Some e\<rparr>)
                | (None, m) \<Rightarrow> (None, m\<lparr>rm_stubIDs := rm_stubIDs m @ map ID vs\<rparr>)))"

text \<open>The engine gives a stub without an ID one; the caller's stub is that stub.\<close>

definition register_stub :: "sdk_lib \<Rightarrow> stub \<Rightarrow> sdk_server \<Rightarrow> stub \<times> sdk_server" where
  "register_stub L v s =
     (case sv_engine s of
        Some e \<Rightarrow>
          (hd (assign_ids (sv_fresh s) [v]),
           s\<lparr>sv_engine := Some (snd (put_many (sl_lib L) (sv_fresh s) [v] e)),
             sv_fresh := (if ID v = 0 then tl (sv_fresh s) else sv_fresh s)\<rparr>)
      | None \<Rightarrow>
          (case sv_remote s of
             None \<Rightarrow> (v, s)
           | Some m \<Rightarrow>
               if sv_batch s then (v, s\<lparr>sv_pending := sv_pending s @ [v]\<rparr>)
               else (v, s\<lparr>sv_remote := Some (snd (commit_stubs_batch L [v] m))\<rparr>)))"

fun replace_queued :: "stub \<Rightarrow> stub list \<Rightarrow> stub list" where
  "replace_queued v [] = [v]"
| "replace_queued v (w # ws) = (if ID w = ID v then v # ws else w # replace_queued v ws)"

definition upsert_stub :: "sdk_lib \<Rightarrow> stub \<Rightarrow> sdk_server \<Rightarrow> sdk_server" where
  "upsert_stub L v s =
     (if sv_remote s \<noteq> None \<and> sv_batch s then s\<lparr>sv_pending := replace_queued v (sv_pending s)\<rparr>
      else snd (register_stub L v s))"

definition track_expectation :: "sdk_lib \<Rightarrow> stub \<Rightarrow> sdk_server \<Rightarrow> stub \<times> sdk_server" where
  "track_expectation L v s =
     register_stub L v
       (if 0 < Times v
        then s\<lparr>sv_expectations := sv_expectations s @
               [\<lparr>ec_Service = Service v, ec_Method = Method v, ec_StubID = ID v, ec_Times = Times v\<rparr>]\<rparr>
        else s)"

definition flush :: "sdk_lib \<Rightarrow> sdk_server \<Rightarrow> sdk_server" where
  "flush L s =
     (case sv_remote s of
        None \<Rightarrow> s
      | Some m \<Rightarrow>
          if sv_pending s = [] then s
          else s\<lparr>sv_remote := Some (snd (commit_stubs_batch L (sv_pending s) m)), sv_pending := []\<rparr>)"

text \<open>From the last slash; a leading slash does not count.\<close>

definition split_method_name :: "string \<Rightarrow> string \<times> string" where
  "split_method_name name =
     (let s = (case name of c # r \<Rightarrow> if c = CHR ''/'' then r else name | [] \<Rightarrow> []);
          m = rev (takeWhile (\<lambda>c. c \<noteq> CHR ''/'') (rev s))
      in if m = s then ('''', s) else (take (length s - length m - 1) s, m))"

section \<open>Expectations\<close>

record stuber_error =
  se_Code :: "32 word"
  se_Msg :: string
  se_Details :: "gmap list"

record expectation_base =
  eb_Service :: string
  eb_Method :: string
  eb_matchers :: "input_data list"
  eb_headers :: input_header
  eb_times :: int
  eb_priority :: int
  eb_session :: string
  eb_committed :: bool
  eb_stubID :: uuid
  eb_stub :: "stub option"
  eb_id :: "uuid option"
  eb_respHeaders :: "(string \<times> string) list"
  eb_respTrailers :: "(string \<times> string) list"
  eb_sequence :: "input_data list"
  eb_effects :: "effect list"

record unary_expectation = expectation_base +
  ue_delay :: int
  ue_chainIdx :: int
  ue_kv :: gomap
  ue_value :: "gvalue option"
  ue_err :: "stuber_error option"
  ue_handler :: bool
  ue_firstStub :: "stub option"

record server_stream_expectation = expectation_base +
  se_delay :: int

record client_stream_expectation = expectation_base +
  ce_delay :: int
  ce_kv :: gomap
  ce_value :: "gvalue option"
  ce_err :: "stuber_error option"
  ce_handler :: bool

record bidi_expectation = expectation_base +
  be_delay :: int

definition expectation_init :: "string \<Rightarrow> expectation_base option" where
  "expectation_init full_method =
     (case split_method_name full_method of (svc, method) \<Rightarrow>
       if svc = '''' \<or> method = '''' then None
       else Some \<lparr>eb_Service = svc, eb_Method = method, eb_matchers = [], eb_headers = empty_header, eb_times = 0,
         eb_priority = 0, eb_session = '''', eb_committed = False, eb_stubID = 0, eb_stub = None, eb_id = None,
         eb_respHeaders = [], eb_respTrailers = [], eb_sequence = [], eb_effects = []\<rparr>)"

definition new_unary_expectation :: "string \<Rightarrow> unary_expectation option" where
  "new_unary_expectation full_method =
     map_option (\<lambda>b. expectation_base.extend b (unary_expectation.fields 0 0 None None None False None))
       (expectation_init full_method)"

definition new_server_stream_expectation :: "string \<Rightarrow> server_stream_expectation option" where
  "new_server_stream_expectation full_method =
     map_option (\<lambda>b. expectation_base.extend b (server_stream_expectation.fields 0)) (expectation_init full_method)"

definition new_client_stream_expectation :: "string \<Rightarrow> client_stream_expectation option" where
  "new_client_stream_expectation full_method =
     map_option (\<lambda>b. expectation_base.extend b (client_stream_expectation.fields 0 None None None False))
       (expectation_init full_method)"

definition new_bidi_expectation :: "string \<Rightarrow> bidi_expectation option" where
  "new_bidi_expectation full_method =
     map_option (\<lambda>b. expectation_base.extend b (bidi_expectation.fields 0)) (expectation_init full_method)"

text \<open>The calls that describe an expectation, on the fields all four kinds share.\<close>

datatype build_call =
    Match "sdk_arg list"
  | With_Header "sdk_matcher list"
  | Call_Times int
  | Call_Priority int
  | Call_Session string
  | With_ID uuid
  | Return_Headers "(string \<times> string) list"
  | Return_Trailers "(string \<times> string) list"
  | Match_Sequence "sdk_matcher list"
  | Call_Delay int

abbreviation Once :: build_call where "Once \<equiv> Call_Times 1"
abbreviation Twice :: build_call where "Twice \<equiv> Call_Times 2"

definition set_sequence :: "sdk_matcher list \<Rightarrow> 'a expectation_base_scheme \<Rightarrow> 'a expectation_base_scheme" where
  "set_sequence ms e = e\<lparr>eb_sequence := map compile_payload ms\<rparr>"

definition set_response_headers_sdk ::
  "(string \<times> string) list \<Rightarrow> 'a expectation_base_scheme \<Rightarrow> 'a expectation_base_scheme" where
  "set_response_headers_sdk hs e = e\<lparr>eb_respHeaders := m_copy (eb_respHeaders e) hs\<rparr>"

definition set_response_trailers_sdk ::
  "(string \<times> string) list \<Rightarrow> 'a expectation_base_scheme \<Rightarrow> 'a expectation_base_scheme" where
  "set_response_trailers_sdk ts e = e\<lparr>eb_respTrailers := m_copy (eb_respTrailers e) ts\<rparr>"

text \<open>None of them may follow the call that commits the expectation.\<close>

definition base_call :: "sdk_lib \<Rightarrow> build_call \<Rightarrow> 'a expectation_base_scheme \<Rightarrow> 'a expectation_base_scheme option" where
  "base_call L c e =
     (if eb_committed e then None
      else case c of
        Match args \<Rightarrow> map_option (\<lambda>is. e\<lparr>eb_matchers := eb_matchers e @ is\<rparr>) (compile_match_args L args)
      | With_Header hs \<Rightarrow> Some (e\<lparr>eb_headers := foldl merge_input_header (eb_headers e) (map compile_header hs)\<rparr>)
      | Call_Times n \<Rightarrow> Some (e\<lparr>eb_times := n\<rparr>)
      | Call_Priority n \<Rightarrow> Some (e\<lparr>eb_priority := n\<rparr>)
      | Call_Session ses \<Rightarrow> Some (e\<lparr>eb_session := ses\<rparr>)
      | With_ID i \<Rightarrow> Some (e\<lparr>eb_id := Some i\<rparr>)
      | Return_Headers hs \<Rightarrow> Some (set_response_headers_sdk hs e)
      | Return_Trailers ts \<Rightarrow> Some (set_response_trailers_sdk ts e)
      | Match_Sequence ms \<Rightarrow> Some (set_sequence ms e)
      | Call_Delay d \<Rightarrow> Some e)"

definition unary_call :: "sdk_lib \<Rightarrow> build_call \<Rightarrow> unary_expectation \<Rightarrow> unary_expectation option" where
  "unary_call L c e =
     (case c of
        Call_Delay d \<Rightarrow> map_option (\<lambda>e. e\<lparr>ue_delay := d\<rparr>) (base_call L c e)
      | Match_Sequence ms \<Rightarrow> None
      | _ \<Rightarrow> base_call L c e)"

definition server_stream_call ::
  "sdk_lib \<Rightarrow> build_call \<Rightarrow> server_stream_expectation \<Rightarrow> server_stream_expectation option" where
  "server_stream_call L c e =
     (case c of
        Call_Delay d \<Rightarrow> map_option (\<lambda>e. e\<lparr>se_delay := d\<rparr>) (base_call L c e)
      | Match_Sequence ms \<Rightarrow> None
      | _ \<Rightarrow> base_call L c e)"

definition client_stream_call ::
  "sdk_lib \<Rightarrow> build_call \<Rightarrow> client_stream_expectation \<Rightarrow> client_stream_expectation option" where
  "client_stream_call L c e =
     (case c of
        Call_Delay d \<Rightarrow> map_option (\<lambda>e. e\<lparr>ce_delay := d\<rparr>) (base_call L c e)
      | _ \<Rightarrow> base_call L c e)"

definition bidi_call :: "sdk_lib \<Rightarrow> build_call \<Rightarrow> bidi_expectation \<Rightarrow> bidi_expectation option" where
  "bidi_call L c e =
     (case c of
        Call_Delay d \<Rightarrow> map_option (\<lambda>e. e\<lparr>be_delay := d\<rparr>) (base_call L c e)
      | _ \<Rightarrow> base_call L c e)"

text \<open>An ID that was asked for, or a random one.\<close>

definition new_stub_id :: "'a expectation_base_scheme \<Rightarrow> sdk_server \<Rightarrow> uuid \<times> sdk_server" where
  "new_stub_id e s =
     (case eb_id e of Some i \<Rightarrow> (i, s) | None \<Rightarrow> (hd (sv_fresh s), s\<lparr>sv_fresh := tl (sv_fresh s)\<rparr>))"

definition apply_response_meta :: "'a expectation_base_scheme \<Rightarrow> stub_output \<Rightarrow> stub_output" where
  "apply_response_meta e out =
     out\<lparr>OutHeaders := m_copy (OutHeaders out) (eb_respHeaders e),
         Trailers := m_copy (Trailers out) (eb_respTrailers e)\<rparr>"

definition stream_inputs :: "'a expectation_base_scheme \<Rightarrow> input_data list" where
  "stream_inputs e = (if eb_sequence e \<noteq> [] then eb_sequence e else [merge_input_data (eb_matchers e)])"

text \<open>A handler runs in the process of the test, so not on a remote server.\<close>

definition must_be_embedded :: "sdk_server \<Rightarrow> bool" where
  "must_be_embedded s \<longleftrightarrow> sv_remote s = None"

text \<open>The fields of a stub that come from the expectation, whatever it answers.\<close>

definition stub_of_base :: "'a expectation_base_scheme \<Rightarrow> uuid \<Rightarrow> stub_output \<Rightarrow> stub" where
  "stub_of_base e i out =
     empty_stub\<lparr>ID := i, Service := eb_Service e, Method := eb_Method e, Headers := eb_headers e, Output := out,
       Priority := eb_priority e, Session := eb_session e, Times := eb_times e, Effects := eb_effects e\<rparr>"

definition error_output :: "32 word \<Rightarrow> string \<Rightarrow> gmap list \<Rightarrow> stub_output" where
  "error_output code msg details = empty_output\<lparr>Code := Some code, Error := msg, Details := details\<rparr>"

definition with_delay :: "sdk_lib \<Rightarrow> int \<Rightarrow> stub_output \<Rightarrow> stub_output" where
  "with_delay L d out = (if 0 < d then out\<lparr>Delay := sl_duration_text L d\<rparr> else out)"

section \<open>Unary expectations\<close>

definition unary_build_output :: "sdk_lib \<Rightarrow> unary_expectation \<Rightarrow> stub_output" where
  "unary_build_output L e =
     (case ue_err e of
        Some err \<Rightarrow> with_delay L (ue_delay e) (error_output (se_Code err) (se_Msg err) (se_Details err))
      | None \<Rightarrow>
          (let data = (case ue_value e of Some v \<Rightarrow> v | None \<Rightarrow> VMap (entries (ue_kv e)))
           in with_delay L (ue_delay e) (empty_output\<lparr>Data := data\<rparr>)))"

definition chain_stub_id :: "unary_expectation \<Rightarrow> sdk_server \<Rightarrow> uuid \<times> sdk_server" where
  "chain_stub_id e s =
     (if 0 < ue_chainIdx e then (hd (sv_fresh s), s\<lparr>sv_fresh := tl (sv_fresh s)\<rparr>) else new_stub_id e s)"

definition unary_register_output ::
  "sdk_lib \<Rightarrow> unary_expectation \<Rightarrow> stub_output \<Rightarrow> int \<Rightarrow> sdk_server \<Rightarrow> stub \<times> sdk_server" where
  "unary_register_output L e out priority s =
     (let (i, s) = chain_stub_id e s;
          v = (stub_of_base e i (apply_response_meta e out))\<lparr>Input := merge_input_data (eb_matchers e),
            Priority := priority, Times := (if 0 < ue_chainIdx e then 1 else eb_times e), HasUnaryHandler := ue_handler e\<rparr>
      in track_expectation L v s)"

definition unary_register :: "sdk_lib \<Rightarrow> unary_expectation \<Rightarrow> sdk_server \<Rightarrow> unary_expectation \<times> sdk_server" where
  "unary_register L e s =
     (let e = e\<lparr>eb_committed := True\<rparr>; (v, s) = unary_register_output L e (unary_build_output L e) (eb_priority e) s
      in (e\<lparr>ue_firstStub := Some v, eb_stub := Some v, eb_stubID := ID v\<rparr>, s))"

definition unary_return ::
  "sdk_lib \<Rightarrow> sdk_arg list \<Rightarrow> unary_expectation \<Rightarrow> sdk_server \<Rightarrow> (unary_expectation \<times> sdk_server) option" where
  "unary_return L kv e s =
     (case extract_delay L kv of
        None \<Rightarrow> None
      | Some (d, data) \<Rightarrow>
          Some (unary_register L (e\<lparr>ue_kv := data, ue_delay := (if 0 < d then d else ue_delay e)\<rparr>) s))"

definition unary_return_json ::
  "sdk_lib \<Rightarrow> sdk_arg \<Rightarrow> unary_expectation \<Rightarrow> sdk_server \<Rightarrow> unary_expectation \<times> sdk_server" where
  "unary_return_json L v e s = unary_register L (e\<lparr>ue_kv := Some (json_to_map L v)\<rparr>) s"

definition unary_return_value ::
  "sdk_lib \<Rightarrow> sdk_arg \<Rightarrow> unary_expectation \<Rightarrow> sdk_server \<Rightarrow> unary_expectation \<times> sdk_server" where
  "unary_return_value L v e s = unary_register L (e\<lparr>ue_value := Some (arg_value L v)\<rparr>) s"

definition unary_return_error ::
  "sdk_lib \<Rightarrow> 32 word \<Rightarrow> string \<Rightarrow> gmap list \<Rightarrow> unary_expectation \<Rightarrow> sdk_server \<Rightarrow> unary_expectation \<times> sdk_server" where
  "unary_return_error L code msg details e s =
     unary_register L (e\<lparr>ue_err := Some \<lparr>se_Code = code, se_Msg = msg, se_Details = details\<rparr>\<rparr>) s"

definition unary_run :: "sdk_lib \<Rightarrow> unary_expectation \<Rightarrow> sdk_server \<Rightarrow> (unary_expectation \<times> sdk_server) option" where
  "unary_run L e s =
     (if \<not> must_be_embedded s then None else Some (unary_register L (e\<lparr>ue_handler := True\<rparr>) s))"

text \<open>A first stub without a limit answers once when another one is chained to it.\<close>

definition unary_fix_first :: "sdk_lib \<Rightarrow> unary_expectation \<Rightarrow> sdk_server \<Rightarrow> unary_expectation \<times> sdk_server" where
  "unary_fix_first L e s =
     (case ue_firstStub e of
        None \<Rightarrow> (e, s)
      | Some v \<Rightarrow>
          if Times v = 0
          then (let v = v\<lparr>Times := 1\<rparr>
                in (e\<lparr>ue_firstStub := Some v, eb_stub := Some v\<rparr>, upsert_stub L v s))
          else (e, s))"

definition unary_chain ::
  "sdk_lib \<Rightarrow> stub_output \<Rightarrow> unary_expectation \<Rightarrow> sdk_server \<Rightarrow> unary_expectation \<times> sdk_server" where
  "unary_chain L out e s =
     (let e = e\<lparr>ue_chainIdx := ue_chainIdx e + 1\<rparr>; (e, s) = unary_fix_first L e s
      in (e, snd (unary_register_output L e out (eb_priority e - ue_chainIdx e) s)))"

definition next_will_return ::
  "sdk_lib \<Rightarrow> sdk_arg list \<Rightarrow> unary_expectation \<Rightarrow> sdk_server \<Rightarrow> (unary_expectation \<times> sdk_server) option" where
  "next_will_return L kv e s =
     (case extract_delay L kv of
        None \<Rightarrow> None
      | Some (d, data) \<Rightarrow>
          Some (unary_chain L (with_delay L d (empty_output\<lparr>Data := VMap (entries data)\<rparr>)) e s))"

definition next_will_return_error ::
  "sdk_lib \<Rightarrow> 32 word \<Rightarrow> string \<Rightarrow> unary_expectation \<Rightarrow> sdk_server \<Rightarrow> unary_expectation \<times> sdk_server" where
  "next_will_return_error L code msg e s = unary_chain L (error_output code msg []) e s"

section \<open>Streams\<close>

text \<open>Server streams: a stream of items, an error, or a handler.\<close>

definition server_stream_register ::
  "sdk_lib \<Rightarrow> server_stream_expectation \<Rightarrow> stub_output \<Rightarrow> bool \<Rightarrow> sdk_server \<Rightarrow> server_stream_expectation \<times> sdk_server" where
  "server_stream_register L e out handler s =
     (let e = e\<lparr>eb_committed := True\<rparr>; (i, s) = new_stub_id e s;
          v = (stub_of_base e i (apply_response_meta e (with_delay L (se_delay e) out)))
            \<lparr>Input := merge_input_data (eb_matchers e), HasServerStreamHandler := handler\<rparr>;
          (v, s) = track_expectation L v s
      in (e\<lparr>eb_stubID := i, eb_stub := Some v\<rparr>, s))"

definition server_stream_return_error ::
  "sdk_lib \<Rightarrow> 32 word \<Rightarrow> string \<Rightarrow> gmap list \<Rightarrow> server_stream_expectation \<Rightarrow> sdk_server
     \<Rightarrow> server_stream_expectation \<times> sdk_server" where
  "server_stream_return_error L code msg details e s =
     server_stream_register L e (error_output code msg details) False s"

definition server_stream_run ::
  "sdk_lib \<Rightarrow> server_stream_expectation \<Rightarrow> sdk_server \<Rightarrow> (server_stream_expectation \<times> sdk_server) option" where
  "server_stream_run L e s =
     (if \<not> must_be_embedded s then None else Some (server_stream_register L e empty_output True s))"

record server_stream_builder =
  sb_stub :: stub
  sb_msgs :: "gvalue list"
  sb_base :: server_stream_expectation
  sb_chainIdx :: int

definition send_stream ::
  "sdk_lib \<Rightarrow> sdk_arg list \<Rightarrow> server_stream_expectation \<Rightarrow> sdk_server \<Rightarrow> server_stream_builder \<times> sdk_server" where
  "send_stream L items e s =
     (let stream = map (inject_stream_delay L) items;
          (e, s) = server_stream_register L e (empty_output\<lparr>Stream := Some stream\<rparr>) False s
      in (\<lparr>sb_stub = (case eb_stub e of Some v \<Rightarrow> v | None \<Rightarrow> empty_stub), sb_msgs = stream, sb_base = e, sb_chainIdx = 0\<rparr>, s))"

text \<open>A further message replaces the output of the stub as a whole.\<close>

definition builder_upsert :: "sdk_lib \<Rightarrow> server_stream_builder \<Rightarrow> sdk_server \<Rightarrow> server_stream_builder \<times> sdk_server" where
  "builder_upsert L b s =
     (let v = (sb_stub b)\<lparr>Output := empty_output\<lparr>Stream := Some (sb_msgs b)\<rparr>\<rparr>
      in (b\<lparr>sb_stub := v\<rparr>, upsert_stub L v s))"

definition builder_send ::
  "sdk_lib \<Rightarrow> sdk_arg list \<Rightarrow> server_stream_builder \<Rightarrow> sdk_server \<Rightarrow> (server_stream_builder \<times> sdk_server) option" where
  "builder_send L kv b s =
     (case (case kv of [item] \<Rightarrow> stream_element L item | _ \<Rightarrow> map_option VMap (parse_kv_pairs L kv)) of
        None \<Rightarrow> None
      | Some msg \<Rightarrow> Some (builder_upsert L (b\<lparr>sb_msgs := sb_msgs b @ [msg]\<rparr>) s))"

definition builder_fix_first :: "sdk_lib \<Rightarrow> server_stream_builder \<Rightarrow> sdk_server \<Rightarrow> server_stream_builder \<times> sdk_server" where
  "builder_fix_first L b s =
     (if Times (sb_stub b) = 0
      then (let v = (sb_stub b)\<lparr>Times := 1\<rparr> in (b\<lparr>sb_stub := v\<rparr>, upsert_stub L v s)) else (b, s))"

definition builder_next_will_return ::
  "sdk_lib \<Rightarrow> sdk_arg list \<Rightarrow> server_stream_builder \<Rightarrow> sdk_server \<Rightarrow> (server_stream_builder \<times> sdk_server) option" where
  "builder_next_will_return L kv b s =
     (let b = b\<lparr>sb_chainIdx := sb_chainIdx b + 1\<rparr>; (b, s) = builder_fix_first L b s in
      case extract_delay_item L kv of
        None \<Rightarrow> None
      | Some msg \<Rightarrow>
          (let e = sb_base b;
               v = (stub_of_base e (hd (sv_fresh s)) (apply_response_meta e (empty_output\<lparr>Stream := Some [msg]\<rparr>)))
                 \<lparr>Input := Input (sb_stub b), Priority := eb_priority e - sb_chainIdx b, Times := 1\<rparr>
           in Some (b, snd (track_expectation L v (s\<lparr>sv_fresh := tl (sv_fresh s)\<rparr>)))))"

text \<open>Client streams match the sequence of the messages, or all of them by one matcher.\<close>

definition client_stream_register ::
  "sdk_lib \<Rightarrow> client_stream_expectation \<Rightarrow> sdk_server \<Rightarrow> client_stream_expectation \<times> sdk_server" where
  "client_stream_register L e s =
     (let e = e\<lparr>eb_committed := True\<rparr>;
          out = (case ce_err e of
                   Some err \<Rightarrow> error_output (se_Code err) (se_Msg err) (se_Details err)
                 | None \<Rightarrow>
                     empty_output\<lparr>Data := (case ce_value e of Some v \<Rightarrow> v | None \<Rightarrow> VMap (entries (ce_kv e)))\<rparr>);
          (i, s) = new_stub_id e s;
          v = (stub_of_base e i (apply_response_meta e (with_delay L (ce_delay e) out)))
            \<lparr>Inputs := Some (stream_inputs e), HasClientStreamHandler := ce_handler e\<rparr>;
          (v, s) = track_expectation L v s
      in (e\<lparr>eb_stubID := i, eb_stub := Some v\<rparr>, s))"

definition client_stream_return ::
  "sdk_lib \<Rightarrow> sdk_arg list \<Rightarrow> client_stream_expectation \<Rightarrow> sdk_server \<Rightarrow> (client_stream_expectation \<times> sdk_server) option" where
  "client_stream_return L kv e s =
     (case extract_delay L kv of
        None \<Rightarrow> None
      | Some (d, data) \<Rightarrow>
          Some (client_stream_register L (e\<lparr>ce_kv := data, ce_delay := (if 0 < d then d else ce_delay e)\<rparr>) s))"

definition client_stream_return_value ::
  "sdk_lib \<Rightarrow> sdk_arg \<Rightarrow> client_stream_expectation \<Rightarrow> sdk_server \<Rightarrow> client_stream_expectation \<times> sdk_server" where
  "client_stream_return_value L v e s = client_stream_register L (e\<lparr>ce_value := Some (arg_value L v)\<rparr>) s"

definition client_stream_return_error ::
  "sdk_lib \<Rightarrow> 32 word \<Rightarrow> string \<Rightarrow> gmap list \<Rightarrow> client_stream_expectation \<Rightarrow> sdk_server
     \<Rightarrow> client_stream_expectation \<times> sdk_server" where
  "client_stream_return_error L code msg details e s =
     client_stream_register L (e\<lparr>ce_err := Some \<lparr>se_Code = code, se_Msg = msg, se_Details = details\<rparr>\<rparr>) s"

definition client_stream_run ::
  "sdk_lib \<Rightarrow> client_stream_expectation \<Rightarrow> sdk_server \<Rightarrow> (client_stream_expectation \<times> sdk_server) option" where
  "client_stream_run L e s =
     (if \<not> must_be_embedded s then None else Some (client_stream_register L (e\<lparr>ce_handler := True\<rparr>) s))"

definition bidi_register ::
  "sdk_lib \<Rightarrow> bidi_expectation \<Rightarrow> stub_output \<Rightarrow> input_data list \<Rightarrow> bool \<Rightarrow> sdk_server \<Rightarrow> bidi_expectation \<times> sdk_server" where
  "bidi_register L e out inputs handler s =
     (let e = e\<lparr>eb_committed := True\<rparr>; (i, s) = new_stub_id e s;
          v = (stub_of_base e i (apply_response_meta e (with_delay L (be_delay e) out)))
            \<lparr>Inputs := Some inputs, HasHandler := handler\<rparr>;
          (v, s) = track_expectation L v s
      in (e\<lparr>eb_stubID := i, eb_stub := Some v\<rparr>, s))"

definition bidi_send_stream ::
  "sdk_lib \<Rightarrow> sdk_arg list \<Rightarrow> bidi_expectation \<Rightarrow> sdk_server \<Rightarrow> bidi_expectation \<times> sdk_server" where
  "bidi_send_stream L items e s =
     bidi_register L e (empty_output\<lparr>Stream := Some (map (inject_stream_delay L) items)\<rparr>) (stream_inputs e) False s"

definition bidi_return_error ::
  "sdk_lib \<Rightarrow> 32 word \<Rightarrow> string \<Rightarrow> gmap list \<Rightarrow> bidi_expectation \<Rightarrow> sdk_server \<Rightarrow> bidi_expectation \<times> sdk_server" where
  "bidi_return_error L code msg details e s =
     bidi_register L e (error_output code msg details) (stream_inputs e) False s"

definition bidi_run :: "sdk_lib \<Rightarrow> bidi_expectation \<Rightarrow> sdk_server \<Rightarrow> (bidi_expectation \<times> sdk_server) option" where
  "bidi_run L e s =
     (if \<not> must_be_embedded s then None else Some (bidi_register L e empty_output [empty_input] True s))"

section \<open>Effects\<close>

text \<open>Effects given after the stub was registered are added to it.\<close>

definition append_effects ::
  "sdk_lib \<Rightarrow> effect list \<Rightarrow> 'a expectation_base_scheme \<Rightarrow> sdk_server \<Rightarrow> 'a expectation_base_scheme \<times> sdk_server" where
  "append_effects L effects e s =
     (let e = e\<lparr>eb_effects := eb_effects e @ effects\<rparr> in
      case eb_stub e of
        Some v \<Rightarrow>
          if eb_committed e
          then (let v = v\<lparr>Effects := eb_effects e\<rparr> in (e\<lparr>eb_stub := Some v\<rparr>, upsert_stub L v s)) else (e, s)
      | None \<Rightarrow> (e, s))"

definition delete_stub_effect :: "string \<Rightarrow> effect" where
  "delete_stub_effect i = \<lparr>Action = ''delete'', EffectID = i, EffectStub = None\<rparr>"

definition put_if_any :: "string \<Rightarrow> gomap \<Rightarrow> gmap \<Rightarrow> gmap" where
  "put_if_any key src dst = (if 0 < mlen src then m_put key (VMap (entries src)) dst else dst)"

text \<open>The matchers of an upsert effect as the map its stub is decoded from; \<open>alt\<close> is how an alternative
  encodes.\<close>

definition matcher_to_map :: "'a matcher_scheme \<Rightarrow> gmap" where
  "matcher_to_map i =
     put_if_any ''glob'' (Glob i) (put_if_any ''matches'' (Matches i)
       (put_if_any ''contains'' (Contains i) (put_if_any ''equals'' (Equals i) [])))"

definition input_data_to_map :: "(any_of_element \<Rightarrow> gvalue) \<Rightarrow> input_data \<Rightarrow> gmap" where
  "input_data_to_map alt i =
     (let m = matcher_to_map i;
          m = (if AnyOf i \<noteq> [] then m_put ''anyOf'' (VList (map alt (AnyOf i))) m else m)
      in if IgnoreArrayOrder i then m_put ''ignoreArrayOrder'' (VBool True) m else m)"

definition input_header_to_map :: "(matcher \<Rightarrow> gvalue) \<Rightarrow> input_header \<Rightarrow> gmap" where
  "input_header_to_map alt h =
     (let m = matcher_to_map h
      in if HeaderAnyOf h \<noteq> [] then m_put ''anyOf'' (VList (map alt (HeaderAnyOf h))) m else m)"

definition strings_to_map :: "(string \<times> string) list \<Rightarrow> gvalue" where
  "strings_to_map kvs = VMap (map (\<lambda>(k, v). (k, VString v)) kvs)"

definition output_to_map :: "stub_output \<Rightarrow> gmap" where
  "output_to_map out =
     (let put = (\<lambda>c k v m. if c then m_put k v m else m);
          m = put (Data out \<noteq> VNil) ''data'' (Data out) [];
          m = put (stream_list out \<noteq> []) ''stream'' (VList (stream_list out)) m;
          m = put (OutHeaders out \<noteq> []) ''headers'' (strings_to_map (OutHeaders out)) m;
          m = put (Trailers out \<noteq> []) ''trailers'' (strings_to_map (Trailers out)) m;
          m = (case Code out of None \<Rightarrow> m
               | Some c \<Rightarrow> m_put ''error'' (VString (Error out)) (m_put ''code'' (VUint32 (uint c)) m));
          m = put (Details out \<noteq> []) ''details'' (VList (map VMap (Details out))) m
      in put (Delay out \<noteq> '''') ''delay'' (VString (Delay out)) m)"

text \<open>The stub of an upsert effect: what \<^verbatim>\<open>Build\<close> puts into the map.\<close>

definition build_upsert_effect ::
  "sdk_lib \<Rightarrow> (any_of_element \<Rightarrow> gvalue) \<Rightarrow> (matcher \<Rightarrow> gvalue) \<Rightarrow> 'a expectation_base_scheme \<Rightarrow> stub_output \<Rightarrow> effect" where
  "build_upsert_effect L alt halt e out =
     (let out = out\<lparr>OutHeaders := (if eb_respHeaders e \<noteq> [] then eb_respHeaders e else OutHeaders out),
            Trailers := (if eb_respTrailers e \<noteq> [] then eb_respTrailers e else Trailers out)\<rparr>;
          put = (\<lambda>c k v m. if c then m_put k v m else m);
          input = input_data_to_map alt (merge_input_data (eb_matchers e));
          headers = input_header_to_map halt (eb_headers e);
          m = [(''service'', VString (eb_Service e)), (''method'', VString (eb_Method e))];
          m = (case eb_id e of None \<Rightarrow> m | Some i \<Rightarrow> m_put ''id'' (VString (sl_uuid_text L i)) m);
          m = put (eb_session e \<noteq> '''') ''session'' (VString (eb_session e)) m;
          m = put (eb_priority e \<noteq> 0) ''priority'' (VInt (eb_priority e)) m;
          m = put (eb_times e \<noteq> 0) ''options'' (VMap [(''times'', VInt (eb_times e))]) m;
          m = put (input \<noteq> []) ''input'' (VMap input) m;
          m = put (headers \<noteq> []) ''headers'' (VMap headers) m;
          m = put (output_to_map out \<noteq> []) ''output'' (VMap (output_to_map out)) m
      in \<lparr>Action = ''upsert'', EffectID = '''', EffectStub = Some m\<rparr>)"

section \<open>Verification\<close>

definition joined_ok :: "'e list \<Rightarrow> 'e list option" where
  "joined_ok errs = (if errs = [] then None else Some errs)"

record expectation_not_met =
  nm_Service :: string
  nm_Method :: string
  nm_Expected :: int
  nm_Actual :: int

text \<open>Digits into a buffer of 20 bytes, from its end; a number below zero has none.\<close>

fun itoa_digits :: "int \<Rightarrow> string \<Rightarrow> string" where
  "itoa_digits n buf = (if n \<le> 0 then buf else itoa_digits (n div 10) (char_of (48 + nat (n mod 10)) # buf))"

declare itoa_digits.simps [simp del]

definition sdk_itoa :: "int \<Rightarrow> string" where
  "sdk_itoa n = (if n = 0 then ''0'' else itoa_digits n [])"

definition not_met_text :: "expectation_not_met \<Rightarrow> string" where
  "not_met_text e =
     ''gripmock: '' @ nm_Service e @ ''/'' @ nm_Method e @ '': expected '' @ sdk_itoa (nm_Expected e) @
     '' call(s), got '' @ sdk_itoa (nm_Actual e)"

definition stub_calls :: "uuid \<Rightarrow> call_record list \<Rightarrow> int" where
  "stub_calls i cs = int (length (filter (\<lambda>c. c_StubID c = i) cs))"

definition verify_calls :: "expected_call list \<Rightarrow> call_record list \<Rightarrow> expectation_not_met list option" where
  "verify_calls ecs cs =
     joined_ok (List.map_filter (\<lambda>e.
       if ec_Times e = 0 then None
       else if stub_calls (ec_StubID e) cs \<noteq> ec_Times e
         then Some \<lparr>nm_Service = ec_Service e, nm_Method = ec_Method e, nm_Expected = ec_Times e,
           nm_Actual = stub_calls (ec_StubID e) cs\<rparr>
         else None) ecs)"

text \<open>The first check counts; after it the server is verified, and later checks report nothing. \<open>remote\<close> is the
  history a remote server returns, or its error.\<close>

definition expectations_were_met ::
  "sdk_lib \<Rightarrow> (string + call_record list) \<Rightarrow> sdk_server \<Rightarrow> (string + expectation_not_met list option) \<times> sdk_server" where
  "expectations_were_met L remote s =
     (if sv_verified s then (Inr None, s)
      else (let s = flush L (s\<lparr>sv_verified := True\<rparr>) in
        case sv_remote s of
          Some m \<Rightarrow>
            (case remote of Inl e \<Rightarrow> Inl e | Inr cs \<Rightarrow> Inr (verify_calls (sv_expectations s) cs), s)
        | None \<Rightarrow>
            (Inr (verify_calls (sv_expectations s) (case sv_recorder s of None \<Rightarrow> [] | Some h \<Rightarrow> history_all h)), s)))"

definition sdk_called :: "string \<Rightarrow> sdk_server \<Rightarrow> nat" where
  "sdk_called full_method s =
     (case split_method_name full_method of (svc, method) \<Rightarrow>
       (case sv_recorder s of None \<Rightarrow> 0
        | Some h \<Rightarrow> count_filter \<lparr>fo_Service = svc, fo_Method = method, fo_Session = sv_session s, fo_ErrorOnly = False\<rparr> h))"

definition total_calls :: "sdk_server \<Rightarrow> nat" where
  "total_calls s =
     (case sv_recorder s of None \<Rightarrow> 0
      | Some h \<Rightarrow>
          if sv_session s = '''' then count_history h
          else count_filter \<lparr>fo_Service = '''', fo_Method = '''', fo_Session = sv_session s, fo_ErrorOnly = False\<rparr> h)"

definition sdk_history :: "sdk_server \<Rightarrow> call_record list" where
  "sdk_history s =
     (case sv_recorder s of None \<Rightarrow> []
      | Some h \<Rightarrow>
          if sv_session s = '''' then history_all h
          else history_filter \<lparr>fo_Service = '''', fo_Method = '''', fo_Session = sv_session s, fo_ErrorOnly = False\<rparr> h)"

text \<open>\<^verbatim>\<open>Reset\<close>, for a remote server up to the two requests it makes: they delete the stubs it added and
  purge its history.\<close>

definition sdk_reset :: "sdk_server \<Rightarrow> sdk_server" where
  "sdk_reset s =
     s\<lparr>sv_expectations := [], sv_verified := False, sv_pending := [],
       sv_engine := map_option budgerigar_clear (sv_engine s),
       sv_remote := map_option (\<lambda>m. m\<lparr>rm_stubIDs := []\<rparr>) (sv_remote s),
       sv_recorder := map_option clear_history (sv_recorder s)\<rparr>"

end
