(* ===== verification/Sdk_Claims.thy ===== *)
theory Sdk_Claims
  imports Sdk Proxy_Claims
begin

text \<open>
  Properties of the client library on the engine: chained answers come in order, a check of the
  expectations counts exactly, and where what a test wrote is not what the server does.
\<close>

section \<open>Answers taken one by one\<close>

fun take_answers :: "('s \<Rightarrow> 'o option \<times> 's) \<Rightarrow> nat \<Rightarrow> 's \<Rightarrow> 'o option list" where
  "take_answers step 0 s = []"
| "take_answers step (Suc n) s = (let (x, s) = step s in x # take_answers step n s)"

text \<open>What a client of a queue of answers relies on: a step gives the first of those that wait, and none when
  nothing waits.\<close>

locale answer_queue =
  fixes step :: "'s \<Rightarrow> 'o option \<times> 's" and waiting :: "'o list \<Rightarrow> 's \<Rightarrow> bool"
  assumes first: "waiting (x # xs) s \<Longrightarrow> fst (step s) = Some x \<and> waiting xs (snd (step s))"
    and empty: "waiting [] s \<Longrightarrow> fst (step s) = None \<and> waiting [] (snd (step s))"
begin

lemma none_left: "waiting [] s \<Longrightarrow> take_answers step n s = replicate n None"
proof (induction n arbitrary: s)
  case (Suc n)
  then show ?case using empty [OF Suc.prems] by (simp add: split_def Let_def)
qed simp

lemma in_order: "waiting xs s \<Longrightarrow> take_answers step (length xs + n) s = map Some xs @ replicate n None"
proof (induction xs arbitrary: s)
  case (Cons x xs)
  then show ?case using first [OF Cons.prems] by (simp add: split_def Let_def)
qed (simp add: none_left)

end

section \<open>Stubs that answer once\<close>

definition search_step :: "golib \<Rightarrow> go_runtime \<Rightarrow> query \<Rightarrow> searcher \<Rightarrow> stub option \<times> searcher" where
  "search_step g r q s =
     (let (res, s') = find_query g r q s in (case res of Inl _ \<Rightarrow> None | Inr x \<Rightarrow> res_found x, s'))"

text \<open>Stubs alike but for ID, priority, limit and what they answer.\<close>

definition alike :: "stub \<Rightarrow> stub \<Rightarrow> bool" where
  "alike v w \<longleftrightarrow> Headers v = Headers w \<and> Input v = Input w \<and> Inputs v = Inputs w"

definition search_ok :: "golib \<Rightarrow> go_runtime \<Rightarrow> query \<Rightarrow> searcher \<Rightarrow> bool" where
  "search_ok g r q s \<longleftrightarrow>
     searcher_ok g s \<and> runtime_ok r \<and> hash_separates g (search_names s q) \<and> index_uniform g s q \<and>
     (\<forall>v\<in>eligible s q. index_safe g v) \<and> q_ID q = None \<and> \<not> request_internal q \<and> \<not> allows_internal_stubs q"

definition chained :: "golib \<Rightarrow> go_runtime \<Rightarrow> query \<Rightarrow> stub list \<Rightarrow> searcher \<Rightarrow> bool" where
  "chained g r q ws s \<longleftrightarrow>
     search_ok g r q s \<and> {v \<in> answerable s q. fast_match_v2 g q v} = set ws \<and>
     (\<forall>w\<in>set ws. Times w = 1) \<and> (\<forall>v\<in>set ws. \<forall>w\<in>set ws. alike v w) \<and>
     sorted_wrt (\<lambda>v w. Priority w < Priority v) ws"

lemma alike_rank:
  assumes "alike v w"
  shows "fast_match_v2 g q v = fast_match_v2 g q w" "fast_rank_v2 g q v = fast_rank_v2 g q w"
    "calc_specificity v q = calc_specificity w q"
proof -
  have e: "Headers v = Headers w" "Input v = Input w" "Inputs v = Inputs w" using assms by (simp_all add: alike_def)
  show "fast_match_v2 g q v = fast_match_v2 g q w"
    by (simp only: fast_match_v2_def match_query_headers_def fast_match_body_def e)
  show "fast_rank_v2 g q v = fast_rank_v2 g q w" by (simp only: fast_rank_v2_def e)
  show "calc_specificity v q = calc_specificity w q" by (simp only: calc_specificity_def inputs_list_def e)
qed

lemma higher_priority_ranks:
  "alike v w \<Longrightarrow> Priority w < Priority v \<Longrightarrow> compare_ranked_matches (ranked_match_for g q v) (ranked_match_for g q w) \<le> 0"
  using alike_rank [of v w]
  by (simp add: compare_ranked_le ranked_match_for_def score_with_priority_def priority_multiplier_def)

lemma reserve_ext [simp]: "ext (reserve_state q v s) = ext s"
  by (simp add: reserve_state_def)

lemma counted_nonneg: "searcher_ok g s \<Longrightarrow> 0 \<le> call_count s k"
  by (auto simp: call_count_def searcher_ok_def split: option.split dest!: map_of_SomeD)

lemma reserve_count:
  "\<not> request_internal q \<Longrightarrow>
     call_count (reserve_state q v s) k = (if k = (ID v, q_Session q) then call_count s k + 1 else call_count s k)"
  by (auto simp: call_count_def reserve_state_def reserve_number_def)

text \<open>Once it has answered, a stub that answers once is gone.\<close>

lemma reserve_answerable:
  assumes "searcher_ok g s" and "\<not> request_internal q" and "w \<in> answerable s q" and "Times w = 1"
  shows "answerable (reserve_state q w s) q = answerable s q - {w}"
proof -
  have inj: "v = w" if "v \<in> answerable s q" "ID v = ID w" for v
    using answerable_inj [of g s q] assms(1,3) that by (auto simp: searcher_ok_def inj_on_def)
  have "not_exhausted (reserve_state q w s) v (q_Session q) \<longleftrightarrow>
      not_exhausted s v (q_Session q) \<and> (ID v = ID w \<longrightarrow> effective_times v \<le> 0 \<or> call_count s (ID v, q_Session q) + 1 < effective_times v)"
    for v
    by (auto simp: not_exhausted_def reserve_count [OF assms(2)])
  moreover have "\<not> (effective_times w \<le> 0 \<or> call_count s (ID w, q_Session q) + 1 < effective_times w)"
    using counted_nonneg [OF assms(1), of "(ID w, q_Session q)"] assms(4) by (simp add: effective_times_def)
  ultimately show ?thesis
    using inj by (auto simp: answerable_def)
qed

lemma search_ok_reserve:
  assumes "search_ok g r q s" and "w \<in> answerable s q"
  shows "search_ok g r q (reserve_state q w s)"
proof -
  have "eligible (reserve_state q w s) q \<subseteq> eligible s q"
    using assms(1) by (auto simp: eligible_def not_exhausted_def search_ok_def reserve_count split: if_splits)
  then show ?thesis
    using assms(1)
    by (auto simp: search_ok_def search_names_def index_uniform_def intro: searcher_ok_reserve)
qed

text \<open>The stubs of a chain are a queue for the searches of one query.\<close>

interpretation chain: answer_queue "search_step g r q" "chained g r q" for g r q
proof
  fix w ws s
  assume c: "chained g r q (w # ws) s"
  then have ok: "search_ok g r q s" and all: "{v \<in> answerable s q. fast_match_v2 g q v} = insert w (set ws)"
    by (simp_all add: chained_def)
  then have w: "w \<in> answerable s q" "fast_match_v2 g q w" by auto
  have below: "compare_ranked_matches (ranked_match_for g q w) (ranked_match_for g q v) \<le> 0"
    if "v \<in> answerable s q" "fast_match_v2 g q v" for v
  proof (cases "v = w")
    case True
    then show ?thesis by (simp add: ranked.cmp_refl)
  next
    case False
    then have "v \<in> set ws" using that all by auto
    then show ?thesis using c by (intro higher_priority_ranks) (auto simp: chained_def)
  qed
  then have "best_match g q (answerable s q) w" using w by (simp add: best_match_def)
  then have found: "find_query g r q s = (Inr (found_result w (reserve_number q w s)), reserve_state q w s)"
    using ok by (intro find_query_best) (simp_all add: search_ok_def)
  have "Times w = 1" and notin: "w \<notin> set ws" using c by (auto simp: chained_def)
  then have "answerable (reserve_state q w s) q = answerable s q - {w}"
    using ok w by (intro reserve_answerable) (auto simp: search_ok_def)
  then have "{v \<in> answerable (reserve_state q w s) q. fast_match_v2 g q v} = set ws"
    using all notin by auto
  then have "chained g r q ws (reserve_state q w s)"
    using c search_ok_reserve [OF ok w(1)] by (auto simp: chained_def)
  with found show "fst (search_step g r q s) = Some w \<and> chained g r q ws (snd (search_step g r q s))"
    by (simp add: search_step_def found_result_def)
next
  fix s
  assume c: "chained g r q [] s"
  then have ok: "search_ok g r q s" and miss: "\<forall>v\<in>answerable s q. \<not> fast_match_v2 g q v"
    by (auto simp: chained_def)
  have "found_id (fst (find_query g r q s)) = None \<and> snd (find_query g r q s) = s"
    using miss_not_found [of g s q r] ok miss by (simp add: search_ok_def searcher_ok_def)
  then show "fst (search_step g r q s) = None \<and> chained g r q [] (snd (search_step g r q s))"
    using c by (auto simp: search_step_def found_id_def split_def split: sum.splits)
qed

section \<open>Chained answers\<close>

text \<open>\<open>Return\<close> or another terminal call, then \<open>NextWillReturn\<close> for each further output.\<close>

definition register_chain ::
  "sdk_lib \<Rightarrow> stub_output list \<Rightarrow> unary_expectation \<Rightarrow> sdk_server \<Rightarrow> unary_expectation \<times> sdk_server" where
  "register_chain L outs e s = foldl (\<lambda>(e, s) out. unary_chain L out e s) (unary_register L e s) outs"

definition chain_stub :: "unary_expectation \<Rightarrow> uuid \<Rightarrow> nat \<Rightarrow> stub_output \<Rightarrow> stub" where
  "chain_stub e i k out =
     (stub_of_base e i (apply_response_meta e out))\<lparr>Input := merge_input_data (eb_matchers e),
        Priority := eb_priority e - int k, Times := 1, HasUnaryHandler := ue_handler e\<rparr>"

lemma chain_stub_sel [simp]:
  "ID (chain_stub e i k out) = i" "Times (chain_stub e i k out) = 1" "Service (chain_stub e i k out) = eb_Service e"
  "Method (chain_stub e i k out) = eb_Method e" "Session (chain_stub e i k out) = eb_session e"
  "Priority (chain_stub e i k out) = eb_priority e - int k" "Output (chain_stub e i k out) = apply_response_meta e out"
  "Inputs (chain_stub e i k out) = None"
  by (simp_all add: chain_stub_def stub_of_base_def empty_stub_def)

lemma chain_stubs_alike: "alike (chain_stub e i k out) (chain_stub e i' k' out')"
  by (simp add: alike_def chain_stub_def stub_of_base_def)

text \<open>What storing one stub does to the engine of an embedded server.\<close>

lemma put_engine:
  assumes "searcher_ok g e" and "ID v \<noteq> 0" and "priority_ok v"
  shows "stub_map (ext (snd (put_many g fresh [v] e))) = (stub_map (ext e))(ID v \<mapsto> v)"
    and "searcher_ok g (snd (put_many g fresh [v] e))" and "call_count (snd (put_many g fresh [v] e)) k = call_count e k"
  using assms
  by (simp_all add: put_many_def searcher_upsert_def split_def Let_def stub_map_upsert searcher_ok_def storage_ok_upsert
      call_count_def)

text \<open>The engine of a server after some changes that only stored stubs: the map, and nothing counted.\<close>

definition engine_at :: "sdk_lib \<Rightarrow> sdk_server \<Rightarrow> (uuid \<Rightarrow> stub option) \<Rightarrow> searcher \<Rightarrow> bool" where
  "engine_at L s m e0 \<longleftrightarrow>
     (\<exists>e. sv_engine s = Some e \<and> stub_map (ext e) = m \<and> searcher_ok (sl_lib L) e \<and> (\<forall>k. call_count e k = call_count e0 k)) \<and>
     sv_remote s = None"

lemma engine_at_track:
  assumes "engine_at L s m e0" and "ID v \<noteq> 0" and "priority_ok v"
  shows "fst (track_expectation L v s) = v" and "engine_at L (snd (track_expectation L v s)) (m(ID v \<mapsto> v)) e0"
    and "sv_fresh (snd (track_expectation L v s)) = sv_fresh s"
  using assms put_engine [OF _ assms(2,3)]
  by (auto simp: engine_at_def track_expectation_def register_stub_def)

lemma engine_at_upsert:
  assumes "engine_at L s m e0" and "ID v \<noteq> 0" and "priority_ok v"
  shows "engine_at L (upsert_stub L v s) (m(ID v \<mapsto> v)) e0" and "sv_fresh (upsert_stub L v s) = sv_fresh s"
  using assms put_engine [OF _ assms(2,3)]
  by (auto simp: engine_at_def upsert_stub_def register_stub_def)

lemma engine_at_fresh [simp]: "engine_at L (s\<lparr>sv_fresh := f\<rparr>) m e0 = engine_at L s m e0"
  by (simp add: engine_at_def)

definition chain_map ::
  "unary_expectation \<Rightarrow> uuid list \<Rightarrow> stub_output list \<Rightarrow> nat \<Rightarrow> (uuid \<Rightarrow> stub option) \<Rightarrow> uuid \<Rightarrow> stub option" where
  "chain_map x ids outs j m = fold (\<lambda>k m. m(ids ! k \<mapsto> chain_stub x (ids ! k) k (outs ! k))) [1..<Suc j] m"

lemma chain_map_Suc:
  "chain_map x ids outs (Suc j) m = (chain_map x ids outs j m)(ids ! Suc j \<mapsto> chain_stub x (ids ! Suc j) (Suc j) (outs ! Suc j))"
  by (simp add: chain_map_def)

text \<open>After the terminal call and \<open>j\<close> further answers.\<close>

definition first_stub :: "unary_expectation \<Rightarrow> uuid list \<Rightarrow> stub_output list \<Rightarrow> nat \<Rightarrow> stub" where
  "first_stub x ids outs j =
     (if j = 0 then (chain_stub x (ids ! 0) 0 (outs ! 0))\<lparr>Times := eb_times x\<rparr> else chain_stub x (ids ! 0) 0 (outs ! 0))"

definition registered_to ::
  "sdk_lib \<Rightarrow> unary_expectation \<Rightarrow> uuid list \<Rightarrow> stub_output list \<Rightarrow> nat \<Rightarrow> uuid list \<Rightarrow> searcher \<Rightarrow> unary_expectation \<times> sdk_server \<Rightarrow> bool" where
  "registered_to L x ids outs j rest e0 = (\<lambda>(y, t).
     y = x\<lparr>eb_committed := True, eb_stub := Some (first_stub x ids outs j), eb_stubID := ids ! 0,
       ue_firstStub := Some (first_stub x ids outs j), ue_chainIdx := int j\<rparr> \<and>
     sv_fresh t = drop (Suc j) ids @ rest \<and>
     engine_at L t (chain_map x ids outs j ((stub_map (ext e0))(ids ! 0 \<mapsto> first_stub x ids outs j))) e0)"

lemma registered_first:
  assumes "engine_at L s (stub_map (ext e0)) e0" and "sv_fresh s = ids @ rest" and "0 \<notin> set ids" "ids \<noteq> []"
    and "eb_id x = None" "ue_chainIdx x = 0" and "priority_ok (first_stub x ids outs 0)" and "outs ! 0 = unary_build_output L x"
  shows "registered_to L x ids outs 0 rest e0 (unary_register L x s)"
proof -
  obtain i ids' where ids: "ids = i # ids'" using assms(4) by (cases ids) auto
  let ?v = "first_stub x ids outs 0" and ?s = "s\<lparr>sv_fresh := ids' @ rest\<rparr>"
  have v: "(stub_of_base x i (apply_response_meta x (unary_build_output L x)))\<lparr>Input := merge_input_data (eb_matchers x),
      Priority := eb_priority x, Times := eb_times x, HasUnaryHandler := ue_handler x\<rparr> = ?v"
    using assms(8) by (simp add: first_stub_def chain_stub_def ids)
  have i: "ID ?v = i" "i \<noteq> 0" using assms(3) by (auto simp: first_stub_def ids)
  have e: "stub_of_base (x\<lparr>eb_committed := c\<rparr>) = stub_of_base x" "apply_response_meta (x\<lparr>eb_committed := c\<rparr>) = apply_response_meta x"
      "unary_build_output L (x\<lparr>eb_committed := c\<rparr>) = unary_build_output L x" for c
    by (auto simp: stub_of_base_def apply_response_meta_def unary_build_output_def fun_eq_iff split: option.split)
  have "unary_register_output L (x\<lparr>eb_committed := True\<rparr>) (unary_build_output L x) (eb_priority x) s = track_expectation L ?v ?s"
    using assms(2,5,6) by (simp add: unary_register_output_def chain_stub_id_def new_stub_id_def e v ids)
  moreover have "engine_at L ?s (stub_map (ext e0)) e0" using assms(1) by simp
  note engine_at_track [OF this i(2) [folded i(1)] assms(7)]
  ultimately show ?thesis
    using i assms(6)
    by (simp add: unary_register_def e split_def Let_def registered_to_def ids chain_map_def)
qed


lemma stub_of_base_frame [simp]:
  "stub_of_base (x\<lparr>eb_committed := a, eb_stub := b, eb_stubID := c, ue_firstStub := d, ue_chainIdx := n\<rparr>) = stub_of_base x"
  "apply_response_meta (x\<lparr>eb_committed := a, eb_stub := b, eb_stubID := c, ue_firstStub := d, ue_chainIdx := n\<rparr>) =
     apply_response_meta x"
  by (auto simp: stub_of_base_def apply_response_meta_def fun_eq_iff)

lemma chain_map_other:
  "i \<notin> (\<lambda>k. ids ! k) ` {1..j} \<Longrightarrow> chain_map x ids outs j (m(i \<mapsto> v)) = (chain_map x ids outs j m)(i \<mapsto> v)"
proof (induction j)
  case (Suc j)
  then have "i \<notin> (\<lambda>k. ids ! k) ` {1..j}" "i \<noteq> ids ! Suc j" by (auto simp: image_iff)
  then show ?case using Suc.IH by (auto simp: chain_map_Suc fun_upd_twist)
qed (simp add: chain_map_def)

lemma registered_next:
  assumes r: "registered_to L x ids outs j rest e0 (y, t)" and j: "Suc j < length ids"
    and ids: "distinct ids" "0 \<notin> set ids" and times: "eb_times x = 0 \<or> eb_times x = 1"
    and p: "\<And>k. k \<le> Suc j \<Longrightarrow> priority_ok (chain_stub x (ids ! k) k (outs ! k))"
  shows "registered_to L x ids outs (Suc j) rest e0 (unary_chain L (outs ! Suc j) y t)"
proof -
  let ?m = "(stub_map (ext e0))(ids ! 0 \<mapsto> first_stub x ids outs j)"
  let ?w = "chain_stub x (ids ! 0) 0 (outs ! 0)" and ?v = "chain_stub x (ids ! Suc j) (Suc j) (outs ! Suc j)"
  let ?y = "\<lambda>k. x\<lparr>eb_committed := True, eb_stub := Some ?w, eb_stubID := ids ! 0, ue_firstStub := Some ?w, ue_chainIdx := int k\<rparr>"
  have y: "y = x\<lparr>eb_committed := True, eb_stub := Some (first_stub x ids outs j), eb_stubID := ids ! 0,
       ue_firstStub := Some (first_stub x ids outs j), ue_chainIdx := int j\<rparr>"
    and fresh: "sv_fresh t = ids ! Suc j # drop (Suc (Suc j)) ids @ rest"
    and at: "engine_at L t (chain_map x ids outs j ?m) e0"
    using r j by (auto simp: registered_to_def Cons_nth_drop_Suc [symmetric])
  have pos: "0 < length ids" using j by linarith
  have nz: "ids ! k \<noteq> 0" if "k < length ids" for k using ids(2) that by (metis nth_mem)
  have same: "ids ! 0 \<notin> (\<lambda>k. ids ! k) ` {1..j}"
  proof
    assume "ids ! 0 \<in> (\<lambda>k. ids ! k) ` {1..j}"
    then obtain k where "ids ! 0 = ids ! k" "1 \<le> k" "k \<le> j" by auto
    then show False using j pos nth_eq_iff_index_eq [OF ids(1), of 0 k] by linarith
  qed
  obtain t' where fix_first: "unary_fix_first L (y\<lparr>ue_chainIdx := int (Suc j)\<rparr>) t = (?y (Suc j), t')"
    and fresh': "sv_fresh t' = sv_fresh t"
    and at': "engine_at L t' (chain_map x ids outs j ((stub_map (ext e0))(ids ! 0 \<mapsto> ?w))) e0"
  proof (cases "Times (first_stub x ids outs j) = 0")
    case True
    then have f: "(first_stub x ids outs j)\<lparr>Times := 1\<rparr> = ?w"
      by (simp add: first_stub_def chain_stub_def split: if_splits)
    have "unary_fix_first L (y\<lparr>ue_chainIdx := int (Suc j)\<rparr>) t = (?y (Suc j), upsert_stub L ?w t)"
      using True f by (simp add: y unary_fix_first_def Let_def)
    moreover have "ID ?w \<noteq> 0" "priority_ok ?w" using nz [OF pos] p [of 0] by simp_all
    note engine_at_upsert [OF at this]
    ultimately show thesis using that same by (simp add: chain_map_other)
  next
    case False
    then have "first_stub x ids outs j = ?w"
      using times by (auto simp: first_stub_def chain_stub_def)
    then show thesis using that [of t] False at by (simp add: y unary_fix_first_def)
  qed
  have "unary_chain L (outs ! Suc j) y t = (?y (Suc j),
      snd (track_expectation L ?v (t'\<lparr>sv_fresh := drop (Suc (Suc j)) ids @ rest\<rparr>)))"
    using fix_first fresh fresh'
    by (simp add: unary_chain_def y split_def Let_def unary_register_output_def chain_stub_id_def chain_stub_def
        add.commute [of "int j" 1])
  moreover have "ID ?v \<noteq> 0" "priority_ok ?v" using nz [OF j] p [of "Suc j"] by simp_all
  moreover have "engine_at L (t'\<lparr>sv_fresh := drop (Suc (Suc j)) ids @ rest\<rparr>)
      (chain_map x ids outs j ((stub_map (ext e0))(ids ! 0 \<mapsto> ?w))) e0"
    using at' by simp
  ultimately show ?thesis
    using engine_at_track [of L _ _ e0 ?v]
    by (simp add: registered_to_def first_stub_def chain_map_Suc)
qed


lemma registered_all:
  assumes "registered_to L x ids (o1 # outs) 0 rest e0 (unary_register L x s)" and "length outs < length ids"
    and "distinct ids" "0 \<notin> set ids" and "eb_times x = 0 \<or> eb_times x = 1"
    and p: "\<And>k. k \<le> length outs \<Longrightarrow> priority_ok (chain_stub x (ids ! k) k ((o1 # outs) ! k))"
  shows "registered_to L x ids (o1 # outs) (length outs) rest e0 (register_chain L outs x s)"
proof -
  have "registered_to L x ids (o1 # outs) j rest e0 (register_chain L (take j outs) x s)" if "j \<le> length outs" for j
    using that
  proof (induction j)
    case 0
    then show ?case using assms(1) by (simp add: register_chain_def)
  next
    case (Suc j)
    obtain y t where yt: "register_chain L (take j outs) x s = (y, t)" by fastforce
    have "registered_to L x ids (o1 # outs) (Suc j) rest e0 (unary_chain L ((o1 # outs) ! Suc j) y t)"
      by (rule registered_next) (use Suc yt assms in auto)
    then show ?case
      using Suc.prems yt by (simp add: register_chain_def take_Suc_conv_app_nth)
  qed
  from this [of "length outs"] show ?thesis by simp
qed

definition chain_stubs :: "unary_expectation \<Rightarrow> uuid list \<Rightarrow> stub_output list \<Rightarrow> stub list" where
  "chain_stubs x ids outs = map (\<lambda>k. chain_stub x (ids ! k) k (outs ! k)) [0..<length outs]"

lemma chain_stubs_ID: "length outs = length ids \<Longrightarrow> map ID (chain_stubs x ids outs) = ids"
  by (simp add: chain_stubs_def o_def map_nth)

lemma chain_stubs_Output: "map Output (chain_stubs x ids outs) = map (apply_response_meta x) outs"
  by (auto simp: chain_stubs_def intro!: nth_equalityI)

lemma chain_stubs_length [simp]: "length (chain_stubs x ids outs) = length outs" "chain_stubs x ids outs = [] \<longleftrightarrow> outs = []"
  by (simp_all add: chain_stubs_def)

lemma chain_stubs_sorted: "sorted_wrt (\<lambda>v w. Priority w < Priority v) (chain_stubs x ids outs)"
  by (simp add: chain_stubs_def sorted_wrt_map)

lemma chain_stubs_mem: "v \<in> set (chain_stubs x ids outs) \<Longrightarrow> \<exists>i k out. v = chain_stub x i k out"
  by (auto simp: chain_stubs_def)

lemma chain_map_all:
  "outs \<noteq> [] \<Longrightarrow>
     chain_map x ids (o1 # outs) (length outs) (m(ids ! 0 \<mapsto> first_stub x ids (o1 # outs) (length outs))) =
     fold (\<lambda>v m. m(ID v \<mapsto> v)) (chain_stubs x ids (o1 # outs)) m"
  by (simp add: chain_map_def chain_stubs_def first_stub_def fold_map o_def upt_rec [of 0] del: upt_Suc)

lemma ran_put_all:
  "distinct (map ID vs) \<Longrightarrow> \<forall>v\<in>set vs. m (ID v) = None \<Longrightarrow>
     ran (fold (\<lambda>v m. m(ID v \<mapsto> v)) vs m) = set vs \<union> ran m"
proof (induction vs arbitrary: m)
  case (Cons v vs)
  then have "distinct (map ID vs)" "\<forall>w\<in>set vs. (m(ID v \<mapsto> v)) (ID w) = None" by (auto simp: image_iff)
  note Cons.IH [OF this]
  moreover have "ran (m(ID v \<mapsto> v)) = insert v (ran m)" using Cons.prems(2) by (intro ran_map_upd) simp
  ultimately show ?case by (simp only: fold_simps o_apply list.set) blast
qed simp

text \<open>New stubs that match a query nothing else answers are a chain.\<close>

lemma chained_new:
  assumes ok: "search_ok g r q e'" and miss: "\<forall>v\<in>answerable e q. \<not> fast_match_v2 g q v"
    and stored: "stored (ext e') = set ws \<union> stored (ext e)" and count: "\<And>k. call_count e' k = call_count e k"
    and ws: "ws \<noteq> []" "\<And>w. w \<in> set ws \<Longrightarrow> Service w = q_Service q \<and> Method w = q_Method q \<and> Session w = q_Session q \<and>
      Times w = 1 \<and> call_count e (ID w, q_Session q) = 0 \<and> fast_match_v2 g q w"
    and like: "\<And>v w. v \<in> set ws \<Longrightarrow> w \<in> set ws \<Longrightarrow> alike v w" and order: "sorted_wrt (\<lambda>v w. Priority w < Priority v) ws"
  shows "chained g r q ws e'"
proof -
  have form: "q_Service q \<in> set (service_forms (q_Service q))" by (simp add: service_forms_def)
  have ne: "not_exhausted e' v ses \<longleftrightarrow> not_exhausted e v ses" for v ses
    by (simp add: not_exhausted_def count)
  have "has_stub (stored (ext e')) (q_Service q) (q_Method q)"
    using ws by (cases ws) (auto simp: has_stub_def stored)
  then have res: "resolved_forms (stored (ext e')) (q_Service q) (q_Method q) \<noteq> []"
    using form by (auto simp: resolved_forms_def filter_empty_conv)
  have "v \<in> answerable e q" if "v \<in> answerable e' q" "v \<notin> set ws" for v
    using that res by (auto simp: answerable_def stored ne)
  then have "v \<in> set ws" if "v \<in> answerable e' q" "fast_match_v2 g q v" for v
    using that miss by blast
  moreover have "w \<in> answerable e' q" if "w \<in> set ws" for w
    using ws(2) [OF that] that form
    by (auto simp: answerable_def stored ne not_exhausted_def count effective_times_def visible_available)
  ultimately have "{v \<in> answerable e' q. fast_match_v2 g q v} = set ws" using ws(2) by blast
  then show ?thesis using ok ws(2) like order by (simp add: chained_def)
qed


lemma chain_registered:
  assumes "sv_engine s = Some e" "sv_remote s = None" "searcher_ok (sl_lib L) e"
    and "sv_fresh s = ids @ rest" "length ids = length outs + 1" "distinct ids" "0 \<notin> set ids"
    and "eb_id x = None" "ue_chainIdx x = 0" "eb_times x = 0 \<or> eb_times x = 1" "outs \<noteq> []"
    and "- (2 ^ 62) \<le> eb_priority x - int (length outs)" "eb_priority x < 2 ^ 62"
  obtains e' where "sv_engine (snd (register_chain L outs x s)) = Some e'" "searcher_ok (sl_lib L) e'"
    "stub_map (ext e') =
       fold (\<lambda>v m. m(ID v \<mapsto> v)) (chain_stubs x ids (unary_build_output L x # outs)) (stub_map (ext e))"
    "\<And>k. call_count e' k = call_count e k"
proof -
  let ?outs = "unary_build_output L x # outs"
  have p: "priority_ok (chain_stub x (ids ! k) k (?outs ! k))" if "k \<le> length outs" for k
    using that assms(12,13) by (simp add: priority_ok_def)
  moreover have "priority_ok (first_stub x ids ?outs 0)"
    using p [of 0] by (simp add: priority_ok_def first_stub_def)
  moreover have "engine_at L s (stub_map (ext e)) e" using assms(1-3) by (simp add: engine_at_def)
  moreover have "ids \<noteq> []" "length outs < length ids" using assms(5) by auto
  ultimately have "registered_to L x ids ?outs (length outs) rest e (register_chain L outs x s)"
    using assms by (intro registered_all registered_first) simp_all
  then show thesis
    using that chain_map_all [OF assms(11), of x ids "unary_build_output L x" "stub_map (ext e)"]
    by (auto simp: registered_to_def engine_at_def split: prod.splits)
qed

text \<open>C16. The answers of a chain come in the order in which they were given, each once: after a unary expectation
  with a terminal call and further answers by \<^verbatim>\<open>NextWillReturn\<close>, the calls of a request that the expectation
  matches, and no other stub, are answered by the output of the terminal call first, then by the further ones in
  order, each with the response headers and trailers of the expectation, and by no stub after the last.\<close>

theorem chain_answers_in_order:
  assumes "sv_engine s = Some e" "sv_remote s = None" "searcher_ok (sl_lib L) e"
    and "sv_fresh s = ids @ rest" "length ids = length outs + 1" "distinct ids" "0 \<notin> set ids"
    and new: "\<forall>i\<in>set ids. stub_map (ext e) i = None \<and> call_count e (i, q_Session q) = 0"
    and "eb_id x = None" "ue_chainIdx x = 0" "eb_times x = 0 \<or> eb_times x = 1" "outs \<noteq> []"
    and "- (2 ^ 62) \<le> eb_priority x - int (length outs)" "eb_priority x < 2 ^ 62"
    and x: "eb_Service x = q_Service q" "eb_Method x = q_Method q" "eb_session x = q_Session q"
    and match: "fast_match_v2 (sl_lib L) q (chain_stub x 0 0 empty_output)"
    and miss: "\<forall>v\<in>answerable e q. \<not> fast_match_v2 (sl_lib L) q v"
    and e': "sv_engine (snd (register_chain L outs x s)) = Some e'" and ok: "search_ok (sl_lib L) r q e'"
  shows "map (map_option Output) (take_answers (search_step (sl_lib L) r q) (length outs + 1 + n) e') =
     map (\<lambda>out. Some (apply_response_meta x out)) (unary_build_output L x # outs) @ replicate n None"
proof -
  let ?ws = "chain_stubs x ids (unary_build_output L x # outs)"
  obtain e1 where "sv_engine (snd (register_chain L outs x s)) = Some e1" and m: "stub_map (ext e1) =
      fold (\<lambda>v m. m(ID v \<mapsto> v)) ?ws (stub_map (ext e))" and count: "\<And>k. call_count e1 k = call_count e k"
    by (rule chain_registered [OF assms(1-7,9-14)]) (rule that)
  then have e1: "e1 = e'" using e' by simp
  have ids: "map ID ?ws = ids" using assms(5) by (intro chain_stubs_ID) simp
  have fresh: "stub_map (ext e) (ID v) = None \<and> call_count e (ID v, q_Session q) = 0" if "v \<in> set ?ws" for v
    using new that ids by (metis image_eqI list.set_map)
  have "stored (ext e') = set ?ws \<union> stored (ext e)"
    unfolding stored_def e1 [symmetric] m using fresh assms(6) ids by (intro ran_put_all) simp_all
  moreover have "Service w = q_Service q \<and> Method w = q_Method q \<and> Session w = q_Session q \<and> Times w = 1 \<and>
      call_count e (ID w, q_Session q) = 0 \<and> fast_match_v2 (sl_lib L) q w" if "w \<in> set ?ws" for w
    using chain_stubs_mem [OF that] fresh [OF that] x
      alike_rank(1) [OF chain_stubs_alike, THEN iffD1, OF match] by auto
  moreover have "alike v w" if "v \<in> set ?ws" "w \<in> set ?ws" for v w
    using that by (auto dest!: chain_stubs_mem intro: chain_stubs_alike)
  ultimately have "chained (sl_lib L) r q ?ws e'"
    by (intro chained_new [OF ok miss _ count [unfolded e1]] chain_stubs_sorted) simp_all
  note answers = chain.in_order [OF this, of n]
  have "map (map_option Output) (map Some ?ws) = map (\<lambda>out. Some (apply_response_meta x out)) (unary_build_output L x # outs)"
    using arg_cong [OF chain_stubs_Output, of "map Some" x ids "unary_build_output L x # outs"] by (simp add: comp_def)
  with answers show ?thesis by (simp del: list.map(2) take_answers.simps)
qed

text \<open>Three answers.\<close>

definition sample_sdk :: sdk_lib where
  "sample_sdk = \<lparr>sl_lib = sample_lib, sl_box = (\<lambda>_. VNil), sl_json_map = (\<lambda>_. None), sl_duration_text = (\<lambda>_. ''1s''),
     sl_uuid_text = (\<lambda>_. ''id''), sl_add_stubs = (\<lambda>n _ _. if n = 0 then None else Some ''refused'')\<rparr>"

definition sample_server :: sdk_server where
  "sample_server = \<lparr>sv_engine = Some (sample_searcher []), sv_recorder = None, sv_remote = None, sv_batch = False,
     sv_session = '''', sv_fresh = [100, 101, 102, 103], sv_pending = [], sv_expectations = [], sv_verified = False\<rparr>"

definition sample_expectation :: unary_expectation where
  "sample_expectation = (the (new_unary_expectation ''/Greeter/Say''))
     \<lparr>eb_matchers := [compile_payload (sdk_equals ''name'' (VString ''bob''))], ue_kv := Some [(''n'', VString ''1'')]\<rparr>"

definition sample_answer :: "string \<Rightarrow> stub_output" where
  "sample_answer n = empty_output\<lparr>Data := VMap [(''n'', VString n)]\<rparr>"


definition sample_chain :: "stub_output list" where
  "sample_chain = [sample_answer ''2'', sample_answer ''3'']"

definition chain_query :: query where
  "chain_query = sample_query ''Greeter'' [(''name'', VString ''bob'')]"

definition chain_engine :: searcher where
  "chain_engine = the (sv_engine (snd (register_chain sample_sdk sample_chain sample_expectation sample_server)))"

lemma chain_answers_in_order_witness:
  "map (map_option Output) (take_answers (search_step sample_lib sample_runtime chain_query) 4 chain_engine) =
     [Some (sample_answer ''1''), Some (sample_answer ''2''), Some (sample_answer ''3''), None]"
proof -
  let ?e = "sample_searcher []" and ?o = "unary_build_output sample_sdk sample_expectation"
  have lib: "sl_lib sample_sdk = sample_lib" by (simp add: sample_sdk_def)
  have ok: "searcher_ok (sl_lib sample_sdk) ?e"
    by (simp add: lib sample_searcher_def searcher_ok_def storage_ok_new storage_ok_upsert)
  have m: "stub_map (ext ?e) = Map.empty"
    by (simp add: sample_searcher_def stub_map_upsert) (simp add: stub_map_def new_storage_def)
  have none: "call_count ?e k = 0" for k by (simp add: call_count_def sample_searcher_def)
  have x: "eb_id sample_expectation = None" "ue_chainIdx sample_expectation = 0" "eb_times sample_expectation = 0"
    "eb_priority sample_expectation = 0" "eb_Service sample_expectation = ''Greeter''"
    "eb_Method sample_expectation = ''Say''" "eb_session sample_expectation = ''''"
    "eb_respHeaders sample_expectation = []" "eb_respTrailers sample_expectation = []"
    by code_simp+
  have q: "q_ID chain_query = None" "q_Service chain_query = ''Greeter''" "q_Method chain_query = ''Say''"
    "q_Session chain_query = ''''" "\<not> request_internal chain_query" "\<not> allows_internal_stubs chain_query"
    by (simp_all add: chain_query_def sample_query_def request_internal_def allows_internal_stubs_def)
  have s: "sv_engine sample_server = Some ?e" "sv_remote sample_server = None" "sv_fresh sample_server = [100, 101, 102] @ [103]"
    by (simp_all add: sample_server_def)
  have ids: "length [100, 101, 102 :: uuid] = length sample_chain + 1" "distinct [100, 101, 102 :: uuid]"
    "0 \<notin> set [100, 101, 102 :: uuid]" "sample_chain \<noteq> []"
    "- (2 ^ 62) \<le> eb_priority sample_expectation - int (length sample_chain)" "eb_priority sample_expectation < 2 ^ 62"
    by (simp_all add: sample_chain_def x)
  obtain e' where e': "sv_engine (snd (register_chain sample_sdk sample_chain sample_expectation sample_server)) = Some e'"
      "searcher_ok sample_lib e'" and m': "stub_map (ext e') = fold (\<lambda>v m. m(ID v \<mapsto> v))
        (chain_stubs sample_expectation [100, 101, 102] (?o # sample_chain)) (stub_map (ext ?e))"
    by (rule chain_registered [OF s(1,2) ok s(3) ids(1-3) x(1,2) _ ids(4-6)]) (use x(3) lib in simp_all)
  have e: "chain_engine = e'" using e'(1) by (simp add: chain_engine_def)
  have st: "stored (ext e') = set (chain_stubs sample_expectation [100, 101, 102] (?o # sample_chain))"
    unfolding stored_def m' m by (subst ran_put_all) (simp_all add: chain_stubs_def sample_chain_def)
  have names: "search_names e' chain_query = {''Greeter'', ''Say''}"
    by (auto simp: search_names_def names_of_def st q service_forms_def chain_stubs_def sample_chain_def x)
  have sep: "hash_separates sample_lib (search_names e' chain_query)"
    unfolding names by (simp add: hash_separates_def hash_id_def sample_lib_def) code_simp
  have "list_all (index_safe sample_lib) (chain_stubs sample_expectation [100, 101, 102] (?o # sample_chain))"
    by code_simp
  then have "\<forall>v\<in>eligible e' chain_query. index_safe sample_lib v"
    by (auto simp: eligible_def available_def st list_all_iff)
  moreover have "index_uniform sample_lib e' chain_query"
    by (rule index_uniform_plain) code_simp
  ultimately have search: "search_ok (sl_lib sample_sdk) sample_runtime chain_query e'"
    using e'(2) sample_runtime_ok sep q by (simp add: search_ok_def lib)
  have match: "fast_match_v2 (sl_lib sample_sdk) chain_query (chain_stub sample_expectation 0 0 empty_output)"
    by code_simp
  have "map (map_option Output)
      (take_answers (search_step (sl_lib sample_sdk) sample_runtime chain_query) (length sample_chain + 1 + 1) e') =
    map (\<lambda>out. Some (apply_response_meta sample_expectation out)) (?o # sample_chain) @ replicate 1 None"
    by (rule chain_answers_in_order [OF s(1,2) ok s(3) ids(1-3) _ x(1,2) _ ids(4-6) _ _ _ match _ e'(1) search])
      (simp_all add: m none x q answerable_def stored_def)
  moreover have "length sample_chain + 1 + 1 = 4" by (simp add: sample_chain_def)
  moreover have "?o = sample_answer ''1''" by code_simp
  moreover have "apply_response_meta sample_expectation (sample_answer n) = sample_answer n" for n
    by (simp add: apply_response_meta_def x m_copy_def sample_answer_def empty_output_def)
  ultimately show ?thesis by (simp only: e lib) (simp add: sample_chain_def)
qed

end
