(* ===== verification/Sdk_Verify.thy ===== *)
theory Sdk_Verify
  imports Sdk_Claims History_Claims
begin

text \<open>
  What a check of the expectations says about the calls that were made, and where what a test wrote is not
  what the server does.
\<close>

section \<open>The recorder of an embedded server\<close>

text \<open>The zero \<^verbatim>\<open>MemoryStore\<close>: no limit and nothing to redact, so every call stays as it was recorded.\<close>

definition recorded :: "(gomap \<Rightarrow> int option) \<Rightarrow> call_record list \<Rightarrow> memory_store" where
  "recorded jl cs = fold (record_call jl) cs (new_memory_store 0 0 [])"

lemma evict_unlimited: "evict 0 cur rs = (rs, cur)"
  by (cases "(0 :: int, cur, rs)" rule: evict.cases) auto

lemma record_call_zero:
  "limitBytes m = 0 \<Longrightarrow> messageMaxBytes m = 0 \<Longrightarrow> redactKeys m = [] \<Longrightarrow>
     map sr_call (calls (record_call jl c m)) = map sr_call (calls m) @ [c] \<and>
     limitBytes (record_call jl c m) = 0 \<and> messageMaxBytes (record_call jl c m) = 0 \<and> redactKeys (record_call jl c m) = []"
  by (simp add: record_call_def record_owned_def stored_form_def evict_unlimited Let_def)

lemma recorded_all: "history_all (recorded jl cs) = cs"
proof -
  have "map sr_call (calls (fold (record_call jl) cs m)) = map sr_call (calls m) @ cs"
    if "limitBytes m = 0" "messageMaxBytes m = 0" "redactKeys m = []" for m
    using that by (induction cs arbitrary: m) (simp_all add: record_call_zero)
  then show ?thesis
    by (simp add: recorded_def history_all_def history_filter_def no_filter_def history_keeps_def new_memory_store_def
        redact_keys_of_def)
qed

section \<open>A check counts exactly\<close>

definition call_unmet :: "call_record list \<Rightarrow> expected_call \<Rightarrow> bool" where
  "call_unmet cs ec \<longleftrightarrow> ec_Times ec \<noteq> 0 \<and> stub_calls (ec_StubID ec) cs \<noteq> ec_Times ec"

lemma map_filter_guards:
  "List.map_filter (\<lambda>e. if p e then None else if r e then Some (f e) else None) es =
     map f (filter (\<lambda>e. \<not> p e \<and> r e) es)"
  by (induction es) (simp_all add: map_filter_simps)

lemma verify_calls_eq:
  "verify_calls ecs cs =
     joined_ok (map (\<lambda>e. \<lparr>nm_Service = ec_Service e, nm_Method = ec_Method e, nm_Expected = ec_Times e,
       nm_Actual = stub_calls (ec_StubID e) cs\<rparr>) (filter (call_unmet cs) ecs))"
  by (simp add: verify_calls_def map_filter_guards call_unmet_def [abs_def])

lemma verify_calls_none: "verify_calls ecs cs = None \<longleftrightarrow> (\<forall>e\<in>set ecs. \<not> call_unmet cs e)"
  by (auto simp: verify_calls_eq joined_ok_def filter_empty_conv)

definition expectations_met :: "sdk_lib \<Rightarrow> call_record list \<Rightarrow> sdk_server \<Rightarrow> bool" where
  "expectations_met L cs s \<longleftrightarrow> fst (expectations_were_met L (Inr cs) (s\<lparr>sv_recorder := Some (recorded (\<lambda>_. None) cs)\<rparr>)) = Inr None"

lemma flush_frame [simp]:
  "sv_expectations (flush L s) = sv_expectations s" "sv_recorder (flush L s) = sv_recorder s"
  "sv_verified (flush L s) = sv_verified s" "sv_remote (flush L s) = None \<longleftrightarrow> sv_remote s = None"
  by (auto simp: flush_def split: option.split)

lemma expectations_met_iff:
  "\<not> sv_verified s \<Longrightarrow> expectations_met L cs s \<longleftrightarrow> (\<forall>e\<in>set (sv_expectations s). \<not> call_unmet cs e)"
  by (auto simp: expectations_met_def expectations_were_met_def Let_def recorded_all verify_calls_none split: option.split)

lemma register_stub_frame [simp]:
  "sv_expectations (snd (register_stub L v s)) = sv_expectations s" "sv_verified (snd (register_stub L v s)) = sv_verified s"
  by (auto simp: register_stub_def split: option.split)

lemma register_stub_same: "ID v \<noteq> 0 \<Longrightarrow> fst (register_stub L v s) = v"
  by (auto simp: register_stub_def split: option.split)

lemma upsert_stub_frame [simp]:
  "sv_expectations (upsert_stub L v s) = sv_expectations s" "sv_verified (upsert_stub L v s) = sv_verified s"
  by (auto simp: upsert_stub_def)

lemma track_met:
  assumes "\<not> sv_verified s"
  shows "expectations_met L cs (snd (track_expectation L v s)) \<longleftrightarrow>
     expectations_met L cs s \<and> (0 < Times v \<longrightarrow> stub_calls (ID v) cs = Times v)"
proof -
  have "\<not> sv_verified (snd (track_expectation L v s))" using assms by (simp add: track_expectation_def)
  then show ?thesis
    using assms by (auto simp: expectations_met_iff track_expectation_def call_unmet_def)
qed


lemma unary_register_unfold:
  assumes "ue_chainIdx x = 0" and "fst (new_stub_id x s) \<noteq> 0"
  obtains v where "ID v = fst (new_stub_id x s)" "Times v = eb_times x"
    "snd (unary_register L x s) = snd (track_expectation L v (snd (new_stub_id x s)))"
    "eb_stubID (fst (unary_register L x s)) = ID v"
proof -
  let ?y = "x\<lparr>eb_committed := True\<rparr>"
  let ?v = "(stub_of_base ?y (fst (new_stub_id x s)) (apply_response_meta ?y (unary_build_output L ?y)))
    \<lparr>Input := merge_input_data (eb_matchers x), Priority := eb_priority x, Times := eb_times x, HasUnaryHandler := ue_handler x\<rparr>"
  have "chain_stub_id ?y s = new_stub_id x s"
    using assms(1) by (simp add: chain_stub_id_def new_stub_id_def)
  then have reg: "unary_register_output L ?y (unary_build_output L ?y) (eb_priority x) s =
      track_expectation L ?v (snd (new_stub_id x s))"
    using assms(1) by (simp add: unary_register_output_def split_def Let_def)
  have "ID ?v = fst (new_stub_id x s)" "Times ?v = eb_times x" by (simp_all add: stub_of_base_def)
  moreover have "fst (track_expectation L ?v (snd (new_stub_id x s))) = ?v"
    using assms(2) by (simp add: track_expectation_def register_stub_same stub_of_base_def)
  ultimately show thesis
    using reg by (intro that [of ?v]) (simp_all add: unary_register_def split_def Let_def)
qed

lemma new_stub_id_frame [simp]:
  "sv_expectations (snd (new_stub_id x s)) = sv_expectations s" "sv_verified (snd (new_stub_id x s)) = sv_verified s"
  by (auto simp: new_stub_id_def split: option.split)




section \<open>What a batch sends\<close>

lemma session_order_set: "set (session_order m vs) = session_of m ` set vs" "distinct (session_order m vs)"
  by (auto simp: session_order_def)

lemma send_batches_ok:
  "send_batches L vs order m = (None, m') \<Longrightarrow>
     rm_batches m' = rm_batches m @ map (\<lambda>ses. (ses, filter (\<lambda>v. session_of m v = ses) vs)) order \<and> rm_stubIDs m' = rm_stubIDs m"
proof (induction order arbitrary: m)
  case (Cons ses order)
  have "session_of (m\<lparr>rm_batches := b\<rparr>) = session_of m" for b by (simp add: session_of_def fun_eq_iff)
  then show ?case using Cons.IH Cons.prems by (auto simp: Let_def split: option.splits)
qed simp

text \<open>A batch that is accepted sends every stub once, in the request of its session, in order.\<close>

lemma commit_sends_each_once:
  assumes "commit_stubs_batch L vs m = (None, m')" and "vs \<noteq> []"
  shows "\<exists>bs. rm_batches m' = rm_batches m @ bs \<and> distinct (map fst bs) \<and>
     (\<forall>v\<in>set vs. session_of m v \<in> fst ` set bs) \<and> (\<forall>(ses, b)\<in>set bs. b = filter (\<lambda>v. session_of m v = ses) vs) \<and>
     rm_stubIDs m' = rm_stubIDs m @ map ID vs"
proof -
  obtain m1 where m1: "send_batches L vs (session_order m vs) m = (None, m1)" "m' = m1\<lparr>rm_stubIDs := rm_stubIDs m1 @ map ID vs\<rparr>"
    using assms by (auto simp: commit_stubs_batch_def compress_and_send_def split: option.splits prod.splits)
  then show ?thesis
    using send_batches_ok [OF m1(1)] session_order_set [of m vs]
    by (intro exI [of _ "map (\<lambda>ses. (ses, filter (\<lambda>v. session_of m v = ses) vs)) (session_order m vs)"])
      (auto simp: comp_def image_image)
qed

section \<open>Where what a test wrote is not what the server does\<close>

text \<open>When a later request of a batch fails, the stubs of the earlier ones stay on the remote server, and their IDs
  are not among those a reset deletes.\<close>

lemma failed_batch_leaks:
  "let (e, m) = commit_stubs_batch sample_sdk [empty_stub\<lparr>ID := 1\<rparr>, empty_stub\<lparr>ID := 2, Session := ''b''\<rparr>]
         \<lparr>rm_session = ''a'', rm_batches = [], rm_stubIDs = [], rm_opErr = None\<rparr>
   in e = Some ''refused'' \<and> map (\<lambda>(ses, b). (ses, map ID b)) (rm_batches m) = [(''a'', [1])] \<and> rm_stubIDs m = []"
  by code_simp

text \<open>\<open>Send\<close> on a server stream sets the output anew, without the response headers, trailers and delay of the
  expectation.\<close>

lemma builder_send_drops_meta:
  "builder_send L kv b s = Some (b', s') \<Longrightarrow>
     OutHeaders (Output (sb_stub b')) = [] \<and> Trailers (Output (sb_stub b')) = [] \<and> Delay (Output (sb_stub b')) = ''''"
  by (auto simp: builder_send_def builder_upsert_def empty_output_def Let_def split: option.splits)

text \<open>\<open>NextWillReturn\<close> after \<open>Run\<close> registers a stub that still runs the handler, so its output is not what is
  returned.\<close>

lemma chained_keeps_handler: "HasUnaryHandler (fst (unary_register_output L e out p s)) = ue_handler e"
  by (simp add: unary_register_output_def track_expectation_def register_stub_def split_def Let_def
      stub_of_base_def split: option.split)

text \<open>A client stream expectation without \<open>Match\<close> is registered with one input that asks for nothing, and such a
  stub matches no call.\<close>

lemma client_stream_needs_match:
  assumes "eb_matchers e = []" and "eb_sequence e = []"
  shows "\<not> fast_match_v2 g q (v\<lparr>Inputs := Some (stream_inputs e)\<rparr>)"
  using assms
  by (simp add: stream_inputs_def merge_input_data_def fast_match_v2_def fast_match_body_def fast_match_stream_def
      declares_matcher_def matcher_declares_def empty_input_def)

text \<open>\<open>Match\<close> does not restrict a bidirectional expectation that runs a handler.\<close>

lemma bidi_run_ignores_match:
  "bidi_run L (e\<lparr>eb_matchers := is\<rparr>) s = Some (e', s') \<Longrightarrow> eb_id e \<noteq> Some 0 \<Longrightarrow>
     map_option Inputs (eb_stub e') = Some (Some [empty_input])"
  by (auto simp: bidi_run_def bidi_register_def split_def Let_def track_expectation_def register_stub_def
      split: option.splits if_splits)


section \<open>The text of a failed check\<close>

lemma itoa_digits_length: "n < 10 ^ k \<Longrightarrow> length (itoa_digits n buf) \<le> k + length buf"
proof (induction n buf arbitrary: k rule: itoa_digits.induct)
  case (1 n buf)
  show ?case
  proof (cases "n \<le> 0")
    case False
    then obtain k' where k: "k = Suc k'" using 1(2) by (cases k) auto
    have "n div 10 < 10 ^ k'" using 1(2) k by simp
    then show ?thesis using 1(1) [OF False] False k by (simp add: itoa_digits.simps [of n])
  qed (simp add: itoa_digits.simps)
qed

text \<open>The 20 bytes of its buffer are enough for every 64-bit number.\<close>

lemma itoa_fits: "n < 2 ^ 63 \<Longrightarrow> length (sdk_itoa n) \<le> 19"
  using itoa_digits_length [of n 19 "[]"] by (simp add: sdk_itoa_def)

end
