(* ===== verification/Gateway.thy ===== *)
theory Gateway
  imports Proxy_Stream Wire_Text
begin

text \<open>
  The gateway for Connect requests over HTTP: \<^verbatim>\<open>connect_gateway.go\<close>, \<^verbatim>\<open>connect_get.go\<close>,
  \<^verbatim>\<open>connect_handler.go\<close> and what it shares with gRPC-Web, \<^verbatim>\<open>gateway_shared.go\<close>. A request is answered by the
  mocker of the method; what is sent goes through an adapter that writes the HTTP response. A request body is read
  to its end. The adapter writes messages while the mocker runs; since every handler sets its headers before its
  first message and its trailers are read at the end, the response is written here after the mocker is done.
\<close>

section \<open>Requests and responses\<close>

record http_request =
  hr_Method :: string
  hr_Service :: string
  hr_Name :: string
  hr_Query :: "(string \<times> string) list"
  hr_Header :: "(string \<times> string list) list"
  hr_Body :: "byte list"
  hr_Done :: "(int \<times> bool) option"

text \<open>The header map of \<^verbatim>\<open>net/http\<close>: its keys are canonical, and so are the names the code asks for.\<close>

definition header_get :: "(string \<times> string list) list \<Rightarrow> http_header" where
  "header_get h k = (case map_of h k of Some (v # _) \<Rightarrow> v | _ \<Rightarrow> '''')"

definition query_get :: "(string \<times> string) list \<Rightarrow> string \<Rightarrow> string" where
  "query_get q k = (case map_of q k of Some v \<Rightarrow> v | None \<Rightarrow> '''')"

definition is_token_char :: "char \<Rightarrow> bool" where
  "is_token_char c \<longleftrightarrow>
     (let n = of_char c :: nat
      in 48 \<le> n \<and> n \<le> 57 \<or> 65 \<le> n \<and> n \<le> 90 \<or> 97 \<le> n \<and> n \<le> 122 \<or> c \<in> set ''!#$%&*+-.^_`|~'' \<or> n = 39)"

fun canonical_chars :: "bool \<Rightarrow> string \<Rightarrow> string" where
  "canonical_chars upper [] = []"
| "canonical_chars upper (c # cs) =
     (if upper then str_upper [c] else str_lower [c]) @ canonical_chars (c = CHR ''-'') cs"

definition canonical_key :: "string \<Rightarrow> string" where
  "canonical_key k = (if list_all is_token_char k then canonical_chars True k else k)"

text \<open>A response: its header map, and from \<^verbatim>\<open>WriteHeader\<close> on the status and the headers that went out.\<close>

record http_response =
  rs_Header :: "(string \<times> string list) list"
  rs_Sent :: "(nat \<times> (string \<times> string list) list) option"
  rs_Body :: "byte list"

definition new_response :: "(string \<times> string list) list \<Rightarrow> http_response" where
  "new_response h = \<lparr>rs_Header = h, rs_Sent = None, rs_Body = []\<rparr>"

definition header_set :: "string \<Rightarrow> string \<Rightarrow> http_response \<Rightarrow> http_response" where
  "header_set k v r = r\<lparr>rs_Header := m_put (canonical_key k) [v] (rs_Header r)\<rparr>"

definition header_add :: "string \<Rightarrow> string \<Rightarrow> http_response \<Rightarrow> http_response" where
  "header_add k v r = r\<lparr>rs_Header := m_put (canonical_key k) (m_list (rs_Header r) (canonical_key k) @ [v]) (rs_Header r)\<rparr>"

definition write_header :: "nat \<Rightarrow> http_response \<Rightarrow> http_response" where
  "write_header status r = (if rs_Sent r = None then r\<lparr>rs_Sent := Some (status, rs_Header r)\<rparr> else r)"

definition write_body :: "byte list \<Rightarrow> http_response \<Rightarrow> http_response" where
  "write_body bs r = (let r = write_header 200 r in r\<lparr>rs_Body := rs_Body r @ bs\<rparr>)"

definition http_error :: "string \<Rightarrow> nat \<Rightarrow> http_response \<Rightarrow> http_response" where
  "http_error msg status r =
     write_body (map of_char (msg @ [CHR 0x0A]))
       (write_header status (header_set ''X-Content-Type-Options'' ''nosniff''
         (header_set ''Content-Type'' ''text/plain; charset=utf-8'' r)))"

section \<open>Methods\<close>

record method_desc =
  md_Name :: string
  md_ServerStream :: bool
  md_ClientStream :: bool
  md_NoSideEffects :: bool

text \<open>A file is the list of its services, each with its methods.\<close>

type_synonym proto_file = "(string \<times> method_desc list) list"

fun find_in_services :: "string \<Rightarrow> string \<Rightarrow> proto_file \<Rightarrow> method_desc option" where
  "find_in_services svc name [] = None"
| "find_in_services svc name ((s, ms) # rest) =
     (if s \<noteq> svc then find_in_services svc name rest
      else case List.find (\<lambda>m. md_Name m = name) ms of
             Some m \<Rightarrow> Some m | None \<Rightarrow> find_in_services svc name rest)"

fun find_method_in_files :: "proto_file list \<Rightarrow> string \<Rightarrow> string \<Rightarrow> method_desc option" where
  "find_method_in_files [] svc name = None"
| "find_method_in_files (f # fs) svc name =
     (case find_in_services svc name f of Some m \<Rightarrow> Some m | None \<Rightarrow> find_method_in_files fs svc name)"

definition find_method_descriptor ::
  "proto_file list \<Rightarrow> proto_file list option \<Rightarrow> string \<Rightarrow> string \<Rightarrow> method_desc option" where
  "find_method_descriptor global files svc name =
     (case find_method_in_files global svc name of
        Some m \<Rightarrow> Some m
      | None \<Rightarrow> (case files of None \<Rightarrow> None | Some fs \<Rightarrow> find_method_in_files fs svc name))"

text \<open>What clients see of an error; how the details of a status look is left to the encoder.\<close>

record connect_error =
  ce_Code :: string
  ce_Message :: string
  ce_Details :: "gmap list"

text \<open>Of the parameters, \<open>gw_decode\<close> and \<open>gw_encode\<close> are the JSON (first argument true) and the binary codec of
  the method's messages, \<open>gw_error_json\<close> and \<open>gw_end_json\<close> encode an error and the end of a stream,
  \<open>gw_status_bin\<close> is the base64 of an encoded status, and \<open>gw_reflection\<close> is the reflection service: for a service
  name and the messages received, its error and the messages sent.\<close>

record 'm gateway =
  gw_mock :: "'m mock_lib"
  gw_upstream :: "'m upstream"
  gw_decode :: "bool \<Rightarrow> byte list \<Rightarrow> string + gmap"
  gw_encode :: "bool \<Rightarrow> 'm \<Rightarrow> string + byte list"
  gw_gzip :: "byte list \<Rightarrow> byte list"
  gw_gunzip :: "byte list \<Rightarrow> byte list option"
  gw_error_json :: "connect_error \<Rightarrow> byte list"
  gw_end_json :: "connect_error option \<Rightarrow> metadata \<Rightarrow> byte list"
  gw_status_bin :: "call_error \<Rightarrow> string"
  gw_reflection :: "string \<Rightarrow> bool \<Rightarrow> byte list list \<Rightarrow> call_error option \<times> byte list list"
  gw_global_files :: "proto_file list"
  gw_files :: "proto_file list option"
  gw_routes :: "string \<Rightarrow> proxy_mode option"
  gw_first_route :: "proxy_mode option"
  gw_recorder :: bool
  gw_require_version :: bool

definition is_reflection_method :: "string \<Rightarrow> string \<Rightarrow> bool" where
  "is_reflection_method svc name =
     (if name \<noteq> ''ServerReflectionInfo'' then False
      else svc = ''grpc.reflection.v1.ServerReflection'' \<or> svc = ''grpc.reflection.v1alpha.ServerReflection'')"

definition full_method :: "http_request \<Rightarrow> string" where
  "full_method req = ''/'' @ hr_Service req @ ''/'' @ hr_Name req"

definition build_mocker :: "'m gateway \<Rightarrow> http_request \<Rightarrow> method_desc \<Rightarrow> mocker" where
  "build_mocker G req d =
     \<lparr>mk_Service = hr_Service req, mk_Method = hr_Name req, mk_FullMethod = full_method req,
      mk_Strict = (gw_routes G (full_method req) \<noteq> None), mk_ServerStream = md_ServerStream d,
      mk_ClientStream = md_ClientStream d, mk_Recorder = gw_recorder G, mk_Route = gw_routes G (full_method req),
      mk_FirstRoute = gw_first_route G\<rparr>"

section \<open>Headers of a request\<close>

definition connect_excluded_headers :: "string list" where
  "connect_excluded_headers =
     [''accept'', ''accept-encoding'', ''content-encoding'', ''content-length'', ''content-type'',
      ''connect-protocol-version'', ''connect-timeout-ms'', ''user-agent'']"

definition lower_connect_headers :: "(string \<times> string list) list \<Rightarrow> (string \<times> string list) list" where
  "lower_connect_headers h =
     filter (\<lambda>(k, _). k \<notin> set connect_excluded_headers) (map (\<lambda>(k, vs). (str_lower k, vs)) h)"

definition extract_connect_headers :: "(string \<times> string list) list \<Rightarrow> gmap" where
  "extract_connect_headers h = fold (\<lambda>(k, vs). m_put k (VString (str_join '';'' vs))) (lower_connect_headers h) []"

definition http_headers_to_grpc_context :: "http_request \<Rightarrow> call_ctx" where
  "http_headers_to_grpc_context req =
     (let hs = lower_connect_headers (hr_Header req)
      in \<lparr>cx_MD = (if hs = [] then None else Some (md_join [hs])), cx_Done = hr_Done req\<rparr>)"

text \<open>\<^verbatim>\<open>context.WithTimeout\<close>: the earlier of the two ends.\<close>

definition with_timeout :: "int \<Rightarrow> int \<Rightarrow> call_ctx \<Rightarrow> call_ctx" where
  "with_timeout now d cx =
     cx\<lparr>cx_Done := (case cx_Done cx of
          Some (t, deadline) \<Rightarrow> if t \<le> now + d then Some (t, deadline) else Some (now + d, True)
        | None \<Rightarrow> Some (now + d, True))\<rparr>"

definition limit_context :: "int option \<Rightarrow> int \<Rightarrow> call_ctx \<Rightarrow> call_ctx" where
  "limit_context timeout now cx =
     (case timeout of Some d \<Rightarrow> if 0 < d then with_timeout now d cx else cx | None \<Rightarrow> cx)"


section \<open>The body as messages\<close>

text \<open>What the mocker sees of an error of the adapter; the end of the body is the end of the stream, and so is a body
  that ends before a frame its header announces.\<close>

definition decompress_text :: "grpc_code \<Rightarrow> string \<Rightarrow> string" where
  "decompress_text c encoding =
     (if c = code_Internal then ''frame is marked compressed but no compression was negotiated''
      else if c = code_InvalidArgument then ''malformed gzip frame''
      else ''unsupported frame compression '' @ [CHR 0x22] @ encoding @ [CHR 0x22])"

definition recv_call_error :: "http_header \<Rightarrow> recv_error \<Rightarrow> call_error option" where
  "recv_call_error hdr e =
     (case e of
        Recv_EOF \<Rightarrow> None
      | Recv_Frame Frame_EOF \<Rightarrow> None
      | Recv_Frame Frame_UnexpectedEOF \<Rightarrow> Some (plain_error ''unexpected EOF'')
      | Recv_Frame Frame_TooLarge \<Rightarrow> Some (plain_error ''connect envelope payload exceeds maximum size'')
      | Recv_Status c \<Rightarrow> Some (status_error c (decompress_text c (frame_encoding hdr))))"

text \<open>The receives of the mocker up to the first that is not a message, after which it reads no more. A message takes
  bytes off the body, which \<open>connect_recv_shrinks\<close> and its gRPC-Web counterpart show of the receives this is used with.\<close>

lemma read_connect_frame_shrinks: "read_connect_frame b = (Inr f, rest) \<Longrightarrow> length rest < length b"
  by (auto simp: read_connect_frame_def read_full_def Let_def split: if_splits sum.splits)

lemma recv_streaming_shrinks:
  "recv_streaming_message gunzip hdr a = (Inr bs, a') \<Longrightarrow> length (body a') < length (body a)"
  by (auto simp: recv_streaming_message_def Let_def split: if_splits sum.splits prod.splits
      dest!: read_connect_frame_shrinks)

lemma connect_recv_shrinks:
  "connect_recv_msg gunzip True hdr a = (Inr bs, a') \<Longrightarrow> length (body a') < length (body a)"
  by (auto simp: connect_recv_msg_def recv_streaming_shrinks split: if_splits)

function stream_inbox ::
  "http_header \<Rightarrow> (stream_adapter \<Rightarrow> (recv_error + byte list) \<times> stream_adapter) \<Rightarrow> (byte list \<Rightarrow> string + gmap) \<Rightarrow> stream_adapter
     \<Rightarrow> (call_error + gmap) list" where
  "stream_inbox hdr recv decode a =
     (case recv a of
        (Inl e, a') \<Rightarrow> (case recv_call_error hdr e of None \<Rightarrow> [] | Some err \<Rightarrow> [Inl err])
      | (Inr bs, a') \<Rightarrow>
          (case decode bs of
             Inl e \<Rightarrow> [Inl (plain_error e)]
           | Inr m \<Rightarrow> if length (body a') < length (body a) then Inr m # stream_inbox hdr recv decode a' else [Inr m]))"
  by pat_completeness auto

termination
  by (relation "measure (\<lambda>(_, _, _, a). length (body a))") auto

declare stream_inbox.simps [simp del]

definition fresh_stream :: "(call_error + gmap) list \<Rightarrow> 'm mock_state \<Rightarrow> 'm mock_state" where
  "fresh_stream inbox s = s\<lparr>ms_inbox := inbox, ms_headers := [], ms_trailers := [], ms_sent := []\<rparr>"

section \<open>The adapter of a Connect request\<close>

record connect_adapter =
  ca_streaming :: bool
  ca_encoding :: string
  ca_type :: string

definition connect_adapter_of :: "http_request \<Rightarrow> bool \<Rightarrow> http_response \<Rightarrow> connect_adapter" where
  "connect_adapter_of req streaming r =
     \<lparr>ca_streaming = streaming,
      ca_encoding = response_frame_encoding (header_get (rs_Header r) ''Content-Encoding'') (header_get (hr_Header req)),
      ca_type = header_get (hr_Header req) ''Content-Type''\<rparr>"

definition set_md_headers :: "metadata \<Rightarrow> http_response \<Rightarrow> http_response" where
  "set_md_headers md r = fold (\<lambda>(k, vs). fold (header_add k) vs) md r"

text \<open>Trailers of a unary answer are headers with a prefix.\<close>

definition trailer_key :: "string \<Rightarrow> string" where
  "trailer_key k = (if has_prefix (str_lower k) ''trailer-'' then k else ''Trailer-'' @ k)"

definition set_unary_trailers :: "metadata \<Rightarrow> http_response \<Rightarrow> http_response" where
  "set_unary_trailers md r = fold (\<lambda>(k, vs). fold (header_add (trailer_key k)) vs) md r"

definition connect_send_header :: "connect_adapter \<Rightarrow> http_response \<Rightarrow> http_response" where
  "connect_send_header a r =
     (if rs_Sent r \<noteq> None then r
      else
        (let r = header_set ''Content-Type''
               (if ca_streaming a then
                  (if is_json_content_type (ca_type a) then ''application/connect+json'' else ''application/connect+proto'')
                else if is_json_content_type (ca_type a) then ''application/json'' else ''application/proto'') r;
             r = (if ca_streaming a \<and> ca_encoding a = ''gzip'' then header_set ''Connect-Content-Encoding'' ''gzip'' r else r)
         in write_header 200 r))"

text \<open>The header goes out before the message is encoded.\<close>

definition connect_send_msg :: "'m gateway \<Rightarrow> connect_adapter \<Rightarrow> 'm \<Rightarrow> http_response \<Rightarrow> http_response" where
  "connect_send_msg G a msg r =
     (let r = connect_send_header a r in
      case gw_encode G (is_json_content_type (ca_type a)) msg of
        Inl e \<Rightarrow> r
      | Inr data \<Rightarrow>
          write_body (if ca_streaming a then write_connect_frame_encoded (gw_gzip G) data False (ca_encoding a) else data) r)"

definition connect_write_body ::
  "'m gateway \<Rightarrow> connect_adapter \<Rightarrow> grpc_code \<Rightarrow> byte list \<Rightarrow> http_response \<Rightarrow> http_response" where
  "connect_write_body G a code data r =
     (if ca_streaming a then
        write_body (write_connect_frame_encoded (gw_gzip G) data True (ca_encoding a)) (connect_send_header a r)
      else write_body data (write_header (error_code_to_http_status code)
             (header_set ''Content-Type'' ''application/json'' r)))"

definition plain_connect_error :: "grpc_code \<Rightarrow> string \<Rightarrow> connect_error" where
  "plain_connect_error code msg = \<lparr>ce_Code = error_code_to_string code, ce_Message = msg, ce_Details = []\<rparr>"

definition adapter_write_error ::
  "'m gateway \<Rightarrow> connect_adapter \<Rightarrow> grpc_code \<Rightarrow> string \<Rightarrow> http_response \<Rightarrow> http_response" where
  "adapter_write_error G a code msg r = connect_write_body G a code (gw_error_json G (plain_connect_error code msg)) r"

definition serialize_error_status :: "call_error \<Rightarrow> connect_error" where
  "serialize_error_status e =
     \<lparr>ce_Code = error_code_to_string (err_Code e), ce_Message = err_Text e, ce_Details = err_Details e\<rparr>"

definition normalize_health_error :: "string \<Rightarrow> call_error \<Rightarrow> call_error" where
  "normalize_health_error svc e =
     (if svc = ''grpc.health.v1.Health'' \<and> err_Code e = code_NotFound then status_error code_NotFound ''unknown service'' else e)"

definition connect_write_error_status ::
  "'m gateway \<Rightarrow> connect_adapter \<Rightarrow> metadata \<Rightarrow> call_error \<Rightarrow> http_response \<Rightarrow> http_response" where
  "connect_write_error_status G a trailers e r =
     (if \<not> ca_streaming a then connect_write_body G a (err_Code e) (gw_error_json G (serialize_error_status e)) r
      else connect_write_body G a (err_Code e) (gw_end_json G (Some (serialize_error_status e)) trailers) r)"

text \<open>The gateway itself, outside an adapter.\<close>

definition connect_write_error :: "'m gateway \<Rightarrow> grpc_code \<Rightarrow> string \<Rightarrow> http_response \<Rightarrow> http_response" where
  "connect_write_error G code msg r =
     write_body (gw_error_json G (plain_connect_error code msg))
       (write_header (error_code_to_http_status code) (header_set ''Content-Type'' ''application/json'' r))"

definition connect_write_success :: "http_request \<Rightarrow> http_response \<Rightarrow> http_response" where
  "connect_write_success req r =
     (if is_json_content_type (header_get (hr_Header req) ''Content-Type'')
      then write_body (map of_char ''{}'') (write_header 200 (header_set ''Content-Type'' ''application/connect+json'' r))
      else write_header 200 (header_set ''Content-Type'' ''application/connect+proto'' r))"


section \<open>Calls without a descriptor\<close>

text \<open>The two ways a protocol answers such a call.\<close>

record descriptorless_response =
  dr_error :: "grpc_code \<Rightarrow> string \<Rightarrow> http_response \<Rightarrow> http_response"
  dr_success :: "http_response \<Rightarrow> http_response"

definition needs_descriptor :: "http_request \<Rightarrow> string" where
  "needs_descriptor req =
     ''proto descriptor required to encode non-empty output for '' @ hr_Service req @ ''/'' @ hr_Name req"

definition set_all_headers :: "(string \<times> string) list \<Rightarrow> http_response \<Rightarrow> http_response" where
  "set_all_headers kvs r = fold (\<lambda>(k, v). header_set k v) kvs r"

definition handle_without_descriptor ::
  "'m gateway \<Rightarrow> http_request \<Rightarrow> descriptorless_response \<Rightarrow> http_response \<Rightarrow> 'm mock_state \<Rightarrow> http_response \<times> 'm mock_state" where
  "handle_without_descriptor G req resp r s =
     (let L = gw_mock G; M = build_mocker G req \<lparr>md_Name = hr_Name req, md_ServerStream = False, md_ClientStream = False,
            md_NoSideEffects = False\<rparr>;
          ts = ms_now s;
          session = trim_space (header_get (hr_Header req) ''X-Gripmock-Session'');
          q = \<lparr>q_ID = None, q_Service = hr_Service req, q_Method = hr_Name req, q_Session = session,
            q_Headers = extract_connect_headers (hr_Header req), q_Input = [[]], q_Strict = False, q_Internal = False,
            q_MatchInternal = False\<rparr>;
          record = (\<lambda>i code responses hdrs msg s.
            if gw_recorder G then record_in_history L M session i code ts [Some []] responses hdrs msg s else s);
          fail = (\<lambda>i code msg s. (dr_error resp code msg r, record i code [] None msg s))
      in case find_stub L q s of
           (Inl e, s) \<Rightarrow> fail 0 code_NotFound (err_Text e) s
         | (Inr (v, n), s) \<Rightarrow>
             (let td = new_template_data (ml_uuid_text L) (Some []) (q_Headers q) 0 ts [VMap []] v n
              in case delay_templated L (http_headers_to_grpc_context req) (Delay (Output v)) td s of
                   (Inl e, s) \<Rightarrow> fail (ID v) (err_Code e) (err_Text e) s
                 | (Inr _, s) \<Rightarrow>
                     (case output_status_base (Output v) of
                        Some st \<Rightarrow> fail (ID v) (err_Code st) (err_Text st) s
                      | None \<Rightarrow>
                          if Data (Output v) \<noteq> VNil then fail (ID v) code_Unimplemented (needs_descriptor req) s
                          else (dr_success resp (set_all_headers (OutHeaders (Output v)) r),
                                record (ID v) code_OK [Some []] (Some (OutHeaders (Output v))) '''' s))))"

section \<open>Serving a Connect request\<close>

text \<open>The reply, or a bidirectional call that the upstream takes over, with the requests it starts with.\<close>

datatype gateway_reply = Replied http_response | Relaying "gmap list" bool

definition method_allows_get :: "method_desc \<Rightarrow> bool" where
  "method_allows_get d = md_NoSideEffects d"

definition connect_get_content_type :: "http_request \<Rightarrow> string" where
  "connect_get_content_type req =
     (if query_get (hr_Query req) ''encoding'' = ''json'' then ''application/json'' else ''application/proto'')"

text \<open>The message of a GET request, of the parameters of its URL. The URL alphabet of base64 has other characters for
  62 and 63.\<close>

definition url_base64 :: "string \<Rightarrow> string option" where
  "url_base64 s =
     (if list_ex (\<lambda>c. c = CHR ''+'' \<or> c = CHR ''/'') s then None
      else Some (map (\<lambda>c. if c = CHR ''-'' then CHR ''+'' else if c = CHR ''_'' then CHR ''/'' else c) s))"

definition decode_url_base64 :: "bool \<Rightarrow> string \<Rightarrow> byte list option" where
  "decode_url_base64 padded s = (case url_base64 s of None \<Rightarrow> None | Some t \<Rightarrow> b64_decode padded t)"

definition connect_get_request :: "http_request \<Rightarrow> method_desc \<Rightarrow> string + byte list" where
  "connect_get_request req d =
     (if \<not> method_allows_get d then Inl ''method does not allow GET''
      else if query_get (hr_Query req) ''compression'' \<notin> {'''', ''identity''}
        then Inl ''compressed GET requests are not supported''
      else
        (let raw = query_get (hr_Query req) ''message'' in
         if raw = '''' then Inr []
         else if query_get (hr_Query req) ''base64'' = ''1'' then
           (case decode_url_base64 False raw of
              Some bs \<Rightarrow> Inr bs
            | None \<Rightarrow>
                (case decode_url_base64 True raw of
                   Some bs \<Rightarrow> Inr bs | None \<Rightarrow> Inl ''malformed GET request''))
         else Inr (map of_char raw)))"

definition has_protocol_version :: "http_request \<Rightarrow> bool" where
  "has_protocol_version req =
     (if hr_Method req = ''GET'' then query_get (hr_Query req) ''connect'' = ''v1''
      else header_get (hr_Header req) ''Connect-Protocol-Version'' = ''1'')"

text \<open>\<open>Some\<close> is the response to a request that is turned away.\<close>

definition accept_request :: "'m gateway \<Rightarrow> http_request \<Rightarrow> http_response \<Rightarrow> http_response option" where
  "accept_request G req r =
     (if hr_Method req \<noteq> ''POST'' \<and> hr_Method req \<noteq> ''GET'' then Some (http_error ''method not allowed'' 405 r)
      else if gw_require_version G \<and> \<not> has_protocol_version req
        then Some (connect_write_error G code_InvalidArgument
          (''missing required header: set Connect-Protocol-Version to '' @ [CHR 0x22] @ ''1'' @ [CHR 0x22]) r)
      else None)"

definition accept_request_encoding ::
  "'m gateway \<Rightarrow> http_request \<Rightarrow> connect_adapter \<Rightarrow> http_response \<Rightarrow> http_response option" where
  "accept_request_encoding G req a r =
     (if \<not> acceptable_content_type (ca_streaming a) (ca_type a) then Some (http_error ''unsupported media type'' 415 r)
      else if \<not> ca_streaming a then None
      else case unsupported_stream_encoding (header_get (hr_Header req)) of
             Some encoding \<Rightarrow>
               Some (adapter_write_error G a code_Unimplemented
                 (''stream compression '' @ encoding @ '' is not supported; send identity'') r)
           | None \<Rightarrow> None)"

definition handle_unary_core ::
  "'m gateway \<Rightarrow> mocker \<Rightarrow> call_ctx \<Rightarrow> call_path \<Rightarrow> bool \<Rightarrow> byte list \<Rightarrow> 'm mock_state
     \<Rightarrow> ((call_error + 'm) \<times> string list) \<times> 'm mock_state" where
  "handle_unary_core G M cx path json data s =
     (case gw_decode G json data of
        Inl e \<Rightarrow> ((Inl (status_error code_InvalidArgument (''failed to unmarshal: '' @ e)), []), s)
      | Inr m \<Rightarrow> handle_unary_with_proxy (gw_mock G) (gw_upstream G) M cx path m s)"

definition unary_request_body :: "http_request \<Rightarrow> method_desc \<Rightarrow> string + byte list" where
  "unary_request_body req d = (if hr_Method req = ''GET'' then connect_get_request req d else Inr (hr_Body req))"

definition connect_handle_unary ::
  "'m gateway \<Rightarrow> http_request \<Rightarrow> method_desc \<Rightarrow> call_ctx \<Rightarrow> connect_adapter \<Rightarrow> http_response \<Rightarrow> 'm mock_state
     \<Rightarrow> http_response \<times> 'm mock_state" where
  "connect_handle_unary G req d cx a r s =
     (case unary_request_body req d of
        Inl msg \<Rightarrow> (adapter_write_error G a code_InvalidArgument msg r, s)
      | Inr data \<Rightarrow>
          (let ((res, _), s) = handle_unary_core G (build_mocker G req d) cx Http_Call (is_json_content_type (ca_type a)) data
                 (fresh_stream [] s);
               r = set_unary_trailers (concat (ms_trailers s)) (set_md_headers (concat (ms_headers s)) r)
           in case res of
                Inl e \<Rightarrow> (connect_write_error_status G a [] (normalize_health_error (hr_Service req) e) r, s)
              | Inr msg \<Rightarrow> (connect_send_msg G a msg r, s)))"

definition connect_handle_stream ::
  "'m gateway \<Rightarrow> http_request \<Rightarrow> method_desc \<Rightarrow> call_ctx \<Rightarrow> connect_adapter \<Rightarrow> http_response \<Rightarrow> 'm mock_state
     \<Rightarrow> gateway_reply \<times> 'm mock_state" where
  "connect_handle_stream G req d cx a r s =
     (let hdr = header_get (hr_Header req);
          inbox = stream_inbox hdr (connect_recv_msg (gw_gunzip G) True hdr) (gw_decode G (is_json_content_type (ca_type a)))
            \<lparr>body = hr_Body req, end_of_stream = False\<rparr>;
          (res, s) = serve_stream (gw_mock G) (gw_upstream G) (build_mocker G req d) cx Http_Call (fresh_stream inbox s);
          r = fold (connect_send_msg G a) (ms_sent s) (set_md_headers (concat (ms_headers s)) r);
          trailers = md_join (ms_trailers s)
      in case res of
           Bidi_Proxied reqs capture \<Rightarrow> (Relaying reqs capture, s)
         | Answered (Some e) \<Rightarrow>
             (Replied (connect_write_error_status G a trailers (normalize_health_error (hr_Service req) e) r), s)
         | Answered None \<Rightarrow>
             (Replied (write_body (write_connect_frame_encoded (gw_gzip G) (gw_end_json G None trailers) True (ca_encoding a))
                (connect_send_header a r)), s))"

definition connect_serve_method ::
  "'m gateway \<Rightarrow> http_request \<Rightarrow> method_desc \<Rightarrow> http_response \<Rightarrow> 'm mock_state \<Rightarrow> gateway_reply \<times> 'm mock_state" where
  "connect_serve_method G req d r s =
     (let a = connect_adapter_of req (md_ServerStream d \<or> md_ClientStream d) r in
      case accept_request_encoding G req a r of
        Some r \<Rightarrow> (Replied r, s)
      | None \<Rightarrow>
          (case request_timeout (header_get (hr_Header req)) of
             Inl _ \<Rightarrow> (Replied (connect_write_error G code_InvalidArgument ''invalid connect-timeout-ms'' r), s)
           | Inr timeout \<Rightarrow>
               (let cx = limit_context timeout (ms_now s) (http_headers_to_grpc_context req) in
                if \<not> ca_streaming a then (let (r, s) = connect_handle_unary G req d cx a r s in (Replied r, s))
                else connect_handle_stream G req d cx a r s)))"

text \<open>The reflection service answers over the adapter of a stream.\<close>

fun plain_messages :: "(stream_adapter \<Rightarrow> (recv_error + byte list) \<times> stream_adapter) \<Rightarrow> nat \<Rightarrow> stream_adapter \<Rightarrow> byte list list" where
  "plain_messages recv 0 a = []"
| "plain_messages recv (Suc n) a =
     (case recv a of (Inl _, _) \<Rightarrow> [] | (Inr bs, a) \<Rightarrow> bs # plain_messages recv n a)"

definition connect_serve_reflection :: "'m gateway \<Rightarrow> http_request \<Rightarrow> http_response \<Rightarrow> http_response" where
  "connect_serve_reflection G req r =
     (let hdr = header_get (hr_Header req); a = connect_adapter_of req True r in
      if \<not> is_connect_stream_content_type (ca_type a) then http_error ''unsupported media type'' 415 r
      else
        (let requests = plain_messages (connect_recv_msg (gw_gunzip G) True hdr) (Suc (length (hr_Body req)))
               \<lparr>body = hr_Body req, end_of_stream = False\<rparr>;
             (err, sent) = gw_reflection G (hr_Service req) (is_json_content_type (ca_type a)) requests;
             r = fold (\<lambda>data r. write_body (write_connect_frame_encoded (gw_gzip G) data False (ca_encoding a))
                   (connect_send_header a r)) sent r
         in case err of
              Some e \<Rightarrow> connect_write_error_status G a [] e r
            | None \<Rightarrow>
                write_body (write_connect_frame_encoded (gw_gzip G) (gw_end_json G None []) True (ca_encoding a))
                  (connect_send_header a r)))"

definition set_request_type :: "string \<Rightarrow> http_request \<Rightarrow> http_request" where
  "set_request_type ct req = req\<lparr>hr_Header := m_put ''Content-Type'' [ct] (hr_Header req)\<rparr>"

text \<open>Either the response and the state after it, or the method and the request, of a GET with its content type.\<close>

definition resolve_method ::
  "'m gateway \<Rightarrow> http_request \<Rightarrow> http_response \<Rightarrow> 'm mock_state
     \<Rightarrow> http_response \<times> 'm mock_state + http_request \<times> method_desc" where
  "resolve_method G req r s =
     (case find_method_descriptor (gw_global_files G) (gw_files G) (hr_Service req) (hr_Name req) of
        None \<Rightarrow>
          Inl (if gw_files G = None then
                 handle_without_descriptor G req
                   \<lparr>dr_error = connect_write_error G, dr_success = connect_write_success req\<rparr> r s
               else (connect_write_error G code_NotFound ''method not found'' r, s))
      | Some d \<Rightarrow>
          if hr_Method req = ''GET'' then
            (if \<not> method_allows_get d then Inl (http_error ''method not allowed'' 405 r, s)
             else Inr (set_request_type (connect_get_content_type req) req, d))
          else Inr (req, d))"

definition connect_serve ::
  "'m gateway \<Rightarrow> http_request \<Rightarrow> http_response \<Rightarrow> 'm mock_state \<Rightarrow> gateway_reply \<times> 'm mock_state" where
  "connect_serve G req r s =
     (case accept_request G req r of
        Some r \<Rightarrow> (Replied r, s)
      | None \<Rightarrow>
          if is_reflection_method (hr_Service req) (hr_Name req) then (Replied (connect_serve_reflection G req r), s)
          else
            (case resolve_method G req r s of
               Inl (r, s) \<Rightarrow> (Replied r, s)
             | Inr (req, d) \<Rightarrow> connect_serve_method G req d r s))"

end
