(* ===== verification/Gateway_Web.thy ===== *)
theory Gateway_Web
  imports Gateway
begin

text \<open>
  The gateway for gRPC-Web requests, \<^verbatim>\<open>grpcweb_gateway.go\<close>, and the dispatch between the two protocols,
  \<^verbatim>\<open>multiprotocol_gateway.go\<close>. For the text variants everything written goes through the base64 writer.
\<close>

section \<open>The adapter of a gRPC-Web request\<close>

record web_adapter =
  wa_encoding :: string
  wa_type :: string

definition web_adapter_of :: "http_request \<Rightarrow> http_response \<Rightarrow> web_adapter" where
  "web_adapter_of req r =
     \<lparr>wa_encoding = response_frame_encoding (header_get (rs_Header r) ''Content-Encoding'') (header_get (hr_Header req)),
      wa_type = header_get (hr_Header req) ''Content-Type''\<rparr>"

definition web_send_header :: "web_adapter \<Rightarrow> http_response \<Rightarrow> http_response" where
  "web_send_header a r =
     (if rs_Sent r \<noteq> None then r
      else (let r = header_set ''Content-Type'' (grpcweb_response_content_type (wa_type a)) r;
                r = (if wa_encoding a = ''gzip'' then header_set ''Grpc-Encoding'' ''gzip'' r else r)
            in write_header 200 r))"

definition web_send_msg :: "'m gateway \<Rightarrow> web_adapter \<Rightarrow> 'm \<Rightarrow> http_response \<Rightarrow> (unit option) \<times> http_response" where
  "web_send_msg G a msg r =
     (let r = web_send_header a r in
      case gw_encode G (is_grpcweb_json_content_type (wa_type a)) msg of
        Inl e \<Rightarrow> (None, r)
      | Inr data \<Rightarrow> (Some (), write_body (write_connect_frame_encoded (gw_gzip G) data False (wa_encoding a)) r))"

definition web_write_trailers :: "grpc_code \<Rightarrow> string \<Rightarrow> string list \<Rightarrow> http_response \<Rightarrow> http_response" where
  "web_write_trailers code msg extra r = write_body (write_grpcweb_trailers code msg extra) r"

definition web_write_error_status ::
  "'m gateway \<Rightarrow> web_adapter \<Rightarrow> string list \<Rightarrow> call_error \<Rightarrow> http_response \<Rightarrow> http_response" where
  "web_write_error_status G a extra e r =
     web_write_trailers (err_Code e) (err_Text e)
       (extra @ (if err_Details e = [] then [] else [''grpc-status-details-bin: '' @ gw_status_bin G e])) (web_send_header a r)"

text \<open>The gateway itself; its errors have the binary content type whatever was asked for.\<close>

definition write_grpcweb_error :: "grpc_code \<Rightarrow> string \<Rightarrow> http_response \<Rightarrow> http_response" where
  "write_grpcweb_error code msg r =
     web_write_trailers code msg [] (write_header 200 (header_set ''Content-Type'' ''application/grpc-web+proto'' r))"

definition grpcweb_without_descriptor :: "'m gateway \<Rightarrow> http_request \<Rightarrow> descriptorless_response" where
  "grpcweb_without_descriptor G req =
     (let typed = (\<lambda>r. write_header 200 (header_set ''Content-Type''
            (grpcweb_response_content_type (header_get (hr_Header req) ''Content-Type'')) r))
      in \<lparr>dr_error = (\<lambda>code msg r. web_write_trailers code msg [] (typed r)),
          dr_success = (\<lambda>r. web_write_trailers code_OK '''' [] (write_body (write_connect_frame (gw_gzip G) [] False) (typed r)))\<rparr>)"

section \<open>Serving a gRPC-Web request\<close>

definition status_name :: "grpc_code \<Rightarrow> string" where
  "status_name c =
     (if c = code_Internal then ''Internal'' else if c = code_InvalidArgument then ''InvalidArgument'' else ''Unimplemented'')"

text \<open>The text \<^verbatim>\<open>Error()\<close> gives for a status of the decompression.\<close>

definition decompress_error :: "http_header \<Rightarrow> grpc_code \<Rightarrow> string" where
  "decompress_error hdr c =
     ''rpc error: code = '' @ status_name c @ '' desc = '' @ decompress_text c (frame_encoding hdr)"

definition web_body :: "http_request \<Rightarrow> byte list option" where
  "web_body req =
     (if is_grpcweb_text_content_type (header_get (hr_Header req) ''Content-Type'')
      then decode_grpcweb_text (map (\<lambda>b. char_of (unat b)) (hr_Body req)) else Some (hr_Body req))"

definition web_handle_unary ::
  "'m gateway \<Rightarrow> http_request \<Rightarrow> method_desc \<Rightarrow> call_ctx \<Rightarrow> web_adapter \<Rightarrow> http_response \<Rightarrow> 'm mock_state
     \<Rightarrow> http_response \<times> 'm mock_state" where
  "web_handle_unary G req d cx a r s =
     (let hdr = header_get (hr_Header req);
          fail = (\<lambda>msg. (web_write_trailers code_InvalidArgument msg [] (web_send_header a r), s))
      in case web_body req of
           None \<Rightarrow> fail ''malformed grpc-web-text body''
         | Some raw \<Rightarrow>
             (case extract_payload (gw_gunzip G) raw hdr of
                Inl c \<Rightarrow> fail (decompress_error hdr c)
              | Inr data \<Rightarrow>
                  (let ((res, extra), s) = handle_unary_core G (build_mocker G req d) cx Web_Call
                         (is_grpcweb_json_content_type (wa_type a)) data (fresh_stream [] s);
                       r = set_md_headers (concat (ms_headers s)) r;
                       extra = concat (map trailer_lines (ms_trailers s)) @ extra
                   in case res of
                        Inl e \<Rightarrow> (web_write_error_status G a extra (normalize_health_error (hr_Service req) e) r, s)
                      | Inr msg \<Rightarrow>
                          (case web_send_msg G a msg r of
                             (None, r) \<Rightarrow> (r, s)
                           | (Some _, r) \<Rightarrow> (web_write_trailers code_OK '''' extra r, s)))))"

text \<open>A frame of a stream is decoded as it is, compressed or not.\<close>

lemma web_recv_shrinks: "grpcweb_recv_msg a = (Inr bs, a') \<Longrightarrow> length (body a') < length (body a)"
  by (auto simp: grpcweb_recv_msg_def Let_def split: if_splits sum.splits prod.splits dest!: read_connect_frame_shrinks)

definition web_handle_stream ::
  "'m gateway \<Rightarrow> http_request \<Rightarrow> method_desc \<Rightarrow> call_ctx \<Rightarrow> web_adapter \<Rightarrow> http_response \<Rightarrow> 'm mock_state
     \<Rightarrow> gateway_reply \<times> 'm mock_state" where
  "web_handle_stream G req d cx a r s =
     (let inbox = stream_inbox (header_get (hr_Header req)) grpcweb_recv_msg
            (gw_decode G (is_grpcweb_json_content_type (wa_type a))) \<lparr>body = hr_Body req, end_of_stream = False\<rparr>;
          (res, s) = serve_stream (gw_mock G) (gw_upstream G) (build_mocker G req d) cx Web_Call (fresh_stream inbox s);
          r = fold (\<lambda>m r. snd (web_send_msg G a m r)) (ms_sent s) (set_md_headers (concat (ms_headers s)) r);
          extra = concat (map trailer_lines (ms_trailers s))
      in case res of
           Bidi_Proxied reqs capture \<Rightarrow> (Relaying reqs capture, s)
         | Answered (Some e) \<Rightarrow>
             (Replied (web_write_error_status G a extra (normalize_health_error (hr_Service req) e) r), s)
         | Answered None \<Rightarrow> (Replied (web_write_trailers code_OK '''' extra r), s))"

text \<open>The base64 writer around a response: what was written through it reaches the body encoded.\<close>

definition text_encoded :: "http_response \<Rightarrow> http_response" where
  "text_encoded r = r\<lparr>rs_Body := map of_char (w_text (b64_close (b64_write (rs_Body r) new_b64_writer)))\<rparr>"

definition encode_reply :: "http_request \<Rightarrow> gateway_reply \<Rightarrow> gateway_reply" where
  "encode_reply req reply =
     (case reply of
        Replied r \<Rightarrow>
          Replied (if is_grpcweb_text_content_type (header_get (hr_Header req) ''Content-Type'') then text_encoded r else r)
      | Relaying reqs capture \<Rightarrow> Relaying reqs capture)"

definition web_serve_method ::
  "'m gateway \<Rightarrow> http_request \<Rightarrow> method_desc \<Rightarrow> http_response \<Rightarrow> 'm mock_state \<Rightarrow> gateway_reply \<times> 'm mock_state" where
  "web_serve_method G req d r s =
     (let a = web_adapter_of req r;
          (reply, s) =
            (case request_timeout (header_get (hr_Header req)) of
               Inl _ \<Rightarrow> (Replied (write_grpcweb_error code_InvalidArgument ''invalid grpc-timeout'' r), s)
             | Inr timeout \<Rightarrow>
                 (let cx = limit_context timeout (ms_now s) (http_headers_to_grpc_context req) in
                  if \<not> md_ServerStream d \<and> \<not> md_ClientStream d
                  then (let (r, s) = web_handle_unary G req d cx a r s in (Replied r, s))
                  else web_handle_stream G req d cx a r s))
      in (encode_reply req reply, s))"

definition web_serve_reflection :: "'m gateway \<Rightarrow> http_request \<Rightarrow> http_response \<Rightarrow> gateway_reply" where
  "web_serve_reflection G req r =
     (let a = web_adapter_of req r;
          requests = plain_messages grpcweb_recv_msg (Suc (length (hr_Body req))) \<lparr>body = hr_Body req, end_of_stream = False\<rparr>;
          (err, sent) = gw_reflection G (hr_Service req) (is_grpcweb_json_content_type (wa_type a)) requests;
          r = fold (\<lambda>data r. write_body (write_connect_frame_encoded (gw_gzip G) data False (wa_encoding a))
                (web_send_header a r)) sent r
      in encode_reply req (Replied (case err of
           Some e \<Rightarrow> web_write_error_status G a [] e r | None \<Rightarrow> web_write_trailers code_OK '''' [] r)))"

definition web_serve ::
  "'m gateway \<Rightarrow> http_request \<Rightarrow> http_response \<Rightarrow> 'm mock_state \<Rightarrow> gateway_reply \<times> 'm mock_state" where
  "web_serve G req r s =
     (if hr_Method req \<noteq> ''POST'' then (Replied (http_error ''method not allowed'' 405 r), s)
      else if \<not> grpcweb_content_type_supported (header_get (hr_Header req) ''Content-Type'')
        then (Replied (http_error ''unsupported media type'' 415 r), s)
      else if is_reflection_method (hr_Service req) (hr_Name req) then (web_serve_reflection G req r, s)
      else
        (case find_method_descriptor (gw_global_files G) (gw_files G) (hr_Service req) (hr_Name req) of
           None \<Rightarrow>
             if gw_files G = None then
               (let (r, s) = handle_without_descriptor G req (grpcweb_without_descriptor G req) r s in (Replied r, s))
             else (Replied (write_grpcweb_error code_NotFound ''method not found'' r), s)
         | Some d \<Rightarrow> web_serve_method G req d r s))"

definition gateway_serve ::
  "'m gateway \<Rightarrow> http_request \<Rightarrow> http_response \<Rightarrow> 'm mock_state \<Rightarrow> gateway_reply \<times> 'm mock_state" where
  "gateway_serve G req r s =
     (if hr_Method req \<noteq> ''POST'' \<and> hr_Method req \<noteq> ''GET'' then (Replied (http_error ''method not allowed'' 405 r), s)
      else if has_prefix (normalize_content_type (header_get (hr_Header req) ''Content-Type'')) ''application/grpc-web''
        then web_serve G req r s
      else connect_serve G req r s)"

end
