(* ===== verification/Gateway_Claims.thy ===== *)
theory Gateway_Claims
  imports Gateway_Web Proxy_Claims
begin

text \<open>
  Properties of the gateways: a unary call over HTTP comes to what the call over gRPC comes to, a client reads back
  what a stream sent and how it ended, every request gets a status, and where a response is not what its protocol asks for.
\<close>

section \<open>Responses\<close>

lemma header_frame [simp]:
  "rs_Sent (header_set k v r) = rs_Sent r" "rs_Body (header_set k v r) = rs_Body r"
  "rs_Sent (header_add k v r) = rs_Sent r" "rs_Body (header_add k v r) = rs_Body r"
  by (simp_all add: header_set_def header_add_def)

lemma write_headers_frame [simp]:
  "rs_Sent (set_md_headers md r) = rs_Sent r" "rs_Body (set_md_headers md r) = rs_Body r"
  "rs_Sent (set_unary_trailers md r) = rs_Sent r" "rs_Body (set_unary_trailers md r) = rs_Body r"
  "rs_Sent (set_all_headers kvs r) = rs_Sent r" "rs_Body (set_all_headers kvs r) = rs_Body r"
proof -
  have one: "rs_Sent (fold (header_add k) vs r) = rs_Sent r \<and> rs_Body (fold (header_add k) vs r) = rs_Body r" for k vs r
    by (induction vs arbitrary: r) auto
  show "rs_Sent (set_md_headers md r) = rs_Sent r" "rs_Body (set_md_headers md r) = rs_Body r"
    by (induction md arbitrary: r) (auto simp: set_md_headers_def one)
  show "rs_Sent (set_unary_trailers md r) = rs_Sent r" "rs_Body (set_unary_trailers md r) = rs_Body r"
    by (induction md arbitrary: r) (auto simp: set_unary_trailers_def one)
  show "rs_Sent (set_all_headers kvs r) = rs_Sent r" "rs_Body (set_all_headers kvs r) = rs_Body r"
    by (induction kvs arbitrary: r) (auto simp: set_all_headers_def)
qed

lemma write_frame [simp]:
  "rs_Sent (write_header n r) = (case rs_Sent r of None \<Rightarrow> Some (n, rs_Header r) | Some x \<Rightarrow> Some x)"
  "rs_Body (write_header n r) = rs_Body r"
  "rs_Sent (write_body bs r) = (case rs_Sent r of None \<Rightarrow> Some (200, rs_Header r) | Some x \<Rightarrow> Some x)"
  "rs_Body (write_body bs r) = rs_Body r @ bs"
  by (auto simp: write_header_def write_body_def Let_def split: option.split)

definition rs_Status :: "http_response \<Rightarrow> nat option" where
  "rs_Status r = map_option fst (rs_Sent r)"

lemma status_frame [simp]:
  "rs_Status (header_set k v r) = rs_Status r" "rs_Status (set_md_headers md r) = rs_Status r"
  "rs_Status (set_unary_trailers md r) = rs_Status r"
  "rs_Status (write_header n r) = (case rs_Status r of None \<Rightarrow> Some n | Some k \<Rightarrow> Some k)"
  "rs_Status (write_body bs r) = (case rs_Status r of None \<Rightarrow> Some 200 | Some k \<Rightarrow> Some k)"
  by (auto simp: rs_Status_def split: option.split)

lemma send_header_frame [simp]:
  "rs_Body (connect_send_header a r) = rs_Body r" "rs_Sent (connect_send_header a r) \<noteq> None"
  "rs_Status (connect_send_header a r) = (case rs_Status r of None \<Rightarrow> Some 200 | Some n \<Rightarrow> Some n)"
  by (auto simp: connect_send_header_def rs_Status_def Let_def split: option.split)

lemma web_send_header_frame [simp]:
  "rs_Body (web_send_header a r) = rs_Body r" "rs_Sent (web_send_header a r) \<noteq> None"
  by (auto simp: web_send_header_def Let_def split: option.split)

section \<open>Every request is answered\<close>

definition went_out :: "http_response \<Rightarrow> bool" where
  "went_out r \<longleftrightarrow> rs_Sent r \<noteq> None"

lemma went_out_frame [simp]:
  "went_out (header_set k v r) = went_out r" "went_out (write_header n r)" "went_out (write_body bs r)"
  "went_out (connect_send_header a r)" "went_out (web_send_header w r)"
  by (auto simp: went_out_def connect_send_header_def web_send_header_def Let_def split: option.split)

lemma writes_send [simp]:
  "went_out (connect_write_body G a c d r)" "went_out (connect_write_error G c m r)"
  "went_out (connect_write_success req r)" "went_out (http_error m n r)" "went_out (web_write_trailers c m x r)"
  "went_out (connect_send_msg G a msg r)" "went_out (snd (web_send_msg G w msg r))"
  by (auto simp: connect_write_body_def connect_write_error_def connect_write_success_def http_error_def
      web_write_trailers_def connect_send_msg_def web_send_msg_def Let_def split: sum.split)

lemma errors_send [simp]:
  "went_out (connect_write_error_status G a t e r)" "went_out (adapter_write_error G a c m r)"
  "went_out (web_write_error_status G w x e r)" "went_out (write_grpcweb_error c m r)"
  by (simp_all add: connect_write_error_status_def adapter_write_error_def web_write_error_status_def write_grpcweb_error_def)

lemma text_encoded_sends [simp]: "went_out (text_encoded r) = went_out r"
  by (simp add: went_out_def text_encoded_def)

definition is_answered :: "gateway_reply \<Rightarrow> bool" where
  "is_answered reply = (case reply of Replied r \<Rightarrow> went_out r | Relaying _ _ \<Rightarrow> True)"

lemma is_answered_simps [simp]: "is_answered (Replied r) = went_out r" "is_answered (Relaying x y)"
  by (simp_all add: is_answered_def)

lemma is_answered_encode [simp]: "is_answered (encode_reply req reply) = is_answered reply"
  by (auto simp: encode_reply_def split: gateway_reply.split)

lemma descriptorless_sends:
  assumes "\<And>c m r. went_out (dr_error resp c m r)" and "\<And>r. went_out (dr_success resp r)"
  shows "went_out (fst (handle_without_descriptor G req resp r s))"
  using assms by (simp add: handle_without_descriptor_def Let_def split: sum.split prod.split option.split)

lemma connect_serve_method_answers: "is_answered (fst (connect_serve_method G req d r s))"
proof -
  have "is_answered (fst (connect_handle_stream G req d cx a r s))" for cx a
    by (simp add: connect_handle_stream_def Let_def split: served.split prod.split option.split)
  moreover have "went_out (fst (connect_handle_unary G req d cx a r s))" for cx a
    by (simp add: connect_handle_unary_def Let_def split: sum.split prod.split)
  ultimately show ?thesis
    by (auto simp: connect_serve_method_def accept_request_encoding_def Let_def split_def
        split: sum.split option.splits if_splits)
qed

lemma connect_serve_answers: "is_answered (fst (connect_serve G req r s))"
proof -
  have "went_out (connect_serve_reflection G req r)"
    by (simp add: connect_serve_reflection_def Let_def split: prod.split option.split)
  moreover have "went_out (fst (handle_without_descriptor G req
      \<lparr>dr_error = connect_write_error G, dr_success = connect_write_success req\<rparr> r s))"
    by (rule descriptorless_sends) simp_all
  ultimately show ?thesis
    using connect_serve_method_answers
    by (auto simp: connect_serve_def resolve_method_def accept_request_def split: option.splits if_splits sum.splits prod.splits)
qed

lemma web_send_none: "web_send_msg G a msg r = (None, r') \<Longrightarrow> went_out r'"
  by (auto simp: web_send_msg_def Let_def split: sum.splits)

lemma web_serve_answers: "is_answered (fst (web_serve G req r s))"
proof -
  have "is_answered (fst (web_handle_stream G req d cx a r s))" for d cx a
    by (simp add: web_handle_stream_def Let_def split: served.split prod.split option.split)
  moreover have "went_out (fst (web_handle_unary G req d cx a r s))" for d cx a
    by (auto simp: web_handle_unary_def Let_def split_def split: sum.split prod.split option.split dest: web_send_none)
  ultimately have "is_answered (fst (web_serve_method G req d r s))" for d
    by (auto simp: web_serve_method_def Let_def split_def split: sum.split)
  moreover have "is_answered (web_serve_reflection G req r)"
    by (simp add: web_serve_reflection_def Let_def split: prod.split option.split)
  moreover have "went_out (fst (handle_without_descriptor G req (grpcweb_without_descriptor G req) r s))"
    by (rule descriptorless_sends) (simp_all add: grpcweb_without_descriptor_def Let_def)
  ultimately show ?thesis
    by (auto simp: web_serve_def split_def Let_def split: option.split)
qed



section \<open>Unary calls over HTTP\<close>

definition connect_encoded :: "'m gateway \<Rightarrow> http_request \<Rightarrow> call_error + 'm \<Rightarrow> nat \<times> byte list" where
  "connect_encoded G req res =
     (case res of
        Inl e \<Rightarrow> (error_code_to_http_status (err_Code e),
          gw_error_json G (serialize_error_status (normalize_health_error (hr_Service req) e)))
      | Inr msg \<Rightarrow>
          (200, case gw_encode G (is_json_content_type (header_get (hr_Header req) ''Content-Type'')) msg of
                  Inl _ \<Rightarrow> [] | Inr data \<Rightarrow> data))"

lemma acceptable_not_web:
  "acceptable_content_type streaming ct \<Longrightarrow> \<not> has_prefix (normalize_content_type ct) ''application/grpc-web''"
proof -
  have "\<not> (has_prefix x ''application/connect+'' \<and> has_prefix x ''application/grpc-web'')" for x
    by (auto simp: has_prefix_iff)
  moreover have "normalize_content_type [] = []" by code_simp
  ultimately show "acceptable_content_type streaming ct \<Longrightarrow> ?thesis"
    by (auto simp: acceptable_content_type_def is_connect_stream_content_type_def split: if_splits)
qed

lemma normalized_code [simp]: "err_Code (normalize_health_error svc e) = err_Code e"
  by (simp add: normalize_health_error_def status_error_def)

definition connect_accepts :: "'m gateway \<Rightarrow> http_request \<Rightarrow> bool \<Rightarrow> bool" where
  "connect_accepts G req streaming \<longleftrightarrow>
     hr_Method req = ''POST'' \<and> (gw_require_version G \<longrightarrow> has_protocol_version req) \<and>
     \<not> is_reflection_method (hr_Service req) (hr_Name req) \<and>
     acceptable_content_type streaming (header_get (hr_Header req) ''Content-Type'') \<and>
     (streaming \<longrightarrow> unsupported_stream_encoding (header_get (hr_Header req)) = None)"

definition request_context :: "http_request \<Rightarrow> int option \<Rightarrow> 'm mock_state \<Rightarrow> call_ctx" where
  "request_context req timeout s = limit_context timeout (ms_now s) (http_headers_to_grpc_context req)"

lemma connect_accepted:
  assumes "connect_accepts G req (md_ServerStream d \<or> md_ClientStream d)"
    and "find_method_descriptor (gw_global_files G) (gw_files G) (hr_Service req) (hr_Name req) = Some d"
    and "request_timeout (header_get (hr_Header req)) = Inr timeout"
  shows "gateway_serve G req r s =
     (let a = connect_adapter_of req (md_ServerStream d \<or> md_ClientStream d) r; cx = request_context req timeout s in
      if \<not> (md_ServerStream d \<or> md_ClientStream d) then (let (r, s) = connect_handle_unary G req d cx a r s in (Replied r, s))
      else connect_handle_stream G req d cx a r s)"
  using assms acceptable_not_web
  by (auto simp: gateway_serve_def connect_serve_def resolve_method_def accept_request_def connect_accepts_def connect_serve_method_def
      connect_adapter_of_def accept_request_encoding_def request_context_def Let_def)



section \<open>Streams over HTTP\<close>

text \<open>What a client reads of the body of a stream: the payloads up to the end frame, and the payload of that;
  \<open>None\<close> for a body that is not frames with an end frame last.\<close>

definition frame_payload :: "(byte list \<Rightarrow> byte list option) \<Rightarrow> connect_frame \<Rightarrow> byte list option" where
  "frame_payload gunzip f = (if and (f_flags f) flag_compressed = 0 then Some (f_data f) else gunzip (f_data f))"

definition ends_stream :: "connect_frame \<Rightarrow> bool" where
  "ends_stream f \<longleftrightarrow> and (f_flags f) flag_end_stream \<noteq> 0"

function client_read :: "(byte list \<Rightarrow> byte list option) \<Rightarrow> byte list \<Rightarrow> (byte list list \<times> byte list) option" where
  "client_read gunzip bs =
     (case read_connect_frame bs of
        (Inl _, _) \<Rightarrow> None
      | (Inr f, rest) \<Rightarrow>
          (case frame_payload gunzip f of
             None \<Rightarrow> None
           | Some p \<Rightarrow>
               if ends_stream f then (if rest = [] then Some ([], p) else None)
               else map_option (\<lambda>(ps, e). (p # ps, e)) (client_read gunzip rest)))"
  by pat_completeness auto

termination
  by (relation "measure (\<lambda>(_, bs). length bs)") (auto dest: read_connect_frame_shrinks [OF sym])

declare client_read.simps [simp del]

lemma client_read_written:
  assumes gz: "\<forall>x. gunzip (gzip x) = Some x" and size: "length (fst (compress_frame gzip p enc)) \<le> max_frame_size"
  shows "client_read gunzip (write_connect_frame_encoded gzip p ends enc @ rest) =
     (if ends then (if rest = [] then Some ([], p) else None)
      else map_option (\<lambda>(ps, e). (p # ps, e)) (client_read gunzip rest))"
proof -
  obtain data flags where c: "compress_frame gzip p enc = (data, flags)" by fastforce
  let ?flags = "if ends then or flags flag_end_stream else flags"
  have "read_connect_frame (write_connect_frame_encoded gzip p ends enc @ rest) = (Inr \<lparr>f_flags = ?flags, f_data = data\<rparr>, rest)"
    using read_written_header [of data ?flags rest] size c by (simp add: write_connect_frame_encoded_def)
  moreover have "frame_payload gunzip \<lparr>f_flags = ?flags, f_data = data\<rparr> = Some p"
    "ends_stream \<lparr>f_flags = ?flags, f_data = data\<rparr> \<longleftrightarrow> ends"
    using c gz by (auto simp: compress_frame_def frame_payload_def ends_stream_def split: if_splits)
  ultimately show ?thesis by (subst client_read.simps) simp
qed

lemma client_read_stream:
  assumes "\<forall>x. gunzip (gzip x) = Some x"
    and "\<forall>p\<in>set (e # ps). length (fst (compress_frame gzip p enc)) \<le> max_frame_size"
  shows "client_read gunzip (concat (map (\<lambda>p. write_connect_frame_encoded gzip p False enc) ps) @
     write_connect_frame_encoded gzip e True enc) = Some (ps, e)"
  using assms(2)
proof (induction ps)
  case Nil
  then show ?case using client_read_written [where gunzip = gunzip and gzip = gzip, OF assms(1), of e enc True "[]"] by simp
next
  case (Cons p ps)
  then show ?case using client_read_written [where gunzip = gunzip and gzip = gzip, OF assms(1), of p enc False] by simp
qed

definition encoded_messages :: "'m gateway \<Rightarrow> bool \<Rightarrow> 'm list \<Rightarrow> byte list list" where
  "encoded_messages G json ms = List.map_filter (\<lambda>m. case gw_encode G json m of Inl _ \<Rightarrow> None | Inr d \<Rightarrow> Some d) ms"

lemma send_all:
  assumes "ca_streaming a" and "rs_Status r = None \<or> rs_Status r = Some 200"
  shows "rs_Body (fold (connect_send_msg G a) ms r) = rs_Body r @ concat (map (\<lambda>p.
      write_connect_frame_encoded (gw_gzip G) p False (ca_encoding a)) (encoded_messages G (is_json_content_type (ca_type a)) ms))
    \<and> rs_Status (fold (connect_send_msg G a) ms r) \<in> {rs_Status r, Some 200}"
  using assms(2)
proof (induction ms arbitrary: r)
  case (Cons m ms)
  have "rs_Status (connect_send_msg G a m r) = Some 200"
    using Cons.prems by (auto simp: connect_send_msg_def Let_def split: sum.split)
  moreover note Cons.IH [of "connect_send_msg G a m r"]
  ultimately show ?case
    using assms(1) by (auto simp: connect_send_msg_def encoded_messages_def map_filter_simps Let_def split: sum.split)
qed (simp add: encoded_messages_def map_filter_simps)

text \<open>C15. A client of a streaming Connect call reads what the mocker sent: for an accepted request that is answered
  here, the reply has status 200, and its body is the encodings of the messages sent, in order and compressed as
  negotiated, and one end frame, last, with the error of the call, if it failed, and the trailers.\<close>

theorem connect_stream_read_back:
  assumes "connect_accepts G req True" and "md_ServerStream d \<or> md_ClientStream d"
    and "find_method_descriptor (gw_global_files G) (gw_files G) (hr_Service req) (hr_Name req) = Some d"
    and "request_timeout (header_get (hr_Header req)) = Inr timeout"
    and "rs_Status r = None" "rs_Body r = []" and "\<forall>x. gw_gunzip G (gw_gzip G x) = Some x"
    and inbox: "inbox = stream_inbox (header_get (hr_Header req)) (connect_recv_msg (gw_gunzip G) True (header_get (hr_Header req)))
      (gw_decode G json) \<lparr>body = hr_Body req, end_of_stream = False\<rparr>"
    and json: "json = is_json_content_type (header_get (hr_Header req) ''Content-Type'')"
    and served: "serve_stream (gw_mock G) (gw_upstream G) (build_mocker G req d) (request_context req timeout s) Http_Call
      (fresh_stream inbox s) = (Answered err, s')"
    and e: "e = gw_end_json G (map_option (\<lambda>e. serialize_error_status (normalize_health_error (hr_Service req) e)) err)
      (md_join (ms_trailers s'))"
    and "\<forall>p\<in>set (e # encoded_messages G json (ms_sent s')). length (fst (compress_frame (gw_gzip G) p
      (ca_encoding (connect_adapter_of req True r)))) \<le> max_frame_size"
  shows "\<exists>r'. gateway_serve G req r s = (Replied r', s') \<and> rs_Status r' = Some 200 \<and>
     client_read (gw_gunzip G) (rs_Body r') = Some (encoded_messages G json (ms_sent s'), e)"
proof -
  let ?a = "connect_adapter_of req True r" and ?r0 = "set_md_headers (concat (ms_headers s')) r"
  let ?r1 = "fold (connect_send_msg G ?a) (ms_sent s') ?r0"
  let ?frame = "write_connect_frame_encoded (gw_gzip G)"
  let ?r2 = "write_body (?frame e True (ca_encoding ?a)) (connect_send_header ?a ?r1)"
  have a: "ca_streaming ?a" "ca_type ?a = header_get (hr_Header req) ''Content-Type''" by (simp_all add: connect_adapter_of_def)
  have "gateway_serve G req r s = connect_handle_stream G req d (request_context req timeout s) ?a r s"
    using connect_accepted [of G req d timeout r s] assms(1-4) by (auto simp: Let_def)
  then have reply: "gateway_serve G req r s = (Replied ?r2, s')"
    using served a
    by (cases err) (simp_all add: connect_handle_stream_def Let_def inbox json e connect_write_error_status_def connect_write_body_def)
  have "rs_Body ?r1 = concat (map (\<lambda>p. ?frame p False (ca_encoding ?a)) (encoded_messages G json (ms_sent s')))"
    "rs_Status ?r1 \<in> {None, Some 200}"
    using send_all [of ?a ?r0 G "ms_sent s'"] a assms(5,6) by (auto simp: json)
  moreover note client_read_stream [where gunzip = "gw_gunzip G" and gzip = "gw_gzip G", OF assms(7,12)]
  ultimately have "rs_Status ?r2 = Some 200" "client_read (gw_gunzip G) (rs_Body ?r2) = Some (encoded_messages G json (ms_sent s'), e)"
    by (auto split: option.split)
  with reply show ?thesis by blast
qed


section \<open>Concrete requests\<close>

definition sample_gateway :: "gvalue gateway" where
  "sample_gateway =
     \<lparr>gw_mock = sample_mock, gw_upstream = sample_upstream,
      gw_decode = (\<lambda>_ bs. Inr [(''name'', VString (map (\<lambda>b. char_of (unat b)) bs))]),
      gw_encode = (\<lambda>_ v. case v of VNil \<Rightarrow> Inl ''no message'' | _ \<Rightarrow> Inr [1, 2]),
      gw_gzip = (\<lambda>bs. 0 # bs), gw_gunzip = (\<lambda>bs. Some (tl bs)),
      gw_error_json = (\<lambda>e. map of_char (ce_Code e)),
      gw_end_json = (\<lambda>e _. case e of None \<Rightarrow> [] | Some e \<Rightarrow> map of_char (ce_Code e)),
      gw_status_bin = (\<lambda>_. ''CAU''), gw_reflection = (\<lambda>_ _ _. (None, [])),
      gw_global_files = [[(''Greeter'',
        [\<lparr>md_Name = ''Say'', md_ServerStream = False, md_ClientStream = False, md_NoSideEffects = False\<rparr>,
         \<lparr>md_Name = ''Chat'', md_ServerStream = True, md_ClientStream = False, md_NoSideEffects = False\<rparr>])]],
      gw_files = None, gw_routes = (\<lambda>_. None), gw_first_route = None, gw_recorder = True, gw_require_version = True\<rparr>"

definition sample_request :: "string \<Rightarrow> string \<Rightarrow> byte list \<Rightarrow> http_request" where
  "sample_request name ct bs =
     \<lparr>hr_Method = ''POST'', hr_Service = ''Greeter'', hr_Name = name, hr_Query = [],
      hr_Header = [(''Content-Type'', [ct]), (''Connect-Protocol-Version'', [''1'']), (''Connect-Timeout-Ms'', [''1500''])],
      hr_Body = bs, hr_Done = None\<rparr>"


lemma connect_stream_read_back_witness:
  "\<exists>r'. fst (gateway_serve sample_gateway (sample_request ''Chat'' ''application/connect+json'' [1, 0, 0, 0, 0])
       (new_response []) (sample_state (sample_searcher []))) = Replied r' \<and>
     rs_Status r' = Some 200 \<and> client_read (\<lambda>bs. Some (tl bs)) (rs_Body r') = Some ([], map of_char ''internal'')"
proof -
  let ?G = sample_gateway and ?s = "sample_state (sample_searcher [])"
  let ?req = "sample_request ''Chat'' ''application/connect+json'' [1, 0, 0, 0, 0]"
  let ?d = "\<lparr>md_Name = ''Chat'', md_ServerStream = True, md_ClientStream = False, md_NoSideEffects = False\<rparr>"
  let ?hdr = "header_get (hr_Header ?req)" and ?json = "is_json_content_type (header_get (hr_Header ?req) ''Content-Type'')"
  let ?inbox = "stream_inbox ?hdr (connect_recv_msg (gw_gunzip ?G) True ?hdr) (gw_decode ?G ?json) \<lparr>body = hr_Body ?req, end_of_stream = False\<rparr>"
  let ?h = "serve_stream (gw_mock ?G) (gw_upstream ?G) (build_mocker ?G ?req ?d)
      (request_context ?req (Some 1500000000) ?s) Http_Call (fresh_stream ?inbox ?s)"
  let ?e = "wrap_error ''failed to receive message'' (status_error code_Internal ''frame is marked compressed but no compression was negotiated'')"
  have inbox: "?inbox = [Inl (status_error code_Internal ''frame is marked compressed but no compression was negotiated'')]"
  proof -
    have "normalize_content_type (?hdr ''Content-Type'') = ''application/connect+json''" "frame_encoding ?hdr = ''identity''"
      by code_simp+
    moreover have "hr_Body ?req = [1, 0, 0, 0, 0]" by (simp add: sample_request_def)
    ultimately show ?thesis
      by (simp add: stream_inbox.simps connect_recv_msg_def recv_streaming_message_def read_connect_frame_def read_full_def
          decode_frame_payload_def decompress_frame_def recv_call_error_def decompress_text_def Let_def)
  qed
  obtain s' where h: "?h = (Answered (Some ?e), s')" "ms_sent s' = []"
    unfolding inbox
    by (simp add: serve_stream_def stream_handler_def route_mode_def build_mocker_def handle_stream_def stream_kind_def
        handle_server_stream_def receive_def fresh_stream_def error_of_def run_dispatch_def sample_gateway_def
        sample_request_def full_method_def)
  have acc: "connect_accepts ?G ?req True" "find_method_descriptor (gw_global_files ?G) (gw_files ?G) (hr_Service ?req) (hr_Name ?req) = Some ?d"
    "request_timeout ?hdr = Inr (Some 1500000000)"
    by code_simp+
  have json: "gw_end_json ?G (Some (serialize_error_status (normalize_health_error (hr_Service ?req) ?e))) t = map of_char ''internal''" for t
    by (simp add: serialize_error_status_def sample_gateway_def error_code_to_string_def code_names_def wrap_error_def
        plain_error_def status_error_def)
  have "\<exists>r'. gateway_serve ?G ?req (new_response []) ?s = (Replied r', s') \<and> rs_Status r' = Some 200 \<and>
      client_read (gw_gunzip ?G) (rs_Body r') = Some (encoded_messages ?G ?json (ms_sent s'), map of_char ''internal'')"
    by (rule connect_stream_read_back [OF acc(1) _ acc(2,3) _ _ _ refl refl, where err = "Some ?e"])
      (use h in \<open>simp_all add: json rs_Status_def new_response_def encoded_messages_def map_filter_simps compress_frame_def,
        simp_all add: sample_gateway_def\<close>)
  then show ?thesis using h(2) by (auto simp: encoded_messages_def map_filter_simps sample_gateway_def)
qed


section \<open>Where a response is not what its protocol asks for\<close>

text \<open>A stream that announces a compression of the whole stream is refused with an end frame that holds a bare error
  instead of an object with the error in it, so a client finds no error in it.\<close>

lemma refused_stream_bare_error:
  "ca_streaming a \<Longrightarrow> rs_Body (adapter_write_error G a code msg r) =
     rs_Body r @ write_connect_frame_encoded (gw_gzip G) (gw_error_json G (plain_connect_error code msg)) True (ca_encoding a)"
  by (simp add: adapter_write_error_def connect_write_body_def)

text \<open>The status goes out before the message is encoded, so one that does not encode is an empty success.\<close>

lemma unencodable_is_empty_success:
  "gw_encode G (is_json_content_type (ca_type a)) msg = Inl e \<Longrightarrow> rs_Status r = None \<Longrightarrow>
     rs_Status (connect_send_msg G a msg r) = Some 200 \<and> rs_Body (connect_send_msg G a msg r) = rs_Body r"
  by (simp add: connect_send_msg_def)

text \<open>A gRPC-Web stream without a message is answered without a content type.\<close>

lemma empty_web_stream_untyped:
  "rs_Sent (web_write_trailers code msg extra (new_response [])) = Some (200, [])"
  by (simp add: web_write_trailers_def new_response_def)

text \<open>Without descriptors a text request is answered with a text content type but a body that is not base64.\<close>

lemma descriptorless_text_not_encoded:
  assumes "is_grpcweb_text_content_type (header_get (hr_Header req) ''Content-Type'')"
  shows "\<exists>h. rs_Sent (dr_error (grpcweb_without_descriptor G req) code msg (new_response [])) = Some (200, h) \<and>
       (\<exists>t. header_get h ''Content-Type'' = grpcweb_text_response_content_type t)"
    and "hd (rs_Body (dr_error (grpcweb_without_descriptor G req) code msg (new_response []))) = 0x80"
proof -
  have "canonical_key ''Content-Type'' = ''Content-Type''" by code_simp
  then show "\<exists>h. rs_Sent (dr_error (grpcweb_without_descriptor G req) code msg (new_response [])) = Some (200, h) \<and>
       (\<exists>t. header_get h ''Content-Type'' = grpcweb_text_response_content_type t)"
    using assms
    by (auto simp: grpcweb_without_descriptor_def web_write_trailers_def Let_def new_response_def header_set_def header_get_def
        grpcweb_response_content_type_def)
qed (simp add: grpcweb_without_descriptor_def web_write_trailers_def write_grpcweb_trailers_def Let_def new_response_def)

text \<open>And a bad timeout of a text request is answered in base64 under the binary content type.\<close>

lemma bad_timeout_of_text_mistyped:
  assumes "is_grpcweb_text_content_type (header_get (hr_Header req) ''Content-Type'')"
    and "request_timeout (header_get (hr_Header req)) = Inl e"
  shows "\<exists>r h. fst (web_serve_method G req d (new_response []) s) = Replied r \<and> rs_Sent r = Some (200, h) \<and>
     header_get h ''Content-Type'' = ''application/grpc-web+proto'' \<and>
     rs_Body r = rs_Body (text_encoded (write_grpcweb_error code_InvalidArgument ''invalid grpc-timeout'' (new_response [])))"
proof -
  have "canonical_key ''Content-Type'' = ''Content-Type''" by code_simp
  then show ?thesis
    using assms
    by (simp add: web_serve_method_def encode_reply_def Let_def text_encoded_def write_grpcweb_error_def web_write_trailers_def
        new_response_def header_set_def header_get_def)
qed

text \<open>A frame of a gRPC-Web stream that is marked compressed reaches the decoder as it is.\<close>

lemma web_stream_not_decompressed:
  assumes "data \<noteq> []" and "length data \<le> max_frame_size"
  shows "fst (grpcweb_recv_msg \<lparr>body = (flag_compressed # be32 (length data)) @ data, end_of_stream = False\<rparr>) = Inr data"
  using assms read_written_header [of data flag_compressed "[]"] by (simp add: grpcweb_recv_msg_def)

end
