(* ===== verification/Rest.thy ===== *)
theory Rest
  imports Mocker Inspect
begin

text \<open>
  The HTTP API of the server, \<^verbatim>\<open>internal/app/rest_stubs.go\<close>, \<^verbatim>\<open>rest_server.go\<close> and \<^verbatim>\<open>rest_dashboard.go\<close>: what
  each handler does to the stub store, the history and the sessions, and what it answers. Decoding and encoding of
  JSON by the library are parameters; what the repository puts around it (the session of a request, the
  limit on bodies, the brackets around a single object, validation) is modelled. A handler that panics is \<open>None\<close>:
  the HTTP server then drops the connection and the state is as before the write.
\<close>

section \<open>Requests\<close>

text \<open>\<open>rq_Session\<close> is the session header, \<open>rq_Context\<close> what a middleware put into the context, \<open>rq_Internal\<close> whether
  the header that marks an internal request is there, \<open>rq_Read\<close> the body read by a middleware, and \<open>rq_Stream\<close> the bytes of the body with the error that ends it, if one does.\<close>

datatype body_error = Err_Body_Too_Large | Err_Body_Read string

record rest_request =
  rq_Session :: string
  rq_Context :: "string option"
  rq_Internal :: bool
  rq_ReadError :: "body_error option"
  rq_Read :: "string option"
  rq_Stream :: "string \<times> string option"

definition with_context :: "string \<Rightarrow> string option \<Rightarrow> string option" where
  "with_context session cx = (if trim_space session = '''' then cx else Some (trim_space session))"

definition from_context :: "string option \<Rightarrow> string" where
  "from_context cx = (case cx of None \<Rightarrow> '''' | Some s \<Rightarrow> trim_space s)"

definition from_request :: "rest_request \<Rightarrow> string" where
  "from_request rq =
     (if from_context (rq_Context rq) \<noteq> '''' then from_context (rq_Context rq) else trim_space (rq_Session rq))"

definition consume_request :: "int \<Rightarrow> rest_request \<Rightarrow> tracker \<Rightarrow> rest_request \<times> tracker" where
  "consume_request now rq t =
     (let v = trim_space (rq_Session rq) in
      if v = '''' then (rq, t)
      else (rq\<lparr>rq_Session := '''', rq_Context := with_context v (rq_Context rq)\<rparr>, touch v now t))"

definition max_request_body :: nat where
  "max_request_body = 4 * 1024 * 1024"

definition read_body :: "rest_request \<Rightarrow> body_error + string" where
  "read_body rq =
     (let (b, err) = rq_Stream rq in
      if max_request_body < length b then Inl Err_Body_Too_Large
      else case err of Some e \<Rightarrow> Inl (Err_Body_Read e) | None \<Rightarrow> Inr b)"

definition request_body :: "rest_request \<Rightarrow> body_error + string" where
  "request_body rq =
     (case rq_ReadError rq of
        Some e \<Rightarrow> Inl e
      | None \<Rightarrow> (case rq_Read rq of Some b \<Rightarrow> Inr b | None \<Rightarrow> read_body rq))"

definition min_json_length :: nat where
  "min_json_length = 2"

text \<open>A single object is read as a list of one. \<open>dec\<close> is the decoder of the library.\<close>

definition unmarshal_slice :: "(string \<Rightarrow> string + 'a) \<Rightarrow> string \<Rightarrow> string + 'a" where
  "unmarshal_slice dec data =
     (let input = trim_space data in
      if length input < min_json_length then Inl ''''
      else dec (if hd input = CHR ''{'' \<and> last input = CHR ''}'' then ''['' @ input @ '']'' else input))"

section \<open>Validation\<close>

text \<open>The first field in the order of the struct that fails, with the tag that failed.\<close>

definition validation_error :: "stub \<Rightarrow> (string \<times> string) option" where
  "validation_error v =
     (if Service v = '''' then Some (''Service'', ''required'')
      else if Method v = '''' then Some (''Method'', ''required'')
      else if Times v < 0 then Some (''Times'', ''gte'')
      else if \<not> validate_input_configuration v then Some (''Input'', ''valid_input_config'')
      else if \<not> validate_output_configuration v then Some (''Output'', ''valid_output_config'')
      else if \<not> validate_effects_configuration v then Some (''Effects'', ''valid_effects'')
      else None)"

definition required_field_message :: "string \<Rightarrow> string" where
  "required_field_message field =
     (if field = ''Service'' then ''service name is missing''
      else if field = ''Method'' then ''method name is missing''
      else field @ '' is required'')"

definition quoted :: "string \<Rightarrow> string" where
  "quoted s = [CHR 0x27] @ s @ [CHR 0x27]"

definition validation_message :: "string \<times> string \<Rightarrow> string" where
  "validation_message fe =
     (case fe of (field, tag) \<Rightarrow>
        if tag = ''required'' then required_field_message field
        else if tag = ''valid_input_config''
          then ''Invalid input configuration: must have either '' @ quoted ''input'' @ '' or '' @ quoted ''inputs'' @ '', but not both''
        else if tag = ''valid_output_config''
          then ''Invalid output configuration: must have either '' @ quoted ''data'' @ '' or '' @ quoted ''stream'' @ '', but not both''
        else if tag = ''valid_effects''
          then ''Invalid effects configuration: upsert requires '' @ quoted ''stub'' @ '', delete requires '' @ quoted ''id''
        else if tag = ''gte'' then ''Options.Times must be >= 0 (0 = unlimited matches)''
        else ''Validation failed for field '' @ field @ '' with tag '' @ tag)"

text \<open>The JSON of a search, of an inspection and of a verification.\<close>

record query_json =
  qj_ID :: "uuid option"
  qj_Service :: string
  qj_Method :: string
  qj_Headers :: gmap
  qj_Data :: gomap
  qj_Input :: "gmap list"

record inspect_request =
  iq_ID :: "uuid option"
  iq_Service :: string
  iq_Method :: string
  iq_Session :: "string option"
  iq_Headers :: gmap
  iq_Input :: "gmap list"

record verify_request =
  vq_Service :: string
  vq_Method :: string
  vq_ExpectedCount :: int

text \<open>What the handlers need beyond a mocked call: decoding of stubs (a \<open>null\<close> in the list is a nil pointer), of
  IDs, of the queries and requests in a body, the encoding of stubs and back, and the check of a template.\<close>

record 'm rest_lib =
  rl_Mock :: "'m mock_lib"
  rl_DecodeStubs :: "string \<Rightarrow> string + stub option list"
  rl_DecodeIDs :: "string \<Rightarrow> string + uuid list"
  rl_DecodeQuery :: "string \<times> string option \<Rightarrow> string + query_json"
  rl_DecodeInspect :: "string \<times> string option \<Rightarrow> string + inspect_request"
  rl_DecodeVerify :: "string \<times> string option \<Rightarrow> string + verify_request"
  rl_Marshal :: "gvalue \<Rightarrow> string + string"
  rl_Normalize :: "stub option list \<Rightarrow> string + gmap list"
  rl_ValidateTemplate :: "string \<Rightarrow> string option"
  rl_DelayError :: "string \<Rightarrow> string"

definition validate_delay :: "'m rest_lib \<Rightarrow> string \<Rightarrow> string option" where
  "validate_delay L d =
     (if is_template_delay d then rl_ValidateTemplate L d
      else case delay_parse (ml_lib (rl_Mock L)) d of None \<Rightarrow> Some (rl_DelayError L d) | Some _ \<Rightarrow> None)"

text \<open>The message of the error, if the stub is not accepted.\<close>

definition api_validate_stub :: "'m rest_lib \<Rightarrow> stub \<Rightarrow> string option" where
  "api_validate_stub L v =
     (case validation_error v of
        Some fe \<Rightarrow> Some (validation_message fe)
      | None \<Rightarrow> validate_delay L (Delay (Output v)))"

section \<open>Answers\<close>

datatype rest_body =
    No_Body
  | Body_Error string
  | Body_Search_Error search_error
  | Body_IDs "uuid list"
  | Body_Stubs "stub list"
  | Body_Listing "(stub \<times> bool) list"
  | Body_Maps "gmap list"
  | Body_Output stub_output
  | Body_Stub stub
  | Body_Report inspect_report
  | Body_Names "string list"
  | Body_Purged nat "string option"
  | Body_Unverified int int
  | Body_Message string

record rest_reply =
  rp_Status :: nat
  rp_Total :: "nat option"
  rp_Body :: rest_body

definition reply :: "nat \<Rightarrow> rest_body \<Rightarrow> rest_reply" where
  "reply status b = \<lparr>rp_Status = status, rp_Total = None, rp_Body = b\<rparr>"

definition body_error_text :: "body_error \<Rightarrow> string" where
  "body_error_text e =
     (case e of Err_Body_Too_Large \<Rightarrow> ''request body exceeds the maximum size'' | Err_Body_Read t \<Rightarrow> t)"

definition error_status :: "body_error \<Rightarrow> nat" where
  "error_status e = (case e of Err_Body_Too_Large \<Rightarrow> 413 | Err_Body_Read _ \<Rightarrow> 500)"

text \<open>The body of a request, read and decoded; a failure is the answer.\<close>

definition decoded_body :: "(string \<Rightarrow> string + 'a) \<Rightarrow> rest_request \<Rightarrow> rest_reply + 'a" where
  "decoded_body dec rq =
     (case request_body rq of
        Inl e \<Rightarrow> Inl (reply (error_status e) (Body_Error (body_error_text e)))
      | Inr byt \<Rightarrow>
          (case unmarshal_slice dec byt of
             Inl e \<Rightarrow> Inl (reply 500 (Body_Error e))
           | Inr inputs \<Rightarrow> Inr inputs))"

section \<open>Stubs\<close>

text \<open>The loop over the decoded stubs: each gets the session and the source and is validated; a nil stub cannot be
  written to.\<close>

datatype 'a prepared = Panicked | Rejected string | Accepted 'a

fun prepare_stubs :: "('m rest_lib) \<Rightarrow> (stub \<Rightarrow> stub) \<Rightarrow> stub option list \<Rightarrow> stub list prepared" where
  "prepare_stubs L upd [] = Accepted []"
| "prepare_stubs L upd (None # vs) = Panicked"
| "prepare_stubs L upd (Some v # vs) =
     (case api_validate_stub L (upd v) of
        Some e \<Rightarrow> Rejected e
      | None \<Rightarrow>
          (case prepare_stubs L upd vs of Accepted ws \<Rightarrow> Accepted (upd v # ws) | other \<Rightarrow> other))"

definition engine_put :: "'m rest_lib \<Rightarrow> stub list \<Rightarrow> 'm mock_state \<Rightarrow> uuid list \<times> 'm mock_state" where
  "engine_put L vs s =
     (let (ids, e) = put_many (ml_lib (rl_Mock L)) (ms_fresh s) vs (ms_engine s)
      in (ids, s\<lparr>ms_engine := e, ms_fresh := drop (length (filter (\<lambda>v. ID v = 0) vs)) (ms_fresh s)\<rparr>))"

definition engine_delete :: "'m rest_lib \<Rightarrow> uuid list \<Rightarrow> 'm mock_state \<Rightarrow> nat \<times> 'm mock_state" where
  "engine_delete L ids s =
     (let (n, e) = delete_by_id (ml_lib (rl_Mock L)) ids (ms_engine s) in (n, s\<lparr>ms_engine := e\<rparr>))"

definition engine_delete_session :: "'m rest_lib \<Rightarrow> string \<Rightarrow> 'm mock_state \<Rightarrow> nat \<times> 'm mock_state" where
  "engine_delete_session L session s =
     (let (n, e) = delete_session (ml_lib (rl_Mock L)) session (ms_engine s) in (n, s\<lparr>ms_engine := e\<rparr>))"

definition add_stub ::
  "'m rest_lib \<Rightarrow> rest_request \<Rightarrow> 'm mock_state \<Rightarrow> (rest_reply \<times> 'm mock_state) option" where
  "add_stub L rq s =
     (case decoded_body (rl_DecodeStubs L) rq of
        Inl r \<Rightarrow> Some (r, s)
      | Inr inputs \<Rightarrow>
          (case prepare_stubs L (\<lambda>v. v\<lparr>Session := from_request rq, Source := ''rest''\<rparr>) inputs of
             Panicked \<Rightarrow> None
           | Rejected e \<Rightarrow> Some (reply 400 (Body_Error e), s)
           | Accepted vs \<Rightarrow> (let (ids, s) = engine_put L vs s in Some (reply 200 (Body_IDs ids), s))))"

definition delete_stub_by_id :: "'m rest_lib \<Rightarrow> uuid \<Rightarrow> 'm mock_state \<Rightarrow> rest_reply \<times> 'm mock_state" where
  "delete_stub_by_id L i s = (reply 204 No_Body, snd (engine_delete L [i] s))"

definition batch_stubs_delete :: "'m rest_lib \<Rightarrow> rest_request \<Rightarrow> 'm mock_state \<Rightarrow> rest_reply \<times> 'm mock_state" where
  "batch_stubs_delete L rq s =
     (case decoded_body (rl_DecodeIDs L) rq of
        Inl r \<Rightarrow> (r, s)
      | Inr ids \<Rightarrow> (reply 200 No_Body, if ids \<noteq> [] then snd (engine_delete L ids s) else s))"

definition list_used_stubs :: "'m mock_state \<Rightarrow> rest_reply" where
  "list_used_stubs s = reply 200 (Body_Stubs (used_stubs (ms_engine s)))"

definition list_unused_stubs :: "'m mock_state \<Rightarrow> rest_reply" where
  "list_unused_stubs s = reply 200 (Body_Stubs (unused_stubs (ms_engine s)))"

text \<open>The dry run neither sets the session nor stores; a nil stub is an invalid value to the validator.\<close>

fun first_invalid :: "'m rest_lib \<Rightarrow> stub option list \<Rightarrow> string option" where
  "first_invalid L [] = None"
| "first_invalid L (None # vs) = Some ''validator: (nil *stuber.Stub)''"
| "first_invalid L (Some v # vs) = (case api_validate_stub L v of Some e \<Rightarrow> Some e | None \<Rightarrow> first_invalid L vs)"

definition without_zero_id :: "'m rest_lib \<Rightarrow> gmap \<Rightarrow> gmap" where
  "without_zero_id L m = (if map_of m ''id'' = Some (VString (ml_uuid_text (rl_Mock L) 0)) then m_del ''id'' m else m)"

definition rest_validate_stub :: "'m rest_lib \<Rightarrow> rest_request \<Rightarrow> rest_reply" where
  "rest_validate_stub L rq =
     (case decoded_body (rl_DecodeStubs L) rq of
        Inl r \<Rightarrow> r
      | Inr inputs \<Rightarrow>
          (case first_invalid L inputs of
             Some e \<Rightarrow> reply 400 (Body_Error e)
           | None \<Rightarrow>
               (case rl_Normalize L inputs of
                  Inl e \<Rightarrow> reply 500 (Body_Error e)
                | Inr ms \<Rightarrow> reply 200 (Body_Maps (map (without_zero_id L) ms)))))"

text \<open>The query parameters of a listing; one that is absent is \<open>None\<close>.\<close>

record list_params =
  lp_Source :: "string option"
  lp_Service :: "string option"
  lp_Method :: "string option"
  lp_Q :: "string option"
  lp_Matcher :: "string option"
  lp_Sort :: "string option"
  lp_Session :: "string option"
  lp_Limit :: "int option"
  lp_Offset :: "int option"

definition string_from_ptr :: "string option \<Rightarrow> string" where
  "string_from_ptr p = (case p of None \<Rightarrow> '''' | Some s \<Rightarrow> s)"

definition int_from_ptr :: "int option \<Rightarrow> int" where
  "int_from_ptr p = (case p of None \<Rightarrow> 0 | Some n \<Rightarrow> n)"

definition parse_matcher_kinds :: "string \<Rightarrow> string list" where
  "parse_matcher_kinds s =
     (if s = '''' then []
      else filter (\<lambda>k. k \<in> set [''equals'', ''contains'', ''matches'', ''glob'', ''anyOf''])
             (map trim_space (str_split (CHR '','') s)))"

definition list_options_from_params :: "list_params \<Rightarrow> list_options" where
  "list_options_from_params p =
     \<lparr>lo_Source = string_from_ptr (lp_Source p), lo_Service = string_from_ptr (lp_Service p),
      lo_Method = string_from_ptr (lp_Method p), lo_Query = string_from_ptr (lp_Q p),
      lo_Matchers = parse_matcher_kinds (string_from_ptr (lp_Matcher p)),
      lo_Session = string_from_ptr (lp_Session p), lo_SessionSet = (lp_Session p \<noteq> None),
      lo_Limit = int_from_ptr (lp_Limit p), lo_Offset = int_from_ptr (lp_Offset p),
      lo_Sort = string_from_ptr (lp_Sort p)\<rparr>"

definition decorate_stubs_used :: "stub list \<Rightarrow> 'm mock_state \<Rightarrow> (stub \<times> bool) list" where
  "decorate_stubs_used vs s = map (\<lambda>v. (v, ID v \<in> set (used_ids (ms_engine s)))) vs"

definition rest_list_stubs :: "'m rest_lib \<Rightarrow> list_params \<Rightarrow> 'm mock_state \<Rightarrow> rest_reply" where
  "rest_list_stubs L p s =
     (let (vs, total) = budgerigar_list (ml_uuid_text (rl_Mock L)) (list_options_from_params p) (ms_engine s)
      in \<lparr>rp_Status = 200, rp_Total = Some total, rp_Body = Body_Listing (decorate_stubs_used vs s)\<rparr>)"

definition purge_stubs :: "'m rest_lib \<Rightarrow> rest_request \<Rightarrow> 'm mock_state \<Rightarrow> rest_reply \<times> 'm mock_state" where
  "purge_stubs L rq s =
     (let session = from_request rq in
      if session \<noteq> '''' then (reply 204 No_Body, snd (engine_delete_session L session s))
      else (reply 204 No_Body, s\<lparr>ms_engine := budgerigar_clear (ms_engine s)\<rparr>))"

text \<open>The session and the strictness of a query are not read from the body.\<close>

definition rest_query :: "rest_request \<Rightarrow> query_json \<Rightarrow> query" where
  "rest_query rq j =
     \<lparr>q_ID = qj_ID j, q_Service = qj_Service j, q_Method = qj_Method j, q_Session = '''', q_Headers = qj_Headers j,
      q_Input = query_input (qj_Input j) (qj_Data j), q_Strict = False, q_Internal = rq_Internal rq,
      q_MatchInternal = False\<rparr>"

text \<open>A search reserves what it finds. The body of the request is read as it is, not through \<open>request_body\<close>.\<close>

definition search_stubs :: "'m rest_lib \<Rightarrow> rest_request \<Rightarrow> 'm mock_state \<Rightarrow> rest_reply \<times> 'm mock_state" where
  "search_stubs L rq s =
     (case rl_DecodeQuery L (rq_Stream rq) of
        Inl e \<Rightarrow> (reply 500 (Body_Error e), s)
      | Inr j \<Rightarrow>
          (let q = rest_query rq j; q = (if from_request rq \<noteq> '''' then q\<lparr>q_Session := from_request rq\<rparr> else q);
               (res, e) = find_by_query (ml_lib (rl_Mock L)) (ml_runtime (rl_Mock L)) q (ms_engine s); s = s\<lparr>ms_engine := e\<rparr>
           in case res of
                Inl err \<Rightarrow> (reply 404 (Body_Search_Error err), s)
              | Inr x \<Rightarrow>
                  (case res_found x of
                     None \<Rightarrow> (reply 404 (Body_Error (format_stub_not_found (rl_Mock L) q (res_similar x))), s)
                   | Some v \<Rightarrow> (reply 200 (Body_Output (Output v)), s))))"

definition inspect_query_of :: "inspect_request \<Rightarrow> query" where
  "inspect_query_of j =
     \<lparr>q_ID = iq_ID j, q_Service = iq_Service j, q_Method = iq_Method j, q_Session = string_from_ptr (iq_Session j),
      q_Headers = iq_Headers j, q_Input = iq_Input j, q_Strict = False, q_Internal = False, q_MatchInternal = False\<rparr>"

definition inspect_stubs ::
  "'m rest_lib \<Rightarrow> rest_request \<Rightarrow> 'm mock_state \<Rightarrow> (rest_reply \<times> 'm mock_state) option" where
  "inspect_stubs L rq s =
     (case rl_DecodeInspect L (rq_Stream rq) of
        Inl e \<Rightarrow> Some (reply 500 (Body_Error e), s)
      | Inr j \<Rightarrow>
          (let (report, e) = inspect (ml_lib (rl_Mock L)) (ml_runtime (rl_Mock L)) (inspect_query_of j) (ms_engine s)
           in map_option (\<lambda>rep. (reply 200 (Body_Report rep), s\<lparr>ms_engine := e\<rparr>)) report))"

definition rest_find_by_id :: "'m rest_lib \<Rightarrow> uuid \<Rightarrow> 'm mock_state \<Rightarrow> rest_reply" where
  "rest_find_by_id L i s =
     (case find_by_id (ext (ms_engine s)) i of
        None \<Rightarrow> reply 404 (Body_Error (''Stub with ID '' @ quoted (ml_uuid_text (rl_Mock L) i) @ '' not found''))
      | Some v \<Rightarrow> reply 200 (Body_Stub v))"


section \<open>Sessions, history, verification\<close>

definition merged_sessions :: "'m mock_state \<Rightarrow> string list" where
  "merged_sessions s =
     sort (remdups (filter (\<lambda>i. i \<noteq> '''') (budgerigar_sessions (ms_engine s) @ tracked_ids (ms_sessions s))))"

text \<open>A record as the API shows it: what is empty or zero is left out.\<close>

record rest_call =
  rc_StubId :: "uuid option"
  rc_Service :: string
  rc_Method :: string
  rc_Session :: "string option"
  rc_Requests :: "gomap list option"
  rc_Responses :: "gomap list option"
  rc_ResponseHeaders :: "(string \<times> string) list"
  rc_Error :: "string option"
  rc_Code :: "int option"
  rc_ElapsedMs :: "int option"
  rc_Timestamp :: "int option"

definition nil_if_empty :: "string \<Rightarrow> string option" where
  "nil_if_empty s = (if s = '''' then None else Some s)"

definition history_call_record_to_rest :: "call_record \<Rightarrow> rest_call" where
  "history_call_record_to_rest c =
     \<lparr>rc_StubId = (if c_StubID c = 0 then None else Some (c_StubID c)), rc_Service = c_Service c,
      rc_Method = c_Method c, rc_Session = nil_if_empty (c_Session c),
      rc_Requests = (if c_Requests c = [] then None else Some (c_Requests c)),
      rc_Responses = (if c_Responses c = [] then None else Some (c_Responses c)),
      rc_ResponseHeaders = (case c_ResponseHeaders c of None \<Rightarrow> [] | Some h \<Rightarrow> h),
      rc_Error = nil_if_empty (c_Error c),
      rc_Code = (if c_Code c = 0 then None else Some (uint (c_Code c))),
      rc_ElapsedMs = (if c_Timestamp c = 0 then None else Some (c_ElapsedMS c)),
      rc_Timestamp = (if c_Timestamp c = 0 then None else Some (c_Timestamp c))\<rparr>"

text \<open>\<open>enabled\<close> says that the server keeps a history. A page may panic, see \<open>filter_window\<close>.\<close>

definition filter_history_window ::
  "bool \<Rightarrow> filter_opts \<Rightarrow> int \<Rightarrow> int \<Rightarrow> 'm mock_state \<Rightarrow> (rest_call list \<times> nat) option" where
  "filter_history_window enabled opts limit off s =
     (if \<not> enabled then Some ([], 0)
      else map_option (\<lambda>(cs, total). (map history_call_record_to_rest cs, total))
             (history_window True opts limit off (ms_history s)))"

record history_params =
  hp_Service :: "string option"
  hp_Method :: "string option"
  hp_Error :: "bool option"
  hp_Limit :: "int option"
  hp_Offset :: "int option"

definition list_history ::
  "bool \<Rightarrow> rest_request \<Rightarrow> history_params \<Rightarrow> 'm mock_state \<Rightarrow> (nat option \<times> rest_call list) option" where
  "list_history enabled rq p s =
     (if \<not> enabled then Some (None, [])
      else map_option (\<lambda>(cs, total). (Some total, cs))
             (filter_history_window enabled
                \<lparr>fo_Service = string_from_ptr (hp_Service p), fo_Method = string_from_ptr (hp_Method p),
                 fo_Session = from_request rq, fo_ErrorOnly = (hp_Error p = Some True)\<rparr>
                (int_from_ptr (hp_Limit p)) (int_from_ptr (hp_Offset p)) s))"

definition purge_history :: "bool \<Rightarrow> rest_request \<Rightarrow> 'm mock_state \<Rightarrow> rest_reply \<times> 'm mock_state" where
  "purge_history enabled rq s =
     (let session = from_request rq in
      if \<not> enabled then (reply 200 (Body_Purged 0 (nil_if_empty session)), s)
      else (let (n, h) = purge_history_records session (ms_history s)
            in (reply 200 (Body_Purged n (nil_if_empty session)), s\<lparr>ms_history := h\<rparr>)))"

definition count_history_filter :: "filter_opts \<Rightarrow> 'm mock_state \<Rightarrow> nat" where
  "count_history_filter opts s = count_filter opts (ms_history s)"

definition rest_verify_calls :: "'m rest_lib \<Rightarrow> bool \<Rightarrow> rest_request \<Rightarrow> 'm mock_state \<Rightarrow> rest_reply" where
  "rest_verify_calls L enabled rq s =
     (if \<not> enabled then reply 400 (Body_Message ''history is disabled'')
      else case rl_DecodeVerify L (rq_Stream rq) of
             Inl e \<Rightarrow> reply 400 (Body_Error (''invalid verify request: '' @ e))
           | Inr j \<Rightarrow>
               (let actual = int (count_history_filter \<lparr>fo_Service = vq_Service j, fo_Method = vq_Method j,
                                     fo_Session = from_request rq, fo_ErrorOnly = False\<rparr> s)
                in if actual \<noteq> vq_ExpectedCount j then reply 400 (Body_Unverified (vq_ExpectedCount j) actual)
                   else reply 200 (Body_Message ''ok'')))"

section \<open>The dashboard\<close>

text \<open>A service as the API lists it, and how many of its methods some stub could answer; a stub may name the service
  with or without its package.\<close>

record rest_service =
  sv_Id :: string
  sv_Name :: string
  sv_Methods :: "string list"

definition method_covered :: "stub list \<Rightarrow> rest_service \<Rightarrow> string \<Rightarrow> bool" where
  "method_covered vs svc m \<longleftrightarrow>
     list_ex (\<lambda>v. Service v = sv_Id svc \<and> Method v = m) vs \<or> list_ex (\<lambda>v. Service v = sv_Name svc \<and> Method v = m) vs"

definition method_coverage :: "rest_service list \<Rightarrow> stub list \<Rightarrow> nat \<times> nat" where
  "method_coverage services vs =
     fold (\<lambda>svc (covered, total).
       (covered + length (filter (method_covered vs svc) (sv_Methods svc)), total + length (sv_Methods svc))) services (0, 0)"

record dashboard =
  db_TotalServices :: nat
  db_TotalStubs :: nat
  db_UsedStubs :: nat
  db_UnusedStubs :: nat
  db_CoveredMethods :: nat
  db_TotalMethods :: nat
  db_TotalSessions :: nat
  db_TotalHistory :: nat
  db_HistoryErrors :: nat

definition dashboard_payload :: "bool \<Rightarrow> rest_service list \<Rightarrow> rest_request \<Rightarrow> 'm mock_state \<Rightarrow> dashboard" where
  "dashboard_payload enabled services rq s =
     (let vs = all_stubs (ms_engine s); used = used_stubs (ms_engine s);
          (covered, total) = method_coverage services vs;
          opts = no_filter\<lparr>fo_Session := from_request rq\<rparr>
      in \<lparr>db_TotalServices = length services, db_TotalStubs = length vs, db_UsedStubs = length used,
          db_UnusedStubs = length vs - length used, db_CoveredMethods = covered, db_TotalMethods = total,
          db_TotalSessions = length (merged_sessions s),
          db_TotalHistory = (if enabled then count_history_filter opts s else 0),
          db_HistoryErrors = (if enabled then count_history_filter (opts\<lparr>fo_ErrorOnly := True\<rparr>) s else 0)\<rparr>)"

definition readiness :: "bool \<Rightarrow> rest_reply" where
  "readiness ok = (if \<not> ok then reply 503 (Body_Message ''not ready'') else reply 200 (Body_Message ''ok''))"

end
