(* ===== verification/Tools.thy ===== *)
theory Tools
  imports Rest
begin

text \<open>
  The tools for agents, \<^verbatim>\<open>internal/app/rest_mcp.go\<close>, \<^verbatim>\<open>rest_mcp_stubs.go\<close>, \<^verbatim>\<open>rest_mcp_args.go\<close>,
  \<^verbatim>\<open>rest_mcp_tools.go\<close> and \<^verbatim>\<open>rest_mcp_mockcall.go\<close>: arguments are a JSON object; a tool answers, fails with an error
  of the protocol, or panics. Tools that only report descriptors, build data or health are one parameter.
\<close>

section \<open>Errors\<close>

text \<open>The two kinds of \<^verbatim>\<open>kindError\<close> the tools use, with the message.\<close>

datatype mcp_error = Invalid_Argument string | Tool_Not_Found string

definition mcp_required_arg_error :: "string \<Rightarrow> mcp_error" where
  "mcp_required_arg_error key = Invalid_Argument (key @ '' is required'')"

definition mcp_string_list_arg_error :: "string \<Rightarrow> mcp_error" where
  "mcp_string_list_arg_error key = Invalid_Argument (key @ '' must be a non-empty array of strings'')"

definition mcp_uuid_arg_error :: "string \<Rightarrow> string \<Rightarrow> mcp_error" where
  "mcp_uuid_arg_error key value =
     Invalid_Argument (key @ '' must be a UUID'' @ (if value \<noteq> '''' then '': '' @ value else ''''))"

definition mcp_stub_payload_arg_error :: "string \<Rightarrow> mcp_error" where
  "mcp_stub_payload_arg_error e = Invalid_Argument (''invalid stubs payload: '' @ e)"

definition mcp_unknown_tool :: "string \<Rightarrow> mcp_error" where
  "mcp_unknown_tool name = Tool_Not_Found (''unknown tool: '' @ name)"

text \<open>The code of JSON-RPC: invalid parameters or method not found.\<close>

definition mcp_jsonrpc_code :: "mcp_error \<Rightarrow> int" where
  "mcp_jsonrpc_code e = (case e of Invalid_Argument _ \<Rightarrow> - 32602 | Tool_Not_Found _ \<Rightarrow> - 32601)"

section \<open>Arguments\<close>

text \<open>An argument that is absent or \<open>null\<close> is not given.\<close>

definition given_arg :: "gmap \<Rightarrow> string \<Rightarrow> gvalue option" where
  "given_arg args key = (case map_of args key of None \<Rightarrow> None | Some v \<Rightarrow> if v = VNil then None else Some v)"

definition string_arg :: "gmap \<Rightarrow> string \<Rightarrow> string" where
  "string_arg args key = (case map_of args key of Some (VString s) \<Rightarrow> s | _ \<Rightarrow> '''')"

definition required_string_arg :: "gmap \<Rightarrow> string \<Rightarrow> mcp_error + string" where
  "required_string_arg args key =
     (if string_arg args key = '''' then Inl (mcp_required_arg_error key) else Inr (string_arg args key))"

definition mcp_uuid_arg :: "'m rest_lib \<Rightarrow> gmap \<Rightarrow> string \<Rightarrow> mcp_error + uuid" where
  "mcp_uuid_arg L args key =
     r_bind (required_string_arg args key) (\<lambda>value.
       case ml_parse_uuid (rl_Mock L) value of None \<Rightarrow> Inl (mcp_uuid_arg_error key value) | Some i \<Rightarrow> Inr i)"

fun any_strings :: "gvalue list \<Rightarrow> string list option" where
  "any_strings [] = Some []"
| "any_strings (VString s # vs) = (if s = '''' then None else map_option ((#) s) (any_strings vs))"
| "any_strings (_ # vs) = None"

definition mcp_string_slice_arg :: "gmap \<Rightarrow> string \<Rightarrow> mcp_error + string list" where
  "mcp_string_slice_arg args key =
     (case given_arg args key of
        None \<Rightarrow> Inl (mcp_required_arg_error key)
      | Some (VList vs) \<Rightarrow>
          if vs = [] then Inl (Invalid_Argument (key @ '' cannot be empty''))
          else (case any_strings vs of None \<Rightarrow> Inl (mcp_string_list_arg_error key) | Some ss \<Rightarrow> Inr ss)
      | Some _ \<Rightarrow> Inl (mcp_string_list_arg_error key))"

text \<open>A float is accepted when it equals its conversion to a 64-bit integer.\<close>

fun non_negative_int :: "gvalue \<Rightarrow> int option" where
  "non_negative_int (VNumber s) =
     (case parse_int64 s of None \<Rightarrow> None | Some n \<Rightarrow> if 0 \<le> n then Some n else None)"
| "non_negative_int (VFloat x) = (if 0 \<le> x \<and> x < 2 ^ 63 \<and> x = of_int \<lfloor>x\<rfloor> then Some \<lfloor>x\<rfloor> else None)"
| "non_negative_int (VInt n) = (if 0 \<le> n then Some n else None)"
| "non_negative_int _ = None"

definition mcp_int_arg :: "gmap \<Rightarrow> string \<Rightarrow> int \<Rightarrow> mcp_error + int" where
  "mcp_int_arg args key default_value =
     (case given_arg args key of
        None \<Rightarrow> Inr default_value
      | Some raw \<Rightarrow>
          (case non_negative_int raw of
             None \<Rightarrow> Inl (Invalid_Argument (key @ '' must be a non-negative integer''))
           | Some n \<Rightarrow> Inr n))"

fun any_maps :: "gvalue list \<Rightarrow> gmap list option" where
  "any_maps [] = Some []"
| "any_maps (VMap m # vs) = map_option ((#) m) (any_maps vs)"
| "any_maps (_ # vs) = None"

definition parse_mcp_input_arg :: "gvalue \<Rightarrow> mcp_error + gmap list" where
  "parse_mcp_input_arg raw =
     (case raw of
        VList vs \<Rightarrow>
          if vs = [] then Inl (Invalid_Argument ''input cannot be empty'')
          else (case any_maps vs of
                  None \<Rightarrow> Inl (Invalid_Argument ''input must contain JSON objects'') | Some ms \<Rightarrow> Inr ms)
      | _ \<Rightarrow> Inl (Invalid_Argument ''input must be an array''))"

definition mcp_search_input :: "gmap \<Rightarrow> mcp_error + gmap list" where
  "mcp_search_input args =
     (case given_arg args ''input'' of
        Some raw \<Rightarrow> parse_mcp_input_arg raw
      | None \<Rightarrow>
          (case map_of args ''payload'' of
             Some (VMap m) \<Rightarrow> Inr [m] | _ \<Rightarrow> Inl (mcp_required_arg_error ''payload'')))"

definition mcp_headers_arg :: "gmap \<Rightarrow> mcp_error + gmap" where
  "mcp_headers_arg args =
     (case given_arg args ''headers'' of
        None \<Rightarrow> Inr []
      | Some (VMap m) \<Rightarrow> Inr m
      | Some _ \<Rightarrow> Inl (Invalid_Argument ''headers must be an object''))"

text \<open>The session of the transport is added where a tool uses sessions and the caller did not say one, not even an
  empty one.\<close>

definition session_tools :: "string list" where
  "session_tools =
     [''dashboard_full'', ''dashboard_overview'', ''dashboard_info'', ''history_list'', ''history_errors'',
      ''history_purge'', ''verify_calls'', ''debug_call'', ''stubs_upsert'', ''stubs_validate'', ''stubs_list'',
      ''stubs_purge'', ''stubs_search'', ''stubs_inspect'', ''stubs_used'', ''stubs_unused'', ''mock_call'']"

definition tool_uses_session :: "string \<Rightarrow> bool" where
  "tool_uses_session name \<longleftrightarrow> name \<in> set session_tools"

definition apply_session :: "string \<Rightarrow> gmap \<Rightarrow> string \<Rightarrow> gmap" where
  "apply_session name args session =
     (if \<not> tool_uses_session name then args
      else if map_of args ''session'' \<noteq> None then args
      else if session \<noteq> '''' then m_put ''session'' (VString session) args
      else args)"

section \<open>Answers\<close>

text \<open>One constructor for each shape of an answer; a mocked call answers with a map.\<close>

datatype mcp_reply =
    Upserted_IDs "string list"
  | Valid_Stubs "gmap list"
  | Stub_Page "(stub \<times> bool) list" nat
  | Stub_Found stub
  | Stub_Missing uuid
  | Stub_Deleted bool uuid
  | Batch_Deleted "string list" "string list"
  | Purged_Stubs nat "string option"
  | Search_Matched uuid stub_output
  | Search_Missed "uuid option"
  | Search_Failed search_error
  | Inspected inspect_report
  | Mock_Response gmap
  | Call_Records "rest_call list" "nat option"
  | Purged_History nat "string option"
  | Verified bool int int
  | Session_Names "string list"
  | Debug_Call bool bool nat "stub list" "rest_call list" "rest_call list" "string list"
  | Other_Reply gmap

datatype tool_outcome = Tool_Panics | Tool_Fails mcp_error | Tool_Returns mcp_reply

definition tool_result :: "mcp_error + mcp_reply \<Rightarrow> tool_outcome" where
  "tool_result r = (case r of Inl e \<Rightarrow> Tool_Fails e | Inr x \<Rightarrow> Tool_Returns x)"

section \<open>Stubs\<close>

definition decode_mcp_stubs_arg :: "'m rest_lib \<Rightarrow> gvalue \<Rightarrow> mcp_error + stub option list" where
  "decode_mcp_stubs_arg L raw =
     (case rl_Marshal L raw of
        Inl e \<Rightarrow> Inl (mcp_stub_payload_arg_error e)
      | Inr payload \<Rightarrow>
          (case unmarshal_slice (rl_DecodeStubs L) payload of
             Inl e \<Rightarrow> Inl (mcp_stub_payload_arg_error e)
           | Inr items \<Rightarrow>
               if items = [] then Inl (Invalid_Argument ''stubs cannot be empty'') else Inr items))"

definition decode_and_validate_mcp_stubs :: "'m rest_lib \<Rightarrow> gmap \<Rightarrow> mcp_error + stub list prepared" where
  "decode_and_validate_mcp_stubs L args =
     (case given_arg args ''stubs'' of
        None \<Rightarrow> Inl (mcp_required_arg_error ''stubs'')
      | Some raw \<Rightarrow>
          r_map (prepare_stubs L (\<lambda>v. v\<lparr>Session := string_arg args ''session''\<rparr>)) (decode_mcp_stubs_arg L raw))"

definition mcp_stubs_upsert :: "'m rest_lib \<Rightarrow> gmap \<Rightarrow> 'm mock_state \<Rightarrow> tool_outcome \<times> 'm mock_state" where
  "mcp_stubs_upsert L args s =
     (case decode_and_validate_mcp_stubs L args of
        Inl e \<Rightarrow> (Tool_Fails e, s)
      | Inr Panicked \<Rightarrow> (Tool_Panics, s)
      | Inr (Rejected e) \<Rightarrow> (Tool_Fails (Invalid_Argument e), s)
      | Inr (Accepted vs) \<Rightarrow>
          (let (ids, s) = engine_put L vs s
           in (Tool_Returns (Upserted_IDs (map (ml_uuid_text (rl_Mock L)) ids)), s)))"

definition normalize_mcp_stubs :: "'m rest_lib \<Rightarrow> stub list \<Rightarrow> mcp_error + gmap list" where
  "normalize_mcp_stubs L vs =
     (case rl_Normalize L (map Some vs) of
        Inl e \<Rightarrow> Inl (mcp_stub_payload_arg_error e) | Inr ms \<Rightarrow> Inr (map (without_zero_id L) ms))"

definition mcp_stubs_validate :: "'m rest_lib \<Rightarrow> gmap \<Rightarrow> tool_outcome" where
  "mcp_stubs_validate L args =
     (case decode_and_validate_mcp_stubs L args of
        Inl e \<Rightarrow> Tool_Fails e
      | Inr Panicked \<Rightarrow> Tool_Panics
      | Inr (Rejected e) \<Rightarrow> Tool_Fails (Invalid_Argument e)
      | Inr (Accepted vs) \<Rightarrow> tool_result (r_map Valid_Stubs (normalize_mcp_stubs L vs)))"

text \<open>The visibility of a stub in a listing: only global stubs are seen from outside the sessions.\<close>

definition stub_visible_for_session :: "string \<Rightarrow> string \<Rightarrow> bool" where
  "stub_visible_for_session stub_session query_session =
     (if query_session = '''' then stub_session = '''' else stub_session = '''' \<or> stub_session = query_session)"

record mcp_stub_list_filter =
  mf_service :: string
  mf_method :: string
  mf_session :: string
  mf_source :: string
  mf_query :: string

definition mcp_stub_matches_query :: "'m rest_lib \<Rightarrow> stub \<Rightarrow> string \<Rightarrow> bool" where
  "mcp_stub_matches_query L v query =
     (let q = str_lower query
      in str_contains (str_lower (Service v)) q \<or> str_contains (str_lower (Method v)) q \<or>
         str_contains (str_lower (ml_uuid_text (rl_Mock L) (ID v))) q)"

definition mcp_stub_matches_filters :: "'m rest_lib \<Rightarrow> mcp_stub_list_filter \<Rightarrow> stub \<Rightarrow> bool" where
  "mcp_stub_matches_filters L f v =
     (if mf_service f \<noteq> '''' \<and> Service v \<noteq> mf_service f then False
      else if mf_method f \<noteq> '''' \<and> Method v \<noteq> mf_method f then False
      else if mf_source f \<noteq> '''' \<and> Source v \<noteq> mf_source f then False
      else if mf_query f \<noteq> '''' \<and> \<not> mcp_stub_matches_query L v (mf_query f) then False
      else stub_visible_for_session (Session v) (mf_session f))"

definition mcp_filter_of :: "gmap \<Rightarrow> mcp_stub_list_filter" where
  "mcp_filter_of args =
     \<lparr>mf_service = string_arg args ''service'', mf_method = string_arg args ''method'',
      mf_session = string_arg args ''session'', mf_source = string_arg args ''source'', mf_query = string_arg args ''q''\<rparr>"

definition list_mcp_stubs :: "'m rest_lib \<Rightarrow> stub list \<Rightarrow> gmap \<Rightarrow> mcp_error + stub list \<times> nat" where
  "list_mcp_stubs L vs args =
     r_bind (mcp_int_arg args ''limit'' 0) (\<lambda>limit.
     r_bind (mcp_int_arg args ''offset'' 0) (\<lambda>off.
       let filtered = sort_listed (string_arg args ''sort'') (filter (mcp_stub_matches_filters L (mcp_filter_of args)) vs);
           total = length filtered
       in if int (length filtered) \<le> off then Inr ([], total)
          else let filtered = drop (nat off) filtered
               in Inr (if 0 < limit \<and> limit < int (length filtered) then take (nat limit) filtered else filtered, total)))"

definition mcp_stubs_list_response :: "'m rest_lib \<Rightarrow> stub list \<Rightarrow> gmap \<Rightarrow> 'm mock_state \<Rightarrow> tool_outcome" where
  "mcp_stubs_list_response L vs args s =
     tool_result (r_map (\<lambda>(page, total). Stub_Page (decorate_stubs_used page s) total) (list_mcp_stubs L vs args))"

definition mcp_stubs_get :: "'m rest_lib \<Rightarrow> gmap \<Rightarrow> 'm mock_state \<Rightarrow> tool_outcome" where
  "mcp_stubs_get L args s =
     tool_result (r_map (\<lambda>i. case find_by_id (ext (ms_engine s)) i of None \<Rightarrow> Stub_Missing i | Some v \<Rightarrow> Stub_Found v)
       (mcp_uuid_arg L args ''id''))"

definition mcp_stubs_delete :: "'m rest_lib \<Rightarrow> gmap \<Rightarrow> 'm mock_state \<Rightarrow> tool_outcome \<times> 'm mock_state" where
  "mcp_stubs_delete L args s =
     (case mcp_uuid_arg L args ''id'' of
        Inl e \<Rightarrow> (Tool_Fails e, s)
      | Inr i \<Rightarrow> (let (n, s) = engine_delete L [i] s in (Tool_Returns (Stub_Deleted (0 < n) i), s)))"

text \<open>All IDs are parsed, and each is looked up, before the first stub is deleted.\<close>

fun classify_ids ::
  "'m rest_lib \<Rightarrow> 'm mock_state \<Rightarrow> string list \<Rightarrow> mcp_error + (uuid list \<times> string list \<times> string list)" where
  "classify_ids L s [] = Inr ([], [], [])"
| "classify_ids L s (t # ts) =
     (case ml_parse_uuid (rl_Mock L) t of
        None \<Rightarrow> Inl (mcp_uuid_arg_error ''ids'' t)
      | Some i \<Rightarrow>
          r_map (\<lambda>(ids, deleted, missing).
              if find_by_id (ext (ms_engine s)) i = None then (i # ids, deleted, t # missing)
              else (i # ids, t # deleted, missing))
            (classify_ids L s ts))"

definition mcp_stubs_batch_delete :: "'m rest_lib \<Rightarrow> gmap \<Rightarrow> 'm mock_state \<Rightarrow> tool_outcome \<times> 'm mock_state" where
  "mcp_stubs_batch_delete L args s =
     (case r_bind (mcp_string_slice_arg args ''ids'') (classify_ids L s) of
        Inl e \<Rightarrow> (Tool_Fails e, s)
      | Inr (ids, deleted, missing) \<Rightarrow>
          (Tool_Returns (Batch_Deleted deleted missing), if ids \<noteq> [] then snd (engine_delete L ids s) else s))"

definition mcp_stubs_purge :: "'m rest_lib \<Rightarrow> gmap \<Rightarrow> 'm mock_state \<Rightarrow> tool_outcome \<times> 'm mock_state" where
  "mcp_stubs_purge L args s =
     (let session = string_arg args ''session'' in
      if session \<noteq> '''' then
        (let (n, s) = engine_delete_session L session s in (Tool_Returns (Purged_Stubs n (Some session)), s))
      else (Tool_Returns (Purged_Stubs (length (all_stubs (ms_engine s))) None),
            s\<lparr>ms_engine := budgerigar_clear (ms_engine s)\<rparr>))"


section \<open>Searching and inspecting\<close>

text \<open>What a search and a mocked call have in common: the query of their arguments.\<close>

definition mcp_search_query :: "gmap \<Rightarrow> mcp_error + query" where
  "mcp_search_query args =
     r_bind (required_string_arg args ''service'') (\<lambda>service.
     r_bind (required_string_arg args ''method'') (\<lambda>m.
     r_bind (mcp_search_input args) (\<lambda>input.
     r_map (\<lambda>headers.
         \<lparr>q_ID = None, q_Service = service, q_Method = m, q_Session = string_arg args ''session'',
          q_Headers = headers, q_Input = input, q_Strict = False, q_Internal = False, q_MatchInternal = False\<rparr>)
       (mcp_headers_arg args))))"

definition engine_search ::
  "'m rest_lib \<Rightarrow> query \<Rightarrow> 'm mock_state \<Rightarrow> (search_error + search_result) \<times> 'm mock_state" where
  "engine_search L q s =
     (let (res, e) = find_by_query (ml_lib (rl_Mock L)) (ml_runtime (rl_Mock L)) q (ms_engine s)
      in (res, s\<lparr>ms_engine := e\<rparr>))"

definition mcp_stubs_search :: "'m rest_lib \<Rightarrow> gmap \<Rightarrow> 'm mock_state \<Rightarrow> tool_outcome \<times> 'm mock_state" where
  "mcp_stubs_search L args s =
     (case mcp_search_query args of
        Inl e \<Rightarrow> (Tool_Fails e, s)
      | Inr q \<Rightarrow>
          (case engine_search L q s of
             (Inl err, s) \<Rightarrow> (Tool_Returns (Search_Failed err), s)
           | (Inr x, s) \<Rightarrow>
               (case res_found x of
                  None \<Rightarrow> (Tool_Returns (Search_Missed (map_option ID (res_similar x))), s)
                | Some v \<Rightarrow> (Tool_Returns (Search_Matched (ID v) (Output v)), s))))"

definition mcp_inspect_query :: "'m rest_lib \<Rightarrow> gmap \<Rightarrow> mcp_error + query" where
  "mcp_inspect_query L args =
     r_bind (required_string_arg args ''service'') (\<lambda>service.
     r_bind (required_string_arg args ''method'') (\<lambda>m.
     r_bind (case given_arg args ''id'' of None \<Rightarrow> Inr None | Some _ \<Rightarrow> r_map Some (mcp_uuid_arg L args ''id'')) (\<lambda>i.
     r_bind (mcp_headers_arg args) (\<lambda>headers.
     r_map (\<lambda>input.
         \<lparr>q_ID = i, q_Service = service, q_Method = m, q_Session = string_arg args ''session'', q_Headers = headers,
          q_Input = input, q_Strict = False, q_Internal = False, q_MatchInternal = False\<rparr>)
       (case given_arg args ''input'' of None \<Rightarrow> Inr [] | Some raw \<Rightarrow> parse_mcp_input_arg raw)))))"

definition mcp_stubs_inspect :: "'m rest_lib \<Rightarrow> gmap \<Rightarrow> 'm mock_state \<Rightarrow> tool_outcome \<times> 'm mock_state" where
  "mcp_stubs_inspect L args s =
     (case mcp_inspect_query L args of
        Inl e \<Rightarrow> (Tool_Fails e, s)
      | Inr q \<Rightarrow>
          (let (report, e) = inspect (ml_lib (rl_Mock L)) (ml_runtime (rl_Mock L)) q (ms_engine s)
           in (case report of None \<Rightarrow> Tool_Panics | Some rep \<Rightarrow> Tool_Returns (Inspected rep), s\<lparr>ms_engine := e\<rparr>)))"

section \<open>A mocked call\<close>

definition code_names :: "string list" where
  "code_names =
     [''OK'', ''Canceled'', ''Unknown'', ''InvalidArgument'', ''DeadlineExceeded'', ''NotFound'', ''AlreadyExists'',
      ''PermissionDenied'', ''ResourceExhausted'', ''FailedPrecondition'', ''Aborted'', ''OutOfRange'',
      ''Unimplemented'', ''Internal'', ''Unavailable'', ''DataLoss'', ''Unauthenticated'']"

definition code_name :: "32 word \<Rightarrow> string" where
  "code_name c =
     (if unat c < length code_names then code_names ! unat c else ''Code('' @ fmt_nat (unat c) @ '')'')"

text \<open>The templates of the data, headers, trailers and error, in this order. Data that are not a map stay as they are.\<close>

definition mock_rendered :: "'m mock_lib \<Rightarrow> template_data \<Rightarrow> stub_output \<Rightarrow> template_error + stub_output" where
  "mock_rendered L td out =
     r_bind (case Data out of VMap m \<Rightarrow> r_map VMap (process_map (ml_render L td) m) | v \<Rightarrow> Inr v) (\<lambda>data.
     r_bind (if has_templates_in_headers (OutHeaders out) then process_headers (ml_render L td) (OutHeaders out)
             else Inr (OutHeaders out)) (\<lambda>headers.
     r_bind (if has_templates_in_headers (Trailers out) then process_headers (ml_render L td) (Trailers out)
             else Inr (Trailers out)) (\<lambda>trailers.
     r_map (\<lambda>err. out\<lparr>Data := data, OutHeaders := headers, Trailers := trailers, Error := err\<rparr>)
       (if Error out \<noteq> '''' \<and> is_template_string (Error out) then process_error (ml_render L td) (Error out)
        else Inr (Error out)))))"

definition strings_value :: "(string \<times> string) list \<Rightarrow> gvalue" where
  "strings_value h = VMap (map (\<lambda>(k, v). (k, VString v)) h)"

definition mock_response :: "'m mock_lib \<Rightarrow> uuid \<Rightarrow> 32 word \<Rightarrow> string \<Rightarrow> int \<Rightarrow> stub_output \<Rightarrow> gmap" where
  "mock_response L i code msg wait out =
     [(''matched'', VBool True), (''stubId'', VString (ml_uuid_text L i)), (''code'', VUint32 (uint code)),
      (''codeName'', VString (code_name code))] @
     (if msg = '''' then (if Data out \<noteq> VNil then [(''data'', Data out)] else [])
      else (''error'', VString msg) #
           (if Details out \<noteq> [] then [(''details'', VList (map VMap (Details out)))] else [])) @
     (if OutHeaders out \<noteq> [] then [(''headers'', strings_value (OutHeaders out))] else []) @
     (if Trailers out \<noteq> [] then [(''trailers'', strings_value (Trailers out))] else []) @
     (if 0 < wait then [(''delayMs'', VInt64 (wait div 1000000))] else [])"

text \<open>The record of the call has no headers and no duration; data that are not a map are not recorded.\<close>

definition record_mock_call ::
  "'m rest_lib \<Rightarrow> bool \<Rightarrow> stub \<Rightarrow> query \<Rightarrow> gvalue \<Rightarrow> 32 word \<Rightarrow> string \<Rightarrow> int \<Rightarrow> 'm mock_state \<Rightarrow> 'm mock_state" where
  "record_mock_call L enabled v q data code msg ts s =
     (if \<not> enabled then s
      else s\<lparr>ms_history := record_owned (ml_json_len (rl_Mock L))
             \<lparr>c_StubID = ID v, c_Service = q_Service q, c_Method = q_Method q, c_Session = q_Session q,
              c_Requests = map Some (q_Input q),
              c_Responses = (case data of VMap m \<Rightarrow> [Some m] | _ \<Rightarrow> []),
              c_ResponseHeaders = None, c_Code = code, c_Error = msg, c_ElapsedMS = 0, c_Timestamp = ts\<rparr> (ms_history s)\<rparr>)"

definition mock_template_error ::
  "'m rest_lib \<Rightarrow> bool \<Rightarrow> stub \<Rightarrow> query \<Rightarrow> int \<Rightarrow> template_error \<Rightarrow> 'm mock_state \<Rightarrow> gmap \<times> 'm mock_state" where
  "mock_template_error L enabled v q ts e s =
     (let msg = ''failed to process templates: '' @ template_error_text e
      in ([(''matched'', VBool True), (''stubId'', VString (ml_uuid_text (rl_Mock L) (ID v))),
           (''code'', VUint32 (uint code_Internal)), (''codeName'', VString (code_name code_Internal)),
           (''error'', VString msg)],
          record_mock_call L enabled v q VNil code_Internal msg ts s))"

definition mcp_render_mock_response ::
  "'m rest_lib \<Rightarrow> bool \<Rightarrow> stub \<Rightarrow> query \<Rightarrow> int \<Rightarrow> 'm mock_state \<Rightarrow> gmap \<times> 'm mock_state" where
  "mcp_render_mock_response L enabled v q n s =
     (let ts = ms_now s;
          first = (case q_Input q of [] \<Rightarrow> None | m # _ \<Rightarrow> Some m);
          td = new_template_data (ml_uuid_text (rl_Mock L)) first (q_Headers q) 0 ts (map VMap (q_Input q)) v n
      in case mock_rendered (rl_Mock L) td (Output v) of
           Inl e \<Rightarrow> mock_template_error L enabled v q ts e s
         | Inr out \<Rightarrow>
             (let (code, msg) = (case output_status_base out of
                                   None \<Rightarrow> (code_OK, '''') | Some st \<Rightarrow> (err_Code st, err_Text st));
                  wait = (case resolve_delay (rl_Mock L) (Delay (Output v)) td of Inl _ \<Rightarrow> 0 | Inr d \<Rightarrow> d);
                  s = record_mock_call L enabled v q (if msg = '''' then Data out else VNil) code msg ts s
              in (mock_response (rl_Mock L) (ID v) code msg wait out, mock_effects (rl_Mock L) v td s)))"

definition mcp_mock_call :: "'m rest_lib \<Rightarrow> bool \<Rightarrow> gmap \<Rightarrow> 'm mock_state \<Rightarrow> tool_outcome \<times> 'm mock_state" where
  "mcp_mock_call L enabled args s =
     (case mcp_search_query args of
        Inl e \<Rightarrow> (Tool_Fails e, s)
      | Inr q \<Rightarrow>
          (case engine_search L q s of
             (Inl err, s) \<Rightarrow> (Tool_Returns (Search_Failed err), s)
           | (Inr x, s) \<Rightarrow>
               (case res_found x of
                  None \<Rightarrow> (Tool_Returns (Search_Missed (map_option ID (res_similar x))), s)
                | Some v \<Rightarrow>
                    (let (r, s) = mcp_render_mock_response L enabled v q (res_matchNumber x) s
                     in (Tool_Returns (Mock_Response r), s)))))"

section \<open>History\<close>

definition mcp_filter_opts :: "gmap \<Rightarrow> filter_opts" where
  "mcp_filter_opts args =
     no_filter\<lparr>fo_Service := string_arg args ''service'', fo_Method := string_arg args ''method'',
       fo_Session := string_arg args ''session''\<rparr>"

definition outcome_of_page :: "(mcp_reply option) \<Rightarrow> tool_outcome" where
  "outcome_of_page p = (case p of None \<Rightarrow> Tool_Panics | Some r \<Rightarrow> Tool_Returns r)"

definition mcp_history_list :: "bool \<Rightarrow> gmap \<Rightarrow> 'm mock_state \<Rightarrow> tool_outcome" where
  "mcp_history_list enabled args s =
     (case r_bind (mcp_int_arg args ''limit'' 0) (\<lambda>l. r_map (Pair l) (mcp_int_arg args ''offset'' 0)) of
        Inl e \<Rightarrow> Tool_Fails e
      | Inr (l, off) \<Rightarrow>
          outcome_of_page (map_option (\<lambda>(cs, total). Call_Records cs (Some total))
            (filter_history_window enabled (mcp_filter_opts args) l off s)))"

definition extract_error_records :: "rest_call list \<Rightarrow> rest_call list" where
  "extract_error_records cs = filter (\<lambda>c. rc_Error c \<noteq> None \<and> rc_Error c \<noteq> Some '''') cs"

text \<open>The newest errors.\<close>

definition mcp_history_errors :: "bool \<Rightarrow> gmap \<Rightarrow> 'm mock_state \<Rightarrow> tool_outcome" where
  "mcp_history_errors enabled args s =
     (case mcp_int_arg args ''limit'' 0 of
        Inl e \<Rightarrow> Tool_Fails e
      | Inr l \<Rightarrow>
          outcome_of_page (map_option (\<lambda>(cs, _).
              let errs = extract_error_records cs
              in Call_Records (if 0 < l \<and> l < int (length errs) then drop (length errs - nat l) errs else errs) None)
            (filter_history_window enabled (no_filter\<lparr>fo_Session := string_arg args ''session''\<rparr>) 0 0 s)))"

definition mcp_history_purge :: "bool \<Rightarrow> gmap \<Rightarrow> 'm mock_state \<Rightarrow> tool_outcome \<times> 'm mock_state" where
  "mcp_history_purge enabled args s =
     (let session = string_arg args ''session'' in
      if \<not> enabled then (Tool_Returns (Purged_History 0 None), s)
      else (let (n, h) = purge_history_records session (ms_history s)
            in (Tool_Returns (Purged_History n (nil_if_empty session)), s\<lparr>ms_history := h\<rparr>)))"

definition mcp_verify_calls :: "bool \<Rightarrow> gmap \<Rightarrow> 'm mock_state \<Rightarrow> tool_outcome" where
  "mcp_verify_calls enabled args s =
     tool_result
       (r_bind (required_string_arg args ''service'') (\<lambda>service.
        r_bind (required_string_arg args ''method'') (\<lambda>m.
        r_bind (mcp_int_arg args ''expectedCount'' (- 1)) (\<lambda>expected.
          if expected < 0 then Inl (mcp_required_arg_error ''expectedCount'')
          else if \<not> enabled then Inr (Verified False expected 0)
          else (let actual = int (count_history_filter (mcp_filter_opts args) s)
                in Inr (Verified (actual = expected) expected actual))))))"

section \<open>Debugging a call\<close>

definition lookup_service_and_method :: "rest_service list \<Rightarrow> string \<Rightarrow> string \<Rightarrow> bool \<times> bool" where
  "lookup_service_and_method services service m =
     (case List.find (\<lambda>svc. sv_Id svc = service) services of
        None \<Rightarrow> (False, False)
      | Some svc \<Rightarrow> (True, m = '''' \<or> m \<in> set (sv_Methods svc)))"

definition collect_debug_stubs :: "string \<Rightarrow> string \<Rightarrow> string \<Rightarrow> int \<Rightarrow> stub list \<Rightarrow> nat \<times> stub list" where
  "collect_debug_stubs service m session limit vs =
     (let ws = filter (\<lambda>v. Service v = service \<and> stub_visible_for_session (Session v) session \<and>
                 (m = '''' \<or> Method v = m)) vs
      in (length ws, if 0 < limit then take (nat limit) ws else ws))"

definition build_debug_hints :: "bool \<Rightarrow> bool \<Rightarrow> bool \<Rightarrow> string \<Rightarrow> nat \<Rightarrow> string list" where
  "build_debug_hints enabled service_found method_found m stub_count =
     (if \<not> service_found then [''Service is not registered. Add descriptors first (MCP descriptors.add).''] else []) @
     (if service_found \<and> m \<noteq> '''' \<and> \<not> method_found then [''Method is not found in service descriptor.''] else []) @
     (if service_found \<and> method_found \<and> stub_count = 0
      then [''No stubs found for this service/method. Add one via /api/stubs.''] else []) @
     (if \<not> enabled then [''History is disabled; enable HISTORY_ENABLED=true to inspect call traces.''] else [])"

definition debug_call_default_limit :: int where
  "debug_call_default_limit = 20"

definition mcp_debug_call :: "bool \<Rightarrow> rest_service list \<Rightarrow> gmap \<Rightarrow> 'm mock_state \<Rightarrow> tool_outcome" where
  "mcp_debug_call enabled services args s =
     (case r_bind (required_string_arg args ''service'') (\<lambda>service.
           r_bind (mcp_int_arg args ''limit'' debug_call_default_limit) (\<lambda>l.
           r_map (\<lambda>sl. (service, l, sl)) (mcp_int_arg args ''stubsLimit'' debug_call_default_limit))) of
        Inl e \<Rightarrow> Tool_Fails e
      | Inr (service, l, sl) \<Rightarrow>
          (let m = string_arg args ''method''; session = string_arg args ''session'';
               (service_found, method_found) = lookup_service_and_method services service m;
               (stub_count, vs) = collect_debug_stubs service m session sl (all_stubs (ms_engine s))
           in outcome_of_page (map_option (\<lambda>(cs, _).
                Debug_Call service_found method_found stub_count vs cs (extract_error_records cs)
                  (build_debug_hints enabled service_found method_found m stub_count))
                (filter_history_window enabled (mcp_filter_opts args) l 0 s))))"

section \<open>Dispatch\<close>

text \<open>What the server is configured with: whether it keeps a history, the services it knows, and what the tools that
  report descriptors, build data and health answer; those read and write the registries of descriptors only.\<close>

record rest_config =
  rs_History :: bool
  rs_Services :: "rest_service list"
  rs_Other :: "(string \<times> (gmap \<Rightarrow> mcp_error + gmap)) list"

text \<open>The tools that may change what the server holds, and those that only read it.\<close>

definition writing_tools ::
  "'m rest_lib \<Rightarrow> rest_config \<Rightarrow> (string \<times> (gmap \<Rightarrow> 'm mock_state \<Rightarrow> tool_outcome \<times> 'm mock_state)) list" where
  "writing_tools L cfg =
     [(''stubs_upsert'', mcp_stubs_upsert L), (''stubs_delete'', mcp_stubs_delete L),
      (''stubs_batch_delete'', mcp_stubs_batch_delete L), (''stubs_purge'', mcp_stubs_purge L),
      (''stubs_search'', mcp_stubs_search L), (''stubs_inspect'', mcp_stubs_inspect L),
      (''mock_call'', mcp_mock_call L (rs_History cfg)), (''history_purge'', mcp_history_purge (rs_History cfg))]"

definition reading_tools ::
  "'m rest_lib \<Rightarrow> rest_config \<Rightarrow> (string \<times> (gmap \<Rightarrow> 'm mock_state \<Rightarrow> tool_outcome)) list" where
  "reading_tools L cfg =
     [(''stubs_validate'', \<lambda>args s. mcp_stubs_validate L args),
      (''stubs_list'', \<lambda>args s. mcp_stubs_list_response L (all_stubs (ms_engine s)) args s),
      (''stubs_used'', \<lambda>args s. mcp_stubs_list_response L (used_stubs (ms_engine s)) args s),
      (''stubs_unused'', \<lambda>args s. mcp_stubs_list_response L (unused_stubs (ms_engine s)) args s),
      (''stubs_get'', mcp_stubs_get L),
      (''history_list'', mcp_history_list (rs_History cfg)),
      (''history_errors'', mcp_history_errors (rs_History cfg)),
      (''verify_calls'', mcp_verify_calls (rs_History cfg)),
      (''debug_call'', mcp_debug_call (rs_History cfg) (rs_Services cfg)),
      (''sessions_list'', \<lambda>args s. Tool_Returns (Session_Names (budgerigar_sessions (ms_engine s))))] @
     map (\<lambda>(n, f). (n, \<lambda>args s. tool_result (r_map Other_Reply (f args)))) (rs_Other cfg)"

definition mcp_tool_handler ::
  "'m rest_lib \<Rightarrow> rest_config \<Rightarrow> string \<Rightarrow> (gmap \<Rightarrow> 'm mock_state \<Rightarrow> tool_outcome \<times> 'm mock_state) option" where
  "mcp_tool_handler L cfg name =
     (case map_of (writing_tools L cfg) name of
        Some handler \<Rightarrow> Some handler
      | None \<Rightarrow> map_option (\<lambda>f args s. (f args s, s)) (map_of (reading_tools L cfg) name))"

text \<open>A call of a tool: the arguments decoded from the request, or nothing where they are not an object.\<close>

definition call_mcp_tool ::
  "'m rest_lib \<Rightarrow> rest_config \<Rightarrow> string \<Rightarrow> gmap option \<Rightarrow> string \<Rightarrow> 'm mock_state \<Rightarrow> tool_outcome \<times> 'm mock_state" where
  "call_mcp_tool L cfg name args session s =
     (case args of
        None \<Rightarrow> (Tool_Fails (Invalid_Argument ''arguments must be an object''), s)
      | Some args \<Rightarrow>
          (case mcp_tool_handler L cfg name of
             None \<Rightarrow> (Tool_Fails (mcp_unknown_tool name), s)
           | Some handler \<Rightarrow> handler (apply_session name args session) s))"

end
