(* ===== verification/Tools_Claims.thy ===== *)
theory Tools_Claims
  imports Tools Mocker_Search
begin

text \<open>
  Properties of the HTTP API and of the tools for agents: a request stores all its stubs or none, a call that fails
  changes nothing, whatever is called the engine stays in a state it can reach, a mocked call answers as the call
  itself would, and where the interface does not keep what it says.
\<close>

section \<open>Storing stubs\<close>

definition tagged :: "(stub \<Rightarrow> stub) \<Rightarrow> stub option list \<Rightarrow> stub list" where
  "tagged upd inputs = map upd (List.map_filter id inputs)"

lemma tagged_simps [simp]:
  "tagged upd [] = []" "tagged upd (Some v # vs) = upd v # tagged upd vs" "tagged upd (None # vs) = tagged upd vs"
  by (simp_all add: tagged_def map_filter_simps)

lemma prepare_accepted:
  "prepare_stubs L upd inputs = Accepted vs \<longleftrightarrow>
     None \<notin> set inputs \<and> vs = tagged upd inputs \<and> list_all (\<lambda>v. api_validate_stub L v = None) vs"
proof (induction L upd inputs arbitrary: vs rule: prepare_stubs.induct)
  case (3 L upd v vs ws)
  show ?case
  proof (cases "prepare_stubs L upd vs")
    case (Accepted us)
    with "3.IH" [of us] show ?thesis by (cases "api_validate_stub L (upd v)") auto
  next
    case Panicked
    with "3.IH" show ?thesis by (cases "api_validate_stub L (upd v)") (auto simp: list_all_iff)
  next
    case (Rejected e)
    with "3.IH" show ?thesis by (cases "api_validate_stub L (upd v)") (auto simp: list_all_iff)
  qed
qed auto

lemma prepare_panics: "prepare_stubs L upd inputs = Panicked \<Longrightarrow> None \<in> set inputs"
  by (induction L upd inputs rule: prepare_stubs.induct) (auto split: option.splits prepared.splits)

lemma validation_error_None: "validation_error v = None \<longleftrightarrow> validate_stub v"
  by (auto simp: validation_error_def validate_stub_def)

lemma api_validate_ok: "api_validate_stub L v = None \<Longrightarrow> validate_stub v"
  by (auto simp: api_validate_stub_def validation_error_None split: option.splits)

lemma assign_ids_other:
  "map (\<lambda>v. v\<lparr>ID := 0\<rparr>) (assign_ids fresh vs) = map (\<lambda>v. v\<lparr>ID := 0\<rparr>) vs"
  by (induction fresh vs rule: assign_ids.induct) auto

lemma assign_ids_all:
  assumes "list_all P vs" and "\<And>v i. P v \<Longrightarrow> P (v\<lparr>ID := i\<rparr>)"
  shows "list_all P (assign_ids fresh vs)"
  using assms(1) by (induction fresh vs rule: assign_ids.induct) (auto intro: assms(2))

lemma validate_stub_id [simp]: "validate_stub (v\<lparr>ID := i\<rparr>) = validate_stub v"
  by (simp add: validate_stub_def validate_input_configuration_def validate_output_configuration_def
      validate_effects_configuration_def inputs_list_def)

lemma engine_put_engine:
  "ms_engine (snd (engine_put L vs s)) = snd (put_many (ml_lib (rl_Mock L)) (ms_fresh s) vs (ms_engine s))"
  "fst (engine_put L vs s) = fst (put_many (ml_lib (rl_Mock L)) (ms_fresh s) vs (ms_engine s))"
  by (simp_all add: engine_put_def split_def Let_def)

lemma put_many_map:
  "stub_map (ext (snd (put_many g fresh vs e))) = fold (\<lambda>v m. m(ID v \<mapsto> v)) (assign_ids fresh vs) (stub_map (ext e))"
  by (simp add: put_many_def searcher_upsert_def split_def Let_def stub_map_upsert)

text \<open>The stubs a request stores: those of its body, each of the session of the request and marked as coming over the
  API, with new IDs where they have none.\<close>

definition posted :: "'m rest_lib \<Rightarrow> rest_request \<Rightarrow> 'm mock_state \<Rightarrow> stub option list \<Rightarrow> stub list" where
  "posted L rq s inputs =
     assign_ids (ms_fresh s) (tagged (\<lambda>v. v\<lparr>Session := from_request rq, Source := ''rest''\<rparr>) inputs)"



section \<open>A call that fails changes nothing\<close>

definition answers :: "tool_outcome \<Rightarrow> bool" where
  "answers r \<longleftrightarrow> (case r of Tool_Returns _ \<Rightarrow> True | _ \<Rightarrow> False)"

lemma answers_simps [simp]: "answers (Tool_Returns x)" "\<not> answers (Tool_Fails e)" "\<not> answers Tool_Panics"
  by (simp_all add: answers_def)

lemma inspect_panic_state: "fst (inspect g r q e) = None \<Longrightarrow> snd (inspect g r q e) = e"
  by (auto simp: inspect_def Let_def split_def split: option.splits)

definition keeps_on_failure :: "(gmap \<Rightarrow> 'm mock_state \<Rightarrow> tool_outcome \<times> 'm mock_state) \<Rightarrow> bool" where
  "keeps_on_failure h \<longleftrightarrow> (\<forall>args s. answers (fst (h args s)) \<or> snd (h args s) = s)"

lemma stub_tools_keep:
  "keeps_on_failure (mcp_stubs_upsert L)" "keeps_on_failure (mcp_stubs_delete L)"
  "keeps_on_failure (mcp_stubs_batch_delete L)" "keeps_on_failure (mcp_stubs_purge L)"
  unfolding keeps_on_failure_def
  by (auto simp: mcp_stubs_upsert_def mcp_stubs_delete_def mcp_stubs_batch_delete_def mcp_stubs_purge_def split_def
      Let_def split: sum.splits prepared.splits)

lemma call_tools_keep:
  "keeps_on_failure (mcp_stubs_search L)" "keeps_on_failure (mcp_mock_call L h)" "keeps_on_failure (mcp_history_purge h)"
  unfolding keeps_on_failure_def
  by (auto simp: mcp_stubs_search_def mcp_mock_call_def mcp_history_purge_def split_def Let_def
      split: sum.splits prod.splits option.splits)

lemma inspect_tool_keeps: "keeps_on_failure (mcp_stubs_inspect L)"
  unfolding keeps_on_failure_def
  by (auto simp: mcp_stubs_inspect_def split_def Let_def inspect_panic_state split: sum.splits option.splits)

lemma handlers_keep: "mcp_tool_handler L cfg name = Some h \<Longrightarrow> keeps_on_failure h"
  by (auto simp: mcp_tool_handler_def writing_tools_def stub_tools_keep call_tools_keep inspect_tool_keeps
      keeps_on_failure_def [of "\<lambda>args s. (_ args s, s)"] split: option.splits if_splits)

text \<open>A call of a tool that fails, with an error or by a panic, changes nothing: not the stubs, the counters, the
  history nor the sessions.\<close>

lemma failed_tool_changes_nothing:
  "answers (fst (call_mcp_tool L cfg name args session s)) \<or> snd (call_mcp_tool L cfg name args session s) = s"
  using handlers_keep [of L cfg name]
  by (auto simp: call_mcp_tool_def keeps_on_failure_def split: option.split)


section \<open>Whatever is called, the engine stays well-formed\<close>

text \<open>The requests and tool calls that a client can make, and the state each leaves.\<close>

datatype api_call =
    Add_Stub rest_request
  | Delete_Stub uuid
  | Batch_Delete rest_request
  | Purge_Stubs rest_request
  | Search_Stubs rest_request
  | Inspect_Stubs rest_request
  | Purge_History rest_request
  | Call_Tool string "gmap option" string

fun api_state :: "'m rest_lib \<Rightarrow> rest_config \<Rightarrow> 'm mock_state \<Rightarrow> api_call \<Rightarrow> 'm mock_state" where
  "api_state L cfg s (Add_Stub rq) = (case add_stub L rq s of None \<Rightarrow> s | Some (_, s') \<Rightarrow> s')"
| "api_state L cfg s (Delete_Stub i) = snd (delete_stub_by_id L i s)"
| "api_state L cfg s (Batch_Delete rq) = snd (batch_stubs_delete L rq s)"
| "api_state L cfg s (Purge_Stubs rq) = snd (purge_stubs L rq s)"
| "api_state L cfg s (Search_Stubs rq) = snd (search_stubs L rq s)"
| "api_state L cfg s (Inspect_Stubs rq) = (case inspect_stubs L rq s of None \<Rightarrow> s | Some (_, s') \<Rightarrow> s')"
| "api_state L cfg s (Purge_History rq) = snd (purge_history (rs_History cfg) rq s)"
| "api_state L cfg s (Call_Tool name args session) = snd (call_mcp_tool L cfg name args session s)"

text \<open>The decoders give stubs whose priorities differ by less than 64 bits hold.\<close>

definition priorities_ok :: "'m rest_lib \<Rightarrow> bool" where
  "priorities_ok L \<longleftrightarrow>
     (\<forall>t vs v. rl_DecodeStubs L t = Inr vs \<longrightarrow> Some v \<in> set vs \<longrightarrow> priority_ok v) \<and>
     (\<forall>m v. ml_decode_stub (rl_Mock L) m = Inr v \<longrightarrow> priority_ok v)"

abbreviation moves :: "'m rest_lib \<Rightarrow> 'm mock_state \<Rightarrow> 'm mock_state \<Rightarrow> bool" where
  "moves L s s' \<equiv> (budgerigar_step (ml_lib (rl_Mock L)) (ml_runtime (rl_Mock L)))\<^sup>*\<^sup>* (ms_engine s) (ms_engine s')"

lemma moves_delete: "moves L s (snd (engine_delete L ids s))"
  by (auto simp: engine_delete_def split_def Let_def intro: budgerigar_step.delete)

lemma moves_delete_session: "moves L s (snd (engine_delete_session L ses s))"
  by (auto simp: engine_delete_session_def split_def Let_def intro: budgerigar_step.delete_ses)

lemma moves_put: "\<forall>v\<in>set vs. priority_ok v \<Longrightarrow> moves L s (snd (engine_put L vs s))"
  by (auto simp: engine_put_engine intro: budgerigar_step.put)

lemma moves_search: "moves L s (snd (engine_search L q s))"
  by (auto simp: engine_search_def split_def Let_def intro: budgerigar_step.query)

lemma moves_inspect:
  "budgerigar_step (ml_lib G) (ml_runtime G) e (snd (inspect (ml_lib G) (ml_runtime G) q e)) \<or>
     snd (inspect (ml_lib G) (ml_runtime G) q e) = e"
  using budgerigar_step.query [of "ml_lib G" "ml_runtime G" e "q\<lparr>q_Internal := True, q_MatchInternal := False\<rparr>"]
  by (auto simp: inspect_def find_by_query_def Let_def split_def split: option.split)

lemma prepared_priorities:
  assumes "prepare_stubs L upd inputs = Accepted vs" and "\<forall>v. Some v \<in> set inputs \<longrightarrow> priority_ok v"
    and "\<And>v. priority_ok v \<Longrightarrow> priority_ok (upd v)"
  shows "\<forall>v\<in>set vs. priority_ok v"
  using assms by (auto simp: prepare_accepted tagged_def List.map_filter_def)

lemma decoded_priorities:
  assumes "priorities_ok L" and "unmarshal_slice (rl_DecodeStubs L) t = Inr vs" and "Some v \<in> set vs"
  shows "priority_ok v"
  using assms by (auto simp: priorities_ok_def unmarshal_slice_def Let_def split: if_splits)

lemma moves_operation:
  assumes "\<forall>v. op_upsertStub op = Some v \<longrightarrow> priority_ok v"
  shows "(budgerigar_step g r)\<^sup>*\<^sup>* e (apply_effect_operation g op e)"
  using assms
  by (auto simp: apply_effect_operation_def split: option.split intro!: r_into_rtranclp budgerigar_step.put
      intro: budgerigar_step.delete)

lemma moves_operations:
  "\<forall>op\<in>set ops. \<forall>v. op_upsertStub op = Some v \<longrightarrow> priority_ok v \<Longrightarrow>
     (budgerigar_step g r)\<^sup>*\<^sup>* e (fold (apply_effect_operation g) ops e)"
proof (induction ops arbitrary: e)
  case (Cons op ops)
  from Cons.prems have "(budgerigar_step g r)\<^sup>*\<^sup>* e (apply_effect_operation g op e)"
    by (auto intro: moves_operation)
  also have "(budgerigar_step g r)\<^sup>*\<^sup>* \<dots> (fold (apply_effect_operation g) ops (apply_effect_operation g op e))"
    using Cons by simp
  finally show ?case by simp
qed simp

lemma prepared_effect_priority:
  assumes "\<forall>m v. ml_decode_stub M m = Inr v \<longrightarrow> priority_ok v" and "prepare_effect M e td ses fresh = (Inr op, fresh')"
    and "op_upsertStub op = Some v"
  shows "priority_ok v"
  using assms(2,3) spec [OF assms(1)]
  by (force simp: prepare_effect_def prepare_upsert_effect_def priority_ok_def Let_def
      split: if_splits sum.splits prod.splits)

lemma prepared_effects_priority:
  assumes "\<forall>m v. ml_decode_stub M m = Inr v \<longrightarrow> priority_ok v"
  shows "prepare_effects M es td ses fresh = (Inr ops, fresh') \<Longrightarrow> op \<in> set ops \<Longrightarrow> op_upsertStub op = Some v \<Longrightarrow> priority_ok v"
proof (induction es arbitrary: fresh ops fresh')
  case (Cons e es fr os fr')
  from Cons.prems(1) obtain op1 fr1 ops1 fr2 where
    "prepare_effect M e td ses fr = (Inr op1, fr1)" "prepare_effects M es td ses fr1 = (Inr ops1, fr2)" "os = op1 # ops1"
    by (auto split: prod.splits sum.splits)
  with Cons.IH Cons.prems(2,3) prepared_effect_priority [OF assms] show ?case by auto
qed simp

lemma moves_effects:
  assumes "priorities_ok L"
  shows "moves L s (mock_effects (rl_Mock L) v td s)"
proof -
  have dec: "\<forall>m v. ml_decode_stub (rl_Mock L) m = Inr v \<longrightarrow> priority_ok v" using assms by (simp add: priorities_ok_def)
  show ?thesis
    using prepared_effects_priority [OF dec]
    by (auto simp: mock_effects_def apply_effects_def split_def Let_def split: sum.split prod.split
        intro!: moves_operations) (metis prod.collapse)
qed


lemma moves_mock_call:
  assumes "priorities_ok L"
  shows "moves L s (snd (mcp_render_mock_response L enabled v q n s))"
proof -
  have rec: "ms_engine (record_mock_call L enabled v q d c m ts t) = ms_engine t" for d c m ts t
    by (simp add: record_mock_call_def)
  have eff: "moves L t (mock_effects (rl_Mock L) v td t)" for t td by (rule moves_effects [OF assms])
  have "moves L s (mock_effects (rl_Mock L) v td (record_mock_call L enabled v q d c m ts s))" for d c m ts td
    using eff [of "record_mock_call L enabled v q d c m ts s"] by (simp add: rec)
  then show ?thesis
    by (simp add: mcp_render_mock_response_def mock_template_error_def Let_def rec split: sum.split prod.split)
qed

lemma moves_put_prepared:
  assumes "priorities_ok L" and "unmarshal_slice (rl_DecodeStubs L) t = Inr inputs"
    and "prepare_stubs L upd inputs = Accepted vs" and "\<And>v. Priority (upd v) = Priority v"
  shows "moves L s (snd (engine_put L vs s))"
proof (rule moves_put, rule prepared_priorities [OF assms(3)])
  show "\<forall>v. Some v \<in> set inputs \<longrightarrow> priority_ok v" using decoded_priorities [OF assms(1,2)] by blast
  show "priority_ok v \<Longrightarrow> priority_ok (upd v)" for v by (simp add: priority_ok_def assms(4))
qed

lemma moves_add: "priorities_ok L \<Longrightarrow> moves L s (api_state L cfg s (Add_Stub rq))"
  by (auto simp: add_stub_def split_def Let_def decoded_body_def split: sum.splits prepared.splits option.splits
      elim!: moves_put_prepared)

lemma moves_upsert: "priorities_ok L \<Longrightarrow> moves L s (snd (mcp_stubs_upsert L args s))"
  by (auto simp: mcp_stubs_upsert_def decode_and_validate_mcp_stubs_def decode_mcp_stubs_arg_def r_map_Inr split_def Let_def
      split: sum.splits prepared.splits option.splits if_splits dest!: sym [of "Accepted _"] elim!: moves_put_prepared)

lemma moves_calls:
  "moves L s (snd (mcp_stubs_delete L args s))" "moves L s (snd (mcp_stubs_batch_delete L args s))"
  "moves L s (snd (mcp_stubs_purge L args s))" "moves L s (snd (mcp_stubs_search L args s))"
  "moves L s (snd (mcp_history_purge h args s))"
  using moves_delete [of L s] moves_delete_session [of L s] moves_search [of L s]
  by (auto simp: mcp_stubs_delete_def mcp_stubs_batch_delete_def mcp_stubs_purge_def mcp_stubs_search_def
      mcp_history_purge_def split_def Let_def intro: budgerigar_step.purge split: sum.split prod.split option.split)


lemma moves_inspect_state:
  "moves L s (s\<lparr>ms_engine := snd (inspect (ml_lib (rl_Mock L)) (ml_runtime (rl_Mock L)) q (ms_engine s))\<rparr>)"
  using moves_inspect [of "rl_Mock L" "ms_engine s" q] by auto

lemma moves_mock: "priorities_ok L \<Longrightarrow> moves L s (snd (mcp_mock_call L h args s))"
proof -
  assume ok: "priorities_ok L"
  have "moves L s (snd (mcp_render_mock_response L h v q n (snd (engine_search L q' s))))" for v q n q'
    by (rule rtranclp_trans [OF moves_search moves_mock_call [OF ok]])
  moreover have "moves L s (snd (engine_search L q s))" for q by (rule moves_search)
  ultimately show ?thesis
    by (auto simp: mcp_mock_call_def split_def Let_def split: sum.split prod.split option.split)
qed

lemma moves_tool: "priorities_ok L \<Longrightarrow> moves L s (snd (call_mcp_tool L cfg name args session s))"
proof (cases args)
  case (Some a)
  assume ok: "priorities_ok L"
  have ins: "moves L s (snd (mcp_stubs_inspect L b s))" for b
    using moves_inspect_state [of L s] by (auto simp: mcp_stubs_inspect_def split_def Let_def split: sum.split)
  show ?thesis
    using Some moves_upsert [OF ok] moves_mock [OF ok] moves_calls [of L s] ins
    by (auto simp: call_mcp_tool_def mcp_tool_handler_def writing_tools_def split: option.split if_splits)
qed (simp add: call_mcp_tool_def)

lemma moves_api:
  assumes "priorities_ok L"
  shows "moves L s (api_state L cfg s c)"
proof (cases c)
  case (Add_Stub rq)
  then show ?thesis using moves_add [OF assms] by simp
next
  case (Inspect_Stubs rq)
  then show ?thesis
    using moves_inspect_state [of L s] by (auto simp: inspect_stubs_def split_def Let_def split: sum.split option.split)
next
  case (Search_Stubs rq)
  then show ?thesis
    using moves_search [of L s]
    by (auto simp: search_stubs_def engine_search_def split_def Let_def split: sum.split option.split)
next
  case (Purge_Stubs rq)
  then show ?thesis
    using moves_delete_session [of L s] by (auto simp: purge_stubs_def Let_def intro: budgerigar_step.purge)
next
  case (Call_Tool name args session)
  then show ?thesis using moves_tool [OF assms] by simp
qed (use moves_delete [of L s] in \<open>auto simp: delete_stub_by_id_def batch_stubs_delete_def purge_history_def split_def Let_def split: sum.split\<close>)

lemma reachable_moves: "(budgerigar_step g r)\<^sup>*\<^sup>* e e' \<Longrightarrow> budgerigar_reachable g r e \<Longrightarrow> budgerigar_reachable g r e'"
  by (induction rule: rtranclp_induct) (auto intro: budgerigar_reachable.reach_next)


definition sample_rest :: "gvalue rest_lib" where
  "sample_rest = \<lparr>rl_Mock = sample_mock, rl_DecodeStubs = (\<lambda>t. Inr [Some (sample_stub 7 ''Greeter'' [])]),
     rl_DecodeIDs = (\<lambda>t. Inr [7]), rl_DecodeQuery = (\<lambda>t. Inl ''''), rl_DecodeInspect = (\<lambda>t. Inl ''''),
     rl_DecodeVerify = (\<lambda>t. Inl ''''), rl_Marshal = (\<lambda>v. Inr ''[{}]''), rl_Normalize = (\<lambda>vs. Inr []),
     rl_ValidateTemplate = (\<lambda>t. None), rl_DelayError = (\<lambda>t. '''')\<rparr>"

definition sample_config :: rest_config where
  "sample_config = \<lparr>rs_History = True, rs_Services = [], rs_Other = []\<rparr>"


definition sample_request :: rest_request where
  "sample_request = \<lparr>rq_Session = ''a'', rq_Context = None, rq_Internal = False, rq_ReadError = None, rq_Read = Some ''[{}]'',
     rq_Stream = ('''', None)\<rparr>"

lemma sample_priorities: "priorities_ok sample_rest"
  by (auto simp: priorities_ok_def sample_rest_def sample_mock_def priority_ok_def sample_stub_def taken_stub_def
      empty_stub_def)


section \<open>A mocked call answers as the call\<close>

text \<open>The arguments for the call a client makes: its service, method, message, metadata and session.\<close>

definition call_args :: "mocker \<Rightarrow> call_ctx \<Rightarrow> gmap \<Rightarrow> gmap" where
  "call_args M cx req =
     [(''service'', VString (mk_Service M)), (''method'', VString (mk_Method M)), (''payload'', VMap req),
      (''headers'', VMap (context_headers cx)),
      (''session'', VString (case cx_MD cx of None \<Rightarrow> '''' | Some md \<Rightarrow> session_of_metadata md))]"

lemma call_args_query:
  assumes "mk_Service M \<noteq> ''''" "mk_Method M \<noteq> ''''" "\<not> mk_Strict M" "mk_Service M \<noteq> health_service"
  shows "mcp_search_query (call_args M cx req) = Inr (fst (new_query M cx req s))"
  using assms
  by (simp add: mcp_search_query_def call_args_def required_string_arg_def string_arg_def mcp_search_input_def given_arg_def
      mcp_headers_arg_def new_query_def messages_query_def with_health_visibility_def session_from_context_def split_def Let_def
      split: option.split)

lemma built_query_frame:
  "ms_engine (snd (new_query M cx req s)) = ms_engine s" "ms_fresh (snd (new_query M cx req s)) = ms_fresh s"
  "ms_now (snd (new_query M cx req s)) = ms_now s"
  by (simp_all add: new_query_def messages_query_def session_from_context_def split_def Let_def split: option.split)

lemma new_query_fields:
  "q_Input (fst (new_query M cx req s)) = [req]" "q_Headers (fst (new_query M cx req s)) = context_headers cx"
  by (simp_all add: new_query_def messages_query_def with_health_visibility_def with_internal_stubs_def split_def Let_def)


lemma ran_effects_frame:
  "ms_engine s = ms_engine t \<Longrightarrow> ms_fresh s = ms_fresh t \<Longrightarrow>
     ms_engine (mock_effects L v td s) = ms_engine (mock_effects L v td t) \<and>
     ms_fresh (mock_effects L v td s) = ms_fresh (mock_effects L v td t)"
  by (simp add: mock_effects_def split_def Let_def)

lemma delay_frame:
  "ms_engine (snd (delay_templated L cx d td s)) = ms_engine s" "ms_fresh (snd (delay_templated L cx d td s)) = ms_fresh s"
  by (auto simp: delay_templated_def and_then_def delay_response_def Let_def split: sum.split option.split prod.split)

lemma response_headers_frame:
  "ms_engine (snd (set_response_headers L b h s)) = ms_engine s" "ms_fresh (snd (set_response_headers L b h s)) = ms_fresh s"
  by (auto simp: set_response_headers_def split: option.split)

lemma record_call_frame:
  "ms_engine (mocker_record_call L M cx i c ts rs ds h m s) = ms_engine s"
  "ms_fresh (mocker_record_call L M cx i c ts rs ds h m s) = ms_fresh s"
  by (simp_all add: mocker_record_call_def session_from_context_def record_in_history_def split_def Let_def split: option.split)

lemma trailers_frame:
  "ms_engine (set_response_trailers h s) = ms_engine s" "ms_fresh (set_response_trailers h s) = ms_fresh s"
  by (simp_all add: set_response_trailers_def split: option.split)

lemma map_error_Inr: "map_error f m = Inr x \<longleftrightarrow> m = Inr x"
  by (cases m) simp_all

text \<open>What a successful answer of the unary handler is made of.\<close>

lemma answer_unary_success:
  assumes "answer_unary L M cx streaming req ts v n out s = (Inr msg, s')"
    and td: "td = new_template_data (ml_uuid_text L) (Some req) (context_headers cx) 0 ts [VMap req] v n"
  obtains out' where "mock_rendered L td out = Inr out'" and "output_status_base out' = None"
    and "ml_encode L (Data out') = Inr msg" and "ms_engine s' = ms_engine (mock_effects L v td s)"
    and "ms_fresh s' = ms_fresh (mock_effects L v td s)"
proof -
  from assms(1) obtain s1 data headers err s2 trailers where
    d: "delay_templated L cx (Delay (Output v)) td s = (Inr (), s1)" and data: "render_data L True td (Data out) = Inr data"
    and h: "render_headers L True header_templates td (OutHeaders out) = Inr headers"
    and e: "render_error L True td (Error out) = Inr err"
    and sh: "set_response_headers L streaming headers s1 = (Inr (), s2)"
    and t: "render_headers L True trailer_templates td (Trailers out) = Inr trailers"
    and st: "handle_output_error L (out\<lparr>OutHeaders := headers, Error := err, Trailers := trailers\<rparr>) = None"
    and enc: "ml_encode L data = Inr msg"
    and s': "ms_engine s' = ms_engine (mock_effects L v td (set_response_trailers trailers s2))"
      "ms_fresh s' = ms_fresh (mock_effects L v td (set_response_trailers trailers s2))"
    by (auto simp: answer_unary_def td [symmetric] Let_def and_then_Inr record_call_frame split: option.splits sum.splits)
  let ?out = "out\<lparr>Data := data, OutHeaders := headers, Trailers := trailers, Error := err\<rparr>"
  have "(case Data out of VMap m \<Rightarrow> r_map VMap (process_map (ml_render L td) m) | v \<Rightarrow> Inr v) = Inr data"
    using data by (cases "Data out") (auto simp: render_data_def map_error_Inr)
  moreover have "(if has_templates_in_headers hs then process_headers (ml_render L td) hs else Inr hs) = Inr hs'"
    if "render_headers L True what td hs = Inr hs'" for what hs hs'
    using that by (simp add: render_headers_def map_error_Inr split: if_splits)
  moreover have "(if Error out \<noteq> '''' \<and> is_template_string (Error out) then process_error (ml_render L td) (Error out)
      else Inr (Error out)) = Inr err"
    using e by (auto simp: render_error_def map_error_Inr split: if_splits)
  ultimately have "mock_rendered L td out = Inr ?out"
    using h t by (simp add: mock_rendered_def)
  moreover have "output_status_base ?out = None"
    using st by (auto simp: handle_output_error_def status_from_output_def output_status_base_def split: option.splits if_splits)
  moreover have "ms_engine s2 = ms_engine s" "ms_fresh s2 = ms_fresh s"
    using delay_frame [of L cx "Delay (Output v)" td s] response_headers_frame [of L streaming headers s1] d sh by simp_all
  ultimately show ?thesis
    using that [of ?out] enc s' ran_effects_frame [of "set_response_trailers trailers s2" s L v td] by (simp add: trailers_frame)
qed


lemma handle_unary_success:
  assumes "handle_unary L M cx streaming req s = (Inr msg, s')" and q: "q = fst (new_query M cx req s)"
    and nohandler: "\<forall>x v. fst (find_by_query (ml_lib L) (ml_runtime L) q (ms_engine s)) = Inr x \<longrightarrow> res_found x = Some v \<longrightarrow> \<not> HasUnaryHandler v"
  obtains x v s2 where "find_by_query (ml_lib L) (ml_runtime L) q (ms_engine s) = (Inr x, ms_engine s2)"
    and "res_found x = Some v" and "ms_fresh s2 = ms_fresh s"
    and "answer_unary L M cx streaming req (ms_now s) v (res_matchNumber x) (Output v) s2 = (Inr msg, s')"
proof -
  let ?s1 = "snd (new_query M cx req s)" and ?f = "find_by_query (ml_lib L) (ml_runtime L) q (ms_engine s)"
  obtain x where x: "fst ?f = Inr x"
    using assms(1) by (cases "fst ?f") (auto simp: handle_unary_def find_stub_def q built_query_frame split_def Let_def)
  obtain v where v: "res_found x = Some v"
    using assms(1) x by (cases "res_found x") (auto simp: handle_unary_def find_stub_def q built_query_frame split_def Let_def)
  have "\<not> HasUnaryHandler v" using nohandler x v by blast
  then have "answer_unary L M cx streaming req (ms_now s) v (res_matchNumber x) (Output v) (?s1\<lparr>ms_engine := snd ?f\<rparr>) = (Inr msg, s')"
    using assms(1) x v by (simp add: handle_unary_def find_stub_def q built_query_frame split_def Let_def)
  moreover have "?f = (Inr x, ms_engine (?s1\<lparr>ms_engine := snd ?f\<rparr>))" using x by (simp add: prod_eq_iff)
  moreover have "ms_fresh (?s1\<lparr>ms_engine := snd ?f\<rparr>) = ms_fresh s" by (simp add: built_query_frame)
  ultimately show ?thesis using that [OF _ v] by blast
qed



lemma greeter_call_answered:
  "fst (handle_unary sample_mock (sample_mocker\<lparr>mk_Strict := False\<rparr>) sample_ctx False [(''name'', VString ''bob'')]
     (sample_state greeter)) = Inr VNil"
  by code_simp

lemma greeter_call_found:
  "case fst (find_by_query sample_lib sample_runtime
       (fst (new_query (sample_mocker\<lparr>mk_Strict := False\<rparr>) sample_ctx [(''name'', VString ''bob'')] (sample_state greeter))) greeter) of
     Inl _ \<Rightarrow> False | Inr x \<Rightarrow> res_found x = Some bob_stub"
  by code_simp


section \<open>Dry runs\<close>

text \<open>The dry run of the tools accepts what the upsert accepts, and fails the same way.\<close>

lemma validate_predicts_upsert:
  assumes "\<And>vs. \<exists>ms. rl_Normalize L vs = Inr ms"
  shows "answers (mcp_stubs_validate L args) \<longleftrightarrow> answers (fst (mcp_stubs_upsert L args s))"
    and "\<not> answers (mcp_stubs_validate L args) \<Longrightarrow> mcp_stubs_validate L args = fst (mcp_stubs_upsert L args s)"
proof -
  have norm: "\<exists>ms. normalize_mcp_stubs L vs = Inr ms" for vs
    using assms [of "map Some vs"] by (auto simp: normalize_mcp_stubs_def)
  show "answers (mcp_stubs_validate L args) \<longleftrightarrow> answers (fst (mcp_stubs_upsert L args s))"
    and "\<not> answers (mcp_stubs_validate L args) \<Longrightarrow> mcp_stubs_validate L args = fst (mcp_stubs_upsert L args s)"
    using norm
    by (auto simp: mcp_stubs_validate_def mcp_stubs_upsert_def tool_result_def r_map_def split_def Let_def
        split: sum.splits prepared.splits) (metis sum.distinct(1))+
qed

section \<open>Deleting\<close>

text \<open>A batch of IDs is deleted as a whole or not at all; the answer tells those that were stored from the others.\<close>

lemma classified:
  "classify_ids L s ts = Inr (ids, deleted, missing) \<Longrightarrow>
     list_all2 (\<lambda>t i. ml_parse_uuid (rl_Mock L) t = Some i) ts ids \<and>
     deleted = filter (\<lambda>t. \<exists>i. ml_parse_uuid (rl_Mock L) t = Some i \<and> find_by_id (ext (ms_engine s)) i \<noteq> None) ts \<and>
     missing = filter (\<lambda>t. \<exists>i. ml_parse_uuid (rl_Mock L) t = Some i \<and> find_by_id (ext (ms_engine s)) i = None) ts"
  by (induction L s ts arbitrary: ids deleted missing rule: classify_ids.induct)
    (auto simp: r_map_Inr split: option.splits if_splits)

lemma batch_delete_exact:
  assumes "mcp_stubs_batch_delete L args s = (Tool_Returns (Batch_Deleted deleted missing), s')"
  shows "\<exists>ts. mcp_string_slice_arg args ''ids'' = Inr ts \<and> mset ts = mset deleted + mset missing \<and>
     stub_map (ext (ms_engine s')) = stub_map (ext (ms_engine s)) |` (- {i. \<exists>t\<in>set ts. ml_parse_uuid (rl_Mock L) t = Some i})"
proof -
  obtain ts ids where ts: "mcp_string_slice_arg args ''ids'' = Inr ts" and c: "classify_ids L s ts = Inr (ids, deleted, missing)"
    and s': "s' = (if ids \<noteq> [] then snd (engine_delete L ids s) else s)"
    using assms by (auto simp: mcp_stubs_batch_delete_def r_bind_Inr split: sum.splits prod.splits)
  note cl = classified [OF c]
  have parsed: "\<exists>i. ml_parse_uuid (rl_Mock L) t = Some i" if "t \<in> set ts" for t
    using cl that by (auto simp: list_all2_conv_all_nth in_set_conv_nth)
  have ids: "set ids = {i. \<exists>t\<in>set ts. ml_parse_uuid (rl_Mock L) t = Some i}"
    using cl by (force simp: list_all2_conv_all_nth in_set_conv_nth)
  have "mset ts = mset deleted + mset missing"
  proof -
    let ?P = "\<lambda>t. \<exists>i. ml_parse_uuid (rl_Mock L) t = Some i \<and> find_by_id (ext (ms_engine s)) i \<noteq> None"
    have "missing = filter (\<lambda>t. \<not> ?P t) ts" using cl parsed by (auto intro!: filter_cong)
    moreover have "deleted = filter ?P ts" using cl by simp
    ultimately show ?thesis using multiset_partition [of "mset ts" ?P] by (simp only: mset_filter)
  qed
  moreover have "stub_map (ext (ms_engine s')) = stub_map (ext (ms_engine s)) |` (- set ids)"
    by (auto simp: s' engine_delete_def delete_by_id_def searcher_del_map split_def Let_def restrict_map_def)
  ultimately show ?thesis using ts ids by auto
qed

section \<open>Where the interface does not keep what it says\<close>

text \<open>A null in the list of stubs is a nil pointer: the dry run of the API refuses it, storing it panics, over the API
  and in the tool.\<close>

lemma null_stub_panics:
  assumes "\<And>t. rl_DecodeStubs L t = Inr [None]" and "request_body rq = Inr ''[null]''" "given_arg args ''stubs'' = Some raw"
    "rl_Marshal L raw = Inr ''[null]''"
  shows "add_stub L rq s = None" and "rp_Status (rest_validate_stub L rq) = 400" and "fst (mcp_stubs_upsert L args s) = Tool_Panics"
proof -
  have dec: "unmarshal_slice (rl_DecodeStubs L) ''[null]'' = Inr [None]"
    using assms(1) by (simp add: unmarshal_slice_def Let_def min_json_length_def) code_simp
  show "add_stub L rq s = None" "rp_Status (rest_validate_stub L rq) = 400" "fst (mcp_stubs_upsert L args s) = Tool_Panics"
    using assms dec
    by (simp_all add: add_stub_def decoded_body_def rest_validate_stub_def reply_def mcp_stubs_upsert_def
        decode_and_validate_mcp_stubs_def decode_mcp_stubs_arg_def)
qed

text \<open>A stub with a status code and no message: the mocked call reports its data as if the call had succeeded.\<close>

lemma mock_call_hides_status:
  "Error out = '''' \<Longrightarrow> Code out = Some c \<Longrightarrow> c \<noteq> code_OK \<Longrightarrow> Data out \<noteq> VNil \<Longrightarrow>
     output_status_base out = Some (status_error c '''') \<and>
     map_of (mock_response L i c (err_Text (status_error c '''')) w out) ''data'' = Some (Data out) \<and>
     map_of (mock_response L i c (err_Text (status_error c '''')) w out) ''error'' = None"
  by (simp add: output_status_base_def mock_response_def status_error_def)

text \<open>Stubs stored by the tool keep the source their JSON names; none is marked as coming from it.\<close>

lemma upserted_source:
  "prepare_stubs L (\<lambda>v. v\<lparr>Session := ses\<rparr>) inputs = Accepted vs \<Longrightarrow> v \<in> set vs \<Longrightarrow> \<exists>w. Some w \<in> set inputs \<and> Source v = Source w"
  by (auto simp: prepare_accepted tagged_def List.map_filter_def)

end
