(* ===== verification/Sources.thy ===== *)
theory Sources
  imports Mock_Types
begin

text \<open>
  Where descriptors and upstreams come from: the kinds of sources on the command line
  (\<^verbatim>\<open>internal/domain/protoset/source_handler.go\<close> and the handlers beside it), which source belongs to which upstream
  (\<^verbatim>\<open>internal/domain/proto/parse.go\<close>), the registration of descriptor files in the order of their imports
  (\<^verbatim>\<open>transform_registry.go\<close>), and the routes to the upstreams (\<^verbatim>\<open>internal/infra/proxyroutes/routes.go\<close>). Parsing
  of URLs, the file system and the checks of the protobuf library are parameters.
\<close>

section \<open>Kinds of sources\<close>

datatype source_type =
    SourceUnknown | SourceBufBuild | SourceReflect | SourceProto | SourceDescriptor | SourceDirectory | SourceProxy

record source =
  so_Type :: source_type
  so_Raw :: string
  so_Module :: string
  so_Version :: string
  so_Path :: string
  so_Address :: string
  so_TLS :: bool
  so_ServerName :: string
  so_Bearer :: string
  so_Timeout :: int
  so_Insecure :: bool
  so_ProxyMode :: string
  so_RecordDelay :: bool

definition empty_source :: source where
  "empty_source = \<lparr>so_Type = SourceUnknown, so_Raw = '''', so_Module = '''', so_Version = '''', so_Path = '''',
     so_Address = '''', so_TLS = False, so_ServerName = '''', so_Bearer = '''', so_Timeout = 0, so_Insecure = False,
     so_ProxyMode = '''', so_RecordDelay = False\<rparr>"

text \<open>What \<^verbatim>\<open>url.Parse\<close> finds, and what the file system says: whether a path is a directory, the absolute
  path of one, the files \<^verbatim>\<open>filepath.Walk\<close> visits below one, and whether a file is there.\<close>

record url =
  u_Scheme :: string
  u_Host :: string
  u_Path :: string
  u_Query :: "(string \<times> string) list"

record source_lib =
  sl_URL :: "string \<Rightarrow> url option"
  sl_Duration :: "string \<Rightarrow> int option"
  sl_IsDir :: "string \<Rightarrow> bool"
  sl_Abs :: "string \<Rightarrow> string"
  sl_Walk :: "string \<Rightarrow> string list option"
  sl_Exists :: "string \<Rightarrow> bool"

definition url_query :: "url \<Rightarrow> string \<Rightarrow> string" where
  "url_query u k = (case map_of (u_Query u) k of None \<Rightarrow> '''' | Some v \<Rightarrow> v)"

datatype source_error = Bad_URL | Unsupported_Scheme | Missing_Host | Has_Path | Bad_Timeout | Bad_TLS | Bad_RecordDelay
  | Unknown_Scheme | Fetch_Failed string | Walk_Failed

text \<open>\<^verbatim>\<open>strconv.ParseBool\<close>.\<close>

definition parse_bool :: "string \<Rightarrow> bool option" where
  "parse_bool s =
     (if s \<in> set [''1'', ''t'', ''T'', ''TRUE'', ''true'', ''True''] then Some True
      else if s \<in> set [''0'', ''f'', ''F'', ''FALSE'', ''false'', ''False''] then Some False
      else None)"

definition parse_proxy_scheme :: "string \<Rightarrow> (string \<times> bool) option" where
  "parse_proxy_scheme scheme =
     (case str_split (CHR ''+'') scheme of
        [transport, mode] \<Rightarrow>
          (if transport \<noteq> ''grpc'' \<and> transport \<noteq> ''grpcs'' then None
           else if mode \<in> set [''proxy'', ''replay'', ''capture''] then Some (mode, transport = ''grpcs'')
           else None)
      | _ \<Rightarrow> None)"

text \<open>A parameter of the URL: its default when it is absent, and the error when it does not parse.\<close>

definition url_option :: "url \<Rightarrow> string \<Rightarrow> 'a \<Rightarrow> (string \<Rightarrow> 'a option) \<Rightarrow> source_error \<Rightarrow> source_error + 'a" where
  "url_option u k default_value parse e =
     (if url_query u k = '''' then Inr default_value
      else case parse (url_query u k) of None \<Rightarrow> Inl e | Some x \<Rightarrow> Inr x)"

definition default_reflect_timeout :: int where
  "default_reflect_timeout = 5 * 1000000000"

definition check_address :: "url \<Rightarrow> source_error + unit" where
  "check_address u =
     (if u_Host u = '''' then Inl Missing_Host
      else if u_Path u \<noteq> '''' \<and> u_Path u \<noteq> ''/'' then Inl Has_Path
      else Inr ())"

definition proxy_can_handle :: "source_lib \<Rightarrow> string \<Rightarrow> bool" where
  "proxy_can_handle L raw =
     (case sl_URL L raw of None \<Rightarrow> False | Some u \<Rightarrow> parse_proxy_scheme (u_Scheme u) \<noteq> None)"

definition parse_proxy_source :: "source_lib \<Rightarrow> string \<Rightarrow> source_error + source" where
  "parse_proxy_source L raw =
     (case sl_URL L raw of
        None \<Rightarrow> Inl Bad_URL
      | Some u \<Rightarrow>
          (case parse_proxy_scheme (u_Scheme u) of
             None \<Rightarrow> Inl Unsupported_Scheme
           | Some (mode, tls) \<Rightarrow>
               r_bind (check_address u) (\<lambda>_.
               r_bind (url_option u ''timeout'' default_reflect_timeout (sl_Duration L) Bad_Timeout) (\<lambda>timeout.
               r_bind (url_option u ''insecureSkipVerify'' False parse_bool Bad_TLS) (\<lambda>insecure.
               r_map (\<lambda>recordDelay.
                   empty_source\<lparr>so_Type := SourceProxy, so_Raw := raw, so_Address := u_Host u, so_TLS := tls,
                     so_ServerName := url_query u ''serverName'', so_Bearer := url_query u ''bearer'',
                     so_Timeout := timeout, so_Insecure := insecure, so_ProxyMode := mode, so_RecordDelay := recordDelay\<rparr>)
                 (url_option u ''recordDelay'' False parse_bool Bad_RecordDelay))))))"

definition grpc_can_handle :: "string \<Rightarrow> bool" where
  "grpc_can_handle raw \<longleftrightarrow> has_prefix raw ''grpc://'' \<or> has_prefix raw ''grpcs://''"

definition parse_grpc_source :: "source_lib \<Rightarrow> string \<Rightarrow> source_error + source" where
  "parse_grpc_source L raw =
     (case sl_URL L raw of
        None \<Rightarrow> Inl Bad_URL
      | Some u \<Rightarrow>
          (if u_Scheme u \<noteq> ''grpc'' \<and> u_Scheme u \<noteq> ''grpcs'' then Inl Unsupported_Scheme
           else
             r_bind (check_address u) (\<lambda>_.
             r_map (\<lambda>timeout.
                 empty_source\<lparr>so_Type := SourceReflect, so_Raw := raw, so_Address := u_Host u,
                   so_TLS := (u_Scheme u = ''grpcs''), so_ServerName := url_query u ''serverName'',
                   so_Bearer := url_query u ''bearer'', so_Timeout := timeout\<rparr>)
               (url_option u ''timeout'' default_reflect_timeout (sl_Duration L) Bad_Timeout))))"

text \<open>A module reference: three parts, the first with a dot, and a version after the last at sign, or after the
  last colon if that is behind the first slash.\<close>

definition last_index :: "(char \<Rightarrow> bool) \<Rightarrow> string \<Rightarrow> nat option" where
  "last_index p s = (case rev (filter (\<lambda>i. p (s ! i)) [0..<length s]) of [] \<Rightarrow> None | i # _ \<Rightarrow> Some i)"

definition parse_bsr_module_ref :: "string \<Rightarrow> (string \<times> string) option" where
  "parse_bsr_module_ref raw =
     (if raw = '''' then None
      else
        (let slash = List.find (\<lambda>i. raw ! i = CHR ''/'') [0..<length raw];
             (mdl, version) =
               (case last_index (\<lambda>c. c = CHR ''@'' \<or> c = CHR '':'') raw of
                  Some sep \<Rightarrow>
                    (if 0 < sep \<and> (raw ! sep = CHR ''@'' \<or> (case slash of None \<Rightarrow> True | Some i \<Rightarrow> i < sep))
                     then (take sep raw, drop (Suc sep) raw) else (raw, ''''))
                | None \<Rightarrow> (raw, ''''))
         in case str_split (CHR ''/'') mdl of
              [a, b, c] \<Rightarrow>
                (if a = '''' \<or> b = '''' \<or> c = '''' then None
                 else if \<not> str_contains a ''.'' then None
                 else Some (mdl, version))
            | _ \<Rightarrow> None))"

definition descriptor_can_handle :: "string \<Rightarrow> bool" where
  "descriptor_can_handle raw \<longleftrightarrow> has_suffix raw ''.pb'' \<or> has_suffix raw ''.protoset''"

definition proto_can_handle :: "string \<Rightarrow> bool" where
  "proto_can_handle raw \<longleftrightarrow> has_suffix raw ''.proto''"

definition directory_can_handle :: "source_lib \<Rightarrow> string \<Rightarrow> bool" where
  "directory_can_handle L raw =
     (if has_suffix raw ''.proto'' \<or> has_suffix raw ''.pb'' \<or> has_suffix raw ''.protoset'' then False else sl_IsDir L raw)"

text \<open>The handlers in their order; what none of them takes is a file, unless it names a scheme.\<close>

definition parse_source :: "source_lib \<Rightarrow> string \<Rightarrow> source_error + source" where
  "parse_source L raw =
     (if proxy_can_handle L raw then parse_proxy_source L raw
      else if grpc_can_handle raw then parse_grpc_source L raw
      else case parse_bsr_module_ref raw of
             Some (mdl, version) \<Rightarrow>
               Inr (empty_source\<lparr>so_Type := SourceBufBuild, so_Raw := raw, so_Module := mdl, so_Version := version\<rparr>)
           | None \<Rightarrow>
               (if descriptor_can_handle raw
                then Inr (empty_source\<lparr>so_Type := SourceDescriptor, so_Path := raw, so_Raw := raw\<rparr>)
                else if proto_can_handle raw
                then Inr (empty_source\<lparr>so_Type := SourceProto, so_Path := raw, so_Raw := raw\<rparr>)
                else if directory_can_handle L raw
                then Inr (empty_source\<lparr>so_Type := SourceDirectory, so_Path := raw, so_Raw := raw\<rparr>)
                else if str_contains raw ''://'' then Inl Unknown_Scheme
                else Inr (empty_source\<lparr>so_Type := SourceProto, so_Path := raw, so_Raw := raw\<rparr>)))"

text \<open>The paths of a build, made absolute and without repetitions.\<close>

definition resolved_source :: "source_lib \<Rightarrow> string \<Rightarrow> source_error + string" where
  "resolved_source L path =
     r_map (\<lambda>src. if so_Type src \<in> {SourceBufBuild, SourceReflect, SourceProxy} then path else sl_Abs L path)
       (parse_source L path)"

fun resolve_sources_loop :: "source_lib \<Rightarrow> string list \<Rightarrow> string list \<Rightarrow> source_error + string list" where
  "resolve_sources_loop L seen [] = Inr []"
| "resolve_sources_loop L seen (p # ps) =
     r_bind (resolved_source L p) (\<lambda>q.
       if q \<in> set seen then resolve_sources_loop L seen ps
       else r_map ((#) q) (resolve_sources_loop L (q # seen) ps))"

definition resolve_sources :: "source_lib \<Rightarrow> string list \<Rightarrow> source_error + string list" where
  "resolve_sources L paths = resolve_sources_loop L [] paths"

section \<open>Import roots\<close>

text \<open>An absolute path by its components. \<open>path_rel\<close> is \<^verbatim>\<open>filepath.Rel\<close> on such paths.\<close>

type_synonym dir_path = "string list"

fun common_prefix :: "dir_path \<Rightarrow> dir_path \<Rightarrow> nat" where
  "common_prefix (x # xs) (y # ys) = (if x = y then Suc (common_prefix xs ys) else 0)"
| "common_prefix _ _ = 0"

definition path_rel :: "dir_path \<Rightarrow> dir_path \<Rightarrow> dir_path" where
  "path_rel base targ =
     (let n = common_prefix base targ in replicate (length base - n) ''..'' @ drop n targ)"

definition is_sub_path :: "dir_path \<Rightarrow> dir_path \<Rightarrow> bool" where
  "is_sub_path existing path =
     (case path_rel existing path of [] \<Rightarrow> True | c # _ \<Rightarrow> c \<noteq> ''..'')"

definition path_length :: "dir_path \<Rightarrow> nat" where
  "path_length p = (if p = [] then 1 else sum_list (map (\<lambda>c. Suc (length c)) p))"

fun keep_minimal :: "dir_path list \<Rightarrow> dir_path list \<Rightarrow> dir_path list" where
  "keep_minimal kept [] = kept"
| "keep_minimal kept (p # ps) =
     (if list_ex (\<lambda>e. is_sub_path e p) kept then keep_minimal kept ps else keep_minimal (kept @ [p]) ps)"

definition find_minimal_paths :: "dir_path list \<Rightarrow> dir_path list" where
  "find_minimal_paths paths = keep_minimal [] (sort_key path_length paths)"

section \<open>Processing the sources of a build\<close>

text \<open>The processor of \<^verbatim>\<open>transform_processor.go\<close>: import roots, proto files by their name below a root,
  descriptor files and fetched descriptor sets. \<open>'d\<close> is a descriptor set; the remote client may be missing.\<close>

record 'd processor =
  pr_imports :: "dir_path list"
  pr_protos :: "dir_path list"
  pr_descriptors :: "dir_path list"
  pr_descriptorSets :: "'d list"
  pr_seenDirs :: "dir_path list"
  pr_seenFiles :: "dir_path list"

type_synonym 'd remote_client = "(source \<Rightarrow> string + 'd) option"

datatype file_type = FileTypeProto | FileTypeDescriptor

definition new_processor :: "dir_path list \<Rightarrow> 'd processor" where
  "new_processor imports = \<lparr>pr_imports = imports, pr_protos = [], pr_descriptors = [], pr_descriptorSets = [],
     pr_seenDirs = [], pr_seenFiles = []\<rparr>"

text \<open>The components of a clean absolute path.\<close>

definition path_components :: "string \<Rightarrow> dir_path" where
  "path_components s = filter (\<lambda>c. c \<noteq> '''') (str_split (CHR ''/'') s)"

definition abs_path :: "source_lib \<Rightarrow> string \<Rightarrow> dir_path" where
  "abs_path L p = path_components (sl_Abs L p)"

definition add_import :: "dir_path \<Rightarrow> 'd processor \<Rightarrow> 'd processor" where
  "add_import d p =
     (if d \<in> set (pr_seenDirs p) then p
      else p\<lparr>pr_imports := find_minimal_paths (pr_imports p @ [d]), pr_seenDirs := d # pr_seenDirs p\<rparr>)"

text \<open>The longest root above a file. The sorting is in place: it reorders the roots of the processor. (The order
  \<^verbatim>\<open>sort.Slice\<close> gives to roots of the same length is the given one up to twelve roots.)\<close>

definition by_length_desc :: "dir_path list \<Rightarrow> dir_path list" where
  "by_length_desc ds = sort_key (\<lambda>d. - int (path_length d)) ds"

definition below_root :: "dir_path \<Rightarrow> dir_path \<Rightarrow> bool" where
  "below_root f d \<longleftrightarrow> length d < length f \<and> take (length d) f = d"

definition find_path_by_imports :: "dir_path \<Rightarrow> dir_path list \<Rightarrow> dir_path option" where
  "find_path_by_imports f imports = List.find (below_root f) (by_length_desc imports)"

text \<open>A file below no root is skipped: there is no relative path from the empty one.\<close>

definition add_file :: "file_type \<Rightarrow> dir_path \<Rightarrow> 'd processor \<Rightarrow> 'd processor" where
  "add_file t f p =
     (if f \<in> set (pr_seenFiles p) then p
      else let p = p\<lparr>pr_imports := by_length_desc (pr_imports p)\<rparr>
           in case find_path_by_imports f (pr_imports p) of
                None \<Rightarrow> p
              | Some d \<Rightarrow>
                  (case t of
                     FileTypeProto \<Rightarrow> p\<lparr>pr_protos := pr_protos p @ [path_rel d f], pr_seenFiles := f # pr_seenFiles p\<rparr>
                   | FileTypeDescriptor \<Rightarrow>
                       p\<lparr>pr_descriptors := pr_descriptors p @ [f], pr_seenFiles := f # pr_seenFiles p\<rparr>))"

text \<open>A single file: its directory becomes an import root.\<close>

definition file_source :: "source_lib \<Rightarrow> file_type \<Rightarrow> source \<Rightarrow> 'd processor \<Rightarrow> 'd processor" where
  "file_source L t src p =
     (let f = abs_path L (so_Path src) in add_file t f (add_import (butlast f) p))"

text \<open>The walk of a directory: a descriptor file with its proto file beside it is left out.\<close>

definition descriptor_ext :: "string \<Rightarrow> string option" where
  "descriptor_ext s =
     (if has_suffix s ''.pb'' then Some ''.pb'' else if has_suffix s ''.protoset'' then Some ''.protoset'' else None)"

definition walk_file :: "source_lib \<Rightarrow> string \<Rightarrow> 'd processor \<times> string list \<Rightarrow> 'd processor \<times> string list" where
  "walk_file L pth st =
     (case st of (p, seenProto) \<Rightarrow>
        (let absPath = sl_Abs L pth
         in if has_suffix pth ''.proto'' then (add_file FileTypeProto (path_components absPath) p, absPath # seenProto)
            else case descriptor_ext pth of
                   None \<Rightarrow> (p, seenProto)
                 | Some sfx \<Rightarrow>
                     (let protoPath = take (length absPath - length sfx) absPath @ ''.proto''
                      in if protoPath \<in> set seenProto \<or> sl_Exists L protoPath then (p, seenProto)
                         else (add_file FileTypeDescriptor (path_components absPath) p, seenProto))))"

definition directory_source :: "source_lib \<Rightarrow> source \<Rightarrow> 'd processor \<Rightarrow> source_error + 'd processor" where
  "directory_source L src p =
     (let p = add_import (abs_path L (so_Path src)) p
      in case sl_Walk L (so_Path src) of
           None \<Rightarrow> Inl Walk_Failed
         | Some files \<Rightarrow> Inr (fst (fold (walk_file L) files (p, []))))"

definition remote_source :: "'d remote_client \<Rightarrow> source \<Rightarrow> 'd processor \<Rightarrow> source_error + 'd processor" where
  "remote_source rc src p =
     (case rc of
        None \<Rightarrow> Inr p
      | Some fetch \<Rightarrow>
          (case fetch src of
             Inl e \<Rightarrow> Inl (Fetch_Failed e)
           | Inr fds \<Rightarrow> Inr (p\<lparr>pr_descriptorSets := pr_descriptorSets p @ [fds]\<rparr>)))"

definition process_source ::
  "source_lib \<Rightarrow> 'd remote_client \<Rightarrow> source \<Rightarrow> 'd processor \<Rightarrow> source_error + 'd processor" where
  "process_source L rc src p =
     (case so_Type src of
        SourceUnknown \<Rightarrow> Inr p
      | SourceProxy \<Rightarrow> Inr p
      | SourceBufBuild \<Rightarrow> remote_source rc src p
      | SourceReflect \<Rightarrow> remote_source rc src p
      | SourceProto \<Rightarrow> Inr (file_source L FileTypeProto src p)
      | SourceDescriptor \<Rightarrow> Inr (file_source L FileTypeDescriptor src p)
      | SourceDirectory \<Rightarrow> directory_source L src p)"

fun process_paths ::
  "source_lib \<Rightarrow> 'd remote_client \<Rightarrow> string list \<Rightarrow> 'd processor \<Rightarrow> source_error + 'd processor" where
  "process_paths L rc [] p = Inr p"
| "process_paths L rc (path # paths) p =
     r_bind (parse_source L path) (\<lambda>src. r_bind (process_source L rc src p) (process_paths L rc paths))"

text \<open>\<^verbatim>\<open>Build\<close> up to the compilation: the configuration the compiler is given.\<close>

definition build_configure ::
  "source_lib \<Rightarrow> 'd remote_client \<Rightarrow> string list \<Rightarrow> string list \<Rightarrow> source_error + 'd processor" where
  "build_configure L rc imports paths =
     r_bind (resolve_sources L paths) (\<lambda>sources.
       process_paths L rc sources (new_processor (find_minimal_paths (map (abs_path L) imports))))"

section \<open>Which sources belong to which upstream\<close>

definition is_bare_source_flag :: "string \<Rightarrow> bool" where
  "is_bare_source_flag arg \<longleftrightarrow> arg = ''-S'' \<or> arg = ''--source''"

definition cut_prefix :: "string \<Rightarrow> string \<Rightarrow> string option" where
  "cut_prefix s p = (if has_prefix s p then Some (drop (length p) s) else None)"

definition inline_source_value :: "string \<Rightarrow> string option" where
  "inline_source_value arg =
     (case List.map_filter (\<lambda>p. case cut_prefix arg p of Some v \<Rightarrow> if v \<noteq> '''' then Some v else None | None \<Rightarrow> None)
             [''-S='', ''--source='', ''-S''] of
        [] \<Rightarrow> None | v # _ \<Rightarrow> Some v)"

text \<open>The value of a source flag at an argument, with the arguments before and after it; the value itself is an
  empty one, as it was taken with its flag.\<close>

definition source_flag_value :: "string option \<Rightarrow> string \<Rightarrow> string option \<Rightarrow> string option" where
  "source_flag_value before arg after =
     (case inline_source_value arg of
        Some v \<Rightarrow> Some v
      | None \<Rightarrow>
          (if is_bare_source_flag arg then Some (case after of Some v \<Rightarrow> v | None \<Rightarrow> '''')
           else if (case before of Some b \<Rightarrow> is_bare_source_flag b | None \<Rightarrow> False) then Some ''''
           else None))"

definition next_arg :: "string list \<Rightarrow> string option" where
  "next_arg args = (case args of [] \<Rightarrow> None | a # _ \<Rightarrow> Some a)"

definition is_proxy_url :: "source_lib \<Rightarrow> string \<Rightarrow> bool" where
  "is_proxy_url L arg = (case parse_source L arg of Inl _ \<Rightarrow> False | Inr src \<Rightarrow> so_ProxyMode src \<noteq> '''')"

type_synonym proxy_binding = "string \<times> string list"

fun scan_loop ::
  "(string \<Rightarrow> bool) \<Rightarrow> string option \<Rightarrow> string list \<Rightarrow> proxy_binding list \<times> string list \<times> bool
     \<Rightarrow> proxy_binding list \<times> string list \<times> bool" where
  "scan_loop isurl before [] st = st"
| "scan_loop isurl before (arg # args) (bindings, pending, saw) =
     (case source_flag_value before arg (next_arg args) of
        Some v \<Rightarrow> scan_loop isurl (Some arg) args (bindings, if v \<noteq> '''' then pending @ [v] else pending, True)
      | None \<Rightarrow>
          (if isurl arg then scan_loop isurl (Some arg) args (bindings @ [(arg, pending)], [], saw)
           else scan_loop isurl (Some arg) args (bindings, pending, saw)))"

definition scan_bindings :: "(string \<Rightarrow> bool) \<Rightarrow> string list \<Rightarrow> proxy_binding list \<times> string list \<times> bool" where
  "scan_bindings isurl args = scan_loop isurl None args ([], [], False)"

fun proto_path_loop :: "(string \<Rightarrow> bool) \<Rightarrow> string option \<Rightarrow> string list \<Rightarrow> string list" where
  "proto_path_loop isurl before [] = []"
| "proto_path_loop isurl before (arg # args) =
     (if source_flag_value before arg (next_arg args) \<noteq> None \<or> isurl arg then proto_path_loop isurl (Some arg) args
      else arg # proto_path_loop isurl (Some arg) args)"

definition proto_path_from :: "(string \<Rightarrow> bool) \<Rightarrow> string list \<Rightarrow> string list" where
  "proto_path_from isurl positional = proto_path_loop isurl None positional"

fun dedup_first :: "string list \<Rightarrow> string list \<Rightarrow> string list" where
  "dedup_first seen [] = []"
| "dedup_first seen (x # xs) = (if x \<in> set seen then dedup_first seen xs else x # dedup_first (x # seen) xs)"

definition merge_sources :: "string list \<Rightarrow> string list \<Rightarrow> string list" where
  "merge_sources cmd_sources scanned = dedup_first [] (cmd_sources @ scanned)"

record arguments =
  ar_protoPath :: "string list"
  ar_imports :: "string list"
  ar_sources :: "string list"
  ar_proxyBindings :: "proxy_binding list option"

definition parse_arguments_with_bindings ::
  "(string \<Rightarrow> bool) \<Rightarrow> string list \<Rightarrow> string list \<Rightarrow> string list \<Rightarrow> string list \<Rightarrow> arguments" where
  "parse_arguments_with_bindings isurl positional rawArgs imports cmdSources =
     (let (bindings, trailing, saw) = scan_bindings isurl rawArgs; protoPath = proto_path_from isurl positional
      in case bindings of
           [] \<Rightarrow> \<lparr>ar_protoPath = protoPath, ar_imports = imports, ar_sources = merge_sources cmdSources trailing,
                  ar_proxyBindings = None\<rparr>
         | (u, srcs) # rest \<Rightarrow>
             (let bindings = (if \<not> saw \<and> cmdSources \<noteq> [] \<and> srcs = [] then (u, cmdSources) # rest else bindings)
              in \<lparr>ar_protoPath = protoPath, ar_imports = imports, ar_sources = [], ar_proxyBindings = Some bindings\<rparr>))"

section \<open>Registering descriptor files\<close>

text \<open>\<open>'r\<close> is the registry of the protobuf library and \<open>'f\<close> a file. \<open>fl_Registered\<close> says that a file of the name is
  there, \<open>fl_New\<close> builds the descriptor against the registry or fails, \<open>fl_Register\<close> adds it: a conflict of symbols
  panics and is skipped.\<close>

datatype 'r register_result = Registered 'r | Register_Conflict | Register_Failed string

record ('r, 'f) file_lib =
  fl_Registered :: "'r \<Rightarrow> 'f \<Rightarrow> bool"
  fl_New :: "'r \<Rightarrow> 'f \<Rightarrow> string option"
  fl_Register :: "'r \<Rightarrow> 'f \<Rightarrow> 'r register_result"

text \<open>One pass over the pending files: the registry, the files left, whether one was settled, and the last error.\<close>

fun register_pass ::
  "('r, 'f) file_lib \<Rightarrow> 'f list \<Rightarrow> 'r \<times> 'f list \<times> bool \<times> string \<Rightarrow> 'r \<times> 'f list \<times> bool \<times> string" where
  "register_pass F [] st = st"
| "register_pass F (fd # fds) (reg, later, progress, err) =
     (if fl_Registered F reg fd then register_pass F fds (reg, later, True, err)
      else case fl_New F reg fd of
             Some e \<Rightarrow> register_pass F fds (reg, later @ [fd], progress, e)
           | None \<Rightarrow>
               (case fl_Register F reg fd of
                  Register_Conflict \<Rightarrow> register_pass F fds (reg, later, True, err)
                | Register_Failed e \<Rightarrow> register_pass F fds (reg, later @ [fd], progress, e)
                | Registered reg' \<Rightarrow> register_pass F fds (reg', later, True, err)))"

lemma register_pass_length:
  "register_pass F fds (reg, later, progress, err) = (reg', later', progress', err') \<Longrightarrow>
     length later' \<le> length later + length fds \<and> (progress' \<and> \<not> progress \<longrightarrow> length later' < length later + length fds)"
  by (induction F fds "(reg, later, progress, err)" arbitrary: reg later progress err rule: register_pass.induct)
    (fastforce split: if_splits option.splits register_result.splits)+

function register_descriptor_set_files :: "('r, 'f) file_lib \<Rightarrow> 'r \<Rightarrow> 'f list \<Rightarrow> string option \<times> 'r" where
  "register_descriptor_set_files F reg pending =
     (if pending = [] then (None, reg)
      else case register_pass F pending (reg, [], False, '''') of
             (reg', later, progress, err) \<Rightarrow>
               (if later = [] then (None, reg')
                else if \<not> progress then (Some err, reg')
                else register_descriptor_set_files F reg' later))"
  by pat_completeness auto
termination
  by (relation "measure (\<lambda>(F, reg, pending). length pending)") (auto dest!: register_pass_length [OF sym])

declare register_descriptor_set_files.simps [simp del]

section \<open>Building the descriptors\<close>

text \<open>What compiles and reads: \<open>cl_Read\<close> is a descriptor file, unmarshalled, and \<open>cl_Compile\<close> the compiler of
  the proto files below the import roots. A descriptor set is its list of files.\<close>

record 'f compile_lib =
  cl_Read :: "dir_path \<Rightarrow> string + 'f list"
  cl_Compile :: "dir_path list \<Rightarrow> dir_path list \<Rightarrow> string + 'f list"

datatype build_error = Build_Source source_error | Build_Read string | Build_Register string | Build_Compile string

definition register_global_file_once :: "('r, 'f) file_lib \<Rightarrow> 'f \<Rightarrow> 'r \<Rightarrow> build_error + 'r" where
  "register_global_file_once F fd reg =
     (if fl_Registered F reg fd then Inr reg
      else case fl_Register F reg fd of
             Registered reg' \<Rightarrow> Inr reg'
           | Register_Conflict \<Rightarrow> Inr reg
           | Register_Failed e \<Rightarrow> Inl (Build_Register e))"

fun register_compiled :: "('r, 'f) file_lib \<Rightarrow> 'f list \<Rightarrow> 'r \<Rightarrow> build_error + 'r" where
  "register_compiled F [] reg = Inr reg"
| "register_compiled F (fd # fds) reg = r_bind (register_global_file_once F fd reg) (register_compiled F fds)"

definition create_descriptor_set ::
  "('r, 'f) file_lib \<Rightarrow> 'f compile_lib \<Rightarrow> 'f list processor \<Rightarrow> 'r \<Rightarrow> build_error + 'f list \<times> 'r" where
  "create_descriptor_set F C conf reg =
     (case cl_Compile C (pr_imports conf) (pr_protos conf) of
        Inl e \<Rightarrow> Inl (Build_Compile e)
      | Inr files \<Rightarrow> r_map (\<lambda>reg. (files, reg)) (register_compiled F files reg))"

fun read_descriptors ::
  "('r, 'f) file_lib \<Rightarrow> 'f compile_lib \<Rightarrow> dir_path list \<Rightarrow> 'f list list \<times> 'r \<Rightarrow> build_error + 'f list list \<times> 'r" where
  "read_descriptors F C [] st = Inr st"
| "read_descriptors F C (d # ds) (results, reg) =
     (case cl_Read C d of
        Inl e \<Rightarrow> Inl (Build_Read e)
      | Inr fds \<Rightarrow>
          (case register_descriptor_set_files F reg fds of
             (Some e, _) \<Rightarrow> Inl (Build_Register e)
           | (None, reg) \<Rightarrow> read_descriptors F C ds (results @ [fds], reg)))"

fun add_descriptor_sets ::
  "('r, 'f) file_lib \<Rightarrow> 'f list list \<Rightarrow> 'f list list \<times> 'r \<Rightarrow> build_error + 'f list list \<times> 'r" where
  "add_descriptor_sets F [] st = Inr st"
| "add_descriptor_sets F (fds # sets) (results, reg) =
     (case register_descriptor_set_files F reg fds of
        (Some e, _) \<Rightarrow> Inl (Build_Register e)
      | (None, reg) \<Rightarrow> add_descriptor_sets F sets (results @ [fds], reg))"

definition compile_configure ::
  "('r, 'f) file_lib \<Rightarrow> 'f compile_lib \<Rightarrow> 'f list processor \<Rightarrow> 'r \<Rightarrow> build_error + 'f list list \<times> 'r" where
  "compile_configure F C conf reg =
     r_bind (read_descriptors F C (pr_descriptors conf) ([], reg)) (\<lambda>st.
     r_bind (add_descriptor_sets F (pr_descriptorSets conf) st) (\<lambda>(results, reg).
       if pr_protos conf \<noteq> []
       then r_map (\<lambda>(fds, reg). (results @ [fds], reg)) (create_descriptor_set F C conf reg)
       else Inr (results, reg)))"

definition build_sources ::
  "source_lib \<Rightarrow> ('r, 'f) file_lib \<Rightarrow> 'f compile_lib \<Rightarrow> 'f list remote_client \<Rightarrow> string list \<Rightarrow> string list \<Rightarrow> 'r
     \<Rightarrow> build_error + 'f list list \<times> 'r" where
  "build_sources L F C rc imports paths reg =
     (case build_configure L rc imports paths of
        Inl e \<Rightarrow> Inl (Build_Source e)
      | Inr conf \<Rightarrow> compile_configure F C conf reg)"

end
