(* ===== verification/Routes.thy ===== *)
theory Routes
  imports Sources Mocker
begin

text \<open>
  The routes to the upstreams (\<^verbatim>\<open>internal/infra/proxyroutes/routes.go\<close>) and the descriptors and routes a
  server starts with (\<^verbatim>\<open>grpc_proxy_build.go\<close>, \<^verbatim>\<open>GRPCServer.Build\<close>). A Go map is an association list; the
  order in which it is walked is a parameter. The descriptors of an upstream and the connection to it are those of
  the remote client and of \<^verbatim>\<open>grpc.NewClient\<close>.
\<close>

section \<open>Services of descriptors\<close>

record service_proto =
  sp_Name :: string
  sp_Methods :: "string list"

record file_proto =
  fp_Name :: string
  fp_Package :: string
  fp_Services :: "service_proto list"

type_synonym service_methods = "(string \<times> string list) list"

fun append_methods :: "string \<Rightarrow> string list \<Rightarrow> service_methods \<Rightarrow> service_methods" where
  "append_methods s ms [] = [(s, ms)]"
| "append_methods s ms ((s', ms') # rest) =
     (if s = s' then (s', ms' @ ms) # rest else (s', ms') # append_methods s ms rest)"

definition full_service_name :: "file_proto \<Rightarrow> service_proto \<Rightarrow> string" where
  "full_service_name f s = (if fp_Package f \<noteq> '''' then fp_Package f @ ''.'' @ sp_Name s else sp_Name s)"

definition method_path :: "string \<Rightarrow> string \<Rightarrow> string" where
  "method_path s m = ''/'' @ s @ ''/'' @ m"

definition collect_file :: "file_proto \<Rightarrow> service_methods \<Rightarrow> service_methods" where
  "collect_file f sm =
     fold (\<lambda>s. append_methods (full_service_name f s) (map (method_path (full_service_name f s)) (sp_Methods s)))
       (fp_Services f) sm"

definition collect_service_methods :: "file_proto list \<Rightarrow> service_methods" where
  "collect_service_methods fds = fold collect_file fds []"

definition collect_service_methods_All :: "file_proto list list \<Rightarrow> service_methods" where
  "collect_service_methods_All sets =
     fold (\<lambda>fds. fold (\<lambda>(s, ms). append_methods s ms) (collect_service_methods fds)) sets []"

section \<open>Routes\<close>

record route =
  rt_Source :: source
  rt_Mode :: proxy_mode

record registry =
  rg_routes :: "route list"
  rg_index :: "(string \<times> route) list"
  rg_assigned :: "string list"
  rg_files :: "file_proto list list"

text \<open>\<open>rg_assigned\<close> is the set of assigned services, which lives while the registry is built.\<close>

definition empty_registry :: registry where
  "empty_registry = \<lparr>rg_routes = [], rg_index = [], rg_assigned = [], rg_files = []\<rparr>"

datatype route_error = Route_Source source_error | No_Remote_Client | Route_Fetch string | Route_Dial string

record route_lib =
  rl_Client :: "file_proto list remote_client"
  rl_Dial :: "source \<Rightarrow> string option"
  rl_Order :: "nat \<Rightarrow> service_methods \<Rightarrow> service_methods"

definition map_mode :: "string \<Rightarrow> proxy_mode" where
  "map_mode mode =
     (if mode = ''proxy'' then ModeProxy else if mode = ''capture'' then ModeCapture
      else if mode = ''replay'' then ModeReplay else ModeProxy)"

definition index_method :: "route \<Rightarrow> string \<Rightarrow> (string \<times> route) list \<Rightarrow> (string \<times> route) list" where
  "index_method r m idx = (if map_of idx m = None then (m, r) # idx else idx)"

definition bind_service :: "route \<Rightarrow> string \<times> string list \<Rightarrow> registry \<Rightarrow> registry" where
  "bind_service r sm g =
     (case sm of (s, ms) \<Rightarrow>
        if s \<in> set (rg_assigned g) then g
        else g\<lparr>rg_assigned := s # rg_assigned g, rg_index := fold (index_method r) ms (rg_index g)\<rparr>)"

definition bind_services :: "route \<Rightarrow> service_methods \<Rightarrow> registry \<Rightarrow> registry" where
  "bind_services r sm g = fold (bind_service r) sm g"

definition resolve_service_methods ::
  "route_lib \<Rightarrow> source \<Rightarrow> service_methods \<Rightarrow> route_error + file_proto list option \<times> service_methods" where
  "resolve_service_methods R src local_services =
     (if local_services \<noteq> [] then Inr (None, local_services)
      else case rl_Client R of
             None \<Rightarrow> Inl No_Remote_Client
           | Some fetch \<Rightarrow>
               (case fetch src of
                  Inl e \<Rightarrow> Inl (Route_Fetch e)
                | Inr fds \<Rightarrow> Inr (Some fds, collect_service_methods fds)))"

definition build_route ::
  "route_lib \<Rightarrow> source \<Rightarrow> service_methods \<Rightarrow> route_error + route \<times> file_proto list option \<times> service_methods" where
  "build_route R src local_services =
     r_bind (resolve_service_methods R src local_services) (\<lambda>(fds, sm).
       case rl_Dial R src of
         Some e \<Rightarrow> Inl (Route_Dial e)
       | None \<Rightarrow> Inr (\<lparr>rt_Source = src, rt_Mode = map_mode (so_ProxyMode src)\<rparr>, fds, sm))"

text \<open>The services of a route are bound in the order its map is walked.\<close>

definition add_route ::
  "route_lib \<Rightarrow> route \<times> file_proto list option \<times> service_methods \<Rightarrow> registry \<Rightarrow> registry" where
  "add_route R built g =
     (case built of (r, fds, sm) \<Rightarrow>
        (let g = bind_services r (rl_Order R (length (rg_routes g)) sm) g
         in g\<lparr>rg_routes := rg_routes g @ [r],
              rg_files := rg_files g @ (case fds of None \<Rightarrow> [] | Some f \<Rightarrow> [f])\<rparr>))"

fun parse_proxy_sources :: "source_lib \<Rightarrow> string list \<Rightarrow> source_error + source list" where
  "parse_proxy_sources L [] = Inr []"
| "parse_proxy_sources L (p # ps) =
     r_bind (parse_source L p) (\<lambda>src.
       r_map (\<lambda>srcs. if so_ProxyMode src = '''' then srcs else src # srcs) (parse_proxy_sources L ps))"

fun route_sources :: "route_lib \<Rightarrow> service_methods \<Rightarrow> source list \<Rightarrow> registry \<Rightarrow> route_error + registry" where
  "route_sources R local_services [] g = Inr g"
| "route_sources R local_services (src # srcs) g =
     r_bind (build_route R src local_services) (\<lambda>built. route_sources R local_services srcs (add_route R built g))"

definition new_registry ::
  "source_lib \<Rightarrow> route_lib \<Rightarrow> string list \<Rightarrow> file_proto list list \<Rightarrow> route_error + registry" where
  "new_registry L R paths local_descriptors =
     (case parse_proxy_sources L paths of
        Inl e \<Rightarrow> Inl (Route_Source e)
      | Inr sources \<Rightarrow>
          route_sources R (if length sources > 1 then [] else collect_service_methods_All local_descriptors) sources
            empty_registry)"

text \<open>One binding after the other: an upstream and its own descriptors.\<close>

definition route_binding ::
  "source_lib \<Rightarrow> route_lib \<Rightarrow> string \<times> file_proto list list \<Rightarrow> registry \<Rightarrow> route_error + registry" where
  "route_binding L R b g =
     (case parse_source L (fst b) of
        Inl e \<Rightarrow> Inl (Route_Source e)
      | Inr src \<Rightarrow>
          (if so_ProxyMode src = '''' then Inr g
           else r_map (\<lambda>built. add_route R built (g\<lparr>rg_files := rg_files g @ snd b\<rparr>))
                  (build_route R src (collect_service_methods_All (snd b)))))"

fun new_with_per_proxy_descriptors ::
  "source_lib \<Rightarrow> route_lib \<Rightarrow> (string \<times> file_proto list list) list \<Rightarrow> registry \<Rightarrow> route_error + registry" where
  "new_with_per_proxy_descriptors L R [] g = Inr g"
| "new_with_per_proxy_descriptors L R (b # bs) g =
     r_bind (route_binding L R b g) (new_with_per_proxy_descriptors L R bs)"

definition route_by_method :: "registry option \<Rightarrow> string \<Rightarrow> route option" where
  "route_by_method g m = (case g of None \<Rightarrow> None | Some g \<Rightarrow> map_of (rg_index g) m)"

text \<open>The time limit a route gives a call: none over a deadline of the caller, none without a timeout of the source,
  and none to a stream.\<close>

definition route_timeout :: "route option \<Rightarrow> bool \<Rightarrow> int option" where
  "route_timeout r has_deadline =
     (case r of
        None \<Rightarrow> None
      | Some r \<Rightarrow> (if has_deadline \<or> so_Timeout (rt_Source r) \<le> 0 then None else Some (so_Timeout (rt_Source r))))"

definition route_stream_timeout :: "route option \<Rightarrow> bool \<Rightarrow> (bool \<times> bool) option \<Rightarrow> int option" where
  "route_stream_timeout r has_deadline desc =
     (case desc of
        Some (server_streams, client_streams) \<Rightarrow>
          (if server_streams \<or> client_streams then None else route_timeout r has_deadline)
      | None \<Rightarrow> route_timeout r has_deadline)"

section \<open>What a server starts with\<close>

type_synonym 'r build = "string list \<Rightarrow> string list \<Rightarrow> 'r \<Rightarrow> build_error + file_proto list list \<times> 'r"

datatype start_error = Start_Build build_error | Start_Routes route_error

definition build_failed :: "build_error + 'a \<Rightarrow> start_error + 'a" where
  "build_failed x = (case x of Inl e \<Rightarrow> Inl (Start_Build e) | Inr a \<Rightarrow> Inr a)"

definition routes_failed :: "route_error + 'a \<Rightarrow> start_error + 'a" where
  "routes_failed x = (case x of Inl e \<Rightarrow> Inl (Start_Routes e) | Inr a \<Rightarrow> Inr a)"

fun binding_descriptors ::
  "'r build \<Rightarrow> string list \<Rightarrow> proxy_binding list \<Rightarrow> 'r \<Rightarrow> start_error + (string \<times> file_proto list list) list \<times> 'r" where
  "binding_descriptors B imports [] reg = Inr ([], reg)"
| "binding_descriptors B imports ((u, srcs) # bs) reg =
     r_bind (if srcs \<noteq> [] then build_failed (B imports srcs reg) else Inr ([], reg)) (\<lambda>(ds, reg).
       r_map (\<lambda>(rest, reg). ((u, ds) # rest, reg)) (binding_descriptors B imports bs reg))"

definition build_proxies_with_bindings ::
  "'r build \<Rightarrow> source_lib \<Rightarrow> route_lib \<Rightarrow> string list \<Rightarrow> proxy_binding list \<Rightarrow> 'r
     \<Rightarrow> start_error + file_proto list list \<times> registry \<times> 'r" where
  "build_proxies_with_bindings B L R imports bindings reg =
     r_bind (binding_descriptors B imports bindings reg) (\<lambda>(bs, reg).
       r_map (\<lambda>g. (rg_files g, g, reg)) (routes_failed (new_with_per_proxy_descriptors L R bs empty_registry)))"

definition build_proxies_from_sources ::
  "'r build \<Rightarrow> source_lib \<Rightarrow> route_lib \<Rightarrow> string list \<Rightarrow> string list \<Rightarrow> string list \<Rightarrow> 'r
     \<Rightarrow> start_error + file_proto list list \<times> registry \<times> 'r" where
  "build_proxies_from_sources B L R imports protoPaths sources reg =
     (let allPaths = protoPaths @ sources
      in r_bind (if allPaths \<noteq> [] then build_failed (B imports allPaths reg) else Inr ([], reg)) (\<lambda>(ds, reg).
           r_map (\<lambda>g. (ds, g, reg)) (routes_failed (new_registry L R allPaths ds))))"

text \<open>The registration of the descriptors of the upstreams only logs what fails.\<close>

definition register_proxy_descriptors :: "('r, file_proto) file_lib \<Rightarrow> registry \<Rightarrow> 'r \<Rightarrow> 'r" where
  "register_proxy_descriptors F g reg = fold (\<lambda>fds reg. snd (register_descriptor_set_files F reg fds)) (rg_files g) reg"

text \<open>The descriptors whose services are registered, and the routes.\<close>

definition server_descriptors ::
  "('r, file_proto) file_lib \<Rightarrow> 'r build \<Rightarrow> source_lib \<Rightarrow> route_lib \<Rightarrow> arguments \<Rightarrow> 'r
     \<Rightarrow> start_error + file_proto list list \<times> registry \<times> 'r" where
  "server_descriptors F B L R params reg =
     (case ar_proxyBindings params of
        Some bindings \<Rightarrow>
          r_bind (build_proxies_with_bindings B L R (ar_imports params) bindings reg) (\<lambda>(ds, g, reg).
            (let reg = register_proxy_descriptors F g reg
             in if ar_protoPath params \<noteq> []
                then r_map (\<lambda>(nonProxy, reg). (ds @ nonProxy, g, reg))
                       (build_failed (B (ar_imports params) (ar_protoPath params) reg))
                else Inr (ds, g, reg)))
      | None \<Rightarrow>
          r_map (\<lambda>(ds, g, reg). (ds @ rg_files g, g, register_proxy_descriptors F g reg))
            (build_proxies_from_sources B L R (ar_imports params) (ar_protoPath params) (ar_sources params) reg))"

end
