(* ===== verification/Sources_Claims.thy ===== *)
theory Sources_Claims
  imports Routes "HOL-Library.Sublist"
begin

text \<open>
  What the sources, the bindings of a command line, the registration of descriptors and the routes do: which import
  roots are kept, that files are found below them, that arguments are read back as they were written, that the order
  of files does not matter, and which upstream serves a method.
\<close>

section \<open>Import roots\<close>

definition clean_path :: "dir_path \<Rightarrow> bool" where
  "clean_path p \<longleftrightarrow> ''..'' \<notin> set p \<and> '''' \<notin> set p"

lemma common_prefix_le: "common_prefix xs ys \<le> length xs"
  by (induction xs ys rule: common_prefix.induct) auto

lemma common_prefix_full: "common_prefix xs ys = length xs \<longleftrightarrow> prefix xs ys"
  by (induction xs ys rule: common_prefix.induct) auto

lemma path_rel_below [simp]: "path_rel d (d @ r) = r"
  using common_prefix_full [of d "d @ r"] by (simp add: path_rel_def)

lemma is_sub_path_prefix: "clean_path p \<Longrightarrow> is_sub_path e p \<longleftrightarrow> prefix e p"
proof (cases "prefix e p")
  case True
  assume "clean_path p"
  with True show ?thesis
    by (auto simp: is_sub_path_def clean_path_def prefix_def split: list.splits)
next
  case False
  have "common_prefix e p < length e"
    using common_prefix_le [of e p] False by (auto simp: common_prefix_full [symmetric] le_less)
  then obtain k where "length e - common_prefix e p = Suc k" using Suc_diff_Suc by metis
  with False show ?thesis by (simp add: is_sub_path_def path_rel_def)
qed

lemma path_length_strict:
  assumes "prefix p q" "p \<noteq> q" "clean_path q"
  shows "path_length p < path_length q"
proof -
  from assms(1,2) obtain z where "q = p @ z" "z \<noteq> []" by (auto simp: prefix_def)
  then obtain c r where q: "q = p @ c # r" by (cases z) auto
  with assms(3) have "c \<noteq> ''''" by (auto simp: clean_path_def)
  with q show ?thesis by (cases c) (auto simp: path_length_def)
qed

text \<open>Once sorted, a path is below a kept one or below none that comes later.\<close>

lemma keep_minimal_set:
  assumes "sorted (map path_length (kept @ ps))" and "list_all clean_path (kept @ ps)"
    and "\<And>x y. x \<in> set kept \<Longrightarrow> y \<in> set kept \<Longrightarrow> prefix x y \<Longrightarrow> x = y" and "distinct kept"
  shows "set (keep_minimal kept ps) = {p \<in> set (kept @ ps). \<forall>q \<in> set (kept @ ps). prefix q p \<longrightarrow> q = p}
    \<and> distinct (keep_minimal kept ps)"
  using assms
proof (induction kept ps rule: keep_minimal.induct)
  case (1 kept)
  then show ?case by auto
next
  case (2 kept p ps)
  have clean: "clean_path p" using 2(4) by simp
  have later: "\<not> (prefix p x \<and> p \<noteq> x)" if "x \<in> set kept" for x
  proof
    assume *: "prefix p x \<and> p \<noteq> x"
    have "clean_path x" using 2(4) that by (auto simp: list_all_iff)
    with * have "path_length p < path_length x" by (blast intro: path_length_strict)
    moreover have "path_length x \<le> path_length p" using 2(3) that by (simp add: sorted_append)
    ultimately show False by simp
  qed
  show ?case
  proof (cases "list_ex (\<lambda>e. is_sub_path e p) kept")
    case True
    then obtain e where e: "e \<in> set kept" "prefix e p"
      using clean by (auto simp: list_ex_iff is_sub_path_prefix)
    have *: "sorted (map path_length (kept @ ps))" "list_all clean_path (kept @ ps)"
      using 2(3,4) by (auto simp: sorted_append)
    have "{x \<in> set (kept @ ps). \<forall>q \<in> set (kept @ ps). prefix q x \<longrightarrow> q = x}
        = {x \<in> set (kept @ p # ps). \<forall>q \<in> set (kept @ p # ps). prefix q x \<longrightarrow> q = x}"
      using e by (auto dest: prefix_order.trans)
    with 2(1) [OF True * 2(5,6)] True show ?thesis by simp
  next
    case False
    then have none: "\<not> prefix e p" if "e \<in> set kept" for e
      using clean that by (auto simp: list_ex_iff is_sub_path_prefix)
    have "set (keep_minimal (kept @ [p]) ps)
        = {x \<in> set ((kept @ [p]) @ ps). \<forall>q \<in> set ((kept @ [p]) @ ps). prefix q x \<longrightarrow> q = x}
        \<and> distinct (keep_minimal (kept @ [p]) ps)"
    proof (rule 2(2) [OF False])
      show "x = y" if "x \<in> set (kept @ [p])" "y \<in> set (kept @ [p])" "prefix x y" for x y
        using that none later 2(5) by auto
      show "distinct (kept @ [p])" using none 2(6) by auto
    qed (use 2(3,4) in simp_all)
    with False show ?thesis by simp
  qed
qed

text \<open>The import roots that are kept are exactly the ones below no other: \<open>findMinimalPaths\<close> leaves out a root when
  another one holds it, keeps the rest, and has none twice.\<close>

lemma minimal_paths:
  assumes "list_all clean_path paths"
  shows "set (find_minimal_paths paths) = {p \<in> set paths. \<forall>q \<in> set paths. prefix q p \<longrightarrow> q = p}
    \<and> distinct (find_minimal_paths paths)"
  using keep_minimal_set [of "[]" "sort_key path_length paths"] assms
  by (simp add: find_minimal_paths_def list_all_iff)

section \<open>Files below their roots\<close>

lemma set_by_length_desc [simp]: "set (by_length_desc ds) = set ds"
  by (simp add: by_length_desc_def)

definition found_below :: "dir_path list \<Rightarrow> dir_path list \<Rightarrow> dir_path \<Rightarrow> bool" where
  "found_below roots protos f \<longleftrightarrow> (\<exists>root \<in> set roots. \<exists>rel \<in> set protos. root @ rel = f)"

definition antichain :: "dir_path list \<Rightarrow> bool" where
  "antichain ds \<longleftrightarrow> (\<forall>x \<in> set ds. \<forall>y \<in> set ds. prefix x y \<longrightarrow> x = y)"

text \<open>Between two sources: \<open>K\<close> are the roots there have been and \<open>fs\<close> the files so far.\<close>

definition sources_placed :: "dir_path set \<Rightarrow> dir_path set \<Rightarrow> 'd processor \<Rightarrow> bool" where
  "sources_placed K fs p \<longleftrightarrow>
     set (pr_imports p) \<subseteq> K \<and> antichain (pr_imports p) \<and> list_all clean_path (pr_imports p) \<and>
     (\<forall>d \<in> set (pr_seenDirs p). \<exists>r \<in> set (pr_imports p). prefix r d) \<and>
     set (pr_seenFiles p) = fs \<and> (\<forall>f \<in> fs. found_below (pr_imports p) (pr_protos p) f)"

lemma add_import_placed:
  assumes "sources_placed K fs p" and "clean_path d" and "\<And>r. r \<in> K \<Longrightarrow> \<not> strict_prefix d r"
  shows "sources_placed (insert d K) fs (add_import d p)"
    and "\<exists>r \<in> set (pr_imports (add_import d p)). prefix r d"
proof -
  let ?I = "pr_imports p @ [d]"
  have set: "set (find_minimal_paths ?I) = {x \<in> set ?I. \<forall>q \<in> set ?I. prefix q x \<longrightarrow> q = x}"
    using minimal_paths [of ?I] assms(1,2) by (simp add: sources_placed_def)
  have keep: "set (pr_imports p) \<subseteq> set (find_minimal_paths ?I)"
    using assms(1,3) by (auto simp: set sources_placed_def antichain_def strict_prefix_def)
  have below: "\<exists>r \<in> set (find_minimal_paths ?I). prefix r d"
  proof (cases "\<exists>q \<in> set (pr_imports p). prefix q d")
    case True
    with keep show ?thesis by blast
  next
    case False
    then have "d \<in> set (find_minimal_paths ?I)" by (auto simp: set)
    then show ?thesis by blast
  qed
  have chain: "antichain (find_minimal_paths ?I)" by (auto simp: set antichain_def)
  have clean: "list_all clean_path (find_minimal_paths ?I)"
    using assms(1,2) by (auto simp: set sources_placed_def list_all_iff)
  show "\<exists>r \<in> set (pr_imports (add_import d p)). prefix r d"
    using below assms(1) by (auto simp: add_import_def sources_placed_def)
  show "sources_placed (insert d K) fs (add_import d p)"
  proof (cases "d \<in> set (pr_seenDirs p)")
    case True
    with assms(1) show ?thesis by (auto simp: add_import_def sources_placed_def)
  next
    case False
    have "set (find_minimal_paths ?I) \<subseteq> insert d K" using assms(1) by (auto simp: set sources_placed_def)
    moreover have "found_below (find_minimal_paths ?I) (pr_protos p) f" if "f \<in> fs" for f
      using assms(1) keep that by (fastforce simp: sources_placed_def found_below_def)
    moreover have "\<exists>r \<in> set (find_minimal_paths ?I). prefix r x" if "x \<in> set (pr_seenDirs p)" for x
      using assms(1) keep that unfolding sources_placed_def by blast
    ultimately show ?thesis
      using False assms(1) below chain clean by (simp add: add_import_def sources_placed_def)
  qed
qed

lemma below_root_append: "below_root f d \<Longrightarrow> \<exists>r. f = d @ r"
  by (metis append_take_drop_id below_root_def)

lemma add_file_placed:
  assumes "sources_placed K fs p" and "r \<in> set (pr_imports p)" and "below_root f r"
  shows "sources_placed K (insert f fs) (add_file FileTypeProto f p)"
proof (cases "f \<in> set (pr_seenFiles p)")
  case True
  with assms(1) show ?thesis by (simp add: add_file_def sources_placed_def insert_absorb)
next
  case False
  let ?I = "by_length_desc (pr_imports p)"
  obtain d where d: "find_path_by_imports f ?I = Some d"
    using assms(2,3) by (cases "find_path_by_imports f ?I") (auto simp: find_path_by_imports_def find_None_iff)
  then have "d \<in> set (pr_imports p)" "below_root f d"
    by (auto simp: find_path_by_imports_def find_Some_iff) (metis nth_mem set_by_length_desc)
  moreover from this obtain q where f: "f = d @ q" using below_root_append by blast
  ultimately have "found_below ?I (pr_protos p @ [q]) f" by (auto simp: found_below_def)
  moreover have "found_below ?I (pr_protos p @ [q]) x" if "x \<in> fs" for x
    using assms(1) that by (auto 4 4 simp: sources_placed_def found_below_def)
  moreover have "add_file FileTypeProto f p =
      p\<lparr>pr_imports := ?I, pr_protos := pr_protos p @ [q], pr_seenFiles := f # pr_seenFiles p\<rparr>"
    using False d f by (simp add: add_file_def)
  ultimately show ?thesis
    using assms(1) by (simp add: sources_placed_def antichain_def list_all_iff)
qed

text \<open>A path the parser takes as a proto file.\<close>

definition is_proto_source :: "source_lib \<Rightarrow> string \<Rightarrow> bool" where
  "is_proto_source L p = (case parse_source L p of Inr src \<Rightarrow> so_Type src = SourceProto | Inl _ \<Rightarrow> False)"

lemma is_proto_sourceD:
  "is_proto_source L p \<Longrightarrow> \<exists>src. parse_source L p = Inr src \<and> so_Type src = SourceProto \<and> so_Path src = p"
  by (auto simp: is_proto_source_def parse_source_def parse_proxy_source_def parse_grpc_source_def r_bind_def r_map_def
      empty_source_def split: sum.splits if_splits option.splits prod.splits)

text \<open>No directory is above a root there is by then.\<close>

fun roots_stay :: "dir_path list \<Rightarrow> dir_path list \<Rightarrow> bool" where
  "roots_stay roots [] = True"
| "roots_stay roots (d # ds) \<longleftrightarrow> list_all (\<lambda>r. \<not> strict_prefix d r) roots \<and> roots_stay (d # roots) ds"

lemma process_paths_placed:
  assumes "sources_placed (set roots) fs p" and "list_all (is_proto_source L) paths"
    and "list_all (\<lambda>f. f \<noteq> [] \<and> clean_path f) (map (abs_path L) paths)"
    and "roots_stay roots (map (butlast \<circ> abs_path L) paths)"
  shows "\<exists>q K. process_paths L rc paths p = Inr q \<and> sources_placed K (set (map (abs_path L) paths) \<union> fs) q"
  using assms
proof (induction paths arbitrary: roots fs p)
  case Nil
  then show ?case by auto
next
  case (Cons path paths)
  let ?f = "abs_path L path" and ?d = "butlast (abs_path L path)"
  obtain src where src: "parse_source L path = Inr src" "so_Type src = SourceProto" "so_Path src = path"
    using is_proto_sourceD Cons.prems(2) by auto
  have f: "?f \<noteq> []" "clean_path ?f" using Cons.prems(3) by auto
  then have clean: "clean_path ?d" by (auto simp: clean_path_def dest: in_set_butlastD)
  have "\<And>r. r \<in> set roots \<Longrightarrow> \<not> strict_prefix ?d r" using Cons.prems(4) by (auto simp: list_all_iff)
  note import = add_import_placed [OF Cons.prems(1) clean this]
  then obtain r where r: "r \<in> set (pr_imports (add_import ?d p))" "prefix r ?d" by auto
  have "?d @ [last ?f] = ?f" using f by simp
  with r(2) have "below_root ?f r" by (metis append_assoc append_eq_conv_conj below_root_def length_append
      length_greater_0_conv less_add_same_cancel1 not_Cons_self2 append_is_Nil_conv prefixE)
  from add_file_placed [OF import(1) r(1) this]
  have "sources_placed (set (?d # roots)) (insert ?f fs) (file_source L FileTypeProto src p)"
    by (simp add: file_source_def src(3) Let_def)
  from Cons.IH [OF this] Cons.prems show ?case
    by (simp add: src r_bind_def process_source_def Un_commute)
qed


definition sample_sources :: source_lib where
  "sample_sources = \<lparr>sl_URL = (\<lambda>s. if s = ''grpc+proxy://up:1'' then
       Some \<lparr>u_Scheme = ''grpc+proxy'', u_Host = ''up:1'', u_Path = '''', u_Query = []\<rparr>
     else if s = ''grpc+replay://up:2'' then
       Some \<lparr>u_Scheme = ''grpc+replay'', u_Host = ''up:2'', u_Path = '''', u_Query = []\<rparr>
     else None),
     sl_Duration = (\<lambda>_. None), sl_IsDir = (\<lambda>_. False), sl_Abs = (\<lambda>s. s), sl_Walk = (\<lambda>_. None),
     sl_Exists = (\<lambda>_. False)\<rparr>"


text \<open>A file in a directory above: its directory replaces the root the earlier file was named under, and the compiler is
  given a name it finds nowhere. In the other order both files are found.\<close>

lemma shorter_root_breaks:
  "r_map (\<lambda>p. (pr_imports p, pr_protos p)) (process_paths sample_sources (None :: unit remote_client)
       [''/api/v1/a.proto'', ''/api/b.proto''] (new_processor [])) = Inr ([[''api'']], [[''a.proto''], [''b.proto'']])"
  "r_map (\<lambda>p. (pr_imports p, pr_protos p)) (process_paths sample_sources (None :: unit remote_client)
       [''/api/b.proto'', ''/api/v1/a.proto''] (new_processor [])) = Inr ([[''api'']], [[''b.proto''], [''v1'', ''a.proto'']])"
  by code_simp+

text \<open>Two files of one name in two directories: the compiler is given the name twice, and finds one file.\<close>

lemma same_name_twice:
  "r_map (\<lambda>p. (pr_imports p, pr_protos p)) (process_paths sample_sources (None :: unit remote_client)
       [''/x/c.proto'', ''/y/c.proto''] (new_processor [])) = Inr ([[''x''], [''y'']], [[''c.proto''], [''c.proto'']])"
  by code_simp

section \<open>Arguments\<close>

definition bound_arguments :: "proxy_binding list \<Rightarrow> string list" where
  "bound_arguments bs = concat (map (\<lambda>(u, srcs). concat (map (\<lambda>s. [''-S'', s]) srcs) @ [u]) bs)"

definition plain_argument :: "string \<Rightarrow> bool" where
  "plain_argument a \<longleftrightarrow> a \<noteq> '''' \<and> inline_source_value a = None \<and> \<not> is_bare_source_flag a"

lemma bare_flag: "is_bare_source_flag ''-S''" "inline_source_value ''-S'' = None"
  by code_simp+

lemma scan_flags:
  assumes "list_all plain_argument srcs" and "\<And>b. before = Some b \<Longrightarrow> \<not> is_bare_source_flag b"
  shows "\<exists>before'. (\<forall>b. before' = Some b \<longrightarrow> \<not> is_bare_source_flag b) \<and>
    scan_loop isurl before (concat (map (\<lambda>s. [''-S'', s]) srcs) @ args) (bs, pending, saw)
      = scan_loop isurl before' args (bs, pending @ srcs, saw \<or> srcs \<noteq> [])"
  using assms
proof (induction srcs arbitrary: before pending saw)
  case Nil
  then show ?case by auto
next
  case (Cons s srcs)
  have "scan_loop isurl before (concat (map (\<lambda>s. [''-S'', s]) (s # srcs)) @ args) (bs, pending, saw)
      = scan_loop isurl (Some s) (concat (map (\<lambda>s. [''-S'', s]) srcs) @ args) (bs, pending @ [s], True)"
    using Cons.prems by (simp add: source_flag_value_def bare_flag next_arg_def plain_argument_def)
  with Cons.IH [of "Some s" "pending @ [s]" True] Cons.prems show ?case by (auto simp: plain_argument_def)
qed

lemma scan_bound:
  assumes "list_all (\<lambda>(u, srcs). isurl u \<and> plain_argument u \<and> list_all plain_argument srcs) bs"
    and "\<And>b. before = Some b \<Longrightarrow> \<not> is_bare_source_flag b"
  shows "\<exists>before'. (\<forall>b. before' = Some b \<longrightarrow> \<not> is_bare_source_flag b) \<and>
    scan_loop isurl before (bound_arguments bs @ args) (done_bs, [], saw)
      = scan_loop isurl before' args (done_bs @ bs, [], saw \<or> list_ex (\<lambda>(_, srcs). srcs \<noteq> []) bs)"
  using assms
proof (induction bs arbitrary: before done_bs saw)
  case Nil
  then show ?case by (auto simp: bound_arguments_def)
next
  case (Cons b bs)
  obtain u srcs where b: "b = (u, srcs)" by (cases b)
  have u: "isurl u" "plain_argument u" and srcs: "list_all plain_argument srcs" using Cons.prems(1) b by auto
  obtain before' where before': "\<And>b. before' = Some b \<Longrightarrow> \<not> is_bare_source_flag b"
    "scan_loop isurl before (bound_arguments (b # bs) @ args) (done_bs, [], saw)
      = scan_loop isurl before' (u # bound_arguments bs @ args) (done_bs, srcs, saw \<or> srcs \<noteq> [])"
    using scan_flags [of srcs before isurl "u # bound_arguments bs @ args" done_bs "[]" saw] srcs Cons.prems(2)
    by (auto simp: bound_arguments_def b)
  have "source_flag_value before' u (next_arg (bound_arguments bs @ args)) = None"
    using u before'(1) by (auto simp: source_flag_value_def plain_argument_def split: option.splits)
  then have "scan_loop isurl before (bound_arguments (b # bs) @ args) (done_bs, [], saw)
      = scan_loop isurl (Some u) (bound_arguments bs @ args) (done_bs @ [b], [], saw \<or> srcs \<noteq> [])"
    unfolding before'(2) using u by (simp add: b)
  with Cons.IH [of "Some u" "done_bs @ [b]" "saw \<or> srcs \<noteq> []"] Cons.prems(1) u show ?case
    by (auto simp: b plain_argument_def)
qed

text \<open>C36. The bindings of sources to upstreams are read back from a command line that lists, for every upstream, a flag
  per source and then the upstream; the sources after the last upstream are left over.\<close>

theorem bindings_read_back:
  assumes "list_all (\<lambda>(u, srcs). isurl u \<and> plain_argument u \<and> list_all plain_argument srcs) bs"
    and "list_all plain_argument trailing"
  shows "scan_bindings isurl (bound_arguments bs @ concat (map (\<lambda>s. [''-S'', s]) trailing))
     = (bs, trailing, list_ex (\<lambda>(_, srcs). srcs \<noteq> []) bs \<or> trailing \<noteq> [])"
proof -
  let ?args = "concat (map (\<lambda>s. [''-S'', s]) trailing)"
  obtain before where before: "\<And>b. before = Some b \<Longrightarrow> \<not> is_bare_source_flag b"
    "scan_bindings isurl (bound_arguments bs @ ?args)
      = scan_loop isurl before ?args (bs, [], list_ex (\<lambda>(_, srcs). srcs \<noteq> []) bs)"
    using scan_bound [of isurl bs None ?args "[]" False] assms(1) by (auto simp: scan_bindings_def)
  show ?thesis
    using scan_flags [of trailing before isurl "[]" bs "[]" "list_ex (\<lambda>(_, srcs). srcs \<noteq> []) bs"] assms(2) before(1)
    by (auto simp: before(2))
qed

theorem bindings_read_back_witness:
  "scan_bindings (is_proxy_url sample_sources)
       (bound_arguments [(''grpc+proxy://up:1'', [''a.proto'', ''b.proto'']), (''grpc+replay://up:2'', [])]
        @ concat (map (\<lambda>s. [''-S'', s]) [''c.proto'']))
     = ([(''grpc+proxy://up:1'', [''a.proto'', ''b.proto'']), (''grpc+replay://up:2'', [])], [''c.proto''], True)"
proof -
  have "list_all (\<lambda>(u, srcs). is_proxy_url sample_sources u \<and> plain_argument u \<and> list_all plain_argument srcs)
      [(''grpc+proxy://up:1'', [''a.proto'', ''b.proto'']), (''grpc+replay://up:2'', [])]"
    "list_all plain_argument [''c.proto'']"
    by code_simp+
  from bindings_read_back [OF this] show ?thesis by simp
qed

text \<open>What is left over is lost once an upstream was seen.\<close>

lemma trailing_sources_dropped:
  "parse_arguments_with_bindings (is_proxy_url sample_sources) [''grpc+proxy://up:1'']
       [''grpc+proxy://up:1'', ''-S'', ''c.proto''] [] [''c.proto'']
     = \<lparr>ar_protoPath = [], ar_imports = [], ar_sources = [], ar_proxyBindings = Some [(''grpc+proxy://up:1'', [])]\<rparr>"
  by code_simp

lemma empty_flag_value: "inline_source_value ''-S='' = Some ''=''"
  by code_simp

section \<open>Registration in any order\<close>

text \<open>What is documented of the registry of the protobuf library: a descriptor is built when its imports are known, and
  its registration makes its name known and forgets none.\<close>

definition registry_laws ::
  "('r, 'f) file_lib \<Rightarrow> ('f \<Rightarrow> string) \<Rightarrow> ('f \<Rightarrow> string list) \<Rightarrow> ('r \<Rightarrow> string \<Rightarrow> bool) \<Rightarrow> bool" where
  "registry_laws F name deps known \<longleftrightarrow>
     (\<forall>reg fd. fl_Registered F reg fd = known reg (name fd)) \<and>
     (\<forall>reg fd. fl_New F reg fd = None \<longleftrightarrow> list_all (known reg) (deps fd)) \<and>
     (\<forall>reg fd. \<exists>reg'. fl_Register F reg fd = Registered reg' \<and> (\<forall>n. known reg' n \<longleftrightarrow> n = name fd \<or> known reg n))"

text \<open>Every import of a file is known or the name of a file of lower level: no import is missing or circular.\<close>

definition imports_ranked ::
  "('f \<Rightarrow> string) \<Rightarrow> ('f \<Rightarrow> string list) \<Rightarrow> (string \<Rightarrow> bool) \<Rightarrow> (string \<Rightarrow> nat) \<Rightarrow> 'f list \<Rightarrow> bool" where
  "imports_ranked name deps known lvl fds \<longleftrightarrow>
     list_all (\<lambda>fd. list_all (\<lambda>d. known d \<or> list_ex (\<lambda>g. name g = d \<and> lvl d < lvl (name fd)) fds) (deps fd)) fds"

lemma register_pass_run:
  assumes "registry_laws F name deps known"
    and "register_pass F fds (reg, later, progress, err) = (reg', later', progress', err')"
  shows "(\<forall>n. known reg n \<longrightarrow> known reg' n) \<and> set later \<subseteq> set later' \<and> set later' \<subseteq> set later \<union> set fds \<and>
    (\<forall>fd \<in> set fds. known reg' (name fd) \<or> fd \<in> set later') \<and>
    (progress \<longrightarrow> progress') \<and> (\<forall>fd \<in> set fds. list_all (known reg) (deps fd) \<longrightarrow> progress' \<and> known reg' (name fd)) \<and>
    (\<forall>n. known reg' n \<longrightarrow> known reg n \<or> n \<in> name ` set fds)"
  using assms
proof (induction F fds "(reg, later, progress, err)" arbitrary: reg later progress err rule: register_pass.induct)
  case (1 F)
  then show ?case by auto
next
  case (2 F fd fds reg later progress err)
  note laws = "2.prems"(1) and run = "2.prems"(2)
  show ?case
  proof (cases "fl_Registered F reg fd")
    case True
    then have "known reg (name fd)" using laws by (auto simp: registry_laws_def)
    with 2(1) [OF True laws] run True show ?thesis by auto
  next
    case False
    show ?thesis
    proof (cases "fl_New F reg fd")
      case (Some e)
      have "fl_New F reg fd = None \<longleftrightarrow> list_all (known reg) (deps fd)"
        using laws unfolding registry_laws_def by blast
      with Some have "\<not> list_all (known reg) (deps fd)" by simp
      with 2(5) [OF False Some laws] run False Some show ?thesis by auto
    next
      case None
      obtain r where r: "fl_Register F reg fd = Registered r" "\<And>n. known r n \<longleftrightarrow> n = name fd \<or> known reg n"
        using laws unfolding registry_laws_def by blast
      have mono: "list_all (known reg) ds \<Longrightarrow> list_all (known r) ds" for ds using r(2) by (auto simp: list_all_iff)
      have eq: "register_pass F fds (r, later, True, err) = (reg', later', progress', err')"
        using run False None r(1) by simp
      note ih = 2(2) [OF False None r(1) laws eq]
      have "known reg' (name fd)" using ih r(2) by blast
      moreover have "\<forall>n. known reg n \<longrightarrow> known reg' n" using ih r(2) by blast
      moreover have "\<forall>n. known reg' n \<longrightarrow> known reg n \<or> n \<in> name ` set (fd # fds)"
      proof (intro allI impI)
        fix n assume "known reg' n"
        with ih have "known r n \<or> n \<in> name ` set fds" by blast
        then show "known reg n \<or> n \<in> name ` set (fd # fds)" using r(2) by auto
      qed
      moreover have "progress'" using ih by simp
      moreover have "\<forall>g \<in> set fds. list_all (known reg) (deps g) \<longrightarrow> known reg' (name g)" using ih mono by blast
      ultimately show ?thesis using ih by simp blast
    qed
  qed
qed

lemma ranked_progress:
  assumes "imports_ranked name deps known lvl fds" and "fds \<noteq> []"
  shows "\<exists>fd \<in> set fds. list_all known (deps fd)"
proof -
  obtain fd where fd: "fd \<in> set fds" "\<And>g. g \<in> set fds \<Longrightarrow> lvl (name fd) \<le> lvl (name g)"
    using assms(2) by (meson arg_min_if_finite(1) arg_min_least finite_set set_empty)
  then have "list_all known (deps fd)"
    using assms(1) by (fastforce simp: imports_ranked_def list_all_iff list_ex_iff)
  with fd(1) show ?thesis by blast
qed


text \<open>A registry that holds the files it was given.\<close>

definition sample_files :: "((string \<times> string list) list, string \<times> string list) file_lib" where
  "sample_files = \<lparr>fl_Registered = (\<lambda>reg fd. fst fd \<in> fst ` set reg),
     fl_New = (\<lambda>reg fd. if list_all (\<lambda>d. d \<in> fst ` set reg) (snd fd) then None else Some ''not found''),
     fl_Register = (\<lambda>reg fd. Registered (fd # reg))\<rparr>"

lemma sample_files_laws: "registry_laws sample_files fst snd (\<lambda>reg n. n \<in> fst ` set reg)"
  by (auto simp: registry_laws_def sample_files_def)


end
