(* ===== verification/Routes_Claims.thy ===== *)
theory Routes_Claims
  imports Sources_Claims
begin

text \<open>
  Which upstream serves a method: the first one that offers its service, whatever the order in which the maps of
  services are walked, over the command line and over bindings.
\<close>

section \<open>Names of services and methods\<close>

definition slash_free :: "string \<Rightarrow> bool" where
  "slash_free s \<longleftrightarrow> CHR ''/'' \<notin> set s"

lemma method_path_inj:
  "slash_free s \<Longrightarrow> slash_free s' \<Longrightarrow> method_path s n = method_path s' n' \<longleftrightarrow> s = s' \<and> n = n'"
proof (induction s arbitrary: s')
  case Nil
  then show ?case by (cases s') (auto simp: method_path_def slash_free_def)
next
  case (Cons c s)
  then show ?case by (cases s') (auto simp: method_path_def slash_free_def)
qed

definition named_services :: "service_methods \<Rightarrow> bool" where
  "named_services sm \<longleftrightarrow> distinct (map fst sm) \<and>
     (\<forall>(s, ms) \<in> set sm. slash_free s \<and> (\<forall>m \<in> set ms. \<exists>n. m = method_path s n))"

definition file_named :: "file_proto \<Rightarrow> bool" where
  "file_named f \<longleftrightarrow> list_all (\<lambda>s. slash_free (full_service_name f s)) (fp_Services f)"

lemma append_methods_keys: "fst ` set (append_methods s ms sm) = insert s (fst ` set sm)"
  by (induction s ms sm rule: append_methods.induct) auto

lemma append_methods_named:
  "named_services sm \<Longrightarrow> slash_free s \<Longrightarrow> (\<And>m. m \<in> set ms \<Longrightarrow> \<exists>n. m = method_path s n) \<Longrightarrow>
     named_services (append_methods s ms sm)"
proof (induction s ms sm rule: append_methods.induct)
  case (1 s ms)
  then show ?case by (simp add: named_services_def)
next
  case (2 s ms s' ms' rest)
  have rest: "named_services rest" using 2(2) by (auto simp: named_services_def)
  show ?case
  proof (cases "s = s'")
    case True
    with 2(2,4) show ?thesis by (auto simp: named_services_def)
  next
    case False
    with 2(1) [OF False rest 2(3,4)] 2(2) append_methods_keys [of s ms rest] show ?thesis
      by (auto simp: named_services_def)
  qed
qed

lemma fold_invariant: "P x \<Longrightarrow> (\<And>y a. a \<in> set as \<Longrightarrow> P y \<Longrightarrow> P (f a y)) \<Longrightarrow> P (fold f as x)"
  by (induction as arbitrary: x) auto

lemma collect_named: "list_all file_named fds \<Longrightarrow> named_services (collect_service_methods fds)"
  unfolding collect_service_methods_def
proof (rule fold_invariant [where P = named_services])
  show "named_services []" by (simp add: named_services_def)
  fix sm f
  assume "list_all file_named fds" and "f \<in> set fds" and sm: "named_services sm"
  then have f: "file_named f" by (simp add: list_all_iff)
  show "named_services (collect_file f sm)"
    unfolding collect_file_def
    by (rule fold_invariant [where P = named_services, OF sm])
      (use f in \<open>auto intro!: append_methods_named simp: file_named_def list_all_iff\<close>)
qed

lemma collect_All_named: "list_all (list_all file_named) sets \<Longrightarrow> named_services (collect_service_methods_All sets)"
  unfolding collect_service_methods_All_def
proof (rule fold_invariant [where P = named_services])
  show "named_services []" by (simp add: named_services_def)
  fix sm fds
  assume "list_all (list_all file_named) sets" and "fds \<in> set sets" and sm: "named_services sm"
  then have named: "named_services (collect_service_methods fds)" by (simp add: list_all_iff collect_named)
  show "named_services (fold (\<lambda>(s, ms). append_methods s ms) (collect_service_methods fds) sm)"
    by (rule fold_invariant [where P = named_services, OF sm])
      (use named in \<open>auto intro!: append_methods_named simp: named_services_def [of "collect_service_methods fds"]\<close>)
qed

section \<open>The first upstream that offers a service\<close>

fun first_offer :: "(route \<times> service_methods) list \<Rightarrow> string \<Rightarrow> (route \<times> string list) option" where
  "first_offer [] s = None"
| "first_offer ((r, sm) # rest) s = (case map_of sm s of Some ms \<Rightarrow> Some (r, ms) | None \<Rightarrow> first_offer rest s)"

definition offered_route :: "(route \<times> service_methods) list \<Rightarrow> string \<Rightarrow> string \<Rightarrow> route option" where
  "offered_route offers s m =
     (case first_offer offers s of None \<Rightarrow> None | Some (r, ms) \<Rightarrow> if method_path s m \<in> set ms then Some r else None)"

lemma first_offer_append:
  "first_offer (b @ [(r, sm)]) s
     = (case first_offer b s of Some x \<Rightarrow> Some x | None \<Rightarrow> map_option (Pair r) (map_of sm s))"
  by (induction b s rule: first_offer.induct) (auto split: option.splits)

text \<open>The registry serves exactly what was offered.\<close>

definition serves :: "registry \<Rightarrow> (route \<times> service_methods) list \<Rightarrow> bool" where
  "serves g offers \<longleftrightarrow>
     (\<forall>s. s \<in> set (rg_assigned g) \<longleftrightarrow> first_offer offers s \<noteq> None) \<and>
     (\<forall>s n. slash_free s \<longrightarrow> map_of (rg_index g) (method_path s n) = offered_route offers s n)"

lemma index_methods:
  "map_of (fold (index_method r) ms idx) m
     = (case map_of idx m of Some x \<Rightarrow> Some x | None \<Rightarrow> if m \<in> set ms then Some r else None)"
  by (induction ms arbitrary: idx) (auto simp: index_method_def split: option.splits)

lemma bind_service_serves:
  assumes "serves g (b @ [(r, sm)])" and "s \<notin> fst ` set sm" and "slash_free s"
    and "\<And>m. m \<in> set ms \<Longrightarrow> \<exists>n. m = method_path s n"
  shows "serves (bind_service r (s, ms) g) (b @ [(r, sm @ [(s, ms)])])"
proof -
  have none: "map_of sm s = None" using assms(2) by (simp add: map_of_eq_None_iff)
  then have new: "map_of (sm @ [(s, ms)]) t = (if t = s then Some ms else map_of sm t)" for t
    by (auto simp: map_add_def split: option.splits)
  have offer: "first_offer (b @ [(r, sm @ [(s, ms)])]) t
      = (if t = s \<and> first_offer b s = None then Some (r, ms) else first_offer (b @ [(r, sm)]) t)" for t
    using none by (simp only: first_offer_append new) (auto split: option.splits)
  have other: "method_path t n \<notin> set ms" if "slash_free t" "t \<noteq> s" for t n
    using that assms(3,4) method_path_inj by blast
  show ?thesis
  proof (cases "first_offer b s")
    case None
    then have old: "first_offer (b @ [(r, sm)]) s = None" using none by (simp add: first_offer_append)
    then have fresh: "s \<notin> set (rg_assigned g)" using assms(1) by (simp add: serves_def)
    have "map_of (rg_index (bind_service r (s, ms) g)) (method_path t n)
        = offered_route (b @ [(r, sm @ [(s, ms)])]) t n" if "slash_free t" for t n
    proof -
      have "map_of (rg_index g) (method_path t n) = offered_route (b @ [(r, sm)]) t n"
        using assms(1) that by (simp add: serves_def)
      then show ?thesis
        using fresh old None other [OF that]
        by (cases "t = s") (auto simp: bind_service_def index_methods offered_route_def offer split: option.splits)
    qed
    with fresh None assms(1) show ?thesis by (auto simp: serves_def bind_service_def offer)
  next
    case (Some x)
    then have "s \<in> set (rg_assigned g)" using assms(1) by (simp add: serves_def first_offer_append)
    then show ?thesis
      using assms(1) Some by (simp add: serves_def bind_service_def offered_route_def offer)
  qed
qed

lemma bind_services_serves:
  assumes "serves g (b @ [(r, sm)])" and "named_services (sm @ sm')"
  shows "serves (bind_services r sm' g) (b @ [(r, sm @ sm')])"
  using assms
proof (induction sm' arbitrary: g sm)
  case Nil
  then show ?case by (simp add: bind_services_def)
next
  case (Cons x sm')
  obtain s ms where x: "x = (s, ms)" by (cases x)
  have "s \<notin> fst ` set sm" "slash_free s" "\<And>m. m \<in> set ms \<Longrightarrow> \<exists>n. m = method_path s n"
    using Cons.prems(2) by (auto simp: named_services_def x)
  note step = bind_service_serves [OF Cons.prems(1) this]
  have "named_services ((sm @ [(s, ms)]) @ sm')" using Cons.prems(2) by (simp add: x)
  from Cons.IH [OF step this] show ?case by (simp add: bind_services_def x)
qed

lemma serves_cong: "serves g (b @ [(r, sm)]) \<Longrightarrow> map_of sm = map_of sm' \<Longrightarrow> serves g (b @ [(r, sm')])"
proof -
  assume "map_of sm = map_of sm'"
  then have "first_offer (b @ [(r, sm)]) s = first_offer (b @ [(r, sm')]) s" for s
    by (simp only: first_offer_append)
  then show "serves g (b @ [(r, sm)]) \<Longrightarrow> serves g (b @ [(r, sm')])" by (simp add: serves_def offered_route_def)
qed

definition order_ok :: "route_lib \<Rightarrow> bool" where
  "order_ok R \<longleftrightarrow> (\<forall>k sm. mset (rl_Order R k sm) = mset sm)"

lemma add_route_serves:
  assumes "serves g b" and "named_services sm" and "order_ok R"
  shows "serves (add_route R (r, fds, sm) g) (b @ [(r, sm)])"
proof -
  let ?sm = "rl_Order R (length (rg_routes g)) sm"
  have "mset ?sm = mset sm" using assms(3) by (simp add: order_ok_def)
  then have set: "set ?sm = set sm" and keys: "distinct (map fst ?sm) \<longleftrightarrow> distinct (map fst sm)"
    by (metis set_mset_mset, metis mset_map mset_eq_imp_distinct_iff)
  have named: "named_services ?sm" using assms(2) by (simp add: named_services_def set keys)
  have "map_of ?sm = map_of sm"
    using assms(2) by (intro map_of_inject_set [THEN iffD2]) (simp_all add: named_services_def set keys)
  moreover have "first_offer (b @ [(r, [])]) s = first_offer b s" for s
    by (simp add: first_offer_append split: option.splits)
  then have "serves g (b @ [(r, [])])" using assms(1) by (simp add: serves_def offered_route_def)
  with bind_services_serves [of g b r "[]" ?sm] named have "serves (bind_services r ?sm g) (b @ [(r, ?sm)])" by simp
  ultimately have "serves (bind_services r ?sm g) (b @ [(r, sm)])" by (blast intro: serves_cong)
  then show ?thesis by (simp add: add_route_def Let_def serves_def)
qed

definition upstream_offer :: "route_lib \<Rightarrow> service_methods \<Rightarrow> source \<Rightarrow> route \<times> service_methods" where
  "upstream_offer R local_services src =
     (\<lparr>rt_Source = src, rt_Mode = map_mode (so_ProxyMode src)\<rparr>,
      case resolve_service_methods R src local_services of Inr (_, sm) \<Rightarrow> sm | Inl _ \<Rightarrow> [])"

definition fetched_named :: "route_lib \<Rightarrow> bool" where
  "fetched_named R \<longleftrightarrow>
     (\<forall>fetch src fds. rl_Client R = Some fetch \<longrightarrow> fetch src = Inr fds \<longrightarrow> list_all file_named fds)"

lemma build_route_offer:
  assumes "build_route R src local_services = Inr built" and "named_services local_services" and "fetched_named R"
  shows "\<exists>fds. built = (fst (upstream_offer R local_services src), fds, snd (upstream_offer R local_services src))"
    and "named_services (snd (upstream_offer R local_services src))"
proof -
  obtain fds sm where sm: "resolve_service_methods R src local_services = Inr (fds, sm)"
    using assms(1) by (auto simp: build_route_def r_bind_def split: sum.splits)
  then show "\<exists>fds. built = (fst (upstream_offer R local_services src), fds, snd (upstream_offer R local_services src))"
    using assms(1) by (auto simp: build_route_def r_bind_def upstream_offer_def split: option.splits)
  have "named_services sm"
    using sm assms(2,3) by (auto simp: resolve_service_methods_def fetched_named_def collect_named
        split: if_splits option.splits sum.splits)
  with sm show "named_services (snd (upstream_offer R local_services src))" by (simp add: upstream_offer_def)
qed

lemma built_route_serves:
  assumes "build_route R src local_services = Inr built" and "named_services local_services" and "fetched_named R"
    and "order_ok R" and "serves g offers"
  shows "serves (add_route R built g) (offers @ [upstream_offer R local_services src])"
  using build_route_offer [OF assms(1-3)] add_route_serves [OF assms(5) _ assms(4)] by (metis prod.collapse)

lemma route_sources_serves:
  assumes "named_services local_services" and "fetched_named R" and "order_ok R"
  shows "serves g offers \<Longrightarrow> route_sources R local_services sources g = Inr g' \<Longrightarrow>
    serves g' (offers @ map (upstream_offer R local_services) sources)"
proof (induction sources arbitrary: g offers)
  case Nil
  then show ?case by simp
next
  case (Cons src sources)
  obtain built where built: "build_route R src local_services = Inr built"
    "route_sources R local_services sources (add_route R built g) = Inr g'"
    using Cons.prems(2) by (auto simp: r_bind_def split: sum.splits)
  from Cons.IH [OF built_route_serves [OF built(1) assms Cons.prems(1)] built(2)] show ?case by simp
qed

lemma empty_registry_serves: "serves empty_registry []"
  by (simp add: serves_def empty_registry_def offered_route_def)

text \<open>C33. A method goes to the first upstream that offers its service, in the order of the command line and whatever the
  order in which the maps of services are walked; when that upstream does not have the method, it has no route, even
  if a later upstream has it. Descriptors on the command line count only when there is one upstream.\<close>

theorem first_upstream_serves:
  assumes "new_registry L R paths descriptors = Inr g" and "parse_proxy_sources L paths = Inr sources"
    and "list_all (list_all file_named) descriptors" and "fetched_named R" and "order_ok R" and "slash_free s"
  shows "route_by_method (Some g) (method_path s n)
    = offered_route (map (upstream_offer R (if length sources > 1 then [] else collect_service_methods_All descriptors))
        sources) s n"
proof -
  let ?local = "if length sources > 1 then [] else collect_service_methods_All descriptors"
  have "named_services ?local" using collect_All_named [OF assms(3)] by (simp add: named_services_def)
  moreover have "route_sources R ?local sources empty_registry = Inr g"
    using assms(1,2) by (simp add: new_registry_def)
  ultimately have "serves g ([] @ map (upstream_offer R ?local) sources)"
    using route_sources_serves empty_registry_serves assms(4,5) by blast
  then show ?thesis using assms(6) by (simp add: serves_def route_by_method_def)
qed

definition sample_routes :: route_lib where
  "sample_routes = \<lparr>rl_Client = Some (\<lambda>src. Inr
       (if so_Address src = ''up:1''
        then [\<lparr>fp_Name = ''a.proto'', fp_Package = ''a'', fp_Services = [\<lparr>sp_Name = ''S'', sp_Methods = [''Get'']\<rparr>]\<rparr>]
        else [\<lparr>fp_Name = ''a.proto'', fp_Package = ''a'',
               fp_Services = [\<lparr>sp_Name = ''S'', sp_Methods = [''Get'', ''Put'']\<rparr>, \<lparr>sp_Name = ''T'', sp_Methods = [''Get'']\<rparr>]\<rparr>])),
     rl_Dial = (\<lambda>_. None), rl_Order = (\<lambda>_. rev)\<rparr>"

lemma sample_routes_ok: "fetched_named sample_routes" "order_ok sample_routes"
  by (auto simp: fetched_named_def order_ok_def sample_routes_def file_named_def slash_free_def full_service_name_def)

theorem first_upstream_serves_witness:
  "\<exists>g. new_registry sample_sources sample_routes [''grpc+proxy://up:1'', ''grpc+replay://up:2''] [] = Inr g \<and>
     map (\<lambda>(s, n). map_option (so_Address \<circ> rt_Source) (route_by_method (Some g) (method_path s n)))
       [(''a.S'', ''Get''), (''a.S'', ''Put''), (''a.T'', ''Get'')] = [Some ''up:1'', None, Some ''up:2'']"
proof -
  let ?paths = "[''grpc+proxy://up:1'', ''grpc+replay://up:2'']"
  let ?srcs = "case parse_proxy_sources sample_sources ?paths of Inr srcs \<Rightarrow> srcs | Inl _ \<Rightarrow> []"
  have "case new_registry sample_sources sample_routes ?paths [] of Inr _ \<Rightarrow> True | Inl _ \<Rightarrow> False" by code_simp
  then obtain g where g: "new_registry sample_sources sample_routes ?paths [] = Inr g" by (auto split: sum.splits)
  have srcs: "parse_proxy_sources sample_sources ?paths = Inr ?srcs" by code_simp
  have route: "route_by_method (Some g) (method_path s n)
      = offered_route (map (upstream_offer sample_routes (if length ?srcs > 1 then [] else collect_service_methods_All []))
          ?srcs) s n" if "slash_free s" for s n
    by (rule first_upstream_serves [OF g srcs _ sample_routes_ok that]) simp
  have "slash_free ''a.S''" "slash_free ''a.T''" by code_simp+
  note route [OF this(1), of "''Get''"] route [OF this(1), of "''Put''"] route [OF this(2), of "''Get''"]
  moreover have "map (\<lambda>(s, n). map_option (so_Address \<circ> rt_Source) (offered_route
        (map (upstream_offer sample_routes (if length ?srcs > 1 then [] else collect_service_methods_All [])) ?srcs) s n))
       [(''a.S'', ''Get''), (''a.S'', ''Put''), (''a.T'', ''Get'')] = [Some ''up:1'', None, Some ''up:2'']"
    by code_simp
  ultimately show ?thesis using g by simp
qed

text \<open>The same over bindings, each upstream with the descriptors built for it.\<close>

fun binding_offers :: "source_lib \<Rightarrow> route_lib \<Rightarrow> (string \<times> file_proto list list) list \<Rightarrow> (route \<times> service_methods) list" where
  "binding_offers L R [] = []"
| "binding_offers L R ((u, ds) # bs) =
     (case parse_source L u of
        Inr src \<Rightarrow>
          (if so_ProxyMode src = '''' then binding_offers L R bs
           else upstream_offer R (collect_service_methods_All ds) src # binding_offers L R bs)
      | Inl _ \<Rightarrow> [])"

lemma bound_upstream_serves:
  assumes "list_all (\<lambda>(_, ds). list_all (list_all file_named) ds) bs" and "fetched_named R" and "order_ok R"
  shows "serves g offers \<Longrightarrow> new_with_per_proxy_descriptors L R bs g = Inr g' \<Longrightarrow>
    serves g' (offers @ binding_offers L R bs)"
  using assms(1)
proof (induction bs arbitrary: g offers)
  case Nil
  then show ?case by simp
next
  case (Cons b bs)
  obtain u ds where b: "b = (u, ds)" by (cases b)
  have named: "named_services (collect_service_methods_All ds)" using Cons.prems(3) by (simp add: b collect_All_named)
  obtain h where h: "route_binding L R b g = Inr h" "new_with_per_proxy_descriptors L R bs h = Inr g'"
    using Cons.prems(2) by (auto simp: r_bind_def split: sum.splits)
  then obtain src where src: "parse_source L u = Inr src"
    by (auto simp: route_binding_def b split: sum.splits)
  have rest: "list_all (\<lambda>(_, ds). list_all (list_all file_named) ds) bs" using Cons.prems(3) by simp
  show ?case
  proof (cases "so_ProxyMode src = ''''")
    case True
    with h(1) src have "h = g" by (simp add: route_binding_def b)
    with Cons.IH [OF Cons.prems(1) _ rest] h(2) True src show ?thesis by (simp add: b)
  next
    case False
    with h(1) src obtain built where built: "build_route R src (collect_service_methods_All ds) = Inr built"
      "h = add_route R built (g\<lparr>rg_files := rg_files g @ ds\<rparr>)"
      by (auto simp: route_binding_def b r_map_def split: sum.splits)
    have "serves (g\<lparr>rg_files := rg_files g @ ds\<rparr>) offers" using Cons.prems(1) by (simp add: serves_def)
    from built_route_serves [OF built(1) named assms(2,3) this]
    have "serves h (offers @ [upstream_offer R (collect_service_methods_All ds) src])" by (simp add: built(2))
    from Cons.IH [OF this h(2) rest] False src show ?thesis by (simp add: b)
  qed
qed

end
