(* ===== verification/Spec2Isabelle.thy ===== *)
theory Spec2Isabelle
  imports Search_Claims Store_Claims Match_Claims Bidi_Claims Listing Budgerigar_Claims History_Claims
    Session_GC Wire_Claims Mocker_Search Stub_Files Inspect Proxy_Relay Sdk_Verify Gateway_Claims
    Tools_Claims Routes_Claims
begin

text \<open>
  A verification development for GripMock, a mock server for gRPC.

  \<^bold>\<open>The program.\<close> A stub says which calls it answers (service, method, session, headers, message fields, how
  often) and what with. Stubs come from files (\<^verbatim>\<open>internal/infra/storage\<close>), over the HTTP API, from the effects
  of other stubs, and from captured calls; they live in the store (\<^verbatim>\<open>internal/infra/stuber/storage*.go\<close>). For
  a call the server (\<^verbatim>\<open>internal/app\<close>) builds a query, the searcher (\<^verbatim>\<open>stuber/search_*.go\<close>) finds and reserves
  the best stub, the output is rendered, delayed, sent and recorded in the history
  (\<^verbatim>\<open>internal/domain/history\<close>), and the effects are applied. A call without a stub may go to an upstream
  (proxy, replay and capture modes). Sessions separate tests from each other and are swept when they
  are no longer used. Gateways carry the same calls over Connect and gRPC-Web.

  \<^bold>\<open>Theories and code.\<close>
  \<^item> \<open>GM_Prelude\<close>, \<open>Go_Strings\<close>, \<open>Go_Value\<close>, \<open>Go_Results\<close>: maps as association lists without repeated
    keys, Go strings as byte lists, dynamic values, results with errors.
  \<^item> \<open>Stub_Model\<close>, \<open>Key_Names\<close>, \<open>Path_Match\<close>: \<^verbatim>\<open>stub.go\<close>, \<^verbatim>\<open>query.go\<close>, names of fields, glob patterns.
  \<^item> \<open>Deeply\<close>, \<open>Deeply_Rank\<close>, \<open>Deeply_Props\<close>: \<^verbatim>\<open>internal/infra/deeply\<close>, comparison of values and scores.
  \<^item> \<open>Matchers\<close>, \<open>Ranking\<close>, \<open>Match_Claims\<close>: \<^verbatim>\<open>matcher*.go\<close> and the order on matches.
  \<^item> \<open>Storage\<close>, \<open>Storage_Index\<close>, \<open>Storage_Invariant\<close>, \<open>Storage_Lookup\<close>, \<open>Store_Claims\<close>: the store with its
    indexes by ID, by service and method, by session and by literal; \<open>storage_ok\<close> says that the indexes
    hold exactly the stubs of the map, and every operation is refined by an update of that map.
  \<^item> \<open>Searcher\<close>, \<open>Searcher_Match\<close>, \<open>Searcher_Index\<close>, \<open>Searcher_Props\<close>, \<open>Search_Claims\<close>: a search is specified by
    \<open>best_match\<close> on the set of answerable stubs; the sequential, the parallel and the indexed
    implementation are related to it. \<open>Sample_Lib\<close> has the values the witnesses use.
  \<^item> \<open>Bidi\<close>, \<open>Bidi_Claims\<close>: bidirectional matching, a state machine over the messages.
  \<^item> \<open>Listing\<close>, \<open>Budgerigar\<close>, \<open>Budgerigar_Claims\<close>: \<^verbatim>\<open>list.go\<close>, the facade \<^verbatim>\<open>stuber.go\<close> and the health stubs.
  \<^item> \<open>Inspect\<close>: the report of why a stub was or was not chosen.
  \<^item> \<open>History\<close>, \<open>History_Claims\<close>, \<open>Session_GC\<close>: the record of calls; the session tracker and its sweep as a
    step relation in which requests run between any two steps of the sweep.
  \<^item> \<open>Wire_Base64\<close>, \<open>Wire_Frames\<close>, \<open>Wire_Text\<close>, \<open>Wire_Claims\<close>: the bytes of the gateways.
  \<^item> \<open>Templates\<close>, \<open>Mock_Types\<close>, \<open>Effects\<close>, \<open>Mocker\<close>, \<open>Mocker_Stream\<close>, \<open>Mocker_Bidi\<close>, \<open>Mocker_Claims\<close>,
    \<open>Mocker_Search\<close>: a mocked call of each of the four kinds on one state (\<open>mock_state\<close>: engine, history,
    sessions, clock, messages received and sent), and, composed with the searcher, from call to answer.
  \<^item> \<open>Proxy\<close>, \<open>Proxy_Stream\<close>, \<open>Proxy_Bidi\<close>, \<open>Proxy_Claims\<close>, \<open>Proxy_Relay\<close>: \<^verbatim>\<open>grpc_proxy_*.go\<close>, \<^verbatim>\<open>proxycapture\<close>; the
    two goroutines of a bidirectional call are a step relation over all interleavings.
  \<^item> \<open>Stub_Files\<close>: loading and reloading stub files.
  \<^item> \<open>Gateway\<close>, \<open>Gateway_Web\<close>, \<open>Gateway_Claims\<close>: \<^verbatim>\<open>connect_*.go\<close>, \<^verbatim>\<open>grpcweb_gateway.go\<close>, \<^verbatim>\<open>gateway_shared.go\<close>,
    requests and responses over Connect and gRPC-Web; what the gateways send is what the mocked call answers.
  \<^item> \<open>Rest\<close>, \<open>Tools\<close>, \<open>Tools_Claims\<close>: the handlers of the HTTP API (\<^verbatim>\<open>rest_stubs.go\<close>, \<^verbatim>\<open>rest_server.go\<close>,
    \<^verbatim>\<open>rest_dashboard.go\<close>) and of the agent tools (\<^verbatim>\<open>rest_mcp*.go\<close>) on the same \<open>mock_state\<close>: requests that fail
    change nothing, every sequence of them keeps the engine's invariant, and the tool that mocks a call agrees
    with the call.
  \<^item> \<open>Sdk_Matcher\<close>, \<open>Sdk\<close>, \<open>Sdk_Claims\<close>, \<open>Sdk_Verify\<close>: the client library \<^verbatim>\<open>pkg/sdk\<close>, matchers, expectations,
    their registration on an embedded or remote server, and the verification of calls.
  \<^item> \<open>Sources\<close>, \<open>Sources_Claims\<close>, \<open>Routes\<close>, \<open>Routes_Claims\<close>: \<^verbatim>\<open>internal/domain/protoset\<close>, \<^verbatim>\<open>internal/domain/proto\<close> and
    \<^verbatim>\<open>proxyroutes\<close>: from the arguments of the command line to the files a server compiles and registers, and to
    the upstream that serves a method.

  \<^bold>\<open>Parameters.\<close> What is not code of the repository is an argument: \<open>golib\<close> (hash function, regular expressions,
  number parsing), \<open>go_runtime\<close> (the order in which maps are read and workers finish; \<open>runtime_ok\<close> says it is
  a permutation), \<open>mock_lib\<close> (the template engine, encoding by descriptors, JSON sizes, the transport's
  answers to sending), \<open>upstream\<close>, \<open>rest_lib\<close> and the gateway's record (decoding of bodies, encoding of messages),
  \<open>source_lib\<close>, \<open>file_lib\<close>, \<open>compile_lib\<close> and \<open>route_lib\<close> (URLs and files, the registry and the compiler of protobuf
  files, the remote client). Fresh UUIDs are a list in the state. Hypotheses that recur:
  \<open>hash_separates\<close> (the 64-bit hash does not collide on the names in use), \<open>priority_ok\<close> (priorities whose
  difference fits in 64 bits), a compressor that has a decompressor. Scores are exact rationals where
  the code has float64, so ties through rounding are not modelled. The text of wrapped errors is
  modelled up to what the library prefixes to it.

  \<^bold>\<open>Termination.\<close> All functions are total; no fuel is used. The registration of descriptor files repeats
  passes while one makes progress, and ends because the files that are left get fewer. Loops over channels and timers are step relations
  (\<open>gc_move\<close>, \<open>bidi_step\<close>), about which the properties speak for all reachable states.

  \<^bold>\<open>Concurrency.\<close> An operation that the code runs under one lock is one function. Where the code works without
  a lock between two reads, the steps are separate: the sweep, the bidirectional proxy, and the file events
  of \<open>watch_step\<close>.

  \<^bold>\<open>Not modelled.\<close> Conversion between messages and values (reflection over descriptors), the tools and
  listings that read descriptors, the clients that fetch them, HTTP routing and the generated API, the
  functions available in templates, the dump of stubs to YAML, the start of a server by the client library,
  TLS, telemetry and configuration; the list of components gives the reason for each.
\<close>

end
